(* ===== verification/RG_Prelude.thy ===== *)
theory RG_Prelude
  imports Main "HOL-Library.Code_Target_Nat" "HOL-Library.Char_ord" "HOL-Library.List_Lexorder" "HOL-Library.AList"
begin

text \<open>
  Shared vocabulary of the development.

  A TypeScript function that may throw returns a value of the sum type
  \<open>'e + 'a\<close>: \<open>Inl e\<close> is the exception that leaves the function, \<open>Inr x\<close> its
  result.  Sequencing is \<open>bind_res\<close>, a guard \<open>if (c) throw e\<close> is \<open>guard_res\<close>.
  JavaScript strings are HOL strings whose characters are the code units below
  256.  The decimal printer and reader below are \<open>BigInt.prototype.toString\<close>,
  \<open>Number.prototype.toString\<close> on safe integers, \<open>BigInt(string)\<close>, \<open>padStart\<close>,
  \<open>padEnd\<close>, \<open>trim\<close> and the zero-stripping \<open>replace\<close> calls of the source.
\<close>

named_theorems res_simps \<open>how a successful result decomposes\<close>
named_theorems eval_simps \<open>definitions a concrete evaluation unfolds\<close>

subsection \<open>Results\<close>

definition bind_res :: "'e + 'a \<Rightarrow> ('a \<Rightarrow> 'e + 'b) \<Rightarrow> 'e + 'b" where
  "bind_res m f = (case m of Inl e \<Rightarrow> Inl e | Inr x \<Rightarrow> f x)"

definition guard_res :: "bool \<Rightarrow> 'e \<Rightarrow> 'e + unit" where
  "guard_res ok e = (if ok then Inr () else Inl e)"

definition map_err :: "('e \<Rightarrow> 'f) \<Rightarrow> 'e + 'a \<Rightarrow> 'f + 'a" where
  "map_err g m = (case m of Inl e \<Rightarrow> Inl (g e) | Inr x \<Rightarrow> Inr x)"

definition is_ok :: "'e + 'a \<Rightarrow> bool" where
  "is_ok m = (case m of Inl _ \<Rightarrow> False | Inr _ \<Rightarrow> True)"

definition of_option :: "'e \<Rightarrow> 'a option \<Rightarrow> 'e + 'a" where
  "of_option e x = (case x of None \<Rightarrow> Inl e | Some y \<Rightarrow> Inr y)"

lemma bind_res_simps [simp, eval_simps]:
  "bind_res (Inl e) f = Inl e"
  "bind_res (Inr x) f = f x"
  by (simp_all add: bind_res_def)

lemma guard_res_simps [simp, eval_simps]:
  "guard_res True e = Inr ()"
  "guard_res False e = Inl e"
  by (simp_all add: guard_res_def)

lemma map_err_simps [simp, eval_simps]:
  "map_err g (Inl e) = Inl (g e)"
  "map_err g (Inr x) = Inr x"
  by (simp_all add: map_err_def)

lemma is_ok_simps [simp, eval_simps]:
  "is_ok (Inl e) = False"
  "is_ok (Inr x) = True"
  by (simp_all add: is_ok_def)

lemma of_option_simps [simp, eval_simps]:
  "of_option e None = Inl e"
  "of_option e (Some x) = Inr x"
  by (simp_all add: of_option_def)

lemma bind_res_Inr_iff [res_simps]:
  "bind_res m f = Inr y \<longleftrightarrow> (\<exists>x. m = Inr x \<and> f x = Inr y)"
  by (cases m) auto

lemma guard_res_Inr_iff [res_simps]: "guard_res ok e = Inr u \<longleftrightarrow> ok"
  by (simp add: guard_res_def)

lemma guard_bind_Inr_iff [res_simps]:
  "bind_res (guard_res ok e) f = Inr y \<longleftrightarrow> ok \<and> f () = Inr y"
  by (simp add: guard_res_def)

lemma map_err_Inr_iff [res_simps]: "map_err g m = Inr y \<longleftrightarrow> m = Inr y"
  by (cases m) auto

lemma of_option_Inr_iff [res_simps]: "of_option e x = Inr y \<longleftrightarrow> x = Some y"
  by (cases x) auto

lemma if_Inl_Inr_iff [res_simps]:
  "(if c then Inl e else k) = Inr y \<longleftrightarrow> \<not> c \<and> k = Inr y"
  "(if c then k else Inl e) = Inr y \<longleftrightarrow> c \<and> k = Inr y"
  by auto

lemma is_ok_iff: "is_ok m \<longleftrightarrow> (\<exists>x. m = Inr x)"
  by (cases m) auto

lemma bind_res_assoc:
  "bind_res (bind_res m f) g = bind_res m (\<lambda>x. bind_res (f x) g)"
  by (cases m) auto

lemma bind_res_cong [fundef_cong]:
  "m = n \<Longrightarrow> (\<And>x. n = Inr x \<Longrightarrow> f x = g x) \<Longrightarrow> bind_res m f = bind_res n g"
  by (cases n) auto

primrec map_res :: "('a \<Rightarrow> 'e + 'b) \<Rightarrow> 'a list \<Rightarrow> 'e + 'b list" where
  "map_res f [] = Inr []"
| "map_res f (x # xs) =
     bind_res (f x) (\<lambda>y. bind_res (map_res f xs) (\<lambda>ys. Inr (y # ys)))"

primrec all_res :: "('a \<Rightarrow> 'e + unit) \<Rightarrow> 'a list \<Rightarrow> 'e + unit" where
  "all_res f [] = Inr ()"
| "all_res f (x # xs) = bind_res (f x) (\<lambda>_. all_res f xs)"

lemma all_res_Inr_iff: "all_res f xs = Inr u \<longleftrightarrow> (\<forall>x\<in>set xs. f x = Inr ())"
  by (induction xs) (auto simp: res_simps)

lemma map_res_Inr_length: "map_res f xs = Inr ys \<Longrightarrow> length ys = length xs"
  by (induction xs arbitrary: ys) (auto simp: res_simps)

lemma map_res_Inr_nth:
  "map_res f xs = Inr ys \<Longrightarrow> i < length xs \<Longrightarrow> f (xs ! i) = Inr (ys ! i)"
  by (induction xs arbitrary: ys i) (auto simp: res_simps nth_Cons split: nat.splits)

lemma map_res_pure: "(\<And>x. x \<in> set xs \<Longrightarrow> f x = Inr (g x)) \<Longrightarrow> map_res f xs = Inr (map g xs)"
  by (induction xs) auto

subsection \<open>Characters and decimal digits\<close>

definition is_digit :: "char \<Rightarrow> bool" where
  "is_digit c \<longleftrightarrow> 48 \<le> (of_char c :: nat) \<and> (of_char c :: nat) \<le> 57"

definition digit_val :: "char \<Rightarrow> nat" where
  "digit_val c = of_char c - 48"

definition digit_char :: "nat \<Rightarrow> char" where
  "digit_char d = ''0123456789'' ! d"

definition in_range :: "char \<Rightarrow> char \<Rightarrow> char \<Rightarrow> bool" where
  "in_range a b c \<longleftrightarrow> (of_char a :: nat) \<le> of_char c \<and> (of_char c :: nat) \<le> of_char b"

definition is_lower_hex :: "char \<Rightarrow> bool" where
  "is_lower_hex c \<longleftrightarrow> is_digit c \<or> in_range (CHR ''a'') (CHR ''f'') c"

lemmas char_eval = is_digit_def digit_val_def digit_char_def in_range_def is_lower_hex_def
declare char_eval [eval_simps]

lemma digit_char_cases:
  assumes "d < 10"
  shows "d = 0 \<or> d = 1 \<or> d = 2 \<or> d = 3 \<or> d = 4 \<or> d = 5 \<or> d = 6 \<or> d = 7 \<or> d = 8 \<or> d = (9::nat)"
  using assms by arith

lemma of_char_digit_char: "d < 10 \<Longrightarrow> (of_char (digit_char d) :: nat) = 48 + d"
  by (drule digit_char_cases) (auto simp: digit_char_def)

lemma is_digit_digit_char [simp]: "d < 10 \<Longrightarrow> is_digit (digit_char d)"
  by (simp add: is_digit_def of_char_digit_char)

lemma digit_val_digit_char [simp]: "d < 10 \<Longrightarrow> digit_val (digit_char d) = d"
  by (simp add: digit_val_def of_char_digit_char)

lemma digit_val_less [simp]: "is_digit c \<Longrightarrow> digit_val c < 10"
  by (auto simp: is_digit_def digit_val_def)

lemma of_char_nat_eq_iff [simp]: "(of_char c :: nat) = of_char d \<longleftrightarrow> c = d"
  by (metis char_of_char)

lemma digit_char_digit_val [simp]: "is_digit c \<Longrightarrow> digit_char (digit_val c) = c"
proof -
  assume d: "is_digit c"
  have "(of_char (digit_char (digit_val c)) :: nat) = of_char c"
    using d of_char_digit_char [OF digit_val_less [OF d]]
    by (simp add: is_digit_def digit_val_def)
  thus ?thesis by (simp only: of_char_nat_eq_iff)
qed

primrec digits_acc :: "nat \<Rightarrow> string \<Rightarrow> nat" where
  "digits_acc a [] = a"
| "digits_acc a (c # cs) = digits_acc (10 * a + digit_val c) cs"

definition digits_val :: "string \<Rightarrow> nat" where
  "digits_val s = digits_acc 0 s"

declare digits_val_def [eval_simps]

fun decimal :: "nat \<Rightarrow> string" where
  "decimal n = (if n < 10 then [digit_char n]
                else decimal (n div 10) @ [digit_char (n mod 10)])"

declare decimal.simps [simp del, eval_simps]

definition all_digits :: "string \<Rightarrow> bool" where
  "all_digits s \<longleftrightarrow> list_all is_digit s"

declare all_digits_def [eval_simps]

text \<open>The regular expression \<open>/^(0|[1-9]\d*)$/\<close> and its positive half.\<close>

definition canonical_pos :: "string \<Rightarrow> bool" where
  "canonical_pos s \<longleftrightarrow>
     (case s of [] \<Rightarrow> False | c # cs \<Rightarrow> is_digit c \<and> c \<noteq> CHR ''0'' \<and> all_digits cs)"

definition canonical_nat :: "string \<Rightarrow> bool" where
  "canonical_nat s \<longleftrightarrow> s = ''0'' \<or> canonical_pos s"

declare canonical_pos_def [eval_simps] canonical_nat_def [eval_simps]

lemma digits_acc_append: "digits_acc a (xs @ ys) = digits_acc (digits_acc a xs) ys"
  by (induction xs arbitrary: a) auto

lemma digits_acc_shift: "digits_acc a s = a * 10 ^ length s + digits_acc 0 s"
proof (induction s arbitrary: a)
  case (Cons c cs)
  show ?case
    using Cons [of "10 * a + digit_val c"] Cons [of "digit_val c"]
    by (simp add: algebra_simps)
qed simp

lemma digits_val_simps [simp]: "digits_val [] = 0"
  by (simp add: digits_val_def)

lemma digits_val_snoc: "digits_val (s @ [c]) = 10 * digits_val s + digit_val c"
  by (simp add: digits_val_def digits_acc_append)

lemma digits_val_append: "digits_val (s @ t) = digits_val s * 10 ^ length t + digits_val t"
  by (simp add: digits_val_def digits_acc_append digits_acc_shift [of "digits_acc 0 s"])

lemma digits_val_Cons: "digits_val (c # s) = digit_val c * 10 ^ length s + digits_val s"
  using digits_val_append [of "[c]" s] by (simp add: digits_val_def)

lemma digits_val_bound: "all_digits s \<Longrightarrow> digits_val s < 10 ^ length s"
proof (induction s)
  case (Cons c s)
  hence b: "digits_val s < 10 ^ length s" "is_digit c" by (auto simp: all_digits_def)
  hence "digit_val c \<le> 9" using digit_val_less [of c] by linarith
  hence "digit_val c * 10 ^ length s \<le> 9 * 10 ^ length s" by simp
  with b show ?case unfolding digits_val_Cons length_Cons power_Suc by linarith
qed simp

lemma all_digits_simps [simp]:
  "all_digits []"
  "all_digits (c # s) \<longleftrightarrow> is_digit c \<and> all_digits s"
  "all_digits (s @ t) \<longleftrightarrow> all_digits s \<and> all_digits t"
  by (simp_all add: all_digits_def)

lemma all_digits_decimal [simp]: "all_digits (decimal n)"
proof (induction n rule: decimal.induct)
  case (1 n)
  thus ?case by (subst decimal.simps) simp
qed

lemma digits_val_decimal [simp]: "digits_val (decimal n) = n"
proof (induction n rule: decimal.induct)
  case (1 n)
  thus ?case
    by (subst decimal.simps) (auto simp: digits_val_snoc, simp add: digits_val_def)
qed

lemma decimal_inj [simp]: "decimal m = decimal n \<longleftrightarrow> m = n"
  by (metis digits_val_decimal)

lemma decimal_not_Nil [simp]: "decimal n \<noteq> []"
  by (subst decimal.simps) simp

lemma decimal_canonical_pos: "0 < n \<Longrightarrow> canonical_pos (decimal n)"
proof (induction n rule: decimal.induct)
  case (1 n)
  show ?case
  proof (cases "n < 10")
    case True
    have "digit_char n \<noteq> CHR ''0''"
      using True 1 of_char_digit_char [OF True] by (metis add_cancel_right_right less_numeral_extra(3) of_char_digit_char [of 0] digit_char_def nth_Cons_0 zero_less_numeral)
    with True show ?thesis by (subst decimal.simps) (simp add: canonical_pos_def)
  next
    case False
    hence "canonical_pos (decimal (n div 10))" using 1 by simp
    with False show ?thesis
      by (subst decimal.simps) (auto simp: canonical_pos_def split: list.splits)
  qed
qed

lemma decimal_0 [simp]: "decimal 0 = ''0''"
  by (simp add: decimal.simps digit_char_def)

lemma canonical_nat_decimal [simp]: "canonical_nat (decimal n)"
  using decimal_canonical_pos [of n] by (cases "n = 0") (auto simp: canonical_nat_def)

lemma canonical_pos_digits: "canonical_pos s \<Longrightarrow> all_digits s"
  by (auto simp: canonical_pos_def split: list.splits)

lemma canonical_nat_digits: "canonical_nat s \<Longrightarrow> all_digits s"
  by (auto simp: canonical_nat_def canonical_pos_digits is_digit_def)

lemma canonical_pos_snoc:
  "s \<noteq> [] \<Longrightarrow> canonical_pos (s @ [c]) \<longleftrightarrow> canonical_pos s \<and> is_digit c"
  by (cases s) (auto simp: canonical_pos_def)

lemma canonical_pos_val: "canonical_pos s \<Longrightarrow> 0 < digits_val s"
proof (induction s rule: rev_induct)
  case (snoc c s)
  show ?case
  proof (cases "s = []")
    case True
    with snoc.prems have "is_digit c" "c \<noteq> CHR ''0''" by (auto simp: canonical_pos_def)
    hence "digit_val c \<noteq> 0"
      by (metis digit_char_digit_val digit_char_def nth_Cons_0)
    with True show ?thesis by (simp add: digits_val_def)
  next
    case False
    with snoc show ?thesis by (simp add: canonical_pos_snoc digits_val_snoc)
  qed
qed (simp add: canonical_pos_def)

lemma decimal_digits_val: "canonical_nat s \<Longrightarrow> decimal (digits_val s) = s"
proof (induction s rule: rev_induct)
  case (snoc c s)
  show ?case
  proof (cases "s = []")
    case True
    with snoc.prems have "is_digit c" by (auto simp: canonical_nat_def canonical_pos_def is_digit_def)
    with True show ?thesis by (simp add: digits_val_def decimal.simps [of "digit_val c"])
  next
    case False
    with snoc.prems have c: "canonical_pos s" "is_digit c"
      by (auto simp: canonical_nat_def canonical_pos_snoc)
    hence "0 < digits_val s" "digit_val c < 10" "decimal (digits_val s) = s"
      using canonical_pos_val snoc.IH by (auto simp: canonical_nat_def)
    with c show ?thesis by (subst decimal.simps) (simp add: digits_val_snoc)
  qed
qed (simp add: canonical_nat_def canonical_pos_def)

lemma canonical_nat_eq_iff:
  "canonical_nat s \<Longrightarrow> canonical_nat t \<Longrightarrow> s = t \<longleftrightarrow> digits_val s = digits_val t"
  by (metis decimal_digits_val)

lemma canonical_pos_iff: "canonical_pos s \<longleftrightarrow> canonical_nat s \<and> 0 < digits_val s"
proof -
  have "digits_val ''0'' = 0" by (simp add: digits_val_def digit_val_def)
  thus ?thesis using canonical_pos_val by (auto simp: canonical_nat_def)
qed

subsection \<open>Padding, trimming and stripping\<close>

definition padStart :: "nat \<Rightarrow> char \<Rightarrow> string \<Rightarrow> string" where
  "padStart k c s = replicate (k - length s) c @ s"

definition padEnd :: "nat \<Rightarrow> char \<Rightarrow> string \<Rightarrow> string" where
  "padEnd k c s = s @ replicate (k - length s) c"

text \<open>\<open>s.replace(/0+$/, "")\<close>.\<close>

definition strip_trailing_zeros :: "string \<Rightarrow> string" where
  "strip_trailing_zeros s = rev (dropWhile (\<lambda>c. c = CHR ''0'') (rev s))"

text \<open>\<open>s.replace(/^0+(?=\d)/, "")\<close>: leading zeros go as long as a digit follows.\<close>

fun strip_leading_zeros :: "string \<Rightarrow> string" where
  "strip_leading_zeros (c # d # cs) =
     (if c = CHR ''0'' \<and> is_digit d then strip_leading_zeros (d # cs) else c # d # cs)"
| "strip_leading_zeros s = s"

definition is_js_space :: "char \<Rightarrow> bool" where
  "is_js_space c \<longleftrightarrow>
     (9 \<le> (of_char c :: nat) \<and> (of_char c :: nat) \<le> 13) \<or> c = CHR '' '' \<or> (of_char c :: nat) = 160"

definition js_trim :: "string \<Rightarrow> string" where
  "js_trim s = rev (dropWhile is_js_space (rev (dropWhile is_js_space s)))"

declare padStart_def [eval_simps] padEnd_def [eval_simps] strip_trailing_zeros_def [eval_simps]
  is_js_space_def [eval_simps] js_trim_def [eval_simps]

lemma length_padStart: "length s \<le> k \<Longrightarrow> length (padStart k c s) = k"
  by (simp add: padStart_def)

lemma all_digits_padStart: "all_digits s \<Longrightarrow> all_digits (padStart k (CHR ''0'') s)"
  by (auto simp: padStart_def all_digits_def is_digit_def list_all_iff)

lemma digits_val_zeros [simp]: "digits_val (replicate k (CHR ''0'')) = 0"
  by (induction k) (simp_all add: digits_val_Cons digit_val_def)

lemma all_digits_zeros [simp]: "all_digits (replicate k (CHR ''0''))"
  by (auto simp: all_digits_def is_digit_def list_all_iff)

lemma all_digits_padEnd: "all_digits s \<Longrightarrow> all_digits (padEnd k (CHR ''0'') s)"
  by (simp add: padEnd_def)

lemma length_decimal: "n < 10 ^ Suc k \<Longrightarrow> length (decimal n) \<le> Suc k"
proof (induction k arbitrary: n)
  case (Suc k)
  show ?case
  proof (cases "n < 10")
    case False
    have "n div 10 < 10 ^ Suc k" using Suc.prems by (simp add: less_mult_imp_div_less)
    with Suc.IH False show ?thesis by (subst decimal.simps) simp
  qed (simp add: decimal.simps [of n])
qed (subst decimal.simps, simp)

lemma length_decimal_le_iff: "0 < k \<Longrightarrow> length (decimal n) \<le> k \<longleftrightarrow> n < 10 ^ k"
proof
  assume k: "0 < k"
  show "n < 10 ^ k \<Longrightarrow> length (decimal n) \<le> k" using length_decimal [of n "k - 1"] k by simp
  assume "length (decimal n) \<le> k"
  hence "(10::nat) ^ length (decimal n) \<le> 10 ^ k" by (simp add: power_increasing)
  thus "n < 10 ^ k"
    using digits_val_bound [of "decimal n", unfolded digits_val_decimal] by (simp add: less_le_trans)
qed

lemma digits_val_padStart [simp]: "digits_val (padStart k (CHR ''0'') s) = digits_val s"
  by (simp add: padStart_def digits_val_append)

lemma strip_trailing_zeros_eq:
  "\<exists>k. s = strip_trailing_zeros s @ replicate k (CHR ''0'')"
proof -
  let ?z = "\<lambda>c. c = CHR ''0''" and ?t = "takeWhile (\<lambda>c. c = CHR ''0'') (rev s)"
  have "?t = replicate (length ?t) (CHR ''0'')"
    by (rule replicate_eqI) (auto dest: set_takeWhileD)
  hence t: "rev ?t = replicate (length ?t) (CHR ''0'')"
    by (metis rev_replicate)
  have "s = rev (?t @ dropWhile ?z (rev s))" by simp
  also have "\<dots> = strip_trailing_zeros s @ rev ?t"
    by (simp only: rev_append strip_trailing_zeros_def)
  finally show ?thesis using t by auto
qed

lemma padEnd_strip: "length s = k \<Longrightarrow> padEnd k (CHR ''0'') (strip_trailing_zeros s) = s"
proof -
  assume k: "length s = k"
  obtain j where j: "s = strip_trailing_zeros s @ replicate j (CHR ''0'')"
    using strip_trailing_zeros_eq by blast
  hence "j = k - length (strip_trailing_zeros s)"
    using k by (metis add_diff_cancel_left' length_append length_replicate)
  thus ?thesis using j by (simp add: padEnd_def)
qed

lemma all_digits_strip: "all_digits s \<Longrightarrow> all_digits (strip_trailing_zeros s)"
  by (metis all_digits_simps(3) strip_trailing_zeros_eq)

lemma length_strip_trailing: "length (strip_trailing_zeros s) \<le> length s"
  by (simp add: strip_trailing_zeros_def) (metis length_dropWhile_le length_rev)

lemma strip_trailing_zeros_Nil: "strip_trailing_zeros s = [] \<Longrightarrow> digits_val s = 0"
  by (metis append_Nil digits_val_zeros strip_trailing_zeros_eq)

lemma strip_leading_all_digits:
  "all_digits s \<Longrightarrow> all_digits (strip_leading_zeros s)"
  by (induction s rule: strip_leading_zeros.induct) auto

lemma strip_leading_canonical:
  "all_digits s \<Longrightarrow> s \<noteq> [] \<Longrightarrow> canonical_nat (strip_leading_zeros s)"
  by (induction s rule: strip_leading_zeros.induct)
    (auto simp: canonical_nat_def canonical_pos_def)

lemma strip_leading_val:
  "digits_val (strip_leading_zeros s) = digits_val s"
  by (induction s rule: strip_leading_zeros.induct)
    (auto simp: digits_val_Cons digit_val_def)

lemma strip_leading_Nil [simp]: "strip_leading_zeros s = [] \<longleftrightarrow> s = []"
  by (induction s rule: strip_leading_zeros.induct) auto

lemma js_trim_id: "s \<noteq> [] \<Longrightarrow> \<not> is_js_space (hd s) \<Longrightarrow> \<not> is_js_space (last s) \<Longrightarrow> js_trim s = s"
proof -
  assume s: "s \<noteq> []" "\<not> is_js_space (hd s)" "\<not> is_js_space (last s)"
  have "dropWhile is_js_space s = s" using s by (cases s) auto
  moreover have "dropWhile is_js_space (rev s) = rev s"
    using s by (cases "rev s") (auto simp: hd_rev [symmetric])
  ultimately show ?thesis by (simp add: js_trim_def)
qed

subsection \<open>\<open>BigInt(string)\<close>\<close>

definition hex_val :: "char \<Rightarrow> nat option" where
  "hex_val c = (if is_digit c then Some (of_char c - 48)
     else if in_range (CHR ''a'') (CHR ''f'') c then Some (of_char c - 87)
     else if in_range (CHR ''A'') (CHR ''F'') c then Some (of_char c - 55) else None)"

primrec radix_acc :: "nat \<Rightarrow> nat \<Rightarrow> string \<Rightarrow> nat option" where
  "radix_acc b a [] = Some a"
| "radix_acc b a (c # cs) = (case hex_val c of None \<Rightarrow> None
     | Some d \<Rightarrow> if d < b then radix_acc b (b * a + d) cs else None)"

definition radix_val :: "nat \<Rightarrow> string \<Rightarrow> nat option" where
  "radix_val b s = (if s = [] then None else radix_acc b 0 s)"

definition js_bigint :: "string \<Rightarrow> int option" where
  "js_bigint s0 = (let s = js_trim s0 in
     if s = [] then Some 0
     else if all_digits s then Some (int (digits_val s))
     else if take 2 s = ''0x'' \<or> take 2 s = ''0X'' then map_option int (radix_val 16 (drop 2 s))
     else if take 2 s = ''0o'' \<or> take 2 s = ''0O'' then map_option int (radix_val 8 (drop 2 s))
     else if take 2 s = ''0b'' \<or> take 2 s = ''0B'' then map_option int (radix_val 2 (drop 2 s))
     else if hd s = CHR ''-'' \<and> tl s \<noteq> [] \<and> all_digits (tl s)
       then Some (- int (digits_val (tl s)))
     else if hd s = CHR ''+'' \<and> tl s \<noteq> [] \<and> all_digits (tl s)
       then Some (int (digits_val (tl s)))
     else None)"

declare hex_val_def [eval_simps] radix_val_def [eval_simps] js_bigint_def [eval_simps]

lemma digit_not_space: "is_digit c \<Longrightarrow> \<not> is_js_space c"
  by (auto simp: is_digit_def is_js_space_def)

lemma js_bigint_digits: "all_digits s \<Longrightarrow> s \<noteq> [] \<Longrightarrow> js_bigint s = Some (int (digits_val s))"
proof -
  assume d: "all_digits s" "s \<noteq> []"
  hence "is_digit (hd s)" "is_digit (last s)" by (auto simp: all_digits_def list_all_iff)
  hence "js_trim s = s" using d digit_not_space js_trim_id by blast
  with d show ?thesis by (simp add: js_bigint_def)
qed

lemma canonical_nat_not_Nil: "canonical_nat s \<Longrightarrow> s \<noteq> []"
  by (auto simp: canonical_nat_def canonical_pos_def)

lemma js_bigint_canonical: "canonical_nat s \<Longrightarrow> js_bigint s = Some (int (digits_val s))"
  by (simp add: canonical_nat_digits canonical_nat_not_Nil js_bigint_digits)

lemma js_bigint_decimal [simp]: "js_bigint (decimal n) = Some (int n)"
  by (simp add: js_bigint_canonical)

text \<open>\<open>String(n)\<close> of an integer: the sign, then the digits.\<close>

definition int_str :: "int \<Rightarrow> string" where
  "int_str i = (if i < 0 then CHR ''-'' # decimal (nat (- i)) else decimal (nat i))"

declare int_str_def [eval_simps]

lemma int_str_nonneg: "0 \<le> i \<Longrightarrow> int_str i = decimal (nat i)"
  by (simp add: int_str_def)

lemma dash_not_digit: "\<not> is_digit (CHR ''-'')"
  by (simp add: is_digit_def)

lemma decimal_not_dash: "decimal n \<noteq> CHR ''-'' # s"
proof
  assume "decimal n = CHR ''-'' # s"
  moreover have "all_digits (decimal n)" by simp
  ultimately show False by (simp add: dash_not_digit)
qed

lemma int_str_inj [simp]: "int_str i = int_str j \<longleftrightarrow> i = j"
proof -
  have n: "decimal n \<noteq> CHR ''-'' # decimal m" for n m by (rule decimal_not_dash)
  show ?thesis
    by (auto simp: int_str_def n n [symmetric] eq_commute [of "CHR ''-'' # _"]
        dest: decimal_inj [THEN iffD1])
qed

subsection \<open>Lists and safe integers\<close>

definition distinct_by :: "('a \<Rightarrow> 'b) \<Rightarrow> 'a list \<Rightarrow> bool" where
  "distinct_by f xs \<longleftrightarrow> distinct (map f xs)"

definition max_safe_integer :: int where
  "max_safe_integer = 9007199254740991"

declare max_safe_integer_def [eval_simps] distinct_by_def [eval_simps]

lemma some_eq_case: "(case x of None \<Rightarrow> a | Some y \<Rightarrow> f y) = (if x = None then a else f (the x))"
  by (cases x) auto

end
