(* ===== verification/Utc_Time.thy ===== *)
theory Utc_Time
  imports RG_Prelude
begin

text \<open>
  The UTC timestamp model, \<^verbatim>\<open>src/domain/time.ts\<close>, and the deadline arithmetic
  of \<^verbatim>\<open>src/v2/lifecycle/deadlines.ts\<close>.

  The part of the JavaScript \<open>Date\<close> object the two files use (\<open>Date.UTC\<close>,
  \<open>getUTCFullYear\<close> and the other UTC getters) is written out from the calendar
  rules of the language: \<open>day_from_year\<close> is the day number of January 1st, the
  year of a day is found by upward search, and the month by the cumulative month
  lengths.  The lemmas show that the calendar functions invert each other, that
  the parser accepts exactly the well-formed dates, that formatting inverts
  parsing, and that the comparison is a total preorder.
\<close>

subsection \<open>The calendar of the \<open>Date\<close> object\<close>

definition isLeapYear :: "int \<Rightarrow> bool" where
  "isLeapYear year \<longleftrightarrow> (year mod 4 = 0 \<and> year mod 100 \<noteq> 0) \<or> year mod 400 = 0"

definition DAYS_IN_MONTH :: "int list" where
  "DAYS_IN_MONTH = [31, 28, 31, 30, 31, 30, 31, 31, 30, 31, 30, 31]"

definition daysInMonth :: "int \<Rightarrow> int \<Rightarrow> int" where
  "daysInMonth year month =
     (if month = 2 \<and> isLeapYear year then 29
      else if 1 \<le> month \<and> month \<le> 12 then DAYS_IN_MONTH ! nat (month - 1)
      else 0)"

definition day_from_year :: "int \<Rightarrow> int" where
  "day_from_year y =
     365 * (y - 1970) + (y - 1969) div 4 - (y - 1901) div 100 + (y - 1601) div 400"

definition leap_day :: "int \<Rightarrow> int" where
  "leap_day y = (if isLeapYear y then 1 else 0)"

lemma div_pred_step:
  assumes "1 < (k::int)"
  shows "y div k = (y - 1) div k + (if y mod k = 0 then 1 else 0)"
proof -
  define q r where "q = y div k" and "r = y mod k"
  have y: "y = q * k + r" "0 \<le> r" "r < k" using assms by (auto simp: q_def r_def)
  show ?thesis
  proof (cases "r = 0")
    case True
    have "(y - 1) div k = q - 1"
      using y True assms by (intro int_div_pos_eq [of _ _ _ "k - 1"]) (auto simp: algebra_simps)
    thus ?thesis using True by (simp add: q_def r_def)
  next
    case False
    have "(y - 1) div k = q"
      using y False assms by (intro int_div_pos_eq [of _ _ _ "r - 1"]) (auto simp: algebra_simps)
    thus ?thesis using False by (simp add: q_def r_def)
  qed
qed

lemma day_from_year_Suc: "day_from_year (y + 1) = day_from_year y + 365 + leap_day y"
proof -
  have s: "(y - c * k - e) div k = (y - e) div k - c" if "k \<noteq> 0" for c k e :: int
    using div_mult_self1 [of k "y - e" "- c"] that by (simp add: algebra_simps)
  have m2: "y mod 400 = 0 \<Longrightarrow> y mod 100 = 0" and m3: "y mod 100 = 0 \<Longrightarrow> y mod 4 = 0"
    by (auto simp: mod_eq_0_iff_dvd elim: dvd_trans [rotated])
  have a: "(y - 1968) div 4 = (y - 1969) div 4 + (if y mod 4 = 0 then 1 else 0)"
    using s [of 4 492 0] s [of 4 492 1] div_pred_step [of 4 y] by simp
  have b: "(y - 1900) div 100 = (y - 1901) div 100 + (if y mod 100 = 0 then 1 else 0)"
    using s [of 100 19 0] s [of 100 19 1] div_pred_step [of 100 y] by simp
  have c: "(y - 1600) div 400 = (y - 1601) div 400 + (if y mod 400 = 0 then 1 else 0)"
    using s [of 400 4 0] s [of 400 4 1] div_pred_step [of 400 y] by simp
  have e: "y + 1 - 1969 = y - 1968" "y + 1 - 1901 = y - 1900" "y + 1 - 1601 = y - 1600" by simp_all
  show ?thesis unfolding day_from_year_def leap_day_def isLeapYear_def e a b c
    using m2 m3 by auto
qed

lemma leap_day_cases: "leap_day y = 0 \<or> leap_day y = 1"
  by (simp add: leap_day_def)

lemma day_from_year_step: "day_from_year y < day_from_year (y + 1)"
  using day_from_year_Suc [of y] leap_day_cases [of y] by linarith

lemma day_from_year_growth:
  "day_from_year y + 365 * int n \<le> day_from_year (y + int n) \<and>
   day_from_year (y + int n) \<le> day_from_year y + 366 * int n"
proof (induction n)
  case (Suc n)
  have "day_from_year (y + int (Suc n)) = day_from_year (y + int n) + 365 + leap_day (y + int n)"
    using day_from_year_Suc [of "y + int n"] by (simp add: algebra_simps)
  with Suc leap_day_cases [of "y + int n"] show ?case by auto
qed simp

lemma day_from_year_mono: "x \<le> y \<Longrightarrow> day_from_year x \<le> day_from_year y"
  using day_from_year_growth [of x "nat (y - x)"] by simp

lemma day_from_year_less_iff: "day_from_year x < day_from_year y \<longleftrightarrow> x < y"
proof
  show "day_from_year x < day_from_year y \<Longrightarrow> x < y"
    using day_from_year_mono by (meson linorder_not_less)
  show "x < y \<Longrightarrow> day_from_year x < day_from_year y"
    using day_from_year_mono [of "x + 1" y] day_from_year_step [of x] by linarith
qed

text \<open>The year of a day number, by upward search from a lower bound.\<close>

function year_search :: "int \<Rightarrow> int \<Rightarrow> int" where
  "year_search d y = (if d < day_from_year (y + 1) then y else year_search d (y + 1))"
  by auto
termination
proof (relation "measure (\<lambda>(d, y). nat (d + 1 - day_from_year y))")
  fix d y :: int
  assume "\<not> d < day_from_year (y + 1)"
  thus "((d, y + 1), d, y) \<in> measure (\<lambda>(d, y). nat (d + 1 - day_from_year y))"
    using day_from_year_step [of y] by simp
qed simp

declare year_search.simps [simp del]

definition year_from_day :: "int \<Rightarrow> int" where
  "year_from_day d = year_search d (1970 + (if 0 \<le> d then d div 366 else d div 365))"

lemma year_search_bounds:
  "day_from_year y \<le> d \<Longrightarrow>
   day_from_year (year_search d y) \<le> d \<and> d < day_from_year (year_search d y + 1)"
proof (induction d y rule: year_search.induct)
  case (1 d y)
  thus ?case by (subst (1 2) year_search.simps) auto
qed

lemma year_search_start:
  "day_from_year (1970 + (if 0 \<le> d then d div 366 else d div 365)) \<le> d"
proof (cases "0 \<le> d")
  case True
  have e: "day_from_year 1970 = 0" by (simp add: day_from_year_def)
  have "day_from_year (1970 + d div 366) \<le> 366 * (d div 366)"
    using day_from_year_growth [of 1970 "nat (d div 366)"] True e by (simp add: pos_imp_zdiv_nonneg_iff)
  also have "\<dots> \<le> d"
    using mult_div_mod_eq [of 366 d] pos_mod_sign [of 366 d] by linarith
  finally show ?thesis using True by simp
next
  case False
  have e: "day_from_year 1970 = 0" by (simp add: day_from_year_def)
  have n: "d div 365 < 0" using False by (simp add: neg_imp_zdiv_neg_iff)
  have "day_from_year (1970 + d div 365) + 365 * (- (d div 365)) \<le> day_from_year 1970"
    using day_from_year_growth [of "1970 + d div 365" "nat (- (d div 365))"] n by simp
  moreover have "365 * (d div 365) \<le> d"
    using mult_div_mod_eq [of 365 d] pos_mod_sign [of 365 d] by linarith
  ultimately show ?thesis using False e by simp
qed

lemma year_from_day_bounds:
  "day_from_year (year_from_day d) \<le> d" "d < day_from_year (year_from_day d + 1)"
  using year_search_bounds [OF year_search_start, of d] unfolding year_from_day_def by auto

lemma year_from_day_unique:
  assumes "day_from_year y \<le> d" "d < day_from_year (y + 1)"
  shows "year_from_day d = y"
proof -
  have "day_from_year (year_from_day d) < day_from_year (y + 1)"
    "day_from_year y < day_from_year (year_from_day d + 1)"
    using year_from_day_bounds [of d] assms by linarith+
  thus ?thesis by (simp add: day_from_year_less_iff)
qed

text \<open>The first day of each month within the year, and the month of a day of the year.\<close>

definition month_start :: "int \<Rightarrow> int \<Rightarrow> int" where
  "month_start y m =
     [0, 31, 59, 90, 120, 151, 181, 212, 243, 273, 304, 334, 365] ! nat (m - 1)
     + (if 3 \<le> m then leap_day y else 0)"

definition month_of_yday :: "int \<Rightarrow> int \<Rightarrow> int" where
  "month_of_yday y k =
     (if k < month_start y 2 then 1 else if k < month_start y 3 then 2
      else if k < month_start y 4 then 3 else if k < month_start y 5 then 4
      else if k < month_start y 6 then 5 else if k < month_start y 7 then 6
      else if k < month_start y 8 then 7 else if k < month_start y 9 then 8
      else if k < month_start y 10 then 9 else if k < month_start y 11 then 10
      else if k < month_start y 12 then 11 else 12)"

definition day_of_civil :: "int \<Rightarrow> int \<Rightarrow> int \<Rightarrow> int" where
  "day_of_civil y m d = day_from_year y + month_start y m + d - 1"

definition civil_of_day :: "int \<Rightarrow> int \<times> int \<times> int" where
  "civil_of_day n =
     (let y = year_from_day n; k = n - day_from_year y; m = month_of_yday y k
      in (y, m, k - month_start y m + 1))"

lemma int_month_cases:
  assumes "1 \<le> m" "m \<le> 12"
  shows "m = 1 \<or> m = 2 \<or> m = 3 \<or> m = 4 \<or> m = 5 \<or> m = 6 \<or> m = 7 \<or> m = 8 \<or> m = 9
     \<or> m = 10 \<or> m = 11 \<or> m = (12::int)"
  using assms by presburger

lemma leap_day_1_iff: "leap_day y = 1 \<longleftrightarrow> isLeapYear y" "leap_day y = 0 \<longleftrightarrow> \<not> isLeapYear y"
  by (simp_all add: leap_day_def)

lemma month_start_Suc:
  assumes "1 \<le> m" "m \<le> 12"
  shows "month_start y (m + 1) = month_start y m + daysInMonth y m"
  using int_month_cases [OF assms]
  by (elim disjE) (simp_all add: month_start_def daysInMonth_def DAYS_IN_MONTH_def leap_day_def)

lemma month_start_values:
  "month_start y 1 = 0" "month_start y 2 = 31" "month_start y 3 = 59 + leap_day y"
  "month_start y 4 = 90 + leap_day y" "month_start y 5 = 120 + leap_day y"
  "month_start y 6 = 151 + leap_day y" "month_start y 7 = 181 + leap_day y"
  "month_start y 8 = 212 + leap_day y" "month_start y 9 = 243 + leap_day y"
  "month_start y 10 = 273 + leap_day y" "month_start y 11 = 304 + leap_day y"
  "month_start y 12 = 334 + leap_day y" "month_start y 13 = 365 + leap_day y"
  by (simp_all add: month_start_def)

lemma month_of_yday_bounds:
  assumes "0 \<le> k" "k < 365 + leap_day y"
  shows "1 \<le> month_of_yday y k" "month_of_yday y k \<le> 12"
    "month_start y (month_of_yday y k) \<le> k" "k < month_start y (month_of_yday y k + 1)"
  using assms unfolding month_of_yday_def by (simp_all add: month_start_values)

lemma month_of_yday_unique:
  assumes "1 \<le> m" "m \<le> 12" "month_start y m \<le> k" "k < month_start y (m + 1)"
  shows "month_of_yday y k = m"
  using int_month_cases [OF assms(1,2)] assms(3,4) leap_day_cases [of y]
  by (elim disjE) (simp_all add: month_of_yday_def month_start_values)

definition valid_civil :: "int \<Rightarrow> int \<Rightarrow> int \<Rightarrow> bool" where
  "valid_civil y m d \<longleftrightarrow> 1 \<le> m \<and> m \<le> 12 \<and> 1 \<le> d \<and> d \<le> daysInMonth y m"

lemma month_start_range:
  assumes "1 \<le> m" "m \<le> 12"
  shows "0 \<le> month_start y m" "month_start y (m + 1) \<le> 365 + leap_day y"
  using int_month_cases [OF assms] leap_day_cases [of y]
  by (elim disjE; simp add: month_start_values; fail)+

lemma civil_of_day_of_civil:
  assumes "valid_civil y m d"
  shows "civil_of_day (day_of_civil y m d) = (y, m, d)"
proof -
  let ?n = "day_of_civil y m d"
  have m: "1 \<le> m" "m \<le> 12" "1 \<le> d" "d \<le> daysInMonth y m" using assms by (auto simp: valid_civil_def)
  have k: "month_start y m \<le> month_start y m + d - 1" "month_start y m + d - 1 < month_start y (m + 1)"
    using m month_start_Suc [OF m(1,2)] by auto
  have y: "year_from_day ?n = y"
    by (rule year_from_day_unique)
      (use k month_start_range [OF m(1,2), of y] day_from_year_Suc [of y] in
        \<open>auto simp: day_of_civil_def\<close>)
  have "month_of_yday y (month_start y m + d - 1) = m"
    using month_of_yday_unique [OF m(1,2) k] .
  with y show ?thesis by (simp add: civil_of_day_def day_of_civil_def Let_def algebra_simps)
qed

lemma day_of_civil_of_day:
  assumes "civil_of_day n = (y, m, d)"
  shows "day_of_civil y m d = n" "valid_civil y m d"
proof -
  let ?k = "n - day_from_year y"
  have y: "y = year_from_day n" and m: "m = month_of_yday y ?k" and d: "d = ?k - month_start y m + 1"
    using assms by (auto simp: civil_of_day_def Let_def)
  have k: "0 \<le> ?k" "?k < 365 + leap_day y"
    using year_from_day_bounds [of n] day_from_year_Suc [of y] by (auto simp: y)
  note b = month_of_yday_bounds [OF k, folded m]
  show "day_of_civil y m d = n" by (simp add: day_of_civil_def d)
  show "valid_civil y m d"
    using b month_start_Suc [OF b(1,2), of y] by (simp add: valid_civil_def d)
qed

text \<open>Time values: \<open>Date.UTC\<close> and the UTC getters, in milliseconds.\<close>

definition date_utc :: "int \<Rightarrow> int \<Rightarrow> int \<Rightarrow> int \<Rightarrow> int \<Rightarrow> int \<Rightarrow> int" where
  "date_utc year month1 day hour minute second =
     (let y = (if 0 \<le> year \<and> year \<le> 99 then 1900 + year else year)
      in 1000 * (day_of_civil y month1 day * 86400 + hour * 3600 + minute * 60 + second))"

definition utc_date :: "int \<Rightarrow> int \<times> int \<times> int" where
  "utc_date ms = civil_of_day (ms div 86400000)"

definition utc_hours :: "int \<Rightarrow> int" where "utc_hours ms = ms div 3600000 mod 24"
definition utc_minutes :: "int \<Rightarrow> int" where "utc_minutes ms = ms div 60000 mod 60"
definition utc_seconds :: "int \<Rightarrow> int" where "utc_seconds ms = ms div 1000 mod 60"

lemma utc_getters_of_clock:
  fixes n h mi s :: int
  assumes "0 \<le> h" "h < 24" "0 \<le> mi" "mi < 60" "0 \<le> s" "s < 60"
    and ms: "ms = 1000 * (n * 86400 + h * 3600 + mi * 60 + s)"
  shows "ms div 86400000 = n" "utc_hours ms = h" "utc_minutes ms = mi" "utc_seconds ms = s"
    "ms div 1000 = n * 86400 + h * 3600 + mi * 60 + s"
proof -
  show t: "ms div 1000 = n * 86400 + h * 3600 + mi * 60 + s" by (simp add: ms)
  show "ms div 86400000 = n"
    using assms by (intro int_div_pos_eq [of _ _ _ "1000 * (h * 3600 + mi * 60 + s)"]) auto
  have "ms div 3600000 = n * 24 + h"
    using assms by (intro int_div_pos_eq [of _ _ _ "1000 * (mi * 60 + s)"]) auto
  thus "utc_hours ms = h" using assms by (simp add: utc_hours_def)
  have "ms div 60000 = (n * 24 + h) * 60 + mi"
    using assms by (intro int_div_pos_eq [of _ _ _ "1000 * s"]) auto
  hence "ms div 60000 = mi + (n * 24 + h) * 60" by simp
  thus "utc_minutes ms = mi" unfolding utc_minutes_def using assms by (simp only: mod_mult_self1) simp
  have "ms div 1000 = s + ((n * 24 + h) * 60 + mi) * 60" using t by simp
  thus "utc_seconds ms = s" unfolding utc_seconds_def using assms by (simp only: mod_mult_self1) simp
qed

lemma clock_of_seconds:
  fixes t :: int
  shows "t = t div 86400 * 86400 + t div 3600 mod 24 * 3600 + t div 60 mod 60 * 60 + t mod 60"
proof -
  have "t div 60 div 60 = t div 3600" "t div 3600 div 24 = t div 86400"
    by (simp_all add: zdiv_zmult2_eq [symmetric])
  moreover have "t = 60 * (t div 60) + t mod 60" "t div 60 = 60 * (t div 60 div 60) + t div 60 mod 60"
    "t div 3600 = 24 * (t div 3600 div 24) + t div 3600 mod 24" by simp_all
  ultimately show ?thesis by linarith
qed

subsection \<open>Parsing\<close>

datatype time_error =
    TimeOffset | TimeShape | TimeMonth | TimeCalendar | TimeClock | TimeRoundTrip | TimeFraction
  | SecondsNotSafe | NegativeEpoch | UnsafeMilliseconds

record ParsedUtcTimestamp =
  epochSeconds :: int
  nanoseconds :: int
  epochNanoseconds :: int
  canonical :: string

definition take_digits :: "nat \<Rightarrow> string \<Rightarrow> (string \<times> string) option" where
  "take_digits k s = (if length (take k s) = k \<and> all_digits (take k s)
     then Some (take k s, drop k s) else None)"

definition expect :: "char \<Rightarrow> string \<Rightarrow> string option" where
  "expect c s = (case s of [] \<Rightarrow> None | x # xs \<Rightarrow> if x = c then Some xs else None)"

text \<open>The tail \<open>(?:\.(\d{1,9}))?Z$\<close> of the pattern; the result is \<open>match[7] ?? ""\<close>.\<close>

definition match_tail :: "string \<Rightarrow> string option" where
  "match_tail s =
     (if s = ''Z'' then Some []
      else case s of [] \<Rightarrow> None
        | c # rest \<Rightarrow>
            (let frac = takeWhile is_digit rest in
             if c = CHR ''.'' \<and> 1 \<le> length frac \<and> length frac \<le> 9
                \<and> dropWhile is_digit rest = ''Z''
             then Some frac else None))"

text \<open>The groups of \<open>UTC_ISO_RE\<close>, or \<open>None\<close> when the pattern does not match.\<close>

definition UTC_ISO_RE ::
  "string \<Rightarrow> (string \<times> string \<times> string \<times> string \<times> string \<times> string \<times> string) option" where
  "UTC_ISO_RE v =
     Option.bind (take_digits 4 v) (\<lambda>(y, r).
     Option.bind (expect (CHR ''-'') r) (\<lambda>r.
     Option.bind (take_digits 2 r) (\<lambda>(mo, r).
     Option.bind (expect (CHR ''-'') r) (\<lambda>r.
     Option.bind (take_digits 2 r) (\<lambda>(d, r).
     Option.bind (expect (CHR ''T'') r) (\<lambda>r.
     Option.bind (take_digits 2 r) (\<lambda>(h, r).
     Option.bind (expect (CHR '':'') r) (\<lambda>r.
     Option.bind (take_digits 2 r) (\<lambda>(mi, r).
     Option.bind (expect (CHR '':'') r) (\<lambda>r.
     Option.bind (take_digits 2 r) (\<lambda>(s, r).
     Option.bind (match_tail r) (\<lambda>frac.
     Some (y, mo, d, h, mi, s, frac)))))))))))))"

text \<open>\<open>/[+-]\d{2}:\d{2}$/.test(value)\<close>, or a value ending in \<open>+00:00\<close>.\<close>

definition has_offset :: "string \<Rightarrow> bool" where
  "has_offset v \<longleftrightarrow>
     (let t = drop (length v - 6) v in
      6 \<le> length v \<and> (t ! 0 = CHR ''+'' \<or> t ! 0 = CHR ''-'') \<and> is_digit (t ! 1) \<and> is_digit (t ! 2)
      \<and> t ! 3 = CHR '':'' \<and> is_digit (t ! 4) \<and> is_digit (t ! 5))
     \<or> (6 \<le> length v \<and> drop (length v - 6) v = ''+00:00'')"

definition num :: "string \<Rightarrow> int" where
  "num s = int (digits_val s)"

definition parseUtcTimestamp :: "string \<Rightarrow> time_error + ParsedUtcTimestamp" where
  "parseUtcTimestamp value =
     (if has_offset value then Inl TimeOffset
      else case UTC_ISO_RE value of None \<Rightarrow> Inl TimeShape
      | Some (gy, gmo, gd, gh, gmi, gs, frac) \<Rightarrow>
        let year = num gy; month = num gmo; day = num gd;
            hour = num gh; minute = num gmi; second = num gs in
        if month < 1 \<or> month > 12 then Inl TimeMonth
        else if day < 1 \<or> day > daysInMonth year month then Inl TimeCalendar
        else if hour > 23 \<or> minute > 59 \<or> second > 59 then Inl TimeClock
        else
        let ms = date_utc year month day hour minute second in
        if utc_date ms \<noteq> (year, month, day) \<or> utc_hours ms \<noteq> hour
           \<or> utc_minutes ms \<noteq> minute \<or> utc_seconds ms \<noteq> second then Inl TimeRoundTrip
        else
        let nanos = num (padEnd 9 (CHR ''0'') frac) in
        if nanos < 0 \<or> nanos > 999999999 then Inl TimeFraction
        else
        let secs = ms div 1000 in
        Inr \<lparr> epochSeconds = secs, nanoseconds = nanos,
              epochNanoseconds = secs * 1000000000 + nanos, canonical = value \<rparr>)"

definition isUtcIsoTimestamp :: "string \<Rightarrow> bool" where
  "isUtcIsoTimestamp value = is_ok (parseUtcTimestamp value)"

definition compareUtc :: "string \<Rightarrow> string \<Rightarrow> time_error + int" where
  "compareUtc a b =
     bind_res (parseUtcTimestamp a) (\<lambda>pa. bind_res (parseUtcTimestamp b) (\<lambda>pb.
       let left = epochNanoseconds pa; right = epochNanoseconds pb in
       Inr (if left < right then - 1 else if left > right then 1 else 0)))"

definition isBeforeOrEqualUtc :: "string \<Rightarrow> string \<Rightarrow> time_error + bool" where
  "isBeforeOrEqualUtc a b = bind_res (compareUtc a b) (\<lambda>c. Inr (c \<le> 0))"

definition isBeforeUtc :: "string \<Rightarrow> string \<Rightarrow> time_error + bool" where
  "isBeforeUtc a b = bind_res (compareUtc a b) (\<lambda>c. Inr (c < 0))"

definition isAfterUtc :: "string \<Rightarrow> string \<Rightarrow> time_error + bool" where
  "isAfterUtc a b = bind_res (compareUtc a b) (\<lambda>c. Inr (c > 0))"

subsection \<open>Deadlines\<close>

definition REVIEW_WINDOW_SECONDS :: int where "REVIEW_WINDOW_SECONDS = 172800"
definition CORRECTION_WINDOW_SECONDS :: int where "CORRECTION_WINDOW_SECONDS = 86400"
definition POST_RESUBMIT_REVIEW_WINDOW_SECONDS :: int where
  "POST_RESUBMIT_REVIEW_WINDOW_SECONDS = 86400"
definition NANOS_PER_SECOND :: int where "NANOS_PER_SECOND = 1000000000"

text \<open>
  A \<open>Date\<close> beyond 8.64e15 milliseconds is invalid: its getters return \<open>NaN\<close>,
  which prints as \<open>NaN\<close> and is not padded.
\<close>

definition max_time_value :: int where "max_time_value = 8640000000000000"

definition two :: "int \<Rightarrow> string" where
  "two n = padStart 2 (CHR ''0'') (int_str n)"

definition formatUtcFromEpochNanos :: "int \<Rightarrow> time_error + string" where
  "formatUtcFromEpochNanos epochNanos =
     (if epochNanos < 0 then Inl NegativeEpoch
      else
      let secs = epochNanos div NANOS_PER_SECOND;
          nanos = epochNanos mod NANOS_PER_SECOND;
          ms = secs * 1000 in
      if ms > max_safe_integer then Inl UnsafeMilliseconds
      else
      let fields =
            (if ms > max_time_value then ''NaN-NaN-NaNTNaN:NaN:NaN''
             else case utc_date ms of (y, mo, day) \<Rightarrow>
               int_str y @ ''-'' @ two mo @ ''-'' @ two day @ ''T''
               @ two (utc_hours ms) @ '':'' @ two (utc_minutes ms) @ '':'' @ two (utc_seconds ms)) in
      if nanos = 0 then Inr (fields @ ''.000Z'')
      else
      let frac = strip_trailing_zeros (padStart 9 (CHR ''0'') (int_str nanos)) in
      Inr (fields @ ''.'' @ frac @ ''Z''))"

definition addUtcSeconds :: "string \<Rightarrow> int \<Rightarrow> time_error + string" where
  "addUtcSeconds isoTimestamp seconds =
     (if seconds < 0 \<or> seconds > max_safe_integer then Inl SecondsNotSafe
      else bind_res (parseUtcTimestamp isoTimestamp) (\<lambda>parsed.
        formatUtcFromEpochNanos (epochNanoseconds parsed + seconds * NANOS_PER_SECOND)))"

definition computeReviewDeadline :: "string \<Rightarrow> time_error + string" where
  "computeReviewDeadline eventTime = addUtcSeconds eventTime REVIEW_WINDOW_SECONDS"

definition computeCorrectionDeadline :: "string \<Rightarrow> time_error + string" where
  "computeCorrectionDeadline eventTime = addUtcSeconds eventTime CORRECTION_WINDOW_SECONDS"

definition computePostResubmitReviewDeadline :: "string \<Rightarrow> time_error + string" where
  "computePostResubmitReviewDeadline eventTime =
     addUtcSeconds eventTime POST_RESUBMIT_REVIEW_WINDOW_SECONDS"

subsection \<open>What the parser accepts\<close>

definition iso_string ::
  "string \<Rightarrow> string \<Rightarrow> string \<Rightarrow> string \<Rightarrow> string \<Rightarrow> string \<Rightarrow> string \<Rightarrow> string" where
  "iso_string y mo d h mi s tail =
     y @ ''-'' @ mo @ ''-'' @ d @ ''T'' @ h @ '':'' @ mi @ '':'' @ s @ tail"

definition digits_of_width :: "nat \<Rightarrow> string \<Rightarrow> bool" where
  "digits_of_width k s \<longleftrightarrow> length s = k \<and> all_digits s"

lemma take_digits_Some_iff:
  "take_digits k s = Some (a, b) \<longleftrightarrow> s = a @ b \<and> digits_of_width k a"
  by (auto simp: take_digits_def digits_of_width_def)

lemma take_digits_append: "digits_of_width k a \<Longrightarrow> take_digits k (a @ b) = Some (a, b)"
  by (simp add: take_digits_Some_iff)

lemma expect_Some_iff: "expect c s = Some r \<longleftrightarrow> s = c # r"
  by (auto simp: expect_def split: list.splits)

lemma UTC_ISO_RE_Some_iff:
  "UTC_ISO_RE v = Some (y, mo, d, h, mi, s, frac) \<longleftrightarrow>
     (\<exists>tail. v = iso_string y mo d h mi s tail \<and> match_tail tail = Some frac
        \<and> digits_of_width 4 y \<and> digits_of_width 2 mo \<and> digits_of_width 2 d
        \<and> digits_of_width 2 h \<and> digits_of_width 2 mi \<and> digits_of_width 2 s)"
proof
  show "UTC_ISO_RE v = Some (y, mo, d, h, mi, s, frac) \<Longrightarrow>
     (\<exists>tail. v = iso_string y mo d h mi s tail \<and> match_tail tail = Some frac
        \<and> digits_of_width 4 y \<and> digits_of_width 2 mo \<and> digits_of_width 2 d
        \<and> digits_of_width 2 h \<and> digits_of_width 2 mi \<and> digits_of_width 2 s)"
    unfolding UTC_ISO_RE_def
    by (auto simp: bind_eq_Some_conv take_digits_Some_iff expect_Some_iff iso_string_def)
qed (auto simp: UTC_ISO_RE_def iso_string_def take_digits_append expect_def)

lemma match_tail_Z [simp]: "match_tail ''Z'' = Some []"
  by (simp add: match_tail_def)

lemma match_tail_frac:
  assumes "all_digits f" "1 \<le> length f" "length f \<le> 9"
  shows "match_tail (''.'' @ f @ ''Z'') = Some f"
proof -
  have z: "\<not> is_digit (CHR ''Z'')" by (simp add: is_digit_def)
  have "takeWhile is_digit (f @ ''Z'') = f" "dropWhile is_digit (f @ ''Z'') = ''Z''"
    using assms z by (auto simp: all_digits_def list_all_iff takeWhile_append dropWhile_append3)
  thus ?thesis using assms by (simp add: match_tail_def Let_def)
qed

lemma match_tail_SomeD:
  assumes "match_tail t = Some f"
  shows "t = ''Z'' \<and> f = [] \<or> t = ''.'' @ f @ ''Z'' \<and> 1 \<le> length f" "all_digits f" "length f \<le> 9"
proof -
  have tw: "all_digits (takeWhile is_digit r)" for r
    by (auto simp: all_digits_def list_all_iff dest: set_takeWhileD)
  have sp: "r = takeWhile is_digit r @ ''Z''" if "dropWhile is_digit r = ''Z''" for r
    using that by (metis takeWhile_dropWhile_id)
  show "t = ''Z'' \<and> f = [] \<or> t = ''.'' @ f @ ''Z'' \<and> 1 \<le> length f" "all_digits f" "length f \<le> 9"
    using assms tw sp by (auto simp: match_tail_def Let_def split: if_splits list.splits)
qed

lemma match_tail_last: "match_tail t = Some f \<Longrightarrow> t \<noteq> [] \<and> last t = CHR ''Z''"
  using match_tail_SomeD(1) by fastforce

lemma has_offset_last:
  assumes "v \<noteq> []" "last v = CHR ''Z''"
  shows "\<not> has_offset v"
proof
  assume h: "has_offset v"
  hence l: "6 \<le> length v" by (auto simp: has_offset_def Let_def)
  let ?t = "drop (length v - 6) v"
  have len: "length ?t = 6" using l by simp
  have "last ?t = CHR ''Z''" using l assms by (simp add: last_drop)
  hence z: "?t ! 5 = CHR ''Z''" using len last_conv_nth [of ?t] by (auto simp: last_conv_nth)
  have "is_digit (?t ! 5) \<or> ?t = ''+00:00''" using h by (auto simp: has_offset_def Let_def)
  thus False using z by (auto simp: is_digit_def)
qed

lemma iso_string_no_offset:
  "match_tail t = Some f \<Longrightarrow> \<not> has_offset (iso_string y mo d h mi s t)"
  using match_tail_last by (intro has_offset_last) (auto simp: iso_string_def)

lemma num_nonneg [simp]: "0 \<le> num s" "\<not> num s < 0"
  by (simp_all add: num_def)

lemma num_bound: "digits_of_width k s \<Longrightarrow> num s < 10 ^ k"
  using digits_val_bound [of s] by (simp add: num_def digits_of_width_def)

lemma frac_nanos_bound: "all_digits f \<Longrightarrow> length f \<le> 9 \<Longrightarrow> num (padEnd 9 (CHR ''0'') f) \<le> 999999999"
  using num_bound [of 9 "padEnd 9 (CHR ''0'') f"] all_digits_padEnd [of f 9]
  by (simp add: digits_of_width_def padEnd_def)

definition clock_ok :: "int \<Rightarrow> int \<Rightarrow> int \<Rightarrow> bool" where
  "clock_ok h mi s \<longleftrightarrow> 0 \<le> h \<and> h \<le> 23 \<and> 0 \<le> mi \<and> mi \<le> 59 \<and> 0 \<le> s \<and> s \<le> 59"

lemma date_utc_getters:
  assumes "valid_civil y m d" "clock_ok h mi s" "y < 0 \<or> 99 < y"
  defines "ms \<equiv> date_utc y m d h mi s"
  shows "utc_date ms = (y, m, d)" "utc_hours ms = h" "utc_minutes ms = mi" "utc_seconds ms = s"
    "ms div 1000 = day_of_civil y m d * 86400 + h * 3600 + mi * 60 + s"
proof -
  have ms: "ms = 1000 * (day_of_civil y m d * 86400 + h * 3600 + mi * 60 + s)"
    using assms(3) by (auto simp: ms_def date_utc_def)
  have c: "0 \<le> h" "h < 24" "0 \<le> mi" "mi < 60" "0 \<le> s" "s < 60"
    using assms(2) by (auto simp: clock_ok_def)
  note g = utc_getters_of_clock [OF c ms]
  show "utc_hours ms = h" "utc_minutes ms = mi" "utc_seconds ms = s"
    "ms div 1000 = day_of_civil y m d * 86400 + h * 3600 + mi * 60 + s" by (rule g)+
  show "utc_date ms = (y, m, d)"
    unfolding utc_date_def g(1) by (rule civil_of_day_of_civil [OF assms(1)])
qed

lemma date_utc_two_digit_year:
  assumes "0 \<le> y" "y \<le> 99" "valid_civil y m d" "clock_ok h mi s"
  shows "utc_date (date_utc y m d h mi s) \<noteq> (y, m, d)"
proof -
  have c: "0 \<le> h" "h < 24" "0 \<le> mi" "mi < 60" "0 \<le> s" "s < 60"
    using assms(4) by (auto simp: clock_ok_def)
  have ms: "date_utc y m d h mi s
      = 1000 * (day_of_civil (1900 + y) m d * 86400 + h * 3600 + mi * 60 + s)"
    using assms by (simp add: date_utc_def)
  have "day_from_year 1900 \<le> day_from_year (1900 + y)" using assms by (intro day_from_year_mono) simp
  moreover have "0 \<le> month_start (1900 + y) m" "1 \<le> d"
    using assms month_start_range by (auto simp: valid_civil_def)
  ultimately have n: "day_from_year 1900 \<le> day_of_civil (1900 + y) m d" by (simp add: day_of_civil_def)
  have "day_from_year 1900 < day_from_year (year_from_day (day_of_civil (1900 + y) m d) + 1)"
    using n year_from_day_bounds(2) by (rule le_less_trans)
  hence "1900 \<le> year_from_day (day_of_civil (1900 + y) m d)"
    by (simp add: day_from_year_less_iff)
  thus ?thesis
    unfolding utc_date_def utc_getters_of_clock(1) [OF c ms] civil_of_day_def Let_def
    using assms by auto
qed

text \<open>The fields the parser demands of the matched groups.\<close>

definition fields_ok :: "string \<Rightarrow> string \<Rightarrow> string \<Rightarrow> string \<Rightarrow> string \<Rightarrow> string \<Rightarrow> bool" where
  "fields_ok y mo d h mi s \<longleftrightarrow>
     valid_civil (num y) (num mo) (num d) \<and> clock_ok (num h) (num mi) (num s) \<and> 100 \<le> num y"

definition iso_epoch :: "string \<Rightarrow> string \<Rightarrow> string \<Rightarrow> string \<Rightarrow> string \<Rightarrow> string \<Rightarrow> int" where
  "iso_epoch y mo d h mi s =
     day_of_civil (num y) (num mo) (num d) * 86400 + num h * 3600 + num mi * 60 + num s"

lemma parse_matched:
  assumes "UTC_ISO_RE v = Some (y, mo, d, h, mi, s, frac)"
  shows "parseUtcTimestamp v = Inr p \<longleftrightarrow> fields_ok y mo d h mi s \<and>
    p = \<lparr> epochSeconds = iso_epoch y mo d h mi s, nanoseconds = num (padEnd 9 (CHR ''0'') frac),
          epochNanoseconds = iso_epoch y mo d h mi s * 1000000000 + num (padEnd 9 (CHR ''0'') frac),
          canonical = v \<rparr>"
proof -
  obtain t where t: "v = iso_string y mo d h mi s t" "match_tail t = Some frac"
    using assms by (auto simp: UTC_ISO_RE_Some_iff)
  have off: "\<not> has_offset v" using t iso_string_no_offset by simp
  have nb: "0 \<le> num (padEnd 9 (CHR ''0'') frac)" "num (padEnd 9 (CHR ''0'') frac) \<le> 999999999"
    using match_tail_SomeD [OF t(2)] by (auto intro: frac_nanos_bound)
  define ms where "ms = date_utc (num y) (num mo) (num d) (num h) (num mi) (num s)"
  define A B C where "A \<longleftrightarrow> num mo < 1 \<or> num mo > 12"
    and "B \<longleftrightarrow> num d < 1 \<or> num d > daysInMonth (num y) (num mo)"
    and "C \<longleftrightarrow> num h > 23 \<or> num mi > 59 \<or> num s > 59"
  define R where "R \<longleftrightarrow> utc_date ms \<noteq> (num y, num mo, num d) \<or> utc_hours ms \<noteq> num h
      \<or> utc_minutes ms \<noteq> num mi \<or> utc_seconds ms \<noteq> num s"
  define nanos where "nanos = num (padEnd 9 (CHR ''0'') frac)"
  let ?out = "\<lambda>e. \<lparr> epochSeconds = e, nanoseconds = nanos, epochNanoseconds = e * 1000000000 + nanos,
      canonical = v \<rparr>"
  have eq: "parseUtcTimestamp v = (if A then Inl TimeMonth else if B then Inl TimeCalendar
      else if C then Inl TimeClock else if R then Inl TimeRoundTrip else Inr (?out (ms div 1000)))"
    unfolding A_def B_def C_def R_def
    using off assms nb by (simp add: parseUtcTimestamp_def Let_def ms_def nanos_def)
  have civ: "\<not> A \<and> \<not> B \<and> \<not> C \<longleftrightarrow>
      valid_civil (num y) (num mo) (num d) \<and> clock_ok (num h) (num mi) (num s)"
    unfolding A_def B_def C_def valid_civil_def clock_ok_def by auto
  have rt: "R \<longleftrightarrow> \<not> 100 \<le> num y" "\<not> R \<Longrightarrow> ms div 1000 = iso_epoch y mo d h mi s"
    if "valid_civil (num y) (num mo) (num d)" "clock_ok (num h) (num mi) (num s)"
    using date_utc_getters [OF that] date_utc_two_digit_year [OF _ _ that] num_nonneg(1) [of y]
    unfolding R_def ms_def iso_epoch_def by (cases "100 \<le> num y"; auto)+
  show ?thesis
    unfolding eq fields_ok_def nanos_def [symmetric]
    by (cases "A \<or> B \<or> C"; cases R) (use civ rt in auto)
qed

lemma parse_iff:
  "parseUtcTimestamp v = Inr p \<longleftrightarrow>
     (\<exists>y mo d h mi s frac. UTC_ISO_RE v = Some (y, mo, d, h, mi, s, frac) \<and> fields_ok y mo d h mi s \<and>
        p = \<lparr> epochSeconds = iso_epoch y mo d h mi s, nanoseconds = num (padEnd 9 (CHR ''0'') frac),
          epochNanoseconds = iso_epoch y mo d h mi s * 1000000000 + num (padEnd 9 (CHR ''0'') frac),
          canonical = v \<rparr>)"
proof (cases "UTC_ISO_RE v")
  case None
  thus ?thesis by (simp add: parseUtcTimestamp_def)
next
  case (Some g)
  obtain y mo d h mi s frac where g: "g = (y, mo, d, h, mi, s, frac)" by (cases g) auto
  show ?thesis using parse_matched [of v y mo d h mi s frac p] Some g by auto
qed

lemma parse_fields:
  assumes "parseUtcTimestamp v = Inr p"
  shows "0 \<le> nanoseconds p" "nanoseconds p \<le> 999999999"
    "epochNanoseconds p = epochSeconds p * 1000000000 + nanoseconds p" "canonical p = v"
proof -
  obtain y mo d h mi s frac where g: "UTC_ISO_RE v = Some (y, mo, d, h, mi, s, frac)"
    and p: "p = \<lparr> epochSeconds = iso_epoch y mo d h mi s, nanoseconds = num (padEnd 9 (CHR ''0'') frac),
          epochNanoseconds = iso_epoch y mo d h mi s * 1000000000 + num (padEnd 9 (CHR ''0'') frac),
          canonical = v \<rparr>"
    using assms by (auto simp: parse_iff)
  obtain t where "match_tail t = Some frac" using g by (auto simp: UTC_ISO_RE_Some_iff)
  hence "num (padEnd 9 (CHR ''0'') frac) \<le> 999999999"
    using match_tail_SomeD by (intro frac_nanos_bound)
  thus "0 \<le> nanoseconds p" "nanoseconds p \<le> 999999999"
    "epochNanoseconds p = epochSeconds p * 1000000000 + nanoseconds p" "canonical p = v"
    using p by simp_all
qed

subsection \<open>Formatting inverts parsing\<close>

lemma two_digits:
  assumes "0 \<le> n" "n \<le> 99"
  shows "digits_of_width 2 (two n)" "num (two n) = n"
proof -
  have "length (decimal (nat n)) \<le> 2" using assms by (simp add: length_decimal_le_iff)
  thus "digits_of_width 2 (two n)"
    using assms by (simp add: two_def int_str_nonneg digits_of_width_def length_padStart all_digits_padStart)
  show "num (two n) = n" using assms by (simp add: two_def int_str_nonneg num_def)
qed

lemma four_digits:
  assumes "1000 \<le> n" "n \<le> 9999"
  shows "digits_of_width 4 (int_str n)" "num (int_str n) = n"
proof -
  have "length (decimal (nat n)) \<le> 4" "\<not> length (decimal (nat n)) \<le> 3"
    using assms by (simp_all add: length_decimal_le_iff)
  thus "digits_of_width 4 (int_str n)"
    using assms by (simp add: int_str_nonneg digits_of_width_def)
  show "num (int_str n) = n" using assms by (simp add: int_str_nonneg num_def)
qed

text \<open>The tail the formatter writes and the nanoseconds the parser reads from it.\<close>

definition frac_tail :: "int \<Rightarrow> string" where
  "frac_tail nanos = (if nanos = 0 then ''.000Z''
     else ''.'' @ strip_trailing_zeros (padStart 9 (CHR ''0'') (int_str nanos)) @ ''Z'')"

lemma frac_tail_match:
  assumes "0 \<le> nanos" "nanos \<le> 999999999"
  shows "\<exists>f. match_tail (frac_tail nanos) = Some f \<and> num (padEnd 9 (CHR ''0'') f) = nanos"
proof (cases "nanos = 0")
  case True
  have "match_tail (''.'' @ ''000'' @ ''Z'') = Some ''000''"
    by (rule match_tail_frac) (simp_all add: is_digit_def)
  moreover have "padEnd 9 (CHR ''0'') ''000'' = replicate 9 (CHR ''0'')"
    by (simp add: padEnd_def numeral_eq_Suc)
  hence "num (padEnd 9 (CHR ''0'') ''000'') = 0" by (simp only: num_def digits_val_zeros of_nat_0)
  ultimately show ?thesis using True by (auto simp: frac_tail_def)
next
  case False
  let ?p = "padStart 9 (CHR ''0'') (int_str nanos)"
  have "length (decimal (nat nanos)) \<le> 9" using assms by (simp add: length_decimal_le_iff)
  hence p: "length ?p = 9" "all_digits ?p" "num ?p = nanos"
    using assms by (simp_all add: int_str_nonneg length_padStart all_digits_padStart num_def)
  have "strip_trailing_zeros ?p \<noteq> []"
    using strip_trailing_zeros_Nil [of ?p] p(3) False assms by (auto simp: num_def)
  hence "match_tail (''.'' @ strip_trailing_zeros ?p @ ''Z'') = Some (strip_trailing_zeros ?p)"
    using p length_strip_trailing [of ?p] all_digits_strip
    by (intro match_tail_frac) (auto simp: Suc_le_eq)
  thus ?thesis using False p padEnd_strip [OF p(1)] by (auto simp: frac_tail_def)
qed

lemma year_range:
  assumes "0 \<le> n" "n < 2932897"
  shows "1970 \<le> year_from_day n" "year_from_day n \<le> 9999"
proof -
  have e: "day_from_year 1970 = 0" "day_from_year 10000 = 2932897" by (simp_all add: day_from_year_def)
  have "day_from_year 1970 < day_from_year (year_from_day n + 1)"
    "day_from_year (year_from_day n) < day_from_year 10000"
    using year_from_day_bounds [of n] assms e by linarith+
  thus "1970 \<le> year_from_day n" "year_from_day n \<le> 9999" by (simp_all add: day_from_year_less_iff)
qed

lemma format_eq:
  assumes "0 \<le> n" "n div 1000000000 < 253402300800"
  shows "formatUtcFromEpochNanos n =
    (case civil_of_day (n div 1000000000 div 86400) of (y, mo, d) \<Rightarrow>
      let t = n div 1000000000 in
      Inr (iso_string (int_str y) (two mo) (two d) (two (t div 3600 mod 24))
             (two (t div 60 mod 60)) (two (t mod 60)) (frac_tail (n mod 1000000000))))"
proof -
  have g: "k * 1000 div 86400000 = k div 86400" "utc_hours (k * 1000) = k div 3600 mod 24"
    "utc_minutes (k * 1000) = k div 60 mod 60" "utc_seconds (k * 1000) = k mod 60" for k :: int
    using div_mult_mult2 [of 1000 k 86400] div_mult_mult2 [of 1000 k 3600] div_mult_mult2 [of 1000 k 60]
    by (simp_all add: utc_hours_def utc_minutes_def utc_seconds_def)
  define k nanos where "k = n div 1000000000" and "nanos = n mod 1000000000"
  have k: "\<not> n < 0" "\<not> k * 1000 > max_safe_integer" "\<not> k * 1000 > max_time_value"
    using assms by (simp_all add: k_def max_safe_integer_def max_time_value_def)
  show ?thesis
    unfolding formatUtcFromEpochNanos_def NANOS_PER_SECOND_def k_def [symmetric] nanos_def [symmetric]
    using k by (simp add: Let_def g utc_date_def iso_string_def frac_tail_def split: prod.splits)
qed

lemma parse_built:
  assumes "1000 \<le> y" "y \<le> 9999" "valid_civil y mo d" "clock_ok h mi s" "0 \<le> nanos" "nanos \<le> 999999999"
  shows "\<exists>p. parseUtcTimestamp (iso_string (int_str y) (two mo) (two d) (two h) (two mi) (two s)
             (frac_tail nanos)) = Inr p
         \<and> epochNanoseconds p = (day_of_civil y mo d * 86400 + h * 3600 + mi * 60 + s) * 1000000000 + nanos"
proof -
  have md: "0 \<le> mo" "mo \<le> 99" "0 \<le> d" "d \<le> 99"
    using assms(3) int_month_cases [of mo]
    by (auto simp: valid_civil_def daysInMonth_def DAYS_IN_MONTH_def split: if_splits)
  have hms: "0 \<le> h" "h \<le> 99" "0 \<le> mi" "mi \<le> 99" "0 \<le> s" "s \<le> 99"
    using assms(4) by (auto simp: clock_ok_def)
  note w = four_digits [OF assms(1,2)] two_digits [OF md(1,2)] two_digits [OF md(3,4)]
    two_digits [OF hms(1,2)] two_digits [OF hms(3,4)] two_digits [OF hms(5,6)]
  obtain f where f: "match_tail (frac_tail nanos) = Some f" "num (padEnd 9 (CHR ''0'') f) = nanos"
    using frac_tail_match [OF assms(5,6)] by blast
  let ?v = "iso_string (int_str y) (two mo) (two d) (two h) (two mi) (two s) (frac_tail nanos)"
  have m: "UTC_ISO_RE ?v = Some (int_str y, two mo, two d, two h, two mi, two s, f)"
    unfolding UTC_ISO_RE_Some_iff using f(1) w by blast
  have "fields_ok (int_str y) (two mo) (two d) (two h) (two mi) (two s)"
    unfolding fields_ok_def w using assms by simp
  thus ?thesis using parse_matched [OF m] unfolding iso_epoch_def w f(2) by simp
qed

lemma format_parse:
  assumes n: "0 \<le> n" "n div 1000000000 < 253402300800"
  shows "\<exists>t p. formatUtcFromEpochNanos n = Inr t \<and> parseUtcTimestamp t = Inr p \<and> epochNanoseconds p = n"
proof -
  define t where "t = n div 1000000000"
  define nanos where "nanos = n mod 1000000000"
  define h mi s where "h = t div 3600 mod 24" and "mi = t div 60 mod 60" and "s = t mod 60"
  obtain y mo d where c: "civil_of_day (t div 86400) = (y, mo, d)" by (cases "civil_of_day (t div 86400)")
  have tr: "0 \<le> t div 86400" "t div 86400 < 2932897" using n by (auto simp: t_def)
  have y: "1970 \<le> y" "y \<le> 9999"
    using year_range [OF tr] c by (auto simp: civil_of_day_def Let_def)
  note civ = day_of_civil_of_day [OF c]
  have clk: "clock_ok h mi s"
    using pos_mod_bound [of 24 "t div 3600"] pos_mod_bound [of 60 "t div 60"] pos_mod_bound [of 60 t]
      pos_mod_sign [of 24 "t div 3600"] pos_mod_sign [of 60 "t div 60"] pos_mod_sign [of 60 t]
    unfolding clock_ok_def h_def mi_def s_def by - (intro conjI; linarith)
  have nn: "0 \<le> nanos" "nanos \<le> 999999999"
    using pos_mod_sign [of 1000000000 n] pos_mod_bound [of 1000000000 n] unfolding nanos_def by linarith+
  have fmt: "formatUtcFromEpochNanos n = Inr (iso_string (int_str y) (two mo) (two d)
      (two h) (two mi) (two s) (frac_tail nanos))"
    using format_eq [OF n] c unfolding t_def h_def mi_def s_def nanos_def by (simp add: Let_def)
  have t: "day_of_civil y mo d * 86400 + h * 3600 + mi * 60 + s = t"
    using clock_of_seconds [of t] unfolding civ(1) h_def mi_def s_def by (rule sym)
  have "t * 1000000000 + nanos = n" unfolding t_def nanos_def by (rule div_mult_mod_eq)
  thus ?thesis
    using parse_built [OF _ y(2) civ(2) clk nn] y(1) fmt unfolding t by auto
qed

text \<open>
  C29. Adding a non-negative number of seconds to an accepted timestamp moves the
  instant by exactly that many seconds: the result is formatted, parses again,
  and its epoch nanoseconds are the old ones plus the offset, as long as the
  result stays before year 10000.
\<close>

theorem addUtcSeconds_exact:
  assumes "parseUtcTimestamp v = Inr p" "0 \<le> epochSeconds p" "0 \<le> n" "n \<le> max_safe_integer"
    and "epochSeconds p + n < 253402300800"
  shows "\<exists>t q. addUtcSeconds v n = Inr t \<and> parseUtcTimestamp t = Inr q
           \<and> epochNanoseconds q = epochNanoseconds p + n * NANOS_PER_SECOND"
proof -
  let ?N = "epochNanoseconds p + n * NANOS_PER_SECOND"
  have N: "?N = nanoseconds p + (epochSeconds p + n) * 1000000000"
    using parse_fields(3) [OF assms(1)] by (simp add: NANOS_PER_SECOND_def algebra_simps)
  have "?N div 1000000000 = epochSeconds p + n"
    unfolding N using parse_fields(1,2) [OF assms(1)] by simp
  moreover have "0 \<le> ?N" using N assms parse_fields(1) [OF assms(1)] by simp
  ultimately show ?thesis
    using format_parse [of ?N] assms by (auto simp: addUtcSeconds_def)
qed

theorem addUtcSeconds_exact_witness:
  "\<exists>t q. addUtcSeconds ''2024-02-28T23:59:59.25Z'' 86400 = Inr t \<and> parseUtcTimestamp t = Inr q
     \<and> epochNanoseconds q = 1709251199250000000"
proof -
  have p: "parseUtcTimestamp ''2024-02-28T23:59:59.25Z'' = Inr
      \<lparr> epochSeconds = 1709164799, nanoseconds = 250000000,
        epochNanoseconds = 1709164799250000000, canonical = ''2024-02-28T23:59:59.25Z'' \<rparr>"
    by code_simp
  show ?thesis
    using addUtcSeconds_exact [OF p, of 86400] by (simp add: max_safe_integer_def NANOS_PER_SECOND_def)
qed

text \<open>
  The parser accepts exactly the strings of the documented shape: four-digit
  year of at least 100 (\<open>Date.UTC\<close> moves the years 0 to 99 into the twentieth
  century, so the round-trip check rejects them), an existing calendar date, a
  clock time before 24:00:00, an optional fraction of one to nine digits, and
  the letter Z; no other suffix and no offset.
\<close>

theorem isUtcIsoTimestamp_iff:
  "isUtcIsoTimestamp v \<longleftrightarrow>
     (\<exists>y mo d h mi s frac tail.
        v = iso_string y mo d h mi s tail
        \<and> (tail = ''Z'' \<and> frac = [] \<or> tail = ''.'' @ frac @ ''Z'' \<and> 1 \<le> length frac \<and> length frac \<le> 9)
        \<and> all_digits frac
        \<and> digits_of_width 4 y \<and> digits_of_width 2 mo \<and> digits_of_width 2 d
        \<and> digits_of_width 2 h \<and> digits_of_width 2 mi \<and> digits_of_width 2 s
        \<and> 100 \<le> num y \<and> 1 \<le> num mo \<and> num mo \<le> 12
        \<and> 1 \<le> num d \<and> num d \<le> daysInMonth (num y) (num mo)
        \<and> num h \<le> 23 \<and> num mi \<le> 59 \<and> num s \<le> 59)"
proof -
  have tail: "match_tail t = Some f \<longleftrightarrow>
      (t = ''Z'' \<and> f = [] \<or> t = ''.'' @ f @ ''Z'' \<and> 1 \<le> length f \<and> length f \<le> 9) \<and> all_digits f" for t f
    using match_tail_SomeD [of t f] match_tail_frac [of f] by auto
  have f: "fields_ok y mo d h mi s \<longleftrightarrow> 100 \<le> num y \<and> 1 \<le> num mo \<and> num mo \<le> 12
        \<and> 1 \<le> num d \<and> num d \<le> daysInMonth (num y) (num mo)
        \<and> num h \<le> 23 \<and> num mi \<le> 59 \<and> num s \<le> 59" for y mo d h mi s
    by (auto simp: fields_ok_def valid_civil_def clock_ok_def)
  show ?thesis
    unfolding isUtcIsoTimestamp_def is_ok_iff parse_iff UTC_ISO_RE_Some_iff tail f by blast
qed

subsection \<open>Comparison\<close>

definition instant :: "string \<Rightarrow> int" where
  "instant v = (case parseUtcTimestamp v of Inl _ \<Rightarrow> 0 | Inr p \<Rightarrow> epochNanoseconds p)"

lemma compareUtc_Inr_iff:
  "compareUtc a b = Inr c \<longleftrightarrow>
     isUtcIsoTimestamp a \<and> isUtcIsoTimestamp b \<and> c = sgn (instant a - instant b)"
  by (cases "parseUtcTimestamp a"; cases "parseUtcTimestamp b")
    (auto simp: compareUtc_def isUtcIsoTimestamp_def instant_def Let_def)

lemma isBeforeUtc_Inr_iff:
  "isBeforeUtc a b = Inr c \<longleftrightarrow>
     isUtcIsoTimestamp a \<and> isUtcIsoTimestamp b \<and> c = (instant a < instant b)"
  by (auto simp: isBeforeUtc_def res_simps compareUtc_Inr_iff sgn_if)

lemma isBeforeOrEqualUtc_Inr_iff:
  "isBeforeOrEqualUtc a b = Inr c \<longleftrightarrow>
     isUtcIsoTimestamp a \<and> isUtcIsoTimestamp b \<and> c = (instant a \<le> instant b)"
  by (auto simp: isBeforeOrEqualUtc_def res_simps compareUtc_Inr_iff sgn_if)

lemma isAfterUtc_Inr_iff:
  "isAfterUtc a b = Inr c \<longleftrightarrow>
     isUtcIsoTimestamp a \<and> isUtcIsoTimestamp b \<and> c = (instant b < instant a)"
  by (auto simp: isAfterUtc_def res_simps compareUtc_Inr_iff sgn_if)

lemma addUtcSeconds_instant:
  assumes "addUtcSeconds v n = Inr t" "isUtcIsoTimestamp t"
    "instant v + n * NANOS_PER_SECOND < 253402300800 * NANOS_PER_SECOND"
  shows "instant t = instant v + n * NANOS_PER_SECOND"
proof -
  obtain p where p: "parseUtcTimestamp v = Inr p"
    and f: "formatUtcFromEpochNanos (epochNanoseconds p + n * NANOS_PER_SECOND) = Inr t"
    using assms(1) by (auto simp: addUtcSeconds_def res_simps)
  have nn: "0 \<le> epochNanoseconds p + n * NANOS_PER_SECOND"
    using f by (auto simp: formatUtcFromEpochNanos_def split: if_splits)
  have "(epochNanoseconds p + n * NANOS_PER_SECOND) div 1000000000 < 253402300800"
    using assms(3) p by (auto simp: instant_def NANOS_PER_SECOND_def)
  thus ?thesis
    using format_parse [OF nn] f p by (auto simp: instant_def)
qed

end
