(* ===== verification/Atomic_Money.thy ===== *)
theory Atomic_Money
  imports RG_Prelude
begin

text \<open>
  Integer money: \<^verbatim>\<open>src/domain/money.ts\<close>, the access-fee economics of
  \<^verbatim>\<open>src/v2/access/fee.ts\<close>, the display-unit conversion of
  \<^verbatim>\<open>src/x402/usdc-amount.ts\<close> with its constants, and the escrow amount
  helpers of \<^verbatim>\<open>src/v2/escrow/amounts.ts\<close>.

  Amounts are the strings the code keeps.  A JavaScript \<open>number\<close> argument is an
  \<open>int\<close>; the checks \<open>Number.isInteger\<close> and \<open>Number.isSafeInteger\<close> become the
  bound on its absolute value.  The \<open>number | string\<close> union of
  \<open>centsToUsdcAtomic\<close> is a sum.
\<close>

subsection \<open>Amount strings\<close>

definition isSafePositiveInteger :: "int \<Rightarrow> bool" where
  "isSafePositiveInteger value \<longleftrightarrow> abs value \<le> max_safe_integer \<and> value > 0"

definition isSafeNonNegativeInteger :: "int \<Rightarrow> bool" where
  "isSafeNonNegativeInteger value \<longleftrightarrow> abs value \<le> max_safe_integer \<and> value \<ge> 0"

definition isPositiveIntegerString :: "string \<Rightarrow> bool" where
  "isPositiveIntegerString value \<longleftrightarrow> (if \<not> canonical_pos value then False else length value \<le> 78)"

definition isNonNegativeAtomicString :: "string \<Rightarrow> bool" where
  "isNonNegativeAtomicString value \<longleftrightarrow>
     (if length value = 0 \<or> length value > 78 then False else canonical_nat value)"

definition isPositiveAtomicString :: "string \<Rightarrow> bool" where
  "isPositiveAtomicString value \<longleftrightarrow>
     (if length value = 0 \<or> length value > 78 then False else canonical_pos value)"

text \<open>The integer an amount string stands for, as \<open>BigInt(value)\<close> reads it.\<close>

definition amount :: "string \<Rightarrow> int" where
  "amount s = int (digits_val s)"

lemma atomic_canonical [simp]:
  "isNonNegativeAtomicString s \<Longrightarrow> canonical_nat s"
  "isPositiveAtomicString s \<Longrightarrow> canonical_pos s"
  by (auto simp: isNonNegativeAtomicString_def isPositiveAtomicString_def split: if_splits)

lemma positive_is_nonNegative: "isPositiveAtomicString s \<Longrightarrow> isNonNegativeAtomicString s"
  by (auto simp: isNonNegativeAtomicString_def isPositiveAtomicString_def canonical_nat_def
      split: if_splits)

lemma isPositiveAtomicString_iff:
  "isPositiveAtomicString s \<longleftrightarrow> isNonNegativeAtomicString s \<and> 0 < amount s"
  by (auto simp: isNonNegativeAtomicString_def isPositiveAtomicString_def canonical_pos_iff amount_def)

lemma isNonNegativeAtomicString_iff:
  "isNonNegativeAtomicString s \<longleftrightarrow> (\<exists>n < 10 ^ 78. s = decimal n)"
proof
  assume "isNonNegativeAtomicString s"
  hence c: "canonical_nat s" "length s \<le> 78"
    by (auto simp: isNonNegativeAtomicString_def split: if_splits)
  hence "s = decimal (digits_val s)" by (simp add: decimal_digits_val)
  moreover have "digits_val s < 10 ^ 78"
    using c length_decimal_le_iff [of 78 "digits_val s"] by (simp add: decimal_digits_val)
  ultimately show "\<exists>n < 10 ^ 78. s = decimal n" by blast
next
  assume "\<exists>n < 10 ^ 78. s = decimal n"
  then obtain n where n: "n < 10 ^ 78" "s = decimal n" by blast
  thus "isNonNegativeAtomicString s"
    using length_decimal_le_iff [of 78 n] by (simp add: isNonNegativeAtomicString_def)
qed

lemma bigint_atomic: "isNonNegativeAtomicString s \<Longrightarrow> js_bigint s = Some (amount s)"
  by (simp add: js_bigint_canonical amount_def)

lemma amount_nonneg [simp]: "0 \<le> amount s" "\<not> amount s < 0"
  by (simp_all add: amount_def)

lemma amount_int_str [simp]: "0 \<le> n \<Longrightarrow> amount (int_str n) = n"
  by (simp add: amount_def int_str_nonneg)

lemma amount_eq_iff:
  "isNonNegativeAtomicString s \<Longrightarrow> isNonNegativeAtomicString t \<Longrightarrow> s = t \<longleftrightarrow> amount s = amount t"
  by (simp add: amount_def canonical_nat_eq_iff)

lemma int_str_amount: "isNonNegativeAtomicString s \<Longrightarrow> int_str (amount s) = s"
  by (simp add: amount_def int_str_nonneg decimal_digits_val)

lemma int_str_atomic: "0 \<le> n \<Longrightarrow> n < 10 ^ 78 \<Longrightarrow> isNonNegativeAtomicString (int_str n)"
  by (auto simp: isNonNegativeAtomicString_iff int_str_nonneg intro!: exI [of _ "nat n"])

lemma amount_bound: "isNonNegativeAtomicString s \<Longrightarrow> amount s < 10 ^ 78"
  by (auto simp: isNonNegativeAtomicString_iff amount_def)

subsection \<open>Display units\<close>

datatype amount_error =
    InvalidDecimals | EmptyDisplay | ScientificNotation | InvalidDisplay | ExcessPrecision
  | ConversionFailed | BelowSmallestUnit | NotABigInt | NegativeUnits
  | CentsUnsafe | CentsNegative | CentsInvalid | FeeInvariant | FeeAmountMismatch | FeeAssetMismatch
  | NOT_ATOMIC_STRING | NOT_POSITIVE | EXCEEDS_HTS_RANGE | CONSERVATION_FAILED

definition before_dot :: "string \<Rightarrow> string" where
  "before_dot s = takeWhile (\<lambda>c. c \<noteq> CHR ''.'') s"

text \<open>The second element of \<open>s.split(".")\<close>, \<open>""\<close> when there is none.\<close>

definition after_dot :: "string \<Rightarrow> string" where
  "after_dot s = takeWhile (\<lambda>c. c \<noteq> CHR ''.'') (tl (dropWhile (\<lambda>c. c \<noteq> CHR ''.'') s))"

text \<open>The pattern \<open>/^\d+(\.\d+)?$/\<close>.\<close>

definition is_display_decimal :: "string \<Rightarrow> bool" where
  "is_display_decimal s \<longleftrightarrow>
     (let w = takeWhile is_digit s; r = dropWhile is_digit s in
      w \<noteq> [] \<and> (r = [] \<or> (hd r = CHR ''.'' \<and> tl r \<noteq> [] \<and> all_digits (tl r))))"

definition displayAmountToSmallestUnits :: "string \<Rightarrow> int \<Rightarrow> amount_error + string" where
  "displayAmountToSmallestUnits displayAmount decimals =
     (if decimals < 0 \<or> decimals > 18 then Inl InvalidDecimals
      else let trimmed = js_trim displayAmount in
      if trimmed = [] then Inl EmptyDisplay
      else if list_ex (\<lambda>c. c = CHR ''e'' \<or> c = CHR ''E'') trimmed then Inl ScientificNotation
      else if \<not> is_display_decimal trimmed then Inl InvalidDisplay
      else let wholePart = before_dot trimmed; fractionPartRaw = after_dot trimmed in
      if int (length fractionPartRaw) > decimals then Inl ExcessPrecision
      else let fractionPadded = padEnd (nat decimals) (CHR ''0'') fractionPartRaw;
               combined = strip_leading_zeros (wholePart @ fractionPadded) in
      if combined = [] \<or> \<not> all_digits combined then Inl ConversionFailed
      else let normalized = (if combined = [] then ''0'' else strip_leading_zeros combined) in
      case js_bigint normalized of None \<Rightarrow> Inl NotABigInt
      | Some asBigInt \<Rightarrow>
          if asBigInt < 1 then Inl BelowSmallestUnit else Inr (int_str asBigInt))"

definition smallestUnitsToDisplayAmount :: "string \<Rightarrow> int \<Rightarrow> amount_error + string" where
  "smallestUnitsToDisplayAmount smallestUnits decimals =
     (if decimals < 0 \<or> decimals > 18 then Inl InvalidDecimals
      else case js_bigint smallestUnits of None \<Rightarrow> Inl NotABigInt
      | Some v \<Rightarrow>
        if v < 0 then Inl NegativeUnits
        else if decimals = 0 then Inr (int_str v)
        else let k = nat decimals;
                 raw = padStart (k + 1) (CHR ''0'') (int_str v);
                 whole = (let w = take (length raw - k) raw in if w = [] then ''0'' else w);
                 fraction = drop (length raw - k) raw;
                 trimmedFraction = strip_trailing_zeros fraction in
             Inr (if length trimmedFraction > 0 then whole @ ''.'' @ trimmedFraction else whole))"

subsection \<open>Access fee\<close>

definition VERIFIED_USDC_TOKEN_ID :: string where "VERIFIED_USDC_TOKEN_ID = ''0.0.429274''"
definition VERIFIED_USDC_DECIMALS :: int where "VERIFIED_USDC_DECIMALS = 6"

definition ACCESS_FEE_DISPLAY_AMOUNT :: string where "ACCESS_FEE_DISPLAY_AMOUNT = ''0.001''"
definition ACCESS_FEE_TOKEN_ID :: string where "ACCESS_FEE_TOKEN_ID = VERIFIED_USDC_TOKEN_ID"
definition ACCESS_FEE_DECIMALS :: int where "ACCESS_FEE_DECIMALS = VERIFIED_USDC_DECIMALS"
definition ACCESS_ACTION_TYPES :: "string list" where
  "ACCESS_ACTION_TYPES = [''TENDER_ACTIVATE'', ''BID_SUBMIT'']"
definition USDC_ATOMIC_PER_CENT :: int where "USDC_ATOMIC_PER_CENT = 10000"

definition deriveAccessFeeAtomic :: "amount_error + string" where
  "deriveAccessFeeAtomic =
     displayAmountToSmallestUnits ACCESS_FEE_DISPLAY_AMOUNT ACCESS_FEE_DECIMALS"

text \<open>The module constant, with the load-time check that throws when it is not \<open>"1000"\<close>.\<close>

definition load_ACCESS_FEE_AMOUNT_ATOMIC :: "amount_error + string" where
  "load_ACCESS_FEE_AMOUNT_ATOMIC =
     bind_res deriveAccessFeeAtomic (\<lambda>derived.
       if derived \<noteq> ''1000'' then Inl FeeInvariant else Inr derived)"

definition isAccessActionType :: "string \<Rightarrow> bool" where
  "isAccessActionType value = List.member ACCESS_ACTION_TYPES value"

definition centsToUsdcAtomic :: "int + string \<Rightarrow> amount_error + string" where
  "centsToUsdcAtomic cents =
     (case cents of
        Inl n \<Rightarrow> if abs n > max_safe_integer then Inl CentsUnsafe
                 else if n < 0 then Inl CentsNegative
                 else Inr (int_str (n * USDC_ATOMIC_PER_CENT))
      | Inr s \<Rightarrow> if \<not> canonical_nat s then Inl CentsInvalid
                 else case js_bigint s of None \<Rightarrow> Inl NotABigInt
                   | Some n \<Rightarrow> Inr (int_str (n * USDC_ATOMIC_PER_CENT)))"

definition assertAccessFeeAmountAtomic :: "string \<Rightarrow> amount_error + unit" where
  "assertAccessFeeAmountAtomic amountAtomic =
     bind_res deriveAccessFeeAtomic (\<lambda>expected.
       if amountAtomic \<noteq> expected then Inl FeeAmountMismatch else Inr ())"

definition assertAccessFeeAsset :: "string \<Rightarrow> amount_error + unit" where
  "assertAccessFeeAsset asset =
     (if asset \<noteq> ACCESS_FEE_TOKEN_ID then Inl FeeAssetMismatch else Inr ())"

subsection \<open>Escrow amounts\<close>

definition MAX_HTS_ATOMIC_AMOUNT :: int where "MAX_HTS_ATOMIC_AMOUNT = 9223372036854775807"

definition assertPositiveEscrowAmount :: "string \<Rightarrow> amount_error + int" where
  "assertPositiveEscrowAmount v =
     (if \<not> isPositiveAtomicString v then Inl NOT_ATOMIC_STRING
      else case js_bigint v of None \<Rightarrow> Inl NotABigInt
        | Some parsed \<Rightarrow> if parsed > MAX_HTS_ATOMIC_AMOUNT then Inl EXCEEDS_HTS_RANGE else Inr parsed)"

definition assertNonNegativeEscrowAmount :: "string \<Rightarrow> amount_error + int" where
  "assertNonNegativeEscrowAmount v =
     (if \<not> isNonNegativeAtomicString v then Inl NOT_ATOMIC_STRING
      else case js_bigint v of None \<Rightarrow> Inl NotABigInt
        | Some parsed \<Rightarrow> if parsed > MAX_HTS_ATOMIC_AMOUNT then Inl EXCEEDS_HTS_RANGE else Inr parsed)"

definition assertAllocationConservation :: "string \<Rightarrow> string \<Rightarrow> string \<Rightarrow> amount_error + unit" where
  "assertAllocationConservation fundedAmountAtomic winningAmountAtomic excessRefundAtomic =
     bind_res (assertPositiveEscrowAmount fundedAmountAtomic) (\<lambda>funded.
     bind_res (assertPositiveEscrowAmount winningAmountAtomic) (\<lambda>winning.
     bind_res (assertNonNegativeEscrowAmount excessRefundAtomic) (\<lambda>excess.
     if winning > funded then Inl CONSERVATION_FAILED
     else if winning + excess \<noteq> funded then Inl CONSERVATION_FAILED
     else Inr ())))"

definition assertPartialConservation :: "string \<Rightarrow> string \<Rightarrow> string \<Rightarrow> amount_error + unit" where
  "assertPartialConservation lockedAmountAtomic winnerAmountAtomic shipperAmountAtomic =
     bind_res (assertPositiveEscrowAmount lockedAmountAtomic) (\<lambda>locked.
     bind_res (assertNonNegativeEscrowAmount winnerAmountAtomic) (\<lambda>toWinner.
     bind_res (assertNonNegativeEscrowAmount shipperAmountAtomic) (\<lambda>toShipper.
     if toWinner = 0 \<and> toShipper = 0 then Inl NOT_POSITIVE
     else if toWinner + toShipper \<noteq> locked then Inl CONSERVATION_FAILED
     else Inr ())))"

definition deriveExcessRefundAtomic :: "string \<Rightarrow> string \<Rightarrow> amount_error + string" where
  "deriveExcessRefundAtomic fundedAmountAtomic winningAmountAtomic =
     bind_res (assertPositiveEscrowAmount fundedAmountAtomic) (\<lambda>funded.
     bind_res (assertPositiveEscrowAmount winningAmountAtomic) (\<lambda>winning.
     if winning > funded then Inl CONSERVATION_FAILED
     else Inr (int_str (funded - winning))))"

subsection \<open>Lemmas\<close>

lemma fee_value: "deriveAccessFeeAtomic = Inr ''1000''"
  by code_simp

lemma assertPositiveEscrowAmount_Inr_iff [res_simps]:
  "assertPositiveEscrowAmount v = Inr n \<longleftrightarrow>
     isPositiveAtomicString v \<and> amount v \<le> MAX_HTS_ATOMIC_AMOUNT \<and> n = amount v"
  by (auto simp: assertPositiveEscrowAmount_def positive_is_nonNegative bigint_atomic)

lemma assertNonNegativeEscrowAmount_Inr_iff [res_simps]:
  "assertNonNegativeEscrowAmount v = Inr n \<longleftrightarrow>
     isNonNegativeAtomicString v \<and> amount v \<le> MAX_HTS_ATOMIC_AMOUNT \<and> n = amount v"
  by (auto simp: assertNonNegativeEscrowAmount_def bigint_atomic)

lemma amount_sum_le:
  assumes "amount w + amount e = amount f"
  shows "amount w \<le> amount f" "amount e \<le> amount f"
  using assms amount_nonneg(1) [of w] amount_nonneg(1) [of e] by linarith+

lemma assertAllocationConservation_iff:
  "assertAllocationConservation f w e = Inr () \<longleftrightarrow>
     isPositiveAtomicString f \<and> isPositiveAtomicString w \<and> isNonNegativeAtomicString e
     \<and> amount f \<le> MAX_HTS_ATOMIC_AMOUNT \<and> amount w + amount e = amount f"
  by (auto simp: assertAllocationConservation_def res_simps dest: amount_sum_le)

lemma assertPartialConservation_iff:
  "assertPartialConservation l w s = Inr () \<longleftrightarrow>
     isPositiveAtomicString l \<and> isNonNegativeAtomicString w \<and> isNonNegativeAtomicString s
     \<and> amount l \<le> MAX_HTS_ATOMIC_AMOUNT \<and> amount w + amount s = amount l"
  by (auto simp: assertPartialConservation_def res_simps isPositiveAtomicString_iff dest: amount_sum_le)

text \<open>
  The excess refund the code derives is the unique refund its own
  conservation check accepts: for a derived value the check passes, every value
  the check accepts is the derived one, and the derivation fails only for
  malformed amounts, amounts above the signed 64-bit range or a winning amount
  above the funded one.
\<close>

theorem deriveExcessRefund_conserves:
  "(deriveExcessRefundAtomic funded winning = Inr excess)
     = (assertAllocationConservation funded winning excess = Inr ())"
proof
  assume "deriveExcessRefundAtomic funded winning = Inr excess"
  hence h: "isPositiveAtomicString funded" "isPositiveAtomicString winning"
    "amount funded \<le> MAX_HTS_ATOMIC_AMOUNT" "amount winning \<le> amount funded"
    "excess = int_str (amount funded - amount winning)"
    by (auto simp: deriveExcessRefundAtomic_def res_simps)
  hence "amount excess = amount funded - amount winning" by simp
  moreover have "isNonNegativeAtomicString excess"
  proof -
    have "amount funded - amount winning < 10 ^ 78"
      using amount_bound [OF positive_is_nonNegative [OF h(1)]] amount_nonneg(1) [of winning] by linarith
    thus ?thesis unfolding h(5) using h(4) by (intro int_str_atomic) auto
  qed
  ultimately show "assertAllocationConservation funded winning excess = Inr ()"
    using h by (simp add: assertAllocationConservation_iff)
next
  assume "assertAllocationConservation funded winning excess = Inr ()"
  hence h: "isPositiveAtomicString funded" "isPositiveAtomicString winning"
    "isNonNegativeAtomicString excess" "amount funded \<le> MAX_HTS_ATOMIC_AMOUNT"
    "amount winning + amount excess = amount funded"
    by (auto simp: assertAllocationConservation_iff)
  have "amount funded - amount winning = amount excess" using h(5) by linarith
  hence "int_str (amount funded - amount winning) = excess"
    using int_str_amount [OF h(3)] by simp
  thus "deriveExcessRefundAtomic funded winning = Inr excess"
    using h amount_sum_le [OF h(5)] by (auto simp: deriveExcessRefundAtomic_def res_simps)
qed

subsection \<open>Display round trip\<close>

lemma digits_no_dot: "all_digits s \<Longrightarrow> c \<in> set s \<Longrightarrow> c \<noteq> CHR ''.'' \<and> c \<noteq> CHR ''e'' \<and> c \<noteq> CHR ''E''"
  by (auto simp: all_digits_def list_all_iff is_digit_def)

lemma display_parts:
  assumes w: "all_digits w" "w \<noteq> []" and f: "all_digits f"
  defines "s \<equiv> (if f = [] then w else w @ ''.'' @ f)"
  shows "js_trim s = s" "s \<noteq> []" "\<not> list_ex (\<lambda>c. c = CHR ''e'' \<or> c = CHR ''E'') s"
    "is_display_decimal s" "before_dot s = w" "after_dot s = f"
proof -
  show n: "s \<noteq> []" using w by (simp add: s_def)
  have "is_digit (hd s)" "is_digit (last s)"
    using w f by (auto simp: s_def all_digits_def list_all_iff)
  thus "js_trim s = s" using n digit_not_space js_trim_id by blast
  show "\<not> list_ex (\<lambda>c. c = CHR ''e'' \<or> c = CHR ''E'') s"
    using w(1) f digits_no_dot by (auto simp: s_def list_ex_iff split: if_splits)
  have dot: "\<not> is_digit (CHR ''.'')" by (simp add: is_digit_def)
  have tw: "takeWhile is_digit w = w" "dropWhile is_digit w = []"
    "takeWhile is_digit (w @ CHR ''.'' # f) = w" "dropWhile is_digit (w @ CHR ''.'' # f) = CHR ''.'' # f"
    using w(1) dot by (auto simp: all_digits_def list_all_iff takeWhile_append2 dropWhile_append2
        takeWhile_eq_all_conv dropWhile_eq_Nil_conv)
  show "is_display_decimal s"
    by (cases "f = []") (use w f in \<open>simp_all add: is_display_decimal_def s_def tw\<close>)
  have nd: "c \<in> set w \<Longrightarrow> c \<noteq> CHR ''.''" "c \<in> set f \<Longrightarrow> c \<noteq> CHR ''.''" for c
    using digits_no_dot w(1) f by blast+
  hence dt: "takeWhile (\<lambda>c. c \<noteq> CHR ''.'') w = w" "dropWhile (\<lambda>c. c \<noteq> CHR ''.'') w = []"
    "takeWhile (\<lambda>c. c \<noteq> CHR ''.'') f = f"
    "takeWhile (\<lambda>c. c \<noteq> CHR ''.'') (w @ CHR ''.'' # f) = w"
    "dropWhile (\<lambda>c. c \<noteq> CHR ''.'') (w @ CHR ''.'' # f) = CHR ''.'' # f"
    by (auto simp: takeWhile_append2 dropWhile_append2 takeWhile_eq_all_conv dropWhile_eq_Nil_conv)
  show "before_dot s = w" "after_dot s = f"
    unfolding before_dot_def after_dot_def s_def
    by (cases "f = []"; simp add: dt del: takeWhile_eq_all_conv dropWhile_eq_Nil_conv)+
qed

lemma display_to_units:
  assumes w: "all_digits w" "w \<noteq> []" and f: "all_digits f" "length f \<le> k" "k \<le> 18"
    and pos: "0 < digits_val (w @ padEnd k (CHR ''0'') f)"
  shows "displayAmountToSmallestUnits (if f = [] then w else w @ ''.'' @ f) (int k)
    = Inr (decimal (digits_val (w @ padEnd k (CHR ''0'') f)))"
proof -
  note parts = display_parts [OF w f(1)]
  let ?c = "strip_leading_zeros (w @ padEnd k (CHR ''0'') f)"
  have d: "all_digits (w @ padEnd k (CHR ''0'') f)" "w @ padEnd k (CHR ''0'') f \<noteq> []"
    using w f all_digits_padEnd by auto
  hence c: "all_digits ?c" "?c \<noteq> []" by (auto intro: strip_leading_all_digits)
  have "js_bigint (strip_leading_zeros ?c) = Some (int (digits_val (w @ padEnd k (CHR ''0'') f)))"
    using c strip_leading_all_digits [OF c(1)] by (simp add: js_bigint_digits strip_leading_val)
  thus ?thesis
    using parts w(2) f c pos unfolding displayAmountToSmallestUnits_def Let_def
    by (simp add: int_str_def)
qed

text \<open>
  Printing an amount of smallest units as a display amount and reading it
  back gives the same amount, for every positive amount and every number of
  decimals the code allows (0 to 18); nothing is rounded.
\<close>

theorem display_round_trip:
  assumes "0 < n" "k \<le> 18"
  shows "bind_res (smallestUnitsToDisplayAmount (decimal n) (int k))
           (\<lambda>s. displayAmountToSmallestUnits s (int k)) = Inr (decimal n)"
proof (cases "k = 0")
  case True
  have "displayAmountToSmallestUnits (decimal n) (int 0) = Inr (decimal n)"
    using display_to_units [of "decimal n" "[]" 0] assms by (simp add: padEnd_def)
  thus ?thesis using True by (simp add: smallestUnitsToDisplayAmount_def int_str_def)
next
  case False
  define raw where "raw = padStart (Suc k) (CHR ''0'') (decimal n)"
  define w fr where "w = take (length raw - k) raw" and "fr = drop (length raw - k) raw"
  have len: "k < length raw" by (simp add: raw_def padStart_def)
  have raw: "all_digits raw" "digits_val raw = n"
    by (simp_all add: raw_def all_digits_padStart)
  have wf: "raw = w @ fr" "length fr = k" "w \<noteq> []" using len by (auto simp: w_def fr_def)
  hence dig: "all_digits w" "all_digits fr" using raw(1) by auto
  let ?t = "strip_trailing_zeros fr"
  have t: "all_digits ?t" "length ?t \<le> k" "padEnd k (CHR ''0'') ?t = fr"
    using dig wf(2) all_digits_strip length_strip_trailing [of fr] padEnd_strip by auto
  have "smallestUnitsToDisplayAmount (decimal n) (int k) = Inr (if ?t = [] then w else w @ ''.'' @ ?t)"
  proof -
    have c: "\<not> (int k < 0 \<or> int k > 18)" "int k \<noteq> 0" "int_str (int n) = decimal n" "\<not> int n < 0"
      using False assms by (simp_all add: int_str_def)
    show ?thesis
      unfolding smallestUnitsToDisplayAmount_def Let_def js_bigint_decimal option.case c(3) nat_int
        Suc_eq_plus1 [symmetric] raw_def [symmetric] w_def [symmetric] fr_def [symmetric]
      using c wf(3) by simp
  qed
  moreover have "displayAmountToSmallestUnits (if ?t = [] then w else w @ ''.'' @ ?t) (int k)
      = Inr (decimal n)"
    using display_to_units [OF dig(1) wf(3) t(1,2) assms(2)] t(3) wf(1) raw(2) assms by simp
  ultimately show ?thesis by simp
qed

theorem display_round_trip_witness:
  "bind_res (smallestUnitsToDisplayAmount (decimal 1000) (int 6))
     (\<lambda>s. displayAmountToSmallestUnits s (int 6)) = Inr (decimal 1000)"
  by (rule display_round_trip) simp_all

text \<open>
  The module constant of the access fee loads, its value is the string
  \<open>"1000"\<close>, and that is the only amount the fee check accepts.
\<close>

theorem access_fee_exact:
  "load_ACCESS_FEE_AMOUNT_ATOMIC = Inr ''1000''
   \<and> (assertAccessFeeAmountAtomic a = Inr ()) = (a = ''1000'')
   \<and> smallestUnitsToDisplayAmount ''1000'' ACCESS_FEE_DECIMALS = Inr ACCESS_FEE_DISPLAY_AMOUNT"
proof (intro conjI)
  show "load_ACCESS_FEE_AMOUNT_ATOMIC = Inr ''1000''"
    by (simp add: load_ACCESS_FEE_AMOUNT_ATOMIC_def fee_value)
  show "(assertAccessFeeAmountAtomic a = Inr ()) = (a = ''1000'')"
    by (simp add: assertAccessFeeAmountAtomic_def fee_value)
  show "smallestUnitsToDisplayAmount ''1000'' ACCESS_FEE_DECIMALS = Inr ACCESS_FEE_DISPLAY_AMOUNT"
    by code_simp
qed

end
