(* ===== verification/Canonical_Json.thy ===== *)
theory Canonical_Json
  imports RG_Prelude
begin

text \<open>
  Deterministic JSON for the trust-critical hashes, \<^verbatim>\<open>src/domain/canonical-hash.ts\<close>.

  A JavaScript value is a \<open>json\<close>: the supported shapes, and one constructor for
  each shape the code rejects (non-finite numbers, \<open>undefined\<close>, functions,
  bigints, symbols, dates, maps, sets, class instances).  Numbers are integers;
  an array element \<open>None\<close> is a hole of a sparse array; an object is its list of
  own properties in insertion order.  SHA-256 is a parameter: a function from
  the canonical text to the hexadecimal digest.  The lemmas show that the
  canonical text determines the value up to the order of object keys.
\<close>

datatype json =
    JNull | JBool bool | JNum int | JNonFinite | JStr string | JUndefined | JFunction
  | JBigint int | JSymbol | JArr "json option list" | JObj "(string \<times> json) list"
  | JDate | JMap | JSet | JInstance

datatype canonical_error =
    UnsupportedNumber | UnsupportedUndefined | UnsupportedFunction | UnsupportedBigint
  | UnsupportedSymbol | UnsupportedSparse | UnsupportedDate | UnsupportedMap | UnsupportedSet
  | UnsupportedInstance | UnexpectedDigest | InvalidHashFormat

subsection \<open>\<open>JSON.stringify\<close> on strings\<close>

definition hex_digit :: "nat \<Rightarrow> char" where
  "hex_digit d = ''0123456789abcdef'' ! d"

definition json_escape :: "char \<Rightarrow> string" where
  "json_escape c =
     (if c = CHR 0x22 then [CHR 0x5C, CHR 0x22]
      else if c = CHR 0x5C then [CHR 0x5C, CHR 0x5C]
      else if c = CHR 0x08 then [CHR 0x5C, CHR ''b'']
      else if c = CHR 0x0C then [CHR 0x5C, CHR ''f'']
      else if c = CHR 0x0A then [CHR 0x5C, CHR ''n'']
      else if c = CHR 0x0D then [CHR 0x5C, CHR ''r'']
      else if c = CHR 0x09 then [CHR 0x5C, CHR ''t'']
      else if (of_char c :: nat) < 32
        then CHR 0x5C # ''u00'' @ [hex_digit (of_char c div 16), hex_digit (of_char c mod 16)]
      else [c])"

definition json_quote :: "string \<Rightarrow> string" where
  "json_quote s = CHR 0x22 # concat (map json_escape s) @ [CHR 0x22]"

fun join :: "string \<Rightarrow> string list \<Rightarrow> string" where
  "join sep [] = []"
| "join sep [x] = x"
| "join sep (x # y # ys) = x @ sep @ join sep (y # ys)"

subsection \<open>Canonical text\<close>

text \<open>
  The parts of an object in the order of the sorted keys.  The children are pure
  results, so the first failing key in sorted order decides the error.
\<close>

primrec object_parts :: "(string \<times> (canonical_error + string)) list \<Rightarrow> canonical_error + string list" where
  "object_parts [] = Inr []"
| "object_parts (p # ps) =
     bind_res (snd p) (\<lambda>child. bind_res (object_parts ps) (\<lambda>rest.
       Inr ((json_quote (fst p) @ '':'' @ child) # rest)))"

primrec array_parts :: "(canonical_error + string) option list \<Rightarrow> canonical_error + string list" where
  "array_parts [] = Inr []"
| "array_parts (x # xs) =
     bind_res (case x of None \<Rightarrow> Inl UnsupportedSparse | Some r \<Rightarrow> r) (\<lambda>item.
     bind_res (array_parts xs) (\<lambda>rest. Inr (item # rest)))"

primrec canonicalizeInternal :: "json \<Rightarrow> canonical_error + string" where
  "canonicalizeInternal JNull = Inr ''null''"
| "canonicalizeInternal (JBool b) = Inr (if b then ''true'' else ''false'')"
| "canonicalizeInternal (JNum n) = Inr (int_str n)"
| "canonicalizeInternal JNonFinite = Inl UnsupportedNumber"
| "canonicalizeInternal (JStr s) = Inr (json_quote s)"
| "canonicalizeInternal JUndefined = Inl UnsupportedUndefined"
| "canonicalizeInternal JFunction = Inl UnsupportedFunction"
| "canonicalizeInternal (JBigint n) = Inl UnsupportedBigint"
| "canonicalizeInternal JSymbol = Inl UnsupportedSymbol"
| "canonicalizeInternal (JArr items) =
     (let rs = map (map_option canonicalizeInternal) items in
      if list_ex (\<lambda>x. x = None) rs then Inl UnsupportedSparse
      else bind_res (array_parts rs) (\<lambda>parts. Inr (''['' @ join '','' parts @ '']'')))"
| "canonicalizeInternal JDate = Inl UnsupportedDate"
| "canonicalizeInternal JMap = Inl UnsupportedMap"
| "canonicalizeInternal JSet = Inl UnsupportedSet"
| "canonicalizeInternal JInstance = Inl UnsupportedInstance"
| "canonicalizeInternal (JObj props) =
     bind_res (object_parts (sort_key fst (map (map_prod id canonicalizeInternal) props)))
       (\<lambda>parts. Inr (''{'' @ join '','' parts @ ''}''))"

definition canonicalize :: "json \<Rightarrow> canonical_error + string" where
  "canonicalize v = canonicalizeInternal v"

definition is_hex64 :: "string \<Rightarrow> bool" where
  "is_hex64 d \<longleftrightarrow> length d = 64 \<and> list_all is_lower_hex d"

text \<open>The digest of SHA-256 is a parameter \<open>sha256\<close> of the functions that hash.\<close>

type_synonym hash_fn = "string \<Rightarrow> string"

definition canonicalSha256 :: "hash_fn \<Rightarrow> json \<Rightarrow> canonical_error + string" where
  "canonicalSha256 sha256 v =
     bind_res (canonicalize v) (\<lambda>c.
       if \<not> is_hex64 (sha256 c) then Inl UnexpectedDigest else Inr (''sha256:'' @ sha256 c))"

definition is_sha256_hash :: "string \<Rightarrow> bool" where
  "is_sha256_hash v \<longleftrightarrow> take 7 v = ''sha256:'' \<and> is_hex64 (drop 7 v)"

definition assertSha256Hash :: "string \<Rightarrow> canonical_error + unit" where
  "assertSha256Hash v = (if \<not> is_sha256_hash v then Inl InvalidHashFormat else Inr ())"

definition compareCodePointStrings :: "string \<Rightarrow> string \<Rightarrow> int" where
  "compareCodePointStrings a b = (if a < b then - 1 else if a > b then 1 else 0)"

text \<open>What the code relies on: the hexadecimal digest has 64 lowercase digits.\<close>

definition hex_digest :: "hash_fn \<Rightarrow> bool" where
  "hex_digest sha256 \<longleftrightarrow> (\<forall>s. is_hex64 (sha256 s))"

lemma canonicalSha256_format: "canonicalSha256 h v = Inr d \<Longrightarrow> is_sha256_hash d"
  by (auto simp: canonicalSha256_def res_simps is_sha256_hash_def)

subsection \<open>The canonical text determines the value\<close>

text \<open>The value with every object's properties in key order.\<close>

primrec norm_json :: "json \<Rightarrow> json" where
  "norm_json JNull = JNull"
| "norm_json (JBool b) = JBool b"
| "norm_json (JNum n) = JNum n"
| "norm_json JNonFinite = JNonFinite"
| "norm_json (JStr s) = JStr s"
| "norm_json JUndefined = JUndefined"
| "norm_json JFunction = JFunction"
| "norm_json (JBigint n) = JBigint n"
| "norm_json JSymbol = JSymbol"
| "norm_json (JArr items) = JArr (map (map_option norm_json) items)"
| "norm_json JDate = JDate"
| "norm_json JMap = JMap"
| "norm_json JSet = JSet"
| "norm_json JInstance = JInstance"
| "norm_json (JObj props) = JObj (sort_key fst (map (map_prod id norm_json) props))"

lemma insort_key_map_prod:
  "insort_key fst (map_prod id f x) (map (map_prod id f) xs) = map (map_prod id f) (insort_key fst x xs)"
  by (induction xs) auto

lemma sort_key_map_prod:
  "sort_key fst (map (map_prod id f) xs) = map (map_prod id f) (sort_key fst xs)"
proof (induction xs)
  case (Cons x xs)
  show ?case by (simp only: list.map sort_key_simps Cons insort_key_map_prod)
qed simp

lemma of_char_bound: "(of_char c :: nat) < 256"
  by (metis of_char_mod_256 mod_less_divisor zero_less_numeral)

text \<open>A reader for one escaped character; escaping is injective because it has an inverse.\<close>

definition hex_of :: "char \<Rightarrow> nat" where
  "hex_of c = (if is_digit c then of_char c - 48 else of_char c - 87)"

definition unescape :: "string \<Rightarrow> char \<times> string" where
  "unescape s = (if hd s \<noteq> CHR 0x5C then (hd s, tl s)
     else let e = s ! 1; r = drop 2 s in
       if e = CHR ''u'' then (char_of (16 * hex_of (s ! 4) + hex_of (s ! 5)), drop 6 s)
       else if e = CHR ''b'' then (CHR 0x08, r) else if e = CHR ''f'' then (CHR 0x0C, r)
       else if e = CHR ''n'' then (CHR 0x0A, r) else if e = CHR ''r'' then (CHR 0x0D, r)
       else if e = CHR ''t'' then (CHR 0x09, r) else (e, r))"

lemma hex_of_hex_digit:
  assumes "d < 16"
  shows "hex_of (hex_digit d) = d"
proof -
  have "d = 0 \<or> d = 1 \<or> d = 2 \<or> d = 3 \<or> d = 4 \<or> d = 5 \<or> d = 6 \<or> d = 7 \<or> d = 8 \<or> d = 9
     \<or> d = 10 \<or> d = 11 \<or> d = 12 \<or> d = 13 \<or> d = 14 \<or> d = 15"
    using assms by arith
  thus ?thesis by (elim disjE) (simp_all add: hex_of_def hex_digit_def is_digit_def)
qed

lemma unescape_escape: "unescape (json_escape c @ x) = (c, x)"
proof (cases "(of_char c :: nat) < 32")
  case True
  let ?n = "of_char c :: nat"
  have "?n div 16 < 16" "?n mod 16 < 16"
    using of_char_bound [of c] less_mult_imp_div_less [of ?n 16 16] by simp_all
  hence "char_of (16 * hex_of (hex_digit (?n div 16)) + hex_of (hex_digit (?n mod 16))) = c"
    by (simp add: hex_of_hex_digit)
  thus ?thesis by (simp add: json_escape_def unescape_def)
next
  case False
  thus ?thesis by (simp add: json_escape_def unescape_def)
qed

lemma json_escape_inj: "json_escape c @ x = json_escape d @ y \<Longrightarrow> c = d \<and> x = y"
  by (metis prod.inject unescape_escape)

lemma json_escape_hd: "\<exists>a as. json_escape c = a # as \<and> a \<noteq> CHR 0x22"
  by (simp add: json_escape_def)

lemma quote_body_inj:
  "concat (map json_escape s) @ CHR 0x22 # x = concat (map json_escape t) @ CHR 0x22 # y
   \<Longrightarrow> s = t \<and> x = y"
proof (induction s arbitrary: t)
  case Nil
  show ?case
  proof (cases t)
    case (Cons d t')
    obtain a as where "json_escape d = a # as" "a \<noteq> CHR 0x22" using json_escape_hd by blast
    thus ?thesis using Nil Cons by simp
  qed (use Nil in simp)
next
  case (Cons c s)
  show ?case
  proof (cases t)
    case Nil
    obtain a as where "json_escape c = a # as" "a \<noteq> CHR 0x22" using json_escape_hd by blast
    thus ?thesis using Cons.prems Nil by simp
  next
    case t: (Cons d t')
    have "json_escape c @ (concat (map json_escape s) @ CHR 0x22 # x)
        = json_escape d @ (concat (map json_escape t') @ CHR 0x22 # y)"
      using Cons.prems t by simp
    from json_escape_inj [OF this] show ?thesis using Cons.IH [of t'] t by simp
  qed
qed

lemma json_quote_inj: "json_quote s @ x = json_quote t @ y \<Longrightarrow> s = t \<and> x = y"
  by (rule quote_body_inj) (simp add: json_quote_def)

text \<open>What may follow a value inside a canonical text.\<close>

definition delim :: "string \<Rightarrow> bool" where
  "delim r \<longleftrightarrow> r = [] \<or> hd r \<in> {CHR '','', CHR '']'', CHR ''}''}"

definition num_char :: "char \<Rightarrow> bool" where
  "num_char c \<longleftrightarrow> is_digit c \<or> c = CHR ''-''"

lemma int_str_chars: "list_all num_char (int_str n)"
  using all_digits_decimal [of "nat n"] all_digits_decimal [of "nat (- n)"]
  by (auto simp: int_str_def num_char_def all_digits_def list_all_iff)

lemma delim_not_num: "delim r \<Longrightarrow> r = [] \<or> \<not> num_char (hd r)"
  by (auto simp: delim_def num_char_def is_digit_def)

lemma takeWhile_run:
  assumes "list_all P s" "r = [] \<or> \<not> P (hd r)"
  shows "takeWhile P (s @ r) = s" "dropWhile P (s @ r) = r"
  using assms by (induction s) (cases r; auto)+

lemma int_str_run:
  assumes "int_str i @ r = int_str j @ r'" "delim r" "delim r'"
  shows "i = j \<and> r = r'"
  using takeWhile_run [OF int_str_chars [of i] delim_not_num [OF assms(2)]]
    takeWhile_run [OF int_str_chars [of j] delim_not_num [OF assms(3)]] assms(1)
  by (metis int_str_inj)

text \<open>The first character of a canonical text tells the kind of the value.\<close>

primrec lead :: "json \<Rightarrow> char \<Rightarrow> bool" where
  "lead JNull c = (c = CHR ''n'')"
| "lead (JBool b) c = (c = (if b then CHR ''t'' else CHR ''f''))"
| "lead (JNum n) c = num_char c"
| "lead (JStr s) c = (c = CHR 0x22)"
| "lead (JArr xs) c = (c = CHR ''['')"
| "lead (JObj ps) c = (c = CHR ''{'')"
| "lead JNonFinite c = False"
| "lead JUndefined c = False"
| "lead JFunction c = False"
| "lead (JBigint n) c = False"
| "lead JSymbol c = False"
| "lead JDate c = False"
| "lead JMap c = False"
| "lead JSet c = False"
| "lead JInstance c = False"

lemma int_str_hd: "\<exists>c cs. int_str n = c # cs \<and> num_char c"
proof -
  have "int_str n \<noteq> []" by (simp add: int_str_def)
  thus ?thesis using int_str_chars [of n] by (cases "int_str n") auto
qed

lemma canonical_lead: "canonicalizeInternal v = Inr s \<Longrightarrow> \<exists>c cs. s = c # cs \<and> lead v c"
  using int_str_hd
  by (cases v) (auto simp: res_simps Let_def json_quote_def split: if_splits)

text \<open>
  \<open>reads a\<close>: whatever follows, the canonical text of \<open>a\<close> can be read back in
  only one way.
\<close>

definition reads :: "json \<Rightarrow> bool" where
  "reads a \<longleftrightarrow> (\<forall>b s t r r'. canonicalizeInternal a = Inr s \<longrightarrow> canonicalizeInternal b = Inr t
     \<longrightarrow> s @ r = t @ r' \<longrightarrow> delim r \<longrightarrow> delim r' \<longrightarrow> norm_json a = norm_json b \<and> r = r')"

lemma readsD:
  "reads a \<Longrightarrow> canonicalizeInternal a = Inr s \<Longrightarrow> canonicalizeInternal b = Inr t
   \<Longrightarrow> s @ r = t @ r' \<Longrightarrow> delim r \<Longrightarrow> delim r' \<Longrightarrow> norm_json a = norm_json b \<and> r = r'"
  unfolding reads_def by blast

text \<open>Texts of a sequence of items, each followed by a comma or the closing bracket.\<close>

fun items_text :: "string \<Rightarrow> string list \<Rightarrow> string" where
  "items_text close [] = close"
| "items_text close [x] = x @ close"
| "items_text close (x # y # ys) = x @ '','' @ items_text close (y # ys)"

lemma join_items_text: "join '','' ps @ close = items_text close ps"
  by (induction close ps rule: items_text.induct) auto

text \<open>
  Two item sequences with the same text agree item by item, when every item of
  the first can be read back in only one way and no item looks like the closing
  bracket.
\<close>

lemma items_text_inj:
  assumes one: "\<And>x y r r'. x \<in> set xs \<Longrightarrow> y \<in> set ys \<Longrightarrow> tx x @ r = ty y @ r' \<Longrightarrow> delim r \<Longrightarrow> delim r'
      \<Longrightarrow> R x y \<and> r = r'"
    and hx: "\<And>x. x \<in> set xs \<Longrightarrow> tx x \<noteq> [] \<and> hd (tx x) \<noteq> c"
    and hy: "\<And>y. y \<in> set ys \<Longrightarrow> ty y \<noteq> [] \<and> hd (ty y) \<noteq> c"
    and c: "c \<in> {CHR '']'', CHR ''}''}"
    and eq: "items_text (c # r) (map tx xs) = items_text (c # r') (map ty ys)"
  shows "list_all2 R xs ys \<and> r = r'"
  using one hx hy eq
proof (induction xs arbitrary: ys)
  case Nil
  show ?case
  proof (cases ys)
    case (Cons y ys')
    have "hd (items_text (c # r') (map ty ys)) = hd (ty y)"
      using Cons Nil.prems(3) [of y] by (cases ys') auto
    hence "c = hd (ty y)" using Nil.prems(4) by (metis items_text.simps(1) list.sel(1) list.simps(8))
    thus ?thesis using Nil.prems(3) [of y] Cons by simp
  qed (use Nil in simp)
next
  case (Cons x xs)
  note hx = Cons.prems(2) [of x]
  show ?case
  proof (cases ys)
    case Nil
    have "hd (items_text (c # r) (map tx (x # xs))) = hd (tx x)" using hx by (cases xs) auto
    hence "c = hd (tx x)" using Cons.prems(4) Nil by simp
    thus ?thesis using hx by simp
  next
    case ys: (Cons y ys')
    define ra where "ra = (if xs = [] then c # r else CHR '','' # items_text (c # r) (map tx xs))"
    define rb where "rb = (if ys' = [] then c # r' else CHR '','' # items_text (c # r') (map ty ys'))"
    have ea: "items_text (c # r) (map tx (x # xs)) = tx x @ ra" by (cases xs) (auto simp: ra_def)
    have eb: "items_text (c # r') (map ty ys) = ty y @ rb" using ys by (cases ys') (auto simp: rb_def)
    have d: "delim ra" "delim rb" using c by (auto simp: ra_def rb_def delim_def)
    have R: "R x y" "ra = rb"
      using Cons.prems(1) [of x y ra rb] Cons.prems(4) ea eb d ys by auto
    show ?thesis
    proof (cases "xs = [] \<or> ys' = []")
      case True
      have "CHR '','' \<noteq> c" using c by auto
      hence "xs = [] \<and> ys' = [] \<and> r = r'" using True R(2) by (auto simp: ra_def rb_def split: if_splits)
      thus ?thesis using R ys by simp
    next
      case False
      have tl: "items_text (c # r) (map tx xs) = items_text (c # r') (map ty ys')"
        using False R(2) by (simp add: ra_def rb_def)
      have "list_all2 R xs ys' \<and> r = r'"
        by (rule Cons.IH [OF _ _ _ tl]) (use Cons.prems(1-3) ys in auto)
      thus ?thesis using R ys by simp
    qed
  qed
qed

lemma array_parts_Inr_iff:
  "array_parts (map (map_option f) xs) = Inr ps \<longleftrightarrow>
     (\<exists>vs. xs = map Some vs \<and> list_all2 (\<lambda>v p. f v = Inr p) vs ps)"
proof (induction xs arbitrary: ps)
  case Nil
  show ?case by auto
next
  case (Cons x xs)
  show ?case
  proof (cases x)
    case None
    thus ?thesis by (auto simp: Cons_eq_map_conv)
  next
    case (Some v)
    thus ?thesis
      by (auto simp: res_simps Cons Cons_eq_map_conv list_all2_Cons1 list_all2_Cons2)
  qed
qed

lemma object_parts_Inr_iff:
  "object_parts (map (map_prod id f) ps) = Inr parts \<longleftrightarrow>
     list_all2 (\<lambda>p q. \<exists>t. f (snd p) = Inr t \<and> q = json_quote (fst p) @ '':'' @ t) ps parts"
  by (induction ps arbitrary: parts) (auto simp: res_simps list_all2_Cons1)

definition text_of :: "json \<Rightarrow> string" where
  "text_of v = (case canonicalizeInternal v of Inl _ \<Rightarrow> [] | Inr s \<Rightarrow> s)"

definition has_text :: "json \<Rightarrow> bool" where
  "has_text v \<longleftrightarrow> is_ok (canonicalizeInternal v)"

lemma has_textD: "has_text v \<Longrightarrow> canonicalizeInternal v = Inr (text_of v)"
  by (auto simp: has_text_def text_of_def is_ok_iff)

lemma has_text_iff: "canonicalizeInternal v = Inr s \<longleftrightarrow> has_text v \<and> s = text_of v"
  using has_textD by (auto simp: has_text_def text_of_def)

lemma canonical_array_iff:
  "canonicalizeInternal (JArr items) = Inr s \<longleftrightarrow>
     (\<exists>vs. items = map Some vs \<and> list_all has_text vs
        \<and> s = CHR ''['' # items_text '']'' (map text_of vs))"
proof -
  have l2: "list_all2 (\<lambda>v p. canonicalizeInternal v = Inr p) vs ps \<longleftrightarrow>
      list_all has_text vs \<and> ps = map text_of vs" for vs ps
    by (induction vs arbitrary: ps) (auto simp: has_text_iff list_all2_Cons1)
  have ex: "list_ex (\<lambda>x. x = None) (map (map_option canonicalizeInternal) (map Some vs)) = False" for vs
    by (induction vs) auto
  show ?thesis
    by (auto simp: Let_def res_simps array_parts_Inr_iff l2 ex join_items_text list_ex_iff
        simp del: map_map)
qed

lemma canonical_object_iff:
  "canonicalizeInternal (JObj props) = Inr s \<longleftrightarrow>
     list_all (\<lambda>p. has_text (snd p)) (sort_key fst props)
     \<and> s = CHR ''{'' # items_text ''}''
            (map (\<lambda>p. json_quote (fst p) @ '':'' @ text_of (snd p)) (sort_key fst props))"
proof -
  have l2: "list_all2 (\<lambda>p q. \<exists>t. canonicalizeInternal (snd p) = Inr t \<and> q = json_quote (fst p) @ '':'' @ t) ps parts
      \<longleftrightarrow> list_all (\<lambda>p. has_text (snd p)) ps
          \<and> parts = map (\<lambda>p. json_quote (fst p) @ '':'' @ text_of (snd p)) ps" for ps parts
    by (induction ps arbitrary: parts) (auto simp: has_text_iff list_all2_Cons1)
  show ?thesis
    by (simp only: canonicalizeInternal.simps sort_key_map_prod bind_res_Inr_iff
        object_parts_Inr_iff l2) (auto simp: join_items_text)
qed

lemma text_of_hd:
  assumes "has_text v"
  shows "text_of v \<noteq> [] \<and> hd (text_of v) \<noteq> CHR '']'' \<and> lead v (hd (text_of v))"
proof -
  obtain c cs where c: "text_of v = c # cs" "lead v c"
    using canonical_lead [OF has_textD [OF assms]] by blast
  hence "c \<noteq> CHR '']''" by (cases v) (auto simp: num_char_def is_digit_def)
  thus ?thesis using c by simp
qed

lemma norm_map_eq:
  assumes "list_all2 (\<lambda>a b. norm_json a = norm_json b) vs ws"
  shows "norm_json (JArr (map Some vs)) = norm_json (JArr (map Some ws))"
  using assms by (induction rule: list_all2_induct) auto

lemma reads_array:
  assumes IH: "\<And>x v. x \<in> set items \<Longrightarrow> v \<in> set_option x \<Longrightarrow> reads v"
  shows "reads (JArr items)"
  unfolding reads_def
proof (intro allI impI)
  fix b s t r r'
  assume a: "canonicalizeInternal (JArr items) = Inr s" "canonicalizeInternal b = Inr t"
    "s @ r = t @ r'" "delim r" "delim r'"
  obtain vs where vs: "items = map Some vs" "list_all has_text vs"
    "s = CHR ''['' # items_text '']'' (map text_of vs)"
    using a(1) unfolding canonical_array_iff by blast
  obtain c cs where c: "t = c # cs" "lead b c" using canonical_lead [OF a(2)] by blast
  hence "c = CHR ''[''" using a(3) vs(3) by simp
  then obtain its where b: "b = JArr its" using c(2) by (cases b) (auto simp: num_char_def is_digit_def split: if_splits)
  obtain ws where ws: "its = map Some ws" "list_all has_text ws"
    "t = CHR ''['' # items_text '']'' (map text_of ws)"
    using a(2) unfolding b canonical_array_iff by blast
  have cl: "items_text close ps @ q = items_text (close @ q) ps" for close ps q
    by (induction close ps rule: items_text.induct) auto
  have eq: "items_text (CHR '']'' # r) (map text_of vs) = items_text (CHR '']'' # r') (map text_of ws)"
    using a(3) vs(3) ws(3) by (simp add: cl)
  have "list_all2 (\<lambda>a b. norm_json a = norm_json b) vs ws \<and> r = r'"
  proof (rule items_text_inj [OF _ _ _ _ eq])
    fix x y q q'
    assume x: "x \<in> set vs" "y \<in> set ws" "text_of x @ q = text_of y @ q'" "delim q" "delim q'"
    have "reads x" using IH [of "Some x" x] vs(1) x(1) by auto
    thus "norm_json x = norm_json y \<and> q = q'"
      using readsD x vs(2) ws(2) has_textD by (metis list.pred_set)
  qed (use vs(2) ws(2) text_of_hd in \<open>auto simp: list_all_iff\<close>)
  thus "norm_json (JArr items) = norm_json b \<and> r = r'" using norm_map_eq vs(1) ws(1) b by blast
qed

lemma list_all2_map_eq: "list_all2 (\<lambda>p q. f p = f q) ps qs \<Longrightarrow> map f ps = map f qs"
  by (induction rule: list_all2_induct) auto

lemma reads_object:
  assumes IH: "\<And>p v. p \<in> set props \<Longrightarrow> v \<in> Basic_BNFs.snds p \<Longrightarrow> reads v"
  shows "reads (JObj props)"
  unfolding reads_def
proof (intro allI impI)
  fix b s t r r'
  assume a: "canonicalizeInternal (JObj props) = Inr s" "canonicalizeInternal b = Inr t"
    "s @ r = t @ r'" "delim r" "delim r'"
  let ?t = "\<lambda>p. json_quote (fst p) @ '':'' @ text_of (snd p)"
  let ?ps = "sort_key fst props"
  obtain c cs where c: "t = c # cs" "lead b c" using canonical_lead [OF a(2)] by blast
  have s: "list_all (\<lambda>p. has_text (snd p)) ?ps" "s = CHR ''{'' # items_text ''}'' (map ?t ?ps)"
    using a(1) unfolding canonical_object_iff by blast+
  hence "c = CHR ''{''" using a(3) c by simp
  then obtain props' where b: "b = JObj props'" using c(2) by (cases b) (auto simp: num_char_def is_digit_def split: if_splits)
  let ?qs = "sort_key fst props'"
  have t: "list_all (\<lambda>p. has_text (snd p)) ?qs" "t = CHR ''{'' # items_text ''}'' (map ?t ?qs)"
    using a(2) unfolding b canonical_object_iff by blast+
  have cl: "items_text close ps @ q = items_text (close @ q) ps" for close ps q
    by (induction close ps rule: items_text.induct) auto
  have eq: "items_text (CHR ''}'' # r) (map ?t ?ps) = items_text (CHR ''}'' # r') (map ?t ?qs)"
    using a(3) s(2) t(2) by (simp add: cl)
  have "list_all2 (\<lambda>p q. map_prod id norm_json p = map_prod id norm_json q) ?ps ?qs \<and> r = r'"
  proof (rule items_text_inj [OF _ _ _ _ eq])
    fix x y q q'
    assume x: "x \<in> set ?ps" "y \<in> set ?qs" "?t x @ q = ?t y @ q'" "delim q" "delim q'"
    have k: "fst x = fst y \<and> '':'' @ text_of (snd x) @ q = '':'' @ text_of (snd y) @ q'"
      using x(3) json_quote_inj [of "fst x" "'':'' @ text_of (snd x) @ q" "fst y"] by simp
    have "reads (snd x)" using IH [of x "snd x"] x(1) by (cases x) auto
    hence "norm_json (snd x) = norm_json (snd y) \<and> q = q'"
      using readsD k x s(1) t(1) has_textD by (metis (no_types, lifting) append_Cons append_Nil list.inject list.pred_set)
    thus "map_prod id norm_json x = map_prod id norm_json y \<and> q = q'"
      using k by (cases x; cases y) auto
  qed (auto simp: json_quote_def)
  hence "map (map_prod id norm_json) ?ps = map (map_prod id norm_json) ?qs" "r = r'"
    by (auto dest: list_all2_map_eq)
  thus "norm_json (JObj props) = norm_json b \<and> r = r'"
    unfolding b norm_json.simps sort_key_map_prod by (simp only: simp_thms)
qed

lemma reads_json: "reads a"
proof (induction a)
  case (JArr items)
  thus ?case by (rule reads_array)
next
  case (JObj props)
  thus ?case by (rule reads_object)
next
  case (JNum n)
  show ?case
    unfolding reads_def
  proof (intro allI impI)
    fix b s t r r'
    assume a: "canonicalizeInternal (JNum n) = Inr s" "canonicalizeInternal b = Inr t"
      "s @ r = t @ r'" "delim r" "delim r'"
    obtain c cs where c: "t = c # cs" "lead b c" using canonical_lead [OF a(2)] by blast
    moreover have "num_char c"
      using a(1,3) c int_str_hd [of n] by auto
    ultimately obtain m where b: "b = JNum m" by (cases b) (auto simp: num_char_def is_digit_def split: if_splits)
    have "n = m \<and> r = r'" using a b by (intro int_str_run) auto
    thus "norm_json (JNum n) = norm_json b \<and> r = r'" using b by simp
  qed
next
  case (JStr x)
  show ?case
    unfolding reads_def
  proof (intro allI impI)
    fix b s t r r'
    assume a: "canonicalizeInternal (JStr x) = Inr s" "canonicalizeInternal b = Inr t"
      "s @ r = t @ r'" "delim r" "delim r'"
    obtain c cs where c: "t = c # cs" "lead b c" using canonical_lead [OF a(2)] by blast
    moreover have "c = CHR 0x22" using a(1,3) c by (auto simp: json_quote_def)
    ultimately obtain y where b: "b = JStr y" by (cases b) (auto simp: num_char_def is_digit_def split: if_splits)
    have "x = y \<and> r = r'" using a b by (intro json_quote_inj) auto
    thus "norm_json (JStr x) = norm_json b \<and> r = r'" using b by simp
  qed
next
  case JNull
  show ?case
    unfolding reads_def
  proof (intro allI impI)
    fix b s t r r'
    assume a: "canonicalizeInternal JNull = Inr s" "canonicalizeInternal b = Inr t" "s @ r = t @ r'"
    obtain c cs where c: "t = c # cs" "lead b c" using canonical_lead [OF a(2)] by blast
    hence "b = JNull" using a by (cases b) (auto simp: num_char_def is_digit_def split: if_splits)
    thus "norm_json JNull = norm_json b \<and> r = r'" using a by auto
  qed
next
  case (JBool x)
  show ?case
    unfolding reads_def
  proof (intro allI impI)
    fix b s t r r'
    assume a: "canonicalizeInternal (JBool x) = Inr s" "canonicalizeInternal b = Inr t" "s @ r = t @ r'"
    obtain c cs where c: "t = c # cs" "lead b c" using canonical_lead [OF a(2)] by blast
    hence "b = JBool x" using a by (cases b) (auto simp: num_char_def is_digit_def split: if_splits)
    thus "norm_json (JBool x) = norm_json b \<and> r = r'" using a by auto
  qed
qed (simp_all add: reads_def)

lemma canonicalize_inj:
  assumes "canonicalize a = Inr s" "canonicalize b = Inr s"
  shows "norm_json a = norm_json b"
proof -
  have "s @ [] = s @ []" "delim []" by (simp_all add: delim_def)
  thus ?thesis using readsD [OF reads_json] assms unfolding canonicalize_def by blast
qed

lemma canonicalize_norm: "canonicalizeInternal (norm_json a) = canonicalizeInternal a"
proof (induction a)
  case (JArr items)
  have "map (map_option canonicalizeInternal) (map (map_option norm_json) items)
      = map (map_option canonicalizeInternal) items"
    using JArr by (auto simp: option.map_comp intro!: option.map_cong)
  thus ?case by (simp only: norm_json.simps canonicalizeInternal.simps)
next
  case (JObj props)
  have e: "map (map_prod id canonicalizeInternal) (map (map_prod id norm_json) props)
      = map (map_prod id canonicalizeInternal) props"
    using JObj by auto
  have "sort_key fst (map (map_prod id canonicalizeInternal) (sort_key fst (map (map_prod id norm_json) props)))
      = sort_key fst (map (map_prod id canonicalizeInternal) (map (map_prod id norm_json) props))"
    unfolding sort_key_map_prod by (simp add: sort_key_id_if_sorted)
  thus ?case by (simp only: norm_json.simps canonicalizeInternal.simps e)
qed simp_all

lemma has_text_simps [simp]:
  "has_text (JStr s)" "has_text (JNum n)" "has_text (JBool b)" "has_text JNull"
  by (simp_all add: has_text_def)

lemma has_text_JObj: "has_text (JObj ps) \<longleftrightarrow> list_all (\<lambda>p. has_text (snd p)) ps"
proof -
  have "has_text (JObj ps) \<longleftrightarrow> list_all (\<lambda>p. has_text (snd p)) (sort_key fst ps)"
    unfolding has_text_def is_ok_iff canonical_object_iff by (simp add: has_text_def)
  thus ?thesis by (simp add: list_all_iff)
qed

lemma has_text_JArr: "has_text (JArr (map Some vs)) \<longleftrightarrow> list_all has_text vs"
proof -
  have inj: "map Some xs = map Some ys \<longleftrightarrow> xs = ys" for xs ys :: "json list" by (simp add: inj_map_eq_map)
  show ?thesis unfolding has_text_def [of "JArr _"] is_ok_iff canonical_array_iff by (simp add: inj)
qed

text \<open>
  C28. Two JavaScript values have the same canonical text exactly when they are
  equal up to the order of object keys: the canonical text is independent of the
  key order, and no two different values share it.  So a hash or a signature over
  the canonical text binds every field.
\<close>

theorem canonicalize_eq_iff:
  assumes "canonicalize a = Inr s" "canonicalize b = Inr t"
  shows "s = t \<longleftrightarrow> norm_json a = norm_json b"
proof
  show "s = t \<Longrightarrow> norm_json a = norm_json b" using assms canonicalize_inj by blast
  show "norm_json a = norm_json b \<Longrightarrow> s = t"
    using assms canonicalize_norm [of a] canonicalize_norm [of b]
    unfolding canonicalize_def by simp
qed

theorem canonicalize_eq_iff_witness:
  "(''{\"a\":1,\"b\":[true,null]}'' = ''{\"a\":1,\"b\":[true,null]}'') =
   (norm_json (JObj [(''b'', JArr [Some (JBool True), Some JNull]), (''a'', JNum 1)])
    = norm_json (JObj [(''a'', JNum 1), (''b'', JArr [Some (JBool True), Some JNull])]))"
  by (rule canonicalize_eq_iff) code_simp+

end
