(* ===== verification/Access_Resource.thy ===== *)
theory Access_Resource
  imports RG_Prelude
begin

text \<open>
  The protected-resource paths of \<^verbatim>\<open>src/v2/access/resource.ts\<close> and the account
  identifiers of \<^verbatim>\<open>src/domain/payment-option.ts\<close>.  \<open>encodeURIComponent\<close> is
  written out: the unreserved characters stay, every other code unit is the
  percent-encoding of its UTF-8 bytes.  The lemmas show that a resource path
  binds the tender, its version and the bid.
\<close>

subsection \<open>\<open>encodeURIComponent\<close>\<close>

definition upper_hex :: "nat \<Rightarrow> char" where
  "upper_hex d = ''0123456789ABCDEF'' ! d"

definition is_unreserved :: "char \<Rightarrow> bool" where
  "is_unreserved c \<longleftrightarrow> is_digit c \<or> in_range (CHR ''A'') (CHR ''Z'') c \<or> in_range (CHR ''a'') (CHR ''z'') c
     \<or> List.member ''-_.!~*'' c \<or> c = CHR 0x27 \<or> c = CHR ''('' \<or> c = CHR '')''"

definition percent :: "nat \<Rightarrow> string" where
  "percent b = [CHR ''%'', upper_hex (b div 16), upper_hex (b mod 16)]"

definition encode_char :: "char \<Rightarrow> string" where
  "encode_char c =
     (let n = of_char c :: nat in
      if is_unreserved c then [c]
      else if n < 128 then percent n
      else percent (192 + n div 64) @ percent (128 + n mod 64))"

definition encodeURIComponent :: "string \<Rightarrow> string" where
  "encodeURIComponent s = concat (map encode_char s)"

subsection \<open>Resources\<close>

datatype resource_error = InvalidId | PathSeparator | InvalidVersion

fun contains_dotdot :: "string \<Rightarrow> bool" where
  "contains_dotdot (a # b # cs) \<longleftrightarrow> (a = CHR ''.'' \<and> b = CHR ''.'') \<or> contains_dotdot (b # cs)"
| "contains_dotdot _ \<longleftrightarrow> False"

definition assertId :: "string \<Rightarrow> resource_error + unit" where
  "assertId v =
     (if v = [] \<or> length v > 128 then Inl InvalidId
      else if List.member v (CHR ''/'') \<or> List.member v (CHR 0x5C) \<or> contains_dotdot v
        then Inl PathSeparator
      else Inr ())"

definition assertVersion :: "int \<Rightarrow> resource_error + unit" where
  "assertVersion version =
     (if version < 1 \<or> version > max_safe_integer then Inl InvalidVersion else Inr ())"

definition tenderActivateResource :: "string \<Rightarrow> int \<Rightarrow> resource_error + string" where
  "tenderActivateResource tenderId tenderVersion =
     bind_res (assertId tenderId) (\<lambda>_.
     bind_res (assertVersion tenderVersion) (\<lambda>_.
     Inr (''/api/v2/tenders/'' @ encodeURIComponent tenderId @ ''/v/'' @ int_str tenderVersion
          @ ''/activate'')))"

definition bidSubmitResource :: "string \<Rightarrow> int \<Rightarrow> string \<Rightarrow> resource_error + string" where
  "bidSubmitResource tenderId tenderVersion bidId =
     bind_res (assertId tenderId) (\<lambda>_.
     bind_res (assertId bidId) (\<lambda>_.
     bind_res (assertVersion tenderVersion) (\<lambda>_.
     Inr (''/api/v2/tenders/'' @ encodeURIComponent tenderId @ ''/v/'' @ int_str tenderVersion
          @ ''/bids/'' @ encodeURIComponent bidId))))"

subsection \<open>Account identifiers\<close>

fun split_on :: "char \<Rightarrow> string \<Rightarrow> string list" where
  "split_on c [] = [[]]"
| "split_on c (x # xs) =
     (if x = c then [] # split_on c xs
      else case split_on c xs of [] \<Rightarrow> [[x]] | p # ps \<Rightarrow> (x # p) # ps)"

text \<open>
  The pattern asks for three canonical decimals; \<open>Number(p)\<close> of a canonical
  decimal is a safe integer exactly when its value is.
\<close>

definition isValidHederaAccountId :: "string \<Rightarrow> bool" where
  "isValidHederaAccountId v =
     (let parts = split_on (CHR ''.'') v in
      if \<not> (length parts = 3 \<and> list_all canonical_nat parts) then False
      else list_all (\<lambda>p. int (digits_val p) \<le> max_safe_integer) parts)"

subsection \<open>The encoding is injective\<close>

definition percent_val :: "char \<Rightarrow> nat" where
  "percent_val c = (if is_digit c then of_char c - 48 else of_char c - 55)"

definition decode_byte :: "string \<Rightarrow> nat" where
  "decode_byte s = 16 * percent_val (s ! 1) + percent_val (s ! 2)"

definition decode_char :: "string \<Rightarrow> char \<times> string" where
  "decode_char s =
     (if hd s \<noteq> CHR ''%'' then (hd s, tl s)
      else if decode_byte s < 128 then (char_of (decode_byte s), drop 3 s)
      else (char_of ((decode_byte s - 192) * 64 + (decode_byte (drop 3 s) - 128)), drop 6 s))"

lemma percent_val_upper_hex:
  assumes "d < 16"
  shows "percent_val (upper_hex d) = d"
proof -
  have "d = 0 \<or> d = 1 \<or> d = 2 \<or> d = 3 \<or> d = 4 \<or> d = 5 \<or> d = 6 \<or> d = 7 \<or> d = 8 \<or> d = 9
     \<or> d = 10 \<or> d = 11 \<or> d = 12 \<or> d = 13 \<or> d = 14 \<or> d = 15"
    using assms by arith
  thus ?thesis by (elim disjE) (simp_all add: percent_val_def upper_hex_def is_digit_def)
qed

lemma decode_byte_percent: "b < 256 \<Longrightarrow> decode_byte (percent b @ r) = b"
  using less_mult_imp_div_less [of b 16 16]
  by (simp add: decode_byte_def percent_def percent_val_upper_hex)

lemma nat_of_char_bound: "(of_char c :: nat) < 256"
  by (metis of_char_mod_256 mod_less_divisor zero_less_numeral)

lemma decode_encode_char: "decode_char (encode_char c @ r) = (c, r)"
proof -
  define n where "n = (of_char c :: nat)"
  have n: "n < 256" "char_of n = c" by (auto simp: n_def nat_of_char_bound)
  have p: "hd (percent b @ x) = CHR ''%''" "drop 3 (percent b @ x) = x"
    "drop 6 (percent b @ percent b' @ x) = x" for b b' x by (simp_all add: percent_def)
  consider "is_unreserved c" | "\<not> is_unreserved c" "n < 128" | "\<not> is_unreserved c" "\<not> n < 128" by blast
  thus ?thesis
  proof cases
    case 1
    hence "c \<noteq> CHR ''%''" by (auto simp: is_unreserved_def is_digit_def in_range_def)
    thus ?thesis using 1 by (simp add: encode_char_def decode_char_def Let_def)
  next
    case 2
    hence "encode_char c @ r = percent n @ r" by (simp add: encode_char_def Let_def n_def)
    thus ?thesis using 2 n p by (simp add: decode_char_def decode_byte_percent)
  next
    case 3
    define hi lo where "hi = 192 + n div 64" and "lo = 128 + n mod 64"
    have b: "hi < 256" "lo < 256" "\<not> hi < 128" "(hi - 192) * 64 + (lo - 128) = n"
      using n(1) by (auto simp: hi_def lo_def less_mult_imp_div_less)
    have "encode_char c @ r = percent hi @ percent lo @ r"
      using 3 by (simp add: encode_char_def Let_def n_def hi_def lo_def)
    thus ?thesis
      unfolding decode_char_def using b n(2)
      by (simp only: p decode_byte_percent simp_thms if_True if_False)
  qed
qed

lemma encode_char_inj: "encode_char c @ x = encode_char d @ y \<Longrightarrow> c = d \<and> x = y"
  by (metis prod.inject decode_encode_char)

lemma percent_no_slash:
  assumes "b < 256"
  shows "CHR ''/'' \<notin> set (percent b)"
proof -
  have u: "CHR ''/'' \<noteq> upper_hex d" if "d < 16" for d
    using nth_mem [of d "''0123456789ABCDEF''"] that by (auto simp: upper_hex_def)
  have "b div 16 < 16" using assms by (intro less_mult_imp_div_less) simp
  hence "CHR ''/'' \<noteq> upper_hex (b div 16)" "CHR ''/'' \<noteq> upper_hex (b mod 16)" by (auto intro!: u)
  thus ?thesis by (simp add: percent_def)
qed

lemma encode_char_no_slash: "CHR ''/'' \<notin> set (encode_char c)"
proof -
  have n: "(of_char c :: nat) < 256" "(of_char c :: nat) div 64 < 4"
    using nat_of_char_bound [of c] less_mult_imp_div_less [of "of_char c" 4 64] by simp_all
  have "CHR ''/'' \<notin> set (percent (of_char c))" "CHR ''/'' \<notin> set (percent (192 + of_char c div 64))"
    "CHR ''/'' \<notin> set (percent (128 + of_char c mod 64))"
    using n by (auto intro!: percent_no_slash simp del: of_char_nat_eq_iff)
  moreover have "is_unreserved c \<Longrightarrow> c \<noteq> CHR ''/''"
    by (auto simp: is_unreserved_def is_digit_def in_range_def)
  ultimately show ?thesis by (auto simp: encode_char_def Let_def)
qed

lemma encode_char_not_Nil: "encode_char c \<noteq> []"
  by (simp add: encode_char_def Let_def percent_def)

lemma encodeURIComponent_inj: "encodeURIComponent s = encodeURIComponent t \<Longrightarrow> s = t"
proof (induction s arbitrary: t)
  case Nil
  thus ?case using encode_char_not_Nil by (cases t) (auto simp: encodeURIComponent_def)
next
  case (Cons c s)
  then obtain d t' where t: "t = d # t'"
    using encode_char_not_Nil by (cases t) (auto simp: encodeURIComponent_def)
  have "encode_char c @ encodeURIComponent s = encode_char d @ encodeURIComponent t'"
    using Cons.prems t by (simp add: encodeURIComponent_def)
  from encode_char_inj [OF this] show ?case using Cons.IH [of t'] t by simp
qed

lemma encodeURIComponent_no_slash: "CHR ''/'' \<notin> set (encodeURIComponent s)"
  using encode_char_no_slash by (auto simp: encodeURIComponent_def)

lemma split_at_slash:
  assumes "a @ CHR ''/'' # x = b @ CHR ''/'' # y" "CHR ''/'' \<notin> set a" "CHR ''/'' \<notin> set b"
  shows "a = b \<and> x = y"
  using assms
proof (induction a arbitrary: b)
  case Nil
  thus ?case by (cases b) auto
next
  case (Cons c a)
  thus ?case by (cases b) auto
qed

lemma int_str_no_slash: "CHR ''/'' \<notin> set (int_str n)"
  using all_digits_decimal [of "nat n"] all_digits_decimal [of "nat (- n)"]
  by (auto simp: int_str_def all_digits_def list_all_iff is_digit_def)

text \<open>
  A resource path binds its parameters: two bid-submission paths are equal
  only for the same tender, the same version and the same bid; two activation
  paths only for the same tender and version; and no activation path is a
  bid-submission path.  A payment for one resource is never a payment for another.
\<close>

theorem resources_bind:
  "(\<forall>t v b t' v' b'. bidSubmitResource t v b = Inr r \<and> bidSubmitResource t' v' b' = Inr r
       \<longrightarrow> t = t' \<and> v = v' \<and> b = b')
   \<and> (\<forall>t v t' v'. tenderActivateResource t v = Inr r \<and> tenderActivateResource t' v' = Inr r
       \<longrightarrow> t = t' \<and> v = v')
   \<and> (\<forall>t v t' v' b'. \<not> (tenderActivateResource t v = Inr r \<and> bidSubmitResource t' v' b' = Inr r))"
proof -
  have split: "t = t' \<and> v = v' \<and> x = x'"
    if "encodeURIComponent t @ ''/v/'' @ int_str v @ CHR ''/'' # x
        = encodeURIComponent t' @ ''/v/'' @ int_str v' @ CHR ''/'' # x'" for t t' v v' x x'
  proof -
    have "encodeURIComponent t = encodeURIComponent t'
        \<and> ''v/'' @ int_str v @ CHR ''/'' # x = ''v/'' @ int_str v' @ CHR ''/'' # x'"
      using that encodeURIComponent_no_slash by (intro split_at_slash) auto
    moreover from this have "int_str v = int_str v' \<and> x = x'"
      using int_str_no_slash by (intro split_at_slash) auto
    ultimately show ?thesis using encodeURIComponent_inj by auto
  qed
  have bid: "r = ''/api/v2/tenders/'' @ encodeURIComponent t @ ''/v/'' @ int_str v @ CHR ''/'' #
      (''bids/'' @ encodeURIComponent b)" if "bidSubmitResource t v b = Inr r" for t v b
    using that by (auto simp: bidSubmitResource_def res_simps)
  have act: "r = ''/api/v2/tenders/'' @ encodeURIComponent t @ ''/v/'' @ int_str v @ CHR ''/'' # ''activate''"
    if "tenderActivateResource t v = Inr r" for t v
    using that by (auto simp: tenderActivateResource_def res_simps)
  show ?thesis
  proof (intro conjI allI impI notI)
    fix t v b t' v' b'
    assume "bidSubmitResource t v b = Inr r \<and> bidSubmitResource t' v' b' = Inr r"
    hence e: "t = t' \<and> v = v' \<and> ''bids/'' @ encodeURIComponent b = ''bids/'' @ encodeURIComponent b'"
      by (intro split) (metis bid same_append_eq)
    show "t = t'" "v = v'" "b = b'" using e encodeURIComponent_inj by auto
  next
    fix t v t' v'
    assume "tenderActivateResource t v = Inr r \<and> tenderActivateResource t' v' = Inr r"
    hence "t = t' \<and> v = v' \<and> ''activate'' = ''activate''"
      by (intro split) (metis act same_append_eq)
    thus "t = t'" "v = v'" by auto
  next
    fix t v t' v' b'
    assume "tenderActivateResource t v = Inr r \<and> bidSubmitResource t' v' b' = Inr r"
    hence "t = t' \<and> v = v' \<and> ''activate'' = ''bids/'' @ encodeURIComponent b'"
      by (intro split) (metis act bid same_append_eq)
    thus False by simp
  qed
qed

theorem resources_bind_witness:
  "bidSubmitResource ''T 1'' 2 ''b'' = Inr ''/api/v2/tenders/T%201/v/2/bids/b''
   \<and> bidSubmitResource ''T'' 2 ''b'' \<noteq> Inr ''/api/v2/tenders/T%201/v/2/bids/b''
   \<and> tenderActivateResource ''T 1'' 2 \<noteq> Inr ''/api/v2/tenders/T%201/v/2/bids/b''"
proof -
  have e: "bidSubmitResource ''T 1'' 2 ''b'' = Inr ''/api/v2/tenders/T%201/v/2/bids/b''" by code_simp
  have n: "''T'' \<noteq> ''T 1''" by simp
  show ?thesis using resources_bind [of "''/api/v2/tenders/T%201/v/2/bids/b''"] e n by blast
qed

end
