(* ===== verification/Trust_Auth.thy ===== *)
theory Trust_Auth
  imports Canonical_Json Access_Resource
begin

text \<open>
  The trust policy (\<^verbatim>\<open>src/v2/trust/policy.ts\<close>), the signing payloads
  (\<^verbatim>\<open>src/v2/auth/canonical.ts\<close>), the signature contract
  (\<^verbatim>\<open>src/domain/signature.ts\<close>) and the verification module that issues sealed
  authorizations (\<^verbatim>\<open>src/v2/auth/verify.ts\<close>).

  SHA-256 and the ECDSA verification of the ledger SDK are parameters:
  \<open>sha256\<close> maps a text to its digest, \<open>ecdsa\<close> maps key, message and signature
  bytes to \<open>Some\<close> verdict or \<open>None\<close> when the SDK throws.  Membership in the module's
  private \<open>WeakSet\<close> is the Boolean \<open>sealed\<close> of an authorization: only the
  verification functions return it set.
\<close>

type_synonym ecdsa_fn = "string \<Rightarrow> string \<Rightarrow> nat list \<Rightarrow> bool option"

subsection \<open>Trust policy\<close>

definition TRUST_POLICY_SCHEMA :: string where "TRUST_POLICY_SCHEMA = ''routeguard-v2-trust-1.0''"
definition SIGNATURE_ALGORITHM_HIERO_ECDSA :: string where
  "SIGNATURE_ALGORITHM_HIERO_ECDSA = ''ECDSA_SECP256K1_HIERO''"

record TrustedRefereeEntry =
  te_refereeId :: string
  te_publicKey :: string

record TrustPolicy =
  tp_schemaVersion :: string
  tp_shipperPublicKey :: string
  tp_referees :: "TrustedRefereeEntry list"
  tp_accessTreasuryAccountId :: string
  tp_signatureAlgorithm :: string

record TrustPolicySnapshot =
  ts_schemaVersion :: string
  ts_shipperPublicKey :: string
  ts_shipperKeyFingerprint :: string
  ts_referees :: "TrustedRefereeEntry list"
  ts_accessTreasuryAccountId :: string
  ts_signatureAlgorithm :: string

datatype trust_error =
    ShipperKeyInvalid | TreasuryInvalid | NoReferees | RefereeIncomplete | AutomationReferee
  | DuplicateReferee | RefereeIdRequired | RefereeUnknown

definition lower_char :: "char \<Rightarrow> char" where
  "lower_char c =
     (let n = of_char c :: nat in
      if (65 \<le> n \<and> n \<le> 90) \<or> (192 \<le> n \<and> n \<le> 222 \<and> n \<noteq> 215) then char_of (n + 32) else c)"

definition toLowerCase :: "string \<Rightarrow> string" where
  "toLowerCase s = map lower_char s"

definition publicKeyFingerprint :: "hash_fn \<Rightarrow> string \<Rightarrow> string" where
  "publicKeyFingerprint sha256 publicKeyHex = sha256 (toLowerCase (js_trim publicKeyHex))"

definition RESERVED_AUTOMATION_REFEREE_IDS :: "string list" where
  "RESERVED_AUTOMATION_REFEREE_IDS =
     [''ai'', ''model'', ''llm'', ''bot'', ''ai-referee'', ''model-referee'', ''llm-referee'',
      ''bot-referee'', ''automated-referee'', ''automation-agent'', ''routeguard-ai'']"

text \<open>\<open>s.replace(/P+/g, "-")\<close>: every maximal run of matching characters becomes one dash.\<close>

fun dash_runs :: "(char \<Rightarrow> bool) \<Rightarrow> bool \<Rightarrow> string \<Rightarrow> string" where
  "dash_runs P inrun [] = []"
| "dash_runs P inrun (c # cs) =
     (if P c then (if inrun then dash_runs P True cs else CHR ''-'' # dash_runs P True cs)
      else c # dash_runs P False cs)"

definition normalizedRefereeIdentity :: "string \<Rightarrow> string" where
  "normalizedRefereeIdentity refereeId =
     dash_runs (\<lambda>c. c = CHR ''-'') False
       (dash_runs (\<lambda>c. is_js_space c \<or> c = CHR ''_'') False (toLowerCase (js_trim refereeId)))"

text \<open>\<open>/^(ai|model|llm|bot|gpt|assistant)-(referee|agent|model)(?:-[0-9]+)?$/\<close>.\<close>

definition explicitAutomationPattern :: "string \<Rightarrow> bool" where
  "explicitAutomationPattern s =
     list_ex (\<lambda>a. list_ex (\<lambda>b.
       let p = a @ ''-'' @ b; rest = drop (length p) s in
       take (length p) s = p
       \<and> (rest = [] \<or> (hd rest = CHR ''-'' \<and> tl rest \<noteq> [] \<and> all_digits (tl rest))))
       [''referee'', ''agent'', ''model''])
     [''ai'', ''model'', ''llm'', ''bot'', ''gpt'', ''assistant'']"

definition assertHumanRefereeIdentity :: "string \<Rightarrow> trust_error + unit" where
  "assertHumanRefereeIdentity refereeId =
     (let normalized = normalizedRefereeIdentity refereeId in
      if List.member RESERVED_AUTOMATION_REFEREE_IDS normalized \<or> explicitAutomationPattern normalized
      then Inl AutomationReferee else Inr ())"

primrec createReferees ::
  "TrustedRefereeEntry list \<Rightarrow> string list \<Rightarrow> trust_error + TrustedRefereeEntry list" where
  "createReferees [] seenIds = Inr []"
| "createReferees (r # rs) seenIds =
     (let refereeId = js_trim (te_refereeId r); publicKey = js_trim (te_publicKey r) in
      if refereeId = [] \<or> publicKey = [] \<or> length publicKey < 32 then Inl RefereeIncomplete
      else bind_res (assertHumanRefereeIdentity refereeId) (\<lambda>_.
        if List.member seenIds refereeId then Inl DuplicateReferee
        else bind_res (createReferees rs (refereeId # seenIds)) (\<lambda>rest.
          Inr (\<lparr> te_refereeId = refereeId, te_publicKey = publicKey \<rparr> # rest))))"

definition createTrustPolicy ::
  "string \<Rightarrow> TrustedRefereeEntry list \<Rightarrow> string \<Rightarrow> trust_error + TrustPolicy" where
  "createTrustPolicy shipperKey refereeList accessTreasuryAccountId =
     (let shipperPublicKey = js_trim shipperKey in
      if shipperPublicKey = [] \<or> length shipperPublicKey < 32 then Inl ShipperKeyInvalid
      else if \<not> isValidHederaAccountId accessTreasuryAccountId then Inl TreasuryInvalid
      else if length refereeList < 1 then Inl NoReferees
      else bind_res (createReferees refereeList []) (\<lambda>referees.
        Inr \<lparr> tp_schemaVersion = TRUST_POLICY_SCHEMA, tp_shipperPublicKey = shipperPublicKey,
              tp_referees = referees,
              tp_accessTreasuryAccountId = js_trim accessTreasuryAccountId,
              tp_signatureAlgorithm = SIGNATURE_ALGORITHM_HIERO_ECDSA \<rparr>))"

definition snapshotTrustPolicy :: "hash_fn \<Rightarrow> TrustPolicy \<Rightarrow> TrustPolicySnapshot" where
  "snapshotTrustPolicy sha256 policy =
     \<lparr> ts_schemaVersion = tp_schemaVersion policy,
       ts_shipperPublicKey = tp_shipperPublicKey policy,
       ts_shipperKeyFingerprint = publicKeyFingerprint sha256 (tp_shipperPublicKey policy),
       ts_referees = tp_referees policy,
       ts_accessTreasuryAccountId = tp_accessTreasuryAccountId policy,
       ts_signatureAlgorithm = tp_signatureAlgorithm policy \<rparr>"

definition resolveTrustedReferee :: "TrustPolicy \<Rightarrow> string \<Rightarrow> trust_error + TrustedRefereeEntry" where
  "resolveTrustedReferee policy refereeId =
     (let rid = js_trim refereeId in
      if rid = [] then Inl RefereeIdRequired
      else bind_res (assertHumanRefereeIdentity rid) (\<lambda>_.
        case find (\<lambda>r. te_refereeId r = rid) (tp_referees policy) of
          None \<Rightarrow> Inl RefereeUnknown
        | Some found \<Rightarrow> Inr found))"

subsection \<open>Signing payloads\<close>

definition AUTH_PROTOCOL_VERSION :: string where "AUTH_PROTOCOL_VERSION = ''routeguard-v2-auth-1.0''"
definition SHIPPER_POD_REVIEW_PURPOSE :: string where
  "SHIPPER_POD_REVIEW_PURPOSE = ''ROUTEGUARD_V2_SHIPPER_POD_REVIEW''"
definition REFEREE_RESOLUTION_PURPOSE :: string where
  "REFEREE_RESOLUTION_PURPOSE = ''ROUTEGUARD_V2_REFEREE_RESOLUTION''"
definition CARRIER_BID_PURPOSE :: string where "CARRIER_BID_PURPOSE = ''ROUTEGUARD_V2_CARRIER_BID''"
definition CARRIER_POD_SUBMISSION_PURPOSE :: string where
  "CARRIER_POD_SUBMISSION_PURPOSE = ''ROUTEGUARD_V2_POD_SUBMISSION''"

datatype ShipperReviewActionKind = ACCEPT | REQUEST_CORRECTION | REJECT_DISPUTE
datatype Resolution = RELEASE_FULL | REFUND_FULL | PARTIAL

primrec review_action_str :: "ShipperReviewActionKind \<Rightarrow> string" where
  "review_action_str ACCEPT = ''ACCEPT''"
| "review_action_str REQUEST_CORRECTION = ''REQUEST_CORRECTION''"
| "review_action_str REJECT_DISPUTE = ''REJECT_DISPUTE''"

primrec resolution_str :: "Resolution \<Rightarrow> string" where
  "resolution_str RELEASE_FULL = ''RELEASE_FULL''"
| "resolution_str REFUND_FULL = ''REFUND_FULL''"
| "resolution_str PARTIAL = ''PARTIAL''"

record ShipperPodReviewSignPayload =
  sp_tenderId :: string
  sp_tenderVersion :: int
  sp_podId :: string
  sp_reviewAction :: ShipperReviewActionKind
  sp_reasonCodes :: "string list"
  sp_signedAt :: string
  sp_reviewDeadlineAt :: string
  sp_actionId :: string

record RefereeResolutionSignPayload =
  rp_tenderId :: string
  rp_tenderVersion :: int
  rp_podId :: string
  rp_disputeId :: string
  rp_resolution :: Resolution
  rp_releaseAmountAtomic :: string
  rp_refundAmountAtomic :: string
  rp_rationaleCode :: string
  rp_refereeId :: string
  rp_signedAt :: string
  rp_actionId :: string

record CarrierBidSignPayload =
  cp_tenderId :: string
  cp_tenderVersion :: int
  cp_bidId :: string
  cp_carrierId :: string
  cp_carrierAccountId :: string
  cp_bidHash :: string
  cp_signedAt :: string
  cp_actionId :: string

record CarrierPodSubmissionSignPayload =
  pp_podId :: string
  pp_podVersion :: int
  pp_tenderId :: string
  pp_tenderVersion :: int
  pp_winningBidId :: string
  pp_escrowTenderKey :: string
  pp_carrierId :: string
  pp_carrierAccountId :: string
  pp_deliveryTimestamp :: string
  pp_manifestHash :: string
  pp_packageContentHash :: string
  pp_submittedAt :: string
  pp_actionId :: string

text \<open>
  The builders fill the payload; \<open>reasonCodes\<close> is sorted by code unit.  The JSON
  value carries the protocol version and the purpose of the payload's type.
\<close>

definition buildShipperPodReviewSignPayload ::
  "string \<Rightarrow> int \<Rightarrow> string \<Rightarrow> ShipperReviewActionKind \<Rightarrow> string list option \<Rightarrow> string \<Rightarrow> string \<Rightarrow> string
     \<Rightarrow> ShipperPodReviewSignPayload" where
  "buildShipperPodReviewSignPayload tenderId tenderVersion podId reviewAction reasonCodes signedAt
       reviewDeadlineAt actionId =
     \<lparr> sp_tenderId = tenderId, sp_tenderVersion = tenderVersion, sp_podId = podId,
       sp_reviewAction = reviewAction,
       sp_reasonCodes = sort (case reasonCodes of None \<Rightarrow> [] | Some cs \<Rightarrow> cs),
       sp_signedAt = signedAt, sp_reviewDeadlineAt = reviewDeadlineAt, sp_actionId = actionId \<rparr>"

definition shipper_payload_json :: "ShipperPodReviewSignPayload \<Rightarrow> json" where
  "shipper_payload_json p = JObj
     [(''protocolVersion'', JStr AUTH_PROTOCOL_VERSION), (''purpose'', JStr SHIPPER_POD_REVIEW_PURPOSE),
      (''tenderId'', JStr (sp_tenderId p)), (''tenderVersion'', JNum (sp_tenderVersion p)),
      (''podId'', JStr (sp_podId p)),
      (''reviewAction'', JStr (review_action_str (sp_reviewAction p))),
      (''reasonCodes'', JArr (map (\<lambda>c. Some (JStr c)) (sp_reasonCodes p))),
      (''signedAt'', JStr (sp_signedAt p)), (''reviewDeadlineAt'', JStr (sp_reviewDeadlineAt p)),
      (''actionId'', JStr (sp_actionId p))]"

definition referee_payload_json :: "RefereeResolutionSignPayload \<Rightarrow> json" where
  "referee_payload_json p = JObj
     [(''protocolVersion'', JStr AUTH_PROTOCOL_VERSION), (''purpose'', JStr REFEREE_RESOLUTION_PURPOSE),
      (''tenderId'', JStr (rp_tenderId p)), (''tenderVersion'', JNum (rp_tenderVersion p)),
      (''podId'', JStr (rp_podId p)), (''disputeId'', JStr (rp_disputeId p)),
      (''resolution'', JStr (resolution_str (rp_resolution p))),
      (''releaseAmountAtomic'', JStr (rp_releaseAmountAtomic p)),
      (''refundAmountAtomic'', JStr (rp_refundAmountAtomic p)),
      (''rationaleCode'', JStr (rp_rationaleCode p)), (''refereeId'', JStr (rp_refereeId p)),
      (''signedAt'', JStr (rp_signedAt p)), (''actionId'', JStr (rp_actionId p))]"

definition carrier_bid_payload_json :: "CarrierBidSignPayload \<Rightarrow> json" where
  "carrier_bid_payload_json p = JObj
     [(''protocolVersion'', JStr AUTH_PROTOCOL_VERSION), (''purpose'', JStr CARRIER_BID_PURPOSE),
      (''tenderId'', JStr (cp_tenderId p)), (''tenderVersion'', JNum (cp_tenderVersion p)),
      (''bidId'', JStr (cp_bidId p)), (''carrierId'', JStr (cp_carrierId p)),
      (''carrierAccountId'', JStr (cp_carrierAccountId p)), (''bidHash'', JStr (cp_bidHash p)),
      (''signedAt'', JStr (cp_signedAt p)), (''actionId'', JStr (cp_actionId p))]"

definition carrier_pod_payload_json :: "CarrierPodSubmissionSignPayload \<Rightarrow> json" where
  "carrier_pod_payload_json p = JObj
     [(''protocolVersion'', JStr AUTH_PROTOCOL_VERSION),
      (''purpose'', JStr CARRIER_POD_SUBMISSION_PURPOSE),
      (''podId'', JStr (pp_podId p)), (''podVersion'', JNum (pp_podVersion p)),
      (''tenderId'', JStr (pp_tenderId p)), (''tenderVersion'', JNum (pp_tenderVersion p)),
      (''winningBidId'', JStr (pp_winningBidId p)), (''escrowTenderKey'', JStr (pp_escrowTenderKey p)),
      (''carrierId'', JStr (pp_carrierId p)), (''carrierAccountId'', JStr (pp_carrierAccountId p)),
      (''deliveryTimestamp'', JStr (pp_deliveryTimestamp p)), (''manifestHash'', JStr (pp_manifestHash p)),
      (''packageContentHash'', JStr (pp_packageContentHash p)),
      (''submittedAt'', JStr (pp_submittedAt p)), (''actionId'', JStr (pp_actionId p))]"

definition signPayloadHash :: "hash_fn \<Rightarrow> json \<Rightarrow> canonical_error + string" where
  "signPayloadHash sha256 payload = canonicalSha256 sha256 payload"

subsection \<open>Signatures\<close>

fun hex_bytes :: "string \<Rightarrow> nat list option" where
  "hex_bytes [] = Some []"
| "hex_bytes [c] = None"
| "hex_bytes (a # b # cs) =
     (case (hex_val a, hex_val b, hex_bytes cs) of
        (Some x, Some y, Some bs) \<Rightarrow> Some ((16 * x + y) # bs) | _ \<Rightarrow> None)"

definition parseSignatureHex :: "string \<Rightarrow> nat list option" where
  "parseSignatureHex signatureHex =
     (if length signatureHex = 0 then None
      else if length signatureHex mod 2 \<noteq> 0 then None
      else if \<not> list_all (\<lambda>c. hex_val c \<noteq> None) signatureHex then None
      else if length signatureHex \<noteq> 128 then None
      else case hex_bytes signatureHex of None \<Rightarrow> None
        | Some buf \<Rightarrow> if length buf \<noteq> 64 then None else Some buf)"

definition verifyCanonicalPayload :: "ecdsa_fn \<Rightarrow> json \<Rightarrow> string \<Rightarrow> string \<Rightarrow> bool" where
  "verifyCanonicalPayload ecdsa v signatureHex publicKeyHex =
     (case parseSignatureHex signatureHex of None \<Rightarrow> False
      | Some signature \<Rightarrow>
        (case canonicalize v of Inl _ \<Rightarrow> False
         | Inr message \<Rightarrow> (case ecdsa publicKeyHex message signature of None \<Rightarrow> False | Some ok \<Rightarrow> ok)))"

subsection \<open>Sealed authorizations\<close>

record VerifiedShipperReviewAuth =
  sa_actionId :: string
  sa_reviewAction :: ShipperReviewActionKind
  sa_payloadHash :: string
  sa_trustedKeyFingerprint :: string
  sa_signPayload :: ShipperPodReviewSignPayload

record VerifiedRefereeResolutionAuth =
  ra_actionId :: string
  ra_refereeId :: string
  ra_payloadHash :: string
  ra_trustedKeyFingerprint :: string
  ra_signPayload :: RefereeResolutionSignPayload
  ra_resolution :: Resolution
  ra_releaseAmountAtomic :: string
  ra_refundAmountAtomic :: string
  ra_disputeId :: string
  ra_podId :: string

record VerifiedCarrierBidAuth =
  ca_actionId :: string
  ca_bidId :: string
  ca_carrierId :: string
  ca_carrierAccountId :: string
  ca_bidHash :: string
  ca_payloadHash :: string
  ca_trustedKeyFingerprint :: string
  ca_signPayload :: CarrierBidSignPayload

record VerifiedCarrierPodAuth =
  pa_actionId :: string
  pa_podId :: string
  pa_podVersion :: int
  pa_payloadHash :: string
  pa_trustedKeyFingerprint :: string
  pa_signPayload :: CarrierPodSubmissionSignPayload

datatype VerifiedAuth =
    SHIPPER_POD_REVIEW VerifiedShipperReviewAuth
  | REFEREE_RESOLUTION VerifiedRefereeResolutionAuth
  | CARRIER_BID VerifiedCarrierBidAuth
  | CARRIER_POD_SUBMISSION VerifiedCarrierPodAuth

record auth_object =
  ao_sealed :: bool
  ao_value :: VerifiedAuth

definition isSealedVerifiedAuth :: "auth_object \<Rightarrow> bool" where
  "isSealedVerifiedAuth a = ao_sealed a"

definition seal :: "VerifiedAuth \<Rightarrow> auth_object" where
  "seal v = \<lparr> ao_sealed = True, ao_value = v \<rparr>"

datatype auth_error = AuthorizationError string | PayloadNotCanonical canonical_error

definition verifyShipperPodReview ::
  "hash_fn \<Rightarrow> ecdsa_fn \<Rightarrow> TrustPolicy \<Rightarrow> string \<Rightarrow> int \<Rightarrow> string \<Rightarrow> ShipperReviewActionKind
    \<Rightarrow> string list option \<Rightarrow> string \<Rightarrow> string \<Rightarrow> string \<Rightarrow> string \<Rightarrow> auth_error + auth_object" where
  "verifyShipperPodReview sha256 ecdsa policy tenderId tenderVersion podId reviewAction reasonCodes
       signedAt reviewDeadlineAt actionId signature =
     (if signature = [] then Inl (AuthorizationError ''MISSING_SIGNATURE'')
      else
      let signPayload = buildShipperPodReviewSignPayload tenderId tenderVersion podId reviewAction
            reasonCodes signedAt reviewDeadlineAt actionId in
      if \<not> verifyCanonicalPayload ecdsa (shipper_payload_json signPayload) signature
              (tp_shipperPublicKey policy)
      then Inl (AuthorizationError ''SHIPPER_SIGNATURE_INVALID'')
      else bind_res (map_err PayloadNotCanonical (signPayloadHash sha256 (shipper_payload_json signPayload)))
        (\<lambda>payloadHash. Inr (seal (SHIPPER_POD_REVIEW
          \<lparr> sa_actionId = actionId, sa_reviewAction = reviewAction, sa_payloadHash = payloadHash,
            sa_trustedKeyFingerprint = publicKeyFingerprint sha256 (tp_shipperPublicKey policy),
            sa_signPayload = signPayload \<rparr>))))"

text \<open>\<open>/^(ai|model|gpt|llm|assistant|bot)/i\<close>.\<close>

definition looks_automated :: "string \<Rightarrow> bool" where
  "looks_automated s =
     list_ex (\<lambda>p. take (length p) (toLowerCase s) = p)
       [''ai'', ''model'', ''gpt'', ''llm'', ''assistant'', ''bot'']"

definition verifyRefereeResolution ::
  "hash_fn \<Rightarrow> ecdsa_fn \<Rightarrow> TrustPolicy \<Rightarrow> RefereeResolutionSignPayload \<Rightarrow> string \<Rightarrow> string option
    \<Rightarrow> auth_error + auth_object" where
  "verifyRefereeResolution sha256 ecdsa policy p signature eventPublicKey =
     (if looks_automated (rp_refereeId p) \<or> rp_refereeId p = ''AI''
      then Inl (AuthorizationError ''AI_REFEREE'')
      else case resolveTrustedReferee policy (rp_refereeId p) of
        Inl _ \<Rightarrow> Inl (AuthorizationError ''REFEREE_NOT_TRUSTED'')
      | Inr trusted \<Rightarrow>
        if (case eventPublicKey of None \<Rightarrow> False | Some k \<Rightarrow> js_trim k \<noteq> te_publicKey trusted)
        then Inl (AuthorizationError ''REFEREE_KEY_MISMATCH'')
        else if signature = [] then Inl (AuthorizationError ''MISSING_SIGNATURE'')
        else if \<not> verifyCanonicalPayload ecdsa (referee_payload_json p) signature (te_publicKey trusted)
        then Inl (AuthorizationError ''REFEREE_SIGNATURE_INVALID'')
        else bind_res (map_err PayloadNotCanonical (signPayloadHash sha256 (referee_payload_json p)))
          (\<lambda>payloadHash. Inr (seal (REFEREE_RESOLUTION
            \<lparr> ra_actionId = rp_actionId p, ra_refereeId = rp_refereeId p, ra_payloadHash = payloadHash,
              ra_trustedKeyFingerprint = publicKeyFingerprint sha256 (te_publicKey trusted),
              ra_signPayload = p, ra_resolution = rp_resolution p,
              ra_releaseAmountAtomic = rp_releaseAmountAtomic p,
              ra_refundAmountAtomic = rp_refundAmountAtomic p,
              ra_disputeId = rp_disputeId p, ra_podId = rp_podId p \<rparr>))))"

definition verifyCarrierBid ::
  "hash_fn \<Rightarrow> ecdsa_fn \<Rightarrow> string \<Rightarrow> CarrierBidSignPayload \<Rightarrow> string \<Rightarrow> auth_error + auth_object" where
  "verifyCarrierBid sha256 ecdsa registeredPublicKey p signature =
     (if signature = [] then Inl (AuthorizationError ''MISSING_SIGNATURE'')
      else if registeredPublicKey = [] then Inl (AuthorizationError ''CARRIER_NOT_REGISTERED'')
      else if \<not> verifyCanonicalPayload ecdsa (carrier_bid_payload_json p) signature registeredPublicKey
      then Inl (AuthorizationError ''CARRIER_SIGNATURE_INVALID'')
      else bind_res (map_err PayloadNotCanonical (signPayloadHash sha256 (carrier_bid_payload_json p)))
        (\<lambda>payloadHash. Inr (seal (CARRIER_BID
          \<lparr> ca_actionId = cp_actionId p, ca_bidId = cp_bidId p, ca_carrierId = cp_carrierId p,
            ca_carrierAccountId = cp_carrierAccountId p, ca_bidHash = cp_bidHash p,
            ca_payloadHash = payloadHash,
            ca_trustedKeyFingerprint = publicKeyFingerprint sha256 registeredPublicKey,
            ca_signPayload = p \<rparr>))))"

definition verifyCarrierPodSubmission ::
  "hash_fn \<Rightarrow> ecdsa_fn \<Rightarrow> string \<Rightarrow> CarrierPodSubmissionSignPayload \<Rightarrow> string \<Rightarrow> auth_error + auth_object" where
  "verifyCarrierPodSubmission sha256 ecdsa registeredPublicKey p signature =
     (if signature = [] then Inl (AuthorizationError ''MISSING_SIGNATURE'')
      else if registeredPublicKey = [] then Inl (AuthorizationError ''CARRIER_NOT_REGISTERED'')
      else if \<not> verifyCanonicalPayload ecdsa (carrier_pod_payload_json p) signature registeredPublicKey
      then Inl (AuthorizationError ''POD_SIGNATURE_INVALID'')
      else bind_res (map_err PayloadNotCanonical (signPayloadHash sha256 (carrier_pod_payload_json p)))
        (\<lambda>payloadHash. Inr (seal (CARRIER_POD_SUBMISSION
          \<lparr> pa_actionId = pp_actionId p, pa_podId = pp_podId p, pa_podVersion = pp_podVersion p,
            pa_payloadHash = payloadHash,
            pa_trustedKeyFingerprint = publicKeyFingerprint sha256 registeredPublicKey,
            pa_signPayload = p \<rparr>))))"

end
