(* ===== verification/Lifecycle_Model.thy ===== *)
theory Lifecycle_Model
  imports Utc_Time Atomic_Money Trust_Auth
begin

text \<open>
  The tender lifecycle: \<^verbatim>\<open>src/v2/lifecycle/states.ts\<close>, \<^verbatim>\<open>errors.ts\<close>,
  \<^verbatim>\<open>events.ts\<close>, \<^verbatim>\<open>record.ts\<close> and \<^verbatim>\<open>reducer.ts\<close>.

  The durable record is one flat HOL record with the fields of the TypeScript
  type (prefix \<open>lr_\<close>); a nullable field is an option.  An event is its action
  id, its time and a body with one constructor for each event type.  Each case
  of the reducer's \<open>switch\<close> is a definition of its own, with the guards in the
  order of the source; \<open>reduceLifecycle\<close> composes them.  The processed-action
  index, an object keyed by action id, is an association list in insertion
  order.  Error messages are dropped, error classes and codes are kept.
\<close>

subsection \<open>States\<close>

datatype V2LifecycleState =
    DRAFT | ESCROW_FUNDED | TENDER_OPENED | BIDDING | AUCTION_CLOSED | NO_QUALIFIED_BID
  | WINNER_SELECTED | WINNING_AMOUNT_LOCKED | ROUTE_RESERVED | IN_TRANSIT | DELIVERY_REPORTED
  | POD_SUBMITTED | POD_UNDER_REVIEW | POD_CORRECTION_REQUESTED | POD_RESUBMITTED | POD_ACCEPTED
  | POD_DEEMED_ACCEPTED | POD_DISPUTED | REFEREE_DECISION | PAYMENT_RELEASED | PARTIAL_RELEASE
  | REFUNDED | TENDER_COMPLETED

definition V2_LIFECYCLE_STATES :: "V2LifecycleState list" where
  "V2_LIFECYCLE_STATES =
     [DRAFT, ESCROW_FUNDED, TENDER_OPENED, BIDDING, AUCTION_CLOSED, NO_QUALIFIED_BID,
      WINNER_SELECTED, WINNING_AMOUNT_LOCKED, ROUTE_RESERVED, IN_TRANSIT, DELIVERY_REPORTED,
      POD_SUBMITTED, POD_UNDER_REVIEW, POD_CORRECTION_REQUESTED, POD_RESUBMITTED, POD_ACCEPTED,
      POD_DEEMED_ACCEPTED, POD_DISPUTED, REFEREE_DECISION, PAYMENT_RELEASED, PARTIAL_RELEASE,
      REFUNDED, TENDER_COMPLETED]"

definition V2_FUNDS_LOCKED_STATES :: "V2LifecycleState list" where
  "V2_FUNDS_LOCKED_STATES =
     [WINNING_AMOUNT_LOCKED, ROUTE_RESERVED, IN_TRANSIT, DELIVERY_REPORTED, POD_SUBMITTED,
      POD_UNDER_REVIEW, POD_CORRECTION_REQUESTED, POD_RESUBMITTED, POD_DISPUTED, REFEREE_DECISION]"

definition V2_ECONOMIC_TERMINAL_STATES :: "V2LifecycleState list" where
  "V2_ECONOMIC_TERMINAL_STATES = [PAYMENT_RELEASED, PARTIAL_RELEASE, REFUNDED, TENDER_COMPLETED]"

datatype lifecycle_error =
    IllegalLifecycleTransition V2LifecycleState V2LifecycleState
  | LifecycleGuard string
  | TimeErr time_error
  | ResourceErr resource_error
  | CanonicalErr canonical_error
  | AmountErr amount_error
  | BigIntSyntax

subsection \<open>Events\<close>

record EscrowFundingConfirmed =
  ef_fundingTxId :: string
  ef_tokenId :: string
  ef_fundedAmountAtomic :: string
  ef_tenderId :: string
  ef_tenderVersion :: int

record TenderActivationPaid =
  ta_accessActionType :: string
  ta_asset :: string
  ta_amountAtomic :: string
  ta_resource :: string
  ta_paymentTransactionId :: string
  ta_paymentPayloadHash :: string
  ta_payerAccount :: string
  ta_payTo :: string

record BidSubmissionPaid =
  bs_accessActionType :: string
  bs_bidId :: string
  bs_carrierId :: string
  bs_carrierAccountId :: string
  bs_bidHash :: string
  bs_signedBidEnvelopeHash :: string
  bs_commitmentPayloadHash :: string
  bs_carrierSignature :: string
  bs_signedAt :: string
  bs_asset :: string
  bs_amountAtomic :: string
  bs_resource :: string
  bs_paymentTransactionId :: string
  bs_paymentPayloadHash :: string
  bs_payerAccount :: string
  bs_payTo :: string

record AuctionCloseConfirmed =
  ac_auctionEndsAt :: string
  ac_closureProofRef :: string
  ac_authoritativeBidSetHash :: string

record WinnerSelectionConfirmed =
  ws_decisionManifestHash :: string
  ws_winningBidId :: string
  ws_winningCarrierId :: string
  ws_winningCarrierAccount :: string
  ws_winningAmountAtomic :: string
  ws_selectionPolicy :: string

record WinningAmountAllocationConfirmed =
  wa_allocateTxId :: string
  wa_refundExcessTxId :: "string option"
  wa_maxBudgetAtomic :: string
  wa_winningAmountAtomic :: string
  wa_excessRefundAtomic :: string
  wa_decisionManifestHash :: string

record PodPackage =
  pk_podId :: string
  pk_podVersion :: int
  pk_contentHash :: string
  pk_ciphertextHash :: string

type_synonym reason = "string \<times> string"

record PodReviewAction =
  pr_reasons :: "reason list"
  pr_shipperSignature :: string
  pr_signedAt :: string
  pr_reviewDeadlineAt :: string

record RefereeResolutionRecorded =
  rr_disputeId :: string
  rr_podId :: string
  rr_resolution :: Resolution
  rr_releaseAmountAtomic :: string
  rr_refundAmountAtomic :: string
  rr_rationaleCode :: string
  rr_refereeId :: string
  rr_refereePublicKey :: "string option"
  rr_signature :: string
  rr_signedAt :: string
  rr_signerKind :: string

record EscrowPartialReleaseConfirmed =
  ep_releaseTxId :: string
  ep_refundTxId :: string
  ep_releaseAmountAtomic :: string
  ep_refundAmountAtomic :: string

datatype event_body =
    ESCROW_FUNDING_CONFIRMED EscrowFundingConfirmed
  | TENDER_ACTIVATION_PAID TenderActivationPaid
  | BIDDING_STARTED
  | BID_SUBMISSION_PAID BidSubmissionPaid
  | AUCTION_CLOSE_CONFIRMED AuctionCloseConfirmed
  | NO_QUALIFIED_BID_CONFIRMED string
  | WINNER_SELECTION_CONFIRMED WinnerSelectionConfirmed
  | WINNING_AMOUNT_ALLOCATION_CONFIRMED WinningAmountAllocationConfirmed
  | ROUTE_RESERVATION_PUBLISHED string string
  | TRANSIT_STARTED
  | DELIVERY_REPORTED_EVENT
  | POD_PACKAGE_SUBMITTED PodPackage
  | POD_REVIEW_STARTED
  | POD_CORRECTION_REQUESTED_EVENT PodReviewAction
  | POD_PACKAGE_RESUBMITTED PodPackage
  | POD_ACCEPTED_BY_SHIPPER string string string
  | POD_REVIEW_DEADLINE_EXPIRED
  | POD_CORRECTION_DEADLINE_EXPIRED
  | POD_REJECTED_TO_DISPUTE PodReviewAction string
  | REFEREE_RESOLUTION_RECORDED RefereeResolutionRecorded
  | ESCROW_RELEASE_CONFIRMED string string
  | ESCROW_PARTIAL_RELEASE_CONFIRMED EscrowPartialReleaseConfirmed
  | ESCROW_REFUND_CONFIRMED string string
  | TENDER_COMPLETION_CONFIRMED
  | POD_ADVISORY_ANCHORED string string

record LifecycleEvent =
  ev_actionId :: string
  ev_eventTime :: string
  ev_body :: event_body

text \<open>The \<open>type\<close> discriminator of an event.\<close>

primrec event_type :: "event_body \<Rightarrow> string" where
  "event_type (ESCROW_FUNDING_CONFIRMED p) = ''ESCROW_FUNDING_CONFIRMED''"
| "event_type (TENDER_ACTIVATION_PAID p) = ''TENDER_ACTIVATION_PAID''"
| "event_type BIDDING_STARTED = ''BIDDING_STARTED''"
| "event_type (BID_SUBMISSION_PAID p) = ''BID_SUBMISSION_PAID''"
| "event_type (AUCTION_CLOSE_CONFIRMED p) = ''AUCTION_CLOSE_CONFIRMED''"
| "event_type (NO_QUALIFIED_BID_CONFIRMED m) = ''NO_QUALIFIED_BID_CONFIRMED''"
| "event_type (WINNER_SELECTION_CONFIRMED p) = ''WINNER_SELECTION_CONFIRMED''"
| "event_type (WINNING_AMOUNT_ALLOCATION_CONFIRMED p) = ''WINNING_AMOUNT_ALLOCATION_CONFIRMED''"
| "event_type (ROUTE_RESERVATION_PUBLISHED e p) = ''ROUTE_RESERVATION_PUBLISHED''"
| "event_type TRANSIT_STARTED = ''TRANSIT_STARTED''"
| "event_type DELIVERY_REPORTED_EVENT = ''DELIVERY_REPORTED''"
| "event_type (POD_PACKAGE_SUBMITTED p) = ''POD_PACKAGE_SUBMITTED''"
| "event_type POD_REVIEW_STARTED = ''POD_REVIEW_STARTED''"
| "event_type (POD_CORRECTION_REQUESTED_EVENT p) = ''POD_CORRECTION_REQUESTED''"
| "event_type (POD_PACKAGE_RESUBMITTED p) = ''POD_PACKAGE_RESUBMITTED''"
| "event_type (POD_ACCEPTED_BY_SHIPPER sg t d) = ''POD_ACCEPTED_BY_SHIPPER''"
| "event_type POD_REVIEW_DEADLINE_EXPIRED = ''POD_REVIEW_DEADLINE_EXPIRED''"
| "event_type POD_CORRECTION_DEADLINE_EXPIRED = ''POD_CORRECTION_DEADLINE_EXPIRED''"
| "event_type (POD_REJECTED_TO_DISPUTE p d) = ''POD_REJECTED_TO_DISPUTE''"
| "event_type (REFEREE_RESOLUTION_RECORDED p) = ''REFEREE_RESOLUTION_RECORDED''"
| "event_type (ESCROW_RELEASE_CONFIRMED t a) = ''ESCROW_RELEASE_CONFIRMED''"
| "event_type (ESCROW_PARTIAL_RELEASE_CONFIRMED p) = ''ESCROW_PARTIAL_RELEASE_CONFIRMED''"
| "event_type (ESCROW_REFUND_CONFIRMED t a) = ''ESCROW_REFUND_CONFIRMED''"
| "event_type TENDER_COMPLETION_CONFIRMED = ''TENDER_COMPLETION_CONFIRMED''"
| "event_type (POD_ADVISORY_ANCHORED r b) = ''POD_ADVISORY_ANCHORED''"

definition LIFECYCLE_EVENT_TYPES :: "string list" where
  "LIFECYCLE_EVENT_TYPES =
     [''ESCROW_FUNDING_CONFIRMED'', ''TENDER_ACTIVATION_PAID'', ''BIDDING_STARTED'',
      ''BID_SUBMISSION_PAID'', ''AUCTION_CLOSE_CONFIRMED'', ''NO_QUALIFIED_BID_CONFIRMED'',
      ''WINNER_SELECTION_CONFIRMED'', ''WINNING_AMOUNT_ALLOCATION_CONFIRMED'',
      ''ROUTE_RESERVATION_PUBLISHED'', ''TRANSIT_STARTED'', ''DELIVERY_REPORTED'',
      ''POD_PACKAGE_SUBMITTED'', ''POD_REVIEW_STARTED'', ''POD_CORRECTION_REQUESTED'',
      ''POD_PACKAGE_RESUBMITTED'', ''POD_ACCEPTED_BY_SHIPPER'', ''POD_REVIEW_DEADLINE_EXPIRED'',
      ''POD_CORRECTION_DEADLINE_EXPIRED'', ''POD_REJECTED_TO_DISPUTE'',
      ''REFEREE_RESOLUTION_RECORDED'', ''ESCROW_RELEASE_CONFIRMED'',
      ''ESCROW_PARTIAL_RELEASE_CONFIRMED'', ''ESCROW_REFUND_CONFIRMED'',
      ''TENDER_COMPLETION_CONFIRMED'', ''POD_ADVISORY_ANCHORED'']"

text \<open>The own properties of an event besides \<open>type\<close>, \<open>actionId\<close> and \<open>eventTime\<close>.\<close>

definition reasons_json :: "reason list \<Rightarrow> json" where
  "reasons_json rs = JArr (map (\<lambda>(c, m). Some (JObj [(''code'', JStr c), (''message'', JStr m)])) rs)"

definition package_props :: "PodPackage \<Rightarrow> (string \<times> json) list" where
  "package_props p = [(''podId'', JStr (pk_podId p)), (''podVersion'', JNum (pk_podVersion p)),
     (''contentHash'', JStr (pk_contentHash p)), (''ciphertextHash'', JStr (pk_ciphertextHash p))]"

definition review_props :: "PodReviewAction \<Rightarrow> (string \<times> json) list" where
  "review_props p = [(''reasons'', reasons_json (pr_reasons p)),
     (''shipperSignature'', JStr (pr_shipperSignature p)), (''signedAt'', JStr (pr_signedAt p)),
     (''reviewDeadlineAt'', JStr (pr_reviewDeadlineAt p))]"

primrec body_props :: "event_body \<Rightarrow> (string \<times> json) list" where
  "body_props (ESCROW_FUNDING_CONFIRMED p) =
     [(''fundingTxId'', JStr (ef_fundingTxId p)), (''tokenId'', JStr (ef_tokenId p)),
      (''fundedAmountAtomic'', JStr (ef_fundedAmountAtomic p)), (''tenderId'', JStr (ef_tenderId p)),
      (''tenderVersion'', JNum (ef_tenderVersion p))]"
| "body_props (TENDER_ACTIVATION_PAID p) =
     [(''accessActionType'', JStr (ta_accessActionType p)), (''asset'', JStr (ta_asset p)),
      (''amountAtomic'', JStr (ta_amountAtomic p)), (''resource'', JStr (ta_resource p)),
      (''paymentTransactionId'', JStr (ta_paymentTransactionId p)),
      (''paymentPayloadHash'', JStr (ta_paymentPayloadHash p)),
      (''payerAccount'', JStr (ta_payerAccount p)), (''payTo'', JStr (ta_payTo p))]"
| "body_props BIDDING_STARTED = []"
| "body_props (BID_SUBMISSION_PAID p) =
     [(''accessActionType'', JStr (bs_accessActionType p)), (''bidId'', JStr (bs_bidId p)),
      (''carrierId'', JStr (bs_carrierId p)), (''carrierAccountId'', JStr (bs_carrierAccountId p)),
      (''bidHash'', JStr (bs_bidHash p)),
      (''signedBidEnvelopeHash'', JStr (bs_signedBidEnvelopeHash p)),
      (''commitmentPayloadHash'', JStr (bs_commitmentPayloadHash p)),
      (''carrierSignature'', JStr (bs_carrierSignature p)), (''signedAt'', JStr (bs_signedAt p)),
      (''asset'', JStr (bs_asset p)), (''amountAtomic'', JStr (bs_amountAtomic p)),
      (''resource'', JStr (bs_resource p)),
      (''paymentTransactionId'', JStr (bs_paymentTransactionId p)),
      (''paymentPayloadHash'', JStr (bs_paymentPayloadHash p)),
      (''payerAccount'', JStr (bs_payerAccount p)), (''payTo'', JStr (bs_payTo p))]"
| "body_props (AUCTION_CLOSE_CONFIRMED p) =
     [(''auctionEndsAt'', JStr (ac_auctionEndsAt p)), (''closureProofRef'', JStr (ac_closureProofRef p)),
      (''authoritativeBidSetHash'', JStr (ac_authoritativeBidSetHash p))]"
| "body_props (NO_QUALIFIED_BID_CONFIRMED m) = [(''decisionManifestHash'', JStr m)]"
| "body_props (WINNER_SELECTION_CONFIRMED p) =
     [(''decisionManifestHash'', JStr (ws_decisionManifestHash p)),
      (''winningBidId'', JStr (ws_winningBidId p)), (''winningCarrierId'', JStr (ws_winningCarrierId p)),
      (''winningCarrierAccount'', JStr (ws_winningCarrierAccount p)),
      (''winningAmountAtomic'', JStr (ws_winningAmountAtomic p)),
      (''selectionPolicy'', JStr (ws_selectionPolicy p))]"
| "body_props (WINNING_AMOUNT_ALLOCATION_CONFIRMED p) =
     [(''allocateTxId'', JStr (wa_allocateTxId p)),
      (''refundExcessTxId'', (case wa_refundExcessTxId p of None \<Rightarrow> JNull | Some t \<Rightarrow> JStr t)),
      (''maxBudgetAtomic'', JStr (wa_maxBudgetAtomic p)),
      (''winningAmountAtomic'', JStr (wa_winningAmountAtomic p)),
      (''excessRefundAtomic'', JStr (wa_excessRefundAtomic p)),
      (''decisionManifestHash'', JStr (wa_decisionManifestHash p))]"
| "body_props (ROUTE_RESERVATION_PUBLISHED e p) =
     [(''reservationEvidenceRef'', JStr e), (''hcsPublicationRef'', JStr p)]"
| "body_props TRANSIT_STARTED = []"
| "body_props DELIVERY_REPORTED_EVENT = []"
| "body_props (POD_PACKAGE_SUBMITTED p) = package_props p"
| "body_props POD_REVIEW_STARTED = []"
| "body_props (POD_CORRECTION_REQUESTED_EVENT p) = review_props p"
| "body_props (POD_PACKAGE_RESUBMITTED p) = package_props p"
| "body_props (POD_ACCEPTED_BY_SHIPPER sg t d) =
     [(''shipperSignature'', JStr sg), (''signedAt'', JStr t), (''reviewDeadlineAt'', JStr d)]"
| "body_props POD_REVIEW_DEADLINE_EXPIRED = []"
| "body_props POD_CORRECTION_DEADLINE_EXPIRED = []"
| "body_props (POD_REJECTED_TO_DISPUTE p d) = review_props p @ [(''disputeId'', JStr d)]"
| "body_props (REFEREE_RESOLUTION_RECORDED p) =
     [(''disputeId'', JStr (rr_disputeId p)), (''podId'', JStr (rr_podId p)),
      (''resolution'', JStr (resolution_str (rr_resolution p))),
      (''releaseAmountAtomic'', JStr (rr_releaseAmountAtomic p)),
      (''refundAmountAtomic'', JStr (rr_refundAmountAtomic p)),
      (''rationaleCode'', JStr (rr_rationaleCode p)), (''refereeId'', JStr (rr_refereeId p))]
     @ (case rr_refereePublicKey p of None \<Rightarrow> [] | Some k \<Rightarrow> [(''refereePublicKey'', JStr k)])
     @ [(''signature'', JStr (rr_signature p)), (''signedAt'', JStr (rr_signedAt p)),
        (''signerKind'', JStr (rr_signerKind p))]"
| "body_props (ESCROW_RELEASE_CONFIRMED t a) =
     [(''releaseTxId'', JStr t), (''releaseAmountAtomic'', JStr a)]"
| "body_props (ESCROW_PARTIAL_RELEASE_CONFIRMED p) =
     [(''releaseTxId'', JStr (ep_releaseTxId p)), (''refundTxId'', JStr (ep_refundTxId p)),
      (''releaseAmountAtomic'', JStr (ep_releaseAmountAtomic p)),
      (''refundAmountAtomic'', JStr (ep_refundAmountAtomic p))]"
| "body_props (ESCROW_REFUND_CONFIRMED t a) =
     [(''refundTxId'', JStr t), (''refundAmountAtomic'', JStr a)]"
| "body_props TENDER_COMPLETION_CONFIRMED = []"
| "body_props (POD_ADVISORY_ANCHORED r b) = [(''reportHash'', JStr r), (''binding'', JStr b)]"

definition event_json :: "LifecycleEvent \<Rightarrow> json" where
  "event_json e = JObj ([(''type'', JStr (event_type (ev_body e))), (''actionId'', JStr (ev_actionId e)),
     (''eventTime'', JStr (ev_eventTime e))] @ body_props (ev_body e))"

subsection \<open>The durable record\<close>

definition LIFECYCLE_RECORD_SCHEMA :: string where
  "LIFECYCLE_RECORD_SCHEMA = ''routeguard-lifecycle-1.0''"

record LifecycleTransitionRecord =
  tr_from :: V2LifecycleState
  tr_to :: V2LifecycleState
  tr_eventType :: string
  tr_actionId :: string
  tr_at :: string
  tr_reason :: "string option"

record ProcessedActionRecord =
  pa2_actionId :: string
  pa2_eventType :: string
  pa2_eventPayloadHash :: string
  pa2_resultingState :: V2LifecycleState
  pa2_recordVersionAfter :: int
  pa2_at :: string

record LifecycleAccessReceipt =
  ar_accessActionType :: string
  ar_asset :: string
  ar_amountAtomic :: string
  ar_resource :: string
  ar_payTo :: string
  ar_payerAccount :: string
  ar_paymentTransactionId :: string
  ar_paymentPayloadHash :: string
  ar_paidAt :: string

record LifecycleAccessPayment =
  ap_accessActionType :: string
  ap_actionId :: string
  ap_bidId :: "string option"
  ap_asset :: string
  ap_amountAtomic :: string
  ap_resource :: string
  ap_payTo :: string
  ap_payerAccount :: string
  ap_paymentTransactionId :: string
  ap_paymentPayloadHash :: string
  ap_settledAt :: string

record LifecycleBidEntry =
  be_bidId :: string
  be_carrierId :: string
  be_carrierAccountId :: string
  be_bidHash :: string
  be_signedBidEnvelopeHash :: string
  be_commitmentPayloadHash :: string
  be_carrierKeyFingerprint :: string
  be_bidAuthPayloadHash :: string
  be_accessPaymentTxId :: string
  be_actionId :: string
  be_acceptedAt :: string

record LifecycleRecord =
  lr_schemaVersion :: string
  lr_tenderId :: string
  lr_tenderVersion :: int
  lr_tenderHash :: string
  lr_maximumFreightBudgetAtomic :: string
  lr_auctionEndsAt :: string
  lr_state :: V2LifecycleState
  lr_recordVersion :: int
  lr_createdAt :: string
  lr_updatedAt :: string
  lr_lastActionId :: "string option"
  lr_history :: "LifecycleTransitionRecord list"
  lr_processedActions :: "(string \<times> ProcessedActionRecord) list"
  lr_trust :: TrustPolicySnapshot
  lr_fundingTxId :: "string option"
  lr_fundedAmountAtomic :: "string option"
  lr_activationPaymentTxId :: "string option"
  lr_accessReceipt :: "LifecycleAccessReceipt option"
  lr_accessPayments :: "LifecycleAccessPayment list"
  lr_bidRegistry :: "LifecycleBidEntry list"
  lr_closureProofRef :: "string option"
  lr_authoritativeBidSetHash :: "string option"
  lr_decisionManifestHash :: "string option"
  lr_winningBidId :: "string option"
  lr_winningCarrierId :: "string option"
  lr_winningCarrierAccount :: "string option"
  lr_winningAmountAtomic :: "string option"
  lr_lockedAmountAtomic :: "string option"
  lr_excessRefundAtomic :: "string option"
  lr_allocateTxId :: "string option"
  lr_refundExcessTxId :: "string option"
  lr_reservationEvidenceRef :: "string option"
  lr_podId :: "string option"
  lr_podVersion :: "int option"
  lr_podContentHash :: "string option"
  lr_podCiphertextHash :: "string option"
  lr_reviewStartedAt :: "string option"
  lr_reviewDeadlineAt :: "string option"
  lr_correctionDeadlineAt :: "string option"
  lr_shipperActionTaken :: bool
  lr_advisoryReportHash :: "string option"
  lr_disputeId :: "string option"
  lr_lastShipperAuthPayloadHash :: "string option"
  lr_lastShipperKeyFingerprint :: "string option"
  lr_refereeResolution :: "Resolution option"
  lr_releaseAmountAtomic :: "string option"
  lr_refundAmountAtomic :: "string option"
  lr_resolutionPayloadHash :: "string option"
  lr_refereeId :: "string option"
  lr_refereeKeyFingerprint :: "string option"
  lr_releaseTxId :: "string option"
  lr_refundTxId :: "string option"

end
