(* ===== verification/Lifecycle_Reducer.thy ===== *)
theory Lifecycle_Reducer
  imports Lifecycle_Model
begin

text \<open>
  The pure reducer, \<^verbatim>\<open>src/v2/lifecycle/reducer.ts\<close>, and record creation
  (\<^verbatim>\<open>record.ts\<close>).  The context of a call is the optional authorization
  object; \<open>sha256\<close> is the digest parameter of the event hash.
\<close>

subsection \<open>Creation\<close>

record CreateLifecycleInput =
  ci_tenderId :: string
  ci_tenderVersion :: int
  ci_tenderHash :: string
  ci_maximumFreightBudgetAtomic :: string
  ci_auctionEndsAt :: string
  ci_createdAt :: string
  ci_trust :: TrustPolicy

definition createLifecycleRecord ::
  "hash_fn \<Rightarrow> CreateLifecycleInput \<Rightarrow> lifecycle_error + LifecycleRecord" where
  "createLifecycleRecord sha256 input =
     (let trust = snapshotTrustPolicy sha256 (ci_trust input) in
      if \<not> isPositiveAtomicString (ci_maximumFreightBudgetAtomic input)
      then Inl (LifecycleGuard ''ZOD_POSITIVE_ATOMIC'')
      else Inr \<lparr>
        lr_schemaVersion = LIFECYCLE_RECORD_SCHEMA,
        lr_tenderId = ci_tenderId input,
        lr_tenderVersion = ci_tenderVersion input,
        lr_tenderHash = ci_tenderHash input,
        lr_maximumFreightBudgetAtomic = ci_maximumFreightBudgetAtomic input,
        lr_auctionEndsAt = ci_auctionEndsAt input,
        lr_state = DRAFT,
        lr_recordVersion = 1,
        lr_createdAt = ci_createdAt input,
        lr_updatedAt = ci_createdAt input,
        lr_lastActionId = None,
        lr_history = [],
        lr_processedActions = [],
        lr_trust = trust,
        lr_fundingTxId = None,
        lr_fundedAmountAtomic = None,
        lr_activationPaymentTxId = None,
        lr_accessReceipt = None,
        lr_accessPayments = [],
        lr_bidRegistry = [],
        lr_closureProofRef = None,
        lr_authoritativeBidSetHash = None,
        lr_decisionManifestHash = None,
        lr_winningBidId = None,
        lr_winningCarrierId = None,
        lr_winningCarrierAccount = None,
        lr_winningAmountAtomic = None,
        lr_lockedAmountAtomic = None,
        lr_excessRefundAtomic = None,
        lr_allocateTxId = None,
        lr_refundExcessTxId = None,
        lr_reservationEvidenceRef = None,
        lr_podId = None,
        lr_podVersion = None,
        lr_podContentHash = None,
        lr_podCiphertextHash = None,
        lr_reviewStartedAt = None,
        lr_reviewDeadlineAt = None,
        lr_correctionDeadlineAt = None,
        lr_shipperActionTaken = False,
        lr_advisoryReportHash = None,
        lr_disputeId = None,
        lr_lastShipperAuthPayloadHash = None,
        lr_lastShipperKeyFingerprint = None,
        lr_refereeResolution = None,
        lr_releaseAmountAtomic = None,
        lr_refundAmountAtomic = None,
        lr_resolutionPayloadHash = None,
        lr_refereeId = None,
        lr_refereeKeyFingerprint = None,
        lr_releaseTxId = None,
        lr_refundTxId = None \<rparr>)"

definition trustPolicyFromRecord :: "LifecycleRecord \<Rightarrow> TrustPolicy" where
  "trustPolicyFromRecord r =
     \<lparr> tp_schemaVersion = ts_schemaVersion (lr_trust r),
       tp_shipperPublicKey = ts_shipperPublicKey (lr_trust r),
       tp_referees = ts_referees (lr_trust r),
       tp_accessTreasuryAccountId = ts_accessTreasuryAccountId (lr_trust r),
       tp_signatureAlgorithm = ts_signatureAlgorithm (lr_trust r) \<rparr>"

subsection \<open>The transition graph\<close>

primrec LEGAL :: "V2LifecycleState \<Rightarrow> V2LifecycleState list" where
  "LEGAL DRAFT = [ESCROW_FUNDED]"
| "LEGAL ESCROW_FUNDED = [TENDER_OPENED]"
| "LEGAL TENDER_OPENED = [BIDDING]"
| "LEGAL BIDDING = [AUCTION_CLOSED]"
| "LEGAL AUCTION_CLOSED = [WINNER_SELECTED, NO_QUALIFIED_BID]"
| "LEGAL NO_QUALIFIED_BID = [REFUNDED]"
| "LEGAL WINNER_SELECTED = [WINNING_AMOUNT_LOCKED]"
| "LEGAL WINNING_AMOUNT_LOCKED = [ROUTE_RESERVED]"
| "LEGAL ROUTE_RESERVED = [IN_TRANSIT]"
| "LEGAL IN_TRANSIT = [DELIVERY_REPORTED]"
| "LEGAL DELIVERY_REPORTED = [POD_SUBMITTED]"
| "LEGAL POD_SUBMITTED = [POD_UNDER_REVIEW]"
| "LEGAL POD_UNDER_REVIEW =
     [POD_CORRECTION_REQUESTED, POD_ACCEPTED, POD_DEEMED_ACCEPTED, POD_DISPUTED]"
| "LEGAL POD_CORRECTION_REQUESTED = [POD_RESUBMITTED, POD_DISPUTED]"
| "LEGAL POD_RESUBMITTED = [POD_UNDER_REVIEW]"
| "LEGAL POD_ACCEPTED = [PAYMENT_RELEASED]"
| "LEGAL POD_DEEMED_ACCEPTED = [PAYMENT_RELEASED]"
| "LEGAL POD_DISPUTED = [REFEREE_DECISION]"
| "LEGAL REFEREE_DECISION = [PAYMENT_RELEASED, PARTIAL_RELEASE, REFUNDED]"
| "LEGAL PAYMENT_RELEASED = [TENDER_COMPLETED]"
| "LEGAL PARTIAL_RELEASE = [TENDER_COMPLETED]"
| "LEGAL REFUNDED = [TENDER_COMPLETED]"
| "LEGAL TENDER_COMPLETED = []"

definition isLegalTransition :: "V2LifecycleState \<Rightarrow> V2LifecycleState \<Rightarrow> bool" where
  "isLegalTransition frm tgt = (if frm = tgt then True else List.member (LEGAL frm) tgt)"

definition assertLegalTransition ::
  "V2LifecycleState \<Rightarrow> V2LifecycleState \<Rightarrow> lifecycle_error + unit" where
  "assertLegalTransition frm tgt =
     (if frm = tgt then Inr ()
      else if \<not> List.member (LEGAL frm) tgt then Inl (IllegalLifecycleTransition frm tgt)
      else Inr ())"

definition legalSuccessors :: "V2LifecycleState \<Rightarrow> V2LifecycleState list" where
  "legalSuccessors frm = LEGAL frm"

definition countLegalTransitions :: nat where
  "countLegalTransitions = foldl (\<lambda>n s. n + length (LEGAL s)) 0 V2_LIFECYCLE_STATES"

subsection \<open>Guards and transitions\<close>

definition eventPayloadHash :: "hash_fn \<Rightarrow> LifecycleEvent \<Rightarrow> lifecycle_error + string" where
  "eventPayloadHash sha256 event = map_err CanonicalErr (canonicalSha256 sha256 (event_json event))"

definition requireUtc :: "string \<Rightarrow> lifecycle_error + unit" where
  "requireUtc v = (if \<not> isUtcIsoTimestamp v then Inl (LifecycleGuard ''INVALID_TIMESTAMP'') else Inr ())"

definition requirePositiveAtomic :: "string \<Rightarrow> lifecycle_error + unit" where
  "requirePositiveAtomic v =
     (if \<not> isPositiveAtomicString v then Inl (LifecycleGuard ''INVALID_AMOUNT'') else Inr ())"

definition requireNonNegAtomic :: "string \<Rightarrow> lifecycle_error + unit" where
  "requireNonNegAtomic v =
     (if \<not> isNonNegativeAtomicString v then Inl (LifecycleGuard ''INVALID_AMOUNT'') else Inr ())"

text \<open>\<open>if (!isBeforeOrEqualUtc(a, b)) throw new LifecycleGuardError(code)\<close>.\<close>

definition require_before_eq :: "string \<Rightarrow> string \<Rightarrow> string \<Rightarrow> lifecycle_error + unit" where
  "require_before_eq a b code =
     bind_res (map_err TimeErr (isBeforeOrEqualUtc a b)) (\<lambda>ok.
       if \<not> ok then Inl (LifecycleGuard code) else Inr ())"

definition require :: "bool \<Rightarrow> string \<Rightarrow> lifecycle_error + unit" where
  "require ok code = (if \<not> ok then Inl (LifecycleGuard code) else Inr ())"

definition require_state :: "LifecycleRecord \<Rightarrow> bool \<Rightarrow> V2LifecycleState \<Rightarrow> lifecycle_error + unit" where
  "require_state r ok tgt =
     (if \<not> ok then Inl (IllegalLifecycleTransition (lr_state r) tgt) else Inr ())"

definition big :: "string \<Rightarrow> lifecycle_error + int" where
  "big v = of_option BigIntSyntax (js_bigint v)"

text \<open>A nullable string is truthy when it is present and not empty.\<close>

definition truthy :: "string option \<Rightarrow> bool" where
  "truthy x = (case x of None \<Rightarrow> False | Some s \<Rightarrow> s \<noteq> [])"

definition appendHistory ::
  "LifecycleRecord \<Rightarrow> V2LifecycleState \<Rightarrow> V2LifecycleState \<Rightarrow> LifecycleEvent \<Rightarrow> string option
    \<Rightarrow> LifecycleTransitionRecord list" where
  "appendHistory r frm tgt event reason =
     lr_history r @
       [\<lparr> tr_from = frm, tr_to = tgt, tr_eventType = event_type (ev_body event),
          tr_actionId = ev_actionId event, tr_at = ev_eventTime event,
          tr_reason = (if truthy reason then reason else None) \<rparr>]"

definition processed_entry ::
  "LifecycleEvent \<Rightarrow> string \<Rightarrow> V2LifecycleState \<Rightarrow> int \<Rightarrow> ProcessedActionRecord" where
  "processed_entry event payloadHash tgt nextVersion =
     \<lparr> pa2_actionId = ev_actionId event, pa2_eventType = event_type (ev_body event),
       pa2_eventPayloadHash = payloadHash, pa2_resultingState = tgt,
       pa2_recordVersionAfter = nextVersion, pa2_at = ev_eventTime event \<rparr>"

definition withTransition ::
  "hash_fn \<Rightarrow> LifecycleRecord \<Rightarrow> V2LifecycleState \<Rightarrow> LifecycleEvent
    \<Rightarrow> (LifecycleRecord \<Rightarrow> LifecycleRecord) \<Rightarrow> string option \<Rightarrow> lifecycle_error + LifecycleRecord" where
  "withTransition sha256 r tgt event patch reason =
     bind_res (assertLegalTransition (lr_state r) tgt) (\<lambda>_.
     bind_res (requireUtc (ev_eventTime event)) (\<lambda>_.
     bind_res (require (\<not> (ev_actionId event = [] \<or> length (ev_actionId event) > 128))
       ''INVALID_ACTION_ID'') (\<lambda>_.
     bind_res (eventPayloadHash sha256 event) (\<lambda>payloadHash.
     let nextVersion = lr_recordVersion r + 1 in
     Inr ((patch r)\<lparr> lr_state := tgt,
       lr_recordVersion := nextVersion,
       lr_updatedAt := ev_eventTime event,
       lr_lastActionId := Some (ev_actionId event),
       lr_history := appendHistory r (lr_state r) tgt event reason,
       lr_processedActions := AList.update (ev_actionId event)
         (processed_entry event payloadHash tgt nextVersion) (lr_processedActions r) \<rparr>)))))"

definition sealed_auth :: "auth_object option \<Rightarrow> VerifiedAuth option" where
  "sealed_auth ctx =
     (case ctx of None \<Rightarrow> None | Some a \<Rightarrow> if isSealedVerifiedAuth a then Some (ao_value a) else None)"

definition requireSealedShipperAuth ::
  "auth_object option \<Rightarrow> LifecycleEvent \<Rightarrow> ShipperReviewActionKind
    \<Rightarrow> lifecycle_error + VerifiedShipperReviewAuth" where
  "requireSealedShipperAuth ctx event action =
     (case sealed_auth ctx of
        Some (SHIPPER_POD_REVIEW auth) \<Rightarrow>
          if sa_actionId auth \<noteq> ev_actionId event then Inl (LifecycleGuard ''AUTH_ACTION_MISMATCH'')
          else if sa_reviewAction auth \<noteq> action then Inl (LifecycleGuard ''AUTH_ACTION_MISMATCH'')
          else Inr auth
      | _ \<Rightarrow> Inl (LifecycleGuard ''SHIPPER_AUTH_REQUIRED''))"

definition requireSealedCarrierBidAuth ::
  "auth_object option \<Rightarrow> LifecycleEvent \<Rightarrow> lifecycle_error + VerifiedCarrierBidAuth" where
  "requireSealedCarrierBidAuth ctx event =
     (case sealed_auth ctx of
        Some (CARRIER_BID auth) \<Rightarrow>
          if ca_actionId auth \<noteq> ev_actionId event then Inl (LifecycleGuard ''AUTH_ACTION_MISMATCH'')
          else Inr auth
      | _ \<Rightarrow> Inl (LifecycleGuard ''CARRIER_AUTH_REQUIRED''))"

definition requireSealedRefereeAuth ::
  "auth_object option \<Rightarrow> LifecycleEvent \<Rightarrow> lifecycle_error + VerifiedRefereeResolutionAuth" where
  "requireSealedRefereeAuth ctx event =
     (case sealed_auth ctx of
        Some (REFEREE_RESOLUTION auth) \<Rightarrow>
          if ra_actionId auth \<noteq> ev_actionId event then Inl (LifecycleGuard ''AUTH_ACTION_MISMATCH'')
          else Inr auth
      | _ \<Rightarrow> Inl (LifecycleGuard ''REFEREE_AUTH_REQUIRED''))"

definition assertUnusedAccessSettlement :: "LifecycleRecord \<Rightarrow> string \<Rightarrow> lifecycle_error + unit" where
  "assertUnusedAccessSettlement r paymentTransactionId =
     require (\<not> list_ex (\<lambda>p. ap_paymentTransactionId p = paymentTransactionId) (lr_accessPayments r))
       ''ACCESS_PAYMENT_REPLAY''"

subsection \<open>Funding, activation and bids\<close>

definition on_escrow_funding_confirmed ::
  "hash_fn \<Rightarrow> LifecycleRecord \<Rightarrow> LifecycleEvent \<Rightarrow> EscrowFundingConfirmed \<Rightarrow> lifecycle_error + LifecycleRecord" where
  "on_escrow_funding_confirmed sha256 r event p =
     bind_res (require_state r (lr_state r = DRAFT) ESCROW_FUNDED) (\<lambda>_.
     bind_res (require (ef_tenderId p = lr_tenderId r) ''TENDER_MISMATCH'') (\<lambda>_.
     bind_res (require (ef_tenderVersion p = lr_tenderVersion r) ''TENDER_VERSION_MISMATCH'') (\<lambda>_.
     bind_res (require (ef_tokenId p = ACCESS_FEE_TOKEN_ID) ''TOKEN_MISMATCH'') (\<lambda>_.
     bind_res (require (ef_fundingTxId p \<noteq> []) ''MISSING_FUNDING_REF'') (\<lambda>_.
     bind_res (requirePositiveAtomic (ef_fundedAmountAtomic p)) (\<lambda>_.
     bind_res (require (ef_fundedAmountAtomic p = lr_maximumFreightBudgetAtomic r)
       ''FUNDING_AMOUNT_MISMATCH'') (\<lambda>_.
     withTransition sha256 r ESCROW_FUNDED event
       (\<lambda>x. x\<lparr> lr_fundingTxId := Some (ef_fundingTxId p),
              lr_fundedAmountAtomic := Some (ef_fundedAmountAtomic p) \<rparr>) None)))))))"

definition on_tender_activation_paid ::
  "hash_fn \<Rightarrow> LifecycleRecord \<Rightarrow> LifecycleEvent \<Rightarrow> TenderActivationPaid \<Rightarrow> lifecycle_error + LifecycleRecord" where
  "on_tender_activation_paid sha256 r event p =
     bind_res (require_state r (lr_state r = ESCROW_FUNDED) TENDER_OPENED) (\<lambda>_.
     bind_res (require (ta_accessActionType p = ''TENDER_ACTIVATE'') ''ACCESS_ACTION'') (\<lambda>_.
     bind_res (require (ta_asset p = ACCESS_FEE_TOKEN_ID) ''ACCESS_ASSET'') (\<lambda>_.
     bind_res (map_err AmountErr deriveAccessFeeAtomic) (\<lambda>expectedFee.
     bind_res (require (ta_amountAtomic p = expectedFee) ''ACCESS_AMOUNT'') (\<lambda>_.
     bind_res (map_err ResourceErr (tenderActivateResource (lr_tenderId r) (lr_tenderVersion r)))
       (\<lambda>expectedResource.
     bind_res (require (ta_resource p = expectedResource) ''ACCESS_RESOURCE'') (\<lambda>_.
     bind_res (require (ta_payTo p = ts_accessTreasuryAccountId (lr_trust r)) ''ACCESS_TREASURY'') (\<lambda>_.
     bind_res (require (ta_paymentTransactionId p \<noteq> [] \<and> ta_paymentPayloadHash p \<noteq> [])
       ''ACCESS_PAYMENT'') (\<lambda>_.
     bind_res (require (isValidHederaAccountId (ta_payerAccount p)) ''ACCESS_PAYER'') (\<lambda>_.
     bind_res (assertUnusedAccessSettlement r (ta_paymentTransactionId p)) (\<lambda>_.
     withTransition sha256 r TENDER_OPENED event
       (\<lambda>x. x\<lparr> lr_activationPaymentTxId := Some (ta_paymentTransactionId p),
              lr_accessReceipt := Some \<lparr>
                ar_accessActionType = ''TENDER_ACTIVATE'', ar_asset = ta_asset p,
                ar_amountAtomic = ta_amountAtomic p, ar_resource = ta_resource p,
                ar_payTo = ta_payTo p, ar_payerAccount = ta_payerAccount p,
                ar_paymentTransactionId = ta_paymentTransactionId p,
                ar_paymentPayloadHash = ta_paymentPayloadHash p, ar_paidAt = ev_eventTime event \<rparr>,
              lr_accessPayments := lr_accessPayments r @ [\<lparr>
                ap_accessActionType = ''TENDER_ACTIVATE'', ap_actionId = ev_actionId event,
                ap_bidId = None, ap_asset = ta_asset p, ap_amountAtomic = ta_amountAtomic p,
                ap_resource = ta_resource p, ap_payTo = ta_payTo p,
                ap_payerAccount = ta_payerAccount p,
                ap_paymentTransactionId = ta_paymentTransactionId p,
                ap_paymentPayloadHash = ta_paymentPayloadHash p,
                ap_settledAt = ev_eventTime event \<rparr>] \<rparr>) None)))))))))))"

definition bid_entry :: "LifecycleEvent \<Rightarrow> BidSubmissionPaid \<Rightarrow> VerifiedCarrierBidAuth \<Rightarrow> LifecycleBidEntry" where
  "bid_entry event p auth =
     \<lparr> be_bidId = bs_bidId p, be_carrierId = bs_carrierId p,
       be_carrierAccountId = bs_carrierAccountId p, be_bidHash = bs_bidHash p,
       be_signedBidEnvelopeHash = bs_signedBidEnvelopeHash p,
       be_commitmentPayloadHash = bs_commitmentPayloadHash p,
       be_carrierKeyFingerprint = ca_trustedKeyFingerprint auth,
       be_bidAuthPayloadHash = ca_payloadHash auth,
       be_accessPaymentTxId = bs_paymentTransactionId p,
       be_actionId = ev_actionId event, be_acceptedAt = ev_eventTime event \<rparr>"

definition bid_payment :: "LifecycleEvent \<Rightarrow> BidSubmissionPaid \<Rightarrow> LifecycleAccessPayment" where
  "bid_payment event p =
     \<lparr> ap_accessActionType = ''BID_SUBMIT'', ap_actionId = ev_actionId event,
       ap_bidId = Some (bs_bidId p), ap_asset = bs_asset p, ap_amountAtomic = bs_amountAtomic p,
       ap_resource = bs_resource p, ap_payTo = bs_payTo p, ap_payerAccount = bs_payerAccount p,
       ap_paymentTransactionId = bs_paymentTransactionId p,
       ap_paymentPayloadHash = bs_paymentPayloadHash p, ap_settledAt = ev_eventTime event \<rparr>"

definition on_bid_submission_paid ::
  "hash_fn \<Rightarrow> auth_object option \<Rightarrow> LifecycleRecord \<Rightarrow> LifecycleEvent \<Rightarrow> BidSubmissionPaid
    \<Rightarrow> lifecycle_error + LifecycleRecord" where
  "on_bid_submission_paid sha256 ctx r event p =
     bind_res (require_state r (lr_state r = TENDER_OPENED \<or> lr_state r = BIDDING) BIDDING) (\<lambda>_.
     bind_res (require (bs_accessActionType p = ''BID_SUBMIT'') ''ACCESS_ACTION'') (\<lambda>_.
     bind_res (requireSealedCarrierBidAuth ctx event) (\<lambda>auth.
     bind_res (require (cp_tenderId (ca_signPayload auth) = lr_tenderId r
         \<and> cp_tenderVersion (ca_signPayload auth) = lr_tenderVersion r) ''TENDER_MISMATCH'') (\<lambda>_.
     bind_res (require (ca_bidId auth = bs_bidId p \<and> ca_carrierId auth = bs_carrierId p
         \<and> ca_carrierAccountId auth = bs_carrierAccountId p \<and> ca_bidHash auth = bs_bidHash p)
       ''AUTH_BINDING'') (\<lambda>_.
     bind_res (require (isValidHederaAccountId (bs_carrierAccountId p)) ''BID_CARRIER_ACCOUNT'') (\<lambda>_.
     bind_res (require_before_eq (ev_eventTime event) (lr_auctionEndsAt r) ''AUCTION_CLOSED'') (\<lambda>_.
     bind_res (require (\<not> list_ex (\<lambda>entry. be_bidId entry = bs_bidId p) (lr_bidRegistry r))
       ''BID_ALREADY_ACCEPTED'') (\<lambda>_.
     bind_res (require (bs_asset p = ACCESS_FEE_TOKEN_ID) ''ACCESS_ASSET'') (\<lambda>_.
     bind_res (map_err AmountErr deriveAccessFeeAtomic) (\<lambda>expectedBidFee.
     bind_res (require (bs_amountAtomic p = expectedBidFee) ''ACCESS_AMOUNT'') (\<lambda>_.
     bind_res (map_err ResourceErr (bidSubmitResource (lr_tenderId r) (lr_tenderVersion r) (bs_bidId p)))
       (\<lambda>expectedBidResource.
     bind_res (require (bs_resource p = expectedBidResource) ''ACCESS_RESOURCE'') (\<lambda>_.
     bind_res (require (bs_payTo p = ts_accessTreasuryAccountId (lr_trust r)) ''ACCESS_TREASURY'') (\<lambda>_.
     bind_res (require (bs_paymentTransactionId p \<noteq> [] \<and> bs_paymentPayloadHash p \<noteq> [])
       ''ACCESS_PAYMENT'') (\<lambda>_.
     bind_res (require (isValidHederaAccountId (bs_payerAccount p)) ''ACCESS_PAYER'') (\<lambda>_.
     bind_res (assertUnusedAccessSettlement r (bs_paymentTransactionId p)) (\<lambda>_.
     withTransition sha256 r BIDDING event
       (\<lambda>x. x\<lparr> lr_bidRegistry := lr_bidRegistry r @ [bid_entry event p auth],
              lr_accessPayments := lr_accessPayments r @ [bid_payment event p] \<rparr>) None)))))))))))))))))"

definition on_bidding_started ::
  "hash_fn \<Rightarrow> LifecycleRecord \<Rightarrow> LifecycleEvent \<Rightarrow> lifecycle_error + LifecycleRecord" where
  "on_bidding_started sha256 r event =
     bind_res (require_state r (lr_state r = TENDER_OPENED) BIDDING) (\<lambda>_.
     withTransition sha256 r BIDDING event (\<lambda>x. x) None)"

subsection \<open>Auction close, winner and allocation\<close>

definition on_auction_close_confirmed ::
  "hash_fn \<Rightarrow> LifecycleRecord \<Rightarrow> LifecycleEvent \<Rightarrow> AuctionCloseConfirmed \<Rightarrow> lifecycle_error + LifecycleRecord" where
  "on_auction_close_confirmed sha256 r event p =
     bind_res (require_state r (lr_state r = BIDDING) AUCTION_CLOSED) (\<lambda>_.
     bind_res (requireUtc (ac_auctionEndsAt p)) (\<lambda>_.
     bind_res (require (ac_auctionEndsAt p = lr_auctionEndsAt r) ''AUCTION_ENDS_MISMATCH'') (\<lambda>_.
     bind_res (require_before_eq (lr_auctionEndsAt r) (ev_eventTime event) ''AUCTION_NOT_ENDED'') (\<lambda>_.
     bind_res (require (ac_closureProofRef p \<noteq> [] \<and> ac_authoritativeBidSetHash p \<noteq> [])
       ''CLOSURE_PROOF'') (\<lambda>_.
     withTransition sha256 r AUCTION_CLOSED event
       (\<lambda>x. x\<lparr> lr_closureProofRef := Some (ac_closureProofRef p),
              lr_authoritativeBidSetHash := Some (ac_authoritativeBidSetHash p) \<rparr>) None)))))"

definition on_no_qualified_bid_confirmed ::
  "hash_fn \<Rightarrow> LifecycleRecord \<Rightarrow> LifecycleEvent \<Rightarrow> string \<Rightarrow> lifecycle_error + LifecycleRecord" where
  "on_no_qualified_bid_confirmed sha256 r event decisionManifestHash =
     bind_res (require_state r (lr_state r = AUCTION_CLOSED) NO_QUALIFIED_BID) (\<lambda>_.
     bind_res (require (decisionManifestHash \<noteq> []) ''MANIFEST'') (\<lambda>_.
     withTransition sha256 r NO_QUALIFIED_BID event
       (\<lambda>x. x\<lparr> lr_decisionManifestHash := Some decisionManifestHash,
              lr_winningBidId := None, lr_winningAmountAtomic := None \<rparr>) None))"

definition on_winner_selection_confirmed ::
  "hash_fn \<Rightarrow> LifecycleRecord \<Rightarrow> LifecycleEvent \<Rightarrow> WinnerSelectionConfirmed \<Rightarrow> lifecycle_error + LifecycleRecord" where
  "on_winner_selection_confirmed sha256 r event p =
     bind_res (require_state r (lr_state r = AUCTION_CLOSED) WINNER_SELECTED) (\<lambda>_.
     bind_res (require (ws_decisionManifestHash p \<noteq> [] \<and> ws_winningBidId p \<noteq> []
         \<and> ws_winningCarrierId p \<noteq> [] \<and> ws_winningCarrierAccount p \<noteq> []) ''WINNER_FIELDS'') (\<lambda>_.
     bind_res (requirePositiveAtomic (ws_winningAmountAtomic p)) (\<lambda>_.
     bind_res (require (ws_selectionPolicy p = ''LOWEST_QUALIFIED_PRICE_V1'') ''SELECTION_POLICY'') (\<lambda>_.
     bind_res (big (ws_winningAmountAtomic p)) (\<lambda>win.
     bind_res (big (lr_maximumFreightBudgetAtomic r)) (\<lambda>budget.
     bind_res (require (\<not> win > budget) ''WIN_ABOVE_BUDGET'') (\<lambda>_.
     withTransition sha256 r WINNER_SELECTED event
       (\<lambda>x. x\<lparr> lr_decisionManifestHash := Some (ws_decisionManifestHash p),
              lr_winningBidId := Some (ws_winningBidId p),
              lr_winningCarrierId := Some (ws_winningCarrierId p),
              lr_winningCarrierAccount := Some (ws_winningCarrierAccount p),
              lr_winningAmountAtomic := Some (ws_winningAmountAtomic p) \<rparr>) None)))))))"

definition on_winning_amount_allocation_confirmed ::
  "hash_fn \<Rightarrow> LifecycleRecord \<Rightarrow> LifecycleEvent \<Rightarrow> WinningAmountAllocationConfirmed
    \<Rightarrow> lifecycle_error + LifecycleRecord" where
  "on_winning_amount_allocation_confirmed sha256 r event p =
     bind_res (require_state r (lr_state r = WINNER_SELECTED) WINNING_AMOUNT_LOCKED) (\<lambda>_.
     bind_res (require (wa_allocateTxId p \<noteq> []) ''ALLOCATE_REF'') (\<lambda>_.
     bind_res (requirePositiveAtomic (wa_maxBudgetAtomic p)) (\<lambda>_.
     bind_res (requirePositiveAtomic (wa_winningAmountAtomic p)) (\<lambda>_.
     bind_res (requireNonNegAtomic (wa_excessRefundAtomic p)) (\<lambda>_.
     bind_res (require (wa_maxBudgetAtomic p = lr_maximumFreightBudgetAtomic r) ''BUDGET_MISMATCH'') (\<lambda>_.
     bind_res (require (\<not> (truthy (lr_winningAmountAtomic r)
         \<and> Some (wa_winningAmountAtomic p) \<noteq> lr_winningAmountAtomic r)) ''WIN_AMOUNT_MISMATCH'') (\<lambda>_.
     bind_res (require (\<not> (truthy (lr_decisionManifestHash r)
         \<and> Some (wa_decisionManifestHash p) \<noteq> lr_decisionManifestHash r)) ''MANIFEST_MISMATCH'') (\<lambda>_.
     bind_res (big (wa_maxBudgetAtomic p)) (\<lambda>mx.
     bind_res (big (wa_winningAmountAtomic p)) (\<lambda>win.
     bind_res (big (wa_excessRefundAtomic p)) (\<lambda>excess.
     bind_res (require (win + excess = mx) ''CONSERVATION'') (\<lambda>_.
     bind_res (require (\<not> (excess = 0 \<and> wa_refundExcessTxId p \<noteq> None)) ''REFUND_TX'') (\<lambda>_.
     bind_res (require (\<not> (excess > 0 \<and> \<not> truthy (wa_refundExcessTxId p))) ''REFUND_TX'') (\<lambda>_.
     withTransition sha256 r WINNING_AMOUNT_LOCKED event
       (\<lambda>x. x\<lparr> lr_lockedAmountAtomic := Some (wa_winningAmountAtomic p),
              lr_excessRefundAtomic := Some (wa_excessRefundAtomic p),
              lr_allocateTxId := Some (wa_allocateTxId p),
              lr_refundExcessTxId := wa_refundExcessTxId p,
              lr_decisionManifestHash := Some (wa_decisionManifestHash p),
              lr_winningAmountAtomic := Some (wa_winningAmountAtomic p) \<rparr>) None))))))))))))))"

subsection \<open>Transport\<close>

definition on_route_reservation_published ::
  "hash_fn \<Rightarrow> LifecycleRecord \<Rightarrow> LifecycleEvent \<Rightarrow> string \<Rightarrow> string \<Rightarrow> lifecycle_error + LifecycleRecord" where
  "on_route_reservation_published sha256 r event reservationEvidenceRef hcsPublicationRef =
     bind_res (require_state r (lr_state r = WINNING_AMOUNT_LOCKED) ROUTE_RESERVED) (\<lambda>_.
     bind_res (require (reservationEvidenceRef \<noteq> [] \<and> hcsPublicationRef \<noteq> []) ''RESERVATION_EVIDENCE'') (\<lambda>_.
     withTransition sha256 r ROUTE_RESERVED event
       (\<lambda>x. x\<lparr> lr_reservationEvidenceRef := Some reservationEvidenceRef \<rparr>) None))"

definition on_transit_started ::
  "hash_fn \<Rightarrow> LifecycleRecord \<Rightarrow> LifecycleEvent \<Rightarrow> lifecycle_error + LifecycleRecord" where
  "on_transit_started sha256 r event =
     bind_res (require_state r (lr_state r = ROUTE_RESERVED) IN_TRANSIT) (\<lambda>_.
     withTransition sha256 r IN_TRANSIT event (\<lambda>x. x) None)"

definition on_delivery_reported ::
  "hash_fn \<Rightarrow> LifecycleRecord \<Rightarrow> LifecycleEvent \<Rightarrow> lifecycle_error + LifecycleRecord" where
  "on_delivery_reported sha256 r event =
     bind_res (require_state r (lr_state r = IN_TRANSIT) DELIVERY_REPORTED) (\<lambda>_.
     withTransition sha256 r DELIVERY_REPORTED event (\<lambda>x. x) None)"

subsection \<open>Proof of delivery and review\<close>

definition on_pod_package_submitted ::
  "hash_fn \<Rightarrow> LifecycleRecord \<Rightarrow> LifecycleEvent \<Rightarrow> PodPackage \<Rightarrow> lifecycle_error + LifecycleRecord" where
  "on_pod_package_submitted sha256 r event p =
     bind_res (require_state r (lr_state r = DELIVERY_REPORTED) POD_SUBMITTED) (\<lambda>_.
     bind_res (require (pk_podId p \<noteq> [] \<and> pk_podVersion p = 1 \<and> pk_contentHash p \<noteq> []
         \<and> pk_ciphertextHash p \<noteq> []) ''POD_FIELDS'') (\<lambda>_.
     withTransition sha256 r POD_SUBMITTED event
       (\<lambda>x. x\<lparr> lr_podId := Some (pk_podId p), lr_podVersion := Some (pk_podVersion p),
              lr_podContentHash := Some (pk_contentHash p),
              lr_podCiphertextHash := Some (pk_ciphertextHash p) \<rparr>) None))"

definition on_pod_review_started ::
  "hash_fn \<Rightarrow> LifecycleRecord \<Rightarrow> LifecycleEvent \<Rightarrow> lifecycle_error + LifecycleRecord" where
  "on_pod_review_started sha256 r event =
     (if lr_state r = POD_SUBMITTED then
        bind_res (map_err TimeErr (computeReviewDeadline (ev_eventTime event))) (\<lambda>reviewDeadlineAt.
        withTransition sha256 r POD_UNDER_REVIEW event
          (\<lambda>x. x\<lparr> lr_reviewStartedAt := Some (ev_eventTime event),
                 lr_reviewDeadlineAt := Some reviewDeadlineAt,
                 lr_shipperActionTaken := False, lr_correctionDeadlineAt := None \<rparr>) None)
      else if lr_state r = POD_RESUBMITTED then
        bind_res (map_err TimeErr (computePostResubmitReviewDeadline (ev_eventTime event))) (\<lambda>reviewDeadlineAt.
        withTransition sha256 r POD_UNDER_REVIEW event
          (\<lambda>x. x\<lparr> lr_reviewStartedAt := Some (ev_eventTime event),
                 lr_reviewDeadlineAt := Some reviewDeadlineAt,
                 lr_shipperActionTaken := False, lr_correctionDeadlineAt := None \<rparr>) None)
      else Inl (IllegalLifecycleTransition (lr_state r) POD_UNDER_REVIEW))"

text \<open>
  The checks shared by the three shipper decisions: bound review deadline, time
  at or before it, sealed authorization for this action, evidence and tender.
\<close>

definition shipper_review_checks ::
  "auth_object option \<Rightarrow> LifecycleRecord \<Rightarrow> LifecycleEvent \<Rightarrow> ShipperReviewActionKind \<Rightarrow> string
    \<Rightarrow> lifecycle_error + VerifiedShipperReviewAuth" where
  "shipper_review_checks ctx r event action reviewDeadlineAt =
     bind_res (require (truthy (lr_reviewDeadlineAt r)) ''NO_REVIEW_DEADLINE'') (\<lambda>_.
     bind_res (require (Some reviewDeadlineAt = lr_reviewDeadlineAt r) ''DEADLINE_BIND'') (\<lambda>_.
     bind_res (require_before_eq (ev_eventTime event) (the (lr_reviewDeadlineAt r))
       ''AFTER_REVIEW_DEADLINE'') (\<lambda>_.
     bind_res (require (truthy (lr_podId r)) ''POD_REQUIRED'') (\<lambda>_.
     bind_res (requireSealedShipperAuth ctx event action) (\<lambda>auth.
     bind_res (require (Some (sp_podId (sa_signPayload auth)) = lr_podId r) ''POD_MISMATCH'') (\<lambda>_.
     bind_res (require (sp_tenderId (sa_signPayload auth) = lr_tenderId r
         \<and> sp_tenderVersion (sa_signPayload auth) = lr_tenderVersion r) ''TENDER_MISMATCH'') (\<lambda>_.
     Inr auth)))))))"

definition on_pod_correction_requested ::
  "hash_fn \<Rightarrow> auth_object option \<Rightarrow> LifecycleRecord \<Rightarrow> LifecycleEvent \<Rightarrow> PodReviewAction
    \<Rightarrow> lifecycle_error + LifecycleRecord" where
  "on_pod_correction_requested sha256 ctx r event p =
     bind_res (require_state r (lr_state r = POD_UNDER_REVIEW) POD_CORRECTION_REQUESTED) (\<lambda>_.
     bind_res (require (\<not> length (pr_reasons p) < 1) ''CORRECTION_REASONS'') (\<lambda>_.
     bind_res (shipper_review_checks ctx r event REQUEST_CORRECTION (pr_reviewDeadlineAt p)) (\<lambda>auth.
     bind_res (map_err TimeErr (computeCorrectionDeadline (ev_eventTime event))) (\<lambda>correctionDeadline.
     withTransition sha256 r POD_CORRECTION_REQUESTED event
       (\<lambda>x. x\<lparr> lr_correctionDeadlineAt := Some correctionDeadline,
              lr_shipperActionTaken := True,
              lr_lastShipperAuthPayloadHash := Some (sa_payloadHash auth),
              lr_lastShipperKeyFingerprint := Some (sa_trustedKeyFingerprint auth) \<rparr>) None))))"

definition on_pod_package_resubmitted ::
  "hash_fn \<Rightarrow> LifecycleRecord \<Rightarrow> LifecycleEvent \<Rightarrow> PodPackage \<Rightarrow> lifecycle_error + LifecycleRecord" where
  "on_pod_package_resubmitted sha256 r event p =
     bind_res (require_state r (lr_state r = POD_CORRECTION_REQUESTED) POD_RESUBMITTED) (\<lambda>_.
     bind_res (require (truthy (lr_correctionDeadlineAt r)) ''NO_CORRECTION_DEADLINE'') (\<lambda>_.
     bind_res (require_before_eq (ev_eventTime event) (the (lr_correctionDeadlineAt r))
       ''AFTER_CORRECTION_DEADLINE'') (\<lambda>_.
     bind_res (require (pk_podId p \<noteq> [] \<and> pk_contentHash p \<noteq> [] \<and> pk_ciphertextHash p \<noteq> [])
       ''POD_FIELDS'') (\<lambda>_.
     bind_res (require (Some (pk_podId p) = lr_podId r) ''POD_MISMATCH'') (\<lambda>_.
     bind_res (require (pk_podVersion p = (case lr_podVersion r of None \<Rightarrow> 0 | Some v \<Rightarrow> v) + 1)
       ''POD_VERSION'') (\<lambda>_.
     withTransition sha256 r POD_RESUBMITTED event
       (\<lambda>x. x\<lparr> lr_podId := Some (pk_podId p), lr_podVersion := Some (pk_podVersion p),
              lr_podContentHash := Some (pk_contentHash p),
              lr_podCiphertextHash := Some (pk_ciphertextHash p) \<rparr>) None))))))"

definition on_pod_accepted_by_shipper ::
  "hash_fn \<Rightarrow> auth_object option \<Rightarrow> LifecycleRecord \<Rightarrow> LifecycleEvent \<Rightarrow> string
    \<Rightarrow> lifecycle_error + LifecycleRecord" where
  "on_pod_accepted_by_shipper sha256 ctx r event reviewDeadlineAt =
     bind_res (require_state r (lr_state r = POD_UNDER_REVIEW) POD_ACCEPTED) (\<lambda>_.
     bind_res (shipper_review_checks ctx r event ACCEPT reviewDeadlineAt) (\<lambda>auth.
     withTransition sha256 r POD_ACCEPTED event
       (\<lambda>x. x\<lparr> lr_shipperActionTaken := True,
              lr_lastShipperAuthPayloadHash := Some (sa_payloadHash auth),
              lr_lastShipperKeyFingerprint := Some (sa_trustedKeyFingerprint auth) \<rparr>) None))"

definition on_pod_review_deadline_expired ::
  "hash_fn \<Rightarrow> LifecycleRecord \<Rightarrow> LifecycleEvent \<Rightarrow> lifecycle_error + LifecycleRecord" where
  "on_pod_review_deadline_expired sha256 r event =
     bind_res (require_state r (lr_state r = POD_UNDER_REVIEW) POD_DEEMED_ACCEPTED) (\<lambda>_.
     bind_res (require (truthy (lr_reviewDeadlineAt r)) ''NO_REVIEW_DEADLINE'') (\<lambda>_.
     bind_res (require_before_eq (the (lr_reviewDeadlineAt r)) (ev_eventTime event)
       ''BEFORE_REVIEW_DEADLINE'') (\<lambda>_.
     bind_res (require (\<not> lr_shipperActionTaken r) ''SHIPPER_ALREADY_ACTED'') (\<lambda>_.
     withTransition sha256 r POD_DEEMED_ACCEPTED event (\<lambda>x. x) None))))"

definition on_pod_correction_deadline_expired ::
  "hash_fn \<Rightarrow> LifecycleRecord \<Rightarrow> LifecycleEvent \<Rightarrow> lifecycle_error + LifecycleRecord" where
  "on_pod_correction_deadline_expired sha256 r event =
     bind_res (require_state r (lr_state r = POD_CORRECTION_REQUESTED) POD_DISPUTED) (\<lambda>_.
     bind_res (require (truthy (lr_correctionDeadlineAt r)) ''NO_CORRECTION_DEADLINE'') (\<lambda>_.
     bind_res (require_before_eq (the (lr_correctionDeadlineAt r)) (ev_eventTime event)
       ''BEFORE_CORRECTION_DEADLINE'') (\<lambda>_.
     withTransition sha256 r POD_DISPUTED event
       (\<lambda>x. x\<lparr> lr_disputeId := Some (''dispute-timeout-'' @ ev_actionId event) \<rparr>) None)))"

definition on_pod_rejected_to_dispute ::
  "hash_fn \<Rightarrow> auth_object option \<Rightarrow> LifecycleRecord \<Rightarrow> LifecycleEvent \<Rightarrow> PodReviewAction \<Rightarrow> string
    \<Rightarrow> lifecycle_error + LifecycleRecord" where
  "on_pod_rejected_to_dispute sha256 ctx r event p disputeId =
     bind_res (require_state r (lr_state r = POD_UNDER_REVIEW) POD_DISPUTED) (\<lambda>_.
     bind_res (require (\<not> length (pr_reasons p) < 1) ''REJECT_REASONS'') (\<lambda>_.
     bind_res (require (disputeId \<noteq> []) ''REJECT_FIELDS'') (\<lambda>_.
     bind_res (shipper_review_checks ctx r event REJECT_DISPUTE (pr_reviewDeadlineAt p)) (\<lambda>auth.
     withTransition sha256 r POD_DISPUTED event
       (\<lambda>x. x\<lparr> lr_disputeId := Some disputeId, lr_shipperActionTaken := True,
              lr_lastShipperAuthPayloadHash := Some (sa_payloadHash auth),
              lr_lastShipperKeyFingerprint := Some (sa_trustedKeyFingerprint auth) \<rparr>) None))))"

subsection \<open>Referee and settlement\<close>

definition or_zero :: "string option \<Rightarrow> string" where
  "or_zero x = (case x of None \<Rightarrow> ''0'' | Some s \<Rightarrow> s)"

definition on_referee_resolution_recorded ::
  "hash_fn \<Rightarrow> auth_object option \<Rightarrow> LifecycleRecord \<Rightarrow> LifecycleEvent \<Rightarrow> RefereeResolutionRecorded
    \<Rightarrow> lifecycle_error + LifecycleRecord" where
  "on_referee_resolution_recorded sha256 ctx r event p =
     bind_res (require_state r (lr_state r = POD_DISPUTED) REFEREE_DECISION) (\<lambda>_.
     bind_res (require (rr_signerKind p = ''HUMAN_REFEREE'') ''AI_SIGNER'') (\<lambda>_.
     bind_res (requireSealedRefereeAuth ctx event) (\<lambda>auth.
     bind_res (require (ra_refereeId auth = rr_refereeId p) ''REFEREE_ID_MISMATCH'') (\<lambda>_.
     bind_res (require (ra_disputeId auth = rr_disputeId p \<and> ra_podId auth = rr_podId p)
       ''AUTH_BINDING'') (\<lambda>_.
     bind_res (require (ra_resolution auth = rr_resolution p
         \<and> ra_releaseAmountAtomic auth = rr_releaseAmountAtomic p
         \<and> ra_refundAmountAtomic auth = rr_refundAmountAtomic p) ''AUTH_AMOUNT_MISMATCH'') (\<lambda>_.
     bind_res (require (\<not> (truthy (lr_disputeId r) \<and> Some (rr_disputeId p) \<noteq> lr_disputeId r))
       ''DISPUTE_MISMATCH'') (\<lambda>_.
     bind_res (require (\<not> (truthy (lr_podId r) \<and> Some (rr_podId p) \<noteq> lr_podId r)) ''POD_MISMATCH'') (\<lambda>_.
     bind_res (require (rp_tenderId (ra_signPayload auth) = lr_tenderId r
         \<and> rp_tenderVersion (ra_signPayload auth) = lr_tenderVersion r) ''TENDER_MISMATCH'') (\<lambda>_.
     bind_res (requireNonNegAtomic (rr_releaseAmountAtomic p)) (\<lambda>_.
     bind_res (requireNonNegAtomic (rr_refundAmountAtomic p)) (\<lambda>_.
     bind_res (big (or_zero (lr_lockedAmountAtomic r))) (\<lambda>locked.
     bind_res (big (rr_releaseAmountAtomic p)) (\<lambda>rel.
     bind_res (big (rr_refundAmountAtomic p)) (\<lambda>ref.
     bind_res (require (rel + ref = locked) ''CONSERVATION'') (\<lambda>_.
     bind_res (require (\<not> (rr_resolution p = RELEASE_FULL \<and> ref \<noteq> 0)) ''RESOLUTION_AMOUNTS'') (\<lambda>_.
     bind_res (require (\<not> (rr_resolution p = REFUND_FULL \<and> rel \<noteq> 0)) ''RESOLUTION_AMOUNTS'') (\<lambda>_.
     bind_res (require (\<not> (rr_resolution p = PARTIAL \<and> rel = 0 \<and> ref = 0)) ''RESOLUTION_AMOUNTS'') (\<lambda>_.
     withTransition sha256 r REFEREE_DECISION event
       (\<lambda>x. x\<lparr> lr_refereeResolution := Some (rr_resolution p),
              lr_releaseAmountAtomic := Some (rr_releaseAmountAtomic p),
              lr_refundAmountAtomic := Some (rr_refundAmountAtomic p),
              lr_resolutionPayloadHash := Some (ra_payloadHash auth),
              lr_refereeId := Some (ra_refereeId auth),
              lr_refereeKeyFingerprint := Some (ra_trustedKeyFingerprint auth),
              lr_disputeId := Some (rr_disputeId p) \<rparr>) None))))))))))))))))))"

text \<open>\<open>record.lockedAmountAtomic ?? record.winningAmountAtomic\<close>.\<close>

definition locked_or_winning :: "LifecycleRecord \<Rightarrow> string option" where
  "locked_or_winning r =
     (case lr_lockedAmountAtomic r of None \<Rightarrow> lr_winningAmountAtomic r | Some s \<Rightarrow> Some s)"

definition on_escrow_release_confirmed ::
  "hash_fn \<Rightarrow> LifecycleRecord \<Rightarrow> LifecycleEvent \<Rightarrow> string \<Rightarrow> string \<Rightarrow> lifecycle_error + LifecycleRecord" where
  "on_escrow_release_confirmed sha256 r event releaseTxId releaseAmountAtomic =
     bind_res (require_state r (lr_state r = POD_ACCEPTED \<or> lr_state r = POD_DEEMED_ACCEPTED
         \<or> (lr_state r = REFEREE_DECISION \<and> lr_refereeResolution r = Some RELEASE_FULL))
       PAYMENT_RELEASED) (\<lambda>_.
     bind_res (require (releaseTxId \<noteq> []) ''RELEASE_TX'') (\<lambda>_.
     bind_res (requirePositiveAtomic releaseAmountAtomic) (\<lambda>_.
     bind_res (require (truthy (locked_or_winning r)) ''LOCKED_MISSING'') (\<lambda>_.
     bind_res (require (Some releaseAmountAtomic = locked_or_winning r) ''RELEASE_AMOUNT'') (\<lambda>_.
     bind_res (if lr_state r = REFEREE_DECISION then
         bind_res (require (lr_refereeResolution r = Some RELEASE_FULL) ''RESOLUTION_MISMATCH'') (\<lambda>_.
         require (lr_releaseAmountAtomic r = Some releaseAmountAtomic
           \<and> lr_refundAmountAtomic r = Some ''0'') ''DECISION_AMOUNT_MISMATCH'')
       else Inr ()) (\<lambda>_.
     withTransition sha256 r PAYMENT_RELEASED event
       (\<lambda>x. x\<lparr> lr_releaseTxId := Some releaseTxId,
              lr_releaseAmountAtomic := Some releaseAmountAtomic,
              lr_refundAmountAtomic := Some ''0'' \<rparr>) None))))))"

definition on_escrow_partial_release_confirmed ::
  "hash_fn \<Rightarrow> LifecycleRecord \<Rightarrow> LifecycleEvent \<Rightarrow> EscrowPartialReleaseConfirmed
    \<Rightarrow> lifecycle_error + LifecycleRecord" where
  "on_escrow_partial_release_confirmed sha256 r event p =
     bind_res (require_state r (\<not> (lr_state r \<noteq> REFEREE_DECISION \<or> lr_refereeResolution r \<noteq> Some PARTIAL))
       PARTIAL_RELEASE) (\<lambda>_.
     bind_res (requireNonNegAtomic (ep_releaseAmountAtomic p)) (\<lambda>_.
     bind_res (requireNonNegAtomic (ep_refundAmountAtomic p)) (\<lambda>_.
     bind_res (big (or_zero (lr_lockedAmountAtomic r))) (\<lambda>locked.
     bind_res (big (ep_releaseAmountAtomic p)) (\<lambda>rel.
     bind_res (big (ep_refundAmountAtomic p)) (\<lambda>ref.
     bind_res (require (rel + ref = locked) ''CONSERVATION'') (\<lambda>_.
     bind_res (require (Some (ep_releaseAmountAtomic p) = lr_releaseAmountAtomic r
         \<and> Some (ep_refundAmountAtomic p) = lr_refundAmountAtomic r) ''DECISION_AMOUNT_MISMATCH'') (\<lambda>_.
     bind_res (require (ep_releaseTxId p \<noteq> [] \<and> ep_refundTxId p \<noteq> []) ''PARTIAL_TX'') (\<lambda>_.
     withTransition sha256 r PARTIAL_RELEASE event
       (\<lambda>x. x\<lparr> lr_releaseTxId := Some (ep_releaseTxId p), lr_refundTxId := Some (ep_refundTxId p),
              lr_releaseAmountAtomic := Some (ep_releaseAmountAtomic p),
              lr_refundAmountAtomic := Some (ep_refundAmountAtomic p) \<rparr>) None)))))))))"

definition on_escrow_refund_confirmed ::
  "hash_fn \<Rightarrow> LifecycleRecord \<Rightarrow> LifecycleEvent \<Rightarrow> string \<Rightarrow> string \<Rightarrow> lifecycle_error + LifecycleRecord" where
  "on_escrow_refund_confirmed sha256 r event refundTxId refundAmountAtomic =
     bind_res (require_state r (lr_state r = NO_QUALIFIED_BID
         \<or> (lr_state r = REFEREE_DECISION \<and> lr_refereeResolution r = Some REFUND_FULL)) REFUNDED) (\<lambda>_.
     bind_res (require (refundTxId \<noteq> []) ''REFUND_TX'') (\<lambda>_.
     bind_res (requirePositiveAtomic refundAmountAtomic) (\<lambda>_.
     bind_res (if lr_state r = NO_QUALIFIED_BID then
         require (refundAmountAtomic = lr_maximumFreightBudgetAtomic r) ''REFUND_AMOUNT''
       else
         bind_res (require (lr_refereeResolution r = Some REFUND_FULL) ''RESOLUTION_MISMATCH'') (\<lambda>_.
         bind_res (require (lr_refundAmountAtomic r = Some refundAmountAtomic
           \<and> lr_releaseAmountAtomic r = Some ''0'') ''DECISION_AMOUNT_MISMATCH'') (\<lambda>_.
         require (\<not> (truthy (lr_lockedAmountAtomic r)
           \<and> Some refundAmountAtomic \<noteq> lr_lockedAmountAtomic r)) ''REFUND_AMOUNT''))) (\<lambda>_.
     withTransition sha256 r REFUNDED event
       (\<lambda>x. x\<lparr> lr_refundTxId := Some refundTxId, lr_refundAmountAtomic := Some refundAmountAtomic,
              lr_releaseAmountAtomic := Some ''0'' \<rparr>) None))))"

definition on_tender_completion_confirmed ::
  "hash_fn \<Rightarrow> LifecycleRecord \<Rightarrow> LifecycleEvent \<Rightarrow> lifecycle_error + LifecycleRecord" where
  "on_tender_completion_confirmed sha256 r event =
     bind_res (require_state r (lr_state r = PAYMENT_RELEASED \<or> lr_state r = PARTIAL_RELEASE
       \<or> lr_state r = REFUNDED) TENDER_COMPLETED) (\<lambda>_.
     withTransition sha256 r TENDER_COMPLETED event (\<lambda>x. x) None)"

text \<open>The advisory anchor is handled before the switch and bypasses \<open>withTransition\<close>.\<close>

definition on_pod_advisory_anchored ::
  "hash_fn \<Rightarrow> LifecycleRecord \<Rightarrow> LifecycleEvent \<Rightarrow> string \<Rightarrow> string \<Rightarrow> lifecycle_error + LifecycleRecord" where
  "on_pod_advisory_anchored sha256 r event reportHash binding =
     bind_res (require (binding = ''NON_BINDING_ADVISORY'') ''ADVISORY_BINDING'') (\<lambda>_.
     bind_res (require (lr_state r \<noteq> TENDER_COMPLETED) ''TERMINAL'') (\<lambda>_.
     bind_res (eventPayloadHash sha256 event) (\<lambda>payloadHash.
     let nextVersion = lr_recordVersion r + 1 in
     Inr (r\<lparr> lr_advisoryReportHash := Some reportHash,
       lr_recordVersion := nextVersion,
       lr_updatedAt := ev_eventTime event,
       lr_lastActionId := Some (ev_actionId event),
       lr_processedActions := AList.update (ev_actionId event)
         (processed_entry event payloadHash (lr_state r) nextVersion) (lr_processedActions r),
       lr_history := appendHistory r (lr_state r) (lr_state r) event
         (Some ''NON_BINDING_ADVISORY_HASH_ONLY'') \<rparr>))))"

subsection \<open>The reducer\<close>

definition reduce_body ::
  "hash_fn \<Rightarrow> auth_object option \<Rightarrow> LifecycleRecord \<Rightarrow> LifecycleEvent \<Rightarrow> lifecycle_error + LifecycleRecord" where
  "reduce_body sha256 ctx r event =
     (case ev_body event of
        POD_ADVISORY_ANCHORED reportHash binding \<Rightarrow> on_pod_advisory_anchored sha256 r event reportHash binding
      | ESCROW_FUNDING_CONFIRMED p \<Rightarrow> on_escrow_funding_confirmed sha256 r event p
      | TENDER_ACTIVATION_PAID p \<Rightarrow> on_tender_activation_paid sha256 r event p
      | BID_SUBMISSION_PAID p \<Rightarrow> on_bid_submission_paid sha256 ctx r event p
      | BIDDING_STARTED \<Rightarrow> on_bidding_started sha256 r event
      | AUCTION_CLOSE_CONFIRMED p \<Rightarrow> on_auction_close_confirmed sha256 r event p
      | NO_QUALIFIED_BID_CONFIRMED m \<Rightarrow> on_no_qualified_bid_confirmed sha256 r event m
      | WINNER_SELECTION_CONFIRMED p \<Rightarrow> on_winner_selection_confirmed sha256 r event p
      | WINNING_AMOUNT_ALLOCATION_CONFIRMED p \<Rightarrow> on_winning_amount_allocation_confirmed sha256 r event p
      | ROUTE_RESERVATION_PUBLISHED e p \<Rightarrow> on_route_reservation_published sha256 r event e p
      | TRANSIT_STARTED \<Rightarrow> on_transit_started sha256 r event
      | DELIVERY_REPORTED_EVENT \<Rightarrow> on_delivery_reported sha256 r event
      | POD_PACKAGE_SUBMITTED p \<Rightarrow> on_pod_package_submitted sha256 r event p
      | POD_REVIEW_STARTED \<Rightarrow> on_pod_review_started sha256 r event
      | POD_CORRECTION_REQUESTED_EVENT p \<Rightarrow> on_pod_correction_requested sha256 ctx r event p
      | POD_PACKAGE_RESUBMITTED p \<Rightarrow> on_pod_package_resubmitted sha256 r event p
      | POD_ACCEPTED_BY_SHIPPER sg t d \<Rightarrow> on_pod_accepted_by_shipper sha256 ctx r event d
      | POD_REVIEW_DEADLINE_EXPIRED \<Rightarrow> on_pod_review_deadline_expired sha256 r event
      | POD_CORRECTION_DEADLINE_EXPIRED \<Rightarrow> on_pod_correction_deadline_expired sha256 r event
      | POD_REJECTED_TO_DISPUTE p d \<Rightarrow> on_pod_rejected_to_dispute sha256 ctx r event p d
      | REFEREE_RESOLUTION_RECORDED p \<Rightarrow> on_referee_resolution_recorded sha256 ctx r event p
      | ESCROW_RELEASE_CONFIRMED t a \<Rightarrow> on_escrow_release_confirmed sha256 r event t a
      | ESCROW_PARTIAL_RELEASE_CONFIRMED p \<Rightarrow> on_escrow_partial_release_confirmed sha256 r event p
      | ESCROW_REFUND_CONFIRMED t a \<Rightarrow> on_escrow_refund_confirmed sha256 r event t a
      | TENDER_COMPLETION_CONFIRMED \<Rightarrow> on_tender_completion_confirmed sha256 r event)"

definition reduceLifecycle ::
  "hash_fn \<Rightarrow> auth_object option \<Rightarrow> LifecycleRecord \<Rightarrow> LifecycleEvent \<Rightarrow> lifecycle_error + LifecycleRecord" where
  "reduceLifecycle sha256 ctx r event =
     bind_res (requireUtc (ev_eventTime event)) (\<lambda>_.
     bind_res (require_before_eq (lr_updatedAt r) (ev_eventTime event) ''NON_MONOTONIC_TIME'') (\<lambda>_.
     reduce_body sha256 ctx r event))"

end
