(* ===== verification/Lifecycle_Scenario.thy ===== *)
theory Lifecycle_Scenario
  imports Lifecycle_Reducer
begin

text \<open>
  A concrete tender on which the general theorems are evaluated: it is funded,
  activated, receives one paid bid, closes without a qualified bid, is refunded
  and completed.  A second record stands under review of its proof of delivery.
  The digest is the constant function to 64 zeros; it has the format the code
  checks.
\<close>

definition demo_sha :: hash_fn where
  "demo_sha s = replicate 64 (CHR ''0'')"

definition demo_trust :: TrustPolicy where
  "demo_trust = \<lparr> tp_schemaVersion = TRUST_POLICY_SCHEMA,
     tp_shipperPublicKey = replicate 64 (CHR ''a''),
     tp_referees = [\<lparr> te_refereeId = ''ref-1'', te_publicKey = replicate 64 (CHR ''b'') \<rparr>],
     tp_accessTreasuryAccountId = ''0.0.7000'',
     tp_signatureAlgorithm = SIGNATURE_ALGORITHM_HIERO_ECDSA \<rparr>"

definition demo_input :: CreateLifecycleInput where
  "demo_input = \<lparr> ci_tenderId = ''T1'', ci_tenderVersion = 1,
     ci_tenderHash = ''sha256:'' @ replicate 64 (CHR ''1''),
     ci_maximumFreightBudgetAtomic = ''5000000'', ci_auctionEndsAt = ''2026-07-15T12:00:00Z'',
     ci_createdAt = ''2026-07-15T10:00:00Z'', ci_trust = demo_trust \<rparr>"

definition demo_hash :: "char \<Rightarrow> string" where
  "demo_hash c = [CHR ''h'', c]"

definition ev :: "string \<Rightarrow> string \<Rightarrow> event_body \<Rightarrow> LifecycleEvent" where
  "ev a t b = \<lparr> ev_actionId = a, ev_eventTime = t, ev_body = b \<rparr>"

definition demo_bid :: BidSubmissionPaid where
  "demo_bid = \<lparr> bs_accessActionType = ''BID_SUBMIT'', bs_bidId = ''b1'', bs_carrierId = ''c1'',
     bs_carrierAccountId = ''0.0.500'', bs_bidHash = demo_hash (CHR ''2''),
     bs_signedBidEnvelopeHash = demo_hash (CHR ''3''), bs_commitmentPayloadHash = demo_hash (CHR ''4''),
     bs_carrierSignature = ''ab'', bs_signedAt = ''2026-07-15T10:30:00Z'',
     bs_asset = ''0.0.429274'', bs_amountAtomic = ''1000'',
     bs_resource = ''/api/v2/tenders/T1/v/1/bids/b1'',
     bs_paymentTransactionId = ''0.0.500@2.2'', bs_paymentPayloadHash = demo_hash (CHR ''5''),
     bs_payerAccount = ''0.0.500'', bs_payTo = ''0.0.7000'' \<rparr>"

definition demo_bid_auth :: auth_object where
  "demo_bid_auth = seal (CARRIER_BID \<lparr> ca_actionId = ''a3'', ca_bidId = ''b1'', ca_carrierId = ''c1'',
     ca_carrierAccountId = ''0.0.500'', ca_bidHash = demo_hash (CHR ''2''),
     ca_payloadHash = demo_hash (CHR ''6''), ca_trustedKeyFingerprint = replicate 64 (CHR ''7''),
     ca_signPayload = \<lparr> cp_tenderId = ''T1'', cp_tenderVersion = 1, cp_bidId = ''b1'',
       cp_carrierId = ''c1'', cp_carrierAccountId = ''0.0.500'', cp_bidHash = demo_hash (CHR ''2''),
       cp_signedAt = ''2026-07-15T10:30:00Z'', cp_actionId = ''a3'' \<rparr> \<rparr>)"

definition demo_review_auth :: "string \<Rightarrow> ShipperReviewActionKind \<Rightarrow> string \<Rightarrow> auth_object" where
  "demo_review_auth a k dl = seal (SHIPPER_POD_REVIEW \<lparr> sa_actionId = a, sa_reviewAction = k,
     sa_payloadHash = demo_hash (CHR ''8''), sa_trustedKeyFingerprint = replicate 64 (CHR ''9''),
     sa_signPayload = \<lparr> sp_tenderId = ''T1'', sp_tenderVersion = 1, sp_podId = ''pod1'',
       sp_reviewAction = k, sp_reasonCodes = [], sp_signedAt = ''2026-07-16T09:00:00Z'',
       sp_reviewDeadlineAt = dl, sp_actionId = a \<rparr> \<rparr>)"

type_synonym call = "auth_object option \<times> LifecycleEvent"

primrec run_events :: "hash_fn \<Rightarrow> LifecycleRecord \<Rightarrow> call list \<Rightarrow> lifecycle_error + LifecycleRecord" where
  "run_events h r [] = Inr r"
| "run_events h r (c # cs) = bind_res (reduceLifecycle h (fst c) r (snd c)) (\<lambda>r'. run_events h r' cs)"

lemma run_events_append:
  "run_events h r (xs @ ys) = bind_res (run_events h r xs) (\<lambda>r'. run_events h r' ys)"
  by (induction xs arbitrary: r) (simp_all add: bind_res_assoc)

definition demo_auction :: "call list" where
  "demo_auction =
     [(None, ev ''a1'' ''2026-07-15T10:01:00Z'' (ESCROW_FUNDING_CONFIRMED
        \<lparr> ef_fundingTxId = ''0.0.1@1.1'', ef_tokenId = ''0.0.429274'', ef_fundedAmountAtomic = ''5000000'',
          ef_tenderId = ''T1'', ef_tenderVersion = 1 \<rparr>)),
      (None, ev ''a2'' ''2026-07-15T10:02:00Z'' (TENDER_ACTIVATION_PAID
        \<lparr> ta_accessActionType = ''TENDER_ACTIVATE'', ta_asset = ''0.0.429274'', ta_amountAtomic = ''1000'',
          ta_resource = ''/api/v2/tenders/T1/v/1/activate'', ta_paymentTransactionId = ''0.0.1@1.2'',
          ta_paymentPayloadHash = demo_hash (CHR ''a''), ta_payerAccount = ''0.0.1'', ta_payTo = ''0.0.7000'' \<rparr>)),
      (Some demo_bid_auth, ev ''a3'' ''2026-07-15T10:30:00Z'' (BID_SUBMISSION_PAID demo_bid)),
      (None, ev ''a4'' ''2026-07-15T12:00:00Z'' (AUCTION_CLOSE_CONFIRMED
        \<lparr> ac_auctionEndsAt = ''2026-07-15T12:00:00Z'', ac_closureProofRef = ''proof'',
          ac_authoritativeBidSetHash = demo_hash (CHR ''b'') \<rparr>))]"

definition demo_refund :: "call list" where
  "demo_refund =
     [(None, ev ''a5'' ''2026-07-15T12:05:00Z'' (NO_QUALIFIED_BID_CONFIRMED (demo_hash (CHR ''c'')))),
      (None, ev ''a6'' ''2026-07-15T12:06:00Z'' (ESCROW_REFUND_CONFIRMED ''0.0.1@1.3'' ''5000000'')),
      (None, ev ''a7'' ''2026-07-15T12:07:00Z'' TENDER_COMPLETION_CONFIRMED)]"

definition demo_created :: LifecycleRecord where
  "demo_created = projr (createLifecycleRecord demo_sha demo_input)"

lemma demo_created: "createLifecycleRecord demo_sha demo_input = Inr demo_created"
proof -
  have "is_ok (createLifecycleRecord demo_sha demo_input)" by code_simp
  thus ?thesis by (auto simp: demo_created_def is_ok_iff)
qed

text \<open>The outcome of a run: state, version, funded, released and refunded amount, payments.\<close>

definition outcome :: "LifecycleRecord \<Rightarrow>
    V2LifecycleState \<times> int \<times> string option \<times> string option \<times> string option \<times> string list" where
  "outcome r = (lr_state r, lr_recordVersion r, lr_fundedAmountAtomic r, lr_releaseAmountAtomic r,
     lr_refundAmountAtomic r, map ap_paymentTransactionId (lr_accessPayments r))"

lemma demo_run_eval:
  "bind_res (run_events demo_sha demo_created (demo_auction @ demo_refund)) (\<lambda>r. Inr (outcome r))
   = Inr (TENDER_COMPLETED, 8, Some ''5000000'', Some ''0'', Some ''5000000'', [''0.0.1@1.2'', ''0.0.500@2.2''])"
  by code_simp

lemma demo_run:
  "\<exists>r. run_events demo_sha demo_created (demo_auction @ demo_refund) = Inr r
     \<and> outcome r = (TENDER_COMPLETED, 8, Some ''5000000'', Some ''0'', Some ''5000000'',
          [''0.0.1@1.2'', ''0.0.500@2.2''])"
  using demo_run_eval by (auto simp: res_simps)

text \<open>The same tender, awarded and delivered, up to the review of the proof of delivery.\<close>

definition demo_delivery :: "call list" where
  "demo_delivery = take 2 demo_auction @
     [(None, ev ''a3'' ''2026-07-15T10:03:00Z'' BIDDING_STARTED),
      (None, ev ''a4'' ''2026-07-15T12:00:00Z'' (AUCTION_CLOSE_CONFIRMED
        \<lparr> ac_auctionEndsAt = ''2026-07-15T12:00:00Z'', ac_closureProofRef = ''proof'',
          ac_authoritativeBidSetHash = demo_hash (CHR ''b'') \<rparr>)),
      (None, ev ''a5'' ''2026-07-15T12:05:00Z'' (WINNER_SELECTION_CONFIRMED
        \<lparr> ws_decisionManifestHash = demo_hash (CHR ''c''), ws_winningBidId = ''b1'',
          ws_winningCarrierId = ''c1'', ws_winningCarrierAccount = ''0.0.500'',
          ws_winningAmountAtomic = ''4000000'', ws_selectionPolicy = ''LOWEST_QUALIFIED_PRICE_V1'' \<rparr>)),
      (None, ev ''a6'' ''2026-07-15T12:06:00Z'' (WINNING_AMOUNT_ALLOCATION_CONFIRMED
        \<lparr> wa_allocateTxId = ''0.0.1@1.3'', wa_refundExcessTxId = Some ''0.0.1@1.4'',
          wa_maxBudgetAtomic = ''5000000'', wa_winningAmountAtomic = ''4000000'',
          wa_excessRefundAtomic = ''1000000'', wa_decisionManifestHash = demo_hash (CHR ''c'') \<rparr>)),
      (None, ev ''a7'' ''2026-07-15T12:07:00Z'' (ROUTE_RESERVATION_PUBLISHED ''res'' ''hcs'')),
      (None, ev ''a8'' ''2026-07-15T13:00:00Z'' TRANSIT_STARTED),
      (None, ev ''a9'' ''2026-07-16T08:00:00Z'' DELIVERY_REPORTED_EVENT),
      (None, ev ''a10'' ''2026-07-16T08:30:00Z'' (POD_PACKAGE_SUBMITTED
        \<lparr> pk_podId = ''pod1'', pk_podVersion = 1, pk_contentHash = demo_hash (CHR ''d''),
          pk_ciphertextHash = demo_hash (CHR ''e'') \<rparr>)),
      (None, ev ''a11'' ''2026-07-16T09:00:00Z'' POD_REVIEW_STARTED)]"

lemma demo_delivery_eval:
  "bind_res (run_events demo_sha demo_created demo_delivery)
     (\<lambda>r. Inr (lr_state r, lr_reviewDeadlineAt r, lr_updatedAt r, lr_lockedAmountAtomic r))
   = Inr (POD_UNDER_REVIEW, Some ''2026-07-18T09:00:00.000Z'', ''2026-07-16T09:00:00Z'', Some ''4000000'')"
  by code_simp

text \<open>A tender under review: allocated, delivered, proof of delivery submitted.\<close>

definition demo_reviewing :: LifecycleRecord where
  "demo_reviewing = demo_created\<lparr> lr_state := POD_UNDER_REVIEW,
     lr_fundedAmountAtomic := Some ''5000000'', lr_winningAmountAtomic := Some ''4000000'',
     lr_lockedAmountAtomic := Some ''4000000'', lr_excessRefundAtomic := Some ''1000000'',
     lr_podId := Some ''pod1'', lr_podVersion := Some 1,
     lr_reviewDeadlineAt := Some ''2026-07-18T09:00:00.000Z'' \<rparr>"

definition demo_accept :: LifecycleEvent where
  "demo_accept = ev ''a15'' ''2026-07-16T14:00:00Z''
     (POD_ACCEPTED_BY_SHIPPER ''ab'' ''2026-07-16T14:00:00Z'' ''2026-07-18T09:00:00.000Z'')"

definition demo_accept_auth :: auth_object where
  "demo_accept_auth = demo_review_auth ''a15'' ACCEPT ''2026-07-18T09:00:00.000Z''"

definition demo_expire :: LifecycleEvent where
  "demo_expire = ev ''a15'' ''2026-07-18T09:00:00Z'' POD_REVIEW_DEADLINE_EXPIRED"

end
