(* ===== verification/Lifecycle_Safety.thy ===== *)
theory Lifecycle_Safety
  imports Lifecycle_Scenario
begin

text \<open>
  What every accepted event does to the record, whatever its type: the frame of
  a reducer step, the graph it moves along, and the history it writes.  The
  event-specific facts are in the theories that build on this one.
\<close>

subsection \<open>Decomposition of a successful step\<close>

lemma require_Inr_iff [res_simps]: "require ok code = Inr u \<longleftrightarrow> ok"
  by (simp add: require_def)

lemma require_state_Inr_iff [res_simps]: "require_state r ok tgt = Inr u \<longleftrightarrow> ok"
  by (simp add: require_state_def)

lemma requireUtc_Inr_iff [res_simps]: "requireUtc v = Inr u \<longleftrightarrow> isUtcIsoTimestamp v"
  by (simp add: requireUtc_def)

lemma requireAtomic_Inr_iff [res_simps]:
  "requirePositiveAtomic v = Inr u \<longleftrightarrow> isPositiveAtomicString v"
  "requireNonNegAtomic v = Inr u \<longleftrightarrow> isNonNegativeAtomicString v"
  by (simp_all add: requirePositiveAtomic_def requireNonNegAtomic_def)

lemma require_before_eq_Inr_iff [res_simps]:
  "require_before_eq a b code = Inr u \<longleftrightarrow>
     isUtcIsoTimestamp a \<and> isUtcIsoTimestamp b \<and> instant a \<le> instant b"
  by (auto simp: require_before_eq_def res_simps isBeforeOrEqualUtc_Inr_iff)

lemma big_Inr_iff [res_simps]: "big v = Inr n \<longleftrightarrow> js_bigint v = Some n"
  by (simp add: big_def res_simps)

lemma assertLegal_Inr_iff [res_simps]: "assertLegalTransition a b = Inr u \<longleftrightarrow> isLegalTransition a b"
  by (simp add: assertLegalTransition_def isLegalTransition_def)

lemma assertUnused_Inr_iff [res_simps]:
  "assertUnusedAccessSettlement r t = Inr u \<longleftrightarrow> t \<notin> ap_paymentTransactionId ` set (lr_accessPayments r)"
  by (auto simp: assertUnusedAccessSettlement_def res_simps list_ex_iff)

lemma sealed_auth_Some_iff:
  "sealed_auth ctx = Some v \<longleftrightarrow> ctx = Some \<lparr> ao_sealed = True, ao_value = v \<rparr>"
proof (cases ctx)
  case (Some a)
  thus ?thesis by (cases a) (auto simp: sealed_auth_def isSealedVerifiedAuth_def)
qed (simp add: sealed_auth_def)

lemma requireSealedShipperAuth_Inr_iff [res_simps]:
  "requireSealedShipperAuth ctx e act = Inr auth \<longleftrightarrow>
     sealed_auth ctx = Some (SHIPPER_POD_REVIEW auth)
     \<and> sa_actionId auth = ev_actionId e \<and> sa_reviewAction auth = act"
  by (auto simp: requireSealedShipperAuth_def split: option.splits VerifiedAuth.splits)

lemma requireSealedCarrierBidAuth_Inr_iff [res_simps]:
  "requireSealedCarrierBidAuth ctx e = Inr auth \<longleftrightarrow>
     sealed_auth ctx = Some (CARRIER_BID auth) \<and> ca_actionId auth = ev_actionId e"
  by (auto simp: requireSealedCarrierBidAuth_def split: option.splits VerifiedAuth.splits)

lemma requireSealedRefereeAuth_Inr_iff [res_simps]:
  "requireSealedRefereeAuth ctx e = Inr auth \<longleftrightarrow>
     sealed_auth ctx = Some (REFEREE_RESOLUTION auth) \<and> ra_actionId auth = ev_actionId e"
  by (auto simp: requireSealedRefereeAuth_def split: option.splits VerifiedAuth.splits)

text \<open>The bookkeeping fields every step writes over the patched record.\<close>

definition stamp ::
  "LifecycleRecord \<Rightarrow> V2LifecycleState \<Rightarrow> LifecycleEvent \<Rightarrow> string option \<Rightarrow> string \<Rightarrow> LifecycleRecord
     \<Rightarrow> LifecycleRecord" where
  "stamp r tgt e reason payloadHash r0 =
     r0\<lparr> lr_state := tgt,
         lr_recordVersion := lr_recordVersion r + 1,
         lr_updatedAt := ev_eventTime e,
         lr_lastActionId := Some (ev_actionId e),
         lr_history := appendHistory r (lr_state r) tgt e reason,
         lr_processedActions := AList.update (ev_actionId e)
           (processed_entry e payloadHash tgt (lr_recordVersion r + 1)) (lr_processedActions r) \<rparr>"

lemma withTransition_Inr_iff [res_simps]:
  "withTransition h r tgt e patch reason = Inr r' \<longleftrightarrow>
     isLegalTransition (lr_state r) tgt \<and> isUtcIsoTimestamp (ev_eventTime e)
     \<and> ev_actionId e \<noteq> [] \<and> length (ev_actionId e) \<le> 128
     \<and> (\<exists>ph. eventPayloadHash h e = Inr ph \<and> r' = stamp r tgt e reason ph (patch r))"
  by (auto simp: withTransition_def res_simps stamp_def Let_def)

lemma advisory_Inr_iff:
  "on_pod_advisory_anchored h r e rh b = Inr r' \<longleftrightarrow>
     b = ''NON_BINDING_ADVISORY'' \<and> lr_state r \<noteq> TENDER_COMPLETED
     \<and> (\<exists>ph. eventPayloadHash h e = Inr ph \<and>
          r' = stamp r (lr_state r) e (Some ''NON_BINDING_ADVISORY_HASH_ONLY'') ph
                 (r\<lparr> lr_advisoryReportHash := Some rh \<rparr>))"
  by (auto simp: on_pod_advisory_anchored_def res_simps stamp_def Let_def)

lemmas handler_defs =
  on_escrow_funding_confirmed_def on_tender_activation_paid_def on_bid_submission_paid_def
  on_bidding_started_def on_auction_close_confirmed_def on_no_qualified_bid_confirmed_def
  on_winner_selection_confirmed_def on_winning_amount_allocation_confirmed_def
  on_route_reservation_published_def on_transit_started_def on_delivery_reported_def
  on_pod_package_submitted_def on_pod_review_started_def on_pod_correction_requested_def
  on_pod_package_resubmitted_def on_pod_accepted_by_shipper_def on_pod_review_deadline_expired_def
  on_pod_correction_deadline_expired_def on_pod_rejected_to_dispute_def
  on_referee_resolution_recorded_def on_escrow_release_confirmed_def
  on_escrow_partial_release_confirmed_def on_escrow_refund_confirmed_def
  on_tender_completion_confirmed_def

lemma reduceLifecycle_Inr_iff:
  "reduceLifecycle h ctx r e = Inr r' \<longleftrightarrow>
     isUtcIsoTimestamp (lr_updatedAt r) \<and> isUtcIsoTimestamp (ev_eventTime e)
     \<and> instant (lr_updatedAt r) \<le> instant (ev_eventTime e) \<and> reduce_body h ctx r e = Inr r'"
  by (auto simp: reduceLifecycle_def res_simps)

subsection \<open>Hashing an event never fails\<close>

lemma reasons_has_text: "has_text (reasons_json rs)"
proof -
  have "reasons_json rs = JArr (map Some (map (\<lambda>(c, m). JObj [(''code'', JStr c), (''message'', JStr m)]) rs))"
    by (simp add: reasons_json_def comp_def case_prod_beta')
  thus ?thesis by (auto simp only: has_text_JArr list_all_iff) (auto simp: has_text_JObj)
qed

lemma event_has_text: "has_text (event_json e)"
  unfolding event_json_def has_text_JObj
  by (cases "ev_body e")
    (auto simp: package_props_def review_props_def reasons_has_text split: option.splits)

lemma eventPayloadHash_ok:
  assumes "hex_digest h"
  shows "eventPayloadHash h e = Inr (''sha256:'' @ h (text_of (event_json e)))"
  using has_textD [OF event_has_text [of e]] assms
  by (simp add: eventPayloadHash_def canonicalSha256_def canonicalize_def hex_digest_def)

subsection \<open>The frame of a step\<close>

text \<open>The fields no event writes.\<close>

definition same_identity :: "LifecycleRecord \<Rightarrow> LifecycleRecord \<Rightarrow> bool" where
  "same_identity r r' \<longleftrightarrow>
     lr_schemaVersion r' = lr_schemaVersion r \<and> lr_tenderId r' = lr_tenderId r
     \<and> lr_tenderVersion r' = lr_tenderVersion r \<and> lr_tenderHash r' = lr_tenderHash r
     \<and> lr_maximumFreightBudgetAtomic r' = lr_maximumFreightBudgetAtomic r
     \<and> lr_auctionEndsAt r' = lr_auctionEndsAt r \<and> lr_createdAt r' = lr_createdAt r
     \<and> lr_trust r' = lr_trust r"

lemma stamp_simps [simp]:
  "lr_state (stamp r t e w ph r0) = t"
  "lr_recordVersion (stamp r t e w ph r0) = lr_recordVersion r + 1"
  "lr_updatedAt (stamp r t e w ph r0) = ev_eventTime e"
  "lr_lastActionId (stamp r t e w ph r0) = Some (ev_actionId e)"
  "lr_history (stamp r t e w ph r0) = appendHistory r (lr_state r) t e w"
  "lr_processedActions (stamp r t e w ph r0) =
     AList.update (ev_actionId e) (processed_entry e ph t (lr_recordVersion r + 1)) (lr_processedActions r)"
  by (simp_all add: stamp_def)

lemma stamp_frame [simp]:
  "lr_schemaVersion (stamp r t e w ph r0) = lr_schemaVersion r0"
  "lr_tenderId (stamp r t e w ph r0) = lr_tenderId r0"
  "lr_tenderVersion (stamp r t e w ph r0) = lr_tenderVersion r0"
  "lr_tenderHash (stamp r t e w ph r0) = lr_tenderHash r0"
  "lr_maximumFreightBudgetAtomic (stamp r t e w ph r0) = lr_maximumFreightBudgetAtomic r0"
  "lr_auctionEndsAt (stamp r t e w ph r0) = lr_auctionEndsAt r0"
  "lr_createdAt (stamp r t e w ph r0) = lr_createdAt r0"
  "lr_trust (stamp r t e w ph r0) = lr_trust r0"
  "lr_fundingTxId (stamp r t e w ph r0) = lr_fundingTxId r0"
  "lr_fundedAmountAtomic (stamp r t e w ph r0) = lr_fundedAmountAtomic r0"
  "lr_activationPaymentTxId (stamp r t e w ph r0) = lr_activationPaymentTxId r0"
  "lr_accessReceipt (stamp r t e w ph r0) = lr_accessReceipt r0"
  "lr_accessPayments (stamp r t e w ph r0) = lr_accessPayments r0"
  "lr_bidRegistry (stamp r t e w ph r0) = lr_bidRegistry r0"
  "lr_closureProofRef (stamp r t e w ph r0) = lr_closureProofRef r0"
  "lr_authoritativeBidSetHash (stamp r t e w ph r0) = lr_authoritativeBidSetHash r0"
  "lr_decisionManifestHash (stamp r t e w ph r0) = lr_decisionManifestHash r0"
  "lr_winningBidId (stamp r t e w ph r0) = lr_winningBidId r0"
  "lr_winningCarrierId (stamp r t e w ph r0) = lr_winningCarrierId r0"
  "lr_winningCarrierAccount (stamp r t e w ph r0) = lr_winningCarrierAccount r0"
  "lr_winningAmountAtomic (stamp r t e w ph r0) = lr_winningAmountAtomic r0"
  "lr_lockedAmountAtomic (stamp r t e w ph r0) = lr_lockedAmountAtomic r0"
  "lr_excessRefundAtomic (stamp r t e w ph r0) = lr_excessRefundAtomic r0"
  "lr_allocateTxId (stamp r t e w ph r0) = lr_allocateTxId r0"
  "lr_refundExcessTxId (stamp r t e w ph r0) = lr_refundExcessTxId r0"
  "lr_reservationEvidenceRef (stamp r t e w ph r0) = lr_reservationEvidenceRef r0"
  "lr_podId (stamp r t e w ph r0) = lr_podId r0"
  "lr_podVersion (stamp r t e w ph r0) = lr_podVersion r0"
  "lr_podContentHash (stamp r t e w ph r0) = lr_podContentHash r0"
  "lr_podCiphertextHash (stamp r t e w ph r0) = lr_podCiphertextHash r0"
  "lr_reviewStartedAt (stamp r t e w ph r0) = lr_reviewStartedAt r0"
  "lr_reviewDeadlineAt (stamp r t e w ph r0) = lr_reviewDeadlineAt r0"
  "lr_correctionDeadlineAt (stamp r t e w ph r0) = lr_correctionDeadlineAt r0"
  "lr_shipperActionTaken (stamp r t e w ph r0) = lr_shipperActionTaken r0"
  "lr_advisoryReportHash (stamp r t e w ph r0) = lr_advisoryReportHash r0"
  "lr_disputeId (stamp r t e w ph r0) = lr_disputeId r0"
  "lr_lastShipperAuthPayloadHash (stamp r t e w ph r0) = lr_lastShipperAuthPayloadHash r0"
  "lr_lastShipperKeyFingerprint (stamp r t e w ph r0) = lr_lastShipperKeyFingerprint r0"
  "lr_refereeResolution (stamp r t e w ph r0) = lr_refereeResolution r0"
  "lr_releaseAmountAtomic (stamp r t e w ph r0) = lr_releaseAmountAtomic r0"
  "lr_refundAmountAtomic (stamp r t e w ph r0) = lr_refundAmountAtomic r0"
  "lr_resolutionPayloadHash (stamp r t e w ph r0) = lr_resolutionPayloadHash r0"
  "lr_refereeId (stamp r t e w ph r0) = lr_refereeId r0"
  "lr_refereeKeyFingerprint (stamp r t e w ph r0) = lr_refereeKeyFingerprint r0"
  "lr_releaseTxId (stamp r t e w ph r0) = lr_releaseTxId r0"
  "lr_refundTxId (stamp r t e w ph r0) = lr_refundTxId r0"
  by (simp_all add: stamp_def)

text \<open>
  Every accepted event is a stamped patch: the bookkeeping is the same for all
  events, and the patch leaves the identity fields alone.
\<close>

definition stamped :: "hash_fn \<Rightarrow> LifecycleRecord \<Rightarrow> LifecycleEvent \<Rightarrow> LifecycleRecord \<Rightarrow> bool" where
  "stamped h r e r' \<longleftrightarrow> (\<exists>t w ph r0. eventPayloadHash h e = Inr ph \<and> r' = stamp r t e w ph r0
     \<and> isLegalTransition (lr_state r) t \<and> same_identity r r0)"

lemma stampedI:
  "eventPayloadHash h e = Inr ph \<Longrightarrow> isLegalTransition (lr_state r) t \<Longrightarrow> same_identity r r0
   \<Longrightarrow> stamped h r e (stamp r t e w ph r0)"
  unfolding stamped_def by blast

lemma reduce_body_stamped: "reduce_body h ctx r e = Inr r' \<Longrightarrow> stamped h r e r'"
  by (cases "ev_body e")
    (simp add: reduce_body_def handler_defs advisory_Inr_iff res_simps split: if_splits;
      elim exE conjE; hypsubst; rule stampedI;
      simp add: same_identity_def isLegalTransition_def; fail)+

lemma reduce_stamped: "reduceLifecycle h ctx r e = Inr r' \<Longrightarrow> stamped h r e r'"
  using reduce_body_stamped by (auto simp: reduceLifecycle_Inr_iff)

lemma stamped_identity: "stamped h r e r' \<Longrightarrow> same_identity r r'"
  by (auto simp: stamped_def same_identity_def)

lemma stamped_legal: "stamped h r e r' \<Longrightarrow> isLegalTransition (lr_state r) (lr_state r')"
  by (auto simp: stamped_def)

lemma stamped_version: "stamped h r e r' \<Longrightarrow> lr_recordVersion r' = lr_recordVersion r + 1"
  by (auto simp: stamped_def)

lemma stamped_history:
  assumes "stamped h r e r'"
  shows "\<exists>w. lr_history r' = lr_history r @ [\<lparr> tr_from = lr_state r, tr_to = lr_state r',
    tr_eventType = event_type (ev_body e), tr_actionId = ev_actionId e, tr_at = ev_eventTime e, tr_reason = w \<rparr>]"
  using assms by (auto simp: stamped_def appendHistory_def)

lemma stamped_actions:
  assumes "stamped h r e r'"
  shows "map_of (lr_processedActions r') = (map_of (lr_processedActions r))
    (ev_actionId e \<mapsto> processed_entry e (projr (eventPayloadHash h e)) (lr_state r') (lr_recordVersion r'))"
  using assms by (auto simp: stamped_def update_conv')

text \<open>
  C21. Every accepted event leaves the tender's identity, budget, auction end,
  creation time and trust snapshot alone, moves along an edge of the transition
  graph or stays in the same state, raises the record version by exactly one,
  never goes back in time, appends exactly one history entry that joins the old
  state to the new one, and records the action under its own id without touching
  any other recorded action.
\<close>

theorem reduce_step_frame:
  assumes "reduceLifecycle h ctx r e = Inr r'"
  shows "same_identity r r'
    \<and> isLegalTransition (lr_state r) (lr_state r')
    \<and> lr_recordVersion r' = lr_recordVersion r + 1
    \<and> lr_updatedAt r' = ev_eventTime e \<and> instant (lr_updatedAt r) \<le> instant (lr_updatedAt r')
    \<and> (\<exists>w. lr_history r' = lr_history r @ [\<lparr> tr_from = lr_state r, tr_to = lr_state r',
          tr_eventType = event_type (ev_body e), tr_actionId = ev_actionId e,
          tr_at = ev_eventTime e, tr_reason = w \<rparr>])
    \<and> (\<forall>a. a \<noteq> ev_actionId e \<longrightarrow> map_of (lr_processedActions r') a = map_of (lr_processedActions r) a)
    \<and> (\<exists>ph. eventPayloadHash h e = Inr ph \<and> map_of (lr_processedActions r') (ev_actionId e)
          = Some (processed_entry e ph (lr_state r') (lr_recordVersion r')))"
proof -
  note s = reduce_stamped [OF assms]
  have "lr_updatedAt r' = ev_eventTime e" "\<exists>ph. eventPayloadHash h e = Inr ph"
    using s by (auto simp: stamped_def)
  moreover have "instant (lr_updatedAt r) \<le> instant (ev_eventTime e)"
    using assms by (simp add: reduceLifecycle_Inr_iff)
  ultimately show ?thesis
    using stamped_identity [OF s] stamped_legal [OF s] stamped_version [OF s] stamped_history [OF s]
      stamped_actions [OF s] by auto
qed

theorem reduce_step_frame_witness:
  "\<exists>r'. reduceLifecycle demo_sha None demo_created (snd (hd demo_auction)) = Inr r'
     \<and> lr_state r' = ESCROW_FUNDED \<and> lr_recordVersion r' = lr_recordVersion demo_created + 1
     \<and> lr_trust r' = lr_trust demo_created"
proof -
  have "bind_res (reduceLifecycle demo_sha None demo_created (snd (hd demo_auction))) (\<lambda>r. Inr (lr_state r))
      = Inr ESCROW_FUNDED"
    by code_simp
  then obtain r' where r: "reduceLifecycle demo_sha None demo_created (snd (hd demo_auction)) = Inr r'"
    "lr_state r' = ESCROW_FUNDED" by (auto simp: res_simps)
  thus ?thesis using reduce_step_frame [OF r(1)] by (auto simp: same_identity_def)
qed

subsection \<open>Reachable records\<close>

inductive reachable :: "hash_fn \<Rightarrow> LifecycleRecord \<Rightarrow> bool" for h where
  created: "createLifecycleRecord h input = Inr r \<Longrightarrow> reachable h r"
| reduced: "reachable h r \<Longrightarrow> reduceLifecycle h ctx r e = Inr r' \<Longrightarrow> reachable h r'"

inductive_cases reachableE: "reachable h r"

text \<open>The history is a connected walk from \<open>DRAFT\<close> to the current state along the graph.\<close>

fun walk :: "V2LifecycleState \<Rightarrow> LifecycleTransitionRecord list \<Rightarrow> V2LifecycleState \<Rightarrow> bool" where
  "walk s [] t \<longleftrightarrow> s = t"
| "walk s (x # xs) t \<longleftrightarrow> tr_from x = s \<and> isLegalTransition s (tr_to x) \<and> walk (tr_to x) xs t"

lemma walk_append: "walk s (xs @ ys) t \<longleftrightarrow> (\<exists>m. walk s xs m \<and> walk m ys t)"
  by (induction xs arbitrary: s) auto

lemma create_fields:
  assumes "createLifecycleRecord h input = Inr r"
  shows "lr_state r = DRAFT" "lr_history r = []" "lr_recordVersion r = 1" "lr_processedActions r = []"
    "lr_fundedAmountAtomic r = None" "lr_winningAmountAtomic r = None" "lr_lockedAmountAtomic r = None"
    "lr_excessRefundAtomic r = None" "lr_releaseAmountAtomic r = None" "lr_refundAmountAtomic r = None"
    "lr_refereeResolution r = None" "lr_accessPayments r = []" "lr_bidRegistry r = []"
    "isPositiveAtomicString (lr_maximumFreightBudgetAtomic r)"
    "lr_updatedAt r = lr_createdAt r"
  using assms by (auto simp: createLifecycleRecord_def Let_def split: if_splits)

lemma reachable_walk:
  "reachable h r \<Longrightarrow> walk DRAFT (lr_history r) (lr_state r)
     \<and> lr_recordVersion r = 1 + int (length (lr_history r))"
proof (induction rule: reachable.induct)
  case (created input r)
  thus ?case by (simp add: create_fields)
next
  case (reduced r ctx e r')
  note s = reduce_stamped [OF reduced.hyps(2)]
  show ?case
    using reduced.IH stamped_history [OF s] stamped_version [OF s] stamped_legal [OF s]
    by (auto simp: walk_append)
qed

lemma run_reachable: "reachable h r \<Longrightarrow> run_events h r cs = Inr r' \<Longrightarrow> reachable h r'"
proof (induction cs arbitrary: r)
  case (Cons c cs)
  thus ?case using reduced by (fastforce simp: res_simps)
qed simp

lemma demo_reachable:
  "\<exists>r. reachable demo_sha r \<and> outcome r = (TENDER_COMPLETED, 8, Some ''5000000'', Some ''0'', Some ''5000000'',
      [''0.0.1@1.2'', ''0.0.500@2.2''])"
  using demo_run run_reachable [OF created [OF demo_created]] by blast

text \<open>
  C25. In every reachable record the history is a gap-free walk of the transition
  graph from \<open>DRAFT\<close> to the current state, and the record version is one more than
  its length: no state is entered except through a recorded legal transition.
\<close>

theorem reachable_history:
  assumes "reachable h r"
  shows "walk DRAFT (lr_history r) (lr_state r)
    \<and> lr_recordVersion r = 1 + int (length (lr_history r))"
  using reachable_walk [OF assms] .

theorem reachable_history_witness:
  "\<exists>r. reachable demo_sha r \<and> lr_state r = TENDER_COMPLETED
     \<and> walk DRAFT (lr_history r) TENDER_COMPLETED \<and> length (lr_history r) = 7"
proof -
  obtain r where r: "reachable demo_sha r" "lr_state r = TENDER_COMPLETED" "lr_recordVersion r = 8"
    using demo_reachable by (auto simp: outcome_def)
  thus ?thesis using reachable_history [OF r(1)] by auto
qed

end
