(* ===== verification/Lifecycle_Funds.thy ===== *)
theory Lifecycle_Funds
  imports Lifecycle_Safety
begin

text \<open>
  Where the money of a tender is: the invariant of the amount fields in every
  reachable record, conservation at settlement, who may authorize a settlement,
  and the uniqueness of access payments and bids.
\<close>

subsection \<open>The abstract ledger\<close>

text \<open>
  The contract the lifecycle keeps with the escrow: money enters once, is split
  into a locked part and a refunded excess, and leaves once as release and
  refund.  A ledger is the amount held, the amount returned to the shipper and
  the amount paid to the carrier.
\<close>

record ledger =
  held :: int
  returned :: int
  paid :: int

inductive ledger_step :: "int \<Rightarrow> ledger \<Rightarrow> ledger \<Rightarrow> bool" for budget where
  fund: "ledger_step budget \<lparr> held = 0, returned = 0, paid = 0 \<rparr> \<lparr> held = budget, returned = 0, paid = 0 \<rparr>"
| allocate: "win + excess = budget \<Longrightarrow> 0 < win \<Longrightarrow> 0 \<le> excess \<Longrightarrow>
     ledger_step budget \<lparr> held = budget, returned = 0, paid = 0 \<rparr>
       \<lparr> held = win, returned = excess, paid = 0 \<rparr>"
| settle: "release + refund = a \<Longrightarrow> 0 \<le> release \<Longrightarrow> 0 \<le> refund \<Longrightarrow> 0 < a \<Longrightarrow>
     ledger_step budget \<lparr> held = a, returned = b, paid = 0 \<rparr>
       \<lparr> held = 0, returned = b + refund, paid = release \<rparr>"
| idle: "ledger_step budget l l"

lemma ledger_step_total:
  "ledger_step budget l l' \<Longrightarrow> held l' + returned l' + paid l'
     = held l + returned l + paid l \<or> (held l + returned l + paid l = 0 \<and> held l' + returned l' + paid l' = budget)"
  by (cases rule: ledger_step.cases) auto

definition opt_amount :: "string option \<Rightarrow> int" where
  "opt_amount x = (case x of None \<Rightarrow> 0 | Some s \<Rightarrow> amount s)"

lemma opt_amount_simps [simp]: "opt_amount None = 0" "opt_amount (Some s) = amount s"
  by (simp_all add: opt_amount_def)

definition settled :: "V2LifecycleState \<Rightarrow> bool" where
  "settled s \<longleftrightarrow> List.member V2_ECONOMIC_TERMINAL_STATES s"

text \<open>The states from the allocation to the settlement.\<close>

definition holds_lock :: "V2LifecycleState \<Rightarrow> bool" where
  "holds_lock s \<longleftrightarrow> List.member V2_FUNDS_LOCKED_STATES s \<or> s = POD_ACCEPTED \<or> s = POD_DEEMED_ACCEPTED"

definition ledger_of :: "LifecycleRecord \<Rightarrow> ledger" where
  "ledger_of r =
     (if lr_state r = DRAFT then \<lparr> held = 0, returned = 0, paid = 0 \<rparr>
      else if settled (lr_state r) then
        \<lparr> held = 0, returned = opt_amount (lr_excessRefundAtomic r) + opt_amount (lr_refundAmountAtomic r),
          paid = opt_amount (lr_releaseAmountAtomic r) \<rparr>
      else if holds_lock (lr_state r) then
        \<lparr> held = opt_amount (lr_lockedAmountAtomic r), returned = opt_amount (lr_excessRefundAtomic r), paid = 0 \<rparr>
      else \<lparr> held = opt_amount (lr_fundedAmountAtomic r), returned = 0, paid = 0 \<rparr>)"

lemmas state_group_defs = settled_def holds_lock_def V2_ECONOMIC_TERMINAL_STATES_def
  V2_FUNDS_LOCKED_STATES_def

subsection \<open>The invariant of the amounts\<close>

definition allocated :: "LifecycleRecord \<Rightarrow> bool" where
  "allocated r \<longleftrightarrow> (\<exists>l x. lr_lockedAmountAtomic r = Some l \<and> lr_excessRefundAtomic r = Some x
     \<and> lr_winningAmountAtomic r = Some l \<and> isPositiveAtomicString l \<and> isNonNegativeAtomicString x
     \<and> amount l + amount x = amount (lr_maximumFreightBudgetAtomic r))"

definition decided :: "LifecycleRecord \<Rightarrow> bool" where
  "decided r \<longleftrightarrow> (\<exists>q a b. lr_refereeResolution r = Some q \<and> lr_releaseAmountAtomic r = Some a
     \<and> lr_refundAmountAtomic r = Some b \<and> isNonNegativeAtomicString a \<and> isNonNegativeAtomicString b
     \<and> amount a + amount b = opt_amount (lr_lockedAmountAtomic r)
     \<and> (q = RELEASE_FULL \<longrightarrow> amount b = 0) \<and> (q = REFUND_FULL \<longrightarrow> amount a = 0))"

definition paid_out :: "LifecycleRecord \<Rightarrow> bool" where
  "paid_out r \<longleftrightarrow> (\<exists>a b. lr_releaseAmountAtomic r = Some a \<and> lr_refundAmountAtomic r = Some b
     \<and> isNonNegativeAtomicString a \<and> isNonNegativeAtomicString b
     \<and> ((allocated r \<and> amount a + amount b = opt_amount (lr_lockedAmountAtomic r))
        \<or> (lr_lockedAmountAtomic r = None \<and> lr_excessRefundAtomic r = None
           \<and> amount a = 0 \<and> b = lr_maximumFreightBudgetAtomic r)))"

definition funds_inv :: "LifecycleRecord \<Rightarrow> bool" where
  "funds_inv r \<longleftrightarrow>
     isPositiveAtomicString (lr_maximumFreightBudgetAtomic r)
     \<and> lr_fundedAmountAtomic r =
         (if lr_state r = DRAFT then None else Some (lr_maximumFreightBudgetAtomic r))
     \<and> (holds_lock (lr_state r) \<longrightarrow> allocated r)
     \<and> (\<not> holds_lock (lr_state r) \<and> \<not> settled (lr_state r) \<longrightarrow>
          lr_lockedAmountAtomic r = None \<and> lr_excessRefundAtomic r = None)
     \<and> (lr_state r = REFEREE_DECISION \<longrightarrow> decided r)
     \<and> (settled (lr_state r) \<longrightarrow> paid_out r)"

lemma funds_inv_create: "createLifecycleRecord h input = Inr r \<Longrightarrow> funds_inv r"
  by (simp add: funds_inv_def create_fields state_group_defs)

lemma isLegal_simps: "isLegalTransition s t \<longleftrightarrow> s = t \<or> t \<in> set (LEGAL s)"
  by (auto simp: isLegalTransition_def)

lemma atomic_zero [simp]: "isNonNegativeAtomicString ''0''" "amount ''0'' = 0"
  by code_simp+

lemma atomic_zero_iff: "isNonNegativeAtomicString s \<Longrightarrow> amount s = 0 \<longleftrightarrow> s = ''0''"
  using amount_eq_iff [of s "''0''"] by simp

lemmas funds_defs = funds_inv_def allocated_def decided_def paid_out_def state_group_defs

text \<open>The step lemma, one event at a time.\<close>

lemma funds_inv_reduce:
  assumes "reduce_body h ctx r e = Inr r'" "funds_inv r"
  shows "funds_inv r'"
  using assms
  by (cases "ev_body e")
    (simp add: reduce_body_def handler_defs advisory_Inr_iff res_simps split: if_splits;
      (elim exE conjE disjE)?; hypsubst;
      (auto simp: funds_defs bigint_atomic positive_is_nonNegative locked_or_winning_def or_zero_def
         truthy_def split: option.splits)?)+

lemma reachable_funds: "reachable h r \<Longrightarrow> funds_inv r"
proof (induction rule: reachable.induct)
  case (created input r)
  thus ?case by (rule funds_inv_create)
next
  case (reduced r ctx e r')
  thus ?case using funds_inv_reduce by (auto simp: reduceLifecycle_Inr_iff)
qed

lemma funds_inv_total:
  assumes "funds_inv r" "lr_state r \<noteq> DRAFT"
  shows "held (ledger_of r) + returned (ledger_of r) + paid (ledger_of r)
    = amount (lr_maximumFreightBudgetAtomic r)"
  using assms unfolding ledger_of_def
  by (cases "settled (lr_state r)"; cases "holds_lock (lr_state r)")
    (auto simp: funds_inv_def allocated_def paid_out_def)

text \<open>
  C7. Conservation.  In every reachable record past \<open>DRAFT\<close> the amount held, the
  amount returned to the shipper and the amount paid to the carrier sum to the
  funded budget, and in a settled tender nothing is held: what was released plus
  what was refunded plus the allocation excess is exactly what was funded.
\<close>

theorem reachable_conservation:
  assumes "reachable h r" "lr_state r \<noteq> DRAFT"
  shows "lr_fundedAmountAtomic r = Some (lr_maximumFreightBudgetAtomic r)
    \<and> held (ledger_of r) + returned (ledger_of r) + paid (ledger_of r)
        = amount (lr_maximumFreightBudgetAtomic r)
    \<and> (settled (lr_state r) \<longrightarrow>
         opt_amount (lr_releaseAmountAtomic r) + opt_amount (lr_refundAmountAtomic r)
         + opt_amount (lr_excessRefundAtomic r) = opt_amount (lr_fundedAmountAtomic r))"
proof -
  note inv = reachable_funds [OF assms(1)]
  have f: "lr_fundedAmountAtomic r = Some (lr_maximumFreightBudgetAtomic r)"
    using inv assms(2) by (simp add: funds_inv_def)
  show ?thesis
    using funds_inv_total [OF inv assms(2)] f assms(2) by (auto simp: ledger_of_def)
qed

theorem reachable_conservation_witness:
  "\<exists>r. reachable demo_sha r \<and> lr_state r = TENDER_COMPLETED \<and> settled (lr_state r)
     \<and> opt_amount (lr_releaseAmountAtomic r) + opt_amount (lr_refundAmountAtomic r)
         + opt_amount (lr_excessRefundAtomic r) = amount ''5000000''"
proof -
  obtain r where r: "reachable demo_sha r" "lr_state r = TENDER_COMPLETED"
    "lr_fundedAmountAtomic r = Some ''5000000''"
    using demo_reachable by (auto simp: outcome_def)
  have "settled (lr_state r)" "lr_state r \<noteq> DRAFT" using r(2) by (simp_all add: state_group_defs)
  thus ?thesis using reachable_conservation [OF r(1)] r by auto
qed

subsection \<open>The reducer refines the ledger\<close>

lemma ledger_idle: "ledger_of r = ledger_of r' \<Longrightarrow> ledger_step b (ledger_of r) (ledger_of r')"
  by (simp add: idle)

lemma ledger_settle:
  assumes "held l + returned l + paid l = held l' + returned l' + paid l'" "held l' = 0" "paid l = 0"
    "0 < held l" "0 \<le> paid l'" "returned l \<le> returned l'"
  shows "ledger_step b l l'"
proof -
  obtain a x where l: "l = \<lparr> held = a, returned = x, paid = 0 \<rparr>" using assms(3) by (cases l) auto
  obtain y z where l': "l' = \<lparr> held = 0, returned = y, paid = z \<rparr>" using assms(2) by (cases l') auto
  have "ledger_step b l \<lparr> held = 0, returned = x + (y - x), paid = z \<rparr>"
    unfolding l by (rule settle) (use assms l l' in auto)
  thus ?thesis using l' by simp
qed

lemma settled_states: "settled s \<longleftrightarrow> s \<in> {PAYMENT_RELEASED, PARTIAL_RELEASE, REFUNDED, TENDER_COMPLETED}"
  by (auto simp: state_group_defs)

lemma ledger_refine_body:
  assumes "reduce_body h ctx r e = Inr r'" "funds_inv r"
  shows "ledger_step (amount (lr_maximumFreightBudgetAtomic r)) (ledger_of r) (ledger_of r')"
proof -
  have inv': "funds_inv r'" using funds_inv_reduce assms by blast
  have legal: "isLegalTransition (lr_state r) (lr_state r')" "same_identity r r'"
    using reduce_body_stamped [OF assms(1)] stamped_legal stamped_identity by blast+
  hence bud: "lr_maximumFreightBudgetAtomic r' = lr_maximumFreightBudgetAtomic r"
    by (simp add: same_identity_def)
  consider "lr_state r = DRAFT" "lr_state r' = ESCROW_FUNDED"
    | "lr_state r = WINNER_SELECTED" "lr_state r' = WINNING_AMOUNT_LOCKED"
    | "\<not> settled (lr_state r)" "settled (lr_state r')" "lr_state r \<noteq> DRAFT"
    | "ledger_of r' = ledger_of r"
    using assms
    by (cases "ev_body e")
      (simp add: reduce_body_def handler_defs advisory_Inr_iff res_simps split: if_splits;
        (elim exE conjE disjE)?; hypsubst; simp add: ledger_of_def state_group_defs; fail)+
  thus ?thesis
  proof cases
    case 1
    thus ?thesis
      using fund inv' bud by (simp add: ledger_of_def funds_inv_def state_group_defs)
  next
    case 2
    obtain l x where lx: "lr_lockedAmountAtomic r' = Some l" "lr_excessRefundAtomic r' = Some x"
      "isPositiveAtomicString l" "amount l + amount x = amount (lr_maximumFreightBudgetAtomic r)"
      using inv' 2 bud by (auto simp: funds_inv_def allocated_def state_group_defs)
    have "0 < amount l" using lx(3) by (simp add: isPositiveAtomicString_iff)
    thus ?thesis
      using 2 lx assms(2) allocate [OF lx(4)] by (simp add: ledger_of_def funds_inv_def state_group_defs)
  next
    case 3
    have h: "0 < held (ledger_of r)" "paid (ledger_of r) = 0"
      using 3 assms(2)
      by (auto simp: ledger_of_def funds_inv_def allocated_def isPositiveAtomicString_iff)
    have st: "lr_state r' \<noteq> DRAFT" using 3(2) by (auto simp: settled_states)
    have n: "0 \<le> opt_amount x" for x by (cases x) auto
    have ex: "lr_excessRefundAtomic r' = lr_excessRefundAtomic r \<or> lr_excessRefundAtomic r = None"
      using assms 3
      by (cases "ev_body e")
        (simp add: reduce_body_def handler_defs advisory_Inr_iff res_simps split: if_splits;
          (elim exE conjE disjE)?; hypsubst; simp add: state_group_defs; fail)+
    have "returned (ledger_of r) \<le> returned (ledger_of r')"
    proof (cases "holds_lock (lr_state r)")
      case True
      then obtain x where "lr_excessRefundAtomic r = Some x"
        using assms(2) by (auto simp: funds_inv_def allocated_def)
      thus ?thesis using True 3 st ex n by (auto simp: ledger_of_def)
    next
      case False
      thus ?thesis using 3 st n [of "lr_excessRefundAtomic r'"] n [of "lr_refundAmountAtomic r'"]
        by (simp add: ledger_of_def)
    qed
    moreover have "held (ledger_of r') = 0" "0 \<le> paid (ledger_of r')"
      using 3(2) st n by (simp_all add: ledger_of_def)
    ultimately show ?thesis
      using h funds_inv_total [OF assms(2) 3(3)] funds_inv_total [OF inv' st] bud
      by (intro ledger_settle) simp_all
  next
    case 4
    thus ?thesis by (simp add: idle)
  qed
qed

text \<open>
  C9. Refinement.  Seen through the abstraction to a ledger, every accepted
  event of a reachable record is a step of the escrow contract: funding the
  exact budget, splitting it into a positive locked part and an excess, paying
  the held amount out completely as release and refund, or leaving it alone.
\<close>

theorem reduce_refines_ledger:
  assumes "reachable h r" "reduceLifecycle h ctx r e = Inr r'"
  shows "ledger_step (amount (lr_maximumFreightBudgetAtomic r)) (ledger_of r) (ledger_of r')"
  using assms(2) ledger_refine_body reachable_funds [OF assms(1)] by (auto simp: reduceLifecycle_Inr_iff)

theorem reduce_refines_ledger_witness:
  "\<exists>r'. reduceLifecycle demo_sha None demo_created (snd (hd demo_auction)) = Inr r'
     \<and> ledger_step (amount ''5000000'') (ledger_of demo_created) (ledger_of r')"
proof -
  have "is_ok (reduceLifecycle demo_sha None demo_created (snd (hd demo_auction)))
      \<and> lr_maximumFreightBudgetAtomic demo_created = ''5000000''"
    by code_simp
  thus ?thesis
    using reduce_refines_ledger [OF created [OF demo_created]] by (auto simp: is_ok_iff)
qed

end
