(* ===== verification/Lifecycle_Authority.thy ===== *)
theory Lifecycle_Authority
  imports Lifecycle_Funds
begin

text \<open>
  Who may move a tender: the authorizations a decision needs, what a timeout may
  do, that the advisory report decides nothing, that every access payment is
  paid in full and used once, and that a silent shipper cannot block the carrier.
\<close>

subsection \<open>Decisions\<close>

lemma shipper_review_checks_Inr_iff [res_simps]:
  "shipper_review_checks ctx r e act dl = Inr auth \<longleftrightarrow>
     lr_reviewDeadlineAt r = Some dl \<and> dl \<noteq> []
     \<and> isUtcIsoTimestamp (ev_eventTime e) \<and> isUtcIsoTimestamp dl
     \<and> instant (ev_eventTime e) \<le> instant dl
     \<and> truthy (lr_podId r)
     \<and> sealed_auth ctx = Some (SHIPPER_POD_REVIEW auth)
     \<and> sa_actionId auth = ev_actionId e \<and> sa_reviewAction auth = act
     \<and> lr_podId r = Some (sp_podId (sa_signPayload auth))
     \<and> sp_tenderId (sa_signPayload auth) = lr_tenderId r
     \<and> sp_tenderVersion (sa_signPayload auth) = lr_tenderVersion r"
  by (auto simp: shipper_review_checks_def res_simps truthy_def split: option.splits)

text \<open>What the reducer demands of a sealed shipper decision.\<close>

definition shipper_decision ::
  "auth_object option \<Rightarrow> LifecycleRecord \<Rightarrow> LifecycleEvent \<Rightarrow> ShipperReviewActionKind \<Rightarrow> bool" where
  "shipper_decision ctx r e act \<longleftrightarrow> (\<exists>auth dl.
     ctx = Some \<lparr> ao_sealed = True, ao_value = SHIPPER_POD_REVIEW auth \<rparr>
     \<and> sa_actionId auth = ev_actionId e \<and> sa_reviewAction auth = act
     \<and> lr_podId r = Some (sp_podId (sa_signPayload auth))
     \<and> sp_tenderId (sa_signPayload auth) = lr_tenderId r
     \<and> sp_tenderVersion (sa_signPayload auth) = lr_tenderVersion r
     \<and> lr_reviewDeadlineAt r = Some dl \<and> instant (ev_eventTime e) \<le> instant dl)"

definition referee_decision ::
  "auth_object option \<Rightarrow> LifecycleRecord \<Rightarrow> LifecycleEvent \<Rightarrow> LifecycleRecord \<Rightarrow> bool" where
  "referee_decision ctx r e r' \<longleftrightarrow> (\<exists>auth.
     ctx = Some \<lparr> ao_sealed = True, ao_value = REFEREE_RESOLUTION auth \<rparr>
     \<and> ra_actionId auth = ev_actionId e
     \<and> rp_tenderId (ra_signPayload auth) = lr_tenderId r
     \<and> rp_tenderVersion (ra_signPayload auth) = lr_tenderVersion r
     \<and> lr_refereeResolution r' = Some (ra_resolution auth)
     \<and> lr_releaseAmountAtomic r' = Some (ra_releaseAmountAtomic auth)
     \<and> lr_refundAmountAtomic r' = Some (ra_refundAmountAtomic auth)
     \<and> lr_refereeId r' = Some (ra_refereeId auth))"

definition review_timed_out :: "LifecycleRecord \<Rightarrow> LifecycleEvent \<Rightarrow> bool" where
  "review_timed_out r e \<longleftrightarrow> \<not> lr_shipperActionTaken r \<and>
     (\<exists>dl. lr_reviewDeadlineAt r = Some dl \<and> instant dl \<le> instant (ev_eventTime e))"

definition correction_timed_out :: "LifecycleRecord \<Rightarrow> LifecycleEvent \<Rightarrow> bool" where
  "correction_timed_out r e \<longleftrightarrow>
     (\<exists>dl. lr_correctionDeadlineAt r = Some dl \<and> instant dl \<le> instant (ev_eventTime e))"

text \<open>
  A tender leaves review or dispute only on the authority the state asks
  for: acceptance and correction need a sealed shipper decision of that kind for
  this action, tender and evidence, made before the review deadline; a dispute
  needs a sealed rejection or an expired correction deadline; deemed acceptance
  needs an expired review deadline and no earlier shipper action; a referee
  decision needs a sealed referee authorization whose amounts are the ones stored.
\<close>

theorem decisions_need_authority:
  assumes "reduceLifecycle h ctx r e = Inr r'" "lr_state r' \<noteq> lr_state r"
  shows "(lr_state r' = POD_ACCEPTED \<longrightarrow> shipper_decision ctx r e ACCEPT)
    \<and> (lr_state r' = POD_CORRECTION_REQUESTED \<longrightarrow> shipper_decision ctx r e REQUEST_CORRECTION)
    \<and> (lr_state r' = POD_DISPUTED \<longrightarrow>
         shipper_decision ctx r e REJECT_DISPUTE \<or> correction_timed_out r e)
    \<and> (lr_state r' = POD_DEEMED_ACCEPTED \<longrightarrow> review_timed_out r e)
    \<and> (lr_state r' = REFEREE_DECISION \<longrightarrow> referee_decision ctx r e r')"
proof -
  have "reduce_body h ctx r e = Inr r'" using assms by (simp add: reduceLifecycle_Inr_iff)
  thus ?thesis
    using assms(2)
    by (cases "ev_body e")
      (simp add: reduce_body_def handler_defs advisory_Inr_iff res_simps split: if_splits;
        (elim exE conjE disjE)?; hypsubst;
        (auto simp: shipper_decision_def referee_decision_def review_timed_out_def
          correction_timed_out_def sealed_auth_Some_iff truthy_def split: option.splits)?)+
qed

theorem decisions_need_authority_witness:
  "\<exists>r'. reduceLifecycle demo_sha (Some demo_accept_auth) demo_reviewing demo_accept = Inr r'
     \<and> lr_state r' = POD_ACCEPTED \<and> shipper_decision (Some demo_accept_auth) demo_reviewing demo_accept ACCEPT"
proof -
  have "bind_res (reduceLifecycle demo_sha (Some demo_accept_auth) demo_reviewing demo_accept)
      (\<lambda>r. Inr (lr_state r)) = Inr POD_ACCEPTED \<and> lr_state demo_reviewing = POD_UNDER_REVIEW"
    by code_simp
  then obtain r' where r: "reduceLifecycle demo_sha (Some demo_accept_auth) demo_reviewing demo_accept = Inr r'"
    "lr_state r' = POD_ACCEPTED" "lr_state r' \<noteq> lr_state demo_reviewing" by (auto simp: res_simps)
  thus ?thesis using decisions_need_authority [OF r(1,3)] by blast
qed

text \<open>
  The advisory report decides nothing: anchoring it leaves the state, every
  amount, every deadline and every authorization field of the record as it was;
  besides the bookkeeping only the report hash changes.
\<close>

theorem advisory_is_inert:
  assumes "ev_body e = POD_ADVISORY_ANCHORED rh b" "reduceLifecycle h ctx r e = Inr r'"
  shows "lr_state r' = lr_state r \<and> ledger_of r' = ledger_of r
    \<and> r' = r\<lparr> lr_advisoryReportHash := Some rh, lr_recordVersion := lr_recordVersion r',
             lr_updatedAt := lr_updatedAt r', lr_lastActionId := lr_lastActionId r',
             lr_history := lr_history r', lr_processedActions := lr_processedActions r' \<rparr>"
  using assms
  by (auto simp: reduceLifecycle_Inr_iff reduce_body_def advisory_Inr_iff stamp_def ledger_of_def)

theorem advisory_is_inert_witness:
  "\<exists>r'. reduceLifecycle demo_sha None demo_reviewing
       (ev ''a9'' ''2026-07-16T14:00:00Z'' (POD_ADVISORY_ANCHORED ''rep'' ''NON_BINDING_ADVISORY'')) = Inr r'
     \<and> lr_state r' = lr_state demo_reviewing \<and> ledger_of r' = ledger_of demo_reviewing"
proof -
  let ?e = "ev ''a9'' ''2026-07-16T14:00:00Z'' (POD_ADVISORY_ANCHORED ''rep'' ''NON_BINDING_ADVISORY'')"
  have "is_ok (reduceLifecycle demo_sha None demo_reviewing ?e)" by code_simp
  then obtain r' where "reduceLifecycle demo_sha None demo_reviewing ?e = Inr r'" by (auto simp: is_ok_iff)
  thus ?thesis using advisory_is_inert [of ?e] by (auto simp: ev_def)
qed

subsection \<open>Access payments\<close>

definition payment_ok :: "LifecycleRecord \<Rightarrow> LifecycleAccessPayment \<Rightarrow> bool" where
  "payment_ok r p \<longleftrightarrow>
     ap_asset p = ACCESS_FEE_TOKEN_ID \<and> ap_amountAtomic p = ''1000''
     \<and> ap_payTo p = ts_accessTreasuryAccountId (lr_trust r)
     \<and> (case ap_bidId p of
          None \<Rightarrow> ap_accessActionType p = ''TENDER_ACTIVATE''
            \<and> tenderActivateResource (lr_tenderId r) (lr_tenderVersion r) = Inr (ap_resource p)
        | Some b \<Rightarrow> ap_accessActionType p = ''BID_SUBMIT''
            \<and> bidSubmitResource (lr_tenderId r) (lr_tenderVersion r) b = Inr (ap_resource p))"

definition bid_key :: "LifecycleBidEntry \<Rightarrow> string option \<times> string \<times> string" where
  "bid_key b = (Some (be_bidId b), be_accessPaymentTxId b, be_actionId b)"

definition payment_key :: "LifecycleAccessPayment \<Rightarrow> string option \<times> string \<times> string" where
  "payment_key p = (ap_bidId p, ap_paymentTransactionId p, ap_actionId p)"

definition access_inv :: "LifecycleRecord \<Rightarrow> bool" where
  "access_inv r \<longleftrightarrow>
     list_all (payment_ok r) (lr_accessPayments r)
     \<and> distinct (map ap_paymentTransactionId (lr_accessPayments r))
     \<and> distinct (map be_bidId (lr_bidRegistry r))
     \<and> map bid_key (lr_bidRegistry r)
         = map payment_key (filter (\<lambda>p. ap_bidId p \<noteq> None) (lr_accessPayments r))
     \<and> list_all (\<lambda>b. instant (be_acceptedAt b) \<le> instant (lr_auctionEndsAt r)) (lr_bidRegistry r)"

lemma access_inv_same:
  assumes "access_inv r" "lr_accessPayments r' = lr_accessPayments r" "lr_bidRegistry r' = lr_bidRegistry r"
    "same_identity r r'"
  shows "access_inv r'"
  using assms by (auto simp: access_inv_def payment_ok_def same_identity_def list_all_iff split: option.splits)

text \<open>Only the activation and the bid submission touch the payment index.\<close>

lemma access_fields_unchanged:
  assumes "reduce_body h ctx r e = Inr r'"
  shows "(lr_accessPayments r' = lr_accessPayments r \<and> lr_bidRegistry r' = lr_bidRegistry r)
    \<or> (\<exists>p. ev_body e = TENDER_ACTIVATION_PAID p) \<or> (\<exists>p. ev_body e = BID_SUBMISSION_PAID p)"
  using assms
  by (cases "ev_body e")
    (simp add: reduce_body_def handler_defs advisory_Inr_iff res_simps split: if_splits;
      (elim exE conjE disjE)?; hypsubst; simp?)+

lemma access_inv_activation:
  assumes "on_tender_activation_paid h r e p = Inr r'" "access_inv r"
  shows "access_inv r'"
  using assms
  by (auto simp: on_tender_activation_paid_def res_simps access_inv_def payment_ok_def fee_value
      list_all_iff split: option.splits)

lemma access_inv_bid:
  assumes "on_bid_submission_paid h ctx r e p = Inr r'" "access_inv r"
  shows "access_inv r'"
  using assms
  by (auto simp: on_bid_submission_paid_def res_simps access_inv_def payment_ok_def fee_value
      list_all_iff list_ex_iff bid_entry_def bid_payment_def bid_key_def payment_key_def split: option.splits)

lemma reachable_access: "reachable h r \<Longrightarrow> access_inv r"
proof (induction rule: reachable.induct)
  case (created input r)
  thus ?case by (simp add: access_inv_def create_fields)
next
  case (reduced r ctx e r')
  have b: "reduce_body h ctx r e = Inr r'" using reduced.hyps(2) by (simp add: reduceLifecycle_Inr_iff)
  consider "lr_accessPayments r' = lr_accessPayments r \<and> lr_bidRegistry r' = lr_bidRegistry r"
    | p where "ev_body e = TENDER_ACTIVATION_PAID p" | p where "ev_body e = BID_SUBMISSION_PAID p"
    using access_fields_unchanged [OF b] by blast
  thus ?case
  proof cases
    case 1
    thus ?thesis
      using access_inv_same reduced.IH stamped_identity [OF reduce_stamped [OF reduced.hyps(2)]] by blast
  next
    case 2
    thus ?thesis using b reduced.IH access_inv_activation by (auto simp: reduce_body_def)
  next
    case 3
    thus ?thesis using b reduced.IH access_inv_bid by (auto simp: reduce_body_def)
  qed
qed

text \<open>
  Access payments.  In every reachable record each consumed settlement pays
  exactly the fee, in the fee token, to the tender's treasury, for the resource
  of this tender version (and this bid); no settlement transaction is used
  twice; bid ids are unique; the accepted bids are, in order, exactly the paid
  bid submissions; and no bid was accepted after the auction end.
\<close>

theorem reachable_access_payments:
  assumes "reachable h r"
  shows "list_all (payment_ok r) (lr_accessPayments r)
     \<and> distinct (map ap_paymentTransactionId (lr_accessPayments r))
     \<and> distinct (map be_bidId (lr_bidRegistry r))
     \<and> map bid_key (lr_bidRegistry r)
         = map payment_key (filter (\<lambda>p. ap_bidId p \<noteq> None) (lr_accessPayments r))
     \<and> list_all (\<lambda>b. instant (be_acceptedAt b) \<le> instant (lr_auctionEndsAt r)) (lr_bidRegistry r)"
  using reachable_access [OF assms] unfolding access_inv_def .

theorem reachable_access_payments_witness:
  "\<exists>r. reachable demo_sha r \<and> map ap_paymentTransactionId (lr_accessPayments r) = [''0.0.1@1.2'', ''0.0.500@2.2'']
     \<and> list_all (payment_ok r) (lr_accessPayments r)"
proof -
  obtain r where r: "reachable demo_sha r"
    "map ap_paymentTransactionId (lr_accessPayments r) = [''0.0.1@1.2'', ''0.0.500@2.2'']"
    using demo_reachable by (auto simp: outcome_def)
  thus ?thesis using reachable_access_payments [OF r(1)] by (intro exI [of _ r] conjI) simp_all
qed

lemma demo_sha_digest: "hex_digest demo_sha"
  by (simp add: hex_digest_def is_hex64_def demo_sha_def is_lower_hex_def is_digit_def list_all_iff)

subsection \<open>A silent shipper does not block the carrier\<close>

lemma format_not_Nil: "formatUtcFromEpochNanos n = Inr t \<Longrightarrow> t \<noteq> []"
  by (auto simp: formatUtcFromEpochNanos_def Let_def split: if_splits prod.splits)

lemma deadline_not_Nil:
  "computeReviewDeadline t = Inr d \<Longrightarrow> d \<noteq> []"
  "computePostResubmitReviewDeadline t = Inr d \<Longrightarrow> d \<noteq> []"
  using format_not_Nil
  by (auto simp: computeReviewDeadline_def computePostResubmitReviewDeadline_def addUtcSeconds_def
      res_simps split: if_splits)

definition review_inv :: "LifecycleRecord \<Rightarrow> bool" where
  "review_inv r \<longleftrightarrow>
     (lr_state r = POD_UNDER_REVIEW \<longrightarrow> \<not> lr_shipperActionTaken r \<and> truthy (lr_reviewDeadlineAt r))
     \<and> (lr_state r \<noteq> DRAFT \<longrightarrow> isUtcIsoTimestamp (lr_updatedAt r))"

lemma review_inv_body:
  assumes "reduce_body h ctx r e = Inr r'" "review_inv r" "isUtcIsoTimestamp (ev_eventTime e)"
  shows "review_inv r'"
  using assms
  by (cases "ev_body e")
    (simp add: reduce_body_def handler_defs advisory_Inr_iff res_simps split: if_splits;
      (elim exE conjE disjE)?; hypsubst;
      simp add: review_inv_def truthy_def deadline_not_Nil; fail)+

lemma reachable_review: "reachable h r \<Longrightarrow> review_inv r"
proof (induction rule: reachable.induct)
  case (created input r)
  thus ?case by (simp add: review_inv_def create_fields)
next
  case (reduced r ctx e r')
  thus ?case using review_inv_body by (auto simp: reduceLifecycle_Inr_iff)
qed

text \<open>
  C30. Liveness of settlement.  Once the review deadline of a reachable tender
  under review has passed, no shipper action is needed any more: the timeout
  event, the release of the locked amount and the completion are all accepted,
  one after the other, and the carrier has been paid the locked amount.
\<close>

theorem silent_shipper_is_settled:
  assumes "reachable h r" "lr_state r = POD_UNDER_REVIEW" "hex_digest h"
    and "lr_reviewDeadlineAt r = Some d" "isUtcIsoTimestamp d" "instant d \<le> instant t"
    and "isUtcIsoTimestamp t" "instant (lr_updatedAt r) \<le> instant t"
    and "list_all (\<lambda>a. a \<noteq> [] \<and> length a \<le> 128) [a1, a2, a3]" "tx \<noteq> []"
  shows "\<exists>l r'. lr_lockedAmountAtomic r = Some l
    \<and> run_events h r [(None, ev a1 t POD_REVIEW_DEADLINE_EXPIRED),
         (None, ev a2 t (ESCROW_RELEASE_CONFIRMED tx l)), (None, ev a3 t TENDER_COMPLETION_CONFIRMED)] = Inr r'
    \<and> lr_state r' = TENDER_COMPLETED \<and> paid (ledger_of r') = amount l \<and> held (ledger_of r') = 0"
proof -
  have rv: "\<not> lr_shipperActionTaken r" "truthy (lr_reviewDeadlineAt r)" "isUtcIsoTimestamp (lr_updatedAt r)"
    using reachable_review [OF assms(1)] assms(2) by (auto simp: review_inv_def)
  obtain l where l: "lr_lockedAmountAtomic r = Some l" "isPositiveAtomicString l"
    using reachable_funds [OF assms(1)] assms(2)
    by (auto simp: funds_inv_def allocated_def state_group_defs)
  have ln: "l \<noteq> []" using l(2) by (auto simp: isPositiveAtomicString_def)
  note hash = eventPayloadHash_ok [OF assms(3)]
  define e1 where "e1 = ev a1 t POD_REVIEW_DEADLINE_EXPIRED"
  define e2 where "e2 = ev a2 t (ESCROW_RELEASE_CONFIRMED tx l)"
  define e3 where "e3 = ev a3 t TENDER_COMPLETION_CONFIRMED"
  note ed = e1_def e2_def e3_def ev_def
  have id: "a1 \<noteq> []" "a2 \<noteq> []" "a3 \<noteq> []" "length a1 \<le> 128" "length a2 \<le> 128" "length a3 \<le> 128"
    using assms(9) by auto
  obtain r1 where r1: "reduceLifecycle h None r e1 = Inr r1" "lr_state r1 = POD_DEEMED_ACCEPTED"
    "lr_lockedAmountAtomic r1 = Some l" "lr_updatedAt r1 = t"
    using assms rv id hash l
    by (simp add: reduceLifecycle_Inr_iff reduce_body_def on_pod_review_deadline_expired_def res_simps ed
        isLegalTransition_def)
  obtain r2 where r2: "reduceLifecycle h None r1 e2 = Inr r2" "lr_state r2 = PAYMENT_RELEASED"
    "lr_releaseAmountAtomic r2 = Some l" "lr_updatedAt r2 = t"
    using assms id hash l ln r1
    by (simp add: reduceLifecycle_Inr_iff reduce_body_def on_escrow_release_confirmed_def res_simps ed
        isLegalTransition_def locked_or_winning_def truthy_def)
  obtain r3 where r3: "reduceLifecycle h None r2 e3 = Inr r3" "lr_state r3 = TENDER_COMPLETED"
    "lr_releaseAmountAtomic r3 = Some l"
    using assms id hash r2
    by (simp add: reduceLifecycle_Inr_iff reduce_body_def on_tender_completion_confirmed_def res_simps ed
        isLegalTransition_def)
  have "run_events h r [(None, e1), (None, e2), (None, e3)] = Inr r3" using r1 r2 r3 by simp
  thus ?thesis
    using l(1) r3 by (auto simp: e1_def e2_def e3_def ledger_of_def state_group_defs)
qed

lemma demo_review_reachable:
  "\<exists>r. reachable demo_sha r \<and> lr_state r = POD_UNDER_REVIEW
     \<and> lr_reviewDeadlineAt r = Some ''2026-07-18T09:00:00.000Z'' \<and> lr_updatedAt r = ''2026-07-16T09:00:00Z''
     \<and> lr_lockedAmountAtomic r = Some ''4000000''"
  using demo_delivery_eval run_reachable [OF created [OF demo_created]] by (fastforce simp: res_simps)

theorem silent_shipper_is_settled_witness:
  "\<exists>r r'. reachable demo_sha r \<and> lr_state r = POD_UNDER_REVIEW
     \<and> run_events demo_sha r [(None, ev ''x1'' ''2026-07-18T09:00:00Z'' POD_REVIEW_DEADLINE_EXPIRED),
          (None, ev ''x2'' ''2026-07-18T09:00:00Z'' (ESCROW_RELEASE_CONFIRMED ''tx'' ''4000000'')),
          (None, ev ''x3'' ''2026-07-18T09:00:00Z'' TENDER_COMPLETION_CONFIRMED)] = Inr r'
     \<and> paid (ledger_of r') = amount ''4000000''"
proof -
  obtain r where r: "reachable demo_sha r" "lr_state r = POD_UNDER_REVIEW"
    "lr_reviewDeadlineAt r = Some ''2026-07-18T09:00:00.000Z''" "lr_updatedAt r = ''2026-07-16T09:00:00Z''"
    "lr_lockedAmountAtomic r = Some ''4000000''"
    using demo_review_reachable by blast
  have t: "isUtcIsoTimestamp ''2026-07-18T09:00:00.000Z'' \<and> isUtcIsoTimestamp ''2026-07-18T09:00:00Z''
      \<and> instant ''2026-07-18T09:00:00.000Z'' \<le> instant ''2026-07-18T09:00:00Z''
      \<and> instant ''2026-07-16T09:00:00Z'' \<le> instant ''2026-07-18T09:00:00Z''"
    by code_simp
  show ?thesis
    using silent_shipper_is_settled [OF r(1,2) demo_sha_digest r(3), of "''2026-07-18T09:00:00Z''"
        "''x1''" "''x2''" "''x3''" "''tx''"] t r by auto
qed

end
