(* ===== verification/Record_Validator.thy ===== *)
theory Record_Validator
  imports Lifecycle_Authority
begin

text \<open>
  Full validation of a durable lifecycle record,
  \<^verbatim>\<open>src/v2/store/persisted-record.ts\<close>: field formats, the history and the
  processed-action index, the access settlements, and the cross-field
  requirements of every state.  Both stores run it on everything they write and
  read.

  The value is already a record of the model, so the checks of the source that
  only establish the TypeScript type (\<open>plainObject\<close>, key sets, \<open>typeof\<close>, known state
  and resolution names) hold by typing.  Every other check is kept, in the
  order of the source; \<open>checks\<close> runs a list of them and stops at the first that
  throws.  Most failures are \<open>CorruptLifecycleRecord\<close>; a foreign schema is
  \<open>UnsupportedStorageVersion\<close>, and deriving the canonical resource of a malformed
  bid id throws the error of the resource module.
\<close>

datatype store_error =
    CorruptLifecycleRecord
  | UnsupportedStorageVersion
  | VersionConflict int int
  | ImmutableField string
  | ActionConflict string
  | RecordNotFound string
  | AlreadyExists string
  | InvalidRecordVersion
  | ValidatorTime time_error
  | ValidatorResource resource_error
  | ValidatorFee amount_error
  | ValidatorHash canonical_error
  | ReducerError lifecycle_error
  | Unauthorized auth_error

subsection \<open>Requirements of the states\<close>

definition POST_FUNDING :: "V2LifecycleState set" where
  "POST_FUNDING =
     {ESCROW_FUNDED, TENDER_OPENED, BIDDING, AUCTION_CLOSED, NO_QUALIFIED_BID,
      WINNER_SELECTED, WINNING_AMOUNT_LOCKED, ROUTE_RESERVED, IN_TRANSIT, DELIVERY_REPORTED,
      POD_SUBMITTED, POD_UNDER_REVIEW, POD_CORRECTION_REQUESTED, POD_RESUBMITTED,
      POD_ACCEPTED, POD_DEEMED_ACCEPTED, POD_DISPUTED, REFEREE_DECISION, PAYMENT_RELEASED,
      PARTIAL_RELEASE, REFUNDED, TENDER_COMPLETED}"

definition POST_ACTIVATION :: "V2LifecycleState set" where
  "POST_ACTIVATION =
     {TENDER_OPENED, BIDDING, AUCTION_CLOSED, NO_QUALIFIED_BID, WINNER_SELECTED,
      WINNING_AMOUNT_LOCKED, ROUTE_RESERVED, IN_TRANSIT, DELIVERY_REPORTED, POD_SUBMITTED,
      POD_UNDER_REVIEW, POD_CORRECTION_REQUESTED, POD_RESUBMITTED, POD_ACCEPTED,
      POD_DEEMED_ACCEPTED, POD_DISPUTED, REFEREE_DECISION, PAYMENT_RELEASED,
      PARTIAL_RELEASE, REFUNDED, TENDER_COMPLETED}"

definition POST_AUCTION_CLOSE :: "V2LifecycleState set" where
  "POST_AUCTION_CLOSE =
     {AUCTION_CLOSED, NO_QUALIFIED_BID, WINNER_SELECTED, WINNING_AMOUNT_LOCKED,
      ROUTE_RESERVED, IN_TRANSIT, DELIVERY_REPORTED, POD_SUBMITTED, POD_UNDER_REVIEW,
      POD_CORRECTION_REQUESTED, POD_RESUBMITTED, POD_ACCEPTED, POD_DEEMED_ACCEPTED,
      POD_DISPUTED, REFEREE_DECISION, PAYMENT_RELEASED, PARTIAL_RELEASE, REFUNDED,
      TENDER_COMPLETED}"

definition BIDDING_REACHED :: "V2LifecycleState set" where
  "BIDDING_REACHED =
     {BIDDING, AUCTION_CLOSED, NO_QUALIFIED_BID, WINNER_SELECTED, WINNING_AMOUNT_LOCKED,
      ROUTE_RESERVED, IN_TRANSIT, DELIVERY_REPORTED, POD_SUBMITTED, POD_UNDER_REVIEW,
      POD_CORRECTION_REQUESTED, POD_RESUBMITTED, POD_ACCEPTED, POD_DEEMED_ACCEPTED,
      POD_DISPUTED, REFEREE_DECISION, PAYMENT_RELEASED, PARTIAL_RELEASE, REFUNDED,
      TENDER_COMPLETED}"

definition REQUIRES_WINNER :: "V2LifecycleState set" where
  "REQUIRES_WINNER =
     {WINNER_SELECTED, WINNING_AMOUNT_LOCKED, ROUTE_RESERVED, IN_TRANSIT, DELIVERY_REPORTED,
      POD_SUBMITTED, POD_UNDER_REVIEW, POD_CORRECTION_REQUESTED, POD_RESUBMITTED,
      POD_ACCEPTED, POD_DEEMED_ACCEPTED, POD_DISPUTED, REFEREE_DECISION, PARTIAL_RELEASE}"

definition REQUIRES_LOCK :: "V2LifecycleState set" where
  "REQUIRES_LOCK =
     {WINNING_AMOUNT_LOCKED, ROUTE_RESERVED, IN_TRANSIT, DELIVERY_REPORTED, POD_SUBMITTED,
      POD_UNDER_REVIEW, POD_CORRECTION_REQUESTED, POD_RESUBMITTED, POD_ACCEPTED,
      POD_DEEMED_ACCEPTED, POD_DISPUTED, REFEREE_DECISION, PARTIAL_RELEASE}"

definition REQUIRES_POD :: "V2LifecycleState set" where
  "REQUIRES_POD =
     {POD_SUBMITTED, POD_UNDER_REVIEW, POD_CORRECTION_REQUESTED, POD_RESUBMITTED,
      POD_ACCEPTED, POD_DEEMED_ACCEPTED, POD_DISPUTED, REFEREE_DECISION, PARTIAL_RELEASE}"

definition REQUIRES_REVIEW_WINDOW :: "V2LifecycleState set" where
  "REQUIRES_REVIEW_WINDOW =
     {POD_UNDER_REVIEW, POD_CORRECTION_REQUESTED, POD_RESUBMITTED, POD_ACCEPTED,
      POD_DEEMED_ACCEPTED, POD_DISPUTED}"

definition REQUIRES_CORRECTION_DEADLINE :: "V2LifecycleState set" where
  "REQUIRES_CORRECTION_DEADLINE =
     {POD_CORRECTION_REQUESTED, POD_RESUBMITTED}"

definition REQUIRES_DISPUTE :: "V2LifecycleState set" where
  "REQUIRES_DISPUTE =
     {POD_DISPUTED, REFEREE_DECISION, PARTIAL_RELEASE}"

definition REQUIRES_REFEREE_DECISION :: "V2LifecycleState set" where
  "REQUIRES_REFEREE_DECISION =
     {REFEREE_DECISION, PARTIAL_RELEASE}"

definition ALLOWS_REFEREE_DECISION :: "V2LifecycleState set" where
  "ALLOWS_REFEREE_DECISION =
     {REFEREE_DECISION, PAYMENT_RELEASED, PARTIAL_RELEASE, REFUNDED, TENDER_COMPLETED}"

definition ALLOWS_SETTLEMENT :: "V2LifecycleState set" where
  "ALLOWS_SETTLEMENT =
     {REFEREE_DECISION, PAYMENT_RELEASED, PARTIAL_RELEASE, REFUNDED, TENDER_COMPLETED}"

definition ALLOWS_SETTLEMENT_TX :: "V2LifecycleState set" where
  "ALLOWS_SETTLEMENT_TX =
     {PAYMENT_RELEASED, PARTIAL_RELEASE, REFUNDED, TENDER_COMPLETED}"

subsection \<open>Primitive checks\<close>

definition MAX_STRING :: nat where "MAX_STRING = 512"
definition MAX_HISTORY :: nat where "MAX_HISTORY = 10000"

definition checks :: "(store_error + unit) list \<Rightarrow> store_error + unit" where
  "checks cs = all_res (\<lambda>c. c) cs"

definition fail_unless :: "bool \<Rightarrow> store_error + unit" where
  "fail_unless ok = (if ok then Inr () else Inl CorruptLifecycleRecord)"

definition when_some :: "('a \<Rightarrow> store_error + unit) \<Rightarrow> 'a option \<Rightarrow> store_error + unit" where
  "when_some f x = (case x of None \<Rightarrow> Inr () | Some v \<Rightarrow> f v)"

definition is_alnum :: "char \<Rightarrow> bool" where
  "is_alnum c \<longleftrightarrow> in_range (CHR ''a'') (CHR ''z'') c \<or> in_range (CHR ''A'') (CHR ''Z'') c \<or> is_digit c"

definition SAFE_TENDER_ID_RE :: "string \<Rightarrow> bool" where
  "SAFE_TENDER_ID_RE s =
     (case s of [] \<Rightarrow> False
      | c # cs \<Rightarrow> is_alnum c \<and> length cs \<le> 127
          \<and> list_all (\<lambda>d. is_alnum d \<or> d = CHR ''.'' \<or> d = CHR ''_'' \<or> d = CHR ''-'') cs)"

definition assertSafeTenderId :: "string \<Rightarrow> store_error + unit" where
  "assertSafeTenderId tenderId =
     fail_unless (\<not> (length tenderId = 0 \<or> length tenderId > 128 \<or> contains_dotdot tenderId
       \<or> \<not> SAFE_TENDER_ID_RE tenderId))"

definition str :: "nat \<Rightarrow> string \<Rightarrow> store_error + unit" where
  "str mx v = fail_unless (\<not> (length v = 0 \<or> length v > mx))"

definition nullableStr :: "nat \<Rightarrow> string option \<Rightarrow> store_error + unit" where
  "nullableStr mx v = when_some (str mx) v"

definition safeInt :: "int \<Rightarrow> int \<Rightarrow> store_error + unit" where
  "safeInt v mn = fail_unless (\<bar>v\<bar> \<le> max_safe_integer \<and> \<not> v < mn)"

definition hash_field :: "string \<Rightarrow> store_error + unit" where
  "hash_field v = fail_unless (is_sha256_hash v)"

definition nullableHash :: "string option \<Rightarrow> store_error + unit" where
  "nullableHash v = when_some hash_field v"

definition utc :: "string \<Rightarrow> store_error + unit" where
  "utc v = fail_unless (isUtcIsoTimestamp v)"

definition nullableUtc :: "string option \<Rightarrow> store_error + unit" where
  "nullableUtc v = when_some utc v"

definition nonNegAtomic :: "string \<Rightarrow> store_error + unit" where
  "nonNegAtomic v = fail_unless (isNonNegativeAtomicString v)"

definition nullableNonNegAtomic :: "string option \<Rightarrow> store_error + unit" where
  "nullableNonNegAtomic v = when_some nonNegAtomic v"

definition positiveAtomic :: "string \<Rightarrow> store_error + unit" where
  "positiveAtomic v = fail_unless (isPositiveAtomicString v)"

definition account :: "string \<Rightarrow> store_error + unit" where
  "account v = fail_unless (isValidHederaAccountId v)"

definition nullableFingerprint :: "string option \<Rightarrow> store_error + unit" where
  "nullableFingerprint v = when_some (\<lambda>f. fail_unless (is_hex64 f)) v"

definition requirePresent :: "'a option \<Rightarrow> store_error + unit" where
  "requirePresent v = fail_unless (v \<noteq> None)"

definition requireAbsent :: "'a option \<Rightarrow> store_error + unit" where
  "requireAbsent v = fail_unless (v = None)"

text \<open>\<open>if (compareUtc(a, b) > 0) fail\<close> and its strict variant.\<close>

definition not_after :: "string \<Rightarrow> string \<Rightarrow> store_error + unit" where
  "not_after a b = bind_res (map_err ValidatorTime (compareUtc a b)) (\<lambda>c. fail_unless (\<not> c > 0))"

definition strictly_before :: "string \<Rightarrow> string \<Rightarrow> store_error + unit" where
  "strictly_before a b = bind_res (map_err ValidatorTime (compareUtc a b)) (\<lambda>c. fail_unless (\<not> c \<ge> 0))"

text \<open>\<open>BigInt(value)\<close>, and a check that reads several of them.\<close>

definition big_of :: "string \<Rightarrow> store_error + int" where
  "big_of v = map_err ReducerError (big v)"

subsection \<open>Nested values\<close>

primrec validateReferees :: "TrustedRefereeEntry list \<Rightarrow> string list \<Rightarrow> store_error + unit" where
  "validateReferees [] seen = Inr ()"
| "validateReferees (r # rs) seen =
     checks [str 128 (te_refereeId r), str 256 (te_publicKey r),
       fail_unless (\<not> length (te_publicKey r) < 32),
       fail_unless (\<not> List.member seen (te_refereeId r)),
       validateReferees rs (te_refereeId r # seen)]"

definition validateTrustSnapshot :: "hash_fn \<Rightarrow> TrustPolicySnapshot \<Rightarrow> store_error + unit" where
  "validateTrustSnapshot sha256 t =
     checks [fail_unless (ts_schemaVersion t = TRUST_POLICY_SCHEMA),
       fail_unless (ts_signatureAlgorithm t = SIGNATURE_ALGORITHM_HIERO_ECDSA),
       str 256 (ts_shipperPublicKey t),
       fail_unless (\<not> (length (ts_shipperPublicKey t) < 32
         \<or> ts_shipperPublicKey t \<noteq> js_trim (ts_shipperPublicKey t))),
       str 64 (ts_shipperKeyFingerprint t),
       fail_unless (is_hex64 (ts_shipperKeyFingerprint t)),
       fail_unless (ts_shipperKeyFingerprint t = publicKeyFingerprint sha256 (ts_shipperPublicKey t)),
       account (ts_accessTreasuryAccountId t),
       fail_unless (\<not> length (ts_referees t) < 1),
       fail_unless (\<not> length (ts_referees t) > 64),
       validateReferees (ts_referees t) []]"

text \<open>The resource an access payment must name, re-derived from the record.\<close>

definition expected_resource :: "LifecycleRecord \<Rightarrow> LifecycleAccessPayment \<Rightarrow> resource_error + string" where
  "expected_resource r p =
     (if ap_accessActionType p = ''TENDER_ACTIVATE''
      then tenderActivateResource (lr_tenderId r) (lr_tenderVersion r)
      else bidSubmitResource (lr_tenderId r) (lr_tenderVersion r) (the (ap_bidId p)))"

definition validateAccessPayment ::
  "LifecycleRecord \<Rightarrow> string list \<Rightarrow> string list \<Rightarrow> LifecycleAccessPayment \<Rightarrow> store_error + unit" where
  "validateAccessPayment r seenActions seenTransactions p =
     checks [str 32 (ap_accessActionType p),
       fail_unless (\<not> (ap_accessActionType p \<noteq> ''TENDER_ACTIVATE'' \<and> ap_accessActionType p \<noteq> ''BID_SUBMIT'')),
       str 128 (ap_actionId p),
       fail_unless (\<not> List.member seenActions (ap_actionId p)),
       nullableStr 128 (ap_bidId p),
       fail_unless (\<not> (ap_accessActionType p = ''BID_SUBMIT'' \<and> ap_bidId p = None)),
       fail_unless (\<not> (ap_accessActionType p = ''TENDER_ACTIVATE'' \<and> ap_bidId p \<noteq> None)),
       fail_unless (ap_asset p = ACCESS_FEE_TOKEN_ID),
       bind_res (map_err ValidatorFee deriveAccessFeeAtomic) (\<lambda>fee. fail_unless (ap_amountAtomic p = fee)),
       bind_res (map_err ValidatorResource (expected_resource r p)) (\<lambda>res. fail_unless (ap_resource p = res)),
       fail_unless (ap_payTo p = ts_accessTreasuryAccountId (lr_trust r)),
       account (ap_payerAccount p),
       str 128 (ap_paymentTransactionId p),
       fail_unless (\<not> List.member seenTransactions (ap_paymentTransactionId p)),
       hash_field (ap_paymentPayloadHash p),
       utc (ap_settledAt p)]"

primrec access_payments_loop ::
  "LifecycleRecord \<Rightarrow> string list \<Rightarrow> string list \<Rightarrow> LifecycleAccessPayment list \<Rightarrow> store_error + unit" where
  "access_payments_loop r seenActions seenTransactions [] = Inr ()"
| "access_payments_loop r seenActions seenTransactions (p # ps) =
     bind_res (validateAccessPayment r seenActions seenTransactions p) (\<lambda>_.
       access_payments_loop r (ap_actionId p # seenActions) (ap_paymentTransactionId p # seenTransactions) ps)"

definition validateAccessPayments :: "LifecycleRecord \<Rightarrow> store_error + unit" where
  "validateAccessPayments r =
     checks [fail_unless (\<not> length (lr_accessPayments r) > MAX_HISTORY),
       access_payments_loop r [] [] (lr_accessPayments r)]"

primrec bid_registry_loop :: "string list \<Rightarrow> LifecycleBidEntry list \<Rightarrow> store_error + unit" where
  "bid_registry_loop seenBidIds [] = Inr ()"
| "bid_registry_loop seenBidIds (b # bs) =
     checks [str 128 (be_bidId b),
       fail_unless (\<not> List.member seenBidIds (be_bidId b)),
       str 128 (be_carrierId b),
       account (be_carrierAccountId b),
       hash_field (be_bidHash b),
       hash_field (be_signedBidEnvelopeHash b),
       hash_field (be_commitmentPayloadHash b),
       str 64 (be_carrierKeyFingerprint b),
       fail_unless (is_hex64 (be_carrierKeyFingerprint b)),
       hash_field (be_bidAuthPayloadHash b),
       str 128 (be_accessPaymentTxId b),
       str 128 (be_actionId b),
       utc (be_acceptedAt b),
       bid_registry_loop (be_bidId b # seenBidIds) bs]"

definition validateBidRegistry :: "LifecycleRecord \<Rightarrow> store_error + unit" where
  "validateBidRegistry r =
     checks [fail_unless (\<not> length (lr_bidRegistry r) > MAX_HISTORY),
       bid_registry_loop [] (lr_bidRegistry r)]"

definition validateAccessReceipt :: "LifecycleRecord \<Rightarrow> LifecycleAccessReceipt \<Rightarrow> store_error + unit" where
  "validateAccessReceipt r a =
     checks [fail_unless (ar_accessActionType a = ''TENDER_ACTIVATE''),
       fail_unless (ar_asset a = ACCESS_FEE_TOKEN_ID),
       bind_res (map_err ValidatorFee deriveAccessFeeAtomic) (\<lambda>fee. fail_unless (ar_amountAtomic a = fee)),
       bind_res (map_err ValidatorResource (tenderActivateResource (lr_tenderId r) (lr_tenderVersion r)))
         (\<lambda>res. fail_unless (ar_resource a = res)),
       fail_unless (ar_payTo a = ts_accessTreasuryAccountId (lr_trust r)),
       account (ar_payerAccount a),
       str 128 (ar_paymentTransactionId a),
       fail_unless (\<not> (lr_activationPaymentTxId r \<noteq> None
         \<and> lr_activationPaymentTxId r \<noteq> Some (ar_paymentTransactionId a))),
       hash_field (ar_paymentPayloadHash a),
       utc (ar_paidAt a)]"

definition validateTransition :: "LifecycleTransitionRecord \<Rightarrow> store_error + unit" where
  "validateTransition h =
     checks [str 64 (tr_eventType h),
       fail_unless (List.member LIFECYCLE_EVENT_TYPES (tr_eventType h)),
       str 128 (tr_actionId h),
       utc (tr_at h),
       when_some (str MAX_STRING) (tr_reason h)]"

definition validateProcessedAction ::
  "LifecycleRecord \<Rightarrow> string \<times> ProcessedActionRecord \<Rightarrow> store_error + unit" where
  "validateProcessedAction r ka =
     (case ka of (key, a) \<Rightarrow>
     checks [str 128 (pa2_actionId a),
       fail_unless (pa2_actionId a = key),
       str 64 (pa2_eventType a),
       fail_unless (List.member LIFECYCLE_EVENT_TYPES (pa2_eventType a)),
       hash_field (pa2_eventPayloadHash a),
       safeInt (pa2_recordVersionAfter a) 1,
       fail_unless (\<not> pa2_recordVersionAfter a > lr_recordVersion r),
       utc (pa2_at a)])"

subsection \<open>Header, history and action index\<close>

definition validate_header :: "LifecycleRecord \<Rightarrow> string \<Rightarrow> store_error + unit" where
  "validate_header r safeId =
     checks [(if lr_schemaVersion r \<noteq> LIFECYCLE_RECORD_SCHEMA then Inl UnsupportedStorageVersion else Inr ()),
       assertSafeTenderId (lr_tenderId r),
       fail_unless (lr_tenderId r = safeId),
       safeInt (lr_tenderVersion r) 1,
       hash_field (lr_tenderHash r),
       positiveAtomic (lr_maximumFreightBudgetAtomic r),
       utc (lr_auctionEndsAt r),
       safeInt (lr_recordVersion r) 1,
       utc (lr_createdAt r),
       utc (lr_updatedAt r),
       not_after (lr_createdAt r) (lr_updatedAt r),
       nullableStr 128 (lr_lastActionId r)]"

primrec history_times_loop ::
  "string \<Rightarrow> string option \<Rightarrow> LifecycleTransitionRecord list \<Rightarrow> store_error + unit" where
  "history_times_loop createdAt prev [] = Inr ()"
| "history_times_loop createdAt prev (h # hs) =
     checks [not_after createdAt (tr_at h),
       when_some (\<lambda>p. not_after p (tr_at h)) prev,
       history_times_loop createdAt (Some (tr_at h)) hs]"

definition validate_history :: "LifecycleRecord \<Rightarrow> store_error + unit" where
  "validate_history r =
     checks [fail_unless (\<not> length (lr_history r) > MAX_HISTORY),
       all_res validateTransition (lr_history r),
       history_times_loop (lr_createdAt r) None (lr_history r)]"

text \<open>
  The validated copy of the index is a plain object: assigning the key
  \<open>__proto__\<close> sets its prototype instead of an own property, and \<open>in\<close> also sees
  inherited names.
\<close>

definition OBJECT_PROTOTYPE_KEYS :: "string list" where
  "OBJECT_PROTOTYPE_KEYS =
     [''constructor'', ''__defineGetter__'', ''__defineSetter__'', ''hasOwnProperty'',
      ''__lookupGetter__'', ''__lookupSetter__'', ''isPrototypeOf'', ''propertyIsEnumerable'',
      ''toString'', ''valueOf'', ''__proto__'', ''toLocaleString'']"

definition PROCESSED_ACTION_KEYS :: "string list" where
  "PROCESSED_ACTION_KEYS =
     [''actionId'', ''eventType'', ''eventPayloadHash'', ''resultingState'', ''recordVersionAfter'', ''at'']"

definition own_actions :: "LifecycleRecord \<Rightarrow> (string \<times> ProcessedActionRecord) list" where
  "own_actions r = filter (\<lambda>ka. fst ka \<noteq> ''__proto__'') (lr_processedActions r)"

definition in_actions :: "LifecycleRecord \<Rightarrow> string \<Rightarrow> bool" where
  "in_actions r k \<longleftrightarrow>
     List.member (map fst (lr_processedActions r)) k \<or> List.member OBJECT_PROTOTYPE_KEYS k
     \<or> (List.member (map fst (lr_processedActions r)) ''__proto__'' \<and> List.member PROCESSED_ACTION_KEYS k)"

definition history_entry_processed :: "LifecycleRecord \<Rightarrow> LifecycleTransitionRecord \<Rightarrow> store_error + unit" where
  "history_entry_processed r entry =
     (case map_of (lr_processedActions r) (tr_actionId entry) of
        None \<Rightarrow> Inl CorruptLifecycleRecord
      | Some processed \<Rightarrow>
          checks [fail_unless (pa2_eventType processed = tr_eventType entry),
            fail_unless (pa2_resultingState processed = tr_to entry)])"

definition validate_actions :: "LifecycleRecord \<Rightarrow> store_error + unit" where
  "validate_actions r =
     checks [all_res (validateProcessedAction r) (lr_processedActions r),
       fail_unless (length (lr_history r) = length (own_actions r)),
       fail_unless (lr_recordVersion r = int (length (lr_history r)) + 1),
       (if lr_history r = [] then
          checks [fail_unless (lr_state r = DRAFT), fail_unless (lr_lastActionId r = None)]
        else
          checks [fail_unless (tr_to (last (lr_history r)) = lr_state r),
            fail_unless (tr_at (last (lr_history r)) = lr_updatedAt r),
            fail_unless (lr_lastActionId r = Some (tr_actionId (last (lr_history r)))),
            all_res (history_entry_processed r) (lr_history r)])]"

subsection \<open>Field formats\<close>

definition validate_formats :: "LifecycleRecord \<Rightarrow> store_error + unit" where
  "validate_formats r =
     checks [nullableStr 128 (lr_fundingTxId r),
       nullableNonNegAtomic (lr_fundedAmountAtomic r),
       nullableStr 128 (lr_activationPaymentTxId r),
       when_some (validateAccessReceipt r) (lr_accessReceipt r),
       validateAccessPayments r,
       validateBidRegistry r,
       nullableStr 256 (lr_closureProofRef r),
       nullableHash (lr_authoritativeBidSetHash r),
       nullableHash (lr_decisionManifestHash r),
       nullableStr 128 (lr_winningBidId r),
       nullableStr 128 (lr_winningCarrierId r),
       when_some account (lr_winningCarrierAccount r),
       nullableNonNegAtomic (lr_winningAmountAtomic r),
       nullableNonNegAtomic (lr_lockedAmountAtomic r),
       nullableNonNegAtomic (lr_excessRefundAtomic r),
       nullableStr 128 (lr_allocateTxId r),
       nullableStr 128 (lr_refundExcessTxId r),
       nullableStr 256 (lr_reservationEvidenceRef r),
       nullableStr 128 (lr_podId r),
       when_some (\<lambda>v. safeInt v 1) (lr_podVersion r),
       nullableHash (lr_podContentHash r),
       nullableHash (lr_podCiphertextHash r),
       nullableUtc (lr_reviewStartedAt r),
       nullableUtc (lr_reviewDeadlineAt r),
       nullableUtc (lr_correctionDeadlineAt r),
       nullableHash (lr_advisoryReportHash r),
       nullableStr 128 (lr_disputeId r),
       nullableHash (lr_lastShipperAuthPayloadHash r),
       nullableFingerprint (lr_lastShipperKeyFingerprint r),
       nullableNonNegAtomic (lr_releaseAmountAtomic r),
       nullableNonNegAtomic (lr_refundAmountAtomic r),
       nullableHash (lr_resolutionPayloadHash r),
       nullableStr 128 (lr_refereeId r),
       nullableFingerprint (lr_refereeKeyFingerprint r),
       nullableStr 128 (lr_releaseTxId r),
       nullableStr 128 (lr_refundTxId r)]"

subsection \<open>Cross-field requirements\<close>

definition cross_funding :: "LifecycleRecord \<Rightarrow> store_error + unit" where
  "cross_funding r =
     (if lr_state r \<in> POST_FUNDING then
        checks [requirePresent (lr_fundingTxId r), requirePresent (lr_fundedAmountAtomic r),
          fail_unless (lr_fundedAmountAtomic r = Some (lr_maximumFreightBudgetAtomic r))]
      else checks [requireAbsent (lr_fundingTxId r), requireAbsent (lr_fundedAmountAtomic r)])"

definition cross_activation :: "LifecycleRecord \<Rightarrow> store_error + unit" where
  "cross_activation r =
     (if lr_state r \<in> POST_ACTIVATION then
        checks [requirePresent (lr_activationPaymentTxId r), requirePresent (lr_accessReceipt r)]
      else checks [requireAbsent (lr_activationPaymentTxId r), requireAbsent (lr_accessReceipt r),
        fail_unless (\<not> length (lr_accessPayments r) > 0)])"

definition activationPayments :: "LifecycleRecord \<Rightarrow> LifecycleAccessPayment list" where
  "activationPayments r = filter (\<lambda>p. ap_accessActionType p = ''TENDER_ACTIVATE'') (lr_accessPayments r)"

text \<open>\<open>new Map(entries)\<close>: a later entry replaces an earlier one with the same bid id.\<close>

definition bidPayments :: "LifecycleRecord \<Rightarrow> (string \<times> LifecycleAccessPayment) list" where
  "bidPayments r = map (\<lambda>p. (the (ap_bidId p), p))
     (filter (\<lambda>p. ap_accessActionType p = ''BID_SUBMIT'') (lr_accessPayments r))"

definition bidPayments_get :: "LifecycleRecord \<Rightarrow> string \<Rightarrow> LifecycleAccessPayment option" where
  "bidPayments_get r k = map_of (rev (bidPayments r)) k"

definition bidPayments_size :: "LifecycleRecord \<Rightarrow> nat" where
  "bidPayments_size r = length (remdups (map fst (bidPayments r)))"

definition receipt_matches :: "LifecycleAccessPayment \<Rightarrow> LifecycleAccessReceipt \<Rightarrow> bool" where
  "receipt_matches p a \<longleftrightarrow>
     ap_paymentTransactionId p = ar_paymentTransactionId a
     \<and> ap_paymentPayloadHash p = ar_paymentPayloadHash a \<and> ap_payerAccount p = ar_payerAccount a
     \<and> ap_payTo p = ar_payTo a \<and> ap_resource p = ar_resource a
     \<and> ap_amountAtomic p = ar_amountAtomic a \<and> ap_asset p = ar_asset a"

definition bid_is_paid :: "LifecycleRecord \<Rightarrow> LifecycleBidEntry \<Rightarrow> store_error + unit" where
  "bid_is_paid r bid =
     (case bidPayments_get r (be_bidId bid) of
        None \<Rightarrow> Inl CorruptLifecycleRecord
      | Some payment \<Rightarrow>
          checks [fail_unless (ap_paymentTransactionId payment = be_accessPaymentTxId bid),
            fail_unless (ap_actionId payment = be_actionId bid),
            fail_unless (in_actions r (be_actionId bid))])"

definition cross_access_index :: "LifecycleRecord \<Rightarrow> store_error + unit" where
  "cross_access_index r =
     checks [(case lr_accessReceipt r of
          Some receipt \<Rightarrow>
            checks [fail_unless (length (activationPayments r) = 1),
              fail_unless (receipt_matches (hd (activationPayments r)) receipt)]
        | None \<Rightarrow> fail_unless (\<not> length (activationPayments r) > 0)),
       fail_unless (int (bidPayments_size r)
         = int (length (lr_accessPayments r)) - int (length (activationPayments r))),
       fail_unless (length (lr_bidRegistry r) = bidPayments_size r),
       all_res (bid_is_paid r) (lr_bidRegistry r),
       fail_unless (\<not> (length (lr_bidRegistry r) > 0 \<and> lr_state r \<notin> BIDDING_REACHED))]"

definition cross_award :: "LifecycleRecord \<Rightarrow> store_error + unit" where
  "cross_award r =
     checks [(if lr_state r \<in> POST_AUCTION_CLOSE then
          checks [requirePresent (lr_closureProofRef r), requirePresent (lr_authoritativeBidSetHash r)]
        else Inr ()),
       (if lr_state r \<in> REQUIRES_WINNER then
          checks [requirePresent (lr_winningBidId r), requirePresent (lr_winningCarrierId r),
            requirePresent (lr_winningCarrierAccount r), requirePresent (lr_winningAmountAtomic r),
            requirePresent (lr_decisionManifestHash r)]
        else Inr ()),
       when_some (\<lambda>w. bind_res (big_of w) (\<lambda>win.
         bind_res (big_of (lr_maximumFreightBudgetAtomic r)) (\<lambda>budget. fail_unless (\<not> win > budget))))
         (lr_winningAmountAtomic r)]"

definition cross_lock :: "LifecycleRecord \<Rightarrow> store_error + unit" where
  "cross_lock r =
     checks [(if lr_state r \<in> REQUIRES_LOCK then
          checks [requirePresent (lr_lockedAmountAtomic r), requirePresent (lr_excessRefundAtomic r),
            requirePresent (lr_allocateTxId r)]
        else if lr_state r \<notin> ALLOWS_SETTLEMENT_TX then requireAbsent (lr_lockedAmountAtomic r)
        else Inr ()),
       when_some (\<lambda>l.
         checks [bind_res (big_of l) (\<lambda>locked.
             bind_res (big_of (lr_maximumFreightBudgetAtomic r)) (\<lambda>budget. fail_unless (\<not> locked > budget))),
           fail_unless (\<not> (lr_winningAmountAtomic r \<noteq> None \<and> lr_winningAmountAtomic r \<noteq> Some l)),
           when_some (\<lambda>x. bind_res (big_of l) (\<lambda>locked. bind_res (big_of x) (\<lambda>excess.
               bind_res (big_of (lr_maximumFreightBudgetAtomic r)) (\<lambda>budget.
                 fail_unless (locked + excess = budget)))))
             (lr_excessRefundAtomic r)])
         (lr_lockedAmountAtomic r)]"

definition cross_pod :: "LifecycleRecord \<Rightarrow> store_error + unit" where
  "cross_pod r =
     checks [(if lr_state r \<in> REQUIRES_POD then
          checks [requirePresent (lr_podId r), requirePresent (lr_podVersion r),
            requirePresent (lr_podContentHash r), requirePresent (lr_podCiphertextHash r)]
        else Inr ()),
       (if lr_state r \<in> REQUIRES_REVIEW_WINDOW then
          checks [requirePresent (lr_reviewStartedAt r), requirePresent (lr_reviewDeadlineAt r),
            strictly_before (the (lr_reviewStartedAt r)) (the (lr_reviewDeadlineAt r))]
        else Inr ()),
       (if lr_state r \<in> REQUIRES_CORRECTION_DEADLINE then requirePresent (lr_correctionDeadlineAt r)
        else Inr ()),
       (if lr_state r \<in> REQUIRES_DISPUTE then requirePresent (lr_disputeId r) else Inr ())]"

definition cross_decision_absent :: "LifecycleRecord \<Rightarrow> store_error + unit" where
  "cross_decision_absent r =
     checks [(if lr_state r \<notin> ALLOWS_REFEREE_DECISION then
          checks [requireAbsent (lr_refereeResolution r), requireAbsent (lr_resolutionPayloadHash r),
            requireAbsent (lr_refereeId r), requireAbsent (lr_refereeKeyFingerprint r)]
        else Inr ()),
       (if lr_state r \<notin> ALLOWS_SETTLEMENT then
          checks [requireAbsent (lr_releaseAmountAtomic r), requireAbsent (lr_refundAmountAtomic r)]
        else Inr ()),
       (if lr_state r \<notin> ALLOWS_SETTLEMENT_TX then
          checks [requireAbsent (lr_releaseTxId r), requireAbsent (lr_refundTxId r)]
        else Inr ())]"

definition decision_conserves :: "LifecycleRecord \<Rightarrow> Resolution \<Rightarrow> store_error + unit" where
  "decision_conserves r q =
     bind_res (big_of (the (lr_releaseAmountAtomic r))) (\<lambda>rel.
     bind_res (big_of (the (lr_refundAmountAtomic r))) (\<lambda>ref.
     bind_res (big_of (the (lr_lockedAmountAtomic r))) (\<lambda>locked.
       checks [fail_unless (rel + ref = locked),
         fail_unless (\<not> (q = RELEASE_FULL \<and> ref \<noteq> 0)),
         fail_unless (\<not> (q = REFUND_FULL \<and> rel \<noteq> 0)),
         fail_unless (\<not> (q = PARTIAL \<and> rel = 0 \<and> ref = 0))])))"

definition cross_decision :: "LifecycleRecord \<Rightarrow> store_error + unit" where
  "cross_decision r =
     checks [(if lr_state r \<in> REQUIRES_REFEREE_DECISION then
          checks [requirePresent (lr_refereeResolution r), requirePresent (lr_resolutionPayloadHash r),
            requirePresent (lr_refereeId r), requirePresent (lr_refereeKeyFingerprint r)]
        else Inr ()),
       when_some (\<lambda>q.
         checks [requirePresent (lr_releaseAmountAtomic r), requirePresent (lr_refundAmountAtomic r),
           requirePresent (lr_lockedAmountAtomic r), decision_conserves r q,
           requirePresent (lr_disputeId r),
           fail_unless (\<not> (lr_refereeId r \<noteq> None
             \<and> \<not> list_ex (\<lambda>x. Some (te_refereeId x) = lr_refereeId r) (ts_referees (lr_trust r))))])
         (lr_refereeResolution r)]"

definition cross_settlement :: "LifecycleRecord \<Rightarrow> store_error + unit" where
  "cross_settlement r =
     checks [(if lr_state r = PAYMENT_RELEASED \<or> lr_state r = PARTIAL_RELEASE then
          checks [requirePresent (lr_releaseTxId r), requirePresent (lr_releaseAmountAtomic r),
            requirePresent (lr_lockedAmountAtomic r)]
        else Inr ()),
       (if lr_state r = PAYMENT_RELEASED then
          checks [fail_unless (lr_releaseAmountAtomic r = lr_lockedAmountAtomic r),
            fail_unless (lr_refundAmountAtomic r = Some ''0''),
            fail_unless (\<not> (lr_refereeResolution r \<noteq> None \<and> lr_refereeResolution r \<noteq> Some RELEASE_FULL))]
        else Inr ()),
       (if lr_state r = PARTIAL_RELEASE then
          checks [requirePresent (lr_refundTxId r),
            fail_unless (lr_refereeResolution r = Some PARTIAL),
            bind_res (big_of (the (lr_releaseAmountAtomic r))) (\<lambda>rel.
            bind_res (big_of (the (lr_refundAmountAtomic r))) (\<lambda>ref.
            bind_res (big_of (the (lr_lockedAmountAtomic r))) (\<lambda>locked. fail_unless (rel + ref = locked))))]
        else Inr ()),
       (if lr_state r = REFUNDED then
          checks [requirePresent (lr_refundTxId r), requirePresent (lr_refundAmountAtomic r),
            (if lr_refereeResolution r = None then
               checks [fail_unless (lr_lockedAmountAtomic r = None),
                 fail_unless (lr_refundAmountAtomic r = Some (lr_maximumFreightBudgetAtomic r))]
             else
               checks [fail_unless (lr_refereeResolution r = Some REFUND_FULL),
                 fail_unless (lr_refundAmountAtomic r = lr_lockedAmountAtomic r),
                 fail_unless (lr_releaseAmountAtomic r = Some ''0'')])]
        else Inr ()),
       fail_unless (\<not> (lr_state r = TENDER_COMPLETED \<and> lr_releaseTxId r = None \<and> lr_refundTxId r = None))]"

definition cross_field :: "LifecycleRecord \<Rightarrow> store_error + unit" where
  "cross_field r =
     checks [cross_funding r, cross_activation r, cross_access_index r, cross_award r, cross_lock r,
       cross_pod r, cross_decision_absent r, cross_decision r, cross_settlement r]"

subsection \<open>The validator\<close>

definition assertValidLifecycleRecord ::
  "hash_fn \<Rightarrow> LifecycleRecord \<Rightarrow> string \<Rightarrow> store_error + LifecycleRecord" where
  "assertValidLifecycleRecord sha256 r expectedTenderId =
     bind_res (checks [assertSafeTenderId expectedTenderId, validate_header r expectedTenderId,
       validate_history r, validate_actions r, validateTrustSnapshot sha256 (lr_trust r),
       validate_formats r, cross_field r]) (\<lambda>_. Inr r)"

end
