(* ===== verification/Record_Preservation.thy ===== *)
theory Record_Preservation
  imports Record_Validator
begin

text \<open>
  The reducer and the validator agree: an event that the reducer accepts on a
  valid record yields a valid record, provided the texts the event brings in fit
  the storage format.  The format conditions are \<open>storable\<close>; they are exactly the
  bounds the reducer does not check itself.
\<close>

subsection \<open>Successful checks\<close>

lemma checks_Nil [simp]: "checks [] = Inr ()"
  by (simp add: checks_def)

lemma checks_Cons_iff [res_simps]: "checks (c # cs) = Inr u \<longleftrightarrow> c = Inr () \<and> checks cs = Inr ()"
  by (simp add: checks_def res_simps)

lemma fail_unless_iff [res_simps]: "fail_unless ok = Inr u \<longleftrightarrow> ok"
  by (simp add: fail_unless_def)

lemma when_some_iff [res_simps]: "when_some f x = Inr u \<longleftrightarrow> pred_option (\<lambda>v. f v = Inr ()) x"
  by (cases x) (simp_all add: when_some_def)

lemma present_iff [res_simps]:
  "requirePresent v = Inr u \<longleftrightarrow> v \<noteq> None"
  "requireAbsent w = Inr u \<longleftrightarrow> w = None"
  by (simp_all add: requirePresent_def requireAbsent_def res_simps)

definition fits :: "nat \<Rightarrow> string \<Rightarrow> bool" where
  "fits mx v \<longleftrightarrow> v \<noteq> [] \<and> length v \<le> mx"

lemma field_iffs [res_simps]:
  "str mx v = Inr u \<longleftrightarrow> fits mx v"
  "safeInt n mn = Inr u \<longleftrightarrow> \<bar>n\<bar> \<le> max_safe_integer \<and> mn \<le> n"
  "hash_field v = Inr u \<longleftrightarrow> is_sha256_hash v"
  "utc v = Inr u \<longleftrightarrow> isUtcIsoTimestamp v"
  "nonNegAtomic v = Inr u \<longleftrightarrow> isNonNegativeAtomicString v"
  "positiveAtomic v = Inr u \<longleftrightarrow> isPositiveAtomicString v"
  "account v = Inr u \<longleftrightarrow> isValidHederaAccountId v"
  by (auto simp: str_def safeInt_def hash_field_def utc_def nonNegAtomic_def positiveAtomic_def
      account_def fits_def res_simps)

lemma nullable_iffs [res_simps]:
  "nullableStr mx x = Inr u \<longleftrightarrow> pred_option (fits mx) x"
  "nullableHash x = Inr u \<longleftrightarrow> pred_option is_sha256_hash x"
  "nullableUtc x = Inr u \<longleftrightarrow> pred_option isUtcIsoTimestamp x"
  "nullableNonNegAtomic x = Inr u \<longleftrightarrow> pred_option isNonNegativeAtomicString x"
  "nullableFingerprint x = Inr u \<longleftrightarrow> pred_option is_hex64 x"
  by (simp_all add: nullableStr_def nullableHash_def nullableUtc_def nullableNonNegAtomic_def
      nullableFingerprint_def res_simps)

lemma time_check_iffs [res_simps]:
  "not_after a b = Inr u \<longleftrightarrow> isUtcIsoTimestamp a \<and> isUtcIsoTimestamp b \<and> instant a \<le> instant b"
  "strictly_before a b = Inr u \<longleftrightarrow> isUtcIsoTimestamp a \<and> isUtcIsoTimestamp b \<and> instant a < instant b"
  by (auto simp: not_after_def strictly_before_def res_simps compareUtc_Inr_iff sgn_if)

lemma big_of_iff [res_simps]: "big_of v = Inr n \<longleftrightarrow> js_bigint v = Some n"
  by (simp add: big_of_def res_simps)

lemma valid_iff:
  "assertValidLifecycleRecord h r t = Inr r' \<longleftrightarrow> r' = r
     \<and> assertSafeTenderId t = Inr () \<and> validate_header r t = Inr () \<and> validate_history r = Inr ()
     \<and> validate_actions r = Inr () \<and> validateTrustSnapshot h (lr_trust r) = Inr ()
     \<and> validate_formats r = Inr () \<and> cross_field r = Inr ()"
  by (auto simp: assertValidLifecycleRecord_def res_simps)

subsection \<open>Format conditions on an event\<close>

primrec storable_body :: "event_body \<Rightarrow> bool" where
  "storable_body (ESCROW_FUNDING_CONFIRMED p) \<longleftrightarrow> fits 128 (ef_fundingTxId p)"
| "storable_body (TENDER_ACTIVATION_PAID p) \<longleftrightarrow>
     fits 128 (ta_paymentTransactionId p) \<and> is_sha256_hash (ta_paymentPayloadHash p)"
| "storable_body BIDDING_STARTED \<longleftrightarrow> True"
| "storable_body (BID_SUBMISSION_PAID p) \<longleftrightarrow>
     fits 128 (bs_bidId p) \<and> fits 128 (bs_carrierId p) \<and> is_sha256_hash (bs_bidHash p)
     \<and> is_sha256_hash (bs_signedBidEnvelopeHash p) \<and> is_sha256_hash (bs_commitmentPayloadHash p)
     \<and> fits 128 (bs_paymentTransactionId p) \<and> is_sha256_hash (bs_paymentPayloadHash p)"
| "storable_body (AUCTION_CLOSE_CONFIRMED p) \<longleftrightarrow>
     fits 256 (ac_closureProofRef p) \<and> is_sha256_hash (ac_authoritativeBidSetHash p)"
| "storable_body (NO_QUALIFIED_BID_CONFIRMED m) \<longleftrightarrow> is_sha256_hash m"
| "storable_body (WINNER_SELECTION_CONFIRMED p) \<longleftrightarrow>
     is_sha256_hash (ws_decisionManifestHash p) \<and> fits 128 (ws_winningBidId p)
     \<and> fits 128 (ws_winningCarrierId p) \<and> isValidHederaAccountId (ws_winningCarrierAccount p)"
| "storable_body (WINNING_AMOUNT_ALLOCATION_CONFIRMED p) \<longleftrightarrow>
     fits 128 (wa_allocateTxId p) \<and> is_sha256_hash (wa_decisionManifestHash p)
     \<and> pred_option (fits 128) (wa_refundExcessTxId p)"
| "storable_body (ROUTE_RESERVATION_PUBLISHED e p) \<longleftrightarrow> fits 256 e"
| "storable_body TRANSIT_STARTED \<longleftrightarrow> True"
| "storable_body DELIVERY_REPORTED_EVENT \<longleftrightarrow> True"
| "storable_body (POD_PACKAGE_SUBMITTED p) \<longleftrightarrow>
     fits 128 (pk_podId p) \<and> is_sha256_hash (pk_contentHash p) \<and> is_sha256_hash (pk_ciphertextHash p)"
| "storable_body POD_REVIEW_STARTED \<longleftrightarrow> True"
| "storable_body (POD_CORRECTION_REQUESTED_EVENT p) \<longleftrightarrow> True"
| "storable_body (POD_PACKAGE_RESUBMITTED p) \<longleftrightarrow>
     fits 128 (pk_podId p) \<and> is_sha256_hash (pk_contentHash p) \<and> is_sha256_hash (pk_ciphertextHash p)
     \<and> pk_podVersion p \<le> max_safe_integer"
| "storable_body (POD_ACCEPTED_BY_SHIPPER sg t d) \<longleftrightarrow> True"
| "storable_body POD_REVIEW_DEADLINE_EXPIRED \<longleftrightarrow> True"
| "storable_body POD_CORRECTION_DEADLINE_EXPIRED \<longleftrightarrow> True"
| "storable_body (POD_REJECTED_TO_DISPUTE p d) \<longleftrightarrow> fits 128 d"
| "storable_body (REFEREE_RESOLUTION_RECORDED p) \<longleftrightarrow> fits 128 (rr_disputeId p) \<and> fits 128 (rr_refereeId p)"
| "storable_body (ESCROW_RELEASE_CONFIRMED t a) \<longleftrightarrow> fits 128 t"
| "storable_body (ESCROW_PARTIAL_RELEASE_CONFIRMED p) \<longleftrightarrow>
     fits 128 (ep_releaseTxId p) \<and> fits 128 (ep_refundTxId p)"
| "storable_body (ESCROW_REFUND_CONFIRMED t a) \<longleftrightarrow> fits 128 t"
| "storable_body TENDER_COMPLETION_CONFIRMED \<longleftrightarrow> True"
| "storable_body (POD_ADVISORY_ANCHORED rh b) \<longleftrightarrow> is_sha256_hash rh"

text \<open>
  The conditions that involve the record: room in the bounded lists, a fresh
  action id, a derived dispute id that still fits, a referee of the tender's
  registry, and deadlines before year 10000.
\<close>

definition storable :: "LifecycleRecord \<Rightarrow> LifecycleEvent \<Rightarrow> bool" where
  "storable r e \<longleftrightarrow>
     storable_body (ev_body e)
     \<and> fits 128 (ev_actionId e) \<and> ev_actionId e \<noteq> ''__proto__''
     \<and> \<not> List.member (map fst (lr_processedActions r)) (ev_actionId e)
     \<and> length (lr_history r) < MAX_HISTORY \<and> length (lr_accessPayments r) < MAX_HISTORY
     \<and> instant (ev_eventTime e) + REVIEW_WINDOW_SECONDS * NANOS_PER_SECOND
         < 253402300800 * NANOS_PER_SECOND
     \<and> (ev_body e = POD_CORRECTION_DEADLINE_EXPIRED \<longrightarrow> length (ev_actionId e) \<le> 112)
     \<and> (case ev_body e of
          REFEREE_RESOLUTION_RECORDED p \<Rightarrow>
            list_ex (\<lambda>x. te_refereeId x = rr_refereeId p) (ts_referees (lr_trust r))
        | _ \<Rightarrow> True)"

text \<open>What every authorization the verification module seals satisfies.\<close>

definition auth_formats :: "auth_object option \<Rightarrow> bool" where
  "auth_formats ctx \<longleftrightarrow>
     (case ctx of None \<Rightarrow> True
      | Some a \<Rightarrow> (case ao_value a of
          SHIPPER_POD_REVIEW s \<Rightarrow> is_sha256_hash (sa_payloadHash s) \<and> is_hex64 (sa_trustedKeyFingerprint s)
        | REFEREE_RESOLUTION s \<Rightarrow> is_sha256_hash (ra_payloadHash s) \<and> is_hex64 (ra_trustedKeyFingerprint s)
        | CARRIER_BID s \<Rightarrow> is_sha256_hash (ca_payloadHash s) \<and> is_hex64 (ca_trustedKeyFingerprint s)
        | CARRIER_POD_SUBMISSION s \<Rightarrow> True))"

lemma auth_formatsD:
  assumes "auth_formats ctx"
  shows "sealed_auth ctx = Some (SHIPPER_POD_REVIEW s) \<Longrightarrow>
      is_sha256_hash (sa_payloadHash s) \<and> is_hex64 (sa_trustedKeyFingerprint s)"
    "sealed_auth ctx = Some (REFEREE_RESOLUTION q) \<Longrightarrow>
      is_sha256_hash (ra_payloadHash q) \<and> is_hex64 (ra_trustedKeyFingerprint q)"
    "sealed_auth ctx = Some (CARRIER_BID b) \<Longrightarrow>
      is_sha256_hash (ca_payloadHash b) \<and> is_hex64 (ca_trustedKeyFingerprint b)"
  using assms by (auto simp: auth_formats_def sealed_auth_Some_iff)

subsection \<open>Header, history and action index\<close>

lemma header_preserved:
  assumes "reduceLifecycle h ctx r e = Inr r'" "validate_header r t = Inr ()" "storable r e"
    "lr_recordVersion r = int (length (lr_history r)) + 1"
  shows "validate_header r' t = Inr ()"
proof -
  note s = reduce_stamped [OF assms(1)]
  have i: "same_identity r r'" and v: "lr_recordVersion r' = lr_recordVersion r + 1"
    using stamped_identity [OF s] stamped_version [OF s] by auto
  have u: "lr_updatedAt r' = ev_eventTime e" "lr_lastActionId r' = Some (ev_actionId e)"
    using s by (auto simp: stamped_def)
  have m: "isUtcIsoTimestamp (ev_eventTime e)" "instant (lr_updatedAt r) \<le> instant (ev_eventTime e)"
    using assms(1) by (auto simp: reduceLifecycle_Inr_iff)
  show ?thesis
    using assms(2-4) i v u m
    by (auto simp: validate_header_def res_simps same_identity_def storable_def fits_def
        max_safe_integer_def MAX_HISTORY_def)
qed

lemma history_times_append:
  "history_times_loop c p (xs @ [x]) = Inr () \<longleftrightarrow>
     history_times_loop c p xs = Inr () \<and> not_after c (tr_at x) = Inr ()
     \<and> when_some (\<lambda>q. not_after q (tr_at x)) (if xs = [] then p else Some (tr_at (last xs))) = Inr ()"
  by (induction xs arbitrary: p) (auto simp: res_simps)

lemma event_type_known: "event_type b \<in> set LIFECYCLE_EVENT_TYPES"
  by (cases b) (simp_all add: LIFECYCLE_EVENT_TYPES_def)

lemma event_type_short: "fits 64 (event_type b)"
  by (cases b) (simp_all add: fits_def)

lemma reason_fits:
  assumes "reduce_body h ctx r e = Inr r'" "x = last (lr_history r')" "tr_reason x = Some w"
  shows "w \<noteq> [] \<and> length w \<le> 512"
  using assms
  by (cases "ev_body e")
    (simp add: reduce_body_def handler_defs advisory_Inr_iff res_simps split: if_splits;
      (elim exE conjE disjE)?; hypsubst; auto simp: appendHistory_def truthy_def split: if_splits)+

lemma history_preserved:
  assumes "reduceLifecycle h ctx r e = Inr r'" "validate_history r = Inr ()" "storable r e"
    "validate_header r t = Inr ()" "validate_actions r = Inr ()"
  shows "validate_history r' = Inr ()"
proof -
  note s = reduce_stamped [OF assms(1)]
  obtain w where h: "lr_history r' = lr_history r @ [\<lparr> tr_from = lr_state r, tr_to = lr_state r',
    tr_eventType = event_type (ev_body e), tr_actionId = ev_actionId e, tr_at = ev_eventTime e, tr_reason = w \<rparr>]"
    using stamped_history [OF s] by blast
  have c: "lr_createdAt r' = lr_createdAt r" using stamped_identity [OF s] by (simp add: same_identity_def)
  have m: "isUtcIsoTimestamp (ev_eventTime e)" "instant (lr_updatedAt r) \<le> instant (ev_eventTime e)"
    and b: "reduce_body h ctx r e = Inr r'"
    using assms(1) by (auto simp: reduceLifecycle_Inr_iff)
  have w: "pred_option (fits 512) w" using reason_fits [OF b refl] h by (cases w) (auto simp: fits_def)
  have "lr_history r \<noteq> [] \<Longrightarrow> tr_at (last (lr_history r)) = lr_updatedAt r"
    using assms(5) by (auto simp: validate_actions_def res_simps)
  moreover have "isUtcIsoTimestamp (lr_createdAt r)" "instant (lr_createdAt r) \<le> instant (lr_updatedAt r)"
    "isUtcIsoTimestamp (lr_updatedAt r)"
    using assms(4) by (auto simp: validate_header_def res_simps)
  ultimately show ?thesis
    using assms(2,3) m w event_type_known event_type_short
    by (auto simp: validate_history_def h c history_times_append res_simps all_res_Inr_iff
        validateTransition_def storable_def MAX_STRING_def)
qed

lemma map_of_fresh: "k \<notin> fst ` set xs \<Longrightarrow> AList.update k v xs = xs @ [(k, v)]"
  by (induction xs) auto

lemma actions_preserved:
  assumes "reduceLifecycle h ctx r e = Inr r'" "validate_actions r = Inr ()" "storable r e"
    "validate_header r t = Inr ()"
  shows "validate_actions r' = Inr ()"
proof -
  note s = reduce_stamped [OF assms(1)]
  obtain w where h: "lr_history r' = lr_history r @ [\<lparr> tr_from = lr_state r, tr_to = lr_state r',
    tr_eventType = event_type (ev_body e), tr_actionId = ev_actionId e, tr_at = ev_eventTime e, tr_reason = w \<rparr>]"
    using stamped_history [OF s] by blast
  obtain ph where ph: "eventPayloadHash h e = Inr ph"
    "lr_processedActions r' = AList.update (ev_actionId e)
       (processed_entry e ph (lr_state r') (lr_recordVersion r')) (lr_processedActions r)"
    "lr_recordVersion r' = lr_recordVersion r + 1"
    "lr_updatedAt r' = ev_eventTime e" "lr_lastActionId r' = Some (ev_actionId e)"
    using s by (auto simp: stamped_def)
  have fresh: "ev_actionId e \<notin> fst ` set (lr_processedActions r)" "ev_actionId e \<noteq> ''__proto__''"
    "fits 128 (ev_actionId e)" "length (lr_history r) < MAX_HISTORY"
    using assms(3) by (auto simp: storable_def)
  have p: "lr_processedActions r' = lr_processedActions r
      @ [(ev_actionId e, processed_entry e ph (lr_state r') (lr_recordVersion r'))]"
    using ph(2) map_of_fresh [OF fresh(1)] by simp
  have hs: "is_sha256_hash ph"
    using ph(1) canonicalSha256_format by (auto simp: eventPayloadHash_def res_simps)
  have u: "isUtcIsoTimestamp (ev_eventTime e)" using assms(1) by (auto simp: reduceLifecycle_Inr_iff)
  have v: "lr_recordVersion r = int (length (lr_history r)) + 1"
    "length (lr_history r) = length (own_actions r)"
    using assms(2) by (auto simp: validate_actions_def res_simps)
  have old: "all_res (validateProcessedAction r') (lr_processedActions r) = Inr ()"
    using assms(2) ph(3)
    by (fastforce simp: validate_actions_def all_res_Inr_iff validateProcessedAction_def res_simps)
  have new: "validateProcessedAction r' (ev_actionId e, processed_entry e ph (lr_state r') (lr_recordVersion r'))
      = Inr ()"
    using hs u fresh ph(3) v event_type_known event_type_short
    by (auto simp: validateProcessedAction_def res_simps processed_entry_def max_safe_integer_def
        MAX_HISTORY_def)
  have "all_res (history_entry_processed r) (lr_history r) = Inr ()"
    using assms(2) by (auto simp: validate_actions_def res_simps split: if_splits)
  hence hist: "all_res (history_entry_processed r') (lr_history r) = Inr ()"
    using fresh(1)
    by (auto simp: all_res_Inr_iff history_entry_processed_def p map_add_def split: option.splits)
  have "map_of (lr_processedActions r) (ev_actionId e) = None" using fresh(1) by (simp add: map_of_eq_None_iff)
  hence hnew: "history_entry_processed r' (last (lr_history r')) = Inr ()"
    by (simp add: h history_entry_processed_def p map_add_def res_simps processed_entry_def)
  show ?thesis
    using old new hist hnew v ph(3-5) fresh(2)
    by (simp add: validate_actions_def res_simps h own_actions_def p all_res_Inr_iff)
qed

subsection \<open>Scalar fields\<close>

definition scalar_formats :: "LifecycleRecord \<Rightarrow> bool" where
  "scalar_formats r \<longleftrightarrow>
     pred_option (fits 128) (lr_fundingTxId r)
     \<and> pred_option isNonNegativeAtomicString (lr_fundedAmountAtomic r)
     \<and> pred_option (fits 128) (lr_activationPaymentTxId r)
     \<and> pred_option (fits 256) (lr_closureProofRef r)
     \<and> pred_option is_sha256_hash (lr_authoritativeBidSetHash r)
     \<and> pred_option is_sha256_hash (lr_decisionManifestHash r)
     \<and> pred_option (fits 128) (lr_winningBidId r)
     \<and> pred_option (fits 128) (lr_winningCarrierId r)
     \<and> pred_option isValidHederaAccountId (lr_winningCarrierAccount r)
     \<and> pred_option isNonNegativeAtomicString (lr_winningAmountAtomic r)
     \<and> pred_option isNonNegativeAtomicString (lr_lockedAmountAtomic r)
     \<and> pred_option isNonNegativeAtomicString (lr_excessRefundAtomic r)
     \<and> pred_option (fits 128) (lr_allocateTxId r)
     \<and> pred_option (fits 128) (lr_refundExcessTxId r)
     \<and> pred_option (fits 256) (lr_reservationEvidenceRef r)
     \<and> pred_option (fits 128) (lr_podId r)
     \<and> pred_option (\<lambda>v. 1 \<le> v \<and> v \<le> max_safe_integer) (lr_podVersion r)
     \<and> pred_option is_sha256_hash (lr_podContentHash r)
     \<and> pred_option is_sha256_hash (lr_podCiphertextHash r)
     \<and> pred_option isUtcIsoTimestamp (lr_reviewStartedAt r)
     \<and> pred_option isUtcIsoTimestamp (lr_reviewDeadlineAt r)
     \<and> pred_option isUtcIsoTimestamp (lr_correctionDeadlineAt r)
     \<and> pred_option is_sha256_hash (lr_advisoryReportHash r)
     \<and> pred_option (fits 128) (lr_disputeId r)
     \<and> pred_option is_sha256_hash (lr_lastShipperAuthPayloadHash r)
     \<and> pred_option is_hex64 (lr_lastShipperKeyFingerprint r)
     \<and> pred_option isNonNegativeAtomicString (lr_releaseAmountAtomic r)
     \<and> pred_option isNonNegativeAtomicString (lr_refundAmountAtomic r)
     \<and> pred_option is_sha256_hash (lr_resolutionPayloadHash r)
     \<and> pred_option (fits 128) (lr_refereeId r)
     \<and> pred_option is_hex64 (lr_refereeKeyFingerprint r)
     \<and> pred_option (fits 128) (lr_releaseTxId r)
     \<and> pred_option (fits 128) (lr_refundTxId r)"

lemma validate_formats_iff:
  "validate_formats r = Inr () \<longleftrightarrow> scalar_formats r
     \<and> when_some (validateAccessReceipt r) (lr_accessReceipt r) = Inr ()
     \<and> validateAccessPayments r = Inr () \<and> validateBidRegistry r = Inr ()"
proof -
  have "\<bar>v\<bar> \<le> max_safe_integer \<and> 1 \<le> v \<longleftrightarrow> 1 \<le> v \<and> v \<le> max_safe_integer" for v :: int by auto
  thus ?thesis
    unfolding validate_formats_def scalar_formats_def by (simp only: res_simps checks_Nil simp_thms conj_assoc) blast
qed

lemma deadline_is_utc:
  assumes "addUtcSeconds v n = Inr t"
    "instant v + n * NANOS_PER_SECOND < 253402300800 * NANOS_PER_SECOND"
  shows "isUtcIsoTimestamp t"
proof -
  obtain p where p: "parseUtcTimestamp v = Inr p"
    and f: "formatUtcFromEpochNanos (epochNanoseconds p + n * NANOS_PER_SECOND) = Inr t"
    using assms(1) by (auto simp: addUtcSeconds_def res_simps)
  have nn: "0 \<le> epochNanoseconds p + n * NANOS_PER_SECOND"
    using f by (auto simp: formatUtcFromEpochNanos_def split: if_splits)
  have "(epochNanoseconds p + n * NANOS_PER_SECOND) div 1000000000 < 253402300800"
    using assms(2) p by (auto simp: instant_def NANOS_PER_SECOND_def)
  thus ?thesis using format_parse [OF nn] f by (auto simp: isUtcIsoTimestamp_def)
qed

lemma storable_deadlines:
  assumes "storable r e"
  shows "computeReviewDeadline (ev_eventTime e) = Inr d \<Longrightarrow>
      isUtcIsoTimestamp d \<and> instant (ev_eventTime e) < instant d"
    "computePostResubmitReviewDeadline (ev_eventTime e) = Inr d \<Longrightarrow>
      isUtcIsoTimestamp d \<and> instant (ev_eventTime e) < instant d"
    "computeCorrectionDeadline (ev_eventTime e) = Inr d \<Longrightarrow> isUtcIsoTimestamp d"
proof -
  have b: "instant (ev_eventTime e) + 172800 * NANOS_PER_SECOND < 253402300800 * NANOS_PER_SECOND"
    using assms by (simp add: storable_def REVIEW_WINDOW_SECONDS_def)
  hence b': "instant (ev_eventTime e) + 86400 * NANOS_PER_SECOND < 253402300800 * NANOS_PER_SECOND"
    by (simp add: NANOS_PER_SECOND_def)
  show "computeReviewDeadline (ev_eventTime e) = Inr d \<Longrightarrow>
      isUtcIsoTimestamp d \<and> instant (ev_eventTime e) < instant d"
    using deadline_is_utc [OF _ b] addUtcSeconds_instant [OF _ _ b]
    by (fastforce simp: computeReviewDeadline_def REVIEW_WINDOW_SECONDS_def NANOS_PER_SECOND_def)
  show "computePostResubmitReviewDeadline (ev_eventTime e) = Inr d \<Longrightarrow>
      isUtcIsoTimestamp d \<and> instant (ev_eventTime e) < instant d"
    using deadline_is_utc [OF _ b'] addUtcSeconds_instant [OF _ _ b']
    by (fastforce simp: computePostResubmitReviewDeadline_def POST_RESUBMIT_REVIEW_WINDOW_SECONDS_def
        NANOS_PER_SECOND_def)
  show "computeCorrectionDeadline (ev_eventTime e) = Inr d \<Longrightarrow> isUtcIsoTimestamp d"
    using deadline_is_utc [OF _ b']
    by (simp add: computeCorrectionDeadline_def CORRECTION_WINDOW_SECONDS_def)
qed

lemma fits_Cons: "fits n (c # s) \<longleftrightarrow> length s < n"
  by (auto simp: fits_def)


lemma max_safe_pos: "1 \<le> max_safe_integer"
  by (simp add: max_safe_integer_def)

lemma review_started_iff:
  "on_pod_review_started h r e = Inr r' \<longleftrightarrow>
     (\<exists>d. (lr_state r = POD_SUBMITTED \<and> computeReviewDeadline (ev_eventTime e) = Inr d
           \<or> lr_state r = POD_RESUBMITTED \<and> computePostResubmitReviewDeadline (ev_eventTime e) = Inr d)
       \<and> withTransition h r POD_UNDER_REVIEW e
          (\<lambda>x. x\<lparr> lr_reviewStartedAt := Some (ev_eventTime e), lr_reviewDeadlineAt := Some d,
                 lr_shipperActionTaken := False, lr_correctionDeadlineAt := None \<rparr>) None = Inr r')"
  by (auto simp: on_pod_review_started_def bind_res_Inr_iff map_err_Inr_iff split: if_splits)

text \<open>Equations of a stored field, with the field on the left.\<close>

lemma field_eqs:
  "Some x = locked_or_winning r \<longleftrightarrow> locked_or_winning r = Some x"
  "Some x = lr_podId r \<longleftrightarrow> lr_podId r = Some x"
  "Some x = lr_winningAmountAtomic r \<longleftrightarrow> lr_winningAmountAtomic r = Some x"
  "Some x = lr_decisionManifestHash r \<longleftrightarrow> lr_decisionManifestHash r = Some x"
  "Some x = lr_releaseAmountAtomic r \<longleftrightarrow> lr_releaseAmountAtomic r = Some x"
  "Some x = lr_refundAmountAtomic r \<longleftrightarrow> lr_refundAmountAtomic r = Some x"
  "Some x = lr_lockedAmountAtomic r \<longleftrightarrow> lr_lockedAmountAtomic r = Some x"
  "Some x = lr_disputeId r \<longleftrightarrow> lr_disputeId r = Some x"
  by auto

lemmas step_defs = reduce_body_def advisory_Inr_iff review_started_iff field_eqs
  on_escrow_funding_confirmed_def on_tender_activation_paid_def on_bid_submission_paid_def
  on_bidding_started_def on_auction_close_confirmed_def on_no_qualified_bid_confirmed_def
  on_winner_selection_confirmed_def on_winning_amount_allocation_confirmed_def
  on_route_reservation_published_def on_transit_started_def on_delivery_reported_def
  on_pod_package_submitted_def on_pod_correction_requested_def
  on_pod_package_resubmitted_def on_pod_accepted_by_shipper_def on_pod_review_deadline_expired_def
  on_pod_correction_deadline_expired_def on_pod_rejected_to_dispute_def
  on_referee_resolution_recorded_def on_escrow_release_confirmed_def
  on_escrow_partial_release_confirmed_def on_escrow_refund_confirmed_def
  on_tender_completion_confirmed_def

lemma scalar_preserved:
  assumes "reduce_body h ctx r e = Inr r'" "scalar_formats r" "storable r e" "auth_formats ctx"
   "isUtcIsoTimestamp (ev_eventTime e)"
  shows "scalar_formats r'"
proof -
  have s: "storable_body (ev_body e)" "fits 128 (ev_actionId e)"
     "ev_body e = POD_CORRECTION_DEADLINE_EXPIRED \<longrightarrow> length (ev_actionId e) \<le> 112"
    using assms(3) by (auto simp: storable_def)
  note d = storable_deadlines [OF assms(3)] auth_formatsD [OF assms(4)]
  show ?thesis
  using assms(1,2,5) s
  by (cases "ev_body e")
    (simp add: step_defs res_simps split: if_splits;
      (elim exE conjE disjE)?; hypsubst;
      simp add: scalar_formats_def positive_is_nonNegative fits_Cons max_safe_pos d split: option.splits; fail)+
qed

end
