(* ===== verification/Record_Index.thy ===== *)
theory Record_Index
  imports Record_Preservation
begin

text \<open>
  The access-settlement index: what the loops of the validator check as plain
  predicates, the invariant that ties payments, receipt, bids and processed
  actions of a reachable record together, and that the index check of the
  validator accepts every such record.
\<close>

subsection \<open>The loops of the validator\<close>

lemma payment_check_iff:
  "validateAccessPayment r sa st p = Inr u \<longleftrightarrow> validateAccessPayment r [] [] p = Inr ()
     \<and> ap_actionId p \<notin> set sa \<and> ap_paymentTransactionId p \<notin> set st"
  unfolding validateAccessPayment_def by (auto simp: checks_Cons_iff fail_unless_iff)

lemma notin_map_iff: "f x \<notin> f ` set xs \<longleftrightarrow> (\<forall>y\<in>set xs. f y \<noteq> f x)"
  by (auto simp: image_iff eq_commute)

lemma payments_loop_iff:
  "access_payments_loop r sa st ps = Inr () \<longleftrightarrow>
     (\<forall>p\<in>set ps. validateAccessPayment r [] [] p = Inr () \<and> ap_actionId p \<notin> set sa
        \<and> ap_paymentTransactionId p \<notin> set st)
     \<and> distinct (map ap_actionId ps) \<and> distinct (map ap_paymentTransactionId ps)"
proof (induction ps arbitrary: sa st)
  case (Cons p ps)
  show ?case
    unfolding access_payments_loop.simps bind_res_Inr_iff payment_check_iff [of r sa st] Cons.IH
    by (auto simp: notin_map_iff)
qed simp

lemma bids_loop_Cons:
  "bid_registry_loop seen (b # bs) = Inr () \<longleftrightarrow>
     bid_registry_loop [] [b] = Inr () \<and> be_bidId b \<notin> set seen
     \<and> bid_registry_loop (be_bidId b # seen) bs = Inr ()"
  by (auto simp: checks_Cons_iff fail_unless_iff)

lemma bids_loop_iff:
  "bid_registry_loop seen bs = Inr () \<longleftrightarrow>
     (\<forall>b\<in>set bs. bid_registry_loop [] [b] = Inr () \<and> be_bidId b \<notin> set seen) \<and> distinct (map be_bidId bs)"
proof (induction bs arbitrary: seen)
  case (Cons b bs)
  show ?case unfolding bids_loop_Cons [of seen] Cons.IH
    by (auto simp: notin_map_iff simp del: bid_registry_loop.simps)
qed simp

lemma receipt_unchanged:
  assumes "reduce_body h ctx r e = Inr r'"
  shows "(lr_accessReceipt r' = lr_accessReceipt r \<and> lr_activationPaymentTxId r' = lr_activationPaymentTxId r)
    \<or> (\<exists>p. ev_body e = TENDER_ACTIVATION_PAID p)"
  using assms
  by (cases "ev_body e")
    (simp add: step_defs res_simps split: if_splits;
      (elim exE conjE disjE)?; hypsubst; simp; fail)+

lemma graph_closed:
  "list_all (\<lambda>s. list_all (\<lambda>t. (s \<in> BIDDING_REACHED \<longrightarrow> t \<in> BIDDING_REACHED)
     \<and> (s \<in> POST_ACTIVATION \<longrightarrow> t \<in> POST_ACTIVATION)) (LEGAL s)) V2_LIFECYCLE_STATES"
  by code_simp

lemma all_states: "s \<in> set V2_LIFECYCLE_STATES"
  by (cases s) (simp_all add: V2_LIFECYCLE_STATES_def)

lemma reached_closed:
  assumes "isLegalTransition s t"
  shows "s \<in> BIDDING_REACHED \<Longrightarrow> t \<in> BIDDING_REACHED" "s \<in> POST_ACTIVATION \<Longrightarrow> t \<in> POST_ACTIVATION"
  using assms graph_closed all_states [of s] unfolding isLegal_simps list_all_iff by blast+

definition receipt_inv :: "LifecycleRecord \<Rightarrow> bool" where
  "receipt_inv r \<longleftrightarrow>
     (case lr_accessReceipt r of
        None \<Rightarrow> activationPayments r = []
      | Some a \<Rightarrow> \<exists>p. activationPayments r = [p] \<and> receipt_matches p a)"

definition index_inv :: "LifecycleRecord \<Rightarrow> bool" where
  "index_inv r \<longleftrightarrow> receipt_inv r
     \<and> ap_actionId ` set (lr_accessPayments r) \<subseteq> fst ` set (lr_processedActions r)
     \<and> (lr_bidRegistry r \<noteq> [] \<longrightarrow> lr_state r \<in> BIDDING_REACHED)
     \<and> (lr_state r \<notin> POST_ACTIVATION \<longrightarrow> lr_accessPayments r = [] \<and> lr_accessReceipt r = None)"

lemma keys_update: "fst ` set (AList.update k v al) = insert k (fst ` set al)"
  using dom_update [of k v al] by (simp add: dom_map_of_conv_image_fst)

lemma stamped_keys:
  "stamped h r e r' \<Longrightarrow> fst ` set (lr_processedActions r') = insert (ev_actionId e) (fst ` set (lr_processedActions r))"
  unfolding stamped_def by (elim exE conjE) (simp add: keys_update)

lemma index_inv_same:
  assumes "index_inv r" "stamped h r e r'" "lr_accessPayments r' = lr_accessPayments r"
    "lr_bidRegistry r' = lr_bidRegistry r" "lr_accessReceipt r' = lr_accessReceipt r"
  shows "index_inv r'"
  using assms stamped_keys [OF assms(2)] reached_closed [OF stamped_legal [OF assms(2)]]
  by (auto simp: index_inv_def receipt_inv_def activationPayments_def split: option.splits)

lemma index_inv_activation:
  assumes "on_tender_activation_paid h r e p = Inr r'" "index_inv r"
  shows "index_inv r'"
  using assms
  by (auto simp: on_tender_activation_paid_def res_simps index_inv_def receipt_inv_def activationPayments_def
      receipt_matches_def keys_update POST_ACTIVATION_def BIDDING_REACHED_def split: option.splits)

lemma bid_step:
  assumes "on_bid_submission_paid h ctx r e p = Inr r'"
  shows "\<exists>ph auth. r' = stamp r BIDDING e None ph (r\<lparr> lr_bidRegistry := lr_bidRegistry r @ [bid_entry e p auth],
      lr_accessPayments := lr_accessPayments r @ [bid_payment e p] \<rparr>)
    \<and> lr_state r \<in> POST_ACTIVATION \<and> sealed_auth ctx = Some (CARRIER_BID auth)
    \<and> bidSubmitResource (lr_tenderId r) (lr_tenderVersion r) (bs_bidId p) = Inr (bs_resource p)"
  using assms unfolding on_bid_submission_paid_def
  apply (simp add: res_simps)
  apply (elim exE conjE)
  apply (intro exI conjI)
     apply assumption
    apply (erule disjE; simp add: POST_ACTIVATION_def)
   apply assumption
  apply simp
  done

lemma index_inv_bid:
  assumes "on_bid_submission_paid h ctx r e p = Inr r'" "index_inv r"
  shows "index_inv r'"
proof -
  obtain ph b where r': "r' = stamp r BIDDING e None ph (r\<lparr> lr_bidRegistry := lr_bidRegistry r @ [b],
      lr_accessPayments := lr_accessPayments r @ [bid_payment e p] \<rparr>)"
    and st: "lr_state r \<in> POST_ACTIVATION"
    using bid_step [OF assms(1)] by blast
  have "activationPayments r' = activationPayments r"
    by (simp add: r' activationPayments_def bid_payment_def)
  moreover have "lr_accessReceipt r' = lr_accessReceipt r" by (simp add: r')
  ultimately have rc: "receipt_inv r'" using assms(2) by (auto simp: index_inv_def receipt_inv_def split: option.splits)
  have "lr_state r' \<in> BIDDING_REACHED" "lr_state r' \<in> POST_ACTIVATION"
    by (simp_all add: r' BIDDING_REACHED_def POST_ACTIVATION_def)
  moreover have "ap_actionId ` set (lr_accessPayments r') \<subseteq> fst ` set (lr_processedActions r')"
    using assms(2) by (auto simp: index_inv_def r' bid_payment_def keys_update)
  ultimately show ?thesis using rc by (simp add: index_inv_def)
qed

lemma reachable_index: "reachable h r \<Longrightarrow> index_inv r"
proof (induction rule: reachable.induct)
  case (created input r)
  thus ?case
    by (auto simp: createLifecycleRecord_def Let_def index_inv_def receipt_inv_def activationPayments_def
        split: if_splits)
next
  case (reduced r ctx e r')
  note s = reduce_stamped [OF reduced.hyps(2)]
  have b: "reduce_body h ctx r e = Inr r'" using reduced.hyps(2) by (simp add: reduceLifecycle_Inr_iff)
  consider p where "ev_body e = TENDER_ACTIVATION_PAID p" | p where "ev_body e = BID_SUBMISSION_PAID p"
    | "lr_accessPayments r' = lr_accessPayments r" "lr_bidRegistry r' = lr_bidRegistry r"
      "lr_accessReceipt r' = lr_accessReceipt r"
    using access_fields_unchanged [OF b] receipt_unchanged [OF b] by blast
  thus ?case
  proof cases
    case 1
    thus ?thesis using b reduced.IH index_inv_activation by (auto simp: reduce_body_def)
  next
    case 2
    thus ?thesis using b reduced.IH index_inv_bid by (auto simp: reduce_body_def)
  next
    case 3
    thus ?thesis using index_inv_same [OF reduced.IH s] by blast
  qed
qed


text \<open>The paid bids are the accepted bids, in order.\<close>

lemma bid_payment_ids:
  assumes "access_inv r"
  shows "map fst (bidPayments r) = map be_bidId (lr_bidRegistry r)"
    "filter (\<lambda>p. ap_accessActionType p = ''BID_SUBMIT'') (lr_accessPayments r)
       = filter (\<lambda>p. ap_bidId p \<noteq> None) (lr_accessPayments r)"
proof -
  have k: "map bid_key (lr_bidRegistry r) = map payment_key (filter (\<lambda>p. ap_bidId p \<noteq> None) (lr_accessPayments r))"
    using assms by (simp add: access_inv_def)
  have ok: "p \<in> set (lr_accessPayments r) \<Longrightarrow> ap_accessActionType p = ''BID_SUBMIT'' \<longleftrightarrow> ap_bidId p \<noteq> None" for p
    using assms by (auto simp: access_inv_def list_all_iff payment_ok_def split: option.splits)
  show f: "filter (\<lambda>p. ap_accessActionType p = ''BID_SUBMIT'') (lr_accessPayments r)
       = filter (\<lambda>p. ap_bidId p \<noteq> None) (lr_accessPayments r)"
    using ok by (intro filter_cong) auto
  have "map be_bidId (lr_bidRegistry r) = map (the \<circ> fst) (map bid_key (lr_bidRegistry r))"
    by (simp add: bid_key_def)
  also have "\<dots> = map fst (bidPayments r)"
    unfolding k by (simp add: bidPayments_def f payment_key_def)
  finally show "map fst (bidPayments r) = map be_bidId (lr_bidRegistry r)" by simp
qed

lemma activation_or_bid:
  assumes "access_inv r"
  shows "length (lr_accessPayments r) = length (activationPayments r) + length (lr_bidRegistry r)"
proof -
  have ok: "p \<in> set (lr_accessPayments r) \<Longrightarrow> ap_accessActionType p = ''TENDER_ACTIVATE'' \<longleftrightarrow> \<not> ap_bidId p \<noteq> None" for p
    using assms by (auto simp: access_inv_def list_all_iff payment_ok_def split: option.splits)
  have "activationPayments r = filter (\<lambda>p. \<not> ap_bidId p \<noteq> None) (lr_accessPayments r)"
    unfolding activationPayments_def using ok by (intro filter_cong) auto
  moreover have "length (lr_bidRegistry r) = length (filter (\<lambda>p. ap_bidId p \<noteq> None) (lr_accessPayments r))"
    using assms unfolding access_inv_def by (metis length_map)
  ultimately show ?thesis
    using sum_length_filter_compl [of "\<lambda>p. ap_bidId p \<noteq> None" "lr_accessPayments r"] by simp
qed

lemma bid_is_paid_ok:
  assumes "access_inv r" "index_inv r" "b \<in> set (lr_bidRegistry r)"
  shows "bid_is_paid r b = Inr ()"
proof -
  have k: "map bid_key (lr_bidRegistry r) = map payment_key (filter (\<lambda>p. ap_bidId p \<noteq> None) (lr_accessPayments r))"
    and d: "distinct (map be_bidId (lr_bidRegistry r))"
    using assms(1) by (simp_all add: access_inv_def)
  have "bid_key b \<in> set (map bid_key (lr_bidRegistry r))" using assms(3) by simp
  then obtain p where p: "p \<in> set (lr_accessPayments r)" "payment_key p = bid_key b"
    unfolding k by auto
  hence f: "ap_bidId p = Some (be_bidId b)" "ap_paymentTransactionId p = be_accessPaymentTxId b"
    "ap_actionId p = be_actionId b"
    by (auto simp: payment_key_def bid_key_def)
  have "(be_bidId b, p) \<in> set (bidPayments r)"
    using p(1) f(1) unfolding bidPayments_def bid_payment_ids(2) [OF assms(1)] by force
  moreover have "distinct (map fst (bidPayments r))" using bid_payment_ids(1) [OF assms(1)] d by simp
  ultimately have "bidPayments_get r (be_bidId b) = Some p"
    unfolding bidPayments_get_def by (simp add: rev_map [symmetric] del: map_of_eq_None_iff)
  moreover have "in_actions r (be_actionId b)"
  proof -
    have "ap_actionId p \<in> fst ` set (lr_processedActions r)" using assms(2) p(1) by (auto simp: index_inv_def)
    thus ?thesis by (simp add: in_actions_def f(3))
  qed
  ultimately show ?thesis using f by (simp add: bid_is_paid_def res_simps)
qed

lemma cross_access_index_ok:
  assumes "access_inv r" "index_inv r"
  shows "cross_access_index r = Inr ()"
proof -
  have d: "distinct (map be_bidId (lr_bidRegistry r))" using assms(1) by (simp add: access_inv_def)
  have s: "bidPayments_size r = length (lr_bidRegistry r)"
    unfolding bidPayments_size_def bid_payment_ids(1) [OF assms(1)] using d by (simp add: remdups_id_iff_distinct [THEN iffD2])
  show ?thesis
    using assms(2) s activation_or_bid [OF assms(1)] bid_is_paid_ok [OF assms]
    by (auto simp: cross_access_index_def res_simps all_res_Inr_iff index_inv_def receipt_inv_def split: option.splits)
qed

end
