(* ===== verification/Record_Soundness.thy ===== *)
theory Record_Soundness
  imports Record_Index
begin

text \<open>
  The reducer keeps records valid: list fields, one lemma for each block of the
  cross-field requirements, and the theorem that a storable event accepted on a
  valid reachable record gives a valid record again.
\<close>

subsection \<open>Receipt, payments and bids\<close>

lemma receipt_check_cong:
  assumes "same_identity r r'" "lr_activationPaymentTxId r' = lr_activationPaymentTxId r"
  shows "validateAccessReceipt r' a = validateAccessReceipt r a"
  using assms by (simp add: validateAccessReceipt_def same_identity_def)

lemma payment_check_cong:
  assumes "same_identity r r'"
  shows "validateAccessPayment r' sa st p = validateAccessPayment r sa st p"
  using assms by (simp add: validateAccessPayment_def expected_resource_def same_identity_def)

definition lists_ok :: "LifecycleRecord \<Rightarrow> bool" where
  "lists_ok r \<longleftrightarrow> when_some (validateAccessReceipt r) (lr_accessReceipt r) = Inr ()
     \<and> validateAccessPayments r = Inr () \<and> validateBidRegistry r = Inr ()"

lemma lists_same:
  assumes "lists_ok r" "same_identity r r'" "lr_accessPayments r' = lr_accessPayments r"
    "lr_bidRegistry r' = lr_bidRegistry r" "lr_accessReceipt r' = lr_accessReceipt r"
    "lr_activationPaymentTxId r' = lr_activationPaymentTxId r"
  shows "lists_ok r'"
  using assms receipt_check_cong [OF assms(2,6)] payment_check_cong [OF assms(2)]
  by (simp add: lists_ok_def validateAccessPayments_def validateBidRegistry_def res_simps payments_loop_iff)

lemma lists_activation:
  assumes "on_tender_activation_paid h r e p = Inr r'" "lists_ok r" "storable r e"
    "ev_body e = TENDER_ACTIVATION_PAID p" "isUtcIsoTimestamp (ev_eventTime e)" "index_inv r"
  shows "lists_ok r'"
proof -
  have s: "fits 128 (ta_paymentTransactionId p)" "is_sha256_hash (ta_paymentPayloadHash p)"
    "fits 128 (ev_actionId e)"
    using assms(3,4) by (auto simp: storable_def)
  have "lr_state r \<notin> POST_ACTIVATION"
    using assms(1) by (auto simp: on_tender_activation_paid_def res_simps POST_ACTIVATION_def)
  hence e: "lr_accessPayments r = []" using assms(6) by (simp add: index_inv_def)
  show ?thesis
    using assms(1,2,5) s
    by (auto simp: on_tender_activation_paid_def res_simps lists_ok_def e validateAccessReceipt_def
        validateAccessPayments_def validateAccessPayment_def expected_resource_def validateBidRegistry_def fee_value fits_Cons
        MAX_HISTORY_def)
qed


lemma bid_facts:
  assumes "on_bid_submission_paid h ctx r e p = Inr r'"
  shows "bs_asset p = ACCESS_FEE_TOKEN_ID" "bs_amountAtomic p = ''1000''"
    "bs_payTo p = ts_accessTreasuryAccountId (lr_trust r)" "isValidHederaAccountId (bs_payerAccount p)"
    "isValidHederaAccountId (bs_carrierAccountId p)"
    "bs_paymentTransactionId p \<notin> ap_paymentTransactionId ` set (lr_accessPayments r)"
    "bs_bidId p \<notin> be_bidId ` set (lr_bidRegistry r)"
  using assms unfolding on_bid_submission_paid_def
  by (auto simp: res_simps fee_value list_ex_iff)

lemma lists_bid:
  assumes b: "on_bid_submission_paid h ctx r e p = Inr r'" and l: "lists_ok r" and st: "storable r e"
    and e: "ev_body e = BID_SUBMISSION_PAID p" and u: "isUtcIsoTimestamp (ev_eventTime e)"
    and i: "index_inv r" and a: "access_inv r" and af: "auth_formats ctx"
  shows "lists_ok r'"
proof -
  obtain ph auth where r': "r' = stamp r BIDDING e None ph (r\<lparr> lr_bidRegistry := lr_bidRegistry r @ [bid_entry e p auth],
      lr_accessPayments := lr_accessPayments r @ [bid_payment e p] \<rparr>)"
    and au: "sealed_auth ctx = Some (CARRIER_BID auth)"
    and rs: "bidSubmitResource (lr_tenderId r) (lr_tenderVersion r) (bs_bidId p) = Inr (bs_resource p)"
    using bid_step [OF b] by blast
  note f = bid_facts [OF b] and h = auth_formatsD(3) [OF af au]
  have s: "fits 128 (bs_bidId p)" "fits 128 (bs_carrierId p)" "is_sha256_hash (bs_bidHash p)"
    "is_sha256_hash (bs_signedBidEnvelopeHash p)" "is_sha256_hash (bs_commitmentPayloadHash p)"
    "fits 128 (bs_paymentTransactionId p)" "is_sha256_hash (bs_paymentPayloadHash p)"
    "fits 128 (ev_actionId e)" "ev_actionId e \<notin> fst ` set (lr_processedActions r)"
    "length (lr_accessPayments r) < MAX_HISTORY"
    using st e by (auto simp: storable_def)
  have id: "same_identity r r'" by (simp add: r' same_identity_def)
  have fp: "fits 64 f" if "is_hex64 f" for f using that by (auto simp: is_hex64_def fits_def)
  have np: "validateAccessPayment r [] [] (bid_payment e p) = Inr ()"
    using f s rs u by (simp add: validateAccessPayment_def res_simps bid_payment_def fits_Cons fee_value
        expected_resource_def)
  have nb: "bid_registry_loop [] [bid_entry e p auth] = Inr ()"
    using f s u h fp by (simp add: res_simps bid_entry_def)
  have fa: "ev_actionId e \<notin> ap_actionId ` set (lr_accessPayments r)" using i s(9) by (auto simp: index_inv_def)
  have len: "length (lr_bidRegistry r) < MAX_HISTORY" using activation_or_bid [OF a] s(10) by simp
  have "validateAccessPayments r' = Inr ()"
    using l np fa f(6) s(10) payment_check_cong [OF id]
    by (simp add: lists_ok_def validateAccessPayments_def res_simps payments_loop_iff r' bid_payment_def)
  moreover have "validateBidRegistry r' = Inr ()"
    using l nb f(7) len
    by (simp add: lists_ok_def validateBidRegistry_def res_simps bids_loop_iff r' bid_entry_def)
  moreover have "when_some (validateAccessReceipt r') (lr_accessReceipt r') = Inr ()"
    using l receipt_check_cong [OF id] by (simp add: lists_ok_def res_simps r')
  ultimately show ?thesis by (simp add: lists_ok_def)
qed


subsection \<open>Cross-field requirements\<close>

text \<open>The advisory event touches no field of the cross-field requirements.\<close>

lemma cross_step_cases:
  assumes "reduce_body h ctx r e = Inr r'" "P r"
    and "\<And>w ph x. P (stamp r (lr_state r) e w ph (r\<lparr> lr_advisoryReportHash := x \<rparr>)) = P r"
    and "(\<nexists>rh b. ev_body e = POD_ADVISORY_ANCHORED rh b) \<Longrightarrow> P r'"
  shows "P r'"
proof (cases "\<exists>rh b. ev_body e = POD_ADVISORY_ANCHORED rh b")
  case True
  then obtain w ph x where "r' = stamp r (lr_state r) e w ph (r\<lparr> lr_advisoryReportHash := x \<rparr>)"
    using assms(1) by (auto simp: reduce_body_def advisory_Inr_iff)
  thus ?thesis using assms(2,3) by simp
next
  case False
  thus ?thesis using assms(4) by blast
qed

lemmas settlement_sets = REQUIRES_LOCK_def ALLOWS_SETTLEMENT_TX_def ALLOWS_SETTLEMENT_def
  ALLOWS_REFEREE_DECISION_def REQUIRES_REFEREE_DECISION_def

lemma cross_funding_step:
  assumes "reduce_body h ctx r e = Inr r'" "cross_funding r = Inr ()"
  shows "cross_funding r' = Inr ()"
proof (rule cross_step_cases [where P = "\<lambda>r. cross_funding r = Inr ()", OF assms(1,2)])
  assume na: "\<nexists>rh b. ev_body e = POD_ADVISORY_ANCHORED rh b"
  show "cross_funding r' = Inr ()"
    using assms na
    by (cases "ev_body e")
      (simp add: step_defs res_simps split: if_splits; (elim exE conjE disjE)?; hypsubst;
        simp add: cross_funding_def res_simps 
          POST_FUNDING_def; fail)+
qed (simp add: cross_funding_def)

lemma cross_activation_step:
  assumes "reduce_body h ctx r e = Inr r'" "cross_activation r = Inr ()"
  shows "cross_activation r' = Inr ()"
proof (rule cross_step_cases [where P = "\<lambda>r. cross_activation r = Inr ()", OF assms(1,2)])
  assume na: "\<nexists>rh b. ev_body e = POD_ADVISORY_ANCHORED rh b"
  show "cross_activation r' = Inr ()"
    using assms na
    by (cases "ev_body e")
      (simp add: step_defs res_simps split: if_splits; (elim exE conjE disjE)?; hypsubst;
        simp add: cross_activation_def res_simps 
          POST_ACTIVATION_def; fail)+
qed (simp add: cross_activation_def)

lemma cross_award_step:
  assumes "reduce_body h ctx r e = Inr r'" "cross_award r = Inr ()"
  shows "cross_award r' = Inr ()"
proof (rule cross_step_cases [where P = "\<lambda>r. cross_award r = Inr ()", OF assms(1,2)])
  assume na: "\<nexists>rh b. ev_body e = POD_ADVISORY_ANCHORED rh b"
  show "cross_award r' = Inr ()"
    using assms na
    by (cases "ev_body e")
      (simp add: step_defs res_simps split: if_splits; (elim exE conjE disjE)?; hypsubst;
        simp add: cross_award_def res_simps bigint_atomic positive_is_nonNegative
          POST_AUCTION_CLOSE_def REQUIRES_WINNER_def; (elim conjE)?; hypsubst; simp; fail)+
qed (simp add: cross_award_def)

lemma cross_lock_step:
  assumes "reduce_body h ctx r e = Inr r'" "cross_lock r = Inr ()"
  shows "cross_lock r' = Inr ()"
proof (rule cross_step_cases [where P = "\<lambda>r. cross_lock r = Inr ()", OF assms(1,2)])
  assume na: "\<nexists>rh b. ev_body e = POD_ADVISORY_ANCHORED rh b"
  show "cross_lock r' = Inr ()"
    using assms na
    by (cases "ev_body e")
      (simp add: step_defs res_simps split: if_splits; (elim exE conjE disjE)?; hypsubst;
        simp add: cross_lock_def res_simps bigint_atomic positive_is_nonNegative
          REQUIRES_LOCK_def ALLOWS_SETTLEMENT_TX_def; (elim conjE)?; hypsubst; simp; fail)+
qed (simp add: cross_lock_def)

lemma cross_pod_step:
  assumes "reduce_body h ctx r e = Inr r'" "cross_pod r = Inr ()" "storable r e" "isUtcIsoTimestamp (ev_eventTime e)"
  shows "cross_pod r' = Inr ()"
proof (rule cross_step_cases [where P = "\<lambda>r. cross_pod r = Inr ()", OF assms(1,2)])
  assume na: "\<nexists>rh b. ev_body e = POD_ADVISORY_ANCHORED rh b"
  note d = storable_deadlines [OF assms(3)]
  show "cross_pod r' = Inr ()"
    using assms(1,2,4) na
    by (cases "ev_body e")
      (simp add: step_defs res_simps split: if_splits; (elim exE conjE disjE)?; hypsubst;
        simp add: cross_pod_def res_simps d
          REQUIRES_POD_def REQUIRES_REVIEW_WINDOW_def REQUIRES_CORRECTION_DEADLINE_def REQUIRES_DISPUTE_def; fail)+
qed (simp add: cross_pod_def)

lemma cross_decision_absent_step:
  assumes "reduce_body h ctx r e = Inr r'" "cross_decision_absent r = Inr ()"
  shows "cross_decision_absent r' = Inr ()"
proof (rule cross_step_cases [where P = "\<lambda>r. cross_decision_absent r = Inr ()", OF assms(1,2)])
  assume na: "\<nexists>rh b. ev_body e = POD_ADVISORY_ANCHORED rh b"
  show "cross_decision_absent r' = Inr ()"
    using assms na
    by (cases "ev_body e")
      (simp add: step_defs res_simps split: if_splits; (elim exE conjE disjE)?; hypsubst;
        simp add: cross_decision_absent_def res_simps 
          ALLOWS_REFEREE_DECISION_def ALLOWS_SETTLEMENT_def ALLOWS_SETTLEMENT_TX_def; fail)+
qed (simp add: cross_decision_absent_def)

lemma cross_decision_step:
  assumes "reduce_body h ctx r e = Inr r'" "cross_decision r = Inr ()" "cross_decision_absent r = Inr ()"
    "cross_lock r = Inr ()" "storable r e" "lr_lockedAmountAtomic r \<noteq> Some []"
  shows "cross_decision r' = Inr ()"
proof (rule cross_step_cases [where P = "\<lambda>r. cross_decision r = Inr ()", OF assms(1,2)])
  assume na: "\<nexists>rh b. ev_body e = POD_ADVISORY_ANCHORED rh b"
  have rf: "list_ex (\<lambda>x. te_refereeId x = rr_refereeId p) (ts_referees (lr_trust r))"
    if "ev_body e = REFEREE_RESOLUTION_RECORDED p" for p
    using assms(5) that by (simp add: storable_def)
  show "cross_decision r' = Inr ()"
    using assms(1-4,6) na
    by (cases "ev_body e")
      (simp add: step_defs res_simps split: if_splits; (elim exE conjE disjE)?; hypsubst;
        (simp add: cross_decision_def decision_conserves_def checks_Cons_iff REQUIRES_REFEREE_DECISION_def; fail
         | simp add: cross_decision_def decision_conserves_def res_simps bigint_atomic positive_is_nonNegative
             cross_decision_absent_def cross_lock_def rf settlement_sets locked_or_winning_def or_zero_def
             truthy_def split: option.splits; fail))+
qed (simp add: cross_decision_def decision_conserves_def)

lemma cross_settlement_step:
  assumes "reduce_body h ctx r e = Inr r'" "cross_settlement r = Inr ()" "cross_decision_absent r = Inr ()"
    "cross_lock r = Inr ()" "storable r e" "lr_lockedAmountAtomic r \<noteq> Some []"
  shows "cross_settlement r' = Inr ()"
proof (rule cross_step_cases [where P = "\<lambda>r. cross_settlement r = Inr ()", OF assms(1,2)])
  assume na: "\<nexists>rh b. ev_body e = POD_ADVISORY_ANCHORED rh b"
  have rf: "list_ex (\<lambda>x. te_refereeId x = rr_refereeId p) (ts_referees (lr_trust r))"
    if "ev_body e = REFEREE_RESOLUTION_RECORDED p" for p
    using assms(5) that by (simp add: storable_def)
  show "cross_settlement r' = Inr ()"
    using assms(1-4,6) na
    by (cases "ev_body e")
      (simp add: step_defs res_simps split: if_splits; (elim exE conjE disjE)?; hypsubst;
        simp add: cross_settlement_def decision_conserves_def res_simps bigint_atomic positive_is_nonNegative
          cross_decision_absent_def cross_lock_def rf settlement_sets locked_or_winning_def or_zero_def
          truthy_def split: option.splits; fail)+
qed (simp add: cross_settlement_def decision_conserves_def)

subsection \<open>Validity is kept\<close>

lemma lists_step:
  assumes "reduce_body h ctx r e = Inr r'" "lists_ok r" "storable r e" "auth_formats ctx"
    "isUtcIsoTimestamp (ev_eventTime e)" "index_inv r" "access_inv r" "same_identity r r'"
  shows "lists_ok r'"
proof -
  consider p where "ev_body e = TENDER_ACTIVATION_PAID p" | p where "ev_body e = BID_SUBMISSION_PAID p"
    | "lr_accessPayments r' = lr_accessPayments r" "lr_bidRegistry r' = lr_bidRegistry r"
      "lr_accessReceipt r' = lr_accessReceipt r" "lr_activationPaymentTxId r' = lr_activationPaymentTxId r"
    using access_fields_unchanged [OF assms(1)] receipt_unchanged [OF assms(1)] by blast
  thus ?thesis
  proof cases
    case 1
    hence "on_tender_activation_paid h r e p = Inr r'" using assms(1) by (simp add: reduce_body_def)
    thus ?thesis using lists_activation assms 1 by blast
  next
    case 2
    hence "on_bid_submission_paid h ctx r e p = Inr r'" using assms(1) by (simp add: reduce_body_def)
    thus ?thesis using lists_bid assms 2 by blast
  next
    case 3
    thus ?thesis using lists_same assms by blast
  qed
qed

lemma cross_field_iff:
  "cross_field r = Inr () \<longleftrightarrow> cross_funding r = Inr () \<and> cross_activation r = Inr ()
     \<and> cross_access_index r = Inr () \<and> cross_award r = Inr () \<and> cross_lock r = Inr () \<and> cross_pod r = Inr ()
     \<and> cross_decision_absent r = Inr () \<and> cross_decision r = Inr () \<and> cross_settlement r = Inr ()"
  by (simp add: cross_field_def checks_Cons_iff)

lemma validate_formats_split: "validate_formats r = Inr () \<longleftrightarrow> scalar_formats r \<and> lists_ok r"
  by (simp add: validate_formats_iff lists_ok_def)

lemma reduce_valid:
  assumes r: "reachable h r" and v: "assertValidLifecycleRecord h r t = Inr r"
    and s: "reduceLifecycle h ctx r e = Inr r'" and st: "storable r e" and af: "auth_formats ctx"
  shows "assertValidLifecycleRecord h r' t = Inr r'"
proof -
  note stamped = reduce_stamped [OF s]
  have b: "reduce_body h ctx r e = Inr r'" and u: "isUtcIsoTimestamp (ev_eventTime e)"
    using s by (auto simp: reduceLifecycle_Inr_iff)
  have vv: "assertSafeTenderId t = Inr ()" "validate_header r t = Inr ()" "validate_history r = Inr ()"
    "validate_actions r = Inr ()" "validateTrustSnapshot h (lr_trust r) = Inr ()"
    "scalar_formats r" "lists_ok r"
    and c: "cross_funding r = Inr ()" "cross_activation r = Inr ()" "cross_award r = Inr ()"
    "cross_lock r = Inr ()" "cross_pod r = Inr ()" "cross_decision_absent r = Inr ()"
    "cross_decision r = Inr ()" "cross_settlement r = Inr ()"
    using v by (simp_all add: valid_iff cross_field_iff validate_formats_split)
  have id: "same_identity r r'" using stamped_identity [OF stamped] .
  have r': "reachable h r'" using r s by (rule reduced)
  have ver: "lr_recordVersion r = int (length (lr_history r)) + 1" using reachable_walk [OF r] by simp
  have lk: "lr_lockedAmountAtomic r \<noteq> Some []"
    using vv(6) by (auto simp: scalar_formats_def isNonNegativeAtomicString_def)
  have "cross_field r' = Inr ()"
    unfolding cross_field_iff
    using cross_funding_step [OF b c(1)] cross_activation_step [OF b c(2)] cross_award_step [OF b c(3)]
      cross_lock_step [OF b c(4)] cross_pod_step [OF b c(5) st u] cross_decision_absent_step [OF b c(6)]
      cross_decision_step [OF b c(7,6,4) st lk] cross_settlement_step [OF b c(8,6,4) st lk]
      cross_access_index_ok [OF reachable_access [OF r'] reachable_index [OF r']] by blast
  moreover have "validate_formats r' = Inr ()"
    using scalar_preserved [OF b vv(6) st af u]
      lists_step [OF b vv(7) st af u reachable_index [OF r] reachable_access [OF r] id]
    by (simp add: validate_formats_split)
  moreover have "lr_trust r' = lr_trust r" using id by (simp add: same_identity_def)
  ultimately show ?thesis
    using header_preserved [OF s vv(2) st ver] history_preserved [OF s vv(3) st vv(2,4)]
      actions_preserved [OF s vv(4) st vv(2)] vv(1,5) by (simp add: valid_iff)
qed

end
