(* ===== verification/Record_Envelope.thy ===== *)
theory Record_Envelope
  imports Record_Soundness "HOL-Library.Multiset"
begin

text \<open>
  The persisted envelope of a lifecycle record,
  \<^verbatim>\<open>src/v2/store/persisted-record.ts\<close>: how a record is wrapped for the disk
  (header fields, trust snapshot, sorted action index, integrity hashes) and how a
  wrapped value is validated when it is read back.  \<open>record_json\<close> and its parts
  are the plain objects that \<open>canonicalSha256\<close> hashes; a field \<open>T | null\<close> is \<open>JNull\<close>
  when absent and an optional property is left out.  The text layer
  (\<open>JSON.stringify\<close>, \<open>JSON.parse\<close>, UTF-8) is the identity on these values.
\<close>

subsection \<open>The record as a plain object\<close>

primrec state_str :: "V2LifecycleState \<Rightarrow> string" where
  "state_str DRAFT = ''DRAFT''"
| "state_str ESCROW_FUNDED = ''ESCROW_FUNDED''"
| "state_str TENDER_OPENED = ''TENDER_OPENED''"
| "state_str BIDDING = ''BIDDING''"
| "state_str AUCTION_CLOSED = ''AUCTION_CLOSED''"
| "state_str NO_QUALIFIED_BID = ''NO_QUALIFIED_BID''"
| "state_str WINNER_SELECTED = ''WINNER_SELECTED''"
| "state_str WINNING_AMOUNT_LOCKED = ''WINNING_AMOUNT_LOCKED''"
| "state_str ROUTE_RESERVED = ''ROUTE_RESERVED''"
| "state_str IN_TRANSIT = ''IN_TRANSIT''"
| "state_str DELIVERY_REPORTED = ''DELIVERY_REPORTED''"
| "state_str POD_SUBMITTED = ''POD_SUBMITTED''"
| "state_str POD_UNDER_REVIEW = ''POD_UNDER_REVIEW''"
| "state_str POD_CORRECTION_REQUESTED = ''POD_CORRECTION_REQUESTED''"
| "state_str POD_RESUBMITTED = ''POD_RESUBMITTED''"
| "state_str POD_ACCEPTED = ''POD_ACCEPTED''"
| "state_str POD_DEEMED_ACCEPTED = ''POD_DEEMED_ACCEPTED''"
| "state_str POD_DISPUTED = ''POD_DISPUTED''"
| "state_str REFEREE_DECISION = ''REFEREE_DECISION''"
| "state_str PAYMENT_RELEASED = ''PAYMENT_RELEASED''"
| "state_str PARTIAL_RELEASE = ''PARTIAL_RELEASE''"
| "state_str REFUNDED = ''REFUNDED''"
| "state_str TENDER_COMPLETED = ''TENDER_COMPLETED''"

definition nullable :: "('a \<Rightarrow> json) \<Rightarrow> 'a option \<Rightarrow> json" where
  "nullable f x = (case x of None \<Rightarrow> JNull | Some v \<Rightarrow> f v)"

definition jarr :: "('a \<Rightarrow> json) \<Rightarrow> 'a list \<Rightarrow> json" where
  "jarr f xs = JArr (map Some (map f xs))"

definition trust_json :: "TrustPolicySnapshot \<Rightarrow> json" where
  "trust_json t = JObj
     [(''schemaVersion'', JStr (ts_schemaVersion t)), (''shipperPublicKey'', JStr (ts_shipperPublicKey t)),
      (''shipperKeyFingerprint'', JStr (ts_shipperKeyFingerprint t)),
      (''referees'', jarr (\<lambda>e. JObj [(''refereeId'', JStr (te_refereeId e)), (''publicKey'', JStr (te_publicKey e))])
         (ts_referees t)),
      (''accessTreasuryAccountId'', JStr (ts_accessTreasuryAccountId t)),
      (''signatureAlgorithm'', JStr (ts_signatureAlgorithm t))]"

definition receipt_json :: "LifecycleAccessReceipt \<Rightarrow> json" where
  "receipt_json a = JObj
     [(''accessActionType'', JStr (ar_accessActionType a)), (''asset'', JStr (ar_asset a)),
      (''amountAtomic'', JStr (ar_amountAtomic a)), (''resource'', JStr (ar_resource a)),
      (''payTo'', JStr (ar_payTo a)), (''payerAccount'', JStr (ar_payerAccount a)),
      (''paymentTransactionId'', JStr (ar_paymentTransactionId a)),
      (''paymentPayloadHash'', JStr (ar_paymentPayloadHash a)), (''paidAt'', JStr (ar_paidAt a))]"

definition payment_json :: "LifecycleAccessPayment \<Rightarrow> json" where
  "payment_json p = JObj
     [(''accessActionType'', JStr (ap_accessActionType p)), (''actionId'', JStr (ap_actionId p)),
      (''bidId'', nullable JStr (ap_bidId p)), (''asset'', JStr (ap_asset p)),
      (''amountAtomic'', JStr (ap_amountAtomic p)), (''resource'', JStr (ap_resource p)),
      (''payTo'', JStr (ap_payTo p)), (''payerAccount'', JStr (ap_payerAccount p)),
      (''paymentTransactionId'', JStr (ap_paymentTransactionId p)),
      (''paymentPayloadHash'', JStr (ap_paymentPayloadHash p)), (''settledAt'', JStr (ap_settledAt p))]"

definition bid_entry_json :: "LifecycleBidEntry \<Rightarrow> json" where
  "bid_entry_json b = JObj
     [(''bidId'', JStr (be_bidId b)), (''carrierId'', JStr (be_carrierId b)),
      (''carrierAccountId'', JStr (be_carrierAccountId b)), (''bidHash'', JStr (be_bidHash b)),
      (''signedBidEnvelopeHash'', JStr (be_signedBidEnvelopeHash b)),
      (''commitmentPayloadHash'', JStr (be_commitmentPayloadHash b)),
      (''carrierKeyFingerprint'', JStr (be_carrierKeyFingerprint b)),
      (''bidAuthPayloadHash'', JStr (be_bidAuthPayloadHash b)),
      (''accessPaymentTxId'', JStr (be_accessPaymentTxId b)), (''actionId'', JStr (be_actionId b)),
      (''acceptedAt'', JStr (be_acceptedAt b))]"

definition transition_json :: "LifecycleTransitionRecord \<Rightarrow> json" where
  "transition_json h = JObj
     ([(''from'', JStr (state_str (tr_from h))), (''to'', JStr (state_str (tr_to h))),
       (''eventType'', JStr (tr_eventType h)), (''actionId'', JStr (tr_actionId h)), (''at'', JStr (tr_at h))]
      @ (case tr_reason h of None \<Rightarrow> [] | Some s \<Rightarrow> [(''reason'', JStr s)]))"

definition processed_json :: "ProcessedActionRecord \<Rightarrow> json" where
  "processed_json a = JObj
     [(''actionId'', JStr (pa2_actionId a)), (''eventType'', JStr (pa2_eventType a)),
      (''eventPayloadHash'', JStr (pa2_eventPayloadHash a)),
      (''resultingState'', JStr (state_str (pa2_resultingState a))),
      (''recordVersionAfter'', JNum (pa2_recordVersionAfter a)), (''at'', JStr (pa2_at a))]"

definition record_json :: "LifecycleRecord \<Rightarrow> json" where
  "record_json r = JObj
     [(''schemaVersion'', JStr (lr_schemaVersion r)), (''tenderId'', JStr (lr_tenderId r)),
      (''tenderVersion'', JNum (lr_tenderVersion r)), (''tenderHash'', JStr (lr_tenderHash r)),
      (''maximumFreightBudgetAtomic'', JStr (lr_maximumFreightBudgetAtomic r)),
      (''auctionEndsAt'', JStr (lr_auctionEndsAt r)), (''state'', JStr (state_str (lr_state r))),
      (''recordVersion'', JNum (lr_recordVersion r)), (''createdAt'', JStr (lr_createdAt r)),
      (''updatedAt'', JStr (lr_updatedAt r)), (''lastActionId'', nullable JStr (lr_lastActionId r)),
      (''history'', jarr transition_json (lr_history r)),
      (''processedActions'', JObj (map (\<lambda>(k, a). (k, processed_json a)) (lr_processedActions r))),
      (''trust'', trust_json (lr_trust r)), (''fundingTxId'', nullable JStr (lr_fundingTxId r)),
      (''fundedAmountAtomic'', nullable JStr (lr_fundedAmountAtomic r)),
      (''activationPaymentTxId'', nullable JStr (lr_activationPaymentTxId r)),
      (''accessReceipt'', nullable receipt_json (lr_accessReceipt r)),
      (''accessPayments'', jarr payment_json (lr_accessPayments r)),
      (''bidRegistry'', jarr bid_entry_json (lr_bidRegistry r)),
      (''closureProofRef'', nullable JStr (lr_closureProofRef r)),
      (''authoritativeBidSetHash'', nullable JStr (lr_authoritativeBidSetHash r)),
      (''decisionManifestHash'', nullable JStr (lr_decisionManifestHash r)),
      (''winningBidId'', nullable JStr (lr_winningBidId r)),
      (''winningCarrierId'', nullable JStr (lr_winningCarrierId r)),
      (''winningCarrierAccount'', nullable JStr (lr_winningCarrierAccount r)),
      (''winningAmountAtomic'', nullable JStr (lr_winningAmountAtomic r)),
      (''lockedAmountAtomic'', nullable JStr (lr_lockedAmountAtomic r)),
      (''excessRefundAtomic'', nullable JStr (lr_excessRefundAtomic r)),
      (''allocateTxId'', nullable JStr (lr_allocateTxId r)),
      (''refundExcessTxId'', nullable JStr (lr_refundExcessTxId r)),
      (''reservationEvidenceRef'', nullable JStr (lr_reservationEvidenceRef r)),
      (''podId'', nullable JStr (lr_podId r)), (''podVersion'', nullable JNum (lr_podVersion r)),
      (''podContentHash'', nullable JStr (lr_podContentHash r)),
      (''podCiphertextHash'', nullable JStr (lr_podCiphertextHash r)),
      (''reviewStartedAt'', nullable JStr (lr_reviewStartedAt r)),
      (''reviewDeadlineAt'', nullable JStr (lr_reviewDeadlineAt r)),
      (''correctionDeadlineAt'', nullable JStr (lr_correctionDeadlineAt r)),
      (''shipperActionTaken'', JBool (lr_shipperActionTaken r)),
      (''advisoryReportHash'', nullable JStr (lr_advisoryReportHash r)),
      (''disputeId'', nullable JStr (lr_disputeId r)),
      (''lastShipperAuthPayloadHash'', nullable JStr (lr_lastShipperAuthPayloadHash r)),
      (''lastShipperKeyFingerprint'', nullable JStr (lr_lastShipperKeyFingerprint r)),
      (''refereeResolution'', nullable (\<lambda>q. JStr (resolution_str q)) (lr_refereeResolution r)),
      (''releaseAmountAtomic'', nullable JStr (lr_releaseAmountAtomic r)),
      (''refundAmountAtomic'', nullable JStr (lr_refundAmountAtomic r)),
      (''resolutionPayloadHash'', nullable JStr (lr_resolutionPayloadHash r)),
      (''refereeId'', nullable JStr (lr_refereeId r)),
      (''refereeKeyFingerprint'', nullable JStr (lr_refereeKeyFingerprint r)),
      (''releaseTxId'', nullable JStr (lr_releaseTxId r)), (''refundTxId'', nullable JStr (lr_refundTxId r))]"

subsection \<open>The envelope\<close>

definition LIFECYCLE_STORE_SCHEMA :: string where
  "LIFECYCLE_STORE_SCHEMA = ''routeguard-v2-lifecycle-store-1.0''"
definition LIFECYCLE_STORE_SCHEMA_VERSION :: int where "LIFECYCLE_STORE_SCHEMA_VERSION = 1"
definition LIFECYCLE_STORE_INTEGRITY_ALGORITHM :: string where
  "LIFECYCLE_STORE_INTEGRITY_ALGORITHM = ''sha256''"

record PersistedActionEntry =
  pe_actionId :: string
  pe_tenderId :: string
  pe_tenderVersion :: int
  pe_eventType :: string
  pe_eventPayloadHash :: string
  pe_resultingState :: V2LifecycleState
  pe_recordVersionAfter :: int
  pe_at :: string

record PersistedLifecycleIntegrity =
  pi_algorithm :: string
  pi_recordHash :: string
  pi_actionsHash :: string

record PersistedLifecycleEnvelope =
  en_storageSchema :: string
  en_storageSchemaVersion :: int
  en_tenderId :: string
  en_tenderVersion :: int
  en_recordVersion :: int
  en_createdAt :: string
  en_updatedAt :: string
  en_record :: LifecycleRecord
  en_trustPolicy :: TrustPolicySnapshot
  en_actions :: "PersistedActionEntry list"
  en_integrity :: PersistedLifecycleIntegrity

definition action_entry :: "LifecycleRecord \<Rightarrow> ProcessedActionRecord \<Rightarrow> PersistedActionEntry" where
  "action_entry r a =
     \<lparr> pe_actionId = pa2_actionId a, pe_tenderId = lr_tenderId r, pe_tenderVersion = lr_tenderVersion r,
       pe_eventType = pa2_eventType a, pe_eventPayloadHash = pa2_eventPayloadHash a,
       pe_resultingState = pa2_resultingState a, pe_recordVersionAfter = pa2_recordVersionAfter a,
       pe_at = pa2_at a \<rparr>"

definition actionEntriesFromRecord :: "LifecycleRecord \<Rightarrow> PersistedActionEntry list" where
  "actionEntriesFromRecord r =
     map (\<lambda>k. action_entry r (the (map_of (lr_processedActions r) k)))
       (sort (map fst (lr_processedActions r)))"

definition action_entry_json :: "PersistedActionEntry \<Rightarrow> json" where
  "action_entry_json e = JObj
     [(''actionId'', JStr (pe_actionId e)), (''tenderId'', JStr (pe_tenderId e)),
      (''tenderVersion'', JNum (pe_tenderVersion e)), (''eventType'', JStr (pe_eventType e)),
      (''eventPayloadHash'', JStr (pe_eventPayloadHash e)),
      (''resultingState'', JStr (state_str (pe_resultingState e))),
      (''recordVersionAfter'', JNum (pe_recordVersionAfter e)), (''at'', JStr (pe_at e))]"

definition recordHash :: "hash_fn \<Rightarrow> LifecycleRecord \<Rightarrow> store_error + string" where
  "recordHash sha256 r = map_err ValidatorHash (canonicalSha256 sha256 (record_json r))"

definition actionsHash :: "hash_fn \<Rightarrow> PersistedActionEntry list \<Rightarrow> store_error + string" where
  "actionsHash sha256 es = map_err ValidatorHash (canonicalSha256 sha256 (jarr action_entry_json es))"

definition trustHash :: "hash_fn \<Rightarrow> TrustPolicySnapshot \<Rightarrow> store_error + string" where
  "trustHash sha256 t = map_err ValidatorHash (canonicalSha256 sha256 (trust_json t))"

definition buildPersistedLifecycleEnvelope ::
  "hash_fn \<Rightarrow> LifecycleRecord \<Rightarrow> store_error + PersistedLifecycleEnvelope" where
  "buildPersistedLifecycleEnvelope sha256 r =
     bind_res (recordHash sha256 r) (\<lambda>rh.
     bind_res (actionsHash sha256 (actionEntriesFromRecord r)) (\<lambda>ah.
       Inr \<lparr> en_storageSchema = LIFECYCLE_STORE_SCHEMA,
             en_storageSchemaVersion = LIFECYCLE_STORE_SCHEMA_VERSION,
             en_tenderId = lr_tenderId r, en_tenderVersion = lr_tenderVersion r,
             en_recordVersion = lr_recordVersion r, en_createdAt = lr_createdAt r,
             en_updatedAt = lr_updatedAt r, en_record = r, en_trustPolicy = lr_trust r,
             en_actions = actionEntriesFromRecord r,
             en_integrity = \<lparr> pi_algorithm = LIFECYCLE_STORE_INTEGRITY_ALGORITHM,
               pi_recordHash = rh, pi_actionsHash = ah \<rparr> \<rparr>))"

text \<open>One entry of the idempotency index against the record, then the loop with \<open>seenActionIds\<close>.\<close>

definition entry_matches :: "LifecycleRecord \<Rightarrow> PersistedActionEntry \<Rightarrow> store_error + unit" where
  "entry_matches r e =
     checks [fail_unless (\<not> (pe_tenderId e \<noteq> lr_tenderId r \<or> pe_tenderVersion e \<noteq> lr_tenderVersion r)),
       (case map_of (lr_processedActions r) (pe_actionId e) of
          None \<Rightarrow> Inl CorruptLifecycleRecord
        | Some a \<Rightarrow>
            fail_unless (\<not> (pe_eventType e \<noteq> pa2_eventType a
              \<or> pe_eventPayloadHash e \<noteq> pa2_eventPayloadHash a
              \<or> pe_resultingState e \<noteq> pa2_resultingState a
              \<or> pe_recordVersionAfter e \<noteq> pa2_recordVersionAfter a
              \<or> pe_at e \<noteq> pa2_at a)))]"

primrec action_entries_loop ::
  "LifecycleRecord \<Rightarrow> string list \<Rightarrow> PersistedActionEntry list \<Rightarrow> store_error + unit" where
  "action_entries_loop r seenActionIds [] = Inr ()"
| "action_entries_loop r seenActionIds (e # es) =
     checks [str 128 (pe_actionId e),
       fail_unless (\<not> List.member seenActionIds (pe_actionId e)),
       entry_matches r e,
       action_entries_loop r (pe_actionId e # seenActionIds) es]"

definition hashes_to :: "string \<Rightarrow> store_error + string \<Rightarrow> store_error + unit" where
  "hashes_to v m = bind_res m (\<lambda>d. fail_unless (v = d))"

definition assertValidPersistedLifecycleEnvelope ::
  "hash_fn \<Rightarrow> PersistedLifecycleEnvelope \<Rightarrow> string \<Rightarrow> store_error + PersistedLifecycleEnvelope" where
  "assertValidPersistedLifecycleEnvelope sha256 e expectedTenderId =
     (let r = en_record e; g = en_integrity e in
      bind_res (checks [assertSafeTenderId expectedTenderId,
        (if en_storageSchema e \<noteq> LIFECYCLE_STORE_SCHEMA then Inl UnsupportedStorageVersion else Inr ()),
        (if en_storageSchemaVersion e \<noteq> LIFECYCLE_STORE_SCHEMA_VERSION
         then Inl UnsupportedStorageVersion else Inr ()),
        bind_res (assertValidLifecycleRecord sha256 r expectedTenderId) (\<lambda>_. Inr ()),
        assertSafeTenderId (en_tenderId e),
        fail_unless (en_tenderId e = lr_tenderId r),
        safeInt (en_tenderVersion e) 1,
        fail_unless (en_tenderVersion e = lr_tenderVersion r),
        safeInt (en_recordVersion e) 1,
        fail_unless (en_recordVersion e = lr_recordVersion r),
        utc (en_createdAt e),
        utc (en_updatedAt e),
        not_after (en_createdAt e) (en_updatedAt e),
        fail_unless (\<not> (en_createdAt e \<noteq> lr_createdAt r \<or> en_updatedAt e \<noteq> lr_updatedAt r)),
        validateTrustSnapshot sha256 (en_trustPolicy e),
        bind_res (trustHash sha256 (en_trustPolicy e)) (\<lambda>d. hashes_to d (trustHash sha256 (lr_trust r))),
        action_entries_loop r [] (en_actions e),
        fail_unless (length (en_actions e) = length (lr_processedActions r)),
        fail_unless (pi_algorithm g = LIFECYCLE_STORE_INTEGRITY_ALGORITHM),
        hash_field (pi_recordHash g),
        hash_field (pi_actionsHash g),
        hashes_to (pi_recordHash g) (recordHash sha256 r),
        hashes_to (pi_actionsHash g) (actionsHash sha256 (actionEntriesFromRecord r))])
      (\<lambda>_. Inr e))"

subsection \<open>Every value of the model has a canonical text\<close>

lemma has_text_nullable [simp]: "(\<And>v. has_text (f v)) \<Longrightarrow> has_text (nullable f x)"
  by (simp add: nullable_def split: option.splits)

lemma has_text_jarr [simp]: "(\<And>v. has_text (f v)) \<Longrightarrow> has_text (jarr f xs)"
  unfolding jarr_def has_text_JArr by (simp add: list_all_iff)

lemma parts_have_text [simp]:
  "has_text (trust_json t)" "has_text (receipt_json a)" "has_text (payment_json p)"
  "has_text (bid_entry_json b)" "has_text (transition_json h)" "has_text (processed_json q)"
  "has_text (action_entry_json e)"
  by (simp_all add: trust_json_def receipt_json_def payment_json_def bid_entry_json_def transition_json_def
      processed_json_def action_entry_json_def has_text_JObj split: option.splits)

lemma record_has_text [simp]: "has_text (record_json r)"
  by (auto simp: record_json_def has_text_JObj list_all_iff)

lemma hash_ok:
  assumes "hex_digest h" "has_text v"
  shows "canonicalSha256 h v = Inr (''sha256:'' @ h (text_of v))"
  using assms by (auto simp: canonicalSha256_def canonicalize_def has_textD hex_digest_def)

lemma hashes_ok:
  assumes "hex_digest h"
  shows "recordHash h r = Inr (''sha256:'' @ h (text_of (record_json r)))"
    "actionsHash h es = Inr (''sha256:'' @ h (text_of (jarr action_entry_json es)))"
    "trustHash h t = Inr (''sha256:'' @ h (text_of (trust_json t)))"
  using hash_ok [OF assms] by (simp_all add: recordHash_def actionsHash_def trustHash_def)

lemma hashes_to_iff [res_simps]: "hashes_to v m = Inr u \<longleftrightarrow> m = Inr v"
  by (cases m) (auto simp: hashes_to_def res_simps)

subsection \<open>What the envelope validator accepts\<close>

text \<open>The keys of a JavaScript object are distinct; a valid index stores every entry under its id.\<close>

definition keyed :: "LifecycleRecord \<Rightarrow> bool" where
  "keyed r \<longleftrightarrow> distinct (map fst (lr_processedActions r))"

definition entry_of :: "LifecycleRecord \<Rightarrow> string \<Rightarrow> PersistedActionEntry" where
  "entry_of r k = action_entry r (the (map_of (lr_processedActions r) k))"

lemma entries_eq: "actionEntriesFromRecord r = map (entry_of r) (sort (map fst (lr_processedActions r)))"
  by (simp add: actionEntriesFromRecord_def entry_of_def)

lemma valid_action_ids:
  assumes "assertValidLifecycleRecord h r t = Inr r'" "map_of (lr_processedActions r) k = Some a"
  shows "pa2_actionId a = k" "fits 128 k"
proof -
  have "validate_actions r = Inr ()"
    using assms(1) by (auto simp: assertValidLifecycleRecord_def res_simps)
  moreover have "(k, a) \<in> set (lr_processedActions r)" using assms(2) by (rule map_of_SomeD)
  ultimately have "validateProcessedAction r (k, a) = Inr ()"
    by (auto simp: validate_actions_def res_simps all_res_Inr_iff list_all_iff)
  then show "pa2_actionId a = k" "fits 128 k" by (auto simp: validateProcessedAction_def res_simps)
qed

lemma entry_matches_iff:
  assumes "\<And>k a. map_of (lr_processedActions r) k = Some a \<Longrightarrow> pa2_actionId a = k"
  shows "entry_matches r e = Inr () \<longleftrightarrow>
    pe_actionId e \<in> fst ` set (lr_processedActions r) \<and> e = entry_of r (pe_actionId e)"
proof (cases "map_of (lr_processedActions r) (pe_actionId e)")
  case None
  moreover from this have "pe_actionId e \<notin> fst ` set (lr_processedActions r)" by (simp add: map_of_eq_None_iff)
  ultimately show ?thesis by (simp add: entry_matches_def res_simps)
next
  case (Some a)
  then have "pe_actionId e \<in> fst ` set (lr_processedActions r)"
    by (metis map_of_eq_None_iff option.distinct(1))
  then show ?thesis
    using Some assms [OF Some] by (cases e) (auto simp: entry_matches_def entry_of_def action_entry_def res_simps)
qed

lemma entries_loop_iff:
  "action_entries_loop r seen es = Inr () \<longleftrightarrow>
     distinct (map pe_actionId es) \<and> set (map pe_actionId es) \<inter> set seen = {}
     \<and> list_all (\<lambda>e. fits 128 (pe_actionId e) \<and> entry_matches r e = Inr ()) es"
  by (induction es arbitrary: seen) (auto simp: res_simps)

lemma distinct_cover:
  assumes "distinct xs" "distinct ys" "set xs \<subseteq> set ys" "length xs = length ys"
  shows "mset xs = mset ys"
proof -
  have "set xs = set ys" using assms by (metis card_subset_eq distinct_card finite_set)
  then show ?thesis using assms by (simp add: set_eq_iff_mset_eq_distinct)
qed

lemma index_accepted_iff:
  assumes v: "assertValidLifecycleRecord h r t = Inr r'" and k: "keyed r"
  shows "action_entries_loop r [] es = Inr () \<and> length es = length (lr_processedActions r)
    \<longleftrightarrow> mset es = mset (actionEntriesFromRecord r)"
proof
  let ?keys = "map fst (lr_processedActions r)"
  note m = entry_matches_iff [OF valid_action_ids(1) [OF v]]
  {
    assume "action_entries_loop r [] es = Inr () \<and> length es = length (lr_processedActions r)"
    then have d: "distinct (map pe_actionId es)" and l: "length (map pe_actionId es) = length ?keys"
      and a: "\<And>e. e \<in> set es \<Longrightarrow> pe_actionId e \<in> set ?keys \<and> e = entry_of r (pe_actionId e)"
      by (auto simp: entries_loop_iff list_all_iff m)
    have "mset (map pe_actionId es) = mset ?keys"
      using d l a k unfolding keyed_def by (intro distinct_cover) auto
    moreover have "map (entry_of r) (map pe_actionId es) = es"
      using a by (auto intro: map_idI)
    ultimately show "mset es = mset (actionEntriesFromRecord r)"
      by (metis entries_eq mset_map mset_sort)
  }
  assume e: "mset es = mset (actionEntriesFromRecord r)"
  have id: "pe_actionId (entry_of r x) = x" "fits 128 x" if "x \<in> set ?keys" for x
  proof -
    have "map_of (lr_processedActions r) x \<noteq> None" using that by (simp add: map_of_eq_None_iff)
    then obtain a where "map_of (lr_processedActions r) x = Some a" by blast
    then show "pe_actionId (entry_of r x) = x" "fits 128 x"
      using valid_action_ids [OF v] by (auto simp: entry_of_def action_entry_def)
  qed
  have "distinct (map pe_actionId es)"
  proof -
    have "map pe_actionId (actionEntriesFromRecord r) = sort ?keys"
      using id by (auto simp: entries_eq intro!: map_idI)
    then have "mset (map pe_actionId es) = mset ?keys" using e by (metis mset_map mset_sort)
    then show ?thesis using k unfolding keyed_def by (rule mset_eq_imp_distinct_iff [THEN iffD2])
  qed
  moreover have "set es = entry_of r ` set ?keys"
    using mset_eq_setD [OF e] by (simp add: entries_eq)
  moreover have "length es = length (lr_processedActions r)"
    using mset_eq_length [OF e] by (simp add: entries_eq)
  ultimately show "action_entries_loop r [] es = Inr () \<and> length es = length (lr_processedActions r)"
    using k id by (auto simp: entries_loop_iff m list_all_iff)
qed

lemma envelope_accepted:
  assumes "hex_digest h" "keyed (en_record e)"
  shows "assertValidPersistedLifecycleEnvelope h e t = Inr e \<longleftrightarrow>
    assertValidLifecycleRecord h (en_record e) t = Inr (en_record e)
    \<and> validateTrustSnapshot h (en_trustPolicy e) = Inr ()
    \<and> trustHash h (en_trustPolicy e) = trustHash h (lr_trust (en_record e))
    \<and> (\<exists>b. buildPersistedLifecycleEnvelope h (en_record e) = Inr b
        \<and> mset (en_actions e) = mset (en_actions b)
        \<and> e = b \<lparr> en_trustPolicy := en_trustPolicy e, en_actions := en_actions e \<rparr>)"
proof (cases "assertValidLifecycleRecord h (en_record e) t = Inr (en_record e)")
  case False
  then show ?thesis
    by (auto simp: assertValidPersistedLifecycleEnvelope_def Let_def assertValidLifecycleRecord_def res_simps)
next
  case True
  have "validate_header (en_record e) t = Inr ()"
    using True by (auto simp: assertValidLifecycleRecord_def res_simps)
  then show ?thesis
    using True index_accepted_iff [OF True assms(2), of "en_actions e"]
    by (cases e; cases "en_integrity e")
      (auto simp: assertValidPersistedLifecycleEnvelope_def Let_def buildPersistedLifecycleEnvelope_def
        hashes_ok [OF assms(1)] validate_header_def res_simps is_sha256_hash_def
        assms(1) [unfolded hex_digest_def, rule_format])
qed

text \<open>
  C26. Reading back a stored tender.  An envelope is accepted exactly when its
  record is valid and the envelope is the one the writer builds from that
  record: same header and integrity hashes, the action index in some order, and
  a valid trust snapshot whose hash is that of the record.  In particular
  what is written can always be read back, and a changed version, hash, time or
  action entry never passes.\<close>

theorem envelope_accepted_iff:
  assumes "hex_digest h" "keyed (en_record e)"
  shows "assertValidPersistedLifecycleEnvelope h e t = Inr e \<longleftrightarrow>
    assertValidLifecycleRecord h (en_record e) t = Inr (en_record e)
    \<and> validateTrustSnapshot h (en_trustPolicy e) = Inr ()
    \<and> trustHash h (en_trustPolicy e) = trustHash h (lr_trust (en_record e))
    \<and> (\<exists>b. buildPersistedLifecycleEnvelope h (en_record e) = Inr b
        \<and> mset (en_actions e) = mset (en_actions b)
        \<and> e = b \<lparr> en_trustPolicy := en_trustPolicy e, en_actions := en_actions e \<rparr>)"
  using envelope_accepted [OF assms] .

text \<open>The funded demonstration tender: one transition, one processed action.\<close>

definition demo_funded :: LifecycleRecord where
  "demo_funded = (case run_events demo_sha demo_created (take 1 demo_auction) of Inl _ \<Rightarrow> demo_created | Inr r \<Rightarrow> r)"

lemma demo_funded_valid:
  "assertValidLifecycleRecord demo_sha demo_funded ''T1'' = Inr demo_funded" "keyed demo_funded"
  "lr_state demo_funded = ESCROW_FUNDED" "length (lr_processedActions demo_funded) = 1"
proof -
  have "is_ok (assertValidLifecycleRecord demo_sha demo_funded ''T1'')" by code_simp
  then show "assertValidLifecycleRecord demo_sha demo_funded ''T1'' = Inr demo_funded"
    by (auto simp: is_ok_iff assertValidLifecycleRecord_def res_simps)
  show "keyed demo_funded" "lr_state demo_funded = ESCROW_FUNDED" "length (lr_processedActions demo_funded) = 1"
    by code_simp+
qed

theorem envelope_accepted_iff_witness:
  "\<exists>b. buildPersistedLifecycleEnvelope demo_sha demo_funded = Inr b
     \<and> assertValidPersistedLifecycleEnvelope demo_sha b ''T1'' = Inr b \<and> length (en_actions b) = 1"
proof -
  obtain b where b: "buildPersistedLifecycleEnvelope demo_sha demo_funded = Inr b"
    by (simp add: buildPersistedLifecycleEnvelope_def hashes_ok [OF demo_sha_digest])
  then have r: "en_record b = demo_funded" "en_trustPolicy b = lr_trust demo_funded"
    "en_actions b = actionEntriesFromRecord demo_funded"
    by (auto simp: buildPersistedLifecycleEnvelope_def res_simps)
  have "validateTrustSnapshot demo_sha (lr_trust demo_funded) = Inr ()"
    using demo_funded_valid(1) by (auto simp: assertValidLifecycleRecord_def res_simps)
  then have "assertValidPersistedLifecycleEnvelope demo_sha b ''T1'' = Inr b"
    using envelope_accepted_iff [OF demo_sha_digest, of b "''T1''"] demo_funded_valid b r by simp
  then show ?thesis using b r demo_funded_valid(4) by (simp add: entries_eq)
qed

end
