(* ===== verification/Lifecycle_Store.thy ===== *)
theory Lifecycle_Store
  imports Record_Envelope
begin

text \<open>
  Compare-and-set persistence, \<^verbatim>\<open>src/v2/store/lifecycle-store.ts\<close>: the shared
  preconditions, the in-memory store over a map of records and the file store over
  a directory of envelopes.  An operation takes the stored state and returns its
  result with the new state; the per-tender mutex and lock make each operation
  atomic, so concurrent callers are a sequence of operations.  What the file
  system does is an argument \<open>file_io\<close> of the file operations.

  The locale \<open>cas_store\<close> is the contract of the \<open>LifecycleStore\<close> interface; both
  stores interpret it.
\<close>

subsection \<open>Shared preconditions\<close>

definition assertRecordVersion :: "int \<Rightarrow> store_error + int" where
  "assertRecordVersion v =
     (if v < 1 \<or> \<not> \<bar>v\<bar> \<le> max_safe_integer then Inl InvalidRecordVersion else Inr v)"

definition assertImmutable :: "string \<Rightarrow> bool \<Rightarrow> store_error + unit" where
  "assertImmutable field eq = (if \<not> eq then Inl (ImmutableField field) else Inr ())"

definition receiptHash :: "hash_fn \<Rightarrow> LifecycleAccessReceipt option \<Rightarrow> store_error + string" where
  "receiptHash sha256 a = map_err ValidatorHash (canonicalSha256 sha256 (nullable receipt_json a))"

definition immutable_hash :: "string \<Rightarrow> store_error + string \<Rightarrow> store_error + string \<Rightarrow> store_error + unit" where
  "immutable_hash field before after =
     bind_res before (\<lambda>b. bind_res after (\<lambda>a. assertImmutable field (b = a)))"

definition action_kept :: "LifecycleRecord \<Rightarrow> string \<times> ProcessedActionRecord \<Rightarrow> store_error + unit" where
  "action_kept nextRecord ka =
     (case ka of (actionId, committed) \<Rightarrow>
      case map_of (lr_processedActions nextRecord) actionId of
        None \<Rightarrow> Inl (ActionConflict actionId)
      | Some nxt \<Rightarrow>
          if pa2_eventPayloadHash nxt \<noteq> pa2_eventPayloadHash committed
            \<or> pa2_recordVersionAfter nxt \<noteq> pa2_recordVersionAfter committed
            \<or> pa2_resultingState nxt \<noteq> pa2_resultingState committed
          then Inl (ActionConflict actionId) else Inr ())"

definition assertCasPreconditions ::
  "hash_fn \<Rightarrow> LifecycleRecord \<Rightarrow> int \<Rightarrow> LifecycleRecord \<Rightarrow> store_error + unit" where
  "assertCasPreconditions sha256 current expectedVersion nextRecord =
     checks [bind_res (assertRecordVersion (lr_recordVersion current)) (\<lambda>_. Inr ()),
       (if lr_recordVersion current \<noteq> expectedVersion
        then Inl (VersionConflict expectedVersion (lr_recordVersion current)) else Inr ()),
       assertImmutable ''tenderId'' (lr_tenderId current = lr_tenderId nextRecord),
       assertImmutable ''tenderVersion'' (lr_tenderVersion current = lr_tenderVersion nextRecord),
       assertImmutable ''tenderHash'' (lr_tenderHash current = lr_tenderHash nextRecord),
       assertImmutable ''maximumFreightBudgetAtomic''
         (lr_maximumFreightBudgetAtomic current = lr_maximumFreightBudgetAtomic nextRecord),
       immutable_hash ''trust'' (trustHash sha256 (lr_trust current)) (trustHash sha256 (lr_trust nextRecord)),
       (if lr_accessReceipt current \<noteq> None
        then immutable_hash ''accessReceipt'' (receiptHash sha256 (lr_accessReceipt current))
          (receiptHash sha256 (lr_accessReceipt nextRecord))
        else Inr ()),
       all_res (action_kept nextRecord) (lr_processedActions current)]"

definition withStoreVersion :: "LifecycleRecord \<Rightarrow> int \<Rightarrow> LifecycleRecord" where
  "withStoreVersion nextRecord expectedVersion =
     (if lr_recordVersion nextRecord = expectedVersion + 1 then nextRecord
      else nextRecord \<lparr> lr_recordVersion := expectedVersion + 1 \<rparr>)"

subsection \<open>The in-memory store\<close>

type_synonym lifecycle_records = "(string \<times> LifecycleRecord) list"

definition mem_create ::
  "hash_fn \<Rightarrow> CreateLifecycleInput \<Rightarrow> lifecycle_records \<Rightarrow> (store_error + LifecycleRecord) \<times> lifecycle_records" where
  "mem_create sha256 input records =
     (case bind_res (assertSafeTenderId (ci_tenderId input)) (\<lambda>_.
        if map_of records (ci_tenderId input) \<noteq> None then Inl (AlreadyExists (ci_tenderId input))
        else bind_res (map_err ReducerError (createLifecycleRecord sha256 input)) (\<lambda>record.
          assertValidLifecycleRecord sha256 record (ci_tenderId input))) of
        Inl e \<Rightarrow> (Inl e, records)
      | Inr record \<Rightarrow> (Inr record, AList.update (ci_tenderId input) record records))"

definition mem_get :: "hash_fn \<Rightarrow> string \<Rightarrow> lifecycle_records \<Rightarrow> store_error + LifecycleRecord option" where
  "mem_get sha256 tenderId records =
     (case map_of records tenderId of
        None \<Rightarrow> Inr None
      | Some record \<Rightarrow> bind_res (assertValidLifecycleRecord sha256 record tenderId) (\<lambda>r. Inr (Some r)))"

definition mem_compareAndSet ::
  "hash_fn \<Rightarrow> string \<Rightarrow> int \<Rightarrow> LifecycleRecord \<Rightarrow> lifecycle_records
     \<Rightarrow> (store_error + LifecycleRecord) \<times> lifecycle_records" where
  "mem_compareAndSet sha256 tenderId expectedVersion nextRecord records =
     (case bind_res (assertSafeTenderId tenderId) (\<lambda>_.
        bind_res (of_option (RecordNotFound tenderId) (map_of records tenderId)) (\<lambda>current.
        bind_res (assertCasPreconditions sha256 current expectedVersion nextRecord) (\<lambda>_.
          assertValidLifecycleRecord sha256 (withStoreVersion nextRecord expectedVersion) tenderId))) of
        Inl e \<Rightarrow> (Inl e, records)
      | Inr persisted \<Rightarrow> (Inr persisted, AList.update tenderId persisted records))"

subsection \<open>The file store\<close>

text \<open>
  What the file system does during an operation: the lock is refused, writing
  the temporary file fails, the rename fails, or reading the file back fails.
\<close>

datatype file_io = IoOk | LockRefused | TempWriteFails | RenameFails | ReadBackFails

datatype file_error = StoreFailure store_error | LockUnavailable | AtomicWriteError

type_synonym lifecycle_files = "(string \<times> PersistedLifecycleEnvelope) list"

definition readRecord :: "hash_fn \<Rightarrow> string \<Rightarrow> lifecycle_files \<Rightarrow> store_error + LifecycleRecord option" where
  "readRecord sha256 tenderId files =
     bind_res (assertSafeTenderId tenderId) (\<lambda>_.
     case map_of files tenderId of
       None \<Rightarrow> Inr None
     | Some e \<Rightarrow> bind_res (assertValidPersistedLifecycleEnvelope sha256 e tenderId) (\<lambda>v. Inr (Some (en_record v))))"

definition writeAtomic ::
  "hash_fn \<Rightarrow> file_io \<Rightarrow> string \<Rightarrow> LifecycleRecord \<Rightarrow> lifecycle_files
     \<Rightarrow> (file_error + LifecycleRecord) \<times> lifecycle_files" where
  "writeAtomic sha256 io tenderId record files =
     (case buildPersistedLifecycleEnvelope sha256 record of
        Inl e \<Rightarrow> (Inl (StoreFailure e), files)
      | Inr envelope \<Rightarrow>
          if io = TempWriteFails \<or> io = RenameFails then (Inl AtomicWriteError, files)
          else
            (if io = ReadBackFails then Inl AtomicWriteError
             else bind_res (map_err StoreFailure (assertValidPersistedLifecycleEnvelope sha256 envelope tenderId))
               (\<lambda>verified. if lr_recordVersion (en_record verified) \<noteq> lr_recordVersion record
                  then Inl AtomicWriteError else Inr record),
             AList.update tenderId envelope files))"

definition file_create ::
  "hash_fn \<Rightarrow> file_io \<Rightarrow> CreateLifecycleInput \<Rightarrow> lifecycle_files
     \<Rightarrow> (file_error + LifecycleRecord) \<times> lifecycle_files" where
  "file_create sha256 io input files =
     (case bind_res (map_err StoreFailure (assertSafeTenderId (ci_tenderId input))) (\<lambda>_.
        if io = LockRefused then Inl LockUnavailable
        else if map_of files (ci_tenderId input) \<noteq> None then Inl (StoreFailure (AlreadyExists (ci_tenderId input)))
        else map_err StoreFailure (bind_res (map_err ReducerError (createLifecycleRecord sha256 input)) (\<lambda>record.
          assertValidLifecycleRecord sha256 record (ci_tenderId input)))) of
        Inl e \<Rightarrow> (Inl e, files)
      | Inr record \<Rightarrow> writeAtomic sha256 io (ci_tenderId input) record files)"

definition file_compareAndSet ::
  "hash_fn \<Rightarrow> file_io \<Rightarrow> string \<Rightarrow> int \<Rightarrow> LifecycleRecord \<Rightarrow> lifecycle_files
     \<Rightarrow> (file_error + LifecycleRecord) \<times> lifecycle_files" where
  "file_compareAndSet sha256 io tenderId expectedVersion nextRecord files =
     (case bind_res (map_err StoreFailure (assertSafeTenderId tenderId)) (\<lambda>_.
        if io = LockRefused then Inl LockUnavailable
        else map_err StoreFailure (bind_res (readRecord sha256 tenderId files) (\<lambda>found.
          bind_res (of_option (RecordNotFound tenderId) found) (\<lambda>current.
          bind_res (assertCasPreconditions sha256 current expectedVersion nextRecord) (\<lambda>_.
            assertValidLifecycleRecord sha256 (withStoreVersion nextRecord expectedVersion) tenderId))))) of
        Inl e \<Rightarrow> (Inl e, files)
      | Inr persisted \<Rightarrow> writeAtomic sha256 io tenderId persisted files)"

subsection \<open>What a successful comparison keeps\<close>

definition same_action :: "ProcessedActionRecord \<Rightarrow> ProcessedActionRecord \<Rightarrow> bool" where
  "same_action a b \<longleftrightarrow> pa2_eventPayloadHash b = pa2_eventPayloadHash a
     \<and> pa2_recordVersionAfter b = pa2_recordVersionAfter a \<and> pa2_resultingState b = pa2_resultingState a"

definition carries_on :: "hash_fn \<Rightarrow> LifecycleRecord \<Rightarrow> LifecycleRecord \<Rightarrow> bool" where
  "carries_on h c n \<longleftrightarrow>
     lr_tenderId n = lr_tenderId c \<and> lr_tenderVersion n = lr_tenderVersion c
     \<and> lr_tenderHash n = lr_tenderHash c
     \<and> lr_maximumFreightBudgetAtomic n = lr_maximumFreightBudgetAtomic c
     \<and> trustHash h (lr_trust n) = trustHash h (lr_trust c)
     \<and> (\<forall>k a. map_of (lr_processedActions c) k = Some a
          \<longrightarrow> (\<exists>b. map_of (lr_processedActions n) k = Some b \<and> same_action a b))"

lemma assertImmutable_iff [res_simps]: "assertImmutable f b = Inr u \<longleftrightarrow> b"
  by (simp add: assertImmutable_def)

lemma immutable_hash_iff [res_simps]: "immutable_hash f x y = Inr u \<longleftrightarrow> (\<exists>d. x = Inr d \<and> y = Inr d)"
  by (auto simp: immutable_hash_def res_simps)

lemma assertRecordVersion_iff [res_simps]:
  "assertRecordVersion v = Inr w \<longleftrightarrow> w = v \<and> 1 \<le> v \<and> \<bar>v\<bar> \<le> max_safe_integer"
  by (auto simp: assertRecordVersion_def)

lemma action_kept_iff:
  "action_kept n (k, a) = Inr () \<longleftrightarrow> (\<exists>b. map_of (lr_processedActions n) k = Some b \<and> same_action a b)"
  by (auto simp: action_kept_def same_action_def split: option.splits)

lemma cas_preconditionsD:
  assumes "assertCasPreconditions h c v n = Inr ()"
  shows "lr_recordVersion c = v" "carries_on h c n" "1 \<le> v"
  using assms
  by (auto simp: assertCasPreconditions_def carries_on_def res_simps all_res_Inr_iff action_kept_iff
      dest!: map_of_SomeD split: if_splits)

lemma withStoreVersion_version [simp]: "lr_recordVersion (withStoreVersion n v) = v + 1"
  by (simp add: withStoreVersion_def)

lemma carries_on_version [simp]: "carries_on h c (withStoreVersion n v) = carries_on h c n"
  by (simp add: carries_on_def withStoreVersion_def)

lemma carries_on_refl [simp]: "carries_on h c c"
  by (simp add: carries_on_def same_action_def)

lemma carries_on_trans [trans]: "carries_on h a b \<Longrightarrow> carries_on h b c \<Longrightarrow> carries_on h a c"
  unfolding carries_on_def same_action_def by (auto; metis)

subsection \<open>The store contract\<close>

text \<open>
  Operations of concurrent clients in the order in which the store serves them;
  \<open>'i\<close> is what the environment does during the operation.
\<close>

datatype 'i store_op =
    OpCreate 'i CreateLifecycleInput
  | OpCas 'i string int LifecycleRecord

definition store_step ::
  "('i \<Rightarrow> CreateLifecycleInput \<Rightarrow> 's \<Rightarrow> 'r \<times> 's) \<Rightarrow> ('i \<Rightarrow> string \<Rightarrow> int \<Rightarrow> LifecycleRecord \<Rightarrow> 's \<Rightarrow> 'r \<times> 's)
     \<Rightarrow> 'i store_op \<Rightarrow> 's \<Rightarrow> 'r \<times> 's" where
  "store_step create cas op s =
     (case op of OpCreate i inp \<Rightarrow> create i inp s | OpCas i t v n \<Rightarrow> cas i t v n s)"

primrec store_run ::
  "('i \<Rightarrow> CreateLifecycleInput \<Rightarrow> 's \<Rightarrow> 'r \<times> 's) \<Rightarrow> ('i \<Rightarrow> string \<Rightarrow> int \<Rightarrow> LifecycleRecord \<Rightarrow> 's \<Rightarrow> 'r \<times> 's)
     \<Rightarrow> 'i store_op list \<Rightarrow> 's \<Rightarrow> 'r list \<times> 's" where
  "store_run create cas [] s = ([], s)"
| "store_run create cas (op # ops) s =
     (case store_step create cas op s of (r, s') \<Rightarrow>
      case store_run create cas ops s' of (rs, s'') \<Rightarrow> (r # rs, s''))"

locale cas_store =
  fixes h :: hash_fn
    and look :: "'s \<Rightarrow> string \<Rightarrow> LifecycleRecord option"
    and create :: "'i \<Rightarrow> CreateLifecycleInput \<Rightarrow> 's \<Rightarrow> ('e + LifecycleRecord) \<times> 's"
    and cas :: "'i \<Rightarrow> string \<Rightarrow> int \<Rightarrow> LifecycleRecord \<Rightarrow> 's \<Rightarrow> ('e + LifecycleRecord) \<times> 's"
  assumes create_step: "create i inp s = (res, s') \<Longrightarrow>
      look s' = look s \<or> (look s (ci_tenderId inp) = None
        \<and> (\<exists>p. createLifecycleRecord h inp = Inr p \<and> look s' = (look s)(ci_tenderId inp \<mapsto> p)))"
    and create_ok: "create i inp s = (Inr p, s') \<Longrightarrow> look s (ci_tenderId inp) = None
        \<and> look s' = (look s)(ci_tenderId inp \<mapsto> p)"
    and cas_step: "cas i t v n s = (res, s') \<Longrightarrow>
      look s' = look s \<or> (\<exists>c. look s t = Some c \<and> lr_recordVersion c = v
        \<and> carries_on h c n \<and> look s' = (look s)(t \<mapsto> withStoreVersion n v))"
    and cas_ok: "cas i t v n s = (Inr p, s') \<Longrightarrow>
      p = withStoreVersion n v \<and> look s' = (look s)(t \<mapsto> p)
        \<and> (\<exists>c. look s t = Some c \<and> lr_recordVersion c = v)"
begin

lemma step_grows:
  assumes "store_step create cas op s = (res, s')" "look s t = Some c"
  shows "\<exists>c'. look s' t = Some c' \<and> lr_recordVersion c \<le> lr_recordVersion c' \<and> carries_on h c c'"
proof (cases op)
  case (OpCreate i inp)
  then have "create i inp s = (res, s')" using assms(1) by (simp add: store_step_def)
  then show ?thesis using create_step [of i inp s res s'] assms(2) by auto
next
  case (OpCas i u v n)
  then have "cas i u v n s = (res, s')" using assms(1) by (simp add: store_step_def)
  then show ?thesis using cas_step [of i u v n s res s'] assms(2) by auto
qed

lemma run_grows:
  assumes "store_run create cas ops s = (rs, s')" "look s t = Some c"
  shows "\<exists>c'. look s' t = Some c' \<and> lr_recordVersion c \<le> lr_recordVersion c' \<and> carries_on h c c'"
  using assms
proof (induction ops arbitrary: s rs c)
  case Nil
  then show ?case by auto
next
  case (Cons op ops)
  obtain r1 s1 where st: "store_step create cas op s = (r1, s1)" by fastforce
  obtain rs1 where ru: "store_run create cas ops s1 = (rs1, s')"
    using Cons.prems(1) st by (auto split: prod.splits)
  obtain c1 where c1: "look s1 t = Some c1" "lr_recordVersion c \<le> lr_recordVersion c1" "carries_on h c c1"
    using step_grows [OF st Cons.prems(2)] by blast
  obtain c' where "look s' t = Some c'" "lr_recordVersion c1 \<le> lr_recordVersion c'" "carries_on h c1 c'"
    using Cons.IH [OF ru c1(1)] by blast
  then show ?case using c1 carries_on_trans by force
qed

text \<open>Every change raises the version, so an unchanged version means an unchanged record.\<close>

lemma step_same_or_newer:
  assumes "store_step create cas op s = (res, s')" "look s t = Some c" "look s' t = Some c'"
  shows "c' = c \<or> lr_recordVersion c < lr_recordVersion c'"
proof (cases op)
  case (OpCreate i inp)
  then have "create i inp s = (res, s')" using assms(1) by (simp add: store_step_def)
  then show ?thesis using create_step [of i inp s res s'] assms(2,3) by (auto split: if_splits)
next
  case (OpCas i u v n)
  then have "cas i u v n s = (res, s')" using assms(1) by (simp add: store_step_def)
  then show ?thesis using cas_step [of i u v n s res s'] assms(2,3) by (auto split: if_splits)
qed

lemma run_same_or_newer:
  assumes "store_run create cas ops s = (rs, s')" "look s t = Some c" "look s' t = Some c'"
  shows "c' = c \<or> lr_recordVersion c < lr_recordVersion c'"
  using assms
proof (induction ops arbitrary: s rs c)
  case (Cons op ops)
  obtain r1 s1 where st: "store_step create cas op s = (r1, s1)" by fastforce
  obtain rs1 where ru: "store_run create cas ops s1 = (rs1, s')"
    using Cons.prems(1) st by (auto split: prod.splits)
  obtain c1 where c1: "look s1 t = Some c1" using step_grows [OF st Cons.prems(2)] by blast
  show ?case
    using step_same_or_newer [OF st Cons.prems(2) c1] Cons.IH [OF ru c1 Cons.prems(3)] by auto
qed auto

lemma stale_fails:
  assumes "look s t = Some c" "v < lr_recordVersion c" "store_run create cas ops s = (rs, s')"
    and "j < length ops" "ops ! j = OpCas i t v n"
  shows "\<exists>e. rs ! j = Inl e"
  using assms
proof (induction ops arbitrary: s rs c j)
  case Nil
  then show ?case by simp
next
  case (Cons op ops)
  obtain r1 s1 where st: "store_step create cas op s = (r1, s1)" by fastforce
  obtain rs1 where ru: "store_run create cas ops s1 = (rs1, s')" and rs: "rs = r1 # rs1"
    using Cons.prems(3) st by (auto split: prod.splits)
  show ?case
  proof (cases j)
    case 0
    then have "cas i t v n s = (r1, s1)" using st Cons.prems(5) by (simp add: store_step_def)
    then show ?thesis using 0 rs cas_ok [of i t v n s _ s1] Cons.prems(1,2) by (cases r1) auto
  next
    case (Suc k)
    obtain c1 where "look s1 t = Some c1" "lr_recordVersion c \<le> lr_recordVersion c1"
      using step_grows [OF st Cons.prems(1)] by blast
    then show ?thesis
      using Cons.IH [of s1 c1 rs1 k] Cons.prems(2,4,5) ru rs Suc by simp
  qed
qed

lemma one_winner:
  assumes "store_run create cas ops s = (rs, s')" "i < j" "j < length ops"
    and "ops ! i = OpCas x t v n" "ops ! j = OpCas y t v m" "rs ! i = Inr p"
  shows "\<exists>e. rs ! j = Inl e"
  using assms
proof (induction ops arbitrary: s rs i j)
  case Nil
  then show ?case by simp
next
  case (Cons op ops)
  obtain r1 s1 where st: "store_step create cas op s = (r1, s1)" by fastforce
  obtain rs1 where ru: "store_run create cas ops s1 = (rs1, s')" and rs: "rs = r1 # rs1"
    using Cons.prems(1) st by (auto split: prod.splits)
  obtain k where j: "j = Suc k" using Cons.prems(2) by (cases j) auto
  show ?case
  proof (cases i)
    case 0
    then have "cas x t v n s = (Inr p, s1)" using st rs Cons.prems(4,6) by (simp add: store_step_def)
    then have "look s1 t = Some p" "lr_recordVersion p = v + 1" using cas_ok [of x t v n s p s1] by auto
    then show ?thesis using stale_fails [OF _ _ ru, of t p v k y m] Cons.prems(3,5) rs j by simp
  next
    case (Suc i')
    then show ?thesis using Cons.IH [OF ru, of i' k] Cons.prems rs j by simp
  qed
qed

end

text \<open>
  A store that can always be read: \<open>inv\<close> holds of every state its operations
  produce from well-formed records, and under it \<open>get\<close> returns what is stored.
\<close>

locale readable_store = cas_store h look create cas
  for h :: hash_fn
    and look :: "'s \<Rightarrow> string \<Rightarrow> LifecycleRecord option"
    and create :: "'i \<Rightarrow> CreateLifecycleInput \<Rightarrow> 's \<Rightarrow> ('e + LifecycleRecord) \<times> 's"
    and cas :: "'i \<Rightarrow> string \<Rightarrow> int \<Rightarrow> LifecycleRecord \<Rightarrow> 's \<Rightarrow> ('e + LifecycleRecord) \<times> 's" +
  fixes get :: "string \<Rightarrow> 's \<Rightarrow> 'e + LifecycleRecord option"
    and inv :: "'s \<Rightarrow> bool"
  assumes get_stored: "inv s \<Longrightarrow> look s t = Some c \<Longrightarrow> get t s = Inr (Some c)"
    and get_found: "get t s = Inr (Some c) \<Longrightarrow> look s t = Some c"
    and inv_keyed: "inv s \<Longrightarrow> look s t = Some c \<Longrightarrow> keyed c"
    and inv_create: "inv s \<Longrightarrow> create i inp s = (res, s') \<Longrightarrow> inv s'"
    and inv_cas: "inv s \<Longrightarrow> keyed n \<Longrightarrow> cas i t v n s = (res, s') \<Longrightarrow> inv s'"
begin

lemma run_inv:
  assumes "inv s" "store_run create cas ops s = (rs, s')"
    and "\<And>i t v n. OpCas i t v n \<in> set ops \<Longrightarrow> keyed n"
  shows "inv s'"
  using assms
proof (induction ops arbitrary: s rs)
  case (Cons op ops)
  obtain r1 s1 where st: "store_step create cas op s = (r1, s1)" by fastforce
  obtain rs1 where ru: "store_run create cas ops s1 = (rs1, s')"
    using Cons.prems(2) st by (auto split: prod.splits)
  have "inv s1"
  proof (cases op)
    case (OpCreate i inp)
    then show ?thesis using st inv_create [OF Cons.prems(1)] by (simp add: store_step_def)
  next
    case (OpCas i t v n)
    then have "keyed n" "cas i t v n s = (r1, s1)" using st Cons.prems(3) by (auto simp: store_step_def)
    then show ?thesis by (rule inv_cas [OF Cons.prems(1)])
  qed
  moreover have "keyed n" if "OpCas i t v n \<in> set ops" for i t v n using Cons.prems(3) that by auto
  ultimately show ?case using Cons.IH [OF _ ru] by blast
qed auto

end

subsection \<open>Both stores keep the contract\<close>

lemma create_fields_fresh:
  assumes "createLifecycleRecord h inp = Inr r"
  shows "lr_recordVersion r = 1" "lr_tenderId r = ci_tenderId inp" "keyed r"
  using assms by (auto simp: createLifecycleRecord_def Let_def keyed_def split: if_splits)

lemma valid_same: "assertValidLifecycleRecord h r t = Inr r' \<Longrightarrow> r' = r \<and> assertSafeTenderId t = Inr ()"
  by (auto simp: assertValidLifecycleRecord_def res_simps)

lemma commit_iffs:
  "(case m of Inl e \<Rightarrow> (Inl e, s) | Inr x \<Rightarrow> (Inr x, f x)) = (Inr p, s') \<longleftrightarrow> m = Inr p \<and> s' = f p"
  "(case m of Inl e \<Rightarrow> (Inl e, s) | Inr x \<Rightarrow> (Inr x, f x)) = (Inl e', s') \<longleftrightarrow> m = Inl e' \<and> s' = s"
  by (cases m; auto)+

lemma mem_create_iff:
  "mem_create h inp s = (Inr p, s') \<longleftrightarrow>
     createLifecycleRecord h inp = Inr p \<and> map_of s (ci_tenderId inp) = None
     \<and> assertValidLifecycleRecord h p (ci_tenderId inp) = Inr p \<and> s' = AList.update (ci_tenderId inp) p s"
  unfolding mem_create_def commit_iffs by (auto simp: res_simps dest: valid_same split: if_splits)

lemma mem_cas_iff:
  "mem_compareAndSet h t v n s = (Inr p, s') \<longleftrightarrow>
     (\<exists>c. map_of s t = Some c \<and> assertCasPreconditions h c v n = Inr () \<and> p = withStoreVersion n v
       \<and> assertValidLifecycleRecord h p t = Inr p \<and> s' = AList.update t p s)"
  unfolding mem_compareAndSet_def commit_iffs by (auto simp: res_simps dest: valid_same)

lemma mem_errors_keep:
  "mem_create h inp s = (Inl e, s') \<Longrightarrow> s' = s"
  "mem_compareAndSet h t v n s = (Inl e, s') \<Longrightarrow> s' = s"
  unfolding mem_create_def mem_compareAndSet_def commit_iffs by auto

lemma map_of_AList_update: "map_of (AList.update k v al) = (map_of al)(k \<mapsto> v)"
  by (simp add: update_conv')

interpretation mem: cas_store h map_of "\<lambda>(_ :: unit). mem_create h" "\<lambda>(_ :: unit). mem_compareAndSet h" for h
proof
  fix inp s res s' p
  show "map_of s' = map_of s \<or> (map_of s (ci_tenderId inp) = None
        \<and> (\<exists>p. createLifecycleRecord h inp = Inr p \<and> map_of s' = (map_of s)(ci_tenderId inp \<mapsto> p)))"
    if "mem_create h inp s = (res, s')"
    using that
    by (cases res) (auto simp: mem_create_iff map_of_AList_update dest: mem_errors_keep)
  show "map_of s (ci_tenderId inp) = None \<and> map_of s' = (map_of s)(ci_tenderId inp \<mapsto> p)"
    if "mem_create h inp s = (Inr p, s')"
    using that by (auto simp: mem_create_iff map_of_AList_update)
next
  fix t v n s res s' p
  show "map_of s' = map_of s \<or> (\<exists>c. map_of s t = Some c \<and> lr_recordVersion c = v
        \<and> carries_on h c n \<and> map_of s' = (map_of s)(t \<mapsto> withStoreVersion n v))"
    if "mem_compareAndSet h t v n s = (res, s')"
  proof (cases res)
    case (Inl e)
    then show ?thesis using that mem_errors_keep(2) [of h t v n s e s'] by simp
  next
    case (Inr p)
    then show ?thesis
      using that cas_preconditionsD [of h _ v n]
      by (metis mem_cas_iff map_of_AList_update)
  qed
  show "p = withStoreVersion n v \<and> map_of s' = (map_of s)(t \<mapsto> p)
        \<and> (\<exists>c. map_of s t = Some c \<and> lr_recordVersion c = v)"
    if "mem_compareAndSet h t v n s = (Inr p, s')"
    using that by (auto simp: mem_cas_iff map_of_AList_update dest: cas_preconditionsD)
qed

definition file_look :: "lifecycle_files \<Rightarrow> string \<Rightarrow> LifecycleRecord option" where
  "file_look files t = map_option en_record (map_of files t)"

lemma build_record: "buildPersistedLifecycleEnvelope h r = Inr e \<Longrightarrow> en_record e = r"
  by (auto simp: buildPersistedLifecycleEnvelope_def res_simps)

lemma readRecord_look: "readRecord h t s = Inr (Some c) \<Longrightarrow> file_look s t = Some c"
  by (auto simp: readRecord_def file_look_def res_simps assertValidPersistedLifecycleEnvelope_def Let_def
      split: option.splits)

lemma writeAtomic_cases:
  assumes "writeAtomic h io t r s = (res, s')"
  shows "(file_look s' = file_look s \<and> \<not> is_ok res) \<or> (file_look s' = (file_look s)(t \<mapsto> r) \<and> (is_ok res \<longrightarrow> res = Inr r))"
  using assms
  by (auto simp: writeAtomic_def file_look_def fun_eq_iff update_conv' build_record res_simps is_ok_iff
      split: sum.splits if_splits)

lemma file_create_cases:
  assumes "file_create h io inp s = (res, s')"
  shows "(s' = s \<and> \<not> is_ok res) \<or> (\<exists>p. createLifecycleRecord h inp = Inr p \<and> file_look s (ci_tenderId inp) = None
    \<and> assertValidLifecycleRecord h p (ci_tenderId inp) = Inr p
    \<and> writeAtomic h io (ci_tenderId inp) p s = (res, s'))"
proof -
  have "is_ok (map_err StoreFailure x) \<longleftrightarrow> is_ok x" for x :: "store_error + LifecycleRecord"
    by (cases x) auto
  then show ?thesis
    using assms unfolding file_create_def
    by (auto simp: res_simps file_look_def dest: valid_same split: sum.splits if_splits)
qed

lemma file_cas_cases:
  assumes "file_compareAndSet h io t v n s = (res, s')"
  shows "(s' = s \<and> \<not> is_ok res) \<or> (\<exists>c. readRecord h t s = Inr (Some c) \<and> assertCasPreconditions h c v n = Inr ()
    \<and> assertValidLifecycleRecord h (withStoreVersion n v) t = Inr (withStoreVersion n v)
    \<and> writeAtomic h io t (withStoreVersion n v) s = (res, s'))"
  using assms unfolding file_compareAndSet_def
  by (auto simp: res_simps dest: valid_same split: sum.splits if_splits)

interpretation disk: cas_store h file_look "file_create h" "file_compareAndSet h" for h
proof
  fix io inp s res s' p
  show "file_look s' = file_look s \<or> (file_look s (ci_tenderId inp) = None
        \<and> (\<exists>p. createLifecycleRecord h inp = Inr p \<and> file_look s' = (file_look s)(ci_tenderId inp \<mapsto> p)))"
    if "file_create h io inp s = (res, s')"
    using file_create_cases [OF that] writeAtomic_cases [of h io "ci_tenderId inp" _ s res s'] by blast
  show "file_look s (ci_tenderId inp) = None \<and> file_look s' = (file_look s)(ci_tenderId inp \<mapsto> p)"
    if "file_create h io inp s = (Inr p, s')"
    using file_create_cases [OF that] writeAtomic_cases [of h io "ci_tenderId inp" _ s "Inr p" s'] by auto
next
  fix io t v n s res s' p
  show "file_look s' = file_look s \<or> (\<exists>c. file_look s t = Some c \<and> lr_recordVersion c = v
        \<and> carries_on h c n \<and> file_look s' = (file_look s)(t \<mapsto> withStoreVersion n v))"
    if "file_compareAndSet h io t v n s = (res, s')"
    using file_cas_cases [OF that] writeAtomic_cases [of h io t _ s res s']
      cas_preconditionsD [of h _ v n] readRecord_look [of h t s]
    by metis
  show "p = withStoreVersion n v \<and> file_look s' = (file_look s)(t \<mapsto> p)
        \<and> (\<exists>c. file_look s t = Some c \<and> lr_recordVersion c = v)"
    if "file_compareAndSet h io t v n s = (Inr p, s')"
    using file_cas_cases [OF that] writeAtomic_cases [of h io t _ s "Inr p" s']
      cas_preconditionsD [of h _ v n] readRecord_look [of h t s]
    by (metis Inr_inject is_ok_simps(2))
qed

subsection \<open>Concurrent writers\<close>

text \<open>
  Of all clients that read a tender at the same version and write it back,
  at most one commits: in any order of operations on the file store, whatever
  the file system does, a second compare-and-set with the same expected version
  fails.\<close>

theorem stale_write_fails:
  assumes "store_run (file_create h) (file_compareAndSet h) ops s = (rs, s')"
    and "i < j" "j < length ops" "ops ! i = OpCas x t v n" "ops ! j = OpCas y t v m" "rs ! i = Inr p"
  shows "\<exists>e. rs ! j = Inl e"
  using disk.one_winner [OF assms] .

lemma memory_stale_write_fails:
  assumes "store_run (\<lambda>_. mem_create h) (\<lambda>_. mem_compareAndSet h) ops s = (rs, s')"
    and "i < j" "j < length ops" "ops ! i = OpCas () t v n" "ops ! j = OpCas () t v m" "rs ! i = Inr p"
  shows "\<exists>e. rs ! j = Inl e"
  using mem.one_winner [OF assms] .

text \<open>
  A stored tender never goes back: after any operations of any clients it
  is still stored, its version has not decreased, its identity and budget are
  the same, its trust snapshot has the same hash and every committed action
  is still there with the same payload hash, version and state.\<close>

theorem stored_tender_carries_on:
  assumes "file_look s t = Some c" "store_run (file_create h) (file_compareAndSet h) ops s = (rs, s')"
  shows "\<exists>c'. file_look s' t = Some c' \<and> lr_recordVersion c \<le> lr_recordVersion c' \<and> carries_on h c c'"
  using disk.run_grows [OF assms(2,1)] .

subsection \<open>The file store implements the in-memory store\<close>

definition files_inv :: "hash_fn \<Rightarrow> lifecycle_files \<Rightarrow> bool" where
  "files_inv h s \<longleftrightarrow> (\<forall>t e. map_of s t = Some e \<longrightarrow>
     keyed (en_record e) \<and> assertValidLifecycleRecord h (en_record e) t = Inr (en_record e)
     \<and> buildPersistedLifecycleEnvelope h (en_record e) = Inr e)"

definition records_of :: "lifecycle_files \<Rightarrow> lifecycle_records" where
  "records_of s = map (map_prod id en_record) s"

lemma map_of_records: "map_of (records_of s) t = file_look s t"
  by (induction s) (auto simp: records_of_def file_look_def)

lemma records_of_update: "records_of (AList.update t e s) = AList.update t (en_record e) (records_of s)"
  by (induction s) (auto simp: records_of_def)

lemma keyed_withStoreVersion [simp]: "keyed (withStoreVersion n v) = keyed n"
  by (simp add: keyed_def withStoreVersion_def)

lemma written_is_read:
  assumes "hex_digest h" "keyed r" "assertValidLifecycleRecord h r t = Inr r"
  obtains e where "buildPersistedLifecycleEnvelope h r = Inr e" "en_record e = r"
    "assertValidPersistedLifecycleEnvelope h e t = Inr e"
proof -
  obtain e where e: "buildPersistedLifecycleEnvelope h r = Inr e"
    by (simp add: buildPersistedLifecycleEnvelope_def hashes_ok [OF assms(1)])
  then have r: "en_record e = r" "en_trustPolicy e = lr_trust r" "en_actions e = actionEntriesFromRecord r"
    by (auto simp: buildPersistedLifecycleEnvelope_def res_simps)
  have "validateTrustSnapshot h (lr_trust r) = Inr ()"
    using assms(3) by (auto simp: assertValidLifecycleRecord_def res_simps)
  then have "assertValidPersistedLifecycleEnvelope h e t = Inr e"
    using envelope_accepted [OF assms(1), of e t] assms(2,3) e r by simp
  then show thesis using that e r by blast
qed

lemma readRecord_inv:
  assumes "hex_digest h" "files_inv h s" "assertSafeTenderId t = Inr ()"
  shows "readRecord h t s = Inr (file_look s t)"
proof (cases "map_of s t")
  case (Some e)
  then have i: "keyed (en_record e)" "assertValidLifecycleRecord h (en_record e) t = Inr (en_record e)"
    "buildPersistedLifecycleEnvelope h (en_record e) = Inr e" using assms(2) by (auto simp: files_inv_def)
  obtain e' where "buildPersistedLifecycleEnvelope h (en_record e) = Inr e'"
    "assertValidPersistedLifecycleEnvelope h e' t = Inr e'" using written_is_read [OF assms(1) i(1,2)] .
  then have "assertValidPersistedLifecycleEnvelope h e t = Inr e" using i(3) by simp
  then show ?thesis using Some assms(3) by (simp add: readRecord_def file_look_def)
qed (use assms(3) in \<open>simp add: readRecord_def file_look_def\<close>)

lemma writeAtomic_inv:
  assumes "hex_digest h" "files_inv h s" "keyed r" "assertValidLifecycleRecord h r t = Inr r"
    and "writeAtomic h io t r s = (res, s')" "io \<noteq> LockRefused"
  shows "files_inv h s' \<and>
    (if io = TempWriteFails \<or> io = RenameFails then s' = s else records_of s' = AList.update t r (records_of s))
    \<and> res = (if io = IoOk then Inr r else Inl AtomicWriteError)"
proof -
  obtain e where e: "buildPersistedLifecycleEnvelope h r = Inr e" "en_record e = r"
    "assertValidPersistedLifecycleEnvelope h e t = Inr e"
    using written_is_read [OF assms(1,3,4)] .
  have "files_inv h (AList.update t e s)"
    using assms(2-4) e by (auto simp: files_inv_def update_conv')
  then show ?thesis
    using assms(2,5,6) e by (cases io) (auto simp: writeAtomic_def records_of_update)
qed

lemma file_cas_refines:
  assumes "hex_digest h" "files_inv h s" "keyed n"
    and f: "file_compareAndSet h io t v n s = (res, s')"
    and m: "mem_compareAndSet h t v n (records_of s) = (mres, ms')"
  shows "files_inv h s' \<and>
    (case io of
       IoOk \<Rightarrow> res = map_err StoreFailure mres \<and> records_of s' = ms'
     | ReadBackFails \<Rightarrow> \<not> is_ok res \<and> records_of s' = ms'
     | _ \<Rightarrow> \<not> is_ok res \<and> s' = s)"
proof (cases "assertSafeTenderId t")
  case (Inl e)
  then show ?thesis
    using f m assms(2) by (auto simp: file_compareAndSet_def mem_compareAndSet_def split: file_io.splits)
next
  case (Inr u)
  then have safe: "assertSafeTenderId t = Inr ()" by simp
  let ?plan = "bind_res (of_option (RecordNotFound t) (file_look s t)) (\<lambda>current.
    bind_res (assertCasPreconditions h current v n) (\<lambda>_.
      assertValidLifecycleRecord h (withStoreVersion n v) t))"
  have fm: "(mres, ms') = (case ?plan of Inl e \<Rightarrow> (Inl e, records_of s)
      | Inr p \<Rightarrow> (Inr p, AList.update t p (records_of s)))"
    using m safe by (simp add: mem_compareAndSet_def map_of_records)
  have ff: "(res, s') = (case (if io = LockRefused then Inl LockUnavailable else map_err StoreFailure ?plan) of
      Inl e \<Rightarrow> (Inl e, s) | Inr p \<Rightarrow> writeAtomic h io t p s)"
    using f [symmetric]
    unfolding file_compareAndSet_def safe readRecord_inv [OF assms(1,2) safe] bind_res_simps map_err_simps .
  show ?thesis
  proof (cases ?plan)
    case (Inl e)
    then show ?thesis using ff fm assms(2) by (auto split: file_io.splits if_splits)
  next
    case (Inr p)
    then have p: "p = withStoreVersion n v" "assertValidLifecycleRecord h p t = Inr p"
      by (auto simp: res_simps dest: valid_same)
    show ?thesis
      using ff fm Inr assms(2) writeAtomic_inv [OF assms(1,2) _ p(2), of io res s'] p(1) assms(3)
      by (auto split: file_io.splits if_splits)
  qed
qed

text \<open>
  C17. Both adapters agree.  On a directory the store wrote, a file-store
  compare-and-set that meets no input/output error returns what the in-memory
  store returns on the same records and leaves the same records behind.  If
  the lock is refused or the temporary write or the rename fails, nothing
  changes; if only the read-back fails, the caller gets an error although the
  new record is stored.  The directory stays one the store can read.\<close>

theorem file_store_refines_memory:
  assumes "hex_digest h" "files_inv h s" "keyed n"
    and f: "file_compareAndSet h io t v n s = (res, s')"
    and m: "mem_compareAndSet h t v n (records_of s) = (mres, ms')"
  shows "files_inv h s' \<and>
    (case io of
       IoOk \<Rightarrow> res = map_err StoreFailure mres \<and> records_of s' = ms'
     | ReadBackFails \<Rightarrow> \<not> is_ok res \<and> records_of s' = ms'
     | _ \<Rightarrow> \<not> is_ok res \<and> s' = s)"
  using file_cas_refines [OF assms] .

lemma file_create_inv:
  assumes "hex_digest h" "files_inv h s" "file_create h io inp s = (res, s')"
  shows "files_inv h s'"
proof (cases "s' = s")
  case False
  then obtain p where p: "createLifecycleRecord h inp = Inr p"
    "assertValidLifecycleRecord h p (ci_tenderId inp) = Inr p" "writeAtomic h io (ci_tenderId inp) p s = (res, s')"
    using file_create_cases [OF assms(3)] by blast
  have "io \<noteq> LockRefused"
    using assms(3) False by (auto simp: file_create_def bind_res_def split: sum.splits)
  then show ?thesis using writeAtomic_inv [OF assms(1,2) create_fields_fresh(3) [OF p(1)] p(2,3)] by blast
qed (use assms(2) in simp)

definition mem_inv :: "hash_fn \<Rightarrow> lifecycle_records \<Rightarrow> bool" where
  "mem_inv h s \<longleftrightarrow> (\<forall>t r. map_of s t = Some r
     \<longrightarrow> keyed r \<and> assertValidLifecycleRecord h r t = Inr r)"

lemma mem_inv_put:
  "mem_inv h s \<Longrightarrow> keyed p \<Longrightarrow> assertValidLifecycleRecord h p t = Inr p \<Longrightarrow> mem_inv h (AList.update t p s)"
  by (simp add: mem_inv_def map_of_AList_update)

lemma mem_inv_create: "mem_inv h s \<Longrightarrow> mem_create h inp s = (res, s') \<Longrightarrow> mem_inv h s'"
  using mem_create_iff [of h inp s _ s'] mem_errors_keep(1) [of h inp s _ s'] mem_inv_put create_fields_fresh(3)
  by (cases res) metis+

lemma mem_inv_cas: "mem_inv h s \<Longrightarrow> keyed n \<Longrightarrow> mem_compareAndSet h t v n s = (res, s') \<Longrightarrow> mem_inv h s'"
  using mem_cas_iff [of h t v n s _ s'] mem_errors_keep(2) [of h t v n s _ s'] mem_inv_put
    keyed_withStoreVersion by (cases res) metis+

interpretation mem_r: readable_store h map_of "\<lambda>(_ :: unit). mem_create h" "\<lambda>(_ :: unit). mem_compareAndSet h"
  "mem_get h" "mem_inv h" for h
proof
  fix s t c
  show "mem_get h t s = Inr (Some c)" if "mem_inv h s" "map_of s t = Some c"
    using that by (simp add: mem_get_def mem_inv_def)
  show "map_of s t = Some c" if "mem_get h t s = Inr (Some c)"
    using that by (auto simp: mem_get_def res_simps dest: valid_same split: option.splits)
  show "keyed c" if "mem_inv h s" "map_of s t = Some c" using that by (simp add: mem_inv_def)
qed (blast intro: mem_inv_create mem_inv_cas)+

definition disk_inv :: "hash_fn \<Rightarrow> lifecycle_files \<Rightarrow> bool" where
  "disk_inv h s \<longleftrightarrow> hex_digest h \<and> files_inv h s"

lemma disk_inv_cas:
  assumes "disk_inv h s" "keyed n" "file_compareAndSet h io t v n s = (res, s')"
  shows "disk_inv h s'"
proof -
  obtain mres ms' where "mem_compareAndSet h t v n (records_of s) = (mres, ms')" by fastforce
  then show ?thesis using file_cas_refines [OF _ _ assms(2,3)] assms(1) by (auto simp: disk_inv_def)
qed

interpretation disk_r: readable_store h file_look "file_create h" "file_compareAndSet h"
  "\<lambda>t s. map_err StoreFailure (readRecord h t s)" "disk_inv h" for h
proof
  fix s t c
  show "map_err StoreFailure (readRecord h t s) = Inr (Some c)" if "disk_inv h s" "file_look s t = Some c"
  proof -
    have "\<exists>e. map_of s t = Some e" using that(2) by (auto simp: file_look_def)
    then have "assertSafeTenderId t = Inr ()"
      using that(1) by (auto simp: disk_inv_def files_inv_def dest: valid_same)
    then show ?thesis using readRecord_inv [of h s t] that by (simp add: disk_inv_def)
  qed
  show "file_look s t = Some c" if "map_err StoreFailure (readRecord h t s) = Inr (Some c)"
    using that readRecord_look by (simp add: res_simps)
  show "keyed c" if "disk_inv h s" "file_look s t = Some c"
    using that by (auto simp: disk_inv_def files_inv_def file_look_def)
next
  fix s i inp res s'
  show "disk_inv h s'" if "disk_inv h s" "file_create h i inp s = (res, s')"
    using file_create_inv that by (auto simp: disk_inv_def)
next
  fix s n i t v res s'
  show "disk_inv h s'" if "disk_inv h s" "keyed n" "file_compareAndSet h i t v n s = (res, s')"
    using disk_inv_cas [OF that] .
qed

subsection \<open>Two clients fund the demonstration tender\<close>

definition demo_files :: lifecycle_files where
  "demo_files = [(''T1'', (case buildPersistedLifecycleEnvelope demo_sha demo_created of Inr e \<Rightarrow> e))]"

definition demo_ops :: "file_io store_op list" where
  "demo_ops = [OpCas IoOk ''T1'' 1 demo_funded, OpCas ReadBackFails ''T1'' 1 demo_funded]"

lemma demo_created_valid:
  "assertValidLifecycleRecord demo_sha demo_created ''T1'' = Inr demo_created" "keyed demo_created"
proof -
  have "is_ok (assertValidLifecycleRecord demo_sha demo_created ''T1'')" by code_simp
  then show "assertValidLifecycleRecord demo_sha demo_created ''T1'' = Inr demo_created"
    by (auto simp: is_ok_iff dest: valid_same)
  show "keyed demo_created" by code_simp
qed

lemma demo_files_inv:
  "files_inv demo_sha demo_files" "records_of demo_files = [(''T1'', demo_created)]"
  "file_look demo_files ''T1'' = Some demo_created"
proof -
  obtain e where e: "buildPersistedLifecycleEnvelope demo_sha demo_created = Inr e" "en_record e = demo_created"
    using written_is_read [OF demo_sha_digest demo_created_valid(2,1)] .
  then show "files_inv demo_sha demo_files" "records_of demo_files = [(''T1'', demo_created)]"
    "file_look demo_files ''T1'' = Some demo_created"
    using demo_created_valid by (auto simp: files_inv_def demo_files_def records_of_def file_look_def)
qed

lemma demo_memory_cas:
  "mem_compareAndSet demo_sha ''T1'' 1 demo_funded [(''T1'', demo_created)]
   = (Inr demo_funded, [(''T1'', demo_funded)])"
proof -
  have "assertCasPreconditions demo_sha demo_created 1 demo_funded = Inr ()" by code_simp
  moreover have "lr_recordVersion demo_funded = 2" by code_simp
  ultimately show ?thesis using demo_funded_valid(1) by (simp add: mem_cas_iff withStoreVersion_def)
qed

lemma demo_file_cas:
  obtains s where "file_compareAndSet demo_sha IoOk ''T1'' 1 demo_funded demo_files = (Inr demo_funded, s)"
    "files_inv demo_sha s" "records_of s = [(''T1'', demo_funded)]"
proof -
  obtain res s where f: "file_compareAndSet demo_sha IoOk ''T1'' 1 demo_funded demo_files = (res, s)" by fastforce
  then show thesis
    using file_cas_refines [OF demo_sha_digest demo_files_inv(1) demo_funded_valid(2) f] that
      demo_memory_cas demo_files_inv(2) by simp
qed

theorem file_store_refines_memory_witness:
  "\<exists>res s. file_compareAndSet demo_sha ReadBackFails ''T1'' 1 demo_funded demo_files = (res, s) \<and> \<not> is_ok res
     \<and> files_inv demo_sha s \<and> records_of s = [(''T1'', demo_funded)]"
proof -
  obtain res s where f: "file_compareAndSet demo_sha ReadBackFails ''T1'' 1 demo_funded demo_files = (res, s)"
    by fastforce
  then have "files_inv demo_sha s \<and> \<not> is_ok res \<and> records_of s = [(''T1'', demo_funded)]"
    using file_store_refines_memory [OF demo_sha_digest demo_files_inv(1) demo_funded_valid(2) f] demo_memory_cas
      demo_files_inv(2) by simp
  then show ?thesis using f by blast
qed

theorem stale_write_fails_witness:
  "\<exists>rs s. store_run (file_create demo_sha) (file_compareAndSet demo_sha) demo_ops demo_files = (rs, s)
     \<and> rs ! 0 = Inr demo_funded \<and> \<not> is_ok (rs ! 1)"
proof -
  obtain rs s where r: "store_run (file_create demo_sha) (file_compareAndSet demo_sha) demo_ops demo_files = (rs, s)"
    by fastforce
  moreover have w: "rs ! 0 = Inr demo_funded"
    by (rule demo_file_cas) (use r in \<open>auto simp: demo_ops_def store_step_def split: prod.splits\<close>)
  moreover have "\<exists>e. rs ! 1 = Inl e"
    using stale_write_fails [OF r, of 0 1 IoOk "''T1''" 1 demo_funded ReadBackFails demo_funded] w
    by (simp add: demo_ops_def)
  ultimately show ?thesis by auto
qed

theorem stored_tender_carries_on_witness:
  "\<exists>rs s c. store_run (file_create demo_sha) (file_compareAndSet demo_sha) demo_ops demo_files = (rs, s)
     \<and> file_look s ''T1'' = Some c \<and> carries_on demo_sha demo_created c"
proof -
  obtain rs s where r: "store_run (file_create demo_sha) (file_compareAndSet demo_sha) demo_ops demo_files = (rs, s)"
    by fastforce
  then show ?thesis using stored_tender_carries_on [OF demo_files_inv(3) r] by blast
qed

end
