(* ===== verification/Carrier_Registry.thy ===== *)
theory Carrier_Registry
  imports Trust_Auth Atomic_Money
begin

text \<open>
  The trusted carrier registry, \<^verbatim>\<open>src/domain/carrier.ts\<close>: the record schema
  and the in-memory registry, whose constructor validates every record, refuses
  a duplicate id and stores the signing key in lower case.  The registry is an
  association list in insertion order.
\<close>

record CarrierRecord =
  cr_carrierId :: string
  cr_carrierAccountId :: string
  cr_signingPublicKey :: string
  cr_active :: bool
  cr_allowedEquipment :: "string list"
  cr_registryVersion :: int

datatype registry_error = CarrierRecordInvalid | DuplicateCarrierId string

text \<open>\<open>/^(02|03)[0-9a-f]{64}$/i\<close>.\<close>

definition ECDSA_PUBKEY_HEX_RE :: "string \<Rightarrow> bool" where
  "ECDSA_PUBKEY_HEX_RE s \<longleftrightarrow>
     length s = 66 \<and> (take 2 s = ''02'' \<or> take 2 s = ''03'')
     \<and> list_all (\<lambda>c. is_digit c \<or> in_range (CHR ''a'') (CHR ''f'') c \<or> in_range (CHR ''A'') (CHR ''F'') c) (drop 2 s)"

definition CarrierRecordSchema :: "CarrierRecord \<Rightarrow> bool" where
  "CarrierRecordSchema c \<longleftrightarrow>
     1 \<le> length (cr_carrierId c) \<and> length (cr_carrierId c) \<le> 128
     \<and> 1 \<le> length (cr_carrierAccountId c) \<and> 1 \<le> length (cr_signingPublicKey c)
     \<and> list_all (\<lambda>e. 1 \<le> length e) (cr_allowedEquipment c) \<and> 1 \<le> length (cr_allowedEquipment c)
     \<and> isValidHederaAccountId (cr_carrierAccountId c)
     \<and> ECDSA_PUBKEY_HEX_RE (cr_signingPublicKey c)
     \<and> isSafePositiveInteger (cr_registryVersion c)"

definition parseCarrierRecord :: "CarrierRecord \<Rightarrow> registry_error + CarrierRecord" where
  "parseCarrierRecord c = (if CarrierRecordSchema c then Inr c else Inl CarrierRecordInvalid)"

type_synonym carrier_registry = "(string \<times> CarrierRecord) list"

primrec registry_loop ::
  "CarrierRecord list \<Rightarrow> carrier_registry \<Rightarrow> registry_error + carrier_registry" where
  "registry_loop [] byId = Inr byId"
| "registry_loop (raw # records) byId =
     bind_res (parseCarrierRecord raw) (\<lambda>r.
       if map_of byId (cr_carrierId r) \<noteq> None then Inl (DuplicateCarrierId (cr_carrierId r))
       else registry_loop records
         (AList.update (cr_carrierId r) (r \<lparr> cr_signingPublicKey := toLowerCase (cr_signingPublicKey r) \<rparr>) byId))"

definition InMemoryCarrierRegistry :: "CarrierRecord list \<Rightarrow> registry_error + carrier_registry" where
  "InMemoryCarrierRegistry records = registry_loop records []"

definition getById :: "carrier_registry \<Rightarrow> string \<Rightarrow> CarrierRecord option" where
  "getById byId carrierId = map_of byId carrierId"

definition listActive :: "carrier_registry \<Rightarrow> CarrierRecord list" where
  "listActive byId = filter cr_active (map snd byId)"

subsection \<open>What a constructed registry holds\<close>

definition registered :: "CarrierRecord \<Rightarrow> CarrierRecord" where
  "registered c = c \<lparr> cr_signingPublicKey := toLowerCase (cr_signingPublicKey c) \<rparr>"

lemma update_fresh: "k \<notin> fst ` set xs \<Longrightarrow> AList.update k v xs = xs @ [(k, v)]"
  by (induction xs) auto

lemma registry_loop_iff:
  "registry_loop cs byId = Inr reg \<longleftrightarrow>
     list_all CarrierRecordSchema cs \<and> distinct (map cr_carrierId cs)
     \<and> set (map cr_carrierId cs) \<inter> fst ` set byId = {}
     \<and> reg = byId @ map (\<lambda>c. (cr_carrierId c, registered c)) cs"
proof (induction cs arbitrary: byId)
  case (Cons c cs)
  show ?case
  proof (cases "cr_carrierId c \<in> fst ` set byId")
    case True
    then show ?thesis by (auto simp: parseCarrierRecord_def map_of_eq_None_iff)
  next
    case False
    then have "map_of byId (cr_carrierId c) = None" by (simp add: map_of_eq_None_iff)
    then show ?thesis
      using False Cons.IH update_fresh [OF False]
      by (auto simp: parseCarrierRecord_def registered_def)
  qed
qed auto

lemma registry_iff:
  "InMemoryCarrierRegistry cs = Inr reg \<longleftrightarrow>
     list_all CarrierRecordSchema cs \<and> distinct (map cr_carrierId cs)
     \<and> reg = map (\<lambda>c. (cr_carrierId c, registered c)) cs"
  by (simp add: InMemoryCarrierRegistry_def registry_loop_iff)

lemma getById_iff:
  assumes "InMemoryCarrierRegistry cs = Inr reg"
  shows "getById reg k = Some c' \<longleftrightarrow> (\<exists>c\<in>set cs. cr_carrierId c = k \<and> c' = registered c)"
proof -
  have "distinct (map fst reg)" "reg = map (\<lambda>c. (cr_carrierId c, registered c)) cs"
    using assms by (auto simp: registry_iff comp_def)
  then show ?thesis by (auto simp: getById_def)
qed

end
