(* ===== verification/Lifecycle_Service.thy ===== *)
theory Lifecycle_Service
  imports Lifecycle_Store Carrier_Registry
begin

text \<open>
  The lifecycle service, \<^verbatim>\<open>src/v2/store/lifecycle-service.ts\<close>: read the tender,
  recognise a repeated action, verify the signature an event needs, reduce, and
  commit with a compare-and-set.  The store is a parameter (its \<open>get\<close> and
  \<open>compareAndSet\<close> and the embedding of store errors), so that the same
  definition runs on both stores; other clients may act between the read and the
  commit, so these are also available separately (\<open>plan_event\<close>).
\<close>

datatype apply_outcome = APPLIED | REPLAYED

subsection \<open>Verification\<close>

definition absent :: "string option \<Rightarrow> bool" where
  "absent v \<longleftrightarrow> v = None \<or> v = Some []"

definition verify_bid ::
  "hash_fn \<Rightarrow> ecdsa_fn \<Rightarrow> carrier_registry option \<Rightarrow> LifecycleRecord \<Rightarrow> LifecycleEvent \<Rightarrow> BidSubmissionPaid
     \<Rightarrow> auth_error + auth_object" where
  "verify_bid sha256 ecdsa carriers r event p =
     (case (case carriers of None \<Rightarrow> None | Some reg \<Rightarrow> getById reg (bs_carrierId p)) of
        None \<Rightarrow> Inl (AuthorizationError ''CARRIER_NOT_TRUSTED'')
      | Some carrier \<Rightarrow>
          if \<not> cr_active carrier then Inl (AuthorizationError ''CARRIER_NOT_TRUSTED'')
          else if cr_carrierAccountId carrier \<noteq> bs_carrierAccountId p
          then Inl (AuthorizationError ''CARRIER_ACCOUNT_MISMATCH'')
          else verifyCarrierBid sha256 ecdsa (cr_signingPublicKey carrier)
            \<lparr> cp_tenderId = lr_tenderId r, cp_tenderVersion = lr_tenderVersion r, cp_bidId = bs_bidId p,
              cp_carrierId = bs_carrierId p, cp_carrierAccountId = bs_carrierAccountId p,
              cp_bidHash = bs_bidHash p, cp_signedAt = bs_signedAt p, cp_actionId = ev_actionId event \<rparr>
            (bs_carrierSignature p))"

definition verify_review ::
  "hash_fn \<Rightarrow> ecdsa_fn \<Rightarrow> TrustPolicy \<Rightarrow> LifecycleRecord \<Rightarrow> LifecycleEvent \<Rightarrow> ShipperReviewActionKind
     \<Rightarrow> string list option \<Rightarrow> string \<Rightarrow> string \<Rightarrow> string \<Rightarrow> auth_error + auth_object" where
  "verify_review sha256 ecdsa policy r event kind reasonCodes signedAt reviewDeadlineAt signature =
     verifyShipperPodReview sha256 ecdsa policy (lr_tenderId r) (lr_tenderVersion r) (the (lr_podId r)) kind
       reasonCodes signedAt reviewDeadlineAt (ev_actionId event) signature"

definition resolution_payload ::
  "LifecycleRecord \<Rightarrow> LifecycleEvent \<Rightarrow> RefereeResolutionRecorded \<Rightarrow> RefereeResolutionSignPayload" where
  "resolution_payload r event p =
     \<lparr> rp_tenderId = lr_tenderId r, rp_tenderVersion = lr_tenderVersion r, rp_podId = rr_podId p,
       rp_disputeId = rr_disputeId p, rp_resolution = rr_resolution p,
       rp_releaseAmountAtomic = rr_releaseAmountAtomic p, rp_refundAmountAtomic = rr_refundAmountAtomic p,
       rp_rationaleCode = rr_rationaleCode p, rp_refereeId = rr_refereeId p, rp_signedAt = rr_signedAt p,
       rp_actionId = ev_actionId event \<rparr>"

definition verifyEventIfNeeded ::
  "hash_fn \<Rightarrow> ecdsa_fn \<Rightarrow> LifecycleRecord \<Rightarrow> LifecycleEvent \<Rightarrow> TrustPolicy \<Rightarrow> carrier_registry option
     \<Rightarrow> auth_error + auth_object option" where
  "verifyEventIfNeeded sha256 ecdsa r event policy carriers =
     (case ev_body event of
        BID_SUBMISSION_PAID p \<Rightarrow>
          bind_res (verify_bid sha256 ecdsa carriers r event p) (\<lambda>a. Inr (Some a))
      | POD_ACCEPTED_BY_SHIPPER sg t dl \<Rightarrow>
          if absent (lr_podId r) \<or> absent (lr_reviewDeadlineAt r) then Inr None
          else bind_res (verify_review sha256 ecdsa policy r event ACCEPT None t dl sg) (\<lambda>a. Inr (Some a))
      | POD_CORRECTION_REQUESTED_EVENT p \<Rightarrow>
          if absent (lr_podId r) then Inr None
          else bind_res (verify_review sha256 ecdsa policy r event REQUEST_CORRECTION
            (Some (map fst (pr_reasons p))) (pr_signedAt p) (pr_reviewDeadlineAt p) (pr_shipperSignature p))
            (\<lambda>a. Inr (Some a))
      | POD_REJECTED_TO_DISPUTE p d \<Rightarrow>
          if absent (lr_podId r) then Inr None
          else bind_res (verify_review sha256 ecdsa policy r event REJECT_DISPUTE
            (Some (map fst (pr_reasons p))) (pr_signedAt p) (pr_reviewDeadlineAt p) (pr_shipperSignature p))
            (\<lambda>a. Inr (Some a))
      | REFEREE_RESOLUTION_RECORDED p \<Rightarrow>
          bind_res (verifyRefereeResolution sha256 ecdsa policy (resolution_payload r event p) (rr_signature p)
            (rr_refereePublicKey p)) (\<lambda>a. Inr (Some a))
      | _ \<Rightarrow> Inr None)"

subsection \<open>Applying an event\<close>

text \<open>
  \<open>current.processedActions[event.actionId]\<close> on a plain object: an own entry, or
  a member every object inherits, which has no payload hash.
\<close>

definition prior_action :: "LifecycleRecord \<Rightarrow> string \<Rightarrow> string option option" where
  "prior_action r k =
     (case map_of (lr_processedActions r) k of
        Some a \<Rightarrow> Some (Some (pa2_eventPayloadHash a))
      | None \<Rightarrow> if List.member OBJECT_PROTOTYPE_KEYS k then Some None else None)"

datatype apply_plan = Replay | Commit LifecycleRecord

definition plan_event ::
  "hash_fn \<Rightarrow> ecdsa_fn \<Rightarrow> carrier_registry option \<Rightarrow> LifecycleRecord \<Rightarrow> LifecycleEvent \<Rightarrow> store_error + apply_plan" where
  "plan_event sha256 ecdsa carriers current event =
     (case prior_action current (ev_actionId event) of
        Some prior \<Rightarrow>
          bind_res (map_err ReducerError (eventPayloadHash sha256 event)) (\<lambda>hash.
            if prior \<noteq> Some hash then Inl (ActionConflict (ev_actionId event)) else Inr Replay)
      | None \<Rightarrow>
          bind_res (map_err Unauthorized
            (verifyEventIfNeeded sha256 ecdsa current event (trustPolicyFromRecord current) carriers)) (\<lambda>ctx.
          bind_res (map_err ReducerError (reduceLifecycle sha256 ctx current event)) (\<lambda>nxt.
            Inr (Commit nxt))))"

definition apply_event ::
  "hash_fn \<Rightarrow> ecdsa_fn \<Rightarrow> carrier_registry option \<Rightarrow> (store_error \<Rightarrow> 'e)
     \<Rightarrow> (string \<Rightarrow> 's \<Rightarrow> 'e + LifecycleRecord option)
     \<Rightarrow> (string \<Rightarrow> int \<Rightarrow> LifecycleRecord \<Rightarrow> 's \<Rightarrow> ('e + LifecycleRecord) \<times> 's)
     \<Rightarrow> string \<Rightarrow> LifecycleEvent \<Rightarrow> 's \<Rightarrow> ('e + LifecycleRecord \<times> apply_outcome) \<times> 's" where
  "apply_event sha256 ecdsa carriers err get cas tenderId event s =
     (case get tenderId s of
        Inl e \<Rightarrow> (Inl e, s)
      | Inr None \<Rightarrow> (Inl (err (RecordNotFound tenderId)), s)
      | Inr (Some current) \<Rightarrow>
          (case plan_event sha256 ecdsa carriers current event of
             Inl e \<Rightarrow> (Inl (err e), s)
           | Inr Replay \<Rightarrow> (Inr (current, REPLAYED), s)
           | Inr (Commit nxt) \<Rightarrow>
               (case cas tenderId (lr_recordVersion current) nxt s of
                  (Inl e, s') \<Rightarrow> (Inl e, s')
                | (Inr persisted, s') \<Rightarrow> (Inr (persisted, APPLIED), s'))))"

abbreviation apply_mem ::
  "hash_fn \<Rightarrow> ecdsa_fn \<Rightarrow> carrier_registry option \<Rightarrow> string \<Rightarrow> LifecycleEvent \<Rightarrow> lifecycle_records
     \<Rightarrow> (store_error + LifecycleRecord \<times> apply_outcome) \<times> lifecycle_records" where
  "apply_mem h ecdsa carriers \<equiv> apply_event h ecdsa carriers id (mem_get h) (mem_compareAndSet h)"

abbreviation apply_file ::
  "hash_fn \<Rightarrow> ecdsa_fn \<Rightarrow> carrier_registry option \<Rightarrow> file_io \<Rightarrow> string \<Rightarrow> LifecycleEvent \<Rightarrow> lifecycle_files
     \<Rightarrow> (file_error + LifecycleRecord \<times> apply_outcome) \<times> lifecycle_files" where
  "apply_file h ecdsa carriers io \<equiv>
     apply_event h ecdsa carriers StoreFailure (\<lambda>t s. map_err StoreFailure (readRecord h t s)) (file_compareAndSet h io)"

subsection \<open>The plan\<close>

lemma plan_Commit_iff:
  "plan_event h ecdsa cs r e = Inr (Commit n) \<longleftrightarrow>
     prior_action r (ev_actionId e) = None
     \<and> (\<exists>ctx. verifyEventIfNeeded h ecdsa r e (trustPolicyFromRecord r) cs = Inr ctx
         \<and> reduceLifecycle h ctx r e = Inr n)"
  by (auto simp: plan_event_def res_simps split: option.splits if_splits)

lemma plan_Replay_iff:
  assumes "hex_digest h"
  shows "plan_event h ecdsa cs r e = Inr Replay \<longleftrightarrow>
    (\<exists>a. map_of (lr_processedActions r) (ev_actionId e) = Some a \<and> eventPayloadHash h e = Inr (pa2_eventPayloadHash a))"
  using eventPayloadHash_ok [OF assms, of e]
  by (auto simp: plan_event_def prior_action_def res_simps split: option.splits if_splits)

text \<open>What \<open>plan_event\<close> proposes fits the record it was made from.\<close>

lemma plan_Commit:
  assumes "plan_event h ecdsa cs r e = Inr (Commit n)"
  shows "lr_recordVersion n = lr_recordVersion r + 1"
    "\<exists>a. map_of (lr_processedActions n) (ev_actionId e) = Some a \<and> eventPayloadHash h e = Inr (pa2_eventPayloadHash a)"
    "keyed r \<Longrightarrow> keyed n" "reachable h r \<Longrightarrow> reachable h n"
    "withStoreVersion n (lr_recordVersion r) = n"
proof -
  obtain ctx where s: "reduceLifecycle h ctx r e = Inr n" using assms by (auto simp: plan_Commit_iff)
  note st = reduce_stamped [OF s]
  show v: "lr_recordVersion n = lr_recordVersion r + 1" using stamped_version [OF st] by simp
  show "\<exists>a. map_of (lr_processedActions n) (ev_actionId e) = Some a \<and> eventPayloadHash h e = Inr (pa2_eventPayloadHash a)"
    using stamped_actions [OF st] st by (auto simp: processed_entry_def stamped_def)
  show "keyed n" if "keyed r"
    using st that by (auto simp: stamped_def keyed_def distinct_update)
  show "reachable h n" if "reachable h r" using reachable.reduced [OF that s] .
  show "withStoreVersion n (lr_recordVersion r) = n" using v by (simp add: withStoreVersion_def)
qed

subsection \<open>Exactly once\<close>

lemma apply_APPLIED:
  assumes "apply_event h ecdsa cs err get cas t e s = (Inr (p, APPLIED), s')"
  obtains r n where "get t s = Inr (Some r)" "plan_event h ecdsa cs r e = Inr (Commit n)"
    "cas t (lr_recordVersion r) n s = (Inr p, s')"
  using assms
  by (auto simp: apply_event_def split: sum.splits option.splits apply_plan.splits prod.splits)

context readable_store
begin

lemma applied_is_stored:
  assumes "inv s" "apply_event h ecdsa cs err get (cas i) t e s = (Inr (p, APPLIED), s')"
  shows "inv s'" "look s' t = Some p"
    "\<exists>a. map_of (lr_processedActions p) (ev_actionId e) = Some a \<and> eventPayloadHash h e = Inr (pa2_eventPayloadHash a)"
proof -
  obtain r n where g: "get t s = Inr (Some r)" and pl: "plan_event h ecdsa cs r e = Inr (Commit n)"
    and c: "cas i t (lr_recordVersion r) n s = (Inr p, s')" using apply_APPLIED [OF assms(2)] .
  have "keyed r" using inv_keyed [OF assms(1) get_found [OF g]] .
  then show "inv s'" using inv_cas [OF assms(1) plan_Commit(3) [OF pl] c] by blast
  have "p = n" "look s' t = Some p" using cas_ok [OF c] plan_Commit(5) [OF pl] by auto
  then show "look s' t = Some p"
    "\<exists>a. map_of (lr_processedActions p) (ev_actionId e) = Some a \<and> eventPayloadHash h e = Inr (pa2_eventPayloadHash a)"
    using plan_Commit(2) [OF pl] by auto
qed

lemma applied_then_replayed:
  assumes "hex_digest h" "inv s" "apply_event h ecdsa cs err get (cas i) t e s = (Inr (p, APPLIED), s1)"
    and "store_run create cas ops s1 = (rs, s2)" "\<And>i t v n. OpCas i t v n \<in> set ops \<Longrightarrow> keyed n"
  shows "\<exists>c. look s2 t = Some c \<and> apply_event h ecdsa' cs' err get (cas j) t e s2 = (Inr (c, REPLAYED), s2)"
proof -
  note a = applied_is_stored [OF assms(2,3)]
  obtain c where c: "look s2 t = Some c" "carries_on h p c" using run_grows [OF assms(4) a(2)] by blast
  have "\<exists>b. map_of (lr_processedActions c) (ev_actionId e) = Some b \<and> eventPayloadHash h e = Inr (pa2_eventPayloadHash b)"
    using a(3) c(2) by (fastforce simp: carries_on_def same_action_def)
  then have "plan_event h ecdsa' cs' c e = Inr Replay" using plan_Replay_iff [OF assms(1)] by blast
  moreover have "get t s2 = Inr (Some c)" using get_stored [OF run_inv [OF a(1) assms(4,5)] c(1)] .
  ultimately show ?thesis using c(1) by (simp add: apply_event_def)
qed

end

text \<open>
  C6. Exactly once.  Once an event has been applied to a tender on disk, then
  whatever clients do to the store afterwards and whatever the file system does,
  sending the same event again reports \<open>REPLAYED\<close> with the stored record and
  writes nothing, even with other carriers or another signature check.\<close>

theorem apply_exactly_once:
  assumes "hex_digest h" "files_inv h s"
    and "apply_file h ecdsa cs io t e s = (Inr (p, APPLIED), s1)"
    and "store_run (file_create h) (file_compareAndSet h) ops s1 = (rs, s2)"
    and "\<And>i t v n. OpCas i t v n \<in> set ops \<Longrightarrow> keyed n"
  shows "\<exists>c. file_look s2 t = Some c \<and> apply_file h ecdsa' cs' io' t e s2 = (Inr (c, REPLAYED), s2)"
  using disk_r.applied_then_replayed [OF assms(1) _ assms(3-5)] assms(1,2) by (simp add: disk_inv_def)

subsection \<open>Any interleaving of clients\<close>

text \<open>
  Reads and commits of any number of clients in any order.  A pending item is a
  tender, the record a client read and the record it wants to commit; a client
  may crash (its item is never committed) or retry.
\<close>

inductive interleaved ::
  "hash_fn \<Rightarrow> ecdsa_fn \<Rightarrow> ('i \<Rightarrow> CreateLifecycleInput \<Rightarrow> 's \<Rightarrow> ('e + LifecycleRecord) \<times> 's)
     \<Rightarrow> ('i \<Rightarrow> string \<Rightarrow> int \<Rightarrow> LifecycleRecord \<Rightarrow> 's \<Rightarrow> ('e + LifecycleRecord) \<times> 's)
     \<Rightarrow> (string \<Rightarrow> 's \<Rightarrow> 'e + LifecycleRecord option) \<Rightarrow> 's
     \<Rightarrow> 's \<Rightarrow> (string \<times> LifecycleRecord \<times> LifecycleRecord) set \<Rightarrow> bool"
  for h ecdsa create cas get init where
  start: "interleaved h ecdsa create cas get init init {}"
| created: "interleaved h ecdsa create cas get init s P \<Longrightarrow> create i inp s = (res, s')
    \<Longrightarrow> interleaved h ecdsa create cas get init s' P"
| read: "interleaved h ecdsa create cas get init s P \<Longrightarrow> get t s = Inr (Some r)
    \<Longrightarrow> plan_event h ecdsa cs r e = Inr (Commit n)
    \<Longrightarrow> interleaved h ecdsa create cas get init s (insert (t, r, n) P)"
| commit: "interleaved h ecdsa create cas get init s P \<Longrightarrow> (t, r, n) \<in> P
    \<Longrightarrow> cas i t (lr_recordVersion r) n s = (res, s') \<Longrightarrow> interleaved h ecdsa create cas get init s' P"

inductive_cases interleavedE: "interleaved h ecdsa create cas get init s P"

text \<open>A pending commit was planned on a record that is still stored or was replaced by a newer one.\<close>

definition fresh_or_stale ::
  "('s \<Rightarrow> string \<Rightarrow> LifecycleRecord option) \<Rightarrow> 's \<Rightarrow> string \<times> LifecycleRecord \<times> LifecycleRecord \<Rightarrow> bool" where
  "fresh_or_stale look s q \<longleftrightarrow> (case q of (t, r, n) \<Rightarrow>
     \<exists>c. look s t = Some c \<and> (c = r \<or> lr_recordVersion r < lr_recordVersion c))"

context readable_store
begin

lemma step_fresh_or_stale:
  assumes "store_step create cas op s = (res, s')" "fresh_or_stale look s q"
  shows "fresh_or_stale look s' q"
proof -
  obtain t r n c where q: "q = (t, r, n)" and c: "look s t = Some c" "c = r \<or> lr_recordVersion r < lr_recordVersion c"
    using assms(2) by (cases q) (auto simp: fresh_or_stale_def)
  obtain c' where c': "look s' t = Some c'" using step_grows [OF assms(1) c(1)] by blast
  then show ?thesis
    using step_same_or_newer [OF assms(1) c(1) c'] c(2) by (auto simp: fresh_or_stale_def q)
qed

lemma interleaved_inv:
  assumes "interleaved h ecdsa create cas get init s P" "\<And>t. look init t = None"
  shows "(\<forall>t c. look s t = Some c \<longrightarrow> reachable h c)
    \<and> (\<forall>q\<in>P. fresh_or_stale look s q \<and> (case q of (t, r, n) \<Rightarrow>
         reachable h r \<and> (\<exists>ctx e. reduceLifecycle h ctx r e = Inr n)))"
  using assms(1)
proof (induction rule: interleaved.induct)
  case start
  then show ?case using assms(2) by simp
next
  case (created s P i inp res s')
  have st: "store_step create cas (OpCreate i inp) s = (res, s')" using created by (simp add: store_step_def)
  have "\<forall>t c. look s' t = Some c \<longrightarrow> reachable h c"
    using create_step [OF created(2)] created.IH by (auto intro: reachable.created split: if_splits)
  moreover have "fresh_or_stale look s' q" if "q \<in> P" for q
    using created.IH step_fresh_or_stale [OF st] that by simp
  ultimately show ?case using created.IH by simp
next
  case (read s P t r cs e n)
  have "look s t = Some r" using get_found [OF read(2)] .
  then show ?case using read by (auto simp: fresh_or_stale_def plan_Commit_iff)
next
  case (commit s P t r n i res s')
  have st: "store_step create cas (OpCas i t (lr_recordVersion r) n) s = (res, s')"
    using commit by (simp add: store_step_def)
  obtain ctx e where rn: "reachable h r" "reduceLifecycle h ctx r e = Inr n"
    using commit.IH commit.hyps(2) by blast
  have "withStoreVersion n (lr_recordVersion r) = n"
    using stamped_version [OF reduce_stamped [OF rn(2)]] by (simp add: withStoreVersion_def)
  moreover have "reachable h n" using reachable.reduced [OF rn] .
  ultimately have "\<forall>t c. look s' t = Some c \<longrightarrow> reachable h c"
    using cas_step [OF commit(3)] commit.IH by (auto split: if_splits)
  moreover have "fresh_or_stale look s' q" if "q \<in> P" for q
    using commit.IH step_fresh_or_stale [OF st] that by simp
  ultimately show ?case using commit.IH by simp
qed

lemma commit_applies_to_stored:
  assumes "interleaved h ecdsa create cas get init s P" "\<And>t. look init t = None"
    and "(t, r, n) \<in> P" "cas i t (lr_recordVersion r) n s = (Inr p, s')"
  shows "look s t = Some r \<and> look s' t = Some n \<and> (\<exists>ctx e. reduceLifecycle h ctx r e = Inr n)"
proof -
  have i: "fresh_or_stale look s (t, r, n)" "\<exists>ctx e. reduceLifecycle h ctx r e = Inr n"
    using interleaved_inv [OF assms(1,2)] assms(3) by auto
  then have "withStoreVersion n (lr_recordVersion r) = n"
    by (auto simp: withStoreVersion_def dest!: reduce_stamped stamped_version)
  then show ?thesis using cas_ok [OF assms(4)] i by (auto simp: fresh_or_stale_def)
qed

end

text \<open>
  C1. Concurrent clients are serialised.  Starting from an empty directory, let
  any number of clients read tenders, verify and reduce events and commit, in
  any order, with any file-system failures in between.  Then every stored tender
  is a reachable lifecycle record; past \<open>DRAFT\<close> its held, returned and paid
  amounts sum to its budget.\<close>

theorem interleaved_conservation:
  assumes "interleaved h ecdsa (file_create h) (file_compareAndSet h)
      (\<lambda>t s. map_err StoreFailure (readRecord h t s)) [] s P"
    and "file_look s t = Some c" "lr_state c \<noteq> DRAFT"
  shows "reachable h c \<and> lr_fundedAmountAtomic c = Some (lr_maximumFreightBudgetAtomic c)
    \<and> held (ledger_of c) + returned (ledger_of c) + paid (ledger_of c) = amount (lr_maximumFreightBudgetAtomic c)"
proof -
  have r: "reachable h c"
    using disk_r.interleaved_inv [OF assms(1)] assms(2) by (simp add: file_look_def)
  note inv = reachable_funds [OF r]
  show ?thesis using r funds_inv_total [OF inv assms(3)] inv assms(3) by (simp add: funds_inv_def)
qed

text \<open>
  No lost update.  When a client's commit succeeds in such an interleaving,
  the stored record is still the one the client had read, and the new stored
  record is the reduction of exactly that record by one event.\<close>

theorem commit_serialised:
  assumes "interleaved h ecdsa (file_create h) (file_compareAndSet h)
      (\<lambda>t s. map_err StoreFailure (readRecord h t s)) [] s P"
    and "(t, r, n) \<in> P" "file_compareAndSet h io t (lr_recordVersion r) n s = (Inr p, s')"
  shows "file_look s t = Some r \<and> file_look s' t = Some n \<and> (\<exists>ctx e. reduceLifecycle h ctx r e = Inr n)"
  using disk_r.commit_applies_to_stored [OF assms(1) _ assms(2,3)] by (simp add: file_look_def)

subsection \<open>Signatures\<close>

text \<open>The signature an applied event must carry, on the record it is applied to.\<close>

definition review_signed ::
  "ecdsa_fn \<Rightarrow> LifecycleRecord \<Rightarrow> LifecycleEvent \<Rightarrow> ShipperReviewActionKind \<Rightarrow> string list option
     \<Rightarrow> string \<Rightarrow> string \<Rightarrow> string \<Rightarrow> bool" where
  "review_signed ecdsa r e kind codes signedAt deadline signature \<longleftrightarrow>
     verifyCanonicalPayload ecdsa (shipper_payload_json (buildShipperPodReviewSignPayload (lr_tenderId r)
       (lr_tenderVersion r) (the (lr_podId r)) kind codes signedAt deadline (ev_actionId e))) signature
       (ts_shipperPublicKey (lr_trust r))"

definition signed_as_required ::
  "ecdsa_fn \<Rightarrow> carrier_registry option \<Rightarrow> LifecycleRecord \<Rightarrow> LifecycleEvent \<Rightarrow> bool" where
  "signed_as_required ecdsa cs r e \<longleftrightarrow>
     (case ev_body e of
        POD_ACCEPTED_BY_SHIPPER sg t dl \<Rightarrow> review_signed ecdsa r e ACCEPT None t dl sg
      | POD_CORRECTION_REQUESTED_EVENT p \<Rightarrow>
          review_signed ecdsa r e REQUEST_CORRECTION (Some (map fst (pr_reasons p))) (pr_signedAt p)
            (pr_reviewDeadlineAt p) (pr_shipperSignature p)
      | POD_REJECTED_TO_DISPUTE p d \<Rightarrow>
          review_signed ecdsa r e REJECT_DISPUTE (Some (map fst (pr_reasons p))) (pr_signedAt p)
            (pr_reviewDeadlineAt p) (pr_shipperSignature p)
      | REFEREE_RESOLUTION_RECORDED p \<Rightarrow>
          \<not> looks_automated (rr_refereeId p)
          \<and> (\<exists>x\<in>set (ts_referees (lr_trust r)). te_refereeId x = js_trim (rr_refereeId p)
              \<and> verifyCanonicalPayload ecdsa (referee_payload_json (resolution_payload r e p)) (rr_signature p)
                  (te_publicKey x))
      | BID_SUBMISSION_PAID p \<Rightarrow>
          (\<exists>reg carrier. cs = Some reg \<and> getById reg (bs_carrierId p) = Some carrier \<and> cr_active carrier
             \<and> cr_carrierAccountId carrier = bs_carrierAccountId p
             \<and> verifyCanonicalPayload ecdsa (carrier_bid_payload_json
                 \<lparr> cp_tenderId = lr_tenderId r, cp_tenderVersion = lr_tenderVersion r, cp_bidId = bs_bidId p,
                   cp_carrierId = bs_carrierId p, cp_carrierAccountId = bs_carrierAccountId p,
                   cp_bidHash = bs_bidHash p, cp_signedAt = bs_signedAt p, cp_actionId = ev_actionId e \<rparr>)
                 (bs_carrierSignature p) (cr_signingPublicKey carrier))
      | _ \<Rightarrow> True)"

lemma verifyShipper_Inr:
  assumes "verifyShipperPodReview h ecdsa policy tid tv pod kind codes sa dl aid sg = Inr a"
  shows "verifyCanonicalPayload ecdsa (shipper_payload_json
      (buildShipperPodReviewSignPayload tid tv pod kind codes sa dl aid)) sg (tp_shipperPublicKey policy)"
  using assms by (auto simp: verifyShipperPodReview_def Let_def split: if_splits)

lemma resolveTrusted_Inr:
  "resolveTrustedReferee policy rid = Inr x \<Longrightarrow> x \<in> set (tp_referees policy) \<and> te_refereeId x = js_trim rid"
  by (auto simp: resolveTrustedReferee_def Let_def find_Some_iff res_simps split: if_splits option.splits)

lemma verifyReferee_Inr:
  assumes "verifyRefereeResolution h ecdsa policy p sg key = Inr a"
  shows "\<not> looks_automated (rp_refereeId p) \<and> (\<exists>x\<in>set (tp_referees policy). te_refereeId x = js_trim (rp_refereeId p)
    \<and> verifyCanonicalPayload ecdsa (referee_payload_json p) sg (te_publicKey x))"
  using assms resolveTrusted_Inr [of policy "rp_refereeId p"]
  by (fastforce simp: verifyRefereeResolution_def split: if_splits sum.splits)

lemma verifyBid_Inr:
  assumes "verifyCarrierBid h ecdsa key p sg = Inr a"
  shows "verifyCanonicalPayload ecdsa (carrier_bid_payload_json p) sg key"
  using assms by (auto simp: verifyCarrierBid_def split: if_splits)

lemma reviews_need_auth:
  assumes "reduceLifecycle h None r e = Inr n"
  shows "\<not> (\<exists>sg t dl. ev_body e = POD_ACCEPTED_BY_SHIPPER sg t dl)"
    "\<not> (\<exists>p. ev_body e = POD_CORRECTION_REQUESTED_EVENT p)"
    "\<not> (\<exists>p d. ev_body e = POD_REJECTED_TO_DISPUTE p d)"
  using assms
  by (auto simp: reduceLifecycle_Inr_iff reduce_body_def on_pod_accepted_by_shipper_def
      on_pod_correction_requested_def on_pod_rejected_to_dispute_def res_simps sealed_auth_def)

lemma trust_of_record [simp]:
  "tp_shipperPublicKey (trustPolicyFromRecord r) = ts_shipperPublicKey (lr_trust r)"
  "tp_referees (trustPolicyFromRecord r) = ts_referees (lr_trust r)"
  by (simp_all add: trustPolicyFromRecord_def)

lemma plan_is_signed:
  assumes "plan_event h ecdsa cs r e = Inr (Commit n)"
  shows "signed_as_required ecdsa cs r e"
proof -
  obtain ctx where v: "verifyEventIfNeeded h ecdsa r e (trustPolicyFromRecord r) cs = Inr ctx"
    and s: "reduceLifecycle h ctx r e = Inr n" using assms by (auto simp: plan_Commit_iff)
  show ?thesis
    using v s reviews_need_auth [of h r e n]
    by (cases "ev_body e")
      (auto simp: signed_as_required_def verifyEventIfNeeded_def verify_review_def review_signed_def res_simps
        verify_bid_def resolution_payload_def
        dest!: verifyShipper_Inr verifyReferee_Inr verifyBid_Inr split: if_splits option.splits)
qed

text \<open>
  C11. No unsigned decision reaches the store.  An applied event that accepts,
  corrects or disputes a delivery carries a signature that verifies under the
  shipper key recorded with the tender, over a payload naming that tender,
  version, proof of delivery, decision, deadline and action; a referee resolution
  verifies under the key of a listed referee who is not automated; a bid under
  the key of an active registered carrier with that account.  This holds for
  every store.\<close>

theorem applied_event_is_signed:
  assumes "apply_event h ecdsa cs err get cas t e s = (Inr (p, APPLIED), s')"
  shows "\<exists>r. get t s = Inr (Some r) \<and> signed_as_required ecdsa cs r e"
  using apply_APPLIED [OF assms] plan_is_signed by metis

subsection \<open>Accepted events are stored\<close>

lemma verify_formats:
  assumes "hex_digest h" "verifyEventIfNeeded h ecdsa r e policy cs = Inr ctx"
  shows "auth_formats ctx"
proof -
  have k: "is_hex64 (publicKeyFingerprint h key)" for key
    using assms(1) by (simp add: publicKeyFingerprint_def hex_digest_def)
  show ?thesis
    using assms(2) k
    by (cases "ev_body e")
      (auto simp: auth_formats_def verifyEventIfNeeded_def verify_review_def verifyShipperPodReview_def
        verifyRefereeResolution_def verify_bid_def verifyCarrierBid_def seal_def signPayloadHash_def Let_def res_simps
        dest!: canonicalSha256_format split: if_splits option.splits sum.splits)
qed

lemma reduce_keeps_receipt:
  assumes "reachable h r" "reduceLifecycle h ctx r e = Inr n" "lr_accessReceipt r \<noteq> None"
  shows "lr_accessReceipt n = lr_accessReceipt r"
proof -
  have b: "reduce_body h ctx r e = Inr n" using assms(2) by (simp add: reduceLifecycle_Inr_iff)
  have "lr_state r \<in> POST_ACTIVATION" using reachable_index [OF assms(1)] assms(3) by (auto simp: index_inv_def)
  then have "\<not> (\<exists>p. ev_body e = TENDER_ACTIVATION_PAID p)"
    using b by (auto simp: reduce_body_def on_tender_activation_paid_def res_simps POST_ACTIVATION_def)
  then show ?thesis using receipt_unchanged [OF b] by blast
qed

lemma plan_meets_preconditions:
  assumes "hex_digest h" "reachable h r" "keyed r" "plan_event h ecdsa cs r e = Inr (Commit n)"
    "\<bar>lr_recordVersion r\<bar> \<le> max_safe_integer" "1 \<le> lr_recordVersion r"
  shows "assertCasPreconditions h r (lr_recordVersion r) n = Inr ()"
proof -
  obtain ctx where s: "reduceLifecycle h ctx r e = Inr n" and f: "prior_action r (ev_actionId e) = None"
    using assms(4) by (auto simp: plan_Commit_iff)
  note st = reduce_stamped [OF s]
  have i: "same_identity r n" using stamped_identity [OF st] .
  have "action_kept n (k, a) = Inr ()" if "(k, a) \<in> set (lr_processedActions r)" for k a
  proof -
    have m: "map_of (lr_processedActions r) k = Some a" using that assms(3) by (simp add: keyed_def)
    moreover have "k \<noteq> ev_actionId e" using f m by (auto simp: prior_action_def split: if_splits)
    ultimately show ?thesis using stamped_actions [OF st] by (simp add: action_kept_iff same_action_def)
  qed
  then show ?thesis
    using i reduce_keeps_receipt [OF assms(2) s] assms(5,6)
    by (auto simp: assertCasPreconditions_def res_simps same_identity_def all_res_Inr_iff hashes_ok [OF assms(1)]
        receiptHash_def hash_ok [OF assms(1)])
qed

text \<open>
  C10. An accepted event is stored.  Let a stored, reachable tender be valid and
  let verification and reduction accept an event whose fields fit the storage
  formats.  Then the service applies it: the compare-and-set neither reports a
  conflict nor rejects the new record as corrupt, the result is the reduced
  record, and no other tender changes.\<close>

theorem accepted_event_is_stored:
  assumes "hex_digest h" "mem_inv h s" "map_of s t = Some r" "reachable h r"
    and "plan_event h ecdsa cs r e = Inr (Commit n)" "storable r e"
  shows "apply_mem h ecdsa cs t e s = (Inr (n, APPLIED), AList.update t n s)"
proof -
  have v: "assertValidLifecycleRecord h r t = Inr r" "keyed r" using assms(2,3) by (auto simp: mem_inv_def)
  obtain ctx where c: "verifyEventIfNeeded h ecdsa r e (trustPolicyFromRecord r) cs = Inr ctx"
    "reduceLifecycle h ctx r e = Inr n" using assms(5) by (auto simp: plan_Commit_iff)
  have n: "assertValidLifecycleRecord h n t = Inr n"
    using reduce_valid [OF assms(4) v(1) c(2) assms(6) verify_formats [OF assms(1) c(1)]] .
  have "validate_header r t = Inr ()" using v(1) by (auto simp: assertValidLifecycleRecord_def res_simps)
  then have "\<bar>lr_recordVersion r\<bar> \<le> max_safe_integer" "1 \<le> lr_recordVersion r"
    by (auto simp: validate_header_def res_simps)
  then have "mem_compareAndSet h t (lr_recordVersion r) n s = (Inr n, AList.update t n s)"
    using plan_meets_preconditions [OF assms(1,4) v(2) assms(5)] n assms(3) plan_Commit(5) [OF assms(5)]
    by (simp add: mem_cas_iff)
  then show ?thesis
    using v(1) assms(3,5) by (simp add: apply_event_def mem_get_def)
qed

subsection \<open>Refusals\<close>

text \<open>
  C27. A refused event leaves the store as it was, and the refusal says why: an
  unknown tender is not found, an action id committed with another payload is a
  conflict, and so is an action id that names a member inherited by every
  object (such as \<open>toString\<close>), although no action was ever committed under it.
\<close>

theorem apply_refusals:
  assumes "hex_digest h" "mem_inv h s" "apply_mem h ecdsa cs t e s = (res, s')"
  shows "(\<not> is_ok res \<longrightarrow> s' = s) \<and> (map_of s t = None \<longrightarrow> res = Inl (RecordNotFound t))
    \<and> (\<forall>r. map_of s t = Some r \<longrightarrow>
        (\<forall>a. map_of (lr_processedActions r) (ev_actionId e) = Some a
           \<longrightarrow> eventPayloadHash h e \<noteq> Inr (pa2_eventPayloadHash a) \<longrightarrow> res = Inl (ActionConflict (ev_actionId e)))
        \<and> (map_of (lr_processedActions r) (ev_actionId e) = None \<and> List.member OBJECT_PROTOTYPE_KEYS (ev_actionId e)
           \<longrightarrow> res = Inl (ActionConflict (ev_actionId e))))"
proof (cases "map_of s t")
  case None
  then show ?thesis using assms(3) by (auto simp: apply_event_def mem_get_def)
next
  case (Some r)
  then have g: "mem_get h t s = Inr (Some r)" using assms(2) by (simp add: mem_get_def mem_inv_def)
  have "s' = s" if "\<not> is_ok res"
    using assms(3) g that mem_errors_keep(2)
    by (auto simp: apply_event_def split: sum.splits apply_plan.splits prod.splits)
  moreover have "res = Inl (ActionConflict (ev_actionId e))"
    if "plan_event h ecdsa cs r e = Inl (ActionConflict (ev_actionId e))"
    using assms(3) g that by (simp add: apply_event_def)
  ultimately show ?thesis
    using Some eventPayloadHash_ok [OF assms(1), of e] by (simp add: plan_event_def prior_action_def)
qed

subsection \<open>The demonstration tender is funded through the service\<close>

definition demo_event :: LifecycleEvent where
  "demo_event = snd (hd demo_auction)"

definition no_ecdsa :: ecdsa_fn where
  "no_ecdsa key message signature = None"

lemma demo_reduced: "reduceLifecycle demo_sha None demo_created demo_event = Inr demo_funded"
proof -
  have "is_ok (reduceLifecycle demo_sha None demo_created demo_event)" by code_simp
  moreover have "run_events demo_sha demo_created (take 1 demo_auction)
      = reduceLifecycle demo_sha None demo_created demo_event"
    by (cases "reduceLifecycle demo_sha None demo_created demo_event") (simp_all add: demo_event_def demo_auction_def)
  ultimately show ?thesis by (auto simp: demo_funded_def is_ok_iff)
qed

lemma demo_plan: "plan_event demo_sha no_ecdsa None demo_created demo_event = Inr (Commit demo_funded)"
proof -
  have "prior_action demo_created (ev_actionId demo_event) = None" by code_simp
  moreover have "verifyEventIfNeeded demo_sha no_ecdsa demo_created demo_event (trustPolicyFromRecord demo_created) None
      = Inr None" by (simp add: verifyEventIfNeeded_def demo_event_def demo_auction_def ev_def)
  ultimately show ?thesis using demo_reduced by (simp add: plan_Commit_iff)
qed

lemma demo_applied:
  obtains s where "apply_file demo_sha no_ecdsa None IoOk ''T1'' demo_event demo_files = (Inr (demo_funded, APPLIED), s)"
    "records_of s = [(''T1'', demo_funded)]"
proof -
  obtain s where s: "file_compareAndSet demo_sha IoOk ''T1'' 1 demo_funded demo_files = (Inr demo_funded, s)"
    "records_of s = [(''T1'', demo_funded)]" using demo_file_cas by metis
  have "lr_recordVersion demo_created = 1" by code_simp
  moreover have "map_err StoreFailure (readRecord demo_sha ''T1'' demo_files) = Inr (Some demo_created)"
    using disk_r.get_stored [OF _ demo_files_inv(3)] demo_files_inv(1) demo_sha_digest by (simp add: disk_inv_def)
  ultimately have "apply_file demo_sha no_ecdsa None IoOk ''T1'' demo_event demo_files = (Inr (demo_funded, APPLIED), s)"
    using s(1) demo_plan by (simp add: apply_event_def)
  then show thesis using s(2) that by blast
qed

theorem apply_exactly_once_witness:
  "\<exists>s c. apply_file demo_sha no_ecdsa None IoOk ''T1'' demo_event demo_files = (Inr (demo_funded, APPLIED), s)
     \<and> apply_file demo_sha no_ecdsa None TempWriteFails ''T1'' demo_event s = (Inr (c, REPLAYED), s)"
proof -
  obtain s where s: "apply_file demo_sha no_ecdsa None IoOk ''T1'' demo_event demo_files = (Inr (demo_funded, APPLIED), s)"
    using demo_applied by metis
  show ?thesis
    using apply_exactly_once [OF demo_sha_digest demo_files_inv(1) s, where ops = "[]" and rs = "[]" and ?s2.0 = s
        and ecdsa' = no_ecdsa and cs' = None and io' = TempWriteFails] s by auto
qed

text \<open>A store of one record, and a signature check that accepts.\<close>

definition yes_ecdsa :: ecdsa_fn where
  "yes_ecdsa key message signature = Some True"

definition one_get :: "string \<Rightarrow> LifecycleRecord \<Rightarrow> store_error + LifecycleRecord option" where
  "one_get t s = Inr (Some s)"

definition one_cas :: "string \<Rightarrow> int \<Rightarrow> LifecycleRecord \<Rightarrow> LifecycleRecord \<Rightarrow> (store_error + LifecycleRecord) \<times> LifecycleRecord" where
  "one_cas t v n s = (Inr n, n)"

definition demo_signed_accept :: LifecycleEvent where
  "demo_signed_accept = ev ''a15'' ''2026-07-16T14:00:00Z''
     (POD_ACCEPTED_BY_SHIPPER (replicate 128 (CHR ''a'')) ''2026-07-16T14:00:00Z'' ''2026-07-18T09:00:00.000Z'')"

lemma demo_accept_eval:
  "(case apply_event demo_sha yes_ecdsa None id one_get one_cas ''T1'' demo_signed_accept demo_reviewing of
      (Inr (p, out), s) \<Rightarrow> out = APPLIED \<and> lr_state p = POD_ACCEPTED | _ \<Rightarrow> False)"
  by code_simp

theorem applied_event_is_signed_witness:
  "signed_as_required yes_ecdsa None demo_reviewing demo_signed_accept"
proof -
  obtain p s where a: "apply_event demo_sha yes_ecdsa None id one_get one_cas ''T1'' demo_signed_accept demo_reviewing
      = (Inr (p, APPLIED), s)"
    using demo_accept_eval by (auto split: prod.splits sum.splits)
  show ?thesis using applied_event_is_signed [OF a] by (auto simp: one_get_def)
qed

theorem accepted_event_is_stored_witness:
  "apply_mem demo_sha no_ecdsa None ''T1'' demo_event [(''T1'', demo_created)]
   = (Inr (demo_funded, APPLIED), [(''T1'', demo_funded)])"
proof -
  have "mem_inv demo_sha [(''T1'', demo_created)]" using demo_created_valid by (auto simp: mem_inv_def)
  moreover have "reachable demo_sha demo_created" using reachable.created [OF demo_created] .
  moreover have "storable demo_created demo_event" by code_simp
  ultimately show ?thesis
    using accepted_event_is_stored [of demo_sha "[(''T1'', demo_created)]" "''T1''" demo_created no_ecdsa None
        demo_event demo_funded] demo_sha_digest demo_plan by simp
qed

text \<open>A first event with the action id \<open>toString\<close> is refused as a conflict.\<close>

theorem apply_refusals_witness:
  "\<exists>s'. apply_mem demo_sha no_ecdsa None ''T1'' (demo_event \<lparr> ev_actionId := ''toString'' \<rparr>) [(''T1'', demo_created)]
     = (Inl (ActionConflict ''toString''), s')"
proof -
  have i: "mem_inv demo_sha [(''T1'', demo_created)]" using demo_created_valid by (auto simp: mem_inv_def)
  obtain res s' where a: "apply_mem demo_sha no_ecdsa None ''T1'' (demo_event \<lparr> ev_actionId := ''toString'' \<rparr>)
      [(''T1'', demo_created)] = (res, s')" by fastforce
  have "map_of (lr_processedActions demo_created) ''toString'' = None" by code_simp
  moreover have "List.member OBJECT_PROTOTYPE_KEYS ''toString''" by code_simp
  ultimately show ?thesis using apply_refusals [OF demo_sha_digest i a] a by simp
qed

abbreviation demo_interleaved ::
  "lifecycle_files \<Rightarrow> (string \<times> LifecycleRecord \<times> LifecycleRecord) set \<Rightarrow> bool" where
  "demo_interleaved \<equiv> interleaved demo_sha no_ecdsa (file_create demo_sha) (file_compareAndSet demo_sha)
     (\<lambda>t s. map_err StoreFailure (readRecord demo_sha t s)) []"

lemma demo_file_created: "file_create demo_sha IoOk demo_input [] = (Inr demo_created, demo_files)"
proof -
  obtain e where e: "buildPersistedLifecycleEnvelope demo_sha demo_created = Inr e" "en_record e = demo_created"
    "assertValidPersistedLifecycleEnvelope demo_sha e ''T1'' = Inr e"
    using written_is_read [OF demo_sha_digest demo_created_valid(2,1)] .
  have "ci_tenderId demo_input = ''T1''" by code_simp
  moreover have "assertSafeTenderId ''T1'' = Inr ()" by code_simp
  ultimately show ?thesis
    using e demo_created demo_created_valid(1)
    by (simp add: file_create_def writeAtomic_def demo_files_def)
qed

lemma demo_pending: "demo_interleaved demo_files {(''T1'', demo_created, demo_funded)}"
proof -
  have "map_err StoreFailure (readRecord demo_sha ''T1'' demo_files) = Inr (Some demo_created)"
    using disk_r.get_stored [OF _ demo_files_inv(3)] demo_files_inv(1) demo_sha_digest by (simp add: disk_inv_def)
  moreover have "demo_interleaved [] {}" by (rule interleaved.start)
  then have "demo_interleaved demo_files {}" by (rule interleaved.created) (rule demo_file_created)
  ultimately show ?thesis by (metis interleaved.read demo_plan)
qed

lemma demo_commit:
  obtains s where "file_compareAndSet demo_sha IoOk ''T1'' (lr_recordVersion demo_created) demo_funded demo_files
      = (Inr demo_funded, s)" "file_look s ''T1'' = Some demo_funded"
proof -
  have "lr_recordVersion demo_created = 1" by code_simp
  then show thesis
    using demo_file_cas that map_of_records by (metis map_of_Cons_code(2))
qed

theorem interleaved_conservation_witness:
  "\<exists>s P. demo_interleaved s P \<and> file_look s ''T1'' = Some demo_funded
     \<and> held (ledger_of demo_funded) + returned (ledger_of demo_funded) + paid (ledger_of demo_funded) = 5000000"
proof -
  obtain s where s: "file_compareAndSet demo_sha IoOk ''T1'' (lr_recordVersion demo_created) demo_funded demo_files
      = (Inr demo_funded, s)" "file_look s ''T1'' = Some demo_funded" using demo_commit .
  have i: "demo_interleaved s {(''T1'', demo_created, demo_funded)}"
    using interleaved.commit [OF demo_pending _ s(1)] by blast
  have "amount (lr_maximumFreightBudgetAtomic demo_funded) = 5000000" by code_simp
  then show ?thesis
    using interleaved_conservation [OF i s(2)] demo_funded_valid(3) i s(2) by auto
qed

theorem commit_serialised_witness:
  "\<exists>s. file_look demo_files ''T1'' = Some demo_created \<and> file_look s ''T1'' = Some demo_funded
     \<and> (\<exists>ctx e. reduceLifecycle demo_sha ctx demo_created e = Inr demo_funded)"
proof -
  obtain s where s: "file_compareAndSet demo_sha IoOk ''T1'' (lr_recordVersion demo_created) demo_funded demo_files
      = (Inr demo_funded, s)" using demo_commit by metis
  show ?thesis using commit_serialised [OF demo_pending _ s] by blast
qed

end
