(* ===== verification/Auction_Domain.thy ===== *)
theory Auction_Domain
  imports Carrier_Registry Utc_Time "HOL-Library.Product_Lexorder"
begin

text \<open>
  The documents an auction is decided on, \<^verbatim>\<open>src/domain/tender.ts\<close>, \<^verbatim>\<open>bid.ts\<close>,
  \<^verbatim>\<open>acceptance-receipt.ts\<close>, \<^verbatim>\<open>commitment-evidence.ts\<close> and \<^verbatim>\<open>payment-option.ts\<close>.

  Submitted documents are JSON values of any shape.  A zod schema is a parser
  from \<open>json\<close>: it reads the required properties with their types, drops unknown
  ones and checks the refinements; every failure is the one \<open>ZodError\<close>, here
  \<open>SchemaInvalid\<close>.  The refinements of a schema are a predicate on the typed record
  (\<open>CarrierBidSchema\<close> and the like), and \<open>..._json\<close> is the plain object of a
  record, which is what is hashed and signed.
\<close>

datatype ReconciliationErrorCode =
    DUPLICATE_HCS_SEQUENCE | DUPLICATE_BID_ID | DUPLICATE_COMMITMENT | DUPLICATE_FULL_BID
  | DUPLICATE_ACCEPTANCE_RECEIPT | AMBIGUOUS_BID_ASSIGNMENT | INCOMPLETE_SEQUENCE_RANGE
  | INVALID_CLOSURE_PROOF | MANIFEST_INTEGRITY_FAILURE | UNSUPPORTED_EVIDENCE_TYPE

datatype auction_error =
    SchemaInvalid
  | DuplicatePaymentOption
  | ReconciliationError ReconciliationErrorCode
  | AuctionTime time_error
  | AuctionHash canonical_error
  | AuctionTypeError
  | InvalidEvaluationTimestamp

subsection \<open>Reading properties\<close>

text \<open>An undefined property reads like a missing one.\<close>

definition get_prop :: "json \<Rightarrow> string \<Rightarrow> json option" where
  "get_prop v k =
     (case v of
        JObj ps \<Rightarrow> (case map_of ps k of Some JUndefined \<Rightarrow> None | x \<Rightarrow> x)
      | _ \<Rightarrow> None)"

definition str_prop :: "json \<Rightarrow> string \<Rightarrow> auction_error + string" where
  "str_prop v k = (case get_prop v k of Some (JStr s) \<Rightarrow> Inr s | _ \<Rightarrow> Inl SchemaInvalid)"

definition num_prop :: "json \<Rightarrow> string \<Rightarrow> auction_error + int" where
  "num_prop v k = (case get_prop v k of Some (JNum n) \<Rightarrow> Inr n | _ \<Rightarrow> Inl SchemaInvalid)"

definition bool_prop :: "json \<Rightarrow> string \<Rightarrow> auction_error + bool" where
  "bool_prop v k = (case get_prop v k of Some (JBool b) \<Rightarrow> Inr b | _ \<Rightarrow> Inl SchemaInvalid)"

definition len_between :: "nat \<Rightarrow> nat \<Rightarrow> string \<Rightarrow> bool" where
  "len_between mn mx s \<longleftrightarrow> mn \<le> length s \<and> length s \<le> mx"

subsection \<open>Payment options\<close>

datatype PaymentOptionId = USDC | HBAR

definition USDC_TESTNET_ASSET :: string where "USDC_TESTNET_ASSET = ''0.0.429274''"
definition HBAR_ASSET :: string where "HBAR_ASSET = ''0.0.0''"

record PaymentOption =
  po_optionId :: PaymentOptionId
  po_asset :: string
  po_amountAtomic :: string
  po_payTo :: string

definition option_id_str :: "PaymentOptionId \<Rightarrow> string" where
  "option_id_str i = (case i of USDC \<Rightarrow> ''USDC'' | HBAR \<Rightarrow> ''HBAR'')"

definition PaymentOptionSchema :: "PaymentOption \<Rightarrow> bool" where
  "PaymentOptionSchema p \<longleftrightarrow>
     1 \<le> length (po_asset p) \<and> 1 \<le> length (po_amountAtomic p) \<and> 1 \<le> length (po_payTo p)
     \<and> \<not> (po_optionId p = USDC \<and> po_asset p \<noteq> USDC_TESTNET_ASSET)
     \<and> \<not> (po_optionId p = HBAR \<and> po_asset p \<noteq> HBAR_ASSET)
     \<and> isPositiveIntegerString (po_amountAtomic p)
     \<and> isValidHederaAccountId (po_payTo p)"

definition parsePaymentOption :: "json \<Rightarrow> auction_error + PaymentOption" where
  "parsePaymentOption v =
     bind_res (str_prop v ''optionId'') (\<lambda>oid.
     bind_res (if oid = ''USDC'' then Inr USDC else if oid = ''HBAR'' then Inr HBAR else Inl SchemaInvalid) (\<lambda>i.
     bind_res (str_prop v ''scheme'') (\<lambda>scheme.
     bind_res (str_prop v ''network'') (\<lambda>network.
     bind_res (str_prop v ''asset'') (\<lambda>asset.
     bind_res (str_prop v ''amountAtomic'') (\<lambda>amountAtomic.
     bind_res (str_prop v ''payTo'') (\<lambda>payTo.
       let p = \<lparr> po_optionId = i, po_asset = asset, po_amountAtomic = amountAtomic, po_payTo = payTo \<rparr> in
       if scheme = ''exact'' \<and> network = ''hedera:testnet'' \<and> PaymentOptionSchema p
       then Inr p else Inl SchemaInvalid)))))))"

primrec option_set_loop ::
  "PaymentOption list \<Rightarrow> PaymentOptionId list \<Rightarrow> string list \<Rightarrow> auction_error + unit" where
  "option_set_loop [] optionIds assets = Inr ()"
| "option_set_loop (p # ps) optionIds assets =
     (if List.member optionIds (po_optionId p) then Inl DuplicatePaymentOption
      else if List.member assets (po_asset p) then Inl DuplicatePaymentOption
      else option_set_loop ps (po_optionId p # optionIds) (po_asset p # assets))"

definition item_value :: "json option \<Rightarrow> json" where
  "item_value i = (case i of None \<Rightarrow> JUndefined | Some v \<Rightarrow> v)"

definition parsePaymentOptionSet :: "json \<Rightarrow> auction_error + PaymentOption list" where
  "parsePaymentOptionSet v =
     (case v of
        JArr items \<Rightarrow>
          bind_res (map_res (\<lambda>i. parsePaymentOption (item_value i)) items) (\<lambda>options.
            if \<not> 1 \<le> length options then Inl SchemaInvalid
            else bind_res (option_set_loop options [] []) (\<lambda>_. Inr options))
      | _ \<Rightarrow> Inl SchemaInvalid)"

definition assertPaymentRecipientsMatch :: "PaymentOption list \<Rightarrow> string \<Rightarrow> bool" where
  "assertPaymentRecipientsMatch options carrierAccountId = list_all (\<lambda>p. po_payTo p = carrierAccountId) options"

definition payment_option_json :: "PaymentOption \<Rightarrow> json" where
  "payment_option_json p = JObj
     [(''optionId'', JStr (option_id_str (po_optionId p))), (''scheme'', JStr ''exact''),
      (''network'', JStr ''hedera:testnet''), (''asset'', JStr (po_asset p)),
      (''amountAtomic'', JStr (po_amountAtomic p)), (''payTo'', JStr (po_payTo p))]"

subsection \<open>Tenders\<close>

definition SELECTION_POLICY_V1 :: string where "SELECTION_POLICY_V1 = ''LOWEST_QUALIFIED_PRICE_V1''"

record FreightTender =
  ft_tenderId :: string
  ft_shipperId :: string
  ft_origin :: string
  ft_destination :: string
  ft_cargoType :: string
  ft_cargoWeightKg :: int
  ft_cargoPallets :: int
  ft_cargoDangerousGoods :: bool
  ft_requiredEquipment :: string
  ft_pickupEarliest :: string
  ft_pickupLatest :: string
  ft_deliveryDeadline :: string
  ft_auctionEndsAt :: string
  ft_maximumFreightPriceCents :: int
  ft_selectionPolicy :: string
  ft_version :: int

definition holds_res :: "'e + bool \<Rightarrow> bool" where
  "holds_res m = (case m of Inr b \<Rightarrow> b | Inl _ \<Rightarrow> False)"

definition FreightTenderSchema :: "FreightTender \<Rightarrow> bool" where
  "FreightTenderSchema t \<longleftrightarrow>
     len_between 1 128 (ft_tenderId t) \<and> len_between 1 128 (ft_shipperId t)
     \<and> len_between 1 256 (ft_origin t) \<and> len_between 1 256 (ft_destination t)
     \<and> len_between 1 128 (ft_cargoType t) \<and> len_between 1 128 (ft_requiredEquipment t)
     \<and> ft_selectionPolicy t = SELECTION_POLICY_V1
     \<and> isUtcIsoTimestamp (ft_pickupEarliest t) \<and> isUtcIsoTimestamp (ft_pickupLatest t)
     \<and> isUtcIsoTimestamp (ft_deliveryDeadline t) \<and> isUtcIsoTimestamp (ft_auctionEndsAt t)
     \<and> holds_res (isBeforeOrEqualUtc (ft_pickupEarliest t) (ft_pickupLatest t))
     \<and> holds_res (isBeforeOrEqualUtc (ft_pickupLatest t) (ft_deliveryDeadline t))
     \<and> holds_res (isBeforeUtc (ft_auctionEndsAt t) (ft_pickupEarliest t))
     \<and> isSafePositiveInteger (ft_maximumFreightPriceCents t) \<and> isSafePositiveInteger (ft_version t)
     \<and> isSafePositiveInteger (ft_cargoWeightKg t) \<and> isSafePositiveInteger (ft_cargoPallets t)"

definition parseFreightTender :: "FreightTender \<Rightarrow> auction_error + FreightTender" where
  "parseFreightTender t = (if FreightTenderSchema t then Inr t else Inl SchemaInvalid)"

definition tender_json :: "FreightTender \<Rightarrow> json" where
  "tender_json t = JObj
     [(''tenderId'', JStr (ft_tenderId t)), (''shipperId'', JStr (ft_shipperId t)),
      (''origin'', JStr (ft_origin t)), (''destination'', JStr (ft_destination t)),
      (''cargo'', JObj [(''type'', JStr (ft_cargoType t)), (''weightKg'', JNum (ft_cargoWeightKg t)),
         (''pallets'', JNum (ft_cargoPallets t)), (''dangerousGoods'', JBool (ft_cargoDangerousGoods t))]),
      (''requiredEquipment'', JStr (ft_requiredEquipment t)),
      (''pickupWindow'', JObj [(''earliest'', JStr (ft_pickupEarliest t)), (''latest'', JStr (ft_pickupLatest t))]),
      (''deliveryDeadline'', JStr (ft_deliveryDeadline t)), (''auctionEndsAt'', JStr (ft_auctionEndsAt t)),
      (''maximumFreightPriceCents'', JNum (ft_maximumFreightPriceCents t)),
      (''selectionPolicy'', JStr (ft_selectionPolicy t)), (''version'', JNum (ft_version t))]"

definition tenderHash :: "hash_fn \<Rightarrow> FreightTender \<Rightarrow> auction_error + string" where
  "tenderHash sha256 t =
     bind_res (parseFreightTender t) (\<lambda>v. map_err AuctionHash (canonicalSha256 sha256 (tender_json v)))"

subsection \<open>Bids\<close>

record CarrierBid =
  cb_bidId :: string
  cb_tenderId :: string
  cb_carrierId :: string
  cb_carrierAccountId :: string
  cb_freightPriceCents :: int
  cb_equipment :: string
  cb_proposedPickupAt :: string
  cb_estimatedDelivery :: string
  cb_capacityConfirmed :: bool
  cb_bidValidUntil :: string
  cb_reservationPaymentOptions :: "PaymentOption list"
  cb_commitmentSalt :: string
  cb_nonce :: string
  cb_version :: int

definition CarrierBidSchema :: "CarrierBid \<Rightarrow> bool" where
  "CarrierBidSchema b \<longleftrightarrow>
     len_between 1 128 (cb_bidId b) \<and> len_between 1 128 (cb_tenderId b) \<and> len_between 1 128 (cb_carrierId b)
     \<and> len_between 1 64 (cb_carrierAccountId b) \<and> len_between 1 128 (cb_equipment b)
     \<and> 1 \<le> length (cb_commitmentSalt b) \<and> len_between 1 128 (cb_nonce b)
     \<and> isValidHederaAccountId (cb_carrierAccountId b)
     \<and> isSafePositiveInteger (cb_freightPriceCents b) \<and> isSafePositiveInteger (cb_version b)
     \<and> isUtcIsoTimestamp (cb_proposedPickupAt b) \<and> isUtcIsoTimestamp (cb_estimatedDelivery b)
     \<and> isUtcIsoTimestamp (cb_bidValidUntil b) \<and> is_hex64 (cb_commitmentSalt b)"

definition parseCarrierBid :: "json \<Rightarrow> auction_error + CarrierBid" where
  "parseCarrierBid v =
     bind_res (str_prop v ''bidId'') (\<lambda>bidId.
     bind_res (str_prop v ''tenderId'') (\<lambda>tenderId.
     bind_res (str_prop v ''carrierId'') (\<lambda>carrierId.
     bind_res (str_prop v ''carrierAccountId'') (\<lambda>carrierAccountId.
     bind_res (num_prop v ''freightPriceCents'') (\<lambda>freightPriceCents.
     bind_res (str_prop v ''equipment'') (\<lambda>equipment.
     bind_res (str_prop v ''proposedPickupAt'') (\<lambda>proposedPickupAt.
     bind_res (str_prop v ''estimatedDelivery'') (\<lambda>estimatedDelivery.
     bind_res (bool_prop v ''capacityConfirmed'') (\<lambda>capacityConfirmed.
     bind_res (str_prop v ''bidValidUntil'') (\<lambda>bidValidUntil.
     bind_res (case get_prop v ''reservationPaymentOptions'' of
         None \<Rightarrow> Inl SchemaInvalid
       | Some os \<Rightarrow> (case parsePaymentOptionSet os of Inl _ \<Rightarrow> Inl SchemaInvalid | Inr options \<Rightarrow> Inr options))
       (\<lambda>options.
     bind_res (str_prop v ''commitmentSalt'') (\<lambda>commitmentSalt.
     bind_res (str_prop v ''nonce'') (\<lambda>nonce.
     bind_res (num_prop v ''version'') (\<lambda>version.
       let b = \<lparr> cb_bidId = bidId, cb_tenderId = tenderId, cb_carrierId = carrierId,
         cb_carrierAccountId = carrierAccountId, cb_freightPriceCents = freightPriceCents,
         cb_equipment = equipment, cb_proposedPickupAt = proposedPickupAt,
         cb_estimatedDelivery = estimatedDelivery, cb_capacityConfirmed = capacityConfirmed,
         cb_bidValidUntil = bidValidUntil, cb_reservationPaymentOptions = options,
         cb_commitmentSalt = commitmentSalt, cb_nonce = nonce, cb_version = version \<rparr> in
       if CarrierBidSchema b then Inr b else Inl SchemaInvalid))))))))))))))"

definition bid_json :: "CarrierBid \<Rightarrow> json" where
  "bid_json b = JObj
     [(''bidId'', JStr (cb_bidId b)), (''tenderId'', JStr (cb_tenderId b)), (''carrierId'', JStr (cb_carrierId b)),
      (''carrierAccountId'', JStr (cb_carrierAccountId b)), (''freightPriceCents'', JNum (cb_freightPriceCents b)),
      (''equipment'', JStr (cb_equipment b)), (''proposedPickupAt'', JStr (cb_proposedPickupAt b)),
      (''estimatedDelivery'', JStr (cb_estimatedDelivery b)), (''capacityConfirmed'', JBool (cb_capacityConfirmed b)),
      (''bidValidUntil'', JStr (cb_bidValidUntil b)),
      (''reservationPaymentOptions'',
         JArr (map (\<lambda>p. Some (payment_option_json p)) (cb_reservationPaymentOptions b))),
      (''commitmentSalt'', JStr (cb_commitmentSalt b)), (''nonce'', JStr (cb_nonce b)),
      (''version'', JNum (cb_version b))]"

definition bidHash :: "hash_fn \<Rightarrow> CarrierBid \<Rightarrow> auction_error + string" where
  "bidHash sha256 b =
     bind_res (parseCarrierBid (bid_json b)) (\<lambda>v. map_err AuctionHash (canonicalSha256 sha256 (bid_json v)))"

definition signedBidEnvelopeHash :: "hash_fn \<Rightarrow> CarrierBid \<Rightarrow> string \<Rightarrow> auction_error + string" where
  "signedBidEnvelopeHash sha256 b signature =
     bind_res (parseCarrierBid (bid_json b)) (\<lambda>v. map_err AuctionHash (canonicalSha256 sha256
       (JObj [(''bid'', bid_json v), (''signature'', JStr signature)])))"

definition verifyCarrierBidSignature :: "ecdsa_fn \<Rightarrow> CarrierBid \<Rightarrow> string \<Rightarrow> string \<Rightarrow> bool" where
  "verifyCarrierBidSignature ecdsa b signature registeredPublicKey =
     (case parseCarrierBid (bid_json b) of Inl _ \<Rightarrow> False
      | Inr v \<Rightarrow> verifyCanonicalPayload ecdsa (bid_json v) signature registeredPublicKey)"

subsection \<open>Acceptance receipts\<close>

record AcceptanceReceiptBody =
  rc_receiptId :: string
  rc_tenderId :: string
  rc_bidId :: string
  rc_bidHash :: string
  rc_acceptedAt :: string
  rc_version :: int

definition AcceptanceReceiptBodySchema :: "AcceptanceReceiptBody \<Rightarrow> bool" where
  "AcceptanceReceiptBodySchema r \<longleftrightarrow>
     len_between 1 128 (rc_receiptId r) \<and> len_between 1 128 (rc_tenderId r) \<and> len_between 1 128 (rc_bidId r)
     \<and> 1 \<le> length (rc_bidHash r) \<and> is_sha256_hash (rc_bidHash r)
     \<and> isUtcIsoTimestamp (rc_acceptedAt r) \<and> isSafePositiveInteger (rc_version r)"

definition parseAcceptanceReceiptBody :: "json \<Rightarrow> auction_error + AcceptanceReceiptBody" where
  "parseAcceptanceReceiptBody v =
     bind_res (str_prop v ''receiptId'') (\<lambda>receiptId.
     bind_res (str_prop v ''tenderId'') (\<lambda>tenderId.
     bind_res (str_prop v ''bidId'') (\<lambda>bidId.
     bind_res (str_prop v ''bidHash'') (\<lambda>bidHash.
     bind_res (str_prop v ''acceptedAt'') (\<lambda>acceptedAt.
     bind_res (num_prop v ''version'') (\<lambda>version.
       let r = \<lparr> rc_receiptId = receiptId, rc_tenderId = tenderId, rc_bidId = bidId, rc_bidHash = bidHash,
         rc_acceptedAt = acceptedAt, rc_version = version \<rparr> in
       if AcceptanceReceiptBodySchema r then Inr r else Inl SchemaInvalid))))))"

definition receipt_body_json :: "AcceptanceReceiptBody \<Rightarrow> json" where
  "receipt_body_json r = JObj
     [(''receiptId'', JStr (rc_receiptId r)), (''tenderId'', JStr (rc_tenderId r)), (''bidId'', JStr (rc_bidId r)),
      (''bidHash'', JStr (rc_bidHash r)), (''acceptedAt'', JStr (rc_acceptedAt r)), (''version'', JNum (rc_version r))]"

definition acceptanceReceiptHash :: "hash_fn \<Rightarrow> AcceptanceReceiptBody \<Rightarrow> auction_error + string" where
  "acceptanceReceiptHash sha256 r =
     bind_res (parseAcceptanceReceiptBody (receipt_body_json r)) (\<lambda>v.
       map_err AuctionHash (canonicalSha256 sha256 (receipt_body_json v)))"

definition signedReceiptEnvelopeHash :: "hash_fn \<Rightarrow> AcceptanceReceiptBody \<Rightarrow> string \<Rightarrow> auction_error + string" where
  "signedReceiptEnvelopeHash sha256 r signature =
     bind_res (parseAcceptanceReceiptBody (receipt_body_json r)) (\<lambda>v. map_err AuctionHash (canonicalSha256 sha256
       (JObj [(''receipt'', receipt_body_json v), (''signature'', JStr signature)])))"

definition verifyAcceptanceReceiptSignature :: "ecdsa_fn \<Rightarrow> AcceptanceReceiptBody \<Rightarrow> string \<Rightarrow> string \<Rightarrow> bool" where
  "verifyAcceptanceReceiptSignature ecdsa r signature routeGuardPublicKey =
     (case parseAcceptanceReceiptBody (receipt_body_json r) of Inl _ \<Rightarrow> False
      | Inr v \<Rightarrow> verifyCanonicalPayload ecdsa (receipt_body_json v) signature routeGuardPublicKey)"

definition receiptMatchesBid :: "AcceptanceReceiptBody \<Rightarrow> string \<Rightarrow> string \<Rightarrow> string \<Rightarrow> bool" where
  "receiptMatchesBid r bidId tenderId expectedBidHash \<longleftrightarrow>
     rc_bidId r = bidId \<and> rc_tenderId r = tenderId \<and> rc_bidHash r = expectedBidHash"

subsection \<open>Commitments\<close>

record CommitmentEvidence =
  ce_tenderId :: string
  ce_bidId :: string
  ce_carrierId :: string
  ce_bidHash :: string
  ce_acceptanceReceiptHash :: string
  ce_bidVersion :: int
  ce_hcsSequence :: int
  ce_consensusTimestamp :: string

definition CommitmentEvidenceSchema :: "CommitmentEvidence \<Rightarrow> bool" where
  "CommitmentEvidenceSchema c \<longleftrightarrow>
     len_between 1 128 (ce_tenderId c) \<and> len_between 1 128 (ce_bidId c) \<and> len_between 1 128 (ce_carrierId c)
     \<and> 1 \<le> length (ce_bidHash c) \<and> 1 \<le> length (ce_acceptanceReceiptHash c)
     \<and> is_sha256_hash (ce_bidHash c) \<and> is_sha256_hash (ce_acceptanceReceiptHash c)
     \<and> isSafePositiveInteger (ce_bidVersion c) \<and> isSafePositiveInteger (ce_hcsSequence c)
     \<and> isUtcIsoTimestamp (ce_consensusTimestamp c)"

definition parseCommitmentEvidence :: "json \<Rightarrow> auction_error + CommitmentEvidence" where
  "parseCommitmentEvidence v =
     bind_res (str_prop v ''tenderId'') (\<lambda>tenderId.
     bind_res (str_prop v ''bidId'') (\<lambda>bidId.
     bind_res (str_prop v ''carrierId'') (\<lambda>carrierId.
     bind_res (str_prop v ''bidHash'') (\<lambda>bidHash.
     bind_res (str_prop v ''acceptanceReceiptHash'') (\<lambda>acceptanceReceiptHash.
     bind_res (num_prop v ''bidVersion'') (\<lambda>bidVersion.
     bind_res (num_prop v ''hcsSequence'') (\<lambda>hcsSequence.
     bind_res (str_prop v ''consensusTimestamp'') (\<lambda>consensusTimestamp.
       let c = \<lparr> ce_tenderId = tenderId, ce_bidId = bidId, ce_carrierId = carrierId, ce_bidHash = bidHash,
         ce_acceptanceReceiptHash = acceptanceReceiptHash, ce_bidVersion = bidVersion,
         ce_hcsSequence = hcsSequence, ce_consensusTimestamp = consensusTimestamp \<rparr> in
       if CommitmentEvidenceSchema c then Inr c else Inl SchemaInvalid))))))))"

definition commitment_json :: "CommitmentEvidence \<Rightarrow> json" where
  "commitment_json c = JObj
     [(''tenderId'', JStr (ce_tenderId c)), (''bidId'', JStr (ce_bidId c)), (''carrierId'', JStr (ce_carrierId c)),
      (''bidHash'', JStr (ce_bidHash c)), (''acceptanceReceiptHash'', JStr (ce_acceptanceReceiptHash c)),
      (''bidVersion'', JNum (ce_bidVersion c)), (''hcsSequence'', JNum (ce_hcsSequence c)),
      (''consensusTimestamp'', JStr (ce_consensusTimestamp c))]"

definition isCommitmentTimely :: "string \<Rightarrow> string \<Rightarrow> auction_error + bool" where
  "isCommitmentTimely consensusTimestamp auctionEndsAt =
     map_err AuctionTime (isBeforeOrEqualUtc consensusTimestamp auctionEndsAt)"

definition withTimelyFlag :: "CommitmentEvidence \<Rightarrow> string \<Rightarrow> auction_error + CommitmentEvidence \<times> bool" where
  "withTimelyFlag evidence auctionEndsAt =
     bind_res (parseCommitmentEvidence (commitment_json evidence)) (\<lambda>v.
     bind_res (isCommitmentTimely (ce_consensusTimestamp v) auctionEndsAt) (\<lambda>timely. Inr (v, timely)))"

subsection \<open>Parsers accept exactly the well-formed documents\<close>

lemma prop_readers [res_simps]:
  "str_prop v k = Inr s \<longleftrightarrow> get_prop v k = Some (JStr s)"
  "num_prop v k = Inr n \<longleftrightarrow> get_prop v k = Some (JNum n)"
  "bool_prop v k = Inr b \<longleftrightarrow> get_prop v k = Some (JBool b)"
  by (auto simp: str_prop_def num_prop_def bool_prop_def split: option.splits json.splits)

lemma prop_values:
  "get_prop v k = Some (JStr s) \<Longrightarrow> str_prop v k = Inr s"
  "get_prop v k = Some (JNum n) \<Longrightarrow> num_prop v k = Inr n"
  "get_prop v k = Some (JBool b) \<Longrightarrow> bool_prop v k = Inr b"
  by (simp_all add: res_simps)

lemma parsePaymentOption_json:
  "parsePaymentOption (payment_option_json p) = (if PaymentOptionSchema p then Inr p else Inl SchemaInvalid)"
  by (cases p; cases "po_optionId p")
    (simp_all add: parsePaymentOption_def payment_option_json_def str_prop_def get_prop_def option_id_str_def Let_def)

lemma parsePaymentOption_sound: "parsePaymentOption v = Inr p \<Longrightarrow> PaymentOptionSchema p"
  by (auto simp: parsePaymentOption_def res_simps Let_def split: if_splits)

definition options_ok :: "PaymentOption list \<Rightarrow> bool" where
  "options_ok ps \<longleftrightarrow> ps \<noteq> [] \<and> list_all PaymentOptionSchema ps \<and> distinct (map po_optionId ps)
     \<and> distinct (map po_asset ps)"

lemma option_set_loop_iff:
  "option_set_loop ps ids assets = Inr () \<longleftrightarrow>
     distinct (map po_optionId ps) \<and> set (map po_optionId ps) \<inter> set ids = {}
     \<and> distinct (map po_asset ps) \<and> set (map po_asset ps) \<inter> set assets = {}"
  by (induction ps arbitrary: ids assets) auto

lemma map_res_sound: "map_res f xs = Inr ys \<Longrightarrow> (\<And>x y. f x = Inr y \<Longrightarrow> P y) \<Longrightarrow> list_all P ys"
  by (induction xs arbitrary: ys) (auto simp: res_simps)

lemma map_res_map: "map_res f (map g xs) = map_res (\<lambda>x. f (g x)) xs"
  by (induction xs) auto

lemma map_res_if:
  "map_res (\<lambda>x. if P x then Inr x else Inl e) xs = (if list_all P xs then Inr xs else Inl e)"
  by (induction xs) auto

lemma parseOptionSet_sound: "parsePaymentOptionSet v = Inr ps \<Longrightarrow> options_ok ps"
  by (auto simp: parsePaymentOptionSet_def options_ok_def res_simps option_set_loop_iff
      dest: map_res_sound [OF _ parsePaymentOption_sound] split: json.splits if_splits)

lemma parseOptionSet_json:
  "parsePaymentOptionSet (JArr (map (\<lambda>p. Some (payment_option_json p)) ps)) = Inr qs \<longleftrightarrow> qs = ps \<and> options_ok ps"
  by (auto simp: parsePaymentOptionSet_def map_res_map item_value_def parsePaymentOption_json map_res_if options_ok_def
      res_simps option_set_loop_iff Suc_le_eq split: if_splits)

definition bid_ok :: "CarrierBid \<Rightarrow> bool" where
  "bid_ok b \<longleftrightarrow> CarrierBidSchema b \<and> options_ok (cb_reservationPaymentOptions b)"

lemma parseCarrierBid_sound: "parseCarrierBid v = Inr b \<Longrightarrow> bid_ok b"
  by (auto simp: parseCarrierBid_def res_simps Let_def bid_ok_def dest: parseOptionSet_sound
      split: if_splits option.splits sum.splits)

lemma bid_props:
  "get_prop (bid_json b) ''bidId'' = Some (JStr (cb_bidId b))"
  "get_prop (bid_json b) ''tenderId'' = Some (JStr (cb_tenderId b))"
  "get_prop (bid_json b) ''carrierId'' = Some (JStr (cb_carrierId b))"
  "get_prop (bid_json b) ''carrierAccountId'' = Some (JStr (cb_carrierAccountId b))"
  "get_prop (bid_json b) ''freightPriceCents'' = Some (JNum (cb_freightPriceCents b))"
  "get_prop (bid_json b) ''equipment'' = Some (JStr (cb_equipment b))"
  "get_prop (bid_json b) ''proposedPickupAt'' = Some (JStr (cb_proposedPickupAt b))"
  "get_prop (bid_json b) ''estimatedDelivery'' = Some (JStr (cb_estimatedDelivery b))"
  "get_prop (bid_json b) ''capacityConfirmed'' = Some (JBool (cb_capacityConfirmed b))"
  "get_prop (bid_json b) ''bidValidUntil'' = Some (JStr (cb_bidValidUntil b))"
  "get_prop (bid_json b) ''reservationPaymentOptions'' =
     Some (JArr (map (\<lambda>p. Some (payment_option_json p)) (cb_reservationPaymentOptions b)))"
  "get_prop (bid_json b) ''commitmentSalt'' = Some (JStr (cb_commitmentSalt b))"
  "get_prop (bid_json b) ''nonce'' = Some (JStr (cb_nonce b))"
  "get_prop (bid_json b) ''version'' = Some (JNum (cb_version b))"
  by (simp_all add: bid_json_def get_prop_def)

lemma parseCarrierBid_json: "parseCarrierBid (bid_json b) = (if bid_ok b then Inr b else Inl SchemaInvalid)"
proof (cases "options_ok (cb_reservationPaymentOptions b)")
  case True
  then have "parsePaymentOptionSet (JArr (map (\<lambda>p. Some (payment_option_json p)) (cb_reservationPaymentOptions b)))
      = Inr (cb_reservationPaymentOptions b)" by (simp add: parseOptionSet_json)
  then show ?thesis
    using True by (cases b) (simp add: parseCarrierBid_def prop_values bid_props bid_ok_def Let_def)
next
  case False
  then obtain e where "parsePaymentOptionSet (JArr (map (\<lambda>p. Some (payment_option_json p)) (cb_reservationPaymentOptions b)))
      = Inl e" using parseOptionSet_json by (metis sum.exhaust)
  then show ?thesis
    using False by (simp add: parseCarrierBid_def prop_values bid_props bid_ok_def)
qed

lemma parseReceipt_sound: "parseAcceptanceReceiptBody v = Inr r \<Longrightarrow> AcceptanceReceiptBodySchema r"
  by (auto simp: parseAcceptanceReceiptBody_def res_simps Let_def split: if_splits)

lemma parseReceipt_json:
  "parseAcceptanceReceiptBody (receipt_body_json r) = (if AcceptanceReceiptBodySchema r then Inr r else Inl SchemaInvalid)"
  by (cases r) (simp add: parseAcceptanceReceiptBody_def receipt_body_json_def str_prop_def num_prop_def get_prop_def Let_def)

lemma parseCommitment_sound: "parseCommitmentEvidence v = Inr c \<Longrightarrow> CommitmentEvidenceSchema c"
  by (auto simp: parseCommitmentEvidence_def res_simps Let_def split: if_splits)

lemma parseCommitment_json:
  "parseCommitmentEvidence (commitment_json c) = (if CommitmentEvidenceSchema c then Inr c else Inl SchemaInvalid)"
  by (cases c) (simp add: parseCommitmentEvidence_def commitment_json_def str_prop_def num_prop_def get_prop_def Let_def)


subsection \<open>Hashes of parsed documents\<close>

lemma docs_have_text [simp]:
  "has_text (payment_option_json p)" "has_text (receipt_body_json r)" "has_text (commitment_json c)"
  "has_text (tender_json t)"
  by (simp_all add: payment_option_json_def receipt_body_json_def commitment_json_def tender_json_def has_text_JObj)

lemma bid_has_text [simp]: "has_text (bid_json b)"
proof -
  have "has_text (JArr (map Some (map payment_option_json (cb_reservationPaymentOptions b))))"
    unfolding has_text_JArr by (simp add: list_all_iff)
  then show ?thesis by (simp add: bid_json_def has_text_JObj comp_def)
qed

lemma digest_ok: "hex_digest h \<Longrightarrow> has_text v \<Longrightarrow> canonicalSha256 h v = Inr (''sha256:'' @ h (text_of v))"
  by (simp add: canonicalSha256_def canonicalize_def has_textD hex_digest_def)

lemma bidHash_ok:
  assumes "hex_digest h" "bid_ok b"
  shows "bidHash h b = Inr (''sha256:'' @ h (text_of (bid_json b)))"
  using assms by (simp add: bidHash_def parseCarrierBid_json digest_ok)

lemma envelopeHash_ok:
  assumes "hex_digest h" "bid_ok b"
  shows "is_ok (signedBidEnvelopeHash h b sg)"
  using assms by (simp add: signedBidEnvelopeHash_def parseCarrierBid_json digest_ok has_text_JObj)

end
