(* ===== verification/Auction_Eligibility.thy ===== *)
theory Auction_Eligibility
  imports Auction_Domain
begin

text \<open>
  Eligibility of sealed bids, \<^verbatim>\<open>src/auction/eligibility.ts\<close>, \<^verbatim>\<open>evidence-hash.ts\<close>
  and the result types of \<^verbatim>\<open>types.ts\<close>.  Each commitment is judged on its own: the
  submitted documents are hashed as they are, then parsed, and every failed
  requirement adds a reason code; a bid qualifies when there is none.  What the
  source throws is an error of the model: evidence that is not JSON, an invalid
  evaluation time or tender time, and a \<open>signature\<close> that cannot be turned into
  a string.
\<close>

datatype EligibilityReasonCode =
    LATE_COMMITMENT | FULL_BID_MISSING | BID_HASH_MISMATCH | BID_VERSION_MISMATCH
  | ACCEPTANCE_RECEIPT_MISMATCH | INVALID_BID_SIGNATURE | INVALID_COMMITMENT_SCHEMA | INVALID_BID_SCHEMA
  | INVALID_ACCEPTANCE_RECEIPT | CARRIER_NOT_REGISTERED | CARRIER_INACTIVE | CARRIER_ACCOUNT_MISMATCH
  | TENDER_MISMATCH | BID_EXPIRED | EQUIPMENT_MISMATCH | EQUIPMENT_NOT_AUTHORIZED | CAPACITY_NOT_CONFIRMED
  | PICKUP_WINDOW_INFEASIBLE | DELIVERY_DEADLINE_MISSED | PRICE_ABOVE_MAXIMUM | PAYMENT_RECIPIENT_MISMATCH
  | INVALID_PAYMENT_OPTIONS

definition REASON_CODE_ORDER :: "EligibilityReasonCode list" where
  "REASON_CODE_ORDER =
     [INVALID_COMMITMENT_SCHEMA, LATE_COMMITMENT, TENDER_MISMATCH, FULL_BID_MISSING, INVALID_BID_SCHEMA,
      BID_VERSION_MISMATCH, BID_HASH_MISMATCH, INVALID_ACCEPTANCE_RECEIPT, ACCEPTANCE_RECEIPT_MISMATCH,
      CARRIER_NOT_REGISTERED, CARRIER_INACTIVE, CARRIER_ACCOUNT_MISMATCH, INVALID_BID_SIGNATURE, BID_EXPIRED,
      EQUIPMENT_MISMATCH, EQUIPMENT_NOT_AUTHORIZED, CAPACITY_NOT_CONFIRMED, PICKUP_WINDOW_INFEASIBLE,
      DELIVERY_DEADLINE_MISSED, PRICE_ABOVE_MAXIMUM, INVALID_PAYMENT_OPTIONS, PAYMENT_RECIPIENT_MISMATCH]"

datatype BidDecision = QUALIFIED | REJECTED

record EligibilityResult =
  el_bidId :: string
  el_carrierId :: string
  el_decision :: BidDecision
  el_reasonCodes :: "EligibilityReasonCode list"
  el_freightPriceCents :: "int option"
  el_estimatedDelivery :: "string option"
  el_consensusTimestamp :: string
  el_hcsSequence :: int
  el_bidHash :: "string option"
  el_timely :: bool
  el_submittedSignedBidPresent :: bool
  el_submittedSignedBidEnvelopeHash :: "string option"
  el_submittedReceiptPresent :: bool
  el_submittedReceiptEnvelopeHash :: "string option"
  el_fullBidSchemaValid :: "bool option"
  el_receiptSchemaValid :: "bool option"
  el_fullBidPresent :: bool
  el_validatedFullBidHash :: "string option"
  el_signedBidEnvelopeHash :: "string option"
  el_receiptPresent :: bool
  el_validatedReceiptHash :: "string option"
  el_bidVersionMatch :: "bool option"
  el_signatureValid :: "bool option"
  el_commitment :: "CommitmentEvidence option"

subsection \<open>Submitted evidence\<close>

definition present :: "json option \<Rightarrow> bool" where
  "present v \<longleftrightarrow> v \<noteq> None \<and> v \<noteq> Some JNull \<and> v \<noteq> Some JUndefined"

definition hashSubmittedEvidence :: "hash_fn \<Rightarrow> json \<Rightarrow> auction_error + string" where
  "hashSubmittedEvidence sha256 v =
     map_err (\<lambda>_. ReconciliationError UNSUPPORTED_EVIDENCE_TYPE) (canonicalSha256 sha256 v)"

definition hashSubmittedEvidenceOrNull :: "hash_fn \<Rightarrow> json option \<Rightarrow> auction_error + string option" where
  "hashSubmittedEvidenceOrNull sha256 v =
     (if \<not> present v then Inr None
      else bind_res (hashSubmittedEvidence sha256 (the v)) (\<lambda>d. Inr (Some d)))"

text \<open>
  \<open>String(value)\<close> on a plain value: an array joins its items, an object with its
  own (not callable) \<open>toString\<close> property throws a \<open>TypeError\<close>.  Functions,
  symbols, dates and class instances do not get here: the evidence hash has refused
  them.
\<close>

definition item_text :: "json option \<Rightarrow> string option option \<Rightarrow> string option" where
  "item_text i r =
     (case i of None \<Rightarrow> Some [] | Some JNull \<Rightarrow> Some [] | Some JUndefined \<Rightarrow> Some [] | Some _ \<Rightarrow> the r)"

primrec js_string :: "json \<Rightarrow> string option" where
  "js_string JNull = Some ''null''"
| "js_string (JBool b) = Some (if b then ''true'' else ''false'')"
| "js_string (JNum n) = Some (int_str n)"
| "js_string JNonFinite = Some ''NaN''"
| "js_string (JStr s) = Some s"
| "js_string JUndefined = Some ''undefined''"
| "js_string JFunction = None"
| "js_string (JBigint n) = Some (int_str n)"
| "js_string JSymbol = None"
| "js_string (JArr items) =
     map_option (join '','') (those (map2 item_text items (map (map_option js_string) items)))"
| "js_string JDate = None"
| "js_string JMap = None"
| "js_string JSet = None"
| "js_string JInstance = None"
| "js_string (JObj ps) = (if map_of ps ''toString'' \<noteq> None then None else Some ''[object Object]'')"

subsection \<open>Judging one commitment\<close>

definition orderReasonCodes :: "EligibilityReasonCode list \<Rightarrow> EligibilityReasonCode list" where
  "orderReasonCodes codes = filter (\<lambda>c. List.member codes c) REASON_CODE_ORDER"

record submitted_evidence =
  su_bidPresent :: bool
  su_bidHash :: "string option"
  su_receiptPresent :: bool
  su_receiptHash :: "string option"

text \<open>The local function \<open>empty\<close>: a result with the defaults for what is not yet known.\<close>

definition empty_result ::
  "submitted_evidence \<Rightarrow> EligibilityReasonCode list \<Rightarrow> string \<Rightarrow> string \<Rightarrow> int \<Rightarrow> string \<Rightarrow> EligibilityResult" where
  "empty_result su reasonCodes bidId carrierId hcsSequence consensusTimestamp =
     (let ordered = orderReasonCodes reasonCodes in
      \<lparr> el_bidId = bidId, el_carrierId = carrierId,
        el_decision = (if ordered = [] then QUALIFIED else REJECTED), el_reasonCodes = ordered,
        el_freightPriceCents = None, el_estimatedDelivery = None,
        el_consensusTimestamp = consensusTimestamp, el_hcsSequence = hcsSequence, el_bidHash = None,
        el_timely = False,
        el_submittedSignedBidPresent = su_bidPresent su, el_submittedSignedBidEnvelopeHash = su_bidHash su,
        el_submittedReceiptPresent = su_receiptPresent su, el_submittedReceiptEnvelopeHash = su_receiptHash su,
        el_fullBidSchemaValid = None, el_receiptSchemaValid = None, el_fullBidPresent = su_bidPresent su,
        el_validatedFullBidHash = None, el_signedBidEnvelopeHash = None, el_receiptPresent = su_receiptPresent su,
        el_validatedReceiptHash = None, el_bidVersionMatch = None, el_signatureValid = None,
        el_commitment = None \<rparr>)"

definition commitment_result ::
  "submitted_evidence \<Rightarrow> EligibilityReasonCode list \<Rightarrow> CommitmentEvidence \<Rightarrow> bool \<Rightarrow> EligibilityResult" where
  "commitment_result su codes c timely =
     (empty_result su codes (ce_bidId c) (ce_carrierId c) (ce_hcsSequence c) (ce_consensusTimestamp c))
       \<lparr> el_timely := timely, el_commitment := Some c \<rparr>"

text \<open>The bid inside the submitted envelope (or the envelope itself), with its two hashes.\<close>

definition bid_body :: "json \<Rightarrow> json" where
  "bid_body v = (case get_prop v ''bid'' of None \<Rightarrow> v | Some JNull \<Rightarrow> v | Some b \<Rightarrow> b)"

definition string_signature :: "json \<Rightarrow> string option" where
  "string_signature v = (case get_prop v ''signature'' of Some (JStr sg) \<Rightarrow> Some sg | _ \<Rightarrow> None)"

definition read_bid :: "hash_fn \<Rightarrow> json \<Rightarrow> auction_error + CarrierBid \<times> string \<times> string option" where
  "read_bid sha256 v =
     bind_res (parseCarrierBid (bid_body v)) (\<lambda>bid.
     bind_res (bidHash sha256 bid) (\<lambda>bh.
       case string_signature v of
         Some sg \<Rightarrow> bind_res (signedBidEnvelopeHash sha256 bid sg) (\<lambda>eh. Inr (bid, bh, Some eh))
       | None \<Rightarrow> Inr (bid, bh, None)))"

text \<open>\<open>String(x.signature)\<close> when the object has that property.\<close>

definition signature_text :: "json \<Rightarrow> string option option" where
  "signature_text v = map_option js_string (get_prop v ''signature'')"

text \<open>The receipt: reason codes, whether its schema is valid, its hash.\<close>

definition check_receipt ::
  "hash_fn \<Rightarrow> ecdsa_fn \<Rightarrow> string \<Rightarrow> FreightTender \<Rightarrow> CommitmentEvidence \<Rightarrow> CarrierBid \<Rightarrow> string \<Rightarrow> json option
     \<Rightarrow> EligibilityReasonCode list \<times> bool option \<times> string option" where
  "check_receipt sha256 ecdsa routeGuardPublicKey tender c bid bh signedReceipt =
     (if \<not> present signedReceipt then ([ACCEPTANCE_RECEIPT_MISMATCH], None, None)
      else let raw = the signedReceipt in
      case bind_res (parseAcceptanceReceiptBody (case get_prop raw ''receipt'' of None \<Rightarrow> raw | Some b \<Rightarrow> b)) (\<lambda>receipt.
          bind_res (acceptanceReceiptHash sha256 receipt) (\<lambda>rh. Inr (receipt, rh))) of
        Inl _ \<Rightarrow> ([INVALID_ACCEPTANCE_RECEIPT], Some False, None)
      | Inr (receipt, rh) \<Rightarrow>
          if (case string_signature raw of
                Some sg \<Rightarrow> \<not> is_ok (signedReceiptEnvelopeHash sha256 receipt sg) | None \<Rightarrow> False)
          then ([INVALID_ACCEPTANCE_RECEIPT], Some False, Some rh)
          else (case signature_text raw of
             Some None \<Rightarrow> ([INVALID_ACCEPTANCE_RECEIPT], Some False, Some rh)
           | sg \<Rightarrow>
             let matchOk = receiptMatchesBid receipt (cb_bidId bid) (ft_tenderId tender) bh;
                 hashOk = (rh = ce_acceptanceReceiptHash c);
                 sigOk = (case sg of Some (Some t) \<Rightarrow> verifyAcceptanceReceiptSignature ecdsa receipt t routeGuardPublicKey
                          | _ \<Rightarrow> False)
             in (if \<not> matchOk \<or> \<not> hashOk \<or> \<not> sigOk then [ACCEPTANCE_RECEIPT_MISMATCH] else [], Some True, Some rh)))"

text \<open>The carrier: reason codes and whether the signature of the bid is valid.\<close>

definition check_carrier ::
  "ecdsa_fn \<Rightarrow> carrier_registry \<Rightarrow> CarrierBid \<Rightarrow> json
     \<Rightarrow> auction_error + EligibilityReasonCode list \<times> bool option" where
  "check_carrier ecdsa registry bid raw =
     (case getById registry (cb_carrierId bid) of
        None \<Rightarrow> Inr ([CARRIER_NOT_REGISTERED], None)
      | Some carrier \<Rightarrow>
          (case signature_text raw of
             Some None \<Rightarrow> Inl AuctionTypeError
           | sg \<Rightarrow>
             let sigText = (case sg of Some (Some t) \<Rightarrow> t | _ \<Rightarrow> []);
                 signatureValid = verifyCarrierBidSignature ecdsa bid sigText (cr_signingPublicKey carrier)
             in Inr ((if \<not> cr_active carrier then [CARRIER_INACTIVE] else [])
                  @ (if cr_carrierId carrier \<noteq> cb_carrierId bid \<or> cr_carrierAccountId carrier \<noteq> cb_carrierAccountId bid
                     then [CARRIER_ACCOUNT_MISMATCH] else [])
                  @ (if \<not> signatureValid then [INVALID_BID_SIGNATURE] else [])
                  @ (if \<not> List.member (cr_allowedEquipment carrier) (cb_equipment bid)
                     then [EQUIPMENT_NOT_AUTHORIZED] else []), Some signatureValid)))"

definition before_utc :: "string \<Rightarrow> string \<Rightarrow> auction_error + bool" where
  "before_utc a b = map_err AuctionTime (isBeforeUtc a b)"

definition code_if :: "bool \<Rightarrow> EligibilityReasonCode \<Rightarrow> EligibilityReasonCode list" where
  "code_if b c = (if b then [c] else [])"

definition check_terms ::
  "FreightTender \<Rightarrow> string \<Rightarrow> CarrierBid \<Rightarrow> auction_error + EligibilityReasonCode list" where
  "check_terms tender evaluationTimestamp bid =
     bind_res (before_utc (cb_bidValidUntil bid) evaluationTimestamp) (\<lambda>expired.
     bind_res (bind_res (before_utc (cb_proposedPickupAt bid) (ft_pickupEarliest tender)) (\<lambda>early.
        if early then Inr True else before_utc (ft_pickupLatest tender) (cb_proposedPickupAt bid))) (\<lambda>outside.
     bind_res (before_utc (ft_deliveryDeadline tender) (cb_estimatedDelivery bid)) (\<lambda>missed.
       Inr (code_if expired BID_EXPIRED
         @ code_if (cb_equipment bid \<noteq> ft_requiredEquipment tender) EQUIPMENT_MISMATCH
         @ code_if (\<not> cb_capacityConfirmed bid) CAPACITY_NOT_CONFIRMED
         @ code_if outside PICKUP_WINDOW_INFEASIBLE
         @ code_if missed DELIVERY_DEADLINE_MISSED
         @ code_if (cb_freightPriceCents bid > ft_maximumFreightPriceCents tender) PRICE_ABOVE_MAXIMUM
         @ code_if (\<not> assertPaymentRecipientsMatch (cb_reservationPaymentOptions bid) (cb_carrierAccountId bid))
             PAYMENT_RECIPIENT_MISMATCH))))"

definition check_binding :: "FreightTender \<Rightarrow> CommitmentEvidence \<Rightarrow> CarrierBid \<Rightarrow> string \<Rightarrow> EligibilityReasonCode list" where
  "check_binding tender c bid bh =
     code_if (cb_version bid \<noteq> ce_bidVersion c) BID_VERSION_MISMATCH
     @ code_if (bh \<noteq> ce_bidHash c) BID_HASH_MISMATCH
     @ code_if (cb_tenderId bid \<noteq> ft_tenderId tender \<or> cb_bidId bid \<noteq> ce_bidId c) TENDER_MISMATCH
     @ code_if (cb_carrierId bid \<noteq> ce_carrierId c) CARRIER_ACCOUNT_MISMATCH"

definition judge_bid ::
  "hash_fn \<Rightarrow> ecdsa_fn \<Rightarrow> carrier_registry \<Rightarrow> string \<Rightarrow> string \<Rightarrow> FreightTender \<Rightarrow> submitted_evidence
     \<Rightarrow> CommitmentEvidence \<Rightarrow> bool \<Rightarrow> EligibilityReasonCode list \<Rightarrow> json \<Rightarrow> json option
     \<Rightarrow> CarrierBid \<Rightarrow> string \<Rightarrow> string option \<Rightarrow> auction_error + EligibilityResult" where
  "judge_bid sha256 ecdsa registry routeGuardPublicKey evaluationTimestamp tender su c timely codes raw signedReceipt
       bid bh eh =
     (case check_receipt sha256 ecdsa routeGuardPublicKey tender c bid bh signedReceipt of (rcodes, rvalid, rh) \<Rightarrow>
      bind_res (check_carrier ecdsa registry bid raw) (\<lambda>(ccodes, signatureValid).
      bind_res (check_terms tender evaluationTimestamp bid) (\<lambda>tcodes.
        Inr ((commitment_result su (codes @ check_binding tender c bid bh @ rcodes @ ccodes @ tcodes) c timely)
          \<lparr> el_freightPriceCents := Some (cb_freightPriceCents bid),
            el_estimatedDelivery := Some (cb_estimatedDelivery bid),
            el_bidHash := Some bh,
            el_fullBidPresent := True,
            el_fullBidSchemaValid := Some True,
            el_receiptSchemaValid := rvalid,
            el_validatedFullBidHash := Some bh,
            el_signedBidEnvelopeHash := eh,
            el_validatedReceiptHash := rh,
            el_bidVersionMatch := Some (cb_version bid = ce_bidVersion c),
            el_signatureValid := signatureValid \<rparr>))))"

definition evaluateCommitmentEligibility ::
  "hash_fn \<Rightarrow> ecdsa_fn \<Rightarrow> carrier_registry \<Rightarrow> string \<Rightarrow> string \<Rightarrow> FreightTender
     \<Rightarrow> json \<Rightarrow> json option \<Rightarrow> json option \<Rightarrow> auction_error + EligibilityResult" where
  "evaluateCommitmentEligibility sha256 ecdsa registry routeGuardPublicKey evaluationTimestamp tender
       commitment signedBid signedReceipt =
     bind_res (hashSubmittedEvidenceOrNull sha256 signedBid) (\<lambda>sbh.
     bind_res (hashSubmittedEvidenceOrNull sha256 signedReceipt) (\<lambda>srh.
     let su = \<lparr> su_bidPresent = present signedBid, su_bidHash = sbh,
                su_receiptPresent = present signedReceipt, su_receiptHash = srh \<rparr> in
     case parseCommitmentEvidence commitment of
       Inl _ \<Rightarrow> Inr (empty_result su [INVALID_COMMITMENT_SCHEMA] ''unknown'' ''unknown'' 0
                   ''1970-01-01T00:00:00.000000000Z'')
     | Inr c \<Rightarrow>
         bind_res (isCommitmentTimely (ce_consensusTimestamp c) (ft_auctionEndsAt tender)) (\<lambda>timely.
         let codes = code_if (\<not> timely) LATE_COMMITMENT
                     @ code_if (ce_tenderId c \<noteq> ft_tenderId tender) TENDER_MISMATCH in
         if \<not> present signedBid then
           Inr ((commitment_result su (codes @ [FULL_BID_MISSING]) c timely) \<lparr> el_fullBidPresent := False \<rparr>)
         else case read_bid sha256 (the signedBid) of
           Inl _ \<Rightarrow>
             Inr ((commitment_result su (codes @ [INVALID_BID_SCHEMA]) c timely)
               \<lparr> el_fullBidPresent := True, el_fullBidSchemaValid := Some False \<rparr>)
         | Inr (bid, bh, eh) \<Rightarrow>
             judge_bid sha256 ecdsa registry routeGuardPublicKey evaluationTimestamp tender su c timely codes
               (the signedBid) signedReceipt bid bh eh)))"

subsection \<open>All commitments\<close>

definition commitment_bid_id :: "json \<Rightarrow> string option" where
  "commitment_bid_id v = (case get_prop v ''bidId'' of Some (JStr s) \<Rightarrow> if s = [] then None else Some s | _ \<Rightarrow> None)"

definition sequence_key :: "EligibilityResult \<Rightarrow> int \<times> string" where
  "sequence_key r = (el_hcsSequence r, el_bidId r)"

definition evaluateAllCommitments ::
  "hash_fn \<Rightarrow> ecdsa_fn \<Rightarrow> FreightTender \<Rightarrow> json list \<Rightarrow> (string \<times> json) list \<Rightarrow> (string \<times> json) list
     \<Rightarrow> carrier_registry \<Rightarrow> string \<Rightarrow> string \<Rightarrow> auction_error + EligibilityResult list" where
  "evaluateAllCommitments sha256 ecdsa tender commitments fullBids acceptanceReceipts registry
       routeGuardPublicKey evaluationTimestamp =
     bind_res (map_res (\<lambda>commitment.
         evaluateCommitmentEligibility sha256 ecdsa registry routeGuardPublicKey evaluationTimestamp tender commitment
           (case commitment_bid_id commitment of None \<Rightarrow> None | Some bidId \<Rightarrow> map_of fullBids bidId)
           (case commitment_bid_id commitment of None \<Rightarrow> None | Some bidId \<Rightarrow> map_of acceptanceReceipts bidId))
       commitments) (\<lambda>results. Inr (sort_key sequence_key results))"

definition isRankable :: "EligibilityResult \<Rightarrow> bool" where
  "isRankable r \<longleftrightarrow> el_decision r = QUALIFIED \<and> el_timely r"

subsection \<open>Which bids qualify\<close>

text \<open>The rules, without reference to reason codes or the order of the checks.\<close>

definition receipt_rules ::
  "hash_fn \<Rightarrow> ecdsa_fn \<Rightarrow> string \<Rightarrow> FreightTender \<Rightarrow> CommitmentEvidence \<Rightarrow> CarrierBid \<Rightarrow> string \<Rightarrow> json option \<Rightarrow> bool" where
  "receipt_rules h ecdsa key tender c bid bh sr \<longleftrightarrow> present sr \<and>
     (\<exists>receipt sg. parseAcceptanceReceiptBody (case get_prop (the sr) ''receipt'' of None \<Rightarrow> the sr | Some b \<Rightarrow> b) = Inr receipt
        \<and> acceptanceReceiptHash h receipt = Inr (ce_acceptanceReceiptHash c)
        \<and> rc_bidId receipt = cb_bidId bid \<and> rc_tenderId receipt = ft_tenderId tender \<and> rc_bidHash receipt = bh
        \<and> signature_text (the sr) = Some (Some sg) \<and> verifyAcceptanceReceiptSignature ecdsa receipt sg key)"

definition carrier_rules :: "ecdsa_fn \<Rightarrow> carrier_registry \<Rightarrow> CarrierBid \<Rightarrow> json \<Rightarrow> bool" where
  "carrier_rules ecdsa registry bid raw \<longleftrightarrow>
     (\<exists>carrier. getById registry (cb_carrierId bid) = Some carrier \<and> cr_active carrier
        \<and> cr_carrierId carrier = cb_carrierId bid \<and> cr_carrierAccountId carrier = cb_carrierAccountId bid
        \<and> cb_equipment bid \<in> set (cr_allowedEquipment carrier)
        \<and> verifyCarrierBidSignature ecdsa bid (case signature_text raw of Some (Some t) \<Rightarrow> t | _ \<Rightarrow> [])
            (cr_signingPublicKey carrier))"

definition terms_rules :: "FreightTender \<Rightarrow> string \<Rightarrow> CarrierBid \<Rightarrow> bool" where
  "terms_rules tender evaluated bid \<longleftrightarrow>
     instant evaluated \<le> instant (cb_bidValidUntil bid)
     \<and> cb_equipment bid = ft_requiredEquipment tender \<and> cb_capacityConfirmed bid
     \<and> instant (ft_pickupEarliest tender) \<le> instant (cb_proposedPickupAt bid)
     \<and> instant (cb_proposedPickupAt bid) \<le> instant (ft_pickupLatest tender)
     \<and> instant (cb_estimatedDelivery bid) \<le> instant (ft_deliveryDeadline tender)
     \<and> cb_freightPriceCents bid \<le> ft_maximumFreightPriceCents tender
     \<and> (\<forall>p\<in>set (cb_reservationPaymentOptions bid). po_payTo p = cb_carrierAccountId bid)"

definition meets_rules ::
  "hash_fn \<Rightarrow> ecdsa_fn \<Rightarrow> carrier_registry \<Rightarrow> string \<Rightarrow> string \<Rightarrow> FreightTender \<Rightarrow> json \<Rightarrow> json option \<Rightarrow> json option \<Rightarrow> bool" where
  "meets_rules h ecdsa registry key evaluated tender commitment sb sr \<longleftrightarrow>
     (\<exists>c bid eh. parseCommitmentEvidence commitment = Inr c
        \<and> instant (ce_consensusTimestamp c) \<le> instant (ft_auctionEndsAt tender)
        \<and> ce_tenderId c = ft_tenderId tender
        \<and> present sb \<and> read_bid h (the sb) = Inr (bid, ce_bidHash c, eh)
        \<and> cb_version bid = ce_bidVersion c \<and> cb_tenderId bid = ft_tenderId tender
        \<and> cb_bidId bid = ce_bidId c \<and> cb_carrierId bid = ce_carrierId c
        \<and> receipt_rules h ecdsa key tender c bid (ce_bidHash c) sr
        \<and> carrier_rules ecdsa registry bid (the sb)
        \<and> terms_rules tender evaluated bid)"

lemma order_Nil_iff [simp]: "orderReasonCodes codes = [] \<longleftrightarrow> codes = []"
proof -
  have "c \<in> set REASON_CODE_ORDER" for c by (cases c) (simp_all add: REASON_CODE_ORDER_def)
  then show ?thesis by (cases codes) (auto simp: orderReasonCodes_def filter_empty_conv)
qed

lemma code_if_Nil [simp]: "code_if b c = [] \<longleftrightarrow> \<not> b"
  by (simp add: code_if_def)

lemma before_utc_iff [res_simps]:
  "before_utc a b = Inr x \<longleftrightarrow> isUtcIsoTimestamp a \<and> isUtcIsoTimestamp b \<and> x = (instant a < instant b)"
  by (auto simp: before_utc_def res_simps isBeforeUtc_Inr_iff)

lemma timely_iff [res_simps]:
  "isCommitmentTimely a b = Inr x \<longleftrightarrow> isUtcIsoTimestamp a \<and> isUtcIsoTimestamp b \<and> x = (instant a \<le> instant b)"
  by (auto simp: isCommitmentTimely_def res_simps isBeforeOrEqualUtc_Inr_iff)

lemma result_fields [simp]:
  "el_decision (commitment_result su codes c t) = (if codes = [] then QUALIFIED else REJECTED)"
  "el_timely (commitment_result su codes c t) = t"
  "el_bidId (commitment_result su codes c t) = ce_bidId c"
  "el_carrierId (commitment_result su codes c t) = ce_carrierId c"
  "el_hcsSequence (commitment_result su codes c t) = ce_hcsSequence c"
  "el_consensusTimestamp (commitment_result su codes c t) = ce_consensusTimestamp c"
  "el_commitment (commitment_result su codes c t) = Some c"
  "el_reasonCodes (commitment_result su codes c t) = orderReasonCodes codes"
  by (simp_all add: commitment_result_def empty_result_def Let_def)

lemma check_receipt_Nil_iff:
  "fst (check_receipt h ecdsa key tender c bid bh sr) = [] \<longleftrightarrow>
     receipt_rules h ecdsa key tender c bid bh sr
     \<and> (\<forall>sg receipt. string_signature (the sr) = Some sg
          \<longrightarrow> parseAcceptanceReceiptBody (case get_prop (the sr) ''receipt'' of None \<Rightarrow> the sr | Some b \<Rightarrow> b) = Inr receipt
          \<longrightarrow> is_ok (signedReceiptEnvelopeHash h receipt sg))"
  unfolding check_receipt_def receipt_rules_def Let_def
  by (auto simp: res_simps receiptMatchesBid_def split: sum.splits if_splits option.splits)

lemma receiptHash_parsed:
  assumes "hex_digest h" "parseAcceptanceReceiptBody v = Inr r"
  shows "is_ok (signedReceiptEnvelopeHash h r sg)" "is_ok (acceptanceReceiptHash h r)"
  using parseReceipt_sound [OF assms(2)] assms(1)
  by (simp_all add: signedReceiptEnvelopeHash_def acceptanceReceiptHash_def parseReceipt_json digest_ok has_text_JObj)

lemma receipt_codes_iff:
  assumes "hex_digest h"
  shows "fst (check_receipt h ecdsa key tender c bid bh sr) = [] \<longleftrightarrow> receipt_rules h ecdsa key tender c bid bh sr"
  using receiptHash_parsed(1) [OF assms] by (auto simp: check_receipt_Nil_iff)

lemma carrier_codes_iff:
  assumes "check_carrier ecdsa registry bid raw = Inr (codes, v)"
  shows "codes = [] \<longleftrightarrow> carrier_rules ecdsa registry bid raw"
  using assms by (auto simp: check_carrier_def carrier_rules_def Let_def split: option.splits if_splits)

lemma terms_codes_iff:
  assumes "check_terms tender evaluated bid = Inr codes"
  shows "codes = [] \<longleftrightarrow> terms_rules tender evaluated bid"
  using assms
  by (auto simp: check_terms_def terms_rules_def res_simps assertPaymentRecipientsMatch_def list_all_iff not_less
      split: if_splits)

lemma judge_bid_Inr:
  assumes "judge_bid h ecdsa registry key evaluated tender su c timely codes raw sr bid bh eh = Inr r"
  obtains ccodes sv tcodes where "check_carrier ecdsa registry bid raw = Inr (ccodes, sv)"
    "check_terms tender evaluated bid = Inr tcodes"
    "el_decision r = (if codes = [] \<and> check_binding tender c bid bh = []
       \<and> fst (check_receipt h ecdsa key tender c bid bh sr) = [] \<and> ccodes = [] \<and> tcodes = [] then QUALIFIED else REJECTED)"
    "el_freightPriceCents r = Some (cb_freightPriceCents bid)" "el_estimatedDelivery r = Some (cb_estimatedDelivery bid)"
    "el_bidHash r = Some bh" "el_timely r = timely" "el_bidId r = ce_bidId c" "el_carrierId r = ce_carrierId c"
    "el_hcsSequence r = ce_hcsSequence c" "el_consensusTimestamp r = ce_consensusTimestamp c" "el_commitment r = Some c"
proof -
  obtain rcodes rv rh where q: "check_receipt h ecdsa key tender c bid bh sr = (rcodes, rv, rh)"
    by (cases "check_receipt h ecdsa key tender c bid bh sr") auto
  obtain ccodes sv tcodes where x: "check_carrier ecdsa registry bid raw = Inr (ccodes, sv)"
    "check_terms tender evaluated bid = Inr tcodes"
    using assms q by (auto simp: judge_bid_def res_simps split: prod.splits)
  then show thesis
    using assms q that by (auto simp: judge_bid_def)
qed

lemma check_binding_Nil_iff:
  "check_binding tender c bid bh = [] \<longleftrightarrow>
     cb_version bid = ce_bidVersion c \<and> bh = ce_bidHash c \<and> cb_tenderId bid = ft_tenderId tender
     \<and> cb_bidId bid = ce_bidId c \<and> cb_carrierId bid = ce_carrierId c"
  by (auto simp: check_binding_def)

lemma evaluate_cases:
  assumes "evaluateCommitmentEligibility h ecdsa registry key evaluated tender commitment sb sr = Inr r"
  obtains "el_decision r = REJECTED" "\<not> meets_rules h ecdsa registry key evaluated tender commitment sb sr"
  | c bid bh eh su where "parseCommitmentEvidence commitment = Inr c" "present sb" "read_bid h (the sb) = Inr (bid, bh, eh)"
    "isCommitmentTimely (ce_consensusTimestamp c) (ft_auctionEndsAt tender)
       = Inr (instant (ce_consensusTimestamp c) \<le> instant (ft_auctionEndsAt tender))"
    "judge_bid h ecdsa registry key evaluated tender su c
       (instant (ce_consensusTimestamp c) \<le> instant (ft_auctionEndsAt tender))
       (code_if (\<not> instant (ce_consensusTimestamp c) \<le> instant (ft_auctionEndsAt tender)) LATE_COMMITMENT
         @ code_if (ce_tenderId c \<noteq> ft_tenderId tender) TENDER_MISMATCH)
       (the sb) sr bid bh eh = Inr r"
proof (cases "parseCommitmentEvidence commitment")
  case (Inl e)
  then have "el_decision r = REJECTED"
    using assms by (auto simp: evaluateCommitmentEligibility_def res_simps Let_def empty_result_def)
  moreover have "\<not> meets_rules h ecdsa registry key evaluated tender commitment sb sr"
    using Inl by (simp add: meets_rules_def)
  ultimately show thesis using that(1) by blast
next
  case (Inr c)
  show thesis
  proof (cases "present sb \<and> is_ok (read_bid h (the sb))")
    case False
    then have "el_decision r = REJECTED"
      using assms Inr
      by (auto simp: evaluateCommitmentEligibility_def res_simps Let_def split: if_splits sum.splits)
    moreover have "\<not> meets_rules h ecdsa registry key evaluated tender commitment sb sr"
      using False Inr by (auto simp: meets_rules_def)
    ultimately show thesis using that(1) by blast
  next
    case True
    then obtain bid bh eh where "read_bid h (the sb) = Inr (bid, bh, eh)" by (auto simp: is_ok_iff)
    then show thesis
      using assms Inr True that(2) [OF Inr _ \<open>read_bid h (the sb) = Inr (bid, bh, eh)\<close>]
      by (auto simp: evaluateCommitmentEligibility_def res_simps Let_def)
  qed
qed

lemma qualified_iff:
  assumes "hex_digest h"
    and "evaluateCommitmentEligibility h ecdsa registry key evaluated tender commitment sb sr = Inr r"
  shows "el_decision r = QUALIFIED \<longleftrightarrow> meets_rules h ecdsa registry key evaluated tender commitment sb sr"
  using assms(2)
proof (cases rule: evaluate_cases)
  case 1
  then show ?thesis by simp
next
  case (2 c bid bh eh su)
  from 2(5) show ?thesis
  proof (cases rule: judge_bid_Inr)
    case (1 ccodes sv tcodes)
    then show ?thesis
      using 2(1-3) carrier_codes_iff [OF 1(1)] terms_codes_iff [OF 1(2)]
      by (auto simp: meets_rules_def check_binding_Nil_iff receipt_codes_iff [OF assms(1)] split: if_splits)
  qed
qed

text \<open>
  C22. The reason codes decide exactly the published rules.  When a commitment is
  evaluated without an exception, the result is \<open>QUALIFIED\<close> if and only if the
  commitment is timely and for this tender, the submitted bid parses and has the
  committed hash, version and identity, the receipt is RouteGuard's signed
  acceptance of that bid with the committed hash, the carrier is registered, active,
  owns the account, is allowed the equipment and signed the bid, and the bid is
  unexpired, feasible, within the price limit and pays only the carrier.\<close>

theorem qualified_iff_rules:
  assumes "hex_digest h"
    and "evaluateCommitmentEligibility h ecdsa registry key evaluated tender commitment sb sr = Inr r"
  shows "el_decision r = QUALIFIED \<longleftrightarrow> meets_rules h ecdsa registry key evaluated tender commitment sb sr"
  by (rule qualified_iff [OF assms])

text \<open>A qualified bid is rankable, with the price of the submitted bid.\<close>

lemma rankable_iff:
  assumes "hex_digest h"
    and "evaluateCommitmentEligibility h ecdsa registry key evaluated tender commitment sb sr = Inr r"
  shows "isRankable r \<longleftrightarrow> meets_rules h ecdsa registry key evaluated tender commitment sb sr"
  using assms(2)
proof (cases rule: evaluate_cases)
  case 1
  then show ?thesis by (simp add: isRankable_def)
next
  case (2 c bid bh eh su)
  from 2(5) have "el_timely r = (instant (ce_consensusTimestamp c) \<le> instant (ft_auctionEndsAt tender))"
    by (cases rule: judge_bid_Inr)
  moreover have "instant (ce_consensusTimestamp c) \<le> instant (ft_auctionEndsAt tender)"
    if "meets_rules h ecdsa registry key evaluated tender commitment sb sr"
    using that 2(1) by (auto simp: meets_rules_def)
  ultimately show ?thesis using qualified_iff [OF assms] by (auto simp: isRankable_def)
qed

lemma rankable_price:
  assumes "evaluateCommitmentEligibility h ecdsa registry key evaluated tender commitment sb sr = Inr r"
    and "isRankable r" "read_bid h (the sb) = Inr (bid, bh, eh)"
  shows "el_freightPriceCents r = Some (cb_freightPriceCents bid)"
  using assms(1)
proof (cases rule: evaluate_cases)
  case 1
  then show ?thesis using assms(2) by (simp add: isRankable_def)
next
  case (2 c bid' bh' eh' su)
  from 2(5) show ?thesis by (cases rule: judge_bid_Inr) (use 2(3) assms(3) in simp)
qed

subsection \<open>Evaluation returns\<close>

definition readable_evidence :: "json option \<Rightarrow> bool" where
  "readable_evidence v \<longleftrightarrow> (present v \<longrightarrow> has_text (the v) \<and> signature_text (the v) \<noteq> Some None)"

lemma read_bid_ok: "read_bid h v = Inr (b, bh, eh) \<Longrightarrow> bid_ok b"
  by (auto simp: read_bid_def res_simps dest: parseCarrierBid_sound split: option.split_asm)

lemma bid_ok_times:
  "bid_ok b \<Longrightarrow> isUtcIsoTimestamp (cb_proposedPickupAt b) \<and> isUtcIsoTimestamp (cb_estimatedDelivery b)
     \<and> isUtcIsoTimestamp (cb_bidValidUntil b)"
  by (simp add: bid_ok_def CarrierBidSchema_def)

lemma tender_times:
  "FreightTenderSchema t \<Longrightarrow> isUtcIsoTimestamp (ft_pickupEarliest t) \<and> isUtcIsoTimestamp (ft_pickupLatest t)
     \<and> isUtcIsoTimestamp (ft_deliveryDeadline t) \<and> isUtcIsoTimestamp (ft_auctionEndsAt t)"
  by (simp add: FreightTenderSchema_def)

lemma evidence_hash_ok: "hex_digest h \<Longrightarrow> readable_evidence v \<Longrightarrow> is_ok (hashSubmittedEvidenceOrNull h v)"
  by (auto simp: hashSubmittedEvidenceOrNull_def hashSubmittedEvidence_def readable_evidence_def digest_ok)

lemma before_utc_ok: "isUtcIsoTimestamp a \<Longrightarrow> isUtcIsoTimestamp b \<Longrightarrow> before_utc a b = Inr (instant a < instant b)"
  by (simp add: before_utc_iff)

lemma check_terms_ok:
  assumes "FreightTenderSchema tender" "isUtcIsoTimestamp evaluated" "bid_ok bid"
  shows "is_ok (check_terms tender evaluated bid)"
  using bid_ok_times [OF assms(3)] tender_times [OF assms(1)] assms(2)
  by (simp add: check_terms_def before_utc_ok)

lemma check_carrier_ok: "signature_text raw \<noteq> Some None \<Longrightarrow> is_ok (check_carrier ecdsa registry bid raw)"
  by (auto simp: check_carrier_def Let_def split: option.splits)

lemma judge_bid_ok:
  assumes "is_ok (check_carrier ecdsa registry bid raw)" "is_ok (check_terms tender evaluated bid)"
  shows "is_ok (judge_bid h ecdsa registry key evaluated tender su c timely codes raw sr bid bh eh)"
  using assms by (auto simp: judge_bid_def is_ok_iff split: prod.splits)

lemma evaluation_ok:
  assumes "hex_digest h" "FreightTenderSchema tender" "isUtcIsoTimestamp evaluated"
    and "readable_evidence sb" "readable_evidence sr"
  shows "\<exists>r. evaluateCommitmentEligibility h ecdsa registry key evaluated tender commitment sb sr = Inr r"
proof -
  obtain sbh srh where e: "hashSubmittedEvidenceOrNull h sb = Inr sbh" "hashSubmittedEvidenceOrNull h sr = Inr srh"
    using evidence_hash_ok [OF assms(1)] assms(4,5) by (meson is_ok_iff)
  show ?thesis
  proof (cases "parseCommitmentEvidence commitment")
    case (Inl x)
    then show ?thesis using e by (simp add: evaluateCommitmentEligibility_def Let_def)
  next
    case (Inr c)
    have t: "isCommitmentTimely (ce_consensusTimestamp c) (ft_auctionEndsAt tender)
        = Inr (instant (ce_consensusTimestamp c) \<le> instant (ft_auctionEndsAt tender))"
      using parseCommitment_sound [OF Inr] tender_times [OF assms(2)]
      by (simp add: timely_iff CommitmentEvidenceSchema_def)
    show ?thesis
    proof (cases "present sb \<and> is_ok (read_bid h (the sb))")
      case False
      then show ?thesis
        using e Inr t by (cases "read_bid h (the sb)") (auto simp: evaluateCommitmentEligibility_def Let_def)
    next
      case True
      then obtain bid bh eh where b: "read_bid h (the sb) = Inr (bid, bh, eh)" by (auto simp: is_ok_iff)
      have "is_ok (judge_bid h ecdsa registry key evaluated tender su c timely codes (the sb) sr bid bh eh)" for su timely codes
        using judge_bid_ok [OF check_carrier_ok check_terms_ok [OF assms(2,3) read_bid_ok [OF b]]] assms(4) True
        by (auto simp: readable_evidence_def)
      then show ?thesis
        using e Inr t b True by (auto simp: evaluateCommitmentEligibility_def Let_def is_ok_iff)
    qed
  qed
qed

text \<open>
  One malformed submission never aborts the auction.  For a valid tender and
  evaluation time, every commitment, whatever its shape and whatever bid and
  receipt were submitted as JSON with a \<open>signature\<close> that can be printed, is
  evaluated to a result; schema failures become reason codes.\<close>

theorem evaluation_returns:
  assumes "hex_digest h" "FreightTenderSchema tender" "isUtcIsoTimestamp evaluated"
    and "readable_evidence sb" "readable_evidence sr"
  shows "\<exists>r. evaluateCommitmentEligibility h ecdsa registry key evaluated tender commitment sb sr = Inr r"
  by (rule evaluation_ok [OF assms])

subsection \<open>A small auction\<close>

text \<open>
  One carrier bids on one tender; its key, signatures and digests are constants.
  The digest has the promised format and the signature check accepts.
\<close>

definition demo_digest :: hash_fn where
  "demo_digest s = replicate 64 (CHR ''0'')"

definition demo_ecdsa :: ecdsa_fn where
  "demo_ecdsa key message signature = Some (signature \<noteq> [])"

definition demo_hash :: string where
  "demo_hash = ''sha256:'' @ replicate 64 (CHR ''0'')"

definition demo_tender :: FreightTender where
  "demo_tender = \<lparr> ft_tenderId = ''T1'', ft_shipperId = ''S1'', ft_origin = ''Genoa'', ft_destination = ''Basel'',
     ft_cargoType = ''machinery'', ft_cargoWeightKg = 12000, ft_cargoPallets = 18, ft_cargoDangerousGoods = False,
     ft_requiredEquipment = ''BOX'', ft_pickupEarliest = ''2026-08-03T06:00:00Z'',
     ft_pickupLatest = ''2026-08-03T18:00:00Z'', ft_deliveryDeadline = ''2026-08-05T18:00:00Z'',
     ft_auctionEndsAt = ''2026-08-01T12:00:00Z'', ft_maximumFreightPriceCents = 250000,
     ft_selectionPolicy = ''LOWEST_QUALIFIED_PRICE_V1'', ft_version = 1 \<rparr>"

definition demo_registry :: carrier_registry where
  "demo_registry = [(''C1'', \<lparr> cr_carrierId = ''C1'', cr_carrierAccountId = ''0.0.77'',
     cr_signingPublicKey = ''02'' @ replicate 64 (CHR ''a''), cr_active = True,
     cr_allowedEquipment = [''BOX''], cr_registryVersion = 1 \<rparr>)]"

definition demo_signature :: string where
  "demo_signature = replicate 128 (CHR ''a'')"

definition demo_bid :: "string \<Rightarrow> int \<Rightarrow> CarrierBid" where
  "demo_bid bidId price = \<lparr> cb_bidId = bidId, cb_tenderId = ''T1'', cb_carrierId = ''C1'', cb_carrierAccountId = ''0.0.77'',
     cb_freightPriceCents = price, cb_equipment = ''BOX'', cb_proposedPickupAt = ''2026-08-03T08:00:00Z'',
     cb_estimatedDelivery = ''2026-08-04T18:00:00Z'', cb_capacityConfirmed = True,
     cb_bidValidUntil = ''2026-08-02T12:00:00Z'',
     cb_reservationPaymentOptions = [\<lparr> po_optionId = HBAR, po_asset = ''0.0.0'', po_amountAtomic = ''500'',
       po_payTo = ''0.0.77'' \<rparr>],
     cb_commitmentSalt = replicate 64 (CHR ''1''), cb_nonce = ''n'', cb_version = 1 \<rparr>"

definition demo_receipt :: "string \<Rightarrow> AcceptanceReceiptBody" where
  "demo_receipt bidId = \<lparr> rc_receiptId = ''R1'', rc_tenderId = ''T1'', rc_bidId = bidId, rc_bidHash = demo_hash,
     rc_acceptedAt = ''2026-08-01T10:00:00Z'', rc_version = 1 \<rparr>"

definition demo_commitment :: "string \<Rightarrow> int \<Rightarrow> CommitmentEvidence" where
  "demo_commitment bidId sequence = \<lparr> ce_tenderId = ''T1'', ce_bidId = bidId, ce_carrierId = ''C1'', ce_bidHash = demo_hash,
     ce_acceptanceReceiptHash = demo_hash, ce_bidVersion = 1, ce_hcsSequence = sequence,
     ce_consensusTimestamp = ''2026-08-01T11:00:00Z'' \<rparr>"

definition signed_json :: "string \<Rightarrow> json \<Rightarrow> json" where
  "signed_json field body = JObj [(field, body), (''signature'', JStr demo_signature)]"

definition demo_evaluation :: string where
  "demo_evaluation = ''2026-08-01T13:00:00Z''"

lemma demo_digest_hex: "hex_digest demo_digest"
proof -
  have "is_hex64 (replicate 64 (CHR ''0''))" by code_simp
  then show ?thesis by (simp add: hex_digest_def demo_digest_def)
qed

lemma demo_tender_ok: "FreightTenderSchema demo_tender"
  by code_simp

lemma demo_times: "isUtcIsoTimestamp demo_evaluation"
  by code_simp

lemma demo_verifies: "has_text v \<Longrightarrow> verifyCanonicalPayload demo_ecdsa v demo_signature key"
proof -
  have "map_option (\<lambda>s. s \<noteq> []) (parseSignatureHex demo_signature) = Some True" by code_simp
  then show "has_text v \<Longrightarrow> ?thesis"
    by (auto simp: verifyCanonicalPayload_def demo_ecdsa_def canonicalize_def has_textD)
qed

lemma demo_bid_ok: "len_between 1 128 i \<Longrightarrow> isSafePositiveInteger n \<Longrightarrow> bid_ok (demo_bid i n)"
proof -
  have "bid_ok (demo_bid ''A'' 1)" by code_simp
  then show "len_between 1 128 i \<Longrightarrow> isSafePositiveInteger n \<Longrightarrow> ?thesis"
    by (simp add: bid_ok_def CarrierBidSchema_def demo_bid_def)
qed

lemma demo_receipt_ok: "len_between 1 128 i \<Longrightarrow> AcceptanceReceiptBodySchema (demo_receipt i)"
proof -
  have "AcceptanceReceiptBodySchema (demo_receipt ''A'')" by code_simp
  then show "len_between 1 128 i \<Longrightarrow> ?thesis" by (simp add: AcceptanceReceiptBodySchema_def demo_receipt_def)
qed

lemma demo_commitment_ok:
  "len_between 1 128 i \<Longrightarrow> isSafePositiveInteger n \<Longrightarrow> CommitmentEvidenceSchema (demo_commitment i n)"
proof -
  have "CommitmentEvidenceSchema (demo_commitment ''A'' 1)" by code_simp
  then show "len_between 1 128 i \<Longrightarrow> isSafePositiveInteger n \<Longrightarrow> ?thesis"
    by (simp add: CommitmentEvidenceSchema_def demo_commitment_def)
qed

abbreviation demo_bid_json :: "string \<Rightarrow> int \<Rightarrow> json" where
  "demo_bid_json i n \<equiv> signed_json ''bid'' (bid_json (demo_bid i n))"

abbreviation demo_receipt_json :: "string \<Rightarrow> json" where
  "demo_receipt_json i \<equiv> signed_json ''receipt'' (receipt_body_json (demo_receipt i))"

lemma signed_readable:
  "has_text v \<Longrightarrow> field \<noteq> ''signature'' \<Longrightarrow> readable_evidence (Some (signed_json field v))"
  by (simp add: readable_evidence_def signed_json_def has_text_JObj signature_text_def get_prop_def)

lemma demo_reads:
  assumes "len_between 1 128 i" "isSafePositiveInteger n"
  shows "\<exists>eh. read_bid demo_digest (demo_bid_json i n) = Inr (demo_bid i n, demo_hash, eh)"
proof -
  have "bid_body (demo_bid_json i n) = bid_json (demo_bid i n)"
    by (simp add: bid_body_def signed_json_def get_prop_def bid_json_def)
  moreover have "bidHash demo_digest (demo_bid i n) = Inr demo_hash"
    using bidHash_ok [OF demo_digest_hex demo_bid_ok [OF assms]] by (simp add: demo_digest_def demo_hash_def)
  moreover have "string_signature (demo_bid_json i n) = Some demo_signature"
    by (simp add: string_signature_def signed_json_def get_prop_def)
  moreover have "is_ok (signedBidEnvelopeHash demo_digest (demo_bid i n) demo_signature)"
    by (rule envelopeHash_ok [OF demo_digest_hex demo_bid_ok [OF assms]])
  ultimately show ?thesis
    using demo_bid_ok [OF assms] by (auto simp: read_bid_def parseCarrierBid_json is_ok_iff)
qed

lemma demo_receipt_rules:
  assumes "len_between 1 128 i"
  shows "receipt_rules demo_digest demo_ecdsa key demo_tender (demo_commitment i s) (demo_bid i n) demo_hash
     (Some (demo_receipt_json i))"
proof -
  have "acceptanceReceiptHash demo_digest (demo_receipt i) = Inr demo_hash"
    using demo_receipt_ok [OF assms] digest_ok [OF demo_digest_hex docs_have_text(2)]
    by (simp add: acceptanceReceiptHash_def parseReceipt_json demo_digest_def demo_hash_def)
  moreover have "get_prop (demo_receipt_json i) ''receipt'' = Some (receipt_body_json (demo_receipt i))"
    "signature_text (demo_receipt_json i) = Some (Some demo_signature)"
    by (simp_all add: signed_json_def get_prop_def receipt_body_json_def signature_text_def)
  moreover have "verifyAcceptanceReceiptSignature demo_ecdsa (demo_receipt i) demo_signature key"
    using demo_receipt_ok [OF assms] by (simp add: verifyAcceptanceReceiptSignature_def parseReceipt_json demo_verifies)
  moreover have "rc_bidId (demo_receipt i) = cb_bidId (demo_bid i n)" "rc_tenderId (demo_receipt i) = ft_tenderId demo_tender"
    "rc_bidHash (demo_receipt i) = demo_hash" "ce_acceptanceReceiptHash (demo_commitment i s) = demo_hash"
    by (simp_all add: demo_receipt_def demo_bid_def demo_tender_def demo_commitment_def)
  ultimately show ?thesis
    using demo_receipt_ok [OF assms]
    by (auto simp: receipt_rules_def present_def parseReceipt_json signed_json_def)
qed

lemma demo_carrier_rules:
  assumes "len_between 1 128 i" "isSafePositiveInteger n"
  shows "carrier_rules demo_ecdsa demo_registry (demo_bid i n) (demo_bid_json i n)"
proof -
  have "signature_text (demo_bid_json i n) = Some (Some demo_signature)"
    by (simp add: signed_json_def get_prop_def signature_text_def)
  then have "verifyCarrierBidSignature demo_ecdsa (demo_bid i n) (case signature_text (demo_bid_json i n) of
      Some (Some t) \<Rightarrow> t | _ \<Rightarrow> []) key" for key
    using demo_bid_ok [OF assms] by (simp add: verifyCarrierBidSignature_def parseCarrierBid_json demo_verifies)
  then show ?thesis by (simp add: carrier_rules_def getById_def demo_registry_def demo_bid_def)
qed

lemma demo_terms_rules: "n \<le> 250000 \<Longrightarrow> terms_rules demo_tender demo_evaluation (demo_bid i n)"
proof -
  have "terms_rules demo_tender demo_evaluation (demo_bid ''A'' 1)" by code_simp
  then show "n \<le> 250000 \<Longrightarrow> ?thesis" by (simp add: terms_rules_def demo_bid_def demo_tender_def)
qed

lemma demo_meets_rules:
  assumes "len_between 1 128 i" "isSafePositiveInteger n" "isSafePositiveInteger s" "n \<le> 250000"
  shows "meets_rules demo_digest demo_ecdsa demo_registry key demo_evaluation demo_tender
     (commitment_json (demo_commitment i s)) (Some (demo_bid_json i n)) (Some (demo_receipt_json i))"
proof -
  have "instant (ce_consensusTimestamp (demo_commitment i s)) \<le> instant (ft_auctionEndsAt demo_tender)"
    unfolding demo_commitment_def demo_tender_def by code_simp
  moreover have "parseCommitmentEvidence (commitment_json (demo_commitment i s)) = Inr (demo_commitment i s)"
    using demo_commitment_ok [OF assms(1,3)] by (simp add: parseCommitment_json)
  moreover have "ce_tenderId (demo_commitment i s) = ft_tenderId demo_tender" "cb_version (demo_bid i n) = ce_bidVersion (demo_commitment i s)"
    "cb_tenderId (demo_bid i n) = ft_tenderId demo_tender" "cb_bidId (demo_bid i n) = ce_bidId (demo_commitment i s)"
    "cb_carrierId (demo_bid i n) = ce_carrierId (demo_commitment i s)" "ce_bidHash (demo_commitment i s) = demo_hash"
    by (simp_all add: demo_commitment_def demo_bid_def demo_tender_def)
  moreover have "present (Some (demo_bid_json i n))" by (simp add: present_def signed_json_def)
  ultimately show ?thesis
    using demo_reads [OF assms(1,2)] demo_receipt_rules [OF assms(1)] demo_carrier_rules [OF assms(1,2)]
      demo_terms_rules [OF assms(4)]
    unfolding meets_rules_def by (metis option.sel)
qed

lemma demo_evaluated:
  "\<exists>r. evaluateCommitmentEligibility demo_digest demo_ecdsa demo_registry key demo_evaluation demo_tender commitment
     (Some (demo_bid_json i n)) (Some (demo_receipt_json i)) = Inr r"
  by (rule evaluation_ok [OF demo_digest_hex demo_tender_ok demo_times]) (simp_all add: signed_readable)

lemma qualified_iff_rules_witness:
  "\<exists>r. evaluateCommitmentEligibility demo_digest demo_ecdsa demo_registry ''key'' demo_evaluation demo_tender
       (commitment_json (demo_commitment ''A'' 1)) (Some (demo_bid_json ''A'' 100000)) (Some (demo_receipt_json ''A'')) = Inr r
     \<and> el_decision r = QUALIFIED"
proof -
  obtain r where r: "evaluateCommitmentEligibility demo_digest demo_ecdsa demo_registry ''key'' demo_evaluation demo_tender
       (commitment_json (demo_commitment ''A'' 1)) (Some (demo_bid_json ''A'' 100000)) (Some (demo_receipt_json ''A'')) = Inr r"
    using demo_evaluated by blast
  have "meets_rules demo_digest demo_ecdsa demo_registry ''key'' demo_evaluation demo_tender
     (commitment_json (demo_commitment ''A'' 1)) (Some (demo_bid_json ''A'' 100000)) (Some (demo_receipt_json ''A''))"
    by (rule demo_meets_rules) (simp_all add: len_between_def isSafePositiveInteger_def max_safe_integer_def)
  then have "el_decision r = QUALIFIED" using qualified_iff_rules [OF demo_digest_hex r] by blast
  then show ?thesis using r by blast
qed

lemma evaluation_returns_witness:
  "\<exists>r. evaluateCommitmentEligibility demo_digest demo_ecdsa demo_registry ''key'' demo_evaluation demo_tender
     (JStr ''not a commitment'') (Some (JArr [Some JNull])) (Some JUndefined) = Inr r"
proof (rule evaluation_returns [OF demo_digest_hex demo_tender_ok demo_times])
  have "has_text (JArr [Some JNull])" by code_simp
  then show "readable_evidence (Some (JArr [Some JNull]))"
    by (simp add: readable_evidence_def signature_text_def get_prop_def)
qed (simp add: readable_evidence_def present_def)

end
