(* ===== verification/Auction_Ranking.thy ===== *)
theory Auction_Ranking
  imports Auction_Eligibility "HOL-Library.Multiset"
begin

text \<open>
  Ranking, \<^verbatim>\<open>src/auction/ranking.ts\<close>: the comparator of the policy
  \<open>LOWEST_QUALIFIED_PRICE_V1\<close>, the ranked list and the winner.  The sort of the
  language is stable, so sorting by the comparator is sorting by the key it
  compares (\<open>compare_key\<close>); a comparator that throws for some pair of the list makes
  the sort throw.
\<close>

record RankedBid =
  rb_bidId :: string
  rb_carrierId :: string
  rb_freightPriceCents :: int
  rb_estimatedDelivery :: string
  rb_consensusTimestamp :: string
  rb_hcsSequence :: int
  rb_bidHash :: string

definition compare_instants :: "string \<Rightarrow> string \<Rightarrow> auction_error + int" where
  "compare_instants a b =
     bind_res (map_err AuctionTime (parseUtcTimestamp a)) (\<lambda>pa.
     bind_res (map_err AuctionTime (parseUtcTimestamp b)) (\<lambda>pb.
       Inr (if epochNanoseconds pa < epochNanoseconds pb then - 1
            else if epochNanoseconds pa > epochNanoseconds pb then 1 else 0)))"

definition compareRankedBids :: "RankedBid \<Rightarrow> RankedBid \<Rightarrow> auction_error + int" where
  "compareRankedBids a b =
     (if rb_freightPriceCents a \<noteq> rb_freightPriceCents b
      then Inr (rb_freightPriceCents a - rb_freightPriceCents b)
      else bind_res (compare_instants (rb_estimatedDelivery a) (rb_estimatedDelivery b)) (\<lambda>d.
        if d \<noteq> 0 then Inr d
        else bind_res (compare_instants (rb_consensusTimestamp a) (rb_consensusTimestamp b)) (\<lambda>t.
          if t \<noteq> 0 then Inr t
          else Inr (compareCodePointStrings (rb_bidId a) (rb_bidId b)))))"

definition rank_key :: "RankedBid \<Rightarrow> int \<times> int \<times> int \<times> string" where
  "rank_key b = (rb_freightPriceCents b, instant (rb_estimatedDelivery b), instant (rb_consensusTimestamp b), rb_bidId b)"

definition to_ranked :: "EligibilityResult \<Rightarrow> RankedBid option" where
  "to_ranked r =
     (if \<not> isRankable r then None
      else case (el_freightPriceCents r, el_estimatedDelivery r, el_bidHash r) of
        (Some price, Some delivery, Some bh) \<Rightarrow>
          Some \<lparr> rb_bidId = el_bidId r, rb_carrierId = el_carrierId r, rb_freightPriceCents = price,
                 rb_estimatedDelivery = delivery, rb_consensusTimestamp = el_consensusTimestamp r,
                 rb_hcsSequence = el_hcsSequence r, rb_bidHash = bh \<rparr>
      | _ \<Rightarrow> None)"

primrec comparable :: "RankedBid list \<Rightarrow> auction_error + unit" where
  "comparable [] = Inr ()"
| "comparable (a # as) =
     bind_res (all_res (\<lambda>b. bind_res (compareRankedBids a b) (\<lambda>_. Inr ())) as) (\<lambda>_. comparable as)"

definition rankQualifiedBids :: "EligibilityResult list \<Rightarrow> auction_error + RankedBid list" where
  "rankQualifiedBids results =
     (let qualified = List.map_filter to_ranked results in
      bind_res (comparable qualified) (\<lambda>_. Inr (sort_key rank_key qualified)))"

definition selectWinner :: "EligibilityResult list \<Rightarrow> auction_error + RankedBid option" where
  "selectWinner results =
     bind_res (rankQualifiedBids results) (\<lambda>ranked. Inr (case ranked of [] \<Rightarrow> None | w # _ \<Rightarrow> Some w))"

subsection \<open>The comparator orders by the key\<close>

lemma compare_instants_iff:
  "compare_instants a b = Inr n \<longleftrightarrow>
     isUtcIsoTimestamp a \<and> isUtcIsoTimestamp b \<and> n = sgn (instant a - instant b)"
  by (auto simp: compare_instants_def res_simps isUtcIsoTimestamp_def instant_def sgn_if is_ok_iff split: sum.splits)

lemma compare_key:
  assumes "compareRankedBids a b = Inr n"
  shows "(n < 0 \<longleftrightarrow> rank_key a < rank_key b) \<and> (n = 0 \<longleftrightarrow> rank_key a = rank_key b)"
  using assms
  by (auto simp: compareRankedBids_def rank_key_def compare_instants_iff res_simps sgn_if compareCodePointStrings_def
      split: if_splits)

subsection \<open>Results that can be ranked\<close>

definition rank_ready :: "EligibilityResult \<Rightarrow> bool" where
  "rank_ready r \<longleftrightarrow> (isRankable r \<longrightarrow>
     (\<exists>b. to_ranked r = Some b \<and> isUtcIsoTimestamp (rb_estimatedDelivery b) \<and> isUtcIsoTimestamp (rb_consensusTimestamp b)))"

text \<open>Every result of the evaluation is ready: a qualified bid has its price, delivery time and hash.\<close>

lemma evaluated_rank_ready:
  assumes "evaluateCommitmentEligibility h ecdsa registry key evaluated tender commitment sb sr = Inr r"
  shows "rank_ready r"
  using assms
proof (cases rule: evaluate_cases)
  case 1
  then show ?thesis by (simp add: rank_ready_def isRankable_def)
next
  case (2 c bid bh eh su)
  note u = bid_ok_times [OF read_bid_ok [OF 2(3)]]
  have c: "isUtcIsoTimestamp (ce_consensusTimestamp c)"
    using parseCommitment_sound [OF 2(1)] by (simp add: CommitmentEvidenceSchema_def)
  from 2(5) show ?thesis
    by (cases rule: judge_bid_Inr) (use u c in \<open>auto simp: rank_ready_def to_ranked_def\<close>)
qed

lemma all_evaluated_ready:
  assumes "evaluateAllCommitments h ecdsa tender cs bids receipts registry key evaluated = Inr results"
  shows "list_all rank_ready results"
proof -
  obtain rs where "map_res (\<lambda>commitment.
         evaluateCommitmentEligibility h ecdsa registry key evaluated tender commitment
           (case commitment_bid_id commitment of None \<Rightarrow> None | Some bidId \<Rightarrow> map_of bids bidId)
           (case commitment_bid_id commitment of None \<Rightarrow> None | Some bidId \<Rightarrow> map_of receipts bidId)) cs = Inr rs"
    and r: "results = sort_key sequence_key rs"
    using assms by (auto simp: evaluateAllCommitments_def res_simps)
  then have "list_all rank_ready rs" using evaluated_rank_ready by (blast intro: map_res_sound)
  then show ?thesis by (simp add: r list_all_iff)
qed

abbreviation ranked_list :: "EligibilityResult list \<Rightarrow> RankedBid list" where
  "ranked_list results \<equiv> List.map_filter to_ranked results"

lemma ranked_mem: "b \<in> set (ranked_list rs) \<longleftrightarrow> (\<exists>r\<in>set rs. to_ranked r = Some b)"
  by (induction rs) (auto simp: List.map_filter_simps split: option.splits)

lemma to_ranked_rankable: "to_ranked r = Some b \<Longrightarrow> isRankable r"
  by (simp add: to_ranked_def split: if_splits)

lemma comparable_ok:
  assumes "\<And>b. b \<in> set bs \<Longrightarrow> isUtcIsoTimestamp (rb_estimatedDelivery b) \<and> isUtcIsoTimestamp (rb_consensusTimestamp b)"
  shows "comparable bs = Inr ()"
  using assms
proof (induction bs)
  case (Cons a bs)
  have "bind_res (compareRankedBids a b) (\<lambda>_. Inr ()) = Inr ()" if "b \<in> set bs" for b
    using Cons.prems [of a] Cons.prems [of b] that
    by (auto simp: compareRankedBids_def compare_instants_iff [THEN iffD2])
  then have "all_res (\<lambda>b. bind_res (compareRankedBids a b) (\<lambda>_. Inr ())) bs = Inr ()" by (simp add: all_res_Inr_iff)
  then show ?case using Cons by simp
qed simp

lemma rank_ok:
  assumes "list_all rank_ready results"
  shows "rankQualifiedBids results = Inr (sort_key rank_key (ranked_list results))"
proof -
  have "isUtcIsoTimestamp (rb_estimatedDelivery b) \<and> isUtcIsoTimestamp (rb_consensusTimestamp b)"
    if "b \<in> set (ranked_list results)" for b
    using that assms to_ranked_rankable by (fastforce simp: ranked_mem list_all_iff rank_ready_def)
  then show ?thesis by (simp add: rankQualifiedBids_def comparable_ok)
qed

lemma winner_ok:
  assumes "list_all rank_ready results"
  shows "selectWinner results = Inr (case sort_key rank_key (ranked_list results) of [] \<Rightarrow> None | w # _ \<Rightarrow> Some w)"
  by (simp add: selectWinner_def rank_ok [OF assms])

lemma ranked_None_iff:
  assumes "list_all rank_ready results"
  shows "ranked_list results = [] \<longleftrightarrow> filter isRankable results = []"
proof -
  have "(\<exists>b. b \<in> set (ranked_list results)) \<longleftrightarrow> (\<exists>r\<in>set results. isRankable r)"
    using assms unfolding ranked_mem list_all_iff rank_ready_def by (blast dest: to_ranked_rankable)
  then show ?thesis unfolding filter_empty_conv by (metis empty_iff list.set(1) list.set_intros(1) neq_Nil_conv)
qed

lemma winner_best:
  assumes ready: "list_all rank_ready results"
  shows "\<exists>w. selectWinner results = Inr w
    \<and> (w = None \<longleftrightarrow> \<not> list_ex isRankable results)
    \<and> (\<forall>b. w = Some b \<longrightarrow> (\<exists>r\<in>set results. isRankable r \<and> to_ranked r = Some b)
         \<and> (\<forall>r\<in>set results. \<forall>b'. to_ranked r = Some b' \<longrightarrow> rank_key b \<le> rank_key b'))"
proof -
  have n: "ranked_list results = [] \<longleftrightarrow> \<not> list_ex isRankable results"
    using ranked_None_iff [OF ready] by (simp add: filter_empty_conv list_ex_iff)
  show ?thesis
  proof (cases "sort_key rank_key (ranked_list results)")
    case Nil
    then have "ranked_list results = []" by (metis set_empty set_sort)
    then show ?thesis using n Nil by (simp add: winner_ok [OF ready])
  next
    case (Cons b bs)
    have "set (b # bs) = set (ranked_list results)" using Cons by (metis set_sort)
    moreover have "\<forall>b'\<in>set bs. rank_key b \<le> rank_key b'"
      using sorted_sort_key [of rank_key "ranked_list results"] Cons by simp
    ultimately have m: "b \<in> set (ranked_list results)" "\<forall>b'\<in>set (ranked_list results). rank_key b \<le> rank_key b'"
      by auto
    then have "ranked_list results \<noteq> []" by auto
    then show ?thesis
      using n Cons m ranked_mem [of _ results] to_ranked_rankable
      unfolding winner_ok [OF ready] by (simp, blast)
  qed
qed


subsection \<open>The order of the input does not matter\<close>

lemma map_filter_mset: "mset xs = mset ys \<Longrightarrow> mset (List.map_filter f xs) = mset (List.map_filter f ys)"
  by (simp add: List.map_filter_def)

lemma ranked_keys_inj:
  assumes "distinct (map el_bidId (filter isRankable results))"
  shows "inj_on rank_key (set (ranked_list results))"
proof (rule inj_onI)
  fix a b
  assume "a \<in> set (ranked_list results)" "b \<in> set (ranked_list results)" "rank_key a = rank_key b"
  then obtain r s where rs: "r \<in> set results" "s \<in> set results" "to_ranked r = Some a" "to_ranked s = Some b"
    by (auto simp: ranked_mem)
  then have "el_bidId r = rb_bidId a" "el_bidId s = rb_bidId b"
    by (auto simp: to_ranked_def split: if_splits option.splits)
  then have "el_bidId r = el_bidId s" using \<open>rank_key a = rank_key b\<close> by (simp add: rank_key_def)
  moreover have "r \<in> set (filter isRankable results)" "s \<in> set (filter isRankable results)"
    using rs to_ranked_rankable by auto
  ultimately have "r = s" using assms by (meson distinct_map inj_onD)
  then show "a = b" using rs by simp
qed

text \<open>
  The auction is fair to submission order: presenting the same results, with
  no bid id twice among the rankable ones, in another order ranks the bids the
  same way and selects the same winner.\<close>

theorem ranking_ignores_order:
  assumes "mset results = mset results'" "list_all rank_ready results"
    and "distinct (map el_bidId (filter isRankable results))"
  shows "rankQualifiedBids results = rankQualifiedBids results' \<and> selectWinner results = selectWinner results'"
proof -
  have r': "list_all rank_ready results'" using assms(1,2) by (metis list_all_iff set_mset_mset)
  have "mset (ranked_list results') = mset (ranked_list results)" using map_filter_mset [OF assms(1), of to_ranked] by simp
  then have "sort_key rank_key (ranked_list results') = sort_key rank_key (ranked_list results)"
    using sort_key_inj_key_eq [of "ranked_list results'" "sort_key rank_key (ranked_list results)" rank_key]
      ranked_keys_inj [OF assms(3)] by (metis mset_eq_setD mset_sort sorted_sort_key)
  then show ?thesis using rank_ok [OF assms(2)] rank_ok [OF r'] by (simp add: selectWinner_def)
qed

subsection \<open>Two bids\<close>

definition demo_auction :: "auction_error + EligibilityResult list" where
  "demo_auction = evaluateAllCommitments demo_digest demo_ecdsa demo_tender
     (map commitment_json [demo_commitment ''A'' 1, demo_commitment ''B'' 2])
     [(''A'', demo_bid_json ''A'' 100000), (''B'', demo_bid_json ''B'' 90000)]
     [(''A'', demo_receipt_json ''A''), (''B'', demo_receipt_json ''B'')]
     demo_registry ''key'' demo_evaluation"

lemma demo_id: "commitment_bid_id (commitment_json (demo_commitment i s)) = (if i = [] then None else Some i)"
  by (simp add: commitment_bid_id_def commitment_json_def get_prop_def demo_commitment_def)

lemma demo_rankable:
  assumes "len_between 1 128 i" "isSafePositiveInteger n" "isSafePositiveInteger s" "n \<le> 250000"
  obtains r where "evaluateCommitmentEligibility demo_digest demo_ecdsa demo_registry key demo_evaluation demo_tender
       (commitment_json (demo_commitment i s)) (Some (demo_bid_json i n)) (Some (demo_receipt_json i)) = Inr r"
    "isRankable r" "el_freightPriceCents r = Some n"
proof -
  obtain r where r: "evaluateCommitmentEligibility demo_digest demo_ecdsa demo_registry key demo_evaluation demo_tender
       (commitment_json (demo_commitment i s)) (Some (demo_bid_json i n)) (Some (demo_receipt_json i)) = Inr r"
    using demo_evaluated by blast
  moreover have "isRankable r"
    using rankable_iff [OF demo_digest_hex r] demo_meets_rules [OF assms] by blast
  moreover have "el_freightPriceCents r = Some n"
    using rankable_price [OF r \<open>isRankable r\<close>] demo_reads [OF assms(1,2)] by (auto simp: demo_bid_def)
  ultimately show thesis by (rule that)
qed

lemma demo_numbers [simp]:
  "len_between (Suc 0) 128 ''A''" "len_between (Suc 0) 128 ''B''" "isSafePositiveInteger 1" "isSafePositiveInteger 2"
  "isSafePositiveInteger 100000" "isSafePositiveInteger 90000"
  by (simp_all add: len_between_def isSafePositiveInteger_def max_safe_integer_def)

lemma demo_auction_runs:
  "\<exists>results. demo_auction = Inr results
     \<and> (\<exists>r\<in>set results. isRankable r \<and> el_freightPriceCents r = Some 100000)
     \<and> (\<exists>r\<in>set results. isRankable r \<and> el_freightPriceCents r = Some 90000)"
proof -
  obtain a where a: "evaluateCommitmentEligibility demo_digest demo_ecdsa demo_registry ''key'' demo_evaluation demo_tender
       (commitment_json (demo_commitment ''A'' 1)) (Some (demo_bid_json ''A'' 100000)) (Some (demo_receipt_json ''A'')) = Inr a"
    "isRankable a" "el_freightPriceCents a = Some 100000"
    by (rule demo_rankable [of "''A''" 100000 1 "''key''"]) simp_all
  obtain b where b: "evaluateCommitmentEligibility demo_digest demo_ecdsa demo_registry ''key'' demo_evaluation demo_tender
       (commitment_json (demo_commitment ''B'' 2)) (Some (demo_bid_json ''B'' 90000)) (Some (demo_receipt_json ''B'')) = Inr b"
    "isRankable b" "el_freightPriceCents b = Some 90000"
    by (rule demo_rankable [of "''B''" 90000 2 "''key''"]) simp_all
  have "demo_auction = Inr (sort_key sequence_key [a, b])"
    by (simp add: demo_auction_def evaluateAllCommitments_def demo_id a b)
  moreover have "set (sort_key sequence_key [a, b]) = {a, b}" by auto
  ultimately show ?thesis using a b by blast
qed


definition demo_result :: "string \<Rightarrow> int \<Rightarrow> EligibilityResult" where
  "demo_result i n = (empty_result \<lparr> su_bidPresent = True, su_bidHash = Some demo_hash, su_receiptPresent = True,
       su_receiptHash = Some demo_hash \<rparr> [] i ''C1'' 1 ''2026-08-01T11:00:00Z'')
     \<lparr> el_freightPriceCents := Some n, el_estimatedDelivery := Some ''2026-08-04T18:00:00Z'',
       el_bidHash := Some demo_hash, el_timely := True \<rparr>"

lemma demo_result_ready: "isRankable (demo_result i n)" "el_bidId (demo_result i n) = i" "rank_ready (demo_result i n)"
proof -
  have "isUtcIsoTimestamp ''2026-08-04T18:00:00Z''" "isUtcIsoTimestamp ''2026-08-01T11:00:00Z''" by code_simp+
  then show "isRankable (demo_result i n)" "el_bidId (demo_result i n) = i" "rank_ready (demo_result i n)"
    by (simp_all add: demo_result_def empty_result_def isRankable_def rank_ready_def to_ranked_def Let_def)
qed

lemma ranking_ignores_order_witness:
  "rankQualifiedBids [demo_result ''A'' 100000, demo_result ''B'' 90000]
     = rankQualifiedBids [demo_result ''B'' 90000, demo_result ''A'' 100000]
   \<and> selectWinner [demo_result ''A'' 100000, demo_result ''B'' 90000]
     = selectWinner [demo_result ''B'' 90000, demo_result ''A'' 100000]"
  by (rule ranking_ignores_order) (simp_all add: demo_result_ready)

end
