(* ===== verification/Auction_Reconciliation.thy ===== *)
theory Auction_Reconciliation
  imports Auction_Ranking
begin

text \<open>
  Reconciliation of the submitted evidence, \<^verbatim>\<open>src/auction/reconciliation.ts\<close>, and the
  published rules, \<^verbatim>\<open>src/auction/rules.ts\<close>.

  The entries of the bid and receipt maps are lists in iteration order, since the
  source also accepts iterables with repeated keys.  A bid is an object of the
  heap: \<open>se_ref\<close> is its identity, which the source compares through a \<open>WeakSet\<close>.
  The maps built by the loop are association lists in insertion order.
\<close>

record submitted_entry =
  se_key :: string
  se_ref :: nat
  se_value :: json

record ValidatedReconciliationSet =
  vr_commitments :: "CommitmentEvidence list"
  vr_fullBids :: "(string \<times> json) list"
  vr_acceptanceReceipts :: "(string \<times> json) list"

definition identityKey :: "CommitmentEvidence \<Rightarrow> string" where
  "identityKey c = join ''|''
     [ce_tenderId c, ce_bidId c, ce_carrierId c, ce_bidHash c, ce_acceptanceReceiptHash c,
      int_str (ce_bidVersion c), int_str (ce_hcsSequence c), ce_consensusTimestamp c]"

primrec commitment_loop ::
  "json list \<Rightarrow> int list \<Rightarrow> string list \<Rightarrow> string list \<Rightarrow> auction_error + CommitmentEvidence list" where
  "commitment_loop [] seenSequences seenBidIds seenCommitmentKeys = Inr []"
| "commitment_loop (raw # rest) seenSequences seenBidIds seenCommitmentKeys =
     bind_res (map_err (\<lambda>_. ReconciliationError INVALID_CLOSURE_PROOF) (parseCommitmentEvidence raw)) (\<lambda>c.
       if List.member seenSequences (ce_hcsSequence c) then Inl (ReconciliationError DUPLICATE_HCS_SEQUENCE)
       else if List.member seenBidIds (ce_bidId c) then Inl (ReconciliationError DUPLICATE_BID_ID)
       else if List.member seenCommitmentKeys (identityKey c) then Inl (ReconciliationError DUPLICATE_COMMITMENT)
       else bind_res (commitment_loop rest (ce_hcsSequence c # seenSequences) (ce_bidId c # seenBidIds)
              (identityKey c # seenCommitmentKeys)) (\<lambda>cs. Inr (c # cs)))"

text \<open>\<open>value.name\<close>: a \<open>TypeError\<close> on null and undefined.\<close>

definition member_access :: "json \<Rightarrow> string \<Rightarrow> auction_error + json" where
  "member_access v name =
     (if v = JNull \<or> v = JUndefined then Inl AuctionTypeError
      else Inr (case get_prop v name of None \<Rightarrow> JUndefined | Some x \<Rightarrow> x))"

text \<open>
  Whether a value can be printed in a template literal, for the message of the error:
  symbols throw, and so does an object whose own \<open>toString\<close> is not callable.
\<close>

primrec printable :: "json \<Rightarrow> bool" where
  "printable JNull = True"
| "printable (JBool b) = True"
| "printable (JNum n) = True"
| "printable JNonFinite = True"
| "printable (JStr s) = True"
| "printable JUndefined = True"
| "printable JFunction = True"
| "printable (JBigint n) = True"
| "printable JSymbol = False"
| "printable (JArr items) = list_all (\<lambda>i. i = None \<or> i = Some True) (map (map_option printable) items)"
| "printable JDate = True"
| "printable JMap = True"
| "printable JSet = True"
| "printable JInstance = True"
| "printable (JObj ps) = (map_of ps ''toString'' = None)"

definition key_consistent :: "string \<Rightarrow> submitted_entry \<Rightarrow> auction_error + unit" where
  "key_consistent field e =
     bind_res (member_access (se_value e) field) (\<lambda>body.
     bind_res (member_access body ''bidId'') (\<lambda>bidId.
       if bidId \<noteq> JStr (se_key e)
       then Inl (if printable bidId then ReconciliationError AMBIGUOUS_BID_ASSIGNMENT else AuctionTypeError)
       else Inr ()))"

definition is_object :: "json \<Rightarrow> bool" where
  "is_object v =
     (case v of JArr _ \<Rightarrow> True | JObj _ \<Rightarrow> True | JDate \<Rightarrow> True | JMap \<Rightarrow> True | JSet \<Rightarrow> True | JInstance \<Rightarrow> True
      | _ \<Rightarrow> False)"

primrec bid_loop ::
  "submitted_entry list \<Rightarrow> (string \<times> json) list \<Rightarrow> nat list \<Rightarrow> auction_error + (string \<times> json) list" where
  "bid_loop [] fullBids seenFullBidObjects = Inr fullBids"
| "bid_loop (e # es) fullBids seenFullBidObjects =
     (if map_of fullBids (se_key e) \<noteq> None then Inl (ReconciliationError DUPLICATE_FULL_BID)
      else if is_object (se_value e) \<and> List.member seenFullBidObjects (se_ref e)
      then Inl (ReconciliationError AMBIGUOUS_BID_ASSIGNMENT)
      else bind_res (key_consistent ''bid'' e) (\<lambda>_.
        bid_loop es (fullBids @ [(se_key e, se_value e)])
          (if is_object (se_value e) then se_ref e # seenFullBidObjects else seenFullBidObjects)))"

primrec receipt_loop ::
  "submitted_entry list \<Rightarrow> (string \<times> json) list \<Rightarrow> auction_error + (string \<times> json) list" where
  "receipt_loop [] acceptanceReceipts = Inr acceptanceReceipts"
| "receipt_loop (e # es) acceptanceReceipts =
     (if map_of acceptanceReceipts (se_key e) \<noteq> None then Inl (ReconciliationError DUPLICATE_ACCEPTANCE_RECEIPT)
      else bind_res (key_consistent ''receipt'' e) (\<lambda>_.
        receipt_loop es (acceptanceReceipts @ [(se_key e, se_value e)])))"

definition commitment_key :: "CommitmentEvidence \<Rightarrow> int \<times> string" where
  "commitment_key c = (ce_hcsSequence c, ce_bidId c)"

definition validateReconciliationInputs ::
  "json list \<Rightarrow> submitted_entry list \<Rightarrow> submitted_entry list \<Rightarrow> auction_error + ValidatedReconciliationSet" where
  "validateReconciliationInputs commitments fullBids acceptanceReceipts =
     bind_res (commitment_loop commitments [] [] []) (\<lambda>parsed.
     bind_res (bid_loop fullBids [] []) (\<lambda>bids.
     bind_res (receipt_loop acceptanceReceipts []) (\<lambda>receipts.
       Inr \<lparr> vr_commitments = sort_key commitment_key parsed, vr_fullBids = bids,
             vr_acceptanceReceipts = receipts \<rparr>)))"

definition isSequenceRangeComplete :: "int \<Rightarrow> int \<Rightarrow> int list \<Rightarrow> bool" where
  "isSequenceRangeComplete start endSeq observedSequences =
     (if \<not> abs start \<le> max_safe_integer \<or> \<not> abs endSeq \<le> max_safe_integer \<or> start < 1 \<or> endSeq < start then False
      else let expected = endSeq - start + 1 in
        if int (length observedSequences) \<noteq> expected then False
        else if int (length (remdups observedSequences)) \<noteq> expected then False
        else list_all (\<lambda>s. List.member observedSequences s) [start..endSeq])"

subsection \<open>The published rules\<close>

definition ENGINE_VERSION :: string where "ENGINE_VERSION = ''routeguard-auction-1.0''"

definition strings_json :: "string list \<Rightarrow> json" where
  "strings_json ss = JArr (map (\<lambda>s. Some (JStr s)) ss)"

definition LOWEST_QUALIFIED_PRICE_V1_RULES :: json where
  "LOWEST_QUALIFIED_PRICE_V1_RULES = JObj
     [(''policy'', JStr SELECTION_POLICY_V1),
      (''engineVersion'', JStr ENGINE_VERSION),
      (''ranking'', strings_json
         [''lowest_freightPriceCents'', ''earliest_estimatedDelivery_epoch_nanoseconds'',
          ''earliest_hcs_consensusTimestamp_epoch_nanoseconds'', ''lexicographically_lowest_bidId_code_point'']),
      (''eligibility'', strings_json
         [''timely_commitment'', ''full_bid_present'', ''bid_hash_match'', ''bid_version_match'',
          ''acceptance_receipt_match'', ''carrier_signature_valid'', ''carrier_active_in_registry'',
          ''carrier_identity_match'', ''bid_not_expired'', ''tender_match'', ''equipment_match'',
          ''equipment_authorized'', ''capacity_confirmed'', ''proposed_pickup_within_window'',
          ''delivery_deadline_met'', ''price_within_maximum'', ''payment_recipients_match_carrier'',
          ''payment_options_valid'']),
      (''deadlineEquality'', JStr ''consensusTimestamp <= auctionEndsAt is timely (epoch ns)'')]"

definition computeRulesHash :: "hash_fn \<Rightarrow> auction_error + string" where
  "computeRulesHash sha256 = map_err AuctionHash (canonicalSha256 sha256 LOWEST_QUALIFIED_PRICE_V1_RULES)"

subsection \<open>The identity key is redundant\<close>

text \<open>The text after the last bar of a key is the timestamp, the text before it the sequence.\<close>

lemma timestamp_no_bar: "isUtcIsoTimestamp t \<Longrightarrow> CHR ''|'' \<notin> set t"
proof
  assume "isUtcIsoTimestamp t" and bar: "CHR ''|'' \<in> set t"
  then obtain y mo d h mi s f tl where t: "t = iso_string y mo d h mi s tl" "match_tail tl = Some f"
    and w: "digits_of_width 4 y" "digits_of_width 2 mo" "digits_of_width 2 d" "digits_of_width 2 h"
      "digits_of_width 2 mi" "digits_of_width 2 s"
    by (auto simp: isUtcIsoTimestamp_def is_ok_iff parse_iff UTC_ISO_RE_Some_iff)
  have "CHR ''|'' \<notin> set x" if "all_digits x" for x
    using that by (auto simp: all_digits_def list_all_iff is_digit_def)
  then show False
    using bar t w match_tail_SomeD [OF t(2)] by (auto simp: iso_string_def digits_of_width_def)
qed

lemma last_field_eq:
  assumes "a @ CHR ''|'' # x = b @ CHR ''|'' # y" "CHR ''|'' \<notin> set x" "CHR ''|'' \<notin> set y"
  shows "a = b \<and> x = y"
proof -
  have "takeWhile (\<lambda>c. c \<noteq> CHR ''|'') (rev (p @ CHR ''|'' # q)) = rev q" if "CHR ''|'' \<notin> set q" for p q
    using takeWhile_run(1) [of "\<lambda>c. c \<noteq> CHR ''|''" "rev q" "CHR ''|'' # rev p"] that by (auto simp: list_all_iff)
  then have "x = y" using assms by (metis rev_is_rev_conv)
  then show ?thesis using assms(1) by simp
qed

lemma identityKey_sequence:
  assumes "CommitmentEvidenceSchema c" "CommitmentEvidenceSchema d" "identityKey c = identityKey d"
  shows "ce_hcsSequence c = ce_hcsSequence d"
proof -
  define p where "p x = join ''|'' [ce_tenderId x, ce_bidId x, ce_carrierId x, ce_bidHash x,
    ce_acceptanceReceiptHash x, int_str (ce_bidVersion x)]" for x :: CommitmentEvidence
  have k: "identityKey x = (p x @ CHR ''|'' # int_str (ce_hcsSequence x)) @ CHR ''|'' # ce_consensusTimestamp x" for x
    by (simp add: identityKey_def p_def)
  have n: "CHR ''|'' \<notin> set (int_str n)" for n
    using int_str_chars [of n] by (auto simp: list_all_iff num_char_def is_digit_def)
  have "p c @ CHR ''|'' # int_str (ce_hcsSequence c) = p d @ CHR ''|'' # int_str (ce_hcsSequence d)"
    using last_field_eq [OF assms(3) [unfolded k]] assms(1,2)
    by (simp add: CommitmentEvidenceSchema_def timestamp_no_bar)
  then show ?thesis using last_field_eq n by (metis int_str_inj)
qed

lemma commitment_loop_iff:
  assumes "list_all CommitmentEvidenceSchema seen"
  shows "commitment_loop raws (map ce_hcsSequence seen) (map ce_bidId seen) (map identityKey seen) = Inr cs \<longleftrightarrow>
     map_res parseCommitmentEvidence raws = Inr cs
     \<and> distinct (map ce_hcsSequence cs) \<and> set (map ce_hcsSequence cs) \<inter> set (map ce_hcsSequence seen) = {}
     \<and> distinct (map ce_bidId cs) \<and> set (map ce_bidId cs) \<inter> set (map ce_bidId seen) = {}"
  using assms
proof (induction raws arbitrary: seen cs)
  case (Cons raw raws)
  show ?case
  proof (cases "parseCommitmentEvidence raw")
    case (Inr c)
    note ok = parseCommitment_sound [OF Inr]
    then have s: "list_all CommitmentEvidenceSchema (c # seen)" using Cons.prems by simp
    have "identityKey c \<notin> identityKey ` set seen" if "ce_hcsSequence c \<notin> ce_hcsSequence ` set seen"
      using that identityKey_sequence [OF ok] Cons.prems by (auto simp: list_all_iff)
    then show ?thesis using Inr Cons.IH [OF s] by (auto simp: res_simps) (metis disjoint_iff image_eqI)+
  qed simp
qed auto

subsection \<open>Exactly the unambiguous evidence is accepted\<close>

definition entry_ok :: "string \<Rightarrow> submitted_entry \<Rightarrow> bool" where
  "entry_ok field e \<longleftrightarrow> (\<exists>body. get_prop (se_value e) field = Some body \<and> get_prop body ''bidId'' = Some (JStr (se_key e)))"

lemma member_access_iff:
  "member_access v k = Inr x \<longleftrightarrow> v \<noteq> JNull \<and> v \<noteq> JUndefined
     \<and> x = (case get_prop v k of None \<Rightarrow> JUndefined | Some y \<Rightarrow> y)"
  by (auto simp: member_access_def)

lemma get_prop_object: "get_prop v k = Some x \<Longrightarrow> is_object v \<and> v \<noteq> JNull \<and> v \<noteq> JUndefined"
  by (auto simp: get_prop_def is_object_def split: json.splits)

lemma key_consistent_iff: "key_consistent field e = Inr u \<longleftrightarrow> entry_ok field e"
  unfolding key_consistent_def entry_ok_def
  by (auto simp: res_simps member_access_iff dest: get_prop_object split: option.splits)

lemma bid_loop_iff:
  "bid_loop es bids refs = Inr out \<longleftrightarrow>
     list_all (entry_ok ''bid'') es \<and> distinct (map se_key es) \<and> set (map se_key es) \<inter> fst ` set bids = {}
     \<and> distinct (map se_ref es) \<and> set (map se_ref es) \<inter> set refs = {}
     \<and> out = bids @ map (\<lambda>e. (se_key e, se_value e)) es"
proof (induction es arbitrary: bids refs)
  case (Cons e es)
  show ?case
  proof (cases "entry_ok ''bid'' e")
    case True
    then have "is_object (se_value e)" "key_consistent ''bid'' e = Inr ()"
      by (auto simp: key_consistent_iff entry_ok_def dest: get_prop_object)
    then show ?thesis using True Cons.IH by (auto simp: map_of_eq_None_iff)
  next
    case False
    then show ?thesis by (auto simp: res_simps key_consistent_iff)
  qed
qed auto

lemma receipt_loop_iff:
  "receipt_loop es receipts = Inr out \<longleftrightarrow>
     list_all (entry_ok ''receipt'') es \<and> distinct (map se_key es) \<and> set (map se_key es) \<inter> fst ` set receipts = {}
     \<and> out = receipts @ map (\<lambda>e. (se_key e, se_value e)) es"
proof (induction es arbitrary: receipts)
  case (Cons e es)
  then show ?case by (auto simp: res_simps key_consistent_iff map_of_eq_None_iff)
qed auto

lemma reconciled_iff:
  "validateReconciliationInputs raws bids receipts = Inr v \<longleftrightarrow>
     (\<exists>cs. map_res parseCommitmentEvidence raws = Inr cs
        \<and> distinct (map ce_hcsSequence cs) \<and> distinct (map ce_bidId cs)
        \<and> list_all (entry_ok ''bid'') bids \<and> distinct (map se_key bids) \<and> distinct (map se_ref bids)
        \<and> list_all (entry_ok ''receipt'') receipts \<and> distinct (map se_key receipts)
        \<and> v = \<lparr> vr_commitments = sort_key commitment_key cs,
               vr_fullBids = map (\<lambda>e. (se_key e, se_value e)) bids,
               vr_acceptanceReceipts = map (\<lambda>e. (se_key e, se_value e)) receipts \<rparr>)"
  using commitment_loop_iff [of "[]" raws]
  by (auto simp: validateReconciliationInputs_def res_simps bid_loop_iff receipt_loop_iff)

text \<open>
  C33. Reconciliation fails closed on every ambiguity and on nothing else: the
  inputs are accepted exactly when every commitment parses, no two share a sequence
  or a bid id, every bid and receipt is filed once under its own bid id and no bid
  object is filed twice.  The accepted set is the commitments in sequence order
  and the two maps; the check of the repeated commitment identity never decides,
  even for ids that contain the separator.\<close>

theorem reconciliation_accepts_iff:
  "validateReconciliationInputs raws bids receipts = Inr v \<longleftrightarrow>
     (\<exists>cs. map_res parseCommitmentEvidence raws = Inr cs
        \<and> distinct (map ce_hcsSequence cs) \<and> distinct (map ce_bidId cs)
        \<and> list_all (entry_ok ''bid'') bids \<and> distinct (map se_key bids) \<and> distinct (map se_ref bids)
        \<and> list_all (entry_ok ''receipt'') receipts \<and> distinct (map se_key receipts)
        \<and> v = \<lparr> vr_commitments = sort_key commitment_key cs,
               vr_fullBids = map (\<lambda>e. (se_key e, se_value e)) bids,
               vr_acceptanceReceipts = map (\<lambda>e. (se_key e, se_value e)) receipts \<rparr>)"
  by (rule reconciled_iff)

subsection \<open>Complete ranges\<close>

lemma range_complete_mset:
  "isSequenceRangeComplete s e obs \<longleftrightarrow> 1 \<le> s \<and> s \<le> e \<and> e \<le> max_safe_integer \<and> mset obs = mset [s..e]"
proof (cases "1 \<le> s \<and> s \<le> e \<and> e \<le> max_safe_integer")
  case True
  have n: "int (length [s..e]) = e - s + 1" using True by simp
  have "isSequenceRangeComplete s e obs \<longleftrightarrow>
      length obs = length [s..e] \<and> length (remdups obs) = length [s..e] \<and> set [s..e] \<subseteq> set obs"
    using True n by (auto simp: isSequenceRangeComplete_def Let_def list_all_iff)
  also have "\<dots> \<longleftrightarrow> mset obs = mset [s..e]"
  proof
    assume a: "length obs = length [s..e] \<and> length (remdups obs) = length [s..e] \<and> set [s..e] \<subseteq> set obs"
    then have "distinct obs" by (metis length_remdups_eq remdups_id_iff_distinct)
    moreover have "set [s..e] = set obs"
      using a \<open>distinct obs\<close> by (metis List.finite_set card_subset_eq distinct_card distinct_upto)
    ultimately show "mset obs = mset [s..e]" by (metis distinct_upto set_eq_iff_mset_eq_distinct)
  next
    assume m: "mset obs = mset [s..e]"
    then have "distinct obs" by (metis distinct_upto mset_eq_imp_distinct_iff)
    then show "length obs = length [s..e] \<and> length (remdups obs) = length [s..e] \<and> set [s..e] \<subseteq> set obs"
      using m by (metis distinct_remdups_id mset_eq_length mset_eq_setD subset_refl)
  qed
  finally show ?thesis using True by simp
next
  case False
  then show ?thesis by (auto simp: isSequenceRangeComplete_def)
qed

text \<open>
  The completeness check, written with a length, a set and a loop, holds exactly
  when the observed sequence numbers are a permutation of the whole range, which is
  non-empty, starts at one or later and stays within the safe integers.\<close>

theorem complete_range_is_permutation:
  "isSequenceRangeComplete s e obs \<longleftrightarrow> 1 \<le> s \<and> s \<le> e \<and> e \<le> max_safe_integer \<and> mset obs = mset [s..e]"
  by (rule range_complete_mset)

end
