(* ===== verification/Auction_Manifest.thy ===== *)
theory Auction_Manifest
  imports Auction_Reconciliation
begin

text \<open>
  The decision manifest, \<^verbatim>\<open>src/auction/decision-manifest.ts\<close>: the hash of the
  evaluated bid set, the manifest rebuilt from the evaluation, and the verification of
  a supplied manifest against it, with its error messages.  The manifest without its
  own hash is the record \<open>ManifestBody\<close>, which \<open>DecisionManifest\<close> extends as the
  source spreads it.
\<close>

record ManifestEntry =
  me_bidId :: string
  me_carrierId :: string
  me_hcsSequence :: int
  me_consensusTimestamp :: string
  me_decision :: BidDecision
  me_reasonCodes :: "EligibilityReasonCode list"

record ManifestBody =
  dm_tenderId :: string
  dm_tenderVersion :: int
  dm_tenderHash :: string
  dm_engineVersion :: string
  dm_selectionPolicy :: string
  dm_rulesHash :: string
  dm_evaluationTimestamp :: string
  dm_barrierSequence :: int
  dm_reconciliationReference :: string
  dm_commitments :: "ManifestEntry list"
  dm_winningBidId :: "string option"
  dm_winningBidHash :: "string option"
  dm_evaluatedBidSetHash :: string

record DecisionManifest = ManifestBody +
  dm_decisionManifestHash :: string

subsection \<open>JSON of the evaluation\<close>

definition reason_str :: "EligibilityReasonCode \<Rightarrow> string" where
  "reason_str c = (case c of
     LATE_COMMITMENT \<Rightarrow> ''LATE_COMMITMENT'' | FULL_BID_MISSING \<Rightarrow> ''FULL_BID_MISSING''
   | BID_HASH_MISMATCH \<Rightarrow> ''BID_HASH_MISMATCH'' | BID_VERSION_MISMATCH \<Rightarrow> ''BID_VERSION_MISMATCH''
   | ACCEPTANCE_RECEIPT_MISMATCH \<Rightarrow> ''ACCEPTANCE_RECEIPT_MISMATCH''
   | INVALID_BID_SIGNATURE \<Rightarrow> ''INVALID_BID_SIGNATURE'' | INVALID_COMMITMENT_SCHEMA \<Rightarrow> ''INVALID_COMMITMENT_SCHEMA''
   | INVALID_BID_SCHEMA \<Rightarrow> ''INVALID_BID_SCHEMA'' | INVALID_ACCEPTANCE_RECEIPT \<Rightarrow> ''INVALID_ACCEPTANCE_RECEIPT''
   | CARRIER_NOT_REGISTERED \<Rightarrow> ''CARRIER_NOT_REGISTERED'' | CARRIER_INACTIVE \<Rightarrow> ''CARRIER_INACTIVE''
   | CARRIER_ACCOUNT_MISMATCH \<Rightarrow> ''CARRIER_ACCOUNT_MISMATCH'' | TENDER_MISMATCH \<Rightarrow> ''TENDER_MISMATCH''
   | BID_EXPIRED \<Rightarrow> ''BID_EXPIRED'' | EQUIPMENT_MISMATCH \<Rightarrow> ''EQUIPMENT_MISMATCH''
   | EQUIPMENT_NOT_AUTHORIZED \<Rightarrow> ''EQUIPMENT_NOT_AUTHORIZED'' | CAPACITY_NOT_CONFIRMED \<Rightarrow> ''CAPACITY_NOT_CONFIRMED''
   | PICKUP_WINDOW_INFEASIBLE \<Rightarrow> ''PICKUP_WINDOW_INFEASIBLE'' | DELIVERY_DEADLINE_MISSED \<Rightarrow> ''DELIVERY_DEADLINE_MISSED''
   | PRICE_ABOVE_MAXIMUM \<Rightarrow> ''PRICE_ABOVE_MAXIMUM'' | PAYMENT_RECIPIENT_MISMATCH \<Rightarrow> ''PAYMENT_RECIPIENT_MISMATCH''
   | INVALID_PAYMENT_OPTIONS \<Rightarrow> ''INVALID_PAYMENT_OPTIONS'')"

definition decision_str :: "BidDecision \<Rightarrow> string" where
  "decision_str d = (case d of QUALIFIED \<Rightarrow> ''QUALIFIED'' | REJECTED \<Rightarrow> ''REJECTED'')"

definition null_or :: "('a \<Rightarrow> json) \<Rightarrow> 'a option \<Rightarrow> json" where
  "null_or f x = (case x of None \<Rightarrow> JNull | Some y \<Rightarrow> f y)"

definition result_json :: "bool \<Rightarrow> EligibilityResult \<Rightarrow> json" where
  "result_json timely r = JObj
     [(''commitment'', null_or (\<lambda>c. JObj
         [(''tenderId'', JStr (ce_tenderId c)), (''bidId'', JStr (ce_bidId c)), (''carrierId'', JStr (ce_carrierId c)),
          (''bidHash'', JStr (ce_bidHash c)), (''acceptanceReceiptHash'', JStr (ce_acceptanceReceiptHash c)),
          (''bidVersion'', JNum (ce_bidVersion c)), (''hcsSequence'', JNum (ce_hcsSequence c)),
          (''consensusTimestamp'', JStr (ce_consensusTimestamp c)), (''timely'', JBool timely)]) (el_commitment r)),
      (''submittedSignedBidPresent'', JBool (el_submittedSignedBidPresent r)),
      (''submittedSignedBidEnvelopeHash'', null_or JStr (el_submittedSignedBidEnvelopeHash r)),
      (''submittedReceiptPresent'', JBool (el_submittedReceiptPresent r)),
      (''submittedReceiptEnvelopeHash'', null_or JStr (el_submittedReceiptEnvelopeHash r)),
      (''fullBidSchemaValid'', null_or JBool (el_fullBidSchemaValid r)),
      (''receiptSchemaValid'', null_or JBool (el_receiptSchemaValid r)),
      (''fullBidPresent'', JBool (el_fullBidPresent r)),
      (''validatedFullBidHash'', null_or JStr (el_validatedFullBidHash r)),
      (''signedBidEnvelopeHash'', null_or JStr (el_signedBidEnvelopeHash r)),
      (''receiptPresent'', JBool (el_receiptPresent r)),
      (''validatedReceiptHash'', null_or JStr (el_validatedReceiptHash r)),
      (''bidVersionMatch'', null_or JBool (el_bidVersionMatch r)),
      (''signatureValid'', null_or JBool (el_signatureValid r)),
      (''decision'', JStr (decision_str (el_decision r))),
      (''reasonCodes'', strings_json (map reason_str (el_reasonCodes r)))]"

definition evaluated_entry :: "FreightTender \<Rightarrow> EligibilityResult \<Rightarrow> auction_error + json" where
  "evaluated_entry tender r =
     bind_res (case el_commitment r of
         None \<Rightarrow> Inr (el_timely r)
       | Some c \<Rightarrow> isCommitmentTimely (ce_consensusTimestamp c) (ft_auctionEndsAt tender)) (\<lambda>timely.
       Inr (result_json timely r))"

definition buildEvaluatedBidSetInput :: "FreightTender \<Rightarrow> EligibilityResult list \<Rightarrow> auction_error + json" where
  "buildEvaluatedBidSetInput tender results =
     bind_res (map_res (evaluated_entry tender) (sort_key sequence_key results)) (\<lambda>entries.
       Inr (JObj [(''tenderId'', JStr (ft_tenderId tender)), (''tenderVersion'', JNum (ft_version tender)),
                  (''entries'', JArr (map Some entries))]))"

definition computeEvaluatedBidSetHash :: "hash_fn \<Rightarrow> FreightTender \<Rightarrow> EligibilityResult list \<Rightarrow> auction_error + string" where
  "computeEvaluatedBidSetHash sha256 tender results =
     bind_res (buildEvaluatedBidSetInput tender results) (\<lambda>v. map_err AuctionHash (canonicalSha256 sha256 v))"

definition entry_json :: "ManifestEntry \<Rightarrow> json" where
  "entry_json e = JObj
     [(''bidId'', JStr (me_bidId e)), (''carrierId'', JStr (me_carrierId e)), (''hcsSequence'', JNum (me_hcsSequence e)),
      (''consensusTimestamp'', JStr (me_consensusTimestamp e)), (''decision'', JStr (decision_str (me_decision e))),
      (''reasonCodes'', strings_json (map reason_str (me_reasonCodes e)))]"

definition body_json :: "ManifestBody \<Rightarrow> json" where
  "body_json b = JObj
     [(''tenderId'', JStr (dm_tenderId b)), (''tenderVersion'', JNum (dm_tenderVersion b)),
      (''tenderHash'', JStr (dm_tenderHash b)), (''engineVersion'', JStr (dm_engineVersion b)),
      (''selectionPolicy'', JStr (dm_selectionPolicy b)), (''rulesHash'', JStr (dm_rulesHash b)),
      (''evaluationTimestamp'', JStr (dm_evaluationTimestamp b)), (''barrierSequence'', JNum (dm_barrierSequence b)),
      (''reconciliationReference'', JStr (dm_reconciliationReference b)),
      (''commitments'', JArr (map (\<lambda>e. Some (entry_json e)) (dm_commitments b))),
      (''winningBidId'', null_or JStr (dm_winningBidId b)), (''winningBidHash'', null_or JStr (dm_winningBidHash b)),
      (''evaluatedBidSetHash'', JStr (dm_evaluatedBidSetHash b))]"

subsection \<open>Building\<close>

definition manifest_entry :: "EligibilityResult \<Rightarrow> ManifestEntry" where
  "manifest_entry r = \<lparr> me_bidId = el_bidId r, me_carrierId = el_carrierId r, me_hcsSequence = el_hcsSequence r,
     me_consensusTimestamp = el_consensusTimestamp r, me_decision = el_decision r, me_reasonCodes = el_reasonCodes r \<rparr>"

definition reconstructExpectedManifestBody ::
  "hash_fn \<Rightarrow> FreightTender \<Rightarrow> EligibilityResult list \<Rightarrow> string \<Rightarrow> int \<Rightarrow> string \<Rightarrow> auction_error + ManifestBody" where
  "reconstructExpectedManifestBody sha256 tender results evaluationTimestamp barrierSequence reconciliationReference =
     (let orderedResults = sort_key sequence_key results in
      bind_res (selectWinner orderedResults) (\<lambda>winner.
      bind_res (tenderHash sha256 tender) (\<lambda>th.
      bind_res (computeRulesHash sha256) (\<lambda>rh.
      bind_res (computeEvaluatedBidSetHash sha256 tender orderedResults) (\<lambda>eh.
        Inr \<lparr> dm_tenderId = ft_tenderId tender, dm_tenderVersion = ft_version tender, dm_tenderHash = th,
              dm_engineVersion = ENGINE_VERSION, dm_selectionPolicy = SELECTION_POLICY_V1, dm_rulesHash = rh,
              dm_evaluationTimestamp = evaluationTimestamp, dm_barrierSequence = barrierSequence,
              dm_reconciliationReference = reconciliationReference,
              dm_commitments = map manifest_entry orderedResults,
              dm_winningBidId = map_option rb_bidId winner, dm_winningBidHash = map_option rb_bidHash winner,
              dm_evaluatedBidSetHash = eh \<rparr>)))))"

definition manifest_hash :: "hash_fn \<Rightarrow> ManifestBody \<Rightarrow> auction_error + string" where
  "manifest_hash sha256 body = map_err AuctionHash (canonicalSha256 sha256 (body_json body))"

definition seal_manifest :: "ManifestBody \<Rightarrow> string \<Rightarrow> DecisionManifest" where
  "seal_manifest body hash = ManifestBody.extend body (DecisionManifest.fields hash)"

record auction_input =
  ai_tender :: FreightTender
  ai_commitments :: "json list"
  ai_fullBids :: "submitted_entry list"
  ai_acceptanceReceipts :: "submitted_entry list"
  ai_registry :: carrier_registry
  ai_routeGuardPublicKey :: string
  ai_evaluationTimestamp :: string
  ai_barrierSequence :: int
  ai_reconciliationReference :: string

definition evaluate_reconciled ::
  "hash_fn \<Rightarrow> ecdsa_fn \<Rightarrow> auction_input \<Rightarrow> ValidatedReconciliationSet \<Rightarrow> auction_error + EligibilityResult list" where
  "evaluate_reconciled sha256 ecdsa i v =
     evaluateAllCommitments sha256 ecdsa (ai_tender i) (map commitment_json (vr_commitments v)) (vr_fullBids v)
       (vr_acceptanceReceipts v) (ai_registry i) (ai_routeGuardPublicKey i) (ai_evaluationTimestamp i)"

definition buildDecisionManifest :: "hash_fn \<Rightarrow> ecdsa_fn \<Rightarrow> auction_input \<Rightarrow> auction_error + DecisionManifest" where
  "buildDecisionManifest sha256 ecdsa i =
     (if \<not> isUtcIsoTimestamp (ai_evaluationTimestamp i) then Inl InvalidEvaluationTimestamp
      else bind_res (validateReconciliationInputs (ai_commitments i) (ai_fullBids i) (ai_acceptanceReceipts i)) (\<lambda>v.
        bind_res (evaluate_reconciled sha256 ecdsa i v) (\<lambda>results.
        bind_res (reconstructExpectedManifestBody sha256 (ai_tender i) results (ai_evaluationTimestamp i)
            (ai_barrierSequence i) (ai_reconciliationReference i)) (\<lambda>body.
        bind_res (manifest_hash sha256 body) (\<lambda>hash. Inr (seal_manifest body hash))))))"

subsection \<open>Verification\<close>

definition say_if :: "bool \<Rightarrow> string \<Rightarrow> string list" where
  "say_if b s = (if b then [s] else [])"

definition header_errors :: "DecisionManifest \<Rightarrow> ManifestBody \<Rightarrow> string list" where
  "header_errors m e =
     say_if (dm_tenderId m \<noteq> dm_tenderId e) ''tenderId mismatch vs authoritative evaluation''
     @ say_if (dm_tenderVersion m \<noteq> dm_tenderVersion e) ''tenderVersion mismatch vs authoritative evaluation''
     @ say_if (dm_tenderHash m \<noteq> dm_tenderHash e) ''tenderHash mismatch vs authoritative evaluation''
     @ say_if (dm_rulesHash m \<noteq> dm_rulesHash e) ''rulesHash mismatch vs authoritative evaluation''
     @ say_if (dm_engineVersion m \<noteq> dm_engineVersion e) ''engineVersion mismatch''
     @ say_if (dm_selectionPolicy m \<noteq> dm_selectionPolicy e) ''selectionPolicy mismatch''
     @ say_if (dm_evaluationTimestamp m \<noteq> dm_evaluationTimestamp e)
         ''evaluationTimestamp mismatch vs authoritative evaluation''
     @ say_if (dm_barrierSequence m \<noteq> dm_barrierSequence e) ''barrierSequence mismatch vs authoritative evaluation''
     @ say_if (dm_reconciliationReference m \<noteq> dm_reconciliationReference e)
         ''reconciliationReference mismatch vs authoritative evaluation''
     @ say_if (dm_evaluatedBidSetHash m \<noteq> dm_evaluatedBidSetHash e)
         ''evaluatedBidSetHash mismatch vs authoritative evaluation''
     @ say_if (dm_winningBidId m \<noteq> dm_winningBidId e) ''winningBidId mismatch vs authoritative ranking''
     @ say_if (dm_winningBidHash m \<noteq> dm_winningBidHash e) ''winningBidHash mismatch vs authoritative ranking''"

definition count_errors :: "ManifestEntry list \<Rightarrow> ManifestEntry list \<Rightarrow> string list" where
  "count_errors actual expected =
     say_if (length actual \<noteq> length expected)
       (''entry count mismatch: manifest '' @ int_str (int (length actual)) @ '' vs expected '' @ int_str (int (length expected)))"

definition entry_errors :: "nat \<Rightarrow> ManifestEntry \<Rightarrow> ManifestEntry \<Rightarrow> string list" where
  "entry_errors i actual expected =
     (let at = ''entry['' @ int_str (int i) @ '']'' in
      say_if (me_bidId actual \<noteq> me_bidId expected) (at @ ''.bidId mismatch'')
      @ say_if (me_carrierId actual \<noteq> me_carrierId expected) (at @ ''.carrierId mismatch'')
      @ say_if (me_hcsSequence actual \<noteq> me_hcsSequence expected) (at @ ''.hcsSequence mismatch'')
      @ say_if (me_consensusTimestamp actual \<noteq> me_consensusTimestamp expected) (at @ ''.consensusTimestamp mismatch'')
      @ say_if (me_decision actual \<noteq> me_decision expected) (at @ ''.decision mismatch'')
      @ say_if (me_reasonCodes actual \<noteq> me_reasonCodes expected) (at @ ''.reasonCodes mismatch''))"

text \<open>The loop over the longer of the two lists.\<close>

fun entries_loop :: "nat \<Rightarrow> ManifestEntry list \<Rightarrow> ManifestEntry list \<Rightarrow> string list" where
  "entries_loop i [] [] = []"
| "entries_loop i (a # as) (e # es) = entry_errors i a e @ entries_loop (Suc i) as es"
| "entries_loop i [] (e # es) = (''missing entry at ordered index '' @ int_str (int i)) # entries_loop (Suc i) [] es"
| "entries_loop i (a # as) [] = (''missing entry at ordered index '' @ int_str (int i)) # entries_loop (Suc i) as []"

primrec duplicate_loop :: "ManifestEntry list \<Rightarrow> string list \<Rightarrow> int list \<Rightarrow> string list" where
  "duplicate_loop [] bidIds sequences = []"
| "duplicate_loop (e # es) bidIds sequences =
     say_if (List.member bidIds (me_bidId e)) (''duplicate manifest bidId '' @ me_bidId e)
     @ say_if (List.member sequences (me_hcsSequence e)) (''duplicate manifest hcsSequence '' @ int_str (me_hcsSequence e))
     @ duplicate_loop es (me_bidId e # bidIds) (me_hcsSequence e # sequences)"

definition winner_errors :: "EligibilityResult list \<Rightarrow> ManifestBody \<Rightarrow> string list" where
  "winner_errors results expected =
     (let qualified = filter isRankable results in
      if dm_winningBidId expected = None
      then say_if (length qualified \<noteq> 0) ''authoritative evaluation has qualified bids but null winner''
      else say_if (length qualified < 1) ''authoritative winner present but zero rankable entries'')"

definition verifyDecisionManifestIntegrity ::
  "hash_fn \<Rightarrow> FreightTender \<Rightarrow> EligibilityResult list \<Rightarrow> string option \<Rightarrow> int option \<Rightarrow> string option \<Rightarrow> DecisionManifest
     \<Rightarrow> auction_error + bool \<times> string list" where
  "verifyDecisionManifestIntegrity sha256 tender results evaluationTimestamp barrierSequence reconciliationReference manifest =
     (let given = (\<lambda>x fallback. case x of Some s \<Rightarrow> if s = [] then fallback else s | None \<Rightarrow> fallback);
          ts = given evaluationTimestamp (dm_evaluationTimestamp manifest);
          barrier = (case barrierSequence of Some n \<Rightarrow> n | None \<Rightarrow> dm_barrierSequence manifest);
          ref = given reconciliationReference (dm_reconciliationReference manifest) in
      bind_res (reconstructExpectedManifestBody sha256 tender results ts barrier ref) (\<lambda>expected.
      bind_res (manifest_hash sha256 expected) (\<lambda>expectedHash.
      bind_res (manifest_hash sha256 (ManifestBody.truncate manifest)) (\<lambda>suppliedSelfHash.
        let errors = header_errors manifest expected
              @ count_errors (dm_commitments manifest) (dm_commitments expected)
              @ entries_loop 0 (dm_commitments manifest) (dm_commitments expected)
              @ duplicate_loop (dm_commitments manifest) [] []
              @ winner_errors results expected
              @ say_if (dm_decisionManifestHash manifest \<noteq> expectedHash)
                  ''decisionManifestHash mismatch vs independently reconstructed expected manifest''
              @ say_if (dm_decisionManifestHash manifest = suppliedSelfHash \<and> suppliedSelfHash \<noteq> expectedHash)
                  ''manifest is self-consistent but does not match authoritative evaluation''
        in Inr (errors = [], errors)))))"

definition assertManifestIntegrity ::
  "hash_fn \<Rightarrow> DecisionManifest \<Rightarrow> FreightTender \<Rightarrow> EligibilityResult list \<Rightarrow> string option \<Rightarrow> int option \<Rightarrow> string option
     \<Rightarrow> auction_error + unit" where
  "assertManifestIntegrity sha256 manifest tender results evaluationTimestamp barrierSequence reconciliationReference =
     bind_res (verifyDecisionManifestIntegrity sha256 tender results
         (Some (case evaluationTimestamp of Some t \<Rightarrow> t | None \<Rightarrow> dm_evaluationTimestamp manifest))
         (Some (case barrierSequence of Some n \<Rightarrow> n | None \<Rightarrow> dm_barrierSequence manifest))
         (Some (case reconciliationReference of Some s \<Rightarrow> s | None \<Rightarrow> dm_reconciliationReference manifest)) manifest)
       (\<lambda>(ok, errors). if \<not> ok then Inl (ReconciliationError MANIFEST_INTEGRITY_FAILURE) else Inr ())"

subsection \<open>The hashes exist\<close>

lemma strings_have_text [simp]: "has_text (strings_json ss)"
proof -
  have "strings_json ss = JArr (map Some (map JStr ss))" by (simp add: strings_json_def)
  then show ?thesis by (simp only: has_text_JArr) (simp add: list_all_iff)
qed

lemma null_or_text [simp]: "(\<And>y. x = Some y \<Longrightarrow> has_text (f y)) \<Longrightarrow> has_text (null_or f x)"
  by (cases x) (simp_all add: null_or_def)

lemma manifest_docs_text [simp]:
  "has_text (result_json t r)" "has_text (entry_json e)" "has_text LOWEST_QUALIFIED_PRICE_V1_RULES"
  by (simp_all add: result_json_def entry_json_def LOWEST_QUALIFIED_PRICE_V1_RULES_def has_text_JObj)

lemma body_has_text [simp]: "has_text (body_json b)"
proof -
  have "has_text (JArr (map Some (map entry_json (dm_commitments b))))"
    unfolding has_text_JArr by (simp add: list_all_iff)
  then show ?thesis by (simp add: body_json_def has_text_JObj comp_def)
qed

lemma manifest_hash_ok: "hex_digest h \<Longrightarrow> manifest_hash h b = Inr (''sha256:'' @ h (text_of (body_json b)))"
  by (simp add: manifest_hash_def digest_ok)

text \<open>Results of the evaluation: rankable or rejected, with a valid commitment if there is one.\<close>

definition result_ok :: "EligibilityResult \<Rightarrow> bool" where
  "result_ok r \<longleftrightarrow> rank_ready r \<and> (\<forall>c. el_commitment r = Some c \<longrightarrow> CommitmentEvidenceSchema c)"

lemma evaluated_commitment:
  assumes "evaluateCommitmentEligibility h ecdsa registry key evaluated tender commitment sb sr = Inr r"
  shows "el_commitment r = (case parseCommitmentEvidence commitment of Inl _ \<Rightarrow> None | Inr c \<Rightarrow> Some c)"
    and "parseCommitmentEvidence commitment = Inr c \<Longrightarrow> el_bidId r = ce_bidId c \<and> el_hcsSequence r = ce_hcsSequence c"
proof -
  have "el_commitment r = (case parseCommitmentEvidence commitment of Inl _ \<Rightarrow> None | Inr c \<Rightarrow> Some c)
    \<and> (\<forall>c. parseCommitmentEvidence commitment = Inr c \<longrightarrow> el_bidId r = ce_bidId c \<and> el_hcsSequence r = ce_hcsSequence c)"
  proof (cases "parseCommitmentEvidence commitment")
    case (Inl e)
    then show ?thesis
      using assms by (auto simp: evaluateCommitmentEligibility_def res_simps Let_def empty_result_def)
  next
    case (Inr c)
    then show ?thesis
      using assms
      by (auto simp: evaluateCommitmentEligibility_def res_simps Let_def split: if_splits sum.splits elim!: judge_bid_Inr)
  qed
  then show "el_commitment r = (case parseCommitmentEvidence commitment of Inl _ \<Rightarrow> None | Inr c \<Rightarrow> Some c)"
    and "parseCommitmentEvidence commitment = Inr c \<Longrightarrow> el_bidId r = ce_bidId c \<and> el_hcsSequence r = ce_hcsSequence c"
    by blast+
qed

lemma evaluated_ok:
  assumes "evaluateCommitmentEligibility h ecdsa registry key evaluated tender commitment sb sr = Inr r"
  shows "result_ok r"
  using evaluated_rank_ready [OF assms] evaluated_commitment(1) [OF assms]
  by (auto simp: result_ok_def dest: parseCommitment_sound split: sum.splits)

lemma all_evaluated_ok:
  assumes "evaluateAllCommitments h ecdsa tender cs bids receipts registry key evaluated = Inr results"
  shows "list_all result_ok results"
proof -
  obtain rs where "map_res (\<lambda>commitment.
         evaluateCommitmentEligibility h ecdsa registry key evaluated tender commitment
           (case commitment_bid_id commitment of None \<Rightarrow> None | Some bidId \<Rightarrow> map_of bids bidId)
           (case commitment_bid_id commitment of None \<Rightarrow> None | Some bidId \<Rightarrow> map_of receipts bidId)) cs = Inr rs"
    and r: "results = sort_key sequence_key rs"
    using assms by (auto simp: evaluateAllCommitments_def res_simps)
  then have "list_all result_ok rs" using evaluated_ok by (blast intro: map_res_sound)
  then show ?thesis by (simp add: r list_all_iff)
qed

lemma bid_set_hash_ok:
  assumes "hex_digest h" "isUtcIsoTimestamp (ft_auctionEndsAt tender)" "list_all result_ok results"
  shows "is_ok (computeEvaluatedBidSetHash h tender results)"
proof -
  have "is_ok (evaluated_entry tender r)" if "r \<in> set results" for r
    using that assms(2,3)
    by (auto simp: evaluated_entry_def list_all_iff result_ok_def CommitmentEvidenceSchema_def timely_iff [THEN iffD2]
        split: option.splits)
  then have "\<exists>x. evaluated_entry tender r = Inr x" if "r \<in> set results" for r using that by (simp add: is_ok_iff)
  then have "map_res (evaluated_entry tender) (sort_key sequence_key results)
      = Inr (map (\<lambda>r. projr (evaluated_entry tender r)) (sort_key sequence_key results))"
    by (intro map_res_pure) fastforce
  moreover have "has_text (projr (evaluated_entry tender r))" if "r \<in> set results" for r
    using \<open>\<And>r. r \<in> set results \<Longrightarrow> is_ok (evaluated_entry tender r)\<close> [OF that]
    by (auto simp: evaluated_entry_def is_ok_iff res_simps)
  then have "has_text (JArr (map Some (map (\<lambda>r. projr (evaluated_entry tender r)) (sort_key sequence_key results))))"
    unfolding has_text_JArr by (simp add: list_all_iff)
  ultimately show ?thesis
    by (simp add: computeEvaluatedBidSetHash_def buildEvaluatedBidSetInput_def digest_ok [OF assms(1)] has_text_JObj comp_def)
qed

subsection \<open>Reconstruction\<close>

lemma ordered_ok: "list_all P results \<Longrightarrow> list_all P (sort_key k results)"
  by (simp add: list_all_iff)

lemma result_ok_ready: "list_all result_ok results \<Longrightarrow> list_all rank_ready results"
  by (auto simp: list_all_iff result_ok_def)

lemma reconstruct_ok:
  assumes "hex_digest h" "FreightTenderSchema tender" "list_all result_ok results"
  shows "is_ok (reconstructExpectedManifestBody h tender results ts barrier ref)"
proof -
  have "is_ok (computeEvaluatedBidSetHash h tender (sort_key sequence_key results))"
    using assms tender_times [OF assms(2)] by (intro bid_set_hash_ok ordered_ok) auto
  moreover have "is_ok (selectWinner (sort_key sequence_key results))"
    using winner_ok [OF ordered_ok [OF result_ok_ready [OF assms(3)]], of sequence_key] by simp
  moreover have "is_ok (tenderHash h tender)"
    using assms(1,2) by (simp add: tenderHash_def parseFreightTender_def digest_ok)
  ultimately show ?thesis
    using assms(1) by (auto simp: reconstructExpectedManifestBody_def Let_def is_ok_iff computeRulesHash_def digest_ok)
qed

text \<open>The body lists the results in sequence order and names the winner of the ranking.\<close>

lemma reconstructed_body:
  assumes "reconstructExpectedManifestBody h tender results ts barrier ref = Inr body"
  shows "dm_tenderId body = ft_tenderId tender" "dm_tenderVersion body = ft_version tender"
    "dm_evaluationTimestamp body = ts" "dm_barrierSequence body = barrier" "dm_reconciliationReference body = ref"
    "dm_commitments body = map manifest_entry (sort_key sequence_key results)"
    "\<exists>w. selectWinner (sort_key sequence_key results) = Inr w \<and> dm_winningBidId body = map_option rb_bidId w
       \<and> dm_winningBidHash body = map_option rb_bidHash w"
  using assms by (auto simp: reconstructExpectedManifestBody_def Let_def res_simps)

lemma reconstructed_winner:
  assumes "list_all result_ok results" "reconstructExpectedManifestBody h tender results ts barrier ref = Inr body"
  shows "dm_winningBidId body = None \<longleftrightarrow> filter isRankable results = []"
proof -
  note ready = ordered_ok [OF result_ok_ready [OF assms(1)], of sequence_key]
  let ?r = "ranked_list (sort_key sequence_key results)"
  have s: "sort_key rank_key ?r = [] \<longleftrightarrow> ?r = []" by (metis set_empty set_sort)
  have "dm_winningBidId body = None \<longleftrightarrow> ?r = []"
    using reconstructed_body(7) [OF assms(2)] s by (auto simp: winner_ok [OF ready] split: list.splits)
  also have "\<dots> \<longleftrightarrow> filter isRankable results = []"
    unfolding ranked_None_iff [OF ready] filter_empty_conv by simp
  finally show ?thesis .
qed

lemma winner_errors_Nil:
  assumes "list_all result_ok results" "reconstructExpectedManifestBody h tender results ts barrier ref = Inr body"
  shows "winner_errors results body = []"
  using reconstructed_winner [OF assms] by (auto simp: winner_errors_def say_if_def Let_def Suc_le_eq not_less)

subsection \<open>Verification compares every field\<close>

lemma say_if_Nil [simp]: "say_if b s = [] \<longleftrightarrow> \<not> b"
  by (simp add: say_if_def)

lemma entry_errors_Nil [simp]: "entry_errors i a e = [] \<longleftrightarrow> a = e"
  by (cases a; cases e) (auto simp: entry_errors_def Let_def)

lemma entries_loop_Nil [simp]: "entries_loop i as es = [] \<longleftrightarrow> as = es"
  by (induction i as es rule: entries_loop.induct) auto

lemma duplicate_loop_Nil:
  "duplicate_loop es ids seqs = [] \<longleftrightarrow>
     distinct (map me_bidId es) \<and> set (map me_bidId es) \<inter> set ids = {}
     \<and> distinct (map me_hcsSequence es) \<and> set (map me_hcsSequence es) \<inter> set seqs = {}"
  by (induction es arbitrary: ids seqs) auto

lemma body_eq_iff:
  "ManifestBody.truncate m = e \<longleftrightarrow> header_errors m e = [] \<and> dm_commitments m = dm_commitments e"
  by (cases m; cases e) (auto simp: header_errors_def ManifestBody.truncate_def)

lemma sealed_iff: "m = seal_manifest e hash \<longleftrightarrow> ManifestBody.truncate m = e \<and> dm_decisionManifestHash m = hash"
  by (cases m; cases e)
    (auto simp: seal_manifest_def ManifestBody.truncate_def ManifestBody.extend_def DecisionManifest.fields_def)

lemma verify_iff:
  assumes "hex_digest h" "list_all result_ok results"
    and "reconstructExpectedManifestBody h tender results ts barrier ref = Inr body" "ts \<noteq> []" "ref \<noteq> []"
    and "manifest_hash h body = Inr hash"
  shows "\<exists>errors. verifyDecisionManifestIntegrity h tender results (Some ts) (Some barrier) (Some ref) m
      = Inr (errors = [], errors)
    \<and> (errors = [] \<longleftrightarrow> m = seal_manifest body hash \<and> distinct (map me_bidId (dm_commitments m))
         \<and> distinct (map me_hcsSequence (dm_commitments m)))"
proof -
  obtain self where self: "manifest_hash h (ManifestBody.truncate m) = Inr self"
    using manifest_hash_ok [OF assms(1)] by blast
  have "self = hash" if "ManifestBody.truncate m = body" using that self assms(6) by simp
  then show ?thesis
    using assms(3-6) self winner_errors_Nil [OF assms(2,3)]
    by (auto simp: verifyDecisionManifestIntegrity_def Let_def sealed_iff body_eq_iff duplicate_loop_Nil count_errors_def)
qed

text \<open>
  C31. A manifest passes verification exactly when it is the reconstruction.
  Against the results of an evaluation the verification always returns; it reports no
  error if and only if the manifest is, field by field and entry by entry, the body
  rebuilt from the evaluation with the hash of that body, and no bid id or sequence
  occurs twice in it.\<close>

theorem manifest_verified_iff:
  assumes "hex_digest h" "FreightTenderSchema tender"
    and "evaluateAllCommitments h ecdsa tender cs bids receipts registry key evaluated = Inr results"
    and "ts \<noteq> []" "ref \<noteq> []"
  shows "\<exists>body hash errors. reconstructExpectedManifestBody h tender results ts barrier ref = Inr body
    \<and> manifest_hash h body = Inr hash
    \<and> verifyDecisionManifestIntegrity h tender results (Some ts) (Some barrier) (Some ref) m = Inr (errors = [], errors)
    \<and> (errors = [] \<longleftrightarrow> m = seal_manifest body hash \<and> distinct (map me_bidId (dm_commitments m))
         \<and> distinct (map me_hcsSequence (dm_commitments m)))"
proof -
  note ok = all_evaluated_ok [OF assms(3)]
  obtain body where b: "reconstructExpectedManifestBody h tender results ts barrier ref = Inr body"
    using reconstruct_ok [OF assms(1,2) ok] by (meson is_ok_iff)
  show ?thesis
    using b manifest_hash_ok [OF assms(1)] verify_iff [OF assms(1) ok b assms(4,5) manifest_hash_ok [OF assms(1)], of m]
    by blast
qed

lemma manifest_verified_iff_witness:
  "\<exists>results body hash. demo_auction = Inr results
    \<and> reconstructExpectedManifestBody demo_digest demo_tender results demo_evaluation 9 ''ref'' = Inr body
    \<and> manifest_hash demo_digest body = Inr hash
    \<and> (\<exists>errors. errors \<noteq> [] \<and> verifyDecisionManifestIntegrity demo_digest demo_tender results
         (Some demo_evaluation) (Some 9) (Some ''ref'') (seal_manifest (body \<lparr> dm_winningBidId := None \<rparr>) hash)
         = Inr (False, errors))"
proof -
  obtain results where d: "demo_auction = Inr results" and "\<exists>r\<in>set results. isRankable r"
    using demo_auction_runs by blast
  then have q: "filter isRankable results \<noteq> []" by (auto simp: filter_empty_conv)
  note e = d [unfolded demo_auction_def]
  have n: "demo_evaluation \<noteq> []" "''ref'' \<noteq> []" by (simp_all add: demo_evaluation_def)
  note x = manifest_verified_iff [OF demo_digest_hex demo_tender_ok e n, of 9]
  obtain body hash where b: "reconstructExpectedManifestBody demo_digest demo_tender results demo_evaluation 9 ''ref'' = Inr body"
    "manifest_hash demo_digest body = Inr hash" using x by blast
  have "dm_winningBidId body \<noteq> None" using reconstructed_winner [OF all_evaluated_ok [OF e] b(1)] q by blast
  then have "seal_manifest (body \<lparr> dm_winningBidId := None \<rparr>) hash \<noteq> seal_manifest body hash"
    by (metis ManifestBody.select_convs(11) ManifestBody.surjective ManifestBody.update_convs(11) sealed_iff)
  then show ?thesis
    using x [of "seal_manifest (body \<lparr> dm_winningBidId := None \<rparr>) hash"] d b by fastforce
qed

subsection \<open>What is built verifies\<close>

lemma map_res_keys:
  "map_res f xs = Inr ys \<Longrightarrow> (\<And>x y. x \<in> set xs \<Longrightarrow> f x = Inr y \<Longrightarrow> g y = k x) \<Longrightarrow> map g ys = map k xs"
  by (induction xs arbitrary: ys) (auto simp: res_simps)

lemma evaluated_ids:
  assumes "evaluateAllCommitments h ecdsa tender (map commitment_json cs) bids receipts registry key evaluated = Inr results"
    and "list_all CommitmentEvidenceSchema cs"
  shows "mset (map el_bidId results) = mset (map ce_bidId cs)"
    and "mset (map el_hcsSequence results) = mset (map ce_hcsSequence cs)"
proof -
  obtain rs where m: "map_res (\<lambda>commitment.
         evaluateCommitmentEligibility h ecdsa registry key evaluated tender commitment
           (case commitment_bid_id commitment of None \<Rightarrow> None | Some bidId \<Rightarrow> map_of bids bidId)
           (case commitment_bid_id commitment of None \<Rightarrow> None | Some bidId \<Rightarrow> map_of receipts bidId))
         (map commitment_json cs) = Inr rs"
    and r: "results = sort_key sequence_key rs"
    using assms(1) by (auto simp: evaluateAllCommitments_def res_simps)
  have "map el_bidId rs = map ce_bidId cs" "map el_hcsSequence rs = map ce_hcsSequence cs"
    by (rule map_res_keys [OF m [unfolded map_res_map]];
        use evaluated_commitment(2) assms(2) in \<open>fastforce simp: list_all_iff parseCommitment_json\<close>)+
  then show "mset (map el_bidId results) = mset (map ce_bidId cs)"
    and "mset (map el_hcsSequence results) = mset (map ce_hcsSequence cs)"
    by (metis mset_map mset_sort r)+
qed

lemma reconciled_commitments:
  assumes "validateReconciliationInputs raws bids receipts = Inr v"
  shows "list_all CommitmentEvidenceSchema (vr_commitments v)" "distinct (map ce_bidId (vr_commitments v))"
    "distinct (map ce_hcsSequence (vr_commitments v))"
proof -
  obtain cs where c: "map_res parseCommitmentEvidence raws = Inr cs" "distinct (map ce_hcsSequence cs)"
    "distinct (map ce_bidId cs)" and v: "vr_commitments v = sort_key commitment_key cs"
    using assms by (auto simp: reconciled_iff)
  have "list_all CommitmentEvidenceSchema cs" using c(1) parseCommitment_sound by (blast intro: map_res_sound)
  then show "list_all CommitmentEvidenceSchema (vr_commitments v)" by (simp add: v list_all_iff)
  have "mset (map f (vr_commitments v)) = mset (map f cs)" for f :: "CommitmentEvidence \<Rightarrow> 'z" by (simp add: v)
  then show "distinct (map ce_bidId (vr_commitments v))" "distinct (map ce_hcsSequence (vr_commitments v))"
    using c(2,3) by (metis mset_eq_imp_distinct_iff)+
qed

lemma evaluation_distinct:
  assumes "validateReconciliationInputs raws bids receipts = Inr v" "evaluate_reconciled h ecdsa i v = Inr results"
  shows "distinct (map el_bidId results)" "distinct (map el_hcsSequence results)"
    "mset (map el_hcsSequence results) = mset (map ce_hcsSequence (vr_commitments v))"
proof -
  note r = reconciled_commitments [OF assms(1)]
  note e = evaluated_ids [OF assms(2) [unfolded evaluate_reconciled_def] r(1)]
  show "distinct (map el_bidId results)" "distinct (map el_hcsSequence results)"
    "mset (map el_hcsSequence results) = mset (map ce_hcsSequence (vr_commitments v))"
    using e r(2,3) by (metis mset_eq_imp_distinct_iff)+
qed

lemma manifest_ids_distinct:
  assumes "distinct (map el_bidId results)" "distinct (map el_hcsSequence results)"
  shows "distinct (map me_bidId (map manifest_entry (sort_key sequence_key results)))"
    and "distinct (map me_hcsSequence (map manifest_entry (sort_key sequence_key results)))"
proof -
  have k: "map me_bidId (map manifest_entry xs) = map el_bidId xs"
    "map me_hcsSequence (map manifest_entry xs) = map el_hcsSequence xs" for xs
    by (simp_all add: manifest_entry_def)
  have "mset (map f (sort_key sequence_key results)) = mset (map f results)" for f :: "EligibilityResult \<Rightarrow> 'z" by simp
  then show "distinct (map me_bidId (map manifest_entry (sort_key sequence_key results)))"
    and "distinct (map me_hcsSequence (map manifest_entry (sort_key sequence_key results)))"
    unfolding k using assms by (metis mset_eq_imp_distinct_iff)+
qed

lemma built_manifest:
  assumes "buildDecisionManifest h ecdsa i = Inr m"
  obtains v results body hash where
    "validateReconciliationInputs (ai_commitments i) (ai_fullBids i) (ai_acceptanceReceipts i) = Inr v"
    "evaluate_reconciled h ecdsa i v = Inr results"
    "reconstructExpectedManifestBody h (ai_tender i) results (ai_evaluationTimestamp i) (ai_barrierSequence i)
       (ai_reconciliationReference i) = Inr body"
    "manifest_hash h body = Inr hash" "m = seal_manifest body hash" "isUtcIsoTimestamp (ai_evaluationTimestamp i)"
  using assms that by (auto simp: buildDecisionManifest_def res_simps)

lemma built_verifies:
  assumes "hex_digest h" "buildDecisionManifest h ecdsa i = Inr m" "ai_reconciliationReference i \<noteq> []"
    and "validateReconciliationInputs (ai_commitments i) (ai_fullBids i) (ai_acceptanceReceipts i) = Inr v"
    and "evaluate_reconciled h ecdsa i v = Inr results"
  shows "verifyDecisionManifestIntegrity h (ai_tender i) results (Some (ai_evaluationTimestamp i))
    (Some (ai_barrierSequence i)) (Some (ai_reconciliationReference i)) m = Inr (True, [])"
proof -
  obtain body hash where b: "reconstructExpectedManifestBody h (ai_tender i) results (ai_evaluationTimestamp i)
       (ai_barrierSequence i) (ai_reconciliationReference i) = Inr body"
    "manifest_hash h body = Inr hash" "m = seal_manifest body hash" "isUtcIsoTimestamp (ai_evaluationTimestamp i)"
    using assms(4,5) by (rule_tac built_manifest [OF assms(2)]) auto
  have "\<not> isUtcIsoTimestamp []" by code_simp
  then have t: "ai_evaluationTimestamp i \<noteq> []" using b(4) by auto
  have "ManifestBody.truncate m = body" using b(3) sealed_iff by blast
  then have "dm_commitments m = map manifest_entry (sort_key sequence_key results)"
    using reconstructed_body(6) [OF b(1)] by (auto simp: ManifestBody.truncate_def)
  then have "distinct (map me_bidId (dm_commitments m))" "distinct (map me_hcsSequence (dm_commitments m))"
    using manifest_ids_distinct [OF evaluation_distinct(1,2) [OF assms(4,5)]] by simp_all
  then show ?thesis
    using verify_iff [OF assms(1) all_evaluated_ok [OF assms(5) [unfolded evaluate_reconciled_def]] b(1) t assms(3) b(2), of m] b(3)
    by auto
qed

text \<open>
  Building and verifying agree: the manifest that \<open>buildDecisionManifest\<close>
  returns passes \<open>verifyDecisionManifestIntegrity\<close> with no error against the
  independent evaluation of the same evidence.\<close>

theorem built_manifest_verifies:
  assumes "hex_digest h" "buildDecisionManifest h ecdsa i = Inr m" "ai_reconciliationReference i \<noteq> []"
  shows "\<exists>v results.
      validateReconciliationInputs (ai_commitments i) (ai_fullBids i) (ai_acceptanceReceipts i) = Inr v
    \<and> evaluate_reconciled h ecdsa i v = Inr results
    \<and> verifyDecisionManifestIntegrity h (ai_tender i) results (Some (ai_evaluationTimestamp i))
        (Some (ai_barrierSequence i)) (Some (ai_reconciliationReference i)) m = Inr (True, [])"
  by (rule built_manifest [OF assms(2)]) (use built_verifies [OF assms] in blast)

definition demo_entry :: "string \<Rightarrow> nat \<Rightarrow> json \<Rightarrow> submitted_entry" where
  "demo_entry i ref v = \<lparr> se_key = i, se_ref = ref, se_value = v \<rparr>"

definition demo_input :: auction_input where
  "demo_input = \<lparr> ai_tender = demo_tender,
     ai_commitments = map commitment_json [demo_commitment ''A'' 1, demo_commitment ''B'' 2],
     ai_fullBids = [demo_entry ''A'' 0 (demo_bid_json ''A'' 100000), demo_entry ''B'' 1 (demo_bid_json ''B'' 90000)],
     ai_acceptanceReceipts = [demo_entry ''A'' 2 (demo_receipt_json ''A''), demo_entry ''B'' 3 (demo_receipt_json ''B'')],
     ai_registry = demo_registry, ai_routeGuardPublicKey = ''key'', ai_evaluationTimestamp = demo_evaluation,
     ai_barrierSequence = 3, ai_reconciliationReference = ''ref'' \<rparr>"

definition demo_reconciled :: ValidatedReconciliationSet where
  "demo_reconciled = \<lparr> vr_commitments = [demo_commitment ''A'' 1, demo_commitment ''B'' 2],
     vr_fullBids = [(''A'', demo_bid_json ''A'' 100000), (''B'', demo_bid_json ''B'' 90000)],
     vr_acceptanceReceipts = [(''A'', demo_receipt_json ''A''), (''B'', demo_receipt_json ''B'')] \<rparr>"

lemma demo_reconciles:
  "validateReconciliationInputs (ai_commitments demo_input) (ai_fullBids demo_input) (ai_acceptanceReceipts demo_input)
     = Inr demo_reconciled"
proof -
  have "map_res parseCommitmentEvidence (ai_commitments demo_input) = Inr [demo_commitment ''A'' 1, demo_commitment ''B'' 2]"
    using demo_commitment_ok [of "''A''" 1] demo_commitment_ok [of "''B''" 2]
    by (simp add: demo_input_def parseCommitment_json)
  moreover have "entry_ok ''bid'' (demo_entry i k (demo_bid_json i n))" "entry_ok ''receipt'' (demo_entry i k (demo_receipt_json i))"
    for i k n
    by (simp_all add: entry_ok_def demo_entry_def signed_json_def get_prop_def bid_json_def demo_bid_def receipt_body_json_def
        demo_receipt_def)
  moreover have "map ce_hcsSequence [demo_commitment ''A'' 1, demo_commitment ''B'' 2] = [1, 2]"
    "map ce_bidId [demo_commitment ''A'' 1, demo_commitment ''B'' 2] = [''A'', ''B'']"
    "sort_key commitment_key [demo_commitment ''A'' 1, demo_commitment ''B'' 2] = [demo_commitment ''A'' 1, demo_commitment ''B'' 2]"
    by (simp_all add: demo_commitment_def commitment_key_def less_eq_prod_def)
  ultimately show ?thesis
    unfolding reconciled_iff by (simp add: demo_input_def demo_reconciled_def) (simp add: demo_entry_def)
qed

lemma demo_evaluates: "evaluate_reconciled demo_digest demo_ecdsa demo_input demo_reconciled = demo_auction"
  by (simp add: evaluate_reconciled_def demo_input_def demo_reconciled_def demo_auction_def)

lemma demo_builds: "\<exists>m. buildDecisionManifest demo_digest demo_ecdsa demo_input = Inr m"
proof -
  obtain results where d: "demo_auction = Inr results" using demo_auction_runs by blast
  obtain body where "reconstructExpectedManifestBody demo_digest demo_tender results demo_evaluation 3 ''ref'' = Inr body"
    using reconstruct_ok [OF demo_digest_hex demo_tender_ok all_evaluated_ok [OF d [unfolded demo_auction_def]]]
    by (meson is_ok_iff)
  moreover have "evaluate_reconciled demo_digest demo_ecdsa demo_input demo_reconciled = Inr results"
    using demo_evaluates d by simp
  moreover have "ai_tender demo_input = demo_tender" "ai_evaluationTimestamp demo_input = demo_evaluation"
    "ai_barrierSequence demo_input = 3" "ai_reconciliationReference demo_input = ''ref''"
    by (simp_all add: demo_input_def)
  ultimately show ?thesis
    by (simp add: buildDecisionManifest_def demo_reconciles demo_times manifest_hash_ok [OF demo_digest_hex])
qed

lemma built_manifest_verifies_witness:
  "\<exists>m results. buildDecisionManifest demo_digest demo_ecdsa demo_input = Inr m
    \<and> verifyDecisionManifestIntegrity demo_digest demo_tender results (Some demo_evaluation) (Some 3) (Some ''ref'') m
      = Inr (True, [])"
proof -
  obtain m where m: "buildDecisionManifest demo_digest demo_ecdsa demo_input = Inr m" using demo_builds by blast
  have "ai_reconciliationReference demo_input \<noteq> []" by (simp add: demo_input_def)
  then show ?thesis using built_manifest_verifies [OF demo_digest_hex m] m by (auto simp: demo_input_def)
qed

end
