(* ===== verification/Auction_Closure.thy ===== *)
theory Auction_Closure
  imports Auction_Manifest
begin

text \<open>
  Closing an auction, \<^verbatim>\<open>src/auction/closure-proof.ts\<close> and \<^verbatim>\<open>src/auction/state-machine.ts\<close>.

  A closure proof is a frozen object that only the factory registers in its
  private \<open>WeakSet\<close>.  The set is the list \<open>verified\<close> of the registered objects, and
  \<open>acp_ref\<close> is the identity of an object: a copy has another one.  The factory
  takes the next identity.  What \<open>Object.freeze\<close> leaves mutable, the result objects
  inside the frozen array, is not modelled.
\<close>

record closure_input = auction_input +
  ci_auctionEndsAt :: string
  ci_closeBarrierConsensusTimestamp :: string
  ci_reconciledStartSequence :: int
  ci_reconciledEndSequence :: int
  ci_observedSequences :: "int list"
  ci_now :: string

record AuctionClosureProof =
  acp_ref :: nat
  acp_tenderId :: string
  acp_tenderVersion :: int
  acp_auctionEndsAt :: string
  acp_closeBarrierSequence :: int
  acp_closeBarrierConsensusTimestamp :: string
  acp_reconciledStartSequence :: int
  acp_reconciledEndSequence :: int
  acp_observedSequences :: "int list"
  acp_completeness :: bool
  acp_evaluationTimestamp :: string
  acp_reconciliationReference :: string
  acp_manifest :: DecisionManifest
  acp_results :: "EligibilityResult list"

definition isVerifiedAuctionClosureProof :: "AuctionClosureProof list \<Rightarrow> AuctionClosureProof \<Rightarrow> bool" where
  "isVerifiedAuctionClosureProof verified p \<longleftrightarrow> List.member verified p"

definition closure_guard :: "bool \<Rightarrow> auction_error + unit" where
  "closure_guard ok = guard_res ok (ReconciliationError INVALID_CLOSURE_PROOF)"

definition reached :: "string \<Rightarrow> string \<Rightarrow> auction_error + unit" where
  "reached a b = bind_res (map_err AuctionTime (isBeforeOrEqualUtc a b)) closure_guard"

definition closure_checks :: "closure_input \<Rightarrow> auction_error + unit" where
  "closure_checks i =
     bind_res (guard_res (1 \<le> length (ai_reconciliationReference i) \<and> 1 \<le> length (ai_routeGuardPublicKey i)) SchemaInvalid) (\<lambda>_.
     bind_res (closure_guard (isUtcIsoTimestamp (ci_auctionEndsAt i))) (\<lambda>_.
     bind_res (closure_guard (ci_auctionEndsAt i = ft_auctionEndsAt (ai_tender i))) (\<lambda>_.
     bind_res (closure_guard (isUtcIsoTimestamp (ci_closeBarrierConsensusTimestamp i))) (\<lambda>_.
     bind_res (closure_guard (isUtcIsoTimestamp (ai_evaluationTimestamp i))) (\<lambda>_.
     bind_res (closure_guard (isUtcIsoTimestamp (ci_now i))) (\<lambda>_.
     bind_res (closure_guard (list_all isSafePositiveInteger
         (ai_barrierSequence i # ci_reconciledStartSequence i # ci_reconciledEndSequence i # ci_observedSequences i))) (\<lambda>_.
     bind_res (reached (ci_auctionEndsAt i) (ci_now i)) (\<lambda>_.
       reached (ci_auctionEndsAt i) (ci_closeBarrierConsensusTimestamp i)))))))))"

definition createAuctionClosureProof ::
  "hash_fn \<Rightarrow> ecdsa_fn \<Rightarrow> closure_input \<Rightarrow> AuctionClosureProof list
     \<Rightarrow> auction_error + AuctionClosureProof \<times> AuctionClosureProof list" where
  "createAuctionClosureProof sha256 ecdsa i verified =
     bind_res (closure_checks i) (\<lambda>_.
     let tender = ai_tender i;
         completeness = isSequenceRangeComplete (ci_reconciledStartSequence i) (ci_reconciledEndSequence i)
           (ci_observedSequences i) in
     bind_res (validateReconciliationInputs (ai_commitments i) (ai_fullBids i) (ai_acceptanceReceipts i)) (\<lambda>reconciled.
     bind_res (guard_res (list_all (\<lambda>c. List.member (ci_observedSequences i) (ce_hcsSequence c)) (vr_commitments reconciled))
         (ReconciliationError INCOMPLETE_SEQUENCE_RANGE)) (\<lambda>_.
     bind_res (evaluate_reconciled sha256 ecdsa (auction_input.truncate i) reconciled) (\<lambda>results.
     bind_res (buildDecisionManifest sha256 ecdsa (auction_input.truncate i)) (\<lambda>manifest.
     bind_res (closure_guard (dm_tenderId manifest = ft_tenderId tender \<and> dm_tenderVersion manifest = ft_version tender)) (\<lambda>_.
     bind_res (assertManifestIntegrity sha256 manifest tender results (Some (ai_evaluationTimestamp i))
         (Some (ai_barrierSequence i)) (Some (ai_reconciliationReference i))) (\<lambda>_.
     bind_res (closure_guard (list_all (\<lambda>c. ce_tenderId c = ft_tenderId tender) (vr_commitments reconciled))) (\<lambda>_.
       let proof = \<lparr> acp_ref = length verified, acp_tenderId = ft_tenderId tender, acp_tenderVersion = ft_version tender,
             acp_auctionEndsAt = ci_auctionEndsAt i, acp_closeBarrierSequence = ai_barrierSequence i,
             acp_closeBarrierConsensusTimestamp = ci_closeBarrierConsensusTimestamp i,
             acp_reconciledStartSequence = ci_reconciledStartSequence i,
             acp_reconciledEndSequence = ci_reconciledEndSequence i,
             acp_observedSequences = ci_observedSequences i, acp_completeness = completeness,
             acp_evaluationTimestamp = ai_evaluationTimestamp i,
             acp_reconciliationReference = ai_reconciliationReference i,
             acp_manifest = manifest, acp_results = results \<rparr>
       in Inr (proof, proof # verified)))))))))"

definition reverifyAuctionClosureProofFromSource ::
  "hash_fn \<Rightarrow> ecdsa_fn \<Rightarrow> closure_input \<Rightarrow> AuctionClosureProof list
     \<Rightarrow> auction_error + AuctionClosureProof \<times> AuctionClosureProof list" where
  "reverifyAuctionClosureProofFromSource sha256 ecdsa i verified = createAuctionClosureProof sha256 ecdsa i verified"

subsection \<open>The state machine\<close>

datatype AuctionState =
    DRAFT | OPEN | BIDDING | AUCTION_RECONCILIATION_PENDING | AUCTION_CLOSED
  | WINNER_SELECTED | NO_QUALIFIED_BID | INCOMPLETE_HCS_WINDOW

record AuctionMachineContext =
  am_state :: AuctionState
  am_auctionEndsAt :: string
  am_closureProof :: "AuctionClosureProof option"
  am_decisionManifest :: "DecisionManifest option"
  am_now :: string

datatype machine_error =
    IllegalAuctionTransition AuctionState AuctionState
  | MachineTimestamp
  | MachineTime time_error
  | MachineRanking auction_error

definition AUCTION_LEGAL :: "AuctionState \<Rightarrow> AuctionState list" where
  "AUCTION_LEGAL s = (case s of
     DRAFT \<Rightarrow> [OPEN] | OPEN \<Rightarrow> [BIDDING] | BIDDING \<Rightarrow> [AUCTION_RECONCILIATION_PENDING]
   | AUCTION_RECONCILIATION_PENDING \<Rightarrow> [AUCTION_CLOSED, INCOMPLETE_HCS_WINDOW]
   | AUCTION_CLOSED \<Rightarrow> [WINNER_SELECTED, NO_QUALIFIED_BID]
   | WINNER_SELECTED \<Rightarrow> [] | NO_QUALIFIED_BID \<Rightarrow> [] | INCOMPLETE_HCS_WINDOW \<Rightarrow> [])"

definition createAuctionMachine :: "string \<Rightarrow> machine_error + AuctionMachineContext" where
  "createAuctionMachine auctionEndsAt =
     (if \<not> isUtcIsoTimestamp auctionEndsAt then Inl MachineTimestamp
      else Inr \<lparr> am_state = DRAFT, am_auctionEndsAt = auctionEndsAt, am_closureProof = None,
                 am_decisionManifest = None, am_now = auctionEndsAt \<rparr>)"

definition assertLegal :: "AuctionState \<Rightarrow> AuctionState \<Rightarrow> machine_error + unit" where
  "assertLegal from to = guard_res (List.member (AUCTION_LEGAL from) to) (IllegalAuctionTransition from to)"

definition requireAuthenticProof ::
  "AuctionClosureProof list \<Rightarrow> AuctionState \<Rightarrow> AuctionState \<Rightarrow> AuctionClosureProof option
     \<Rightarrow> machine_error + AuctionClosureProof" where
  "requireAuthenticProof verified from to p =
     (case p of None \<Rightarrow> Inl (IllegalAuctionTransition from to)
      | Some q \<Rightarrow> if \<not> isVerifiedAuctionClosureProof verified q then Inl (IllegalAuctionTransition from to) else Inr q)"

definition transitionToOpen :: "AuctionMachineContext \<Rightarrow> machine_error + AuctionMachineContext" where
  "transitionToOpen ctx = bind_res (assertLegal (am_state ctx) OPEN) (\<lambda>_. Inr (ctx \<lparr> am_state := OPEN \<rparr>))"

definition transitionToBidding :: "AuctionMachineContext \<Rightarrow> machine_error + AuctionMachineContext" where
  "transitionToBidding ctx = bind_res (assertLegal (am_state ctx) BIDDING) (\<lambda>_. Inr (ctx \<lparr> am_state := BIDDING \<rparr>))"

definition transitionToReconciliation :: "AuctionMachineContext \<Rightarrow> string \<Rightarrow> machine_error + AuctionMachineContext" where
  "transitionToReconciliation ctx now =
     bind_res (assertLegal (am_state ctx) AUCTION_RECONCILIATION_PENDING) (\<lambda>_.
     bind_res (guard_res (isUtcIsoTimestamp now) MachineTimestamp) (\<lambda>_.
     bind_res (map_err MachineTime (isBeforeOrEqualUtc (am_auctionEndsAt ctx) now)) (\<lambda>due.
       if \<not> due then Inl (IllegalAuctionTransition (am_state ctx) AUCTION_RECONCILIATION_PENDING)
       else Inr (ctx \<lparr> am_state := AUCTION_RECONCILIATION_PENDING, am_now := now \<rparr>))))"

definition proof_range_complete :: "AuctionClosureProof \<Rightarrow> bool" where
  "proof_range_complete p =
     isSequenceRangeComplete (acp_reconciledStartSequence p) (acp_reconciledEndSequence p) (acp_observedSequences p)"

definition transitionToClosed ::
  "AuctionClosureProof list \<Rightarrow> AuctionMachineContext \<Rightarrow> AuctionClosureProof option
     \<Rightarrow> machine_error + AuctionMachineContext" where
  "transitionToClosed verified ctx proofInput =
     (let illegal = IllegalAuctionTransition (am_state ctx) AUCTION_CLOSED in
      bind_res (assertLegal (am_state ctx) AUCTION_CLOSED) (\<lambda>_.
      bind_res (requireAuthenticProof verified (am_state ctx) AUCTION_CLOSED proofInput) (\<lambda>p.
      bind_res (guard_res (proof_range_complete p) illegal) (\<lambda>_.
      bind_res (guard_res (acp_tenderId p = dm_tenderId (acp_manifest p)) illegal) (\<lambda>_.
      bind_res (guard_res (acp_tenderVersion p = dm_tenderVersion (acp_manifest p)) illegal) (\<lambda>_.
      bind_res (guard_res (acp_auctionEndsAt p = am_auctionEndsAt ctx) illegal) (\<lambda>_.
      bind_res (map_err MachineTime (isBeforeOrEqualUtc (am_auctionEndsAt ctx) (acp_evaluationTimestamp p))) (\<lambda>a.
      bind_res (guard_res a illegal) (\<lambda>_.
      bind_res (map_err MachineTime (isBeforeOrEqualUtc (am_auctionEndsAt ctx) (acp_closeBarrierConsensusTimestamp p))) (\<lambda>b.
      bind_res (guard_res b illegal) (\<lambda>_.
        Inr (ctx \<lparr> am_state := AUCTION_CLOSED, am_closureProof := Some p, am_decisionManifest := Some (acp_manifest p),
                   am_now := acp_evaluationTimestamp p \<rparr>))))))))))))"

definition transitionToIncompleteHcsWindow ::
  "AuctionClosureProof list \<Rightarrow> AuctionMachineContext \<Rightarrow> AuctionClosureProof option
     \<Rightarrow> machine_error + AuctionMachineContext" where
  "transitionToIncompleteHcsWindow verified ctx proofInput =
     bind_res (assertLegal (am_state ctx) INCOMPLETE_HCS_WINDOW) (\<lambda>_.
     bind_res (requireAuthenticProof verified (am_state ctx) INCOMPLETE_HCS_WINDOW proofInput) (\<lambda>p.
     bind_res (guard_res (\<not> proof_range_complete p) (IllegalAuctionTransition (am_state ctx) INCOMPLETE_HCS_WINDOW)) (\<lambda>_.
       Inr (ctx \<lparr> am_state := INCOMPLETE_HCS_WINDOW, am_closureProof := Some p,
                  am_decisionManifest := Some (acp_manifest p) \<rparr>))))"

definition transitionToWinnerSelected ::
  "AuctionClosureProof list \<Rightarrow> AuctionMachineContext \<Rightarrow> machine_error + AuctionMachineContext" where
  "transitionToWinnerSelected verified ctx =
     (let illegal = IllegalAuctionTransition (am_state ctx) WINNER_SELECTED in
      bind_res (assertLegal (am_state ctx) WINNER_SELECTED) (\<lambda>_.
      bind_res (requireAuthenticProof verified (am_state ctx) WINNER_SELECTED (am_closureProof ctx)) (\<lambda>p.
      bind_res (map_err MachineRanking (selectWinner (acp_results p))) (\<lambda>winner.
        case winner of
          None \<Rightarrow> Inl illegal
        | Some w \<Rightarrow>
            bind_res (guard_res (dm_winningBidId (acp_manifest p) = Some (rb_bidId w)) illegal) (\<lambda>_.
            bind_res (guard_res (dm_winningBidHash (acp_manifest p) = Some (rb_bidHash w)) illegal) (\<lambda>_.
            bind_res (guard_res (\<not> length (filter isRankable (acp_results p)) < 1) illegal) (\<lambda>_.
            bind_res (guard_res (list_ex (\<lambda>c. me_bidId c = rb_bidId w \<and> me_decision c = QUALIFIED)
                (dm_commitments (acp_manifest p))) illegal) (\<lambda>_.
              Inr (ctx \<lparr> am_state := WINNER_SELECTED, am_decisionManifest := Some (acp_manifest p) \<rparr>)))))))))"

definition transitionToNoQualifiedBid ::
  "AuctionClosureProof list \<Rightarrow> AuctionMachineContext \<Rightarrow> machine_error + AuctionMachineContext" where
  "transitionToNoQualifiedBid verified ctx =
     (let illegal = IllegalAuctionTransition (am_state ctx) NO_QUALIFIED_BID in
      bind_res (assertLegal (am_state ctx) NO_QUALIFIED_BID) (\<lambda>_.
      bind_res (requireAuthenticProof verified (am_state ctx) NO_QUALIFIED_BID (am_closureProof ctx)) (\<lambda>p.
      bind_res (map_err MachineRanking (selectWinner (acp_results p))) (\<lambda>winner.
      bind_res (guard_res (winner = None) illegal) (\<lambda>_.
      bind_res (guard_res (dm_winningBidId (acp_manifest p) = None \<and> dm_winningBidHash (acp_manifest p) = None) illegal) (\<lambda>_.
      bind_res (guard_res (length (filter isRankable (acp_results p)) = 0) illegal) (\<lambda>_.
        Inr (ctx \<lparr> am_state := NO_QUALIFIED_BID, am_decisionManifest := Some (acp_manifest p) \<rparr>))))))))"

definition transitionToClosedWithBooleans ::
  "AuctionMachineContext \<Rightarrow> bool \<Rightarrow> bool \<Rightarrow> machine_error + AuctionMachineContext" where
  "transitionToClosedWithBooleans ctx closeBarrierPresent reconciledRangeComplete =
     Inl (IllegalAuctionTransition (am_state ctx) AUCTION_CLOSED)"

definition isTerminalState :: "AuctionState \<Rightarrow> bool" where
  "isTerminalState s \<longleftrightarrow> s = WINNER_SELECTED \<or> s = NO_QUALIFIED_BID \<or> s = INCOMPLETE_HCS_WINDOW"

subsection \<open>What a proof certifies\<close>

text \<open>The proof is a function of source evidence that passed every check.\<close>

definition certifies :: "hash_fn \<Rightarrow> ecdsa_fn \<Rightarrow> closure_input \<Rightarrow> ValidatedReconciliationSet \<Rightarrow> AuctionClosureProof \<Rightarrow> bool" where
  "certifies h ecdsa i v p \<longleftrightarrow>
     closure_checks i = Inr ()
     \<and> validateReconciliationInputs (ai_commitments i) (ai_fullBids i) (ai_acceptanceReceipts i) = Inr v
     \<and> (\<forall>c\<in>set (vr_commitments v). ce_hcsSequence c \<in> set (acp_observedSequences p) \<and> ce_tenderId c = acp_tenderId p)
     \<and> evaluate_reconciled h ecdsa (auction_input.truncate i) v = Inr (acp_results p)
     \<and> buildDecisionManifest h ecdsa (auction_input.truncate i) = Inr (acp_manifest p)
     \<and> acp_tenderId p = ft_tenderId (ai_tender i) \<and> acp_tenderVersion p = ft_version (ai_tender i)
     \<and> acp_auctionEndsAt p = ft_auctionEndsAt (ai_tender i) \<and> acp_evaluationTimestamp p = ai_evaluationTimestamp i
     \<and> acp_closeBarrierConsensusTimestamp p = ci_closeBarrierConsensusTimestamp i
     \<and> acp_observedSequences p = ci_observedSequences i
     \<and> acp_reconciledStartSequence p = ci_reconciledStartSequence i \<and> acp_reconciledEndSequence p = ci_reconciledEndSequence i
     \<and> acp_completeness p = proof_range_complete p"

lemma truncate_fields [simp]:
  "ai_tender (auction_input.truncate i) = ai_tender i" "ai_commitments (auction_input.truncate i) = ai_commitments i"
  "ai_fullBids (auction_input.truncate i) = ai_fullBids i"
  "ai_acceptanceReceipts (auction_input.truncate i) = ai_acceptanceReceipts i"
  "ai_evaluationTimestamp (auction_input.truncate i) = ai_evaluationTimestamp i"
  "ai_barrierSequence (auction_input.truncate i) = ai_barrierSequence i"
  "ai_reconciliationReference (auction_input.truncate i) = ai_reconciliationReference i"
  by (simp_all add: auction_input.truncate_def)

lemma closure_guard_iff [res_simps]: "closure_guard ok = Inr u \<longleftrightarrow> ok"
  by (simp add: closure_guard_def guard_res_def)

lemma reached_iff [res_simps]:
  "reached a b = Inr u \<longleftrightarrow> isUtcIsoTimestamp a \<and> isUtcIsoTimestamp b \<and> instant a \<le> instant b"
  by (auto simp: reached_def res_simps isBeforeOrEqualUtc_Inr_iff)

lemma closure_checks_iff:
  "closure_checks i = Inr () \<longleftrightarrow>
     ai_reconciliationReference i \<noteq> [] \<and> ai_routeGuardPublicKey i \<noteq> []
     \<and> isUtcIsoTimestamp (ci_auctionEndsAt i) \<and> ci_auctionEndsAt i = ft_auctionEndsAt (ai_tender i)
     \<and> isUtcIsoTimestamp (ci_closeBarrierConsensusTimestamp i) \<and> isUtcIsoTimestamp (ai_evaluationTimestamp i)
     \<and> isUtcIsoTimestamp (ci_now i)
     \<and> list_all isSafePositiveInteger
         (ai_barrierSequence i # ci_reconciledStartSequence i # ci_reconciledEndSequence i # ci_observedSequences i)
     \<and> instant (ci_auctionEndsAt i) \<le> instant (ci_now i)
     \<and> instant (ci_auctionEndsAt i) \<le> instant (ci_closeBarrierConsensusTimestamp i)"
  by (auto simp: closure_checks_def res_simps Suc_le_eq)

lemma created_certifies:
  assumes "createAuctionClosureProof h ecdsa i verified = Inr (p, verified')"
  shows "verified' = p # verified \<and> (\<exists>v. certifies h ecdsa i v p)"
  using assms
  by (auto simp: createAuctionClosureProof_def res_simps Let_def certifies_def proof_range_complete_def list_all_iff
      closure_checks_iff)

lemma built_fields:
  assumes "buildDecisionManifest h ecdsa i = Inr m"
    and "validateReconciliationInputs (ai_commitments i) (ai_fullBids i) (ai_acceptanceReceipts i) = Inr v"
    and "evaluate_reconciled h ecdsa i v = Inr results"
  shows "dm_tenderId m = ft_tenderId (ai_tender i)" "dm_tenderVersion m = ft_version (ai_tender i)"
    "dm_commitments m = map manifest_entry (sort_key sequence_key results)"
    "\<exists>w. selectWinner (sort_key sequence_key results) = Inr w \<and> dm_winningBidId m = map_option rb_bidId w
       \<and> dm_winningBidHash m = map_option rb_bidHash w"
proof -
  obtain body hash where b: "reconstructExpectedManifestBody h (ai_tender i) results (ai_evaluationTimestamp i)
       (ai_barrierSequence i) (ai_reconciliationReference i) = Inr body" "m = seal_manifest body hash"
    using assms by (auto elim!: built_manifest)
  then have t: "body = ManifestBody.truncate m" by (metis sealed_iff)
  have f: "dm_tenderId body = dm_tenderId m" "dm_tenderVersion body = dm_tenderVersion m" "dm_commitments body = dm_commitments m"
    "dm_winningBidId body = dm_winningBidId m" "dm_winningBidHash body = dm_winningBidHash m"
    by (simp_all add: t ManifestBody.truncate_def)
  show "dm_tenderId m = ft_tenderId (ai_tender i)" "dm_tenderVersion m = ft_version (ai_tender i)"
    "dm_commitments m = map manifest_entry (sort_key sequence_key results)"
    "\<exists>w. selectWinner (sort_key sequence_key results) = Inr w \<and> dm_winningBidId m = map_option rb_bidId w
       \<and> dm_winningBidHash m = map_option rb_bidHash w"
    using reconstructed_body [OF b(1)] unfolding f by blast+
qed

text \<open>The evaluation is already in sequence order, so the manifest and the results agree on the winner.\<close>

lemma evaluated_sorted:
  assumes "evaluate_reconciled h ecdsa i v = Inr results"
  shows "sort_key sequence_key results = results"
  using assms by (auto simp: evaluate_reconciled_def evaluateAllCommitments_def res_simps intro: sort_key_id_if_sorted)

lemma certified_winner:
  assumes "certifies h ecdsa i v p"
  shows "\<exists>w. selectWinner (acp_results p) = Inr w \<and> dm_winningBidId (acp_manifest p) = map_option rb_bidId w
    \<and> dm_winningBidHash (acp_manifest p) = map_option rb_bidHash w
    \<and> (w = None \<longleftrightarrow> filter isRankable (acp_results p) = [])
    \<and> (\<forall>b. w = Some b \<longrightarrow> (\<exists>r\<in>set (acp_results p). to_ranked r = Some b)
         \<and> (\<forall>r\<in>set (acp_results p). \<forall>b'. to_ranked r = Some b' \<longrightarrow> rank_key b \<le> rank_key b'))"
    and "dm_commitments (acp_manifest p) = map manifest_entry (acp_results p)"
    and "dm_tenderId (acp_manifest p) = acp_tenderId p" "dm_tenderVersion (acp_manifest p) = acp_tenderVersion p"
proof -
  note c = assms [unfolded certifies_def]
  have e: "evaluate_reconciled h ecdsa (auction_input.truncate i) v = Inr (acp_results p)"
    and b: "buildDecisionManifest h ecdsa (auction_input.truncate i) = Inr (acp_manifest p)"
    and v: "validateReconciliationInputs (ai_commitments (auction_input.truncate i)) (ai_fullBids (auction_input.truncate i))
      (ai_acceptanceReceipts (auction_input.truncate i)) = Inr v" using c by simp_all
  note m = built_fields [OF b v e, unfolded evaluated_sorted [OF e]]
  note w = winner_best [OF result_ok_ready [OF all_evaluated_ok [OF e [unfolded evaluate_reconciled_def]]]]
  show "\<exists>w. selectWinner (acp_results p) = Inr w \<and> dm_winningBidId (acp_manifest p) = map_option rb_bidId w
    \<and> dm_winningBidHash (acp_manifest p) = map_option rb_bidHash w
    \<and> (w = None \<longleftrightarrow> filter isRankable (acp_results p) = [])
    \<and> (\<forall>b. w = Some b \<longrightarrow> (\<exists>r\<in>set (acp_results p). to_ranked r = Some b)
         \<and> (\<forall>r\<in>set (acp_results p). \<forall>b'. to_ranked r = Some b' \<longrightarrow> rank_key b \<le> rank_key b'))"
    using m(4) w unfolding filter_empty_conv list_ex_iff by auto
  show "dm_commitments (acp_manifest p) = map manifest_entry (acp_results p)"
    "dm_tenderId (acp_manifest p) = acp_tenderId p" "dm_tenderVersion (acp_manifest p) = acp_tenderVersion p"
    using m(1-3) c by simp_all
qed

subsection \<open>Runs of the machine\<close>

text \<open>
  A run interleaves the factory with the transitions of one machine; the
  transitions may be offered any object as a proof.
\<close>

inductive auction_run :: "hash_fn \<Rightarrow> ecdsa_fn \<Rightarrow> AuctionClosureProof list \<Rightarrow> AuctionMachineContext \<Rightarrow> bool" for h ecdsa where
  start: "createAuctionMachine t = Inr c \<Longrightarrow> auction_run h ecdsa [] c"
| prove: "auction_run h ecdsa vs c \<Longrightarrow> createAuctionClosureProof h ecdsa i vs = Inr (p, vs') \<Longrightarrow> auction_run h ecdsa vs' c"
| to_open: "auction_run h ecdsa vs c \<Longrightarrow> transitionToOpen c = Inr c' \<Longrightarrow> auction_run h ecdsa vs c'"
| to_bidding: "auction_run h ecdsa vs c \<Longrightarrow> transitionToBidding c = Inr c' \<Longrightarrow> auction_run h ecdsa vs c'"
| reconcile: "auction_run h ecdsa vs c \<Longrightarrow> transitionToReconciliation c now = Inr c' \<Longrightarrow> auction_run h ecdsa vs c'"
| close: "auction_run h ecdsa vs c \<Longrightarrow> transitionToClosed vs c x = Inr c' \<Longrightarrow> auction_run h ecdsa vs c'"
| incomplete: "auction_run h ecdsa vs c \<Longrightarrow> transitionToIncompleteHcsWindow vs c x = Inr c' \<Longrightarrow> auction_run h ecdsa vs c'"
| winner: "auction_run h ecdsa vs c \<Longrightarrow> transitionToWinnerSelected vs c = Inr c' \<Longrightarrow> auction_run h ecdsa vs c'"
| no_bid: "auction_run h ecdsa vs c \<Longrightarrow> transitionToNoQualifiedBid vs c = Inr c' \<Longrightarrow> auction_run h ecdsa vs c'"
| booleans: "auction_run h ecdsa vs c \<Longrightarrow> transitionToClosedWithBooleans c a b = Inr c' \<Longrightarrow> auction_run h ecdsa vs c'"

definition decided :: "AuctionState \<Rightarrow> bool" where
  "decided s \<longleftrightarrow> s = AUCTION_CLOSED \<or> s = WINNER_SELECTED \<or> s = NO_QUALIFIED_BID"

definition closed_by :: "AuctionClosureProof list \<Rightarrow> AuctionMachineContext \<Rightarrow> AuctionClosureProof \<Rightarrow> bool" where
  "closed_by vs c p \<longleftrightarrow> am_closureProof c = Some p \<and> am_decisionManifest c = Some (acp_manifest p) \<and> p \<in> set vs
     \<and> proof_range_complete p \<and> acp_auctionEndsAt p = am_auctionEndsAt c
     \<and> instant (am_auctionEndsAt c) \<le> instant (acp_evaluationTimestamp p)
     \<and> instant (am_auctionEndsAt c) \<le> instant (acp_closeBarrierConsensusTimestamp p)"

definition machine_inv :: "hash_fn \<Rightarrow> ecdsa_fn \<Rightarrow> AuctionClosureProof list \<Rightarrow> AuctionMachineContext \<Rightarrow> bool" where
  "machine_inv h ecdsa vs c \<longleftrightarrow>
     (\<forall>p\<in>set vs. \<exists>i v. certifies h ecdsa i v p)
     \<and> (decided (am_state c) \<longrightarrow> (\<exists>p. closed_by vs c p
          \<and> (am_state c = WINNER_SELECTED \<longrightarrow> (\<exists>w. selectWinner (acp_results p) = Inr (Some w)
               \<and> dm_winningBidId (acp_manifest p) = Some (rb_bidId w) \<and> dm_winningBidHash (acp_manifest p) = Some (rb_bidHash w)))
          \<and> (am_state c = NO_QUALIFIED_BID \<longrightarrow> filter isRankable (acp_results p) = [])))"

lemma assertLegal_iff [res_simps]: "assertLegal from to = Inr u \<longleftrightarrow> to \<in> set (AUCTION_LEGAL from)"
  by (simp add: assertLegal_def guard_res_def)

lemma requireAuthenticProof_iff [res_simps]:
  "requireAuthenticProof vs from to x = Inr p \<longleftrightarrow> x = Some p \<and> p \<in> set vs"
  by (auto simp: requireAuthenticProof_def isVerifiedAuctionClosureProof_def split: option.splits)

lemma AUCTION_LEGAL_steps:
  "OPEN \<in> set (AUCTION_LEGAL s) \<longleftrightarrow> s = DRAFT" "BIDDING \<in> set (AUCTION_LEGAL s) \<longleftrightarrow> s = OPEN"
  "AUCTION_RECONCILIATION_PENDING \<in> set (AUCTION_LEGAL s) \<longleftrightarrow> s = BIDDING"
  "AUCTION_CLOSED \<in> set (AUCTION_LEGAL s) \<longleftrightarrow> s = AUCTION_RECONCILIATION_PENDING"
  "INCOMPLETE_HCS_WINDOW \<in> set (AUCTION_LEGAL s) \<longleftrightarrow> s = AUCTION_RECONCILIATION_PENDING"
  "WINNER_SELECTED \<in> set (AUCTION_LEGAL s) \<longleftrightarrow> s = AUCTION_CLOSED" "NO_QUALIFIED_BID \<in> set (AUCTION_LEGAL s) \<longleftrightarrow> s = AUCTION_CLOSED"
  by (cases s; simp add: AUCTION_LEGAL_def)+

lemma closed_iff:
  "transitionToClosed vs c x = Inr c' \<longleftrightarrow> am_state c = AUCTION_RECONCILIATION_PENDING \<and>
     (\<exists>p. x = Some p \<and> p \<in> set vs \<and> proof_range_complete p
        \<and> acp_tenderId p = dm_tenderId (acp_manifest p) \<and> acp_tenderVersion p = dm_tenderVersion (acp_manifest p)
        \<and> acp_auctionEndsAt p = am_auctionEndsAt c
        \<and> isUtcIsoTimestamp (am_auctionEndsAt c) \<and> isUtcIsoTimestamp (acp_evaluationTimestamp p)
        \<and> isUtcIsoTimestamp (acp_closeBarrierConsensusTimestamp p)
        \<and> instant (am_auctionEndsAt c) \<le> instant (acp_evaluationTimestamp p)
        \<and> instant (am_auctionEndsAt c) \<le> instant (acp_closeBarrierConsensusTimestamp p)
        \<and> c' = c \<lparr> am_state := AUCTION_CLOSED, am_closureProof := Some p, am_decisionManifest := Some (acp_manifest p),
                   am_now := acp_evaluationTimestamp p \<rparr>)"
  by (auto simp: transitionToClosed_def Let_def res_simps AUCTION_LEGAL_steps isBeforeOrEqualUtc_Inr_iff)

lemma winner_selected_iff:
  "transitionToWinnerSelected vs c = Inr c' \<longleftrightarrow> am_state c = AUCTION_CLOSED \<and>
     (\<exists>p w. am_closureProof c = Some p \<and> p \<in> set vs \<and> selectWinner (acp_results p) = Inr (Some w)
        \<and> dm_winningBidId (acp_manifest p) = Some (rb_bidId w) \<and> dm_winningBidHash (acp_manifest p) = Some (rb_bidHash w)
        \<and> filter isRankable (acp_results p) \<noteq> []
        \<and> list_ex (\<lambda>c. me_bidId c = rb_bidId w \<and> me_decision c = QUALIFIED) (dm_commitments (acp_manifest p))
        \<and> c' = c \<lparr> am_state := WINNER_SELECTED, am_decisionManifest := Some (acp_manifest p) \<rparr>)"
  by (auto simp: transitionToWinnerSelected_def Let_def res_simps AUCTION_LEGAL_steps not_less Suc_le_eq split: option.split_asm)

lemma no_bid_iff:
  "transitionToNoQualifiedBid vs c = Inr c' \<longleftrightarrow> am_state c = AUCTION_CLOSED \<and>
     (\<exists>p. am_closureProof c = Some p \<and> p \<in> set vs \<and> selectWinner (acp_results p) = Inr None
        \<and> dm_winningBidId (acp_manifest p) = None \<and> dm_winningBidHash (acp_manifest p) = None
        \<and> filter isRankable (acp_results p) = []
        \<and> c' = c \<lparr> am_state := NO_QUALIFIED_BID, am_decisionManifest := Some (acp_manifest p) \<rparr>)"
  by (auto simp: transitionToNoQualifiedBid_def Let_def res_simps AUCTION_LEGAL_steps)

lemma early_steps:
  "transitionToOpen c = Inr c' \<Longrightarrow> am_state c' = OPEN"
  "transitionToBidding c = Inr c' \<Longrightarrow> am_state c' = BIDDING"
  "transitionToReconciliation c now = Inr c' \<Longrightarrow> am_state c' = AUCTION_RECONCILIATION_PENDING"
  "transitionToIncompleteHcsWindow vs c x = Inr c' \<Longrightarrow> am_state c' = INCOMPLETE_HCS_WINDOW"
  "transitionToClosedWithBooleans c a b \<noteq> Inr c'"
  "createAuctionMachine t = Inr c' \<Longrightarrow> am_state c' = DRAFT"
  by (auto simp: transitionToOpen_def transitionToBidding_def transitionToReconciliation_def
      transitionToIncompleteHcsWindow_def transitionToClosedWithBooleans_def createAuctionMachine_def res_simps)

lemma machine_inv_run: "auction_run h ecdsa vs c \<Longrightarrow> machine_inv h ecdsa vs c"
proof (induction rule: auction_run.induct)
  case (prove vs c i p vs')
  then show ?case
    using created_certifies [OF prove(2)] by (fastforce simp: machine_inv_def closed_by_def)
next
  case (close vs c x c')
  then show ?case by (auto simp: machine_inv_def closed_iff closed_by_def)
next
  case (winner vs c c')
  then show ?case by (auto simp: machine_inv_def winner_selected_iff closed_by_def decided_def)
next
  case (no_bid vs c c')
  then show ?case by (auto simp: machine_inv_def no_bid_iff closed_by_def decided_def)
qed (auto simp: machine_inv_def decided_def dest!: early_steps(1-4,6) simp: early_steps(5))

text \<open>
  C8. A winner is selected only on complete, authentic evidence, and it is the
  best qualified bid.  In every run, whatever objects are offered as proofs, a machine
  in \<open>WINNER_SELECTED\<close> holds a proof the factory made from source evidence; the
  observed sequences are a permutation of the whole reconciled range and contain every
  commitment; the evaluation and the close barrier are not before the deadline; the
  manifest names the winner of the ranking, which is a qualified bid of the evaluation
  that no other rankable bid beats.\<close>

theorem winner_selected_is_sound:
  assumes "auction_run h ecdsa vs c" "am_state c = WINNER_SELECTED"
  shows "\<exists>p i v w. am_closureProof c = Some p \<and> am_decisionManifest c = Some (acp_manifest p)
    \<and> p \<in> set vs \<and> certifies h ecdsa i v p
    \<and> mset (acp_observedSequences p) = mset [acp_reconciledStartSequence p..acp_reconciledEndSequence p]
    \<and> instant (am_auctionEndsAt c) \<le> instant (acp_evaluationTimestamp p)
    \<and> instant (am_auctionEndsAt c) \<le> instant (acp_closeBarrierConsensusTimestamp p)
    \<and> dm_winningBidId (acp_manifest p) = Some (rb_bidId w) \<and> dm_winningBidHash (acp_manifest p) = Some (rb_bidHash w)
    \<and> (\<exists>r\<in>set (acp_results p). isRankable r \<and> to_ranked r = Some w)
    \<and> (\<forall>r\<in>set (acp_results p). \<forall>b. to_ranked r = Some b \<longrightarrow> rank_key w \<le> rank_key b)"
proof -
  note inv = machine_inv_run [OF assms(1), unfolded machine_inv_def]
  obtain p w where p: "closed_by vs c p" "selectWinner (acp_results p) = Inr (Some w)"
    "dm_winningBidId (acp_manifest p) = Some (rb_bidId w)" "dm_winningBidHash (acp_manifest p) = Some (rb_bidHash w)"
    using inv assms(2) by (auto simp: decided_def)
  then obtain i v where c: "certifies h ecdsa i v p" using inv by (auto simp: closed_by_def)
  have w: "\<exists>r\<in>set (acp_results p). isRankable r \<and> to_ranked r = Some w"
    "\<forall>r\<in>set (acp_results p). \<forall>b. to_ranked r = Some b \<longrightarrow> rank_key w \<le> rank_key b"
    using certified_winner(1) [OF c] p(2) by (auto dest: to_ranked_rankable)
  show ?thesis
    using p c w
    by (intro exI [of _ p] exI [of _ i] exI [of _ v] exI [of _ w])
      (auto simp: closed_by_def proof_range_complete_def range_complete_mset)
qed

lemma closed_decides:
  assumes "auction_run h ecdsa vs c" "am_state c = AUCTION_CLOSED"
  shows "\<exists>p. am_closureProof c = Some p \<and>
    (if list_ex isRankable (acp_results p)
     then is_ok (transitionToWinnerSelected vs c) \<and> \<not> is_ok (transitionToNoQualifiedBid vs c)
     else is_ok (transitionToNoQualifiedBid vs c) \<and> \<not> is_ok (transitionToWinnerSelected vs c))"
proof -
  note inv = machine_inv_run [OF assms(1), unfolded machine_inv_def]
  obtain p where p: "closed_by vs c p" using inv assms(2) by (auto simp: decided_def)
  then obtain i v where c: "certifies h ecdsa i v p" using inv by (auto simp: closed_by_def)
  obtain w where w: "selectWinner (acp_results p) = Inr w" "dm_winningBidId (acp_manifest p) = map_option rb_bidId w"
    "dm_winningBidHash (acp_manifest p) = map_option rb_bidHash w" "w = None \<longleftrightarrow> filter isRankable (acp_results p) = []"
    "\<And>b. w = Some b \<Longrightarrow> \<exists>r\<in>set (acp_results p). to_ranked r = Some b"
    using certified_winner(1) [OF c] by blast
  have e: "list_ex (\<lambda>c. me_bidId c = rb_bidId b \<and> me_decision c = QUALIFIED) (dm_commitments (acp_manifest p))"
    if x: "w = Some b" for b
  proof -
    obtain r where r: "r \<in> set (acp_results p)" "to_ranked r = Some b" using w(5) [OF x] by blast
    then have "me_bidId (manifest_entry r) = rb_bidId b \<and> me_decision (manifest_entry r) = QUALIFIED"
      by (auto simp: to_ranked_def manifest_entry_def isRankable_def split: if_splits option.splits)
    then show ?thesis using r(1) by (auto simp: certified_winner(2) [OF c] list_ex_iff)
  qed
  show ?thesis
    using p w(1-4) e assms(2)
    by (cases w) (auto simp: closed_by_def is_ok_iff winner_selected_iff no_bid_iff list_ex_iff filter_empty_conv)
qed

text \<open>
  C32. A closed auction is decided: in every run, when the machine is in
  \<open>AUCTION_CLOSED\<close>, exactly one of the two final transitions succeeds, the selection
  of a winner when some bid qualified and the closure without one otherwise.\<close>

theorem closed_auction_decides:
  assumes "auction_run h ecdsa vs c" "am_state c = AUCTION_CLOSED"
  shows "\<exists>p. am_closureProof c = Some p \<and>
    (if list_ex isRankable (acp_results p)
     then is_ok (transitionToWinnerSelected vs c) \<and> \<not> is_ok (transitionToNoQualifiedBid vs c)
     else is_ok (transitionToNoQualifiedBid vs c) \<and> \<not> is_ok (transitionToWinnerSelected vs c))"
  by (rule closed_decides [OF assms])

subsection \<open>A run to a winner\<close>

definition demo_closure :: closure_input where
  "demo_closure = auction_input.extend demo_input \<lparr> ci_auctionEndsAt = ''2026-08-01T12:00:00Z'',
     ci_closeBarrierConsensusTimestamp = ''2026-08-01T12:30:00Z'', ci_reconciledStartSequence = 1,
     ci_reconciledEndSequence = 3, ci_observedSequences = [2, 1, 3], ci_now = ''2026-08-01T13:00:00Z'' \<rparr>"

lemma demo_closure_truncate: "auction_input.truncate demo_closure = demo_input"
  by (simp add: demo_closure_def auction_input.truncate_def auction_input.extend_def)

lemma demo_closure_fields:
  "ai_tender demo_closure = demo_tender" "ai_commitments demo_closure = ai_commitments demo_input"
  "ai_fullBids demo_closure = ai_fullBids demo_input" "ai_acceptanceReceipts demo_closure = ai_acceptanceReceipts demo_input"
  "ai_evaluationTimestamp demo_closure = ai_evaluationTimestamp demo_input"
  "ai_barrierSequence demo_closure = ai_barrierSequence demo_input"
  "ai_reconciliationReference demo_closure = ai_reconciliationReference demo_input"
  "ci_observedSequences demo_closure = [2, 1, 3]"
  by (simp_all add: demo_closure_def auction_input.extend_def demo_input_def)

lemma demo_closure_checks: "closure_checks demo_closure = Inr ()"
  by code_simp

lemma demo_proof:
  obtains p where "createAuctionClosureProof demo_digest demo_ecdsa demo_closure [] = Inr (p, [p])"
    "proof_range_complete p" "acp_auctionEndsAt p = ''2026-08-01T12:00:00Z''" "acp_evaluationTimestamp p = demo_evaluation"
    "acp_closeBarrierConsensusTimestamp p = ''2026-08-01T12:30:00Z''" "list_ex isRankable (acp_results p)"
proof -
  obtain results where d: "demo_auction = Inr results" "list_ex isRankable results"
    using demo_auction_runs by (auto simp: list_ex_iff)
  obtain m where m: "buildDecisionManifest demo_digest demo_ecdsa demo_input = Inr m" using demo_builds by blast
  have e: "evaluate_reconciled demo_digest demo_ecdsa demo_input demo_reconciled = Inr results"
    using demo_evaluates d(1) by simp
  have f: "ai_tender demo_input = demo_tender" "ai_reconciliationReference demo_input \<noteq> []" by (simp_all add: demo_input_def)
  note b = built_fields(1,2) [OF m demo_reconciles e, unfolded f(1)]
  have a: "assertManifestIntegrity demo_digest m demo_tender results (Some (ai_evaluationTimestamp demo_input))
      (Some (ai_barrierSequence demo_input)) (Some (ai_reconciliationReference demo_input)) = Inr ()"
    using built_verifies [OF demo_digest_hex m f(2) demo_reconciles e] f(1) by (simp add: assertManifestIntegrity_def)
  have r: "vr_commitments demo_reconciled = [demo_commitment ''A'' 1, demo_commitment ''B'' 2]"
    "ce_hcsSequence (demo_commitment i s) = s" "ce_tenderId (demo_commitment i s) = ft_tenderId demo_tender" for i s
    by (simp_all add: demo_reconciled_def demo_commitment_def demo_tender_def)
  have "\<exists>p. createAuctionClosureProof demo_digest demo_ecdsa demo_closure [] = Inr (p, [p])
      \<and> proof_range_complete p \<and> acp_auctionEndsAt p = ''2026-08-01T12:00:00Z'' \<and> acp_evaluationTimestamp p = demo_evaluation
      \<and> acp_closeBarrierConsensusTimestamp p = ''2026-08-01T12:30:00Z'' \<and> list_ex isRankable (acp_results p)"
  proof -
    have "isSequenceRangeComplete 1 3 [2, 1, 3]" by code_simp
    moreover have "ci_auctionEndsAt demo_closure = ''2026-08-01T12:00:00Z''" "ai_evaluationTimestamp demo_input = demo_evaluation"
      "ci_closeBarrierConsensusTimestamp demo_closure = ''2026-08-01T12:30:00Z''"
      "ci_reconciledStartSequence demo_closure = 1" "ci_reconciledEndSequence demo_closure = 3"
      by (simp_all add: demo_closure_def auction_input.extend_def demo_input_def)
    ultimately show ?thesis
      using a b d(2)
      by (simp add: createAuctionClosureProof_def demo_closure_checks Let_def demo_closure_fields demo_reconciles
          demo_closure_truncate e m closure_guard_def r proof_range_complete_def)
  qed
  then show thesis using that by blast
qed

lemma demo_closed_run:
  obtains p c where "auction_run demo_digest demo_ecdsa [p] c" "am_state c = AUCTION_CLOSED" "am_closureProof c = Some p"
    "list_ex isRankable (acp_results p)"
proof -
  obtain p where p: "createAuctionClosureProof demo_digest demo_ecdsa demo_closure [] = Inr (p, [p])"
    "proof_range_complete p" "acp_auctionEndsAt p = ''2026-08-01T12:00:00Z''" "acp_evaluationTimestamp p = demo_evaluation"
    "acp_closeBarrierConsensusTimestamp p = ''2026-08-01T12:30:00Z''" "list_ex isRankable (acp_results p)"
    by (rule demo_proof)
  obtain i v where i: "certifies demo_digest demo_ecdsa i v p" using created_certifies [OF p(1)] by blast
  have u: "isUtcIsoTimestamp ''2026-08-01T12:00:00Z''" "isUtcIsoTimestamp ''2026-08-01T12:30:00Z''"
    "instant ''2026-08-01T12:00:00Z'' \<le> instant ''2026-08-01T12:30:00Z''"
    "instant ''2026-08-01T12:00:00Z'' \<le> instant demo_evaluation" by code_simp+
  define c where "c s = \<lparr> am_state = s, am_auctionEndsAt = ''2026-08-01T12:00:00Z'', am_closureProof = None,
      am_decisionManifest = None, am_now = ''2026-08-01T12:00:00Z'' \<rparr>" for s
  have r: "auction_run demo_digest demo_ecdsa [] (c DRAFT)"
    by (rule start [of "''2026-08-01T12:00:00Z''"]) (simp add: createAuctionMachine_def u c_def)
  have r: "auction_run demo_digest demo_ecdsa [p] (c DRAFT)" by (rule prove [OF r p(1)])
  have r: "auction_run demo_digest demo_ecdsa [p] (c OPEN)"
    by (rule to_open [OF r]) (simp add: transitionToOpen_def assertLegal_def AUCTION_LEGAL_def c_def)
  have r: "auction_run demo_digest demo_ecdsa [p] (c BIDDING)"
    by (rule to_bidding [OF r]) (simp add: transitionToBidding_def assertLegal_def AUCTION_LEGAL_def c_def)
  have r: "auction_run demo_digest demo_ecdsa [p] (c AUCTION_RECONCILIATION_PENDING)"
    by (rule reconcile [OF r, of "''2026-08-01T12:00:00Z''"])
      (simp add: transitionToReconciliation_def assertLegal_def AUCTION_LEGAL_def c_def u isBeforeOrEqualUtc_Inr_iff [THEN iffD2])
  obtain c' where "transitionToClosed [p] (c AUCTION_RECONCILIATION_PENDING) (Some p) = Inr c'"
      "am_state c' = AUCTION_CLOSED" "am_closureProof c' = Some p"
    using p u demo_times certified_winner(3,4) [OF i] by (simp add: closed_iff c_def)
  then show thesis using that close [OF r] p(6) by blast
qed

lemma closed_auction_decides_witness:
  "\<exists>p c. auction_run demo_digest demo_ecdsa [p] c \<and> am_state c = AUCTION_CLOSED \<and> is_ok (transitionToWinnerSelected [p] c)"
proof -
  obtain p c where "auction_run demo_digest demo_ecdsa [p] c" "am_state c = AUCTION_CLOSED" "am_closureProof c = Some p"
    "list_ex isRankable (acp_results p)" by (rule demo_closed_run)
  then show ?thesis using closed_auction_decides [of demo_digest demo_ecdsa "[p]" c] by auto
qed

lemma winner_selected_is_sound_witness:
  "\<exists>p c. auction_run demo_digest demo_ecdsa [p] c \<and> am_state c = WINNER_SELECTED
     \<and> (\<exists>w::RankedBid. dm_winningBidId (acp_manifest p) = Some (rb_bidId w)) \<and> am_decisionManifest c = Some (acp_manifest p)"
proof -
  obtain p c where r: "auction_run demo_digest demo_ecdsa [p] c" "am_state c = AUCTION_CLOSED" "am_closureProof c = Some p"
    "list_ex isRankable (acp_results p)" by (rule demo_closed_run)
  have "is_ok (transitionToWinnerSelected [p] c)" using closed_decides [OF r(1,2)] r(3,4) by auto
  then obtain c' where c': "transitionToWinnerSelected [p] c = Inr c'" by (auto simp: is_ok_iff)
  then have s: "am_state c' = WINNER_SELECTED" "am_closureProof c' = Some p" using r(3) by (auto simp: winner_selected_iff)
  have u: "auction_run demo_digest demo_ecdsa [p] c'" by (rule winner [OF r(1) c'])
  obtain q and w :: RankedBid where "am_closureProof c' = Some q" "am_decisionManifest c' = Some (acp_manifest q)"
    "dm_winningBidId (acp_manifest q) = Some (rb_bidId w)"
    using winner_selected_is_sound [OF u s(1)] by blast
  then show ?thesis using u s by auto
qed

end
