(* ===== verification/Payment_Claims.thy ===== *)
theory Payment_Claims
  imports Canonical_Json Atomic_Money "HOL-Library.Multiset"
begin

text \<open>
  The journal of access payments, \<^verbatim>\<open>src/v2/access/payment-claim.ts\<close> and
  \<^verbatim>\<open>src/v2/store/payment-claim-store.ts\<close>.

  A claim binds one action to one payment payload before anything is settled.  The
  two stores run the same functions \<open>acquireIn\<close> and \<open>transitionIn\<close> on an array
  of claims, one caller at a time (a mutex, and for the file store a lock file
  around read, change and write).  What the file system does is the argument \<open>io\<close>
  of the file store; the parse and print of the journal as text is the identity.
  The locale \<open>claim_store\<close> is the contract both stores meet.
\<close>

datatype PaymentClaimState = CLAIMED | SETTLING | SETTLED_PENDING_COMMIT | COMMITTED | FAILED

record PaymentClaimBinding =
  pb_actionType :: string
  pb_actionId :: string
  pb_tenderId :: string
  pb_tenderVersion :: int
  pb_bidId :: "string option"
  pb_payerAccount :: string
  pb_payTo :: string
  pb_asset :: string
  pb_amountAtomic :: string
  pb_resource :: string
  pb_paymentPayloadHash :: string
  pb_requestHash :: string

record SettledAccessPayment =
  sp_transactionId :: string
  sp_payerAccount :: string
  sp_payTo :: string
  sp_asset :: string
  sp_amountAtomic :: string
  sp_resource :: string
  sp_paymentPayloadHash :: string
  sp_consensusTimestamp :: string
  sp_settledAt :: string

datatype result_kind = TENDER_ACTIVATION | CARRIER_BID

record PaymentClaimResultRef =
  rf_kind :: result_kind
  rf_tenderId :: string
  rf_tenderVersion :: int
  rf_bidId :: "string option"
  rf_actionId :: string

definition PAYMENT_CLAIM_SCHEMA :: string where
  "PAYMENT_CLAIM_SCHEMA = ''routeguard-v2-payment-claim-1.0''"

record PaymentClaim =
  pc_schemaVersion :: string
  pc_claimVersion :: int
  pc_binding :: PaymentClaimBinding
  pc_state :: PaymentClaimState
  pc_settlement :: "SettledAccessPayment option"
  pc_resultRef :: "PaymentClaimResultRef option"
  pc_failureCode :: "string option"
  pc_retryable :: "bool option"
  pc_createdAt :: string
  pc_updatedAt :: string

datatype claim_error =
    PAYMENT_CLAIM_CONFLICT
  | PAYMENT_ALREADY_USED
  | PAYMENT_RECOVERY_FAILED
  | ClaimHash canonical_error
  | ClaimLockUnavailable
  | ClaimIoFailure

datatype acquire_outcome = CREATED | EXISTING

record claim_transition =
  ct_actionId :: string
  ct_from :: "PaymentClaimState list"
  ct_to :: PaymentClaimState
  ct_now :: string
  ct_settlement :: "SettledAccessPayment option"
  ct_resultRef :: "PaymentClaimResultRef option"
  ct_failureCode :: "string option"
  ct_retryable :: "bool option"

subsection \<open>Claims in an array\<close>

definition binding_json :: "PaymentClaimBinding \<Rightarrow> json" where
  "binding_json b = JObj
     [(''actionType'', JStr (pb_actionType b)), (''actionId'', JStr (pb_actionId b)),
      (''tenderId'', JStr (pb_tenderId b)), (''tenderVersion'', JNum (pb_tenderVersion b)),
      (''bidId'', case pb_bidId b of None \<Rightarrow> JNull | Some s \<Rightarrow> JStr s),
      (''payerAccount'', JStr (pb_payerAccount b)), (''payTo'', JStr (pb_payTo b)),
      (''asset'', JStr (pb_asset b)), (''amountAtomic'', JStr (pb_amountAtomic b)),
      (''resource'', JStr (pb_resource b)), (''paymentPayloadHash'', JStr (pb_paymentPayloadHash b)),
      (''requestHash'', JStr (pb_requestHash b))]"

definition sameBinding :: "hash_fn \<Rightarrow> PaymentClaimBinding \<Rightarrow> PaymentClaimBinding \<Rightarrow> claim_error + bool" where
  "sameBinding sha256 a b =
     bind_res (map_err ClaimHash (canonicalSha256 sha256 (binding_json a))) (\<lambda>x.
     bind_res (map_err ClaimHash (canonicalSha256 sha256 (binding_json b))) (\<lambda>y. Inr (x = y)))"

definition createClaim :: "PaymentClaimBinding \<Rightarrow> string \<Rightarrow> PaymentClaim" where
  "createClaim binding now = \<lparr> pc_schemaVersion = PAYMENT_CLAIM_SCHEMA, pc_claimVersion = 1, pc_binding = binding,
     pc_state = CLAIMED, pc_settlement = None, pc_resultRef = None, pc_failureCode = None, pc_retryable = None,
     pc_createdAt = now, pc_updatedAt = now \<rparr>"

abbreviation action_of :: "PaymentClaim \<Rightarrow> string" where "action_of c \<equiv> pb_actionId (pc_binding c)"
abbreviation payload_of :: "PaymentClaim \<Rightarrow> string" where "payload_of c \<equiv> pb_paymentPayloadHash (pc_binding c)"

definition acquireIn ::
  "hash_fn \<Rightarrow> PaymentClaim list \<Rightarrow> PaymentClaimBinding \<Rightarrow> string
     \<Rightarrow> claim_error + (PaymentClaim \<times> acquire_outcome) \<times> PaymentClaim list" where
  "acquireIn sha256 claims binding now =
     (case List.find (\<lambda>c. action_of c = pb_actionId binding) claims of
        Some action \<Rightarrow>
          bind_res (sameBinding sha256 (pc_binding action) binding) (\<lambda>same.
            if \<not> same then Inl PAYMENT_CLAIM_CONFLICT else Inr ((action, EXISTING), claims))
      | None \<Rightarrow>
          if list_ex (\<lambda>c. payload_of c = pb_paymentPayloadHash binding) claims then Inl PAYMENT_ALREADY_USED
          else let claim = createClaim binding now in Inr ((claim, CREATED), claims @ [claim]))"

primrec findIndex :: "('a \<Rightarrow> bool) \<Rightarrow> 'a list \<Rightarrow> nat option" where
  "findIndex P [] = None"
| "findIndex P (x # xs) = (if P x then Some 0 else map_option Suc (findIndex P xs))"

definition or_else :: "'a option \<Rightarrow> 'a option \<Rightarrow> 'a option" where
  "or_else x y = (case x of Some v \<Rightarrow> Some v | None \<Rightarrow> y)"

definition next_claim :: "claim_transition \<Rightarrow> PaymentClaim \<Rightarrow> PaymentClaim" where
  "next_claim t current = current \<lparr>
     pc_claimVersion := pc_claimVersion current + 1,
     pc_state := ct_to t,
     pc_settlement := or_else (ct_settlement t) (pc_settlement current),
     pc_resultRef := or_else (ct_resultRef t) (pc_resultRef current),
     pc_failureCode := or_else (ct_failureCode t) (pc_failureCode current),
     pc_retryable := or_else (ct_retryable t) (pc_retryable current),
     pc_updatedAt := ct_now t \<rparr>"

definition settled_elsewhere :: "PaymentClaim list \<Rightarrow> nat \<Rightarrow> string \<Rightarrow> bool" where
  "settled_elsewhere claims index tx =
     list_ex (\<lambda>(i, c). i \<noteq> index \<and> map_option sp_transactionId (pc_settlement c) = Some tx)
       (zip [0..<length claims] claims)"

definition transitionIn ::
  "PaymentClaim list \<Rightarrow> claim_transition \<Rightarrow> claim_error + PaymentClaim \<times> PaymentClaim list" where
  "transitionIn claims t =
     (case findIndex (\<lambda>c. action_of c = ct_actionId t) claims of
        None \<Rightarrow> Inl PAYMENT_RECOVERY_FAILED
      | Some index \<Rightarrow>
          let current = claims ! index in
          if \<not> List.member (ct_from t) (pc_state current)
          then if pc_state current = ct_to t then Inr (current, claims) else Inl PAYMENT_RECOVERY_FAILED
          else if (case ct_settlement t of None \<Rightarrow> False | Some s \<Rightarrow> settled_elsewhere claims index (sp_transactionId s))
          then Inl PAYMENT_ALREADY_USED
          else Inr (next_claim t current, claims[index := next_claim t current]))"

subsection \<open>The stores\<close>

definition find_claim :: "string \<Rightarrow> PaymentClaim list \<Rightarrow> PaymentClaim option" where
  "find_claim actionId claims = List.find (\<lambda>c. action_of c = actionId) claims"

definition mem_acquire ::
  "hash_fn \<Rightarrow> PaymentClaimBinding \<Rightarrow> string \<Rightarrow> PaymentClaim list
     \<Rightarrow> (claim_error + PaymentClaim \<times> acquire_outcome) \<times> PaymentClaim list" where
  "mem_acquire sha256 binding now claims =
     (case acquireIn sha256 claims binding now of Inl e \<Rightarrow> (Inl e, claims) | Inr (r, claims') \<Rightarrow> (Inr r, claims'))"

definition mem_transition ::
  "claim_transition \<Rightarrow> PaymentClaim list \<Rightarrow> (claim_error + PaymentClaim) \<times> PaymentClaim list" where
  "mem_transition t claims =
     (case transitionIn claims t of Inl e \<Rightarrow> (Inl e, claims) | Inr (r, claims') \<Rightarrow> (Inr r, claims'))"

definition CLAIM_ENVELOPE_SCHEMA :: string where
  "CLAIM_ENVELOPE_SCHEMA = ''routeguard-v2-payment-claims-1.0''"

record ClaimEnvelope =
  env_schemaVersion :: string
  env_claims :: "PaymentClaim list"

definition parseEnvelope :: "ClaimEnvelope \<Rightarrow> claim_error + ClaimEnvelope" where
  "parseEnvelope v =
     (if env_schemaVersion v \<noteq> CLAIM_ENVELOPE_SCHEMA
        \<or> list_ex (\<lambda>c. pc_schemaVersion c \<noteq> PAYMENT_CLAIM_SCHEMA) (env_claims v)
      then Inl PAYMENT_RECOVERY_FAILED else Inr v)"

text \<open>Which call of the file system fails in one use of the store, if any.\<close>

datatype claim_io = ClaimIoOk | ClaimLockBusy | ClaimReadFails | ClaimWriteFails

type_synonym claim_file = "ClaimEnvelope option"

definition read_claims :: "claim_io \<Rightarrow> claim_file \<Rightarrow> claim_error + ClaimEnvelope" where
  "read_claims io f =
     (if io = ClaimReadFails then Inl ClaimIoFailure
      else case f of
        None \<Rightarrow> Inr \<lparr> env_schemaVersion = CLAIM_ENVELOPE_SCHEMA, env_claims = [] \<rparr>
      | Some v \<Rightarrow> parseEnvelope v)"

definition mutate ::
  "claim_io \<Rightarrow> (PaymentClaim list \<Rightarrow> claim_error + 'r \<times> PaymentClaim list) \<Rightarrow> claim_file
     \<Rightarrow> (claim_error + 'r) \<times> claim_file" where
  "mutate io fn f =
     (if io = ClaimLockBusy then (Inl ClaimLockUnavailable, f)
      else case bind_res (read_claims io f) (\<lambda>envelope.
          bind_res (fn (env_claims envelope)) (\<lambda>(r, claims). Inr (r, envelope \<lparr> env_claims := claims \<rparr>))) of
        Inl e \<Rightarrow> (Inl e, f)
      | Inr (r, envelope) \<Rightarrow> if io = ClaimWriteFails then (Inl ClaimIoFailure, f) else (Inr r, Some envelope))"

definition file_acquire ::
  "hash_fn \<Rightarrow> claim_io \<Rightarrow> PaymentClaimBinding \<Rightarrow> string \<Rightarrow> claim_file
     \<Rightarrow> (claim_error + PaymentClaim \<times> acquire_outcome) \<times> claim_file" where
  "file_acquire sha256 io binding now = mutate io (\<lambda>claims. acquireIn sha256 claims binding now)"

definition file_transition :: "claim_io \<Rightarrow> claim_transition \<Rightarrow> claim_file \<Rightarrow> (claim_error + PaymentClaim) \<times> claim_file" where
  "file_transition io t = mutate io (\<lambda>claims. transitionIn claims t)"

definition file_getByActionId :: "claim_io \<Rightarrow> string \<Rightarrow> claim_file \<Rightarrow> claim_error + PaymentClaim option" where
  "file_getByActionId io actionId f =
     bind_res (read_claims io f) (\<lambda>envelope. Inr (find_claim actionId (env_claims envelope)))"

subsection \<open>A claim keeps its payment to itself\<close>

definition settlement_ids :: "PaymentClaim list \<Rightarrow> string list" where
  "settlement_ids claims = List.map_filter (\<lambda>c. map_option sp_transactionId (pc_settlement c)) claims"

definition claims_ok :: "PaymentClaim list \<Rightarrow> bool" where
  "claims_ok claims \<longleftrightarrow> distinct (map action_of claims) \<and> distinct (map payload_of claims)
     \<and> distinct (settlement_ids claims) \<and> list_all (\<lambda>c. pc_schemaVersion c = PAYMENT_CLAIM_SCHEMA) claims"

lemma findIndex_Some: "findIndex P xs = Some i \<Longrightarrow> i < length xs \<and> P (xs ! i)"
  by (induction xs arbitrary: i) (auto split: if_splits)

lemma findIndex_None: "findIndex P xs = None \<longleftrightarrow> \<not> list_ex P xs"
  by (induction xs) auto

lemma settled_elsewhere_iff:
  "settled_elsewhere claims i tx \<longleftrightarrow>
     (\<exists>j<length claims. j \<noteq> i \<and> map_option sp_transactionId (pc_settlement (claims ! j)) = Some tx)"
  by (force simp: settled_elsewhere_def list_ex_iff set_zip)

lemma settlement_ids_append [simp]: "settlement_ids (xs @ ys) = settlement_ids xs @ settlement_ids ys"
  by (simp add: settlement_ids_def List.map_filter_def)

lemma settlement_ids_simps [simp]:
  "settlement_ids [] = []"
  "settlement_ids (c # cs) = (case pc_settlement c of None \<Rightarrow> settlement_ids cs | Some s \<Rightarrow> sp_transactionId s # settlement_ids cs)"
  by (simp_all add: settlement_ids_def List.map_filter_simps split: option.splits)

lemma settlement_ids_mem:
  "tx \<in> set (settlement_ids cs) \<longleftrightarrow> (\<exists>j<length cs. map_option sp_transactionId (pc_settlement (cs ! j)) = Some tx)"
  by (induction cs) (auto simp: less_Suc_eq_0_disj split: option.splits)

lemma next_claim_binding [simp]:
  "pc_binding (next_claim t c) = pc_binding c" "pc_state (next_claim t c) = ct_to t"
  "pc_schemaVersion (next_claim t c) = pc_schemaVersion c"
  "pc_settlement (next_claim t c) = or_else (ct_settlement t) (pc_settlement c)"
  by (simp_all add: next_claim_def)

lemma acquire_iff:
  "acquireIn h claims b now = Inr ((c, out), claims') \<longleftrightarrow>
     (out = EXISTING \<and> find_claim (pb_actionId b) claims = Some c \<and> claims' = claims
        \<and> sameBinding h (pc_binding c) b = Inr True)
   \<or> (out = CREATED \<and> find_claim (pb_actionId b) claims = None \<and> c = createClaim b now \<and> claims' = claims @ [c]
        \<and> (\<forall>d\<in>set claims. payload_of d \<noteq> pb_paymentPayloadHash b))"
  by (auto simp: acquireIn_def find_claim_def res_simps Let_def list_ex_iff split: option.splits if_splits)

lemma find_claim_None: "find_claim a claims = None \<longleftrightarrow> a \<notin> set (map action_of claims)"
  by (auto simp: find_claim_def find_None_iff)

lemma find_claim_Some: "find_claim a claims = Some c \<Longrightarrow> c \<in> set claims \<and> action_of c = a"
  by (auto simp: find_claim_def find_Some_iff)

text \<open>A transition either changes nothing or moves one claim along.\<close>

lemma transition_iff:
  "transitionIn claims t = Inr (c, claims') \<longleftrightarrow>
     (\<exists>i. findIndex (\<lambda>c. action_of c = ct_actionId t) claims = Some i \<and>
       ((pc_state (claims ! i) \<notin> set (ct_from t) \<and> pc_state (claims ! i) = ct_to t \<and> c = claims ! i \<and> claims' = claims)
      \<or> (pc_state (claims ! i) \<in> set (ct_from t) \<and> c = next_claim t (claims ! i) \<and> claims' = claims[i := c]
         \<and> (\<forall>s. ct_settlement t = Some s \<longrightarrow> \<not> settled_elsewhere claims i (sp_transactionId s)))))"
  by (auto simp: transitionIn_def Let_def split: option.splits if_splits)

lemma distinct_snoc_map: "distinct (map f (xs @ [x])) \<longleftrightarrow> distinct (map f xs) \<and> f x \<notin> f ` set xs"
  by auto

lemma claims_ok_acquire:
  assumes "claims_ok claims" "acquireIn h claims b now = Inr (r, claims')"
  shows "claims_ok claims'"
  using assms
  by (cases r) (auto simp: claims_ok_def acquire_iff find_claim_None createClaim_def, blast)

lemma update_settlements:
  assumes "i < length cs" "\<And>s. pc_settlement c = Some s \<Longrightarrow> pc_settlement (cs ! i) = Some s
    \<or> \<not> settled_elsewhere cs i (sp_transactionId s)" "distinct (settlement_ids cs)"
  shows "distinct (settlement_ids (cs[i := c]))"
proof -
  define xs ys where "xs = take i cs" and "ys = drop (Suc i) cs"
  have cs: "cs = xs @ cs ! i # ys" "cs[i := c] = xs @ c # ys"
    using assms(1) by (simp_all add: xs_def ys_def id_take_nth_drop upd_conv_take_nth_drop)
  have e: "tx \<notin> set (settlement_ids xs) \<and> tx \<notin> set (settlement_ids ys)" if "\<not> settled_elsewhere cs i tx" for tx
  proof -
    have "\<not> (\<exists>j<length xs. map_option sp_transactionId (pc_settlement (xs ! j)) = Some tx)"
      using that assms(1) by (auto simp: settled_elsewhere_iff xs_def) (metis less_trans nat_neq_iff)
    moreover have "\<not> (\<exists>j<length ys. map_option sp_transactionId (pc_settlement (ys ! j)) = Some tx)"
    proof
      assume "\<exists>j<length ys. map_option sp_transactionId (pc_settlement (ys ! j)) = Some tx"
      then obtain j where j: "j < length ys" "map_option sp_transactionId (pc_settlement (ys ! j)) = Some tx" by blast
      then have "Suc i + j < length cs" "map_option sp_transactionId (pc_settlement (cs ! (Suc i + j))) = Some tx"
        using assms(1) by (simp_all add: ys_def)
      then have "settled_elsewhere cs i tx" unfolding settled_elsewhere_iff by (intro exI [of _ "Suc i + j"]) simp
      then show False using that by blast
    qed
    ultimately show ?thesis by (simp add: settlement_ids_mem)
  qed
  show ?thesis
  proof (cases "pc_settlement c")
    case None
    then show ?thesis using assms(3) unfolding cs(2) by (subst (asm) cs(1)) (auto split: option.splits)
  next
    case (Some s)
    then show ?thesis
      using assms(3) assms(2) [OF Some] e [of "sp_transactionId s"]
      unfolding cs(2) by (subst (asm) cs(1)) (auto split: option.splits)
  qed
qed

lemma claims_ok_transition:
  assumes "claims_ok claims" "transitionIn claims t = Inr (c, claims')"
  shows "claims_ok claims'"
proof -
  obtain i where i: "findIndex (\<lambda>c. action_of c = ct_actionId t) claims = Some i"
    and d: "claims' = claims \<or> claims' = claims[i := next_claim t (claims ! i)]
       \<and> (\<forall>s. ct_settlement t = Some s \<longrightarrow> \<not> settled_elsewhere claims i (sp_transactionId s))"
    using assms(2) by (auto simp: transition_iff)
  note l = findIndex_Some [OF i]
  let ?n = "next_claim t (claims ! i)"
  have k: "map f (claims[i := ?n]) = map f claims" if "f ?n = f (claims ! i)" for f :: "PaymentClaim \<Rightarrow> 'z"
    using that l by (simp add: map_update list_update_same_conv)
  have m: "map action_of (claims[i := ?n]) = map action_of claims" "map payload_of (claims[i := ?n]) = map payload_of claims"
    "map pc_schemaVersion (claims[i := ?n]) = map pc_schemaVersion claims" by (rule k, simp)+
  have v: "list_all (\<lambda>c. pc_schemaVersion c = PAYMENT_CLAIM_SCHEMA) xs
      \<longleftrightarrow> list_all (\<lambda>s. s = PAYMENT_CLAIM_SCHEMA) (map pc_schemaVersion xs)" for xs by (simp add: list.pred_map comp_def)
  from d show ?thesis
  proof
    assume u: "claims' = claims[i := ?n] \<and> (\<forall>s. ct_settlement t = Some s \<longrightarrow> \<not> settled_elsewhere claims i (sp_transactionId s))"
    then have "distinct (settlement_ids claims')"
      using l assms(1) by (auto intro!: update_settlements simp: or_else_def claims_ok_def split: option.splits)
    then show ?thesis using u assms(1) m v [of claims'] v [of claims] by (simp add: claims_ok_def)
  qed (use assms(1) in simp)
qed

text \<open>Bindings are never rewritten and claims never dropped.\<close>

definition journal_extends :: "PaymentClaim list \<Rightarrow> PaymentClaim list \<Rightarrow> bool" where
  "journal_extends cs cs' \<longleftrightarrow> length cs \<le> length cs' \<and>
     (\<forall>i<length cs. pc_binding (cs' ! i) = pc_binding (cs ! i) \<and> pc_createdAt (cs' ! i) = pc_createdAt (cs ! i)
        \<and> pc_claimVersion (cs ! i) \<le> pc_claimVersion (cs' ! i))"

lemma journal_refl: "journal_extends cs cs"
  by (simp add: journal_extends_def)

lemma journal_trans: "journal_extends a b \<Longrightarrow> journal_extends b c \<Longrightarrow> journal_extends a c"
  unfolding journal_extends_def by (metis order_trans less_le_trans)

lemma journal_acquire: "acquireIn h cs b now = Inr (r, cs') \<Longrightarrow> journal_extends cs cs'"
  by (cases r) (auto simp: acquire_iff journal_extends_def nth_append)

lemma journal_transition: "transitionIn cs t = Inr (c, cs') \<Longrightarrow> journal_extends cs cs'"
  by (auto simp: transition_iff journal_extends_def nth_list_update next_claim_def dest: findIndex_Some)

subsection \<open>The contract of a claim store\<close>

datatype 'i claim_call = Acquire 'i PaymentClaimBinding string | Transition 'i claim_transition

definition run_call ::
  "('i \<Rightarrow> PaymentClaimBinding \<Rightarrow> string \<Rightarrow> 's \<Rightarrow> (claim_error + PaymentClaim \<times> acquire_outcome) \<times> 's)
    \<Rightarrow> ('i \<Rightarrow> claim_transition \<Rightarrow> 's \<Rightarrow> (claim_error + PaymentClaim) \<times> 's) \<Rightarrow> 'i claim_call \<Rightarrow> 's \<Rightarrow> 's" where
  "run_call acquire transition call s =
     (case call of Acquire i b now \<Rightarrow> snd (acquire i b now s) | Transition i t \<Rightarrow> snd (transition i t s))"

locale claim_store =
  fixes h :: hash_fn
    and claims_of :: "'s \<Rightarrow> PaymentClaim list"
    and sound :: "'s \<Rightarrow> bool"
    and acquire :: "'i \<Rightarrow> PaymentClaimBinding \<Rightarrow> string \<Rightarrow> 's \<Rightarrow> (claim_error + PaymentClaim \<times> acquire_outcome) \<times> 's"
    and transition :: "'i \<Rightarrow> claim_transition \<Rightarrow> 's \<Rightarrow> (claim_error + PaymentClaim) \<times> 's"
  assumes acquire_ok: "sound s \<Longrightarrow> acquire i b now s = (Inr r, s')
      \<Longrightarrow> acquireIn h (claims_of s) b now = Inr (r, claims_of s') \<and> sound s'"
    and acquire_error: "sound s \<Longrightarrow> acquire i b now s = (Inl e, s') \<Longrightarrow> s' = s"
    and transition_ok: "sound s \<Longrightarrow> transition i t s = (Inr c, s')
      \<Longrightarrow> transitionIn (claims_of s) t = Inr (c, claims_of s') \<and> sound s'"
    and transition_error: "sound s \<Longrightarrow> transition i t s = (Inl e, s') \<Longrightarrow> s' = s"
begin

lemma acquire_keeps:
  assumes "sound s" "claims_ok (claims_of s)" "acquire i b now s = (out, s')"
  shows "sound s' \<and> claims_ok (claims_of s') \<and> journal_extends (claims_of s) (claims_of s')"
proof (cases out)
  case (Inl e)
  then show ?thesis using assms acquire_error [OF assms(1), of i b now e s'] journal_refl by simp
next
  case (Inr r)
  note a = acquire_ok [OF assms(1) assms(3) [unfolded Inr]]
  then show ?thesis using claims_ok_acquire [OF assms(2)] journal_acquire by (cases r) blast
qed

lemma transition_keeps:
  assumes "sound s" "claims_ok (claims_of s)" "transition i t s = (out, s')"
  shows "sound s' \<and> claims_ok (claims_of s') \<and> journal_extends (claims_of s) (claims_of s')"
proof (cases out)
  case (Inl e)
  then show ?thesis using assms transition_error [OF assms(1), of i t e s'] journal_refl by simp
next
  case (Inr c)
  note a = transition_ok [OF assms(1) assms(3) [unfolded Inr]]
  then show ?thesis using claims_ok_transition [OF assms(2)] journal_transition by blast
qed

lemma call_keeps:
  assumes "sound s" "claims_ok (claims_of s)"
  shows "sound (run_call acquire transition call s) \<and> claims_ok (claims_of (run_call acquire transition call s))
    \<and> journal_extends (claims_of s) (claims_of (run_call acquire transition call s))"
proof (cases call)
  case (Acquire i b now)
  then show ?thesis using acquire_keeps [OF assms prod.collapse [symmetric]] by (simp add: run_call_def)
next
  case (Transition i t)
  then show ?thesis using transition_keeps [OF assms prod.collapse [symmetric]] by (simp add: run_call_def)
qed

lemma calls_keep:
  assumes "sound s" "claims_ok (claims_of s)"
  shows "sound (fold (run_call acquire transition) calls s)
    \<and> claims_ok (claims_of (fold (run_call acquire transition) calls s))
    \<and> journal_extends (claims_of s) (claims_of (fold (run_call acquire transition) calls s))"
  using assms
proof (induction calls arbitrary: s)
  case (Cons call calls)
  note k = call_keeps [OF Cons.prems, of call]
  then show ?case using Cons.IH [of "run_call acquire transition call s"] journal_trans by auto
qed (simp add: journal_refl)

end

definition file_claims :: "claim_file \<Rightarrow> PaymentClaim list" where
  "file_claims f = (case f of None \<Rightarrow> [] | Some v \<Rightarrow> env_claims v)"

definition file_sound :: "claim_file \<Rightarrow> bool" where
  "file_sound f \<longleftrightarrow> (\<forall>v. f = Some v \<longrightarrow> env_schemaVersion v = CLAIM_ENVELOPE_SCHEMA
     \<and> list_all (\<lambda>c. pc_schemaVersion c = PAYMENT_CLAIM_SCHEMA) (env_claims v))"

lemma mutate_error: "mutate io fn f = (Inl e, f') \<Longrightarrow> f' = f"
  by (auto simp: mutate_def split: if_splits sum.splits)

lemma mutate_ok:
  assumes "file_sound f" "mutate io fn f = (Inr r, f')"
  shows "\<exists>claims. fn (file_claims f) = Inr (r, claims) \<and> file_claims f' = claims
    \<and> f' = Some \<lparr> env_schemaVersion = CLAIM_ENVELOPE_SCHEMA, env_claims = claims \<rparr>"
  using assms
  by (cases f; cases io)
    (auto simp: mutate_def read_claims_def parseEnvelope_def file_sound_def file_claims_def res_simps
      split: if_splits sum.splits prod.splits)

lemma schema_acquire:
  "acquireIn h cs b now = Inr (r, cs') \<Longrightarrow> list_all (\<lambda>c. pc_schemaVersion c = PAYMENT_CLAIM_SCHEMA) cs
    \<Longrightarrow> list_all (\<lambda>c. pc_schemaVersion c = PAYMENT_CLAIM_SCHEMA) cs'"
  by (cases r) (auto simp: acquire_iff createClaim_def)

lemma schema_transition:
  "transitionIn cs t = Inr (c, cs') \<Longrightarrow> list_all (\<lambda>c. pc_schemaVersion c = PAYMENT_CLAIM_SCHEMA) cs
    \<Longrightarrow> list_all (\<lambda>c. pc_schemaVersion c = PAYMENT_CLAIM_SCHEMA) cs'"
  by (auto simp: transition_iff list_all_length nth_list_update dest: findIndex_Some)

lemma file_sound_claims: "file_sound f \<Longrightarrow> list_all (\<lambda>c. pc_schemaVersion c = PAYMENT_CLAIM_SCHEMA) (file_claims f)"
  by (auto simp: file_sound_def file_claims_def split: option.splits)

interpretation mem_cs: claim_store h id "\<lambda>_. True" "\<lambda>_::unit. mem_acquire h" "\<lambda>_::unit. mem_transition" for h
  by unfold_locales (auto simp: mem_acquire_def mem_transition_def split: sum.splits prod.splits)

lemma file_acquire_ok:
  assumes "file_sound s" "file_acquire h i b now s = (Inr r, s')"
  shows "acquireIn h (file_claims s) b now = Inr (r, file_claims s') \<and> file_sound s'"
proof -
  obtain claims where c: "acquireIn h (file_claims s) b now = Inr (r, claims)" "file_claims s' = claims"
    and s': "s' = Some \<lparr> env_schemaVersion = CLAIM_ENVELOPE_SCHEMA, env_claims = claims \<rparr>"
    using mutate_ok [OF assms(1) assms(2) [unfolded file_acquire_def]] by blast
  have "file_sound s'"
    unfolding s' using schema_acquire [OF c(1) file_sound_claims [OF assms(1)]] by (simp add: file_sound_def)
  then show ?thesis using c by blast
qed

lemma file_transition_ok:
  assumes "file_sound s" "file_transition i t s = (Inr c, s')"
  shows "transitionIn (file_claims s) t = Inr (c, file_claims s') \<and> file_sound s'"
proof -
  obtain claims where d: "transitionIn (file_claims s) t = Inr (c, claims)" "file_claims s' = claims"
    and s': "s' = Some \<lparr> env_schemaVersion = CLAIM_ENVELOPE_SCHEMA, env_claims = claims \<rparr>"
    using mutate_ok [OF assms(1) assms(2) [unfolded file_transition_def]] by blast
  have "file_sound s'"
    unfolding s' using schema_transition [OF d(1) file_sound_claims [OF assms(1)]] by (simp add: file_sound_def)
  then show ?thesis using d by blast
qed

interpretation file_cs: claim_store h file_claims file_sound "file_acquire h" "file_transition" for h
proof
  fix s i b now r s'
  assume "file_sound s" "file_acquire h i b now s = (Inr r, s')"
  then show "acquireIn h (file_claims s) b now = Inr (r, file_claims s') \<and> file_sound s'" by (rule file_acquire_ok)
next
  fix s i t c s'
  assume "file_sound s" "file_transition i t s = (Inr c, s')"
  then show "transitionIn (file_claims s) t = Inr (c, file_claims s') \<and> file_sound s'" by (rule file_transition_ok)
next
  fix s i b now e s'
  assume "file_acquire h i b now s = (Inl e, s')"
  then show "s' = s" unfolding file_acquire_def by (rule mutate_error)
next
  fix s i t e s'
  assume "file_transition i t s = (Inl e, s')"
  then show "s' = s" unfolding file_transition_def by (rule mutate_error)
qed

lemma settlement_unique:
  assumes "distinct (settlement_ids cs)" "c \<in> set cs" "d \<in> set cs"
    and "pc_settlement c = Some x" "pc_settlement d = Some y" "sp_transactionId x = sp_transactionId y"
  shows "c = d"
  using assms(1-3)
proof (induction cs)
  case (Cons a cs)
  have m: "sp_transactionId z \<in> set (settlement_ids cs)" if e: "e \<in> set cs" "pc_settlement e = Some z" for e z
  proof -
    obtain i where "i < length cs" "cs ! i = e" using e(1) unfolding in_set_conv_nth by blast
    then show ?thesis using e(2) unfolding settlement_ids_mem by (intro exI [of _ i]) simp
  qed
  consider "c = a" "d = a" | "c = a" "d \<in> set cs" | "c \<in> set cs" "d = a" | "c \<in> set cs" "d \<in> set cs"
    using Cons.prems by auto
  then show ?case
  proof cases
    case 2
    then show ?thesis using Cons.prems(1) m [OF 2(2) assms(5)] assms(4,6) by simp
  next
    case 3
    then show ?thesis using Cons.prems(1) m [OF 3(1) assms(4)] assms(5,6) by simp
  next
    case 4
    then show ?thesis using Cons.prems(1) Cons.IH by (simp split: option.splits)
  qed simp
qed simp

lemma claims_ok_exclusive:
  assumes "claims_ok cs" "c \<in> set cs" "d \<in> set cs"
    and "action_of c = action_of d \<or> payload_of c = payload_of d
       \<or> (\<exists>x y. pc_settlement c = Some x \<and> pc_settlement d = Some y \<and> sp_transactionId x = sp_transactionId y)"
  shows "c = d"
proof -
  have "inj_on action_of (set cs)" "inj_on payload_of (set cs)" "distinct (settlement_ids cs)"
    using assms(1) by (simp_all add: claims_ok_def distinct_map)
  then show ?thesis using assms(2-4) settlement_unique [of cs c d] by (blast dest: inj_onD)
qed

definition file_run :: "hash_fn \<Rightarrow> claim_io claim_call list \<Rightarrow> PaymentClaim list" where
  "file_run h calls = file_claims (fold (run_call (file_acquire h) file_transition) calls None)"

text \<open>
  C13. One payment buys one action.  After any sequence of calls on the file
  store, starting with no journal and with any of the calls hit by a busy lock, a
  failed read or a failed write, two claims of the journal that share an action id, a
  payment payload or a settlement transaction are the same claim; and whatever further
  calls do, every claim of the journal stays in it with its binding.\<close>

theorem claims_are_exclusive:
  assumes "c \<in> set (file_run h calls)" "d \<in> set (file_run h calls)"
    and "pb_actionId (pc_binding c) = pb_actionId (pc_binding d)
       \<or> pb_paymentPayloadHash (pc_binding c) = pb_paymentPayloadHash (pc_binding d)
       \<or> (\<exists>x y. pc_settlement c = Some x \<and> pc_settlement d = Some y \<and> sp_transactionId x = sp_transactionId y)"
  shows "c = d \<and> journal_extends (file_run h calls) (file_run h (calls @ later))"
proof -
  have z: "file_sound None" "claims_ok (file_claims None)" by (simp_all add: file_sound_def file_claims_def claims_ok_def)
  note k = file_cs.calls_keep [OF z, of h calls]
  then have "journal_extends (file_run h calls) (file_run h (calls @ later))"
    using file_cs.calls_keep [of _ h later] by (auto simp: file_run_def)
  then show ?thesis
    using claims_ok_exclusive [OF _ assms] k by (simp add: file_run_def)
qed

definition demo_binding :: "string \<Rightarrow> string \<Rightarrow> PaymentClaimBinding" where
  "demo_binding action payload = \<lparr> pb_actionType = ''TENDER_ACTIVATE'', pb_actionId = action, pb_tenderId = ''T1'',
     pb_tenderVersion = 1, pb_bidId = None, pb_payerAccount = ''0.0.5'', pb_payTo = ''0.0.9'', pb_asset = ''0.0.429274'',
     pb_amountAtomic = ''1000'', pb_resource = ''/r'', pb_paymentPayloadHash = payload, pb_requestHash = ''q'' \<rparr>"

definition demo_calls :: "claim_io claim_call list" where
  "demo_calls = [Acquire ClaimIoOk (demo_binding ''a'' ''p'') ''t'', Acquire ClaimIoOk (demo_binding ''b'' ''p'') ''t'']"

lemma claims_are_exclusive_witness:
  "\<exists>c. file_run (\<lambda>s. []) demo_calls = [c] \<and> (\<forall>d\<in>set (file_run (\<lambda>s. []) demo_calls). c = d)"
proof -
  let ?c = "createClaim (demo_binding ''a'' ''p'') ''t''"
  have cs: "file_run (\<lambda>s. []) demo_calls = [?c]" by code_simp
  then have m: "?c \<in> set (file_run (\<lambda>s. []) demo_calls)" by simp
  have "?c = d" if "d \<in> set (file_run (\<lambda>s. []) demo_calls)" for d
    using claims_are_exclusive [OF m that] that cs by simp
  then show ?thesis using cs by auto
qed

end
