(* ===== verification/Access_Bids.thy ===== *)
theory Access_Bids
  imports Auction_Domain
begin

text \<open>
  Bids of the paid route: \<^verbatim>\<open>src/v2/schemas/bid.ts\<close>, \<^verbatim>\<open>src/v2/store/bid-body-store.ts\<close>
  and the commitment hash of \<^verbatim>\<open>src/v2/hcs/outbox.ts\<close>.

  The schema reads a JSON value; zod's strictness is the check that no other key is
  present.  A file of the file store is the typed value it was printed from; what the
  file system does in one call is the argument \<open>io\<close>.
\<close>

subsection \<open>The bid schema\<close>

record V2CarrierBid =
  vb_bidId :: string
  vb_tenderId :: string
  vb_tenderVersion :: int
  vb_carrierId :: string
  vb_carrierAccountId :: string
  vb_freightAmountAtomic :: string
  vb_equipment :: string
  vb_proposedPickupAt :: string
  vb_estimatedDelivery :: string
  vb_capacityConfirmed :: bool
  vb_bidValidUntil :: string
  vb_commitmentSalt :: string
  vb_nonce :: string
  vb_version :: int

definition V2_BID_KEYS :: "string list" where
  "V2_BID_KEYS = [''bidId'', ''tenderId'', ''tenderVersion'', ''carrierId'', ''carrierAccountId'', ''freightAmountAtomic'',
     ''equipment'', ''proposedPickupAt'', ''estimatedDelivery'', ''capacityConfirmed'', ''bidValidUntil'',
     ''commitmentSalt'', ''nonce'', ''version'']"

definition strict_keys :: "string list \<Rightarrow> json \<Rightarrow> bool" where
  "strict_keys keys v = (case v of JObj ps \<Rightarrow> list_all (\<lambda>p. List.member keys (fst p)) ps | _ \<Rightarrow> False)"

definition V2CarrierBidSchema :: "V2CarrierBid \<Rightarrow> bool" where
  "V2CarrierBidSchema b \<longleftrightarrow>
     len_between 1 128 (vb_bidId b) \<and> len_between 1 128 (vb_tenderId b) \<and> isSafePositiveInteger (vb_tenderVersion b)
     \<and> len_between 1 128 (vb_carrierId b) \<and> len_between 1 64 (vb_carrierAccountId b)
     \<and> isValidHederaAccountId (vb_carrierAccountId b) \<and> isPositiveAtomicString (vb_freightAmountAtomic b)
     \<and> len_between 1 128 (vb_equipment b) \<and> isUtcIsoTimestamp (vb_proposedPickupAt b)
     \<and> isUtcIsoTimestamp (vb_estimatedDelivery b) \<and> isUtcIsoTimestamp (vb_bidValidUntil b)
     \<and> len_between 1 128 (vb_nonce b) \<and> isSafePositiveInteger (vb_version b)
     \<and> is_hex64 (vb_commitmentSalt b) \<and> \<not> vb_estimatedDelivery b < vb_proposedPickupAt b"

definition parseV2CarrierBid :: "json \<Rightarrow> auction_error + V2CarrierBid" where
  "parseV2CarrierBid v =
     bind_res (str_prop v ''bidId'') (\<lambda>bidId.
     bind_res (str_prop v ''tenderId'') (\<lambda>tenderId.
     bind_res (num_prop v ''tenderVersion'') (\<lambda>tenderVersion.
     bind_res (str_prop v ''carrierId'') (\<lambda>carrierId.
     bind_res (str_prop v ''carrierAccountId'') (\<lambda>carrierAccountId.
     bind_res (str_prop v ''freightAmountAtomic'') (\<lambda>freightAmountAtomic.
     bind_res (str_prop v ''equipment'') (\<lambda>equipment.
     bind_res (str_prop v ''proposedPickupAt'') (\<lambda>proposedPickupAt.
     bind_res (str_prop v ''estimatedDelivery'') (\<lambda>estimatedDelivery.
     bind_res (bool_prop v ''capacityConfirmed'') (\<lambda>capacityConfirmed.
     bind_res (str_prop v ''bidValidUntil'') (\<lambda>bidValidUntil.
     bind_res (str_prop v ''commitmentSalt'') (\<lambda>commitmentSalt.
     bind_res (str_prop v ''nonce'') (\<lambda>nonce.
     bind_res (num_prop v ''version'') (\<lambda>version.
       let b = \<lparr> vb_bidId = bidId, vb_tenderId = tenderId, vb_tenderVersion = tenderVersion, vb_carrierId = carrierId,
         vb_carrierAccountId = carrierAccountId, vb_freightAmountAtomic = freightAmountAtomic,
         vb_equipment = equipment, vb_proposedPickupAt = proposedPickupAt,
         vb_estimatedDelivery = estimatedDelivery, vb_capacityConfirmed = capacityConfirmed,
         vb_bidValidUntil = bidValidUntil, vb_commitmentSalt = commitmentSalt, vb_nonce = nonce, vb_version = version \<rparr> in
       if strict_keys V2_BID_KEYS v \<and> V2CarrierBidSchema b then Inr b else Inl SchemaInvalid))))))))))))))"

definition v2_bid_json :: "V2CarrierBid \<Rightarrow> json" where
  "v2_bid_json b = JObj
     [(''bidId'', JStr (vb_bidId b)), (''tenderId'', JStr (vb_tenderId b)), (''tenderVersion'', JNum (vb_tenderVersion b)),
      (''carrierId'', JStr (vb_carrierId b)), (''carrierAccountId'', JStr (vb_carrierAccountId b)),
      (''freightAmountAtomic'', JStr (vb_freightAmountAtomic b)), (''equipment'', JStr (vb_equipment b)),
      (''proposedPickupAt'', JStr (vb_proposedPickupAt b)), (''estimatedDelivery'', JStr (vb_estimatedDelivery b)),
      (''capacityConfirmed'', JBool (vb_capacityConfirmed b)), (''bidValidUntil'', JStr (vb_bidValidUntil b)),
      (''commitmentSalt'', JStr (vb_commitmentSalt b)), (''nonce'', JStr (vb_nonce b)), (''version'', JNum (vb_version b))]"

definition v2BidHash :: "hash_fn \<Rightarrow> V2CarrierBid \<Rightarrow> auction_error + string" where
  "v2BidHash sha256 b =
     bind_res (parseV2CarrierBid (v2_bid_json b)) (\<lambda>v. map_err AuctionHash (canonicalSha256 sha256 (v2_bid_json v)))"

definition signedV2BidEnvelopeHash :: "hash_fn \<Rightarrow> V2CarrierBid \<Rightarrow> string \<Rightarrow> auction_error + string" where
  "signedV2BidEnvelopeHash sha256 b signature =
     bind_res (parseV2CarrierBid (v2_bid_json b)) (\<lambda>v. map_err AuctionHash (canonicalSha256 sha256
       (JObj [(''bid'', v2_bid_json v), (''signature'', JStr signature)])))"

definition bidCommitmentPayloadHash :: "hash_fn \<Rightarrow> string \<Rightarrow> string \<Rightarrow> string \<Rightarrow> string \<Rightarrow> canonical_error + string" where
  "bidCommitmentPayloadHash sha256 bidId carrierId hash accessPaymentTxId =
     canonicalSha256 sha256 (JObj [(''bidId'', JStr bidId), (''carrierId'', JStr carrierId), (''bidHash'', JStr hash),
       (''accessPaymentTxId'', JStr accessPaymentTxId)])"

subsection \<open>The store of bid bodies\<close>

record StoredBidBody =
  sb_bidHash :: string
  sb_signedBidEnvelopeHash :: string
  sb_bid :: V2CarrierBid
  sb_signature :: string
  sb_storedAt :: string

datatype body_error =
    BodyBelongsElsewhere | BidBodyConflict string | BodyDocument auction_error | UnsafeSegment | BodyVersion | BodyIoFailure

definition SAFE_SEGMENT_RE :: "string \<Rightarrow> bool" where
  "SAFE_SEGMENT_RE s = (case s of [] \<Rightarrow> False
     | c # cs \<Rightarrow> (is_digit c \<or> in_range CHR ''a'' CHR ''z'' c \<or> in_range CHR ''A'' CHR ''Z'' c) \<and> length cs \<le> 127
        \<and> list_all (\<lambda>d. is_digit d \<or> in_range CHR ''a'' CHR ''z'' d \<or> in_range CHR ''A'' CHR ''Z'' d
             \<or> List.member ''._-'' d) cs)"

definition bodyKey :: "string \<Rightarrow> int \<Rightarrow> string \<Rightarrow> string" where
  "bodyKey tenderId tenderVersion bidId = tenderId @ ''|'' @ int_str tenderVersion @ ''|'' @ bidId"

definition buildStored :: "hash_fn \<Rightarrow> V2CarrierBid \<Rightarrow> string \<Rightarrow> string \<Rightarrow> body_error + StoredBidBody" where
  "buildStored sha256 b signature storedAt =
     map_err BodyDocument (
       bind_res (parseV2CarrierBid (v2_bid_json b)) (\<lambda>bid.
       bind_res (v2BidHash sha256 bid) (\<lambda>hash.
       bind_res (signedV2BidEnvelopeHash sha256 bid signature) (\<lambda>envelopeHash.
         Inr \<lparr> sb_bidHash = hash, sb_signedBidEnvelopeHash = envelopeHash, sb_bid = bid, sb_signature = signature,
               sb_storedAt = storedAt \<rparr>))))"

definition assertMatchesTender :: "V2CarrierBid \<Rightarrow> string \<Rightarrow> int \<Rightarrow> body_error + unit" where
  "assertMatchesTender b tenderId tenderVersion =
     (if vb_tenderId b \<noteq> tenderId \<or> vb_tenderVersion b \<noteq> tenderVersion then Inl BodyBelongsElsewhere else Inr ())"

type_synonym bid_bodies = "(string \<times> StoredBidBody) list"

definition mem_put ::
  "hash_fn \<Rightarrow> string \<Rightarrow> int \<Rightarrow> V2CarrierBid \<Rightarrow> string \<Rightarrow> string \<Rightarrow> bid_bodies
     \<Rightarrow> (body_error + StoredBidBody) \<times> bid_bodies" where
  "mem_put sha256 tenderId tenderVersion b signature storedAt bodies =
     (case bind_res (assertMatchesTender b tenderId tenderVersion) (\<lambda>_. buildStored sha256 b signature storedAt) of
        Inl e \<Rightarrow> (Inl e, bodies)
      | Inr stored \<Rightarrow>
          (case map_of bodies (bodyKey tenderId tenderVersion (vb_bidId b)) of
             Some existing \<Rightarrow>
               if sb_signedBidEnvelopeHash existing \<noteq> sb_signedBidEnvelopeHash stored
               then (Inl (BidBodyConflict (vb_bidId b)), bodies) else (Inr existing, bodies)
           | None \<Rightarrow> (Inr stored, AList.update (bodyKey tenderId tenderVersion (vb_bidId b)) stored bodies)))"

definition mem_get_body :: "string \<Rightarrow> int \<Rightarrow> string \<Rightarrow> bid_bodies \<Rightarrow> StoredBidBody option" where
  "mem_get_body tenderId tenderVersion bidId bodies = map_of bodies (bodyKey tenderId tenderVersion bidId)"

datatype body_io = BodyIoOk | BodyReadFails | BodyWriteFails

type_synonym body_files = "(string \<times> StoredBidBody) list"

definition filePath :: "string \<Rightarrow> int \<Rightarrow> string \<Rightarrow> body_error + string" where
  "filePath tenderId tenderVersion bidId =
     (if \<not> SAFE_SEGMENT_RE tenderId \<or> \<not> SAFE_SEGMENT_RE bidId then Inl UnsafeSegment
      else if \<not> isSafePositiveInteger tenderVersion then Inl BodyVersion
      else Inr (''bid-'' @ tenderId @ ''-v'' @ int_str tenderVersion @ ''-'' @ bidId @ ''.json''))"

definition file_get_body ::
  "hash_fn \<Rightarrow> body_io \<Rightarrow> string \<Rightarrow> int \<Rightarrow> string \<Rightarrow> body_files \<Rightarrow> body_error + StoredBidBody option" where
  "file_get_body sha256 io tenderId tenderVersion bidId files =
     bind_res (filePath tenderId tenderVersion bidId) (\<lambda>fp.
     if io = BodyReadFails then Inl BodyIoFailure
     else case map_of files fp of
       None \<Rightarrow> Inr None
     | Some f \<Rightarrow> bind_res (buildStored sha256 (sb_bid f) (sb_signature f) (sb_storedAt f)) (\<lambda>s. Inr (Some s)))"

definition file_put ::
  "hash_fn \<Rightarrow> body_io \<Rightarrow> string \<Rightarrow> int \<Rightarrow> V2CarrierBid \<Rightarrow> string \<Rightarrow> string \<Rightarrow> body_files
     \<Rightarrow> (body_error + StoredBidBody) \<times> body_files" where
  "file_put sha256 io tenderId tenderVersion b signature storedAt files =
     (case bind_res (assertMatchesTender b tenderId tenderVersion) (\<lambda>_.
           bind_res (buildStored sha256 b signature storedAt) (\<lambda>stored.
           bind_res (file_get_body sha256 io tenderId tenderVersion (vb_bidId b) files) (\<lambda>existing.
           bind_res (filePath tenderId tenderVersion (vb_bidId b)) (\<lambda>fp. Inr (stored, existing, fp))))) of
        Inl e \<Rightarrow> (Inl e, files)
      | Inr (stored, Some existing, fp) \<Rightarrow>
          if sb_signedBidEnvelopeHash existing \<noteq> sb_signedBidEnvelopeHash stored
          then (Inl (BidBodyConflict (vb_bidId b)), files) else (Inr existing, files)
      | Inr (stored, None, fp) \<Rightarrow>
          if io = BodyWriteFails then (Inl BodyIoFailure, files) else (Inr stored, AList.update fp stored files))"

subsection \<open>Parsed bids\<close>

lemma parseV2_sound: "parseV2CarrierBid v = Inr b \<Longrightarrow> V2CarrierBidSchema b"
  by (auto simp: parseV2CarrierBid_def res_simps Let_def split: if_splits)

lemma parseV2_json: "parseV2CarrierBid (v2_bid_json b) = (if V2CarrierBidSchema b then Inr b else Inl SchemaInvalid)"
  by (cases b) (simp add: parseV2CarrierBid_def v2_bid_json_def str_prop_def num_prop_def bool_prop_def get_prop_def
      strict_keys_def V2_BID_KEYS_def Let_def)

lemma v2_bid_has_text [simp]: "has_text (v2_bid_json b)"
  by (simp add: v2_bid_json_def has_text_JObj)

lemma signed_has_text [simp]: "has_text (JObj [(''bid'', v2_bid_json b), (''signature'', JStr s)])"
  by (simp add: has_text_JObj)

lemma buildStored_Inr:
  assumes "buildStored h b signature t = Inr s"
  shows "V2CarrierBidSchema b" "sb_bid s = b" "sb_signature s = signature" "sb_storedAt s = t"
    "v2BidHash h b = Inr (sb_bidHash s)" "signedV2BidEnvelopeHash h b signature = Inr (sb_signedBidEnvelopeHash s)"
    "buildStored h (sb_bid s) (sb_signature s) (sb_storedAt s) = Inr s"
  using assms by (auto simp: buildStored_def parseV2_json res_simps split: if_splits)

subsection \<open>The contract of a body store\<close>

text \<open>
  What the route relies on: a stored body is found again, an identical body is
  accepted as a repeat, and a successful put never replaces a body.
\<close>

definition keeps_bodies :: "('s \<Rightarrow> string \<Rightarrow> StoredBidBody option) \<Rightarrow> 's \<Rightarrow> 's \<Rightarrow> bool" where
  "keeps_bodies look s s' \<longleftrightarrow> (\<forall>k v. look s k = Some v \<longrightarrow> look s' k = Some v)"

locale body_store =
  fixes h :: hash_fn
    and look :: "'s \<Rightarrow> string \<Rightarrow> StoredBidBody option"
    and key :: "string \<Rightarrow> int \<Rightarrow> string \<Rightarrow> string option"
    and put :: "'i \<Rightarrow> string \<Rightarrow> int \<Rightarrow> V2CarrierBid \<Rightarrow> string \<Rightarrow> string \<Rightarrow> 's \<Rightarrow> (body_error + StoredBidBody) \<times> 's"
    and sound :: "'s \<Rightarrow> bool"
  assumes put_ok: "sound s \<Longrightarrow> put i t v b sg at s = (Inr r, s') \<Longrightarrow>
      sound s' \<and> (\<exists>k n. key t v (vb_bidId b) = Some k \<and> look s' k = Some r \<and> buildStored h b sg at = Inr n
        \<and> sb_signedBidEnvelopeHash r = sb_signedBidEnvelopeHash n
        \<and> (look s k = Some r \<or> look s k = None \<and> r = n)
        \<and> (\<forall>k'. k' \<noteq> k \<longrightarrow> look s' k' = look s k'))"
    and put_error: "put i t v b sg at s = (Inl e, s') \<Longrightarrow> s' = s"
begin

lemma put_keeps:
  assumes "sound s" "put i t v b sg at s = (out, s')"
  shows "sound s' \<and> keeps_bodies look s s'"
proof (cases out)
  case (Inl e)
  then show ?thesis using assms put_error [of i t v b sg at s e s'] by (simp add: keeps_bodies_def)
next
  case (Inr r)
  show ?thesis using put_ok [OF assms(1) assms(2) [unfolded Inr]] unfolding keeps_bodies_def by (metis option.distinct(1))
qed

lemma put_repeat_conflict:
  assumes "sound s" "put i t v b sg at s = (Inr r, s1)" "sound s2" "keeps_bodies look s1 s2"
    and "put j t v b' sg' at' s2 = (Inr r', s3)" "vb_bidId b' = vb_bidId b"
  shows "r' = r \<and> signedV2BidEnvelopeHash h b' sg' = Inr (sb_signedBidEnvelopeHash r)"
proof -
  obtain k where k: "key t v (vb_bidId b) = Some k" "look s1 k = Some r" using put_ok [OF assms(1,2)] by blast
  have l: "look s2 k = Some r" using k(2) assms(4) by (simp add: keeps_bodies_def)
  obtain n where n: "look s2 k = Some r' \<or> look s2 k = None \<and> r' = n" "buildStored h b' sg' at' = Inr n"
    "sb_signedBidEnvelopeHash r' = sb_signedBidEnvelopeHash n"
    using put_ok [OF assms(3,5)] k(1) assms(6) by auto
  then show ?thesis using l buildStored_Inr(6) [OF n(2)] by simp
qed

end

interpretation mem_bodies: body_store h map_of "\<lambda>t v b. Some (bodyKey t v b)" "\<lambda>_::unit. mem_put h" "\<lambda>_. True" for h
  by unfold_locales
    (auto simp: mem_put_def res_simps update_conv' split: sum.splits option.splits if_splits)

definition body_files_sound :: "hash_fn \<Rightarrow> body_files \<Rightarrow> bool" where
  "body_files_sound h files \<longleftrightarrow> (\<forall>p f. map_of files p = Some f \<longrightarrow>
     buildStored h (sb_bid f) (sb_signature f) (sb_storedAt f) = Inr f)"

interpretation file_bodies: body_store h map_of "\<lambda>t v b. case filePath t v b of Inl _ \<Rightarrow> None | Inr p \<Rightarrow> Some p"
    "file_put h" "body_files_sound h" for h
  by unfold_locales
    (auto simp: file_put_def file_get_body_def body_files_sound_def res_simps update_conv' buildStored_Inr(7)
      split: sum.splits option.splits if_splits prod.splits)

lemma delivery_order_is_textual:
  "isUtcIsoTimestamp ''2026-01-01T00:00:00.5Z'' \<and> isUtcIsoTimestamp ''2026-01-01T00:00:00Z''
   \<and> isBeforeUtc ''2026-01-01T00:00:00Z'' ''2026-01-01T00:00:00.5Z'' = Inr True
   \<and> \<not> ''2026-01-01T00:00:00Z'' < ''2026-01-01T00:00:00.5Z''"
  by code_simp

lemma body_paths_collide:
  "filePath ''a-v1-b'' 1 ''c'' = filePath ''a'' 1 ''b-v1-c'' \<and> is_ok (filePath ''a'' 1 ''b-v1-c'')"
  by code_simp

end
