(* ===== verification/Access_Gate.thy ===== *)
theory Access_Gate
  imports Payment_Claims Access_Bids Record_Validator
begin

text \<open>
  The x402 access gate: \<^verbatim>\<open>src/v2/config.ts\<close>, \<^verbatim>\<open>src/v2/access/x402-gate.ts\<close>,
  \<^verbatim>\<open>src/domain/payment-payload-canonical.ts\<close> and the error codes of
  \<^verbatim>\<open>src/v2/http/errors.ts\<close>.

  The x402 packages are outside the repository.  What one request gets from them is
  a record of answers (\<open>x402_answers\<close>): the payment requirements built from the
  configuration, the body of a challenge, the requirement that matches a payload, the facilitator's answer to
  verify and to settle.  A call that throws answers \<open>None\<close>.  Decoding the payment header
  is a parameter as well.  A payment payload is the JSON value the decoder returns.
\<close>

subsection \<open>Configuration\<close>

definition V2_ACCESS_ROUTES_ENV_KEY :: string where "V2_ACCESS_ROUTES_ENV_KEY = ''ENABLE_V2_ACCESS_ROUTES''"
definition V2_ACCESS_MAX_TIMEOUT_SECONDS :: int where "V2_ACCESS_MAX_TIMEOUT_SECONDS = 180"
definition ACCESS_TREASURY_ENV_KEY :: string where
  "ACCESS_TREASURY_ENV_KEY = ''ROUTEGUARD_ACCESS_TREASURY_ACCOUNT_ID''"

record V2AccessConfig =
  cf_enabled :: bool
  cf_network :: string
  cf_scheme :: string
  cf_accessTreasuryAccountId :: string
  cf_asset :: string
  cf_amountAtomic :: string
  cf_maxTimeoutSeconds :: int

datatype config_error = TREASURY_MISSING | TREASURY_INVALID | ASSET_INVALID | FeeUnavailable amount_error

definition resolveV2AccessConfig :: "(string \<Rightarrow> string option) \<Rightarrow> config_error + V2AccessConfig" where
  "resolveV2AccessConfig env =
     (let enabled = (env V2_ACCESS_ROUTES_ENV_KEY = Some ''true'');
          rawTreasury = (case env ACCESS_TREASURY_ENV_KEY of None \<Rightarrow> [] | Some v \<Rightarrow> js_trim v);
          token = (case env ''USDC_TOKEN_ID'' of None \<Rightarrow> [] | Some v \<Rightarrow> js_trim v);
          asset = (if token = [] then VERIFIED_USDC_TOKEN_ID else token)
      in if enabled \<and> rawTreasury = [] then Inl TREASURY_MISSING
         else if enabled \<and> \<not> isValidHederaAccountId rawTreasury then Inl TREASURY_INVALID
         else if enabled \<and> asset \<noteq> VERIFIED_USDC_TOKEN_ID then Inl ASSET_INVALID
         else bind_res (map_err FeeUnavailable deriveAccessFeeAtomic) (\<lambda>fee.
           Inr \<lparr> cf_enabled = enabled, cf_network = ''hedera:testnet'', cf_scheme = ''exact'',
                 cf_accessTreasuryAccountId = rawTreasury, cf_asset = asset, cf_amountAtomic = fee,
                 cf_maxTimeoutSeconds = V2_ACCESS_MAX_TIMEOUT_SECONDS \<rparr>))"

definition assertUsableV2AccessConfig :: "V2AccessConfig \<Rightarrow> config_error + unit" where
  "assertUsableV2AccessConfig config =
     (if \<not> isValidHederaAccountId (cf_accessTreasuryAccountId config)
      then Inl (if cf_accessTreasuryAccountId config = [] then TREASURY_MISSING else TREASURY_INVALID)
      else if cf_asset config \<noteq> VERIFIED_USDC_TOKEN_ID then Inl ASSET_INVALID
      else bind_res (map_err FeeUnavailable deriveAccessFeeAtomic) (\<lambda>fee.
        if cf_amountAtomic config \<noteq> fee then Inl ASSET_INVALID else Inr ()))"

subsection \<open>Errors\<close>

text \<open>
  An exception of the access routes: the two error classes with a code, the errors of the
  components the routes call, a request body that fails its schema, and any other exception.
\<close>

datatype access_error =
    V2AccessError string
  | AccessPaymentError string
  | ClaimStoreFailure claim_error
  | TenderStoreFailure store_error
  | HashFailure canonical_error
  | ResourceFailure resource_error
  | BodyFailure body_error
  | DocumentFailure auction_error
  | AuthFailure auth_error
  | TimeFailure time_error
  | ZodError
  | OtherException

definition V2_ACCESS_STATUS :: "(string \<times> nat) list" where
  "V2_ACCESS_STATUS =
     [(''TENDER_NOT_FOUND'', 404), (''TENDER_VERSION_MISMATCH'', 404), (''INVALID_LIFECYCLE_STATE'', 409),
      (''ESCROW_NOT_CONFIRMED'', 409), (''AUCTION_CLOSED'', 409), (''BID_INVALID'', 400), (''BID_INELIGIBLE'', 422),
      (''PAYMENT_REQUIRED'', 402), (''PAYMENT_INVALID'', 402), (''PAYMENT_RESOURCE_MISMATCH'', 402),
      (''PAYMENT_AMOUNT_MISMATCH'', 402), (''PAYMENT_ASSET_MISMATCH'', 402), (''PAYMENT_RECIPIENT_MISMATCH'', 402),
      (''PAYMENT_SCHEME_MISMATCH'', 402), (''PAYMENT_NETWORK_MISMATCH'', 402), (''PAYMENT_SETTLEMENT_FAILED'', 402),
      (''PAYMENT_CLAIM_CONFLICT'', 409), (''PAYMENT_SETTLEMENT_UNKNOWN'', 503), (''PAYMENT_ALREADY_USED'', 409),
      (''PAYMENT_RECOVERY_FAILED'', 503), (''RESOURCE_COMMIT_FAILED'', 503), (''PAYMENT_REPLAY'', 409),
      (''ACTION_ID_CONFLICT'', 409), (''PERSISTENCE_CONFLICT'', 409), (''ACCESS_NOT_CONFIGURED'', 503),
      (''INTERNAL_ERROR'', 500)]"

definition v2AccessErrorStatus :: "string \<Rightarrow> nat" where
  "v2AccessErrorStatus code = (case map_of V2_ACCESS_STATUS code of None \<Rightarrow> 400 | Some n \<Rightarrow> n)"

subsection \<open>The gate\<close>

definition TRANSACTION_REF_RE :: "string \<Rightarrow> bool" where
  "TRANSACTION_REF_RE s \<longleftrightarrow> 1 \<le> length s \<and> length s \<le> 128
     \<and> list_all (\<lambda>c. in_range CHR ''A'' CHR ''Z'' c \<or> in_range CHR ''a'' CHR ''z'' c \<or> is_digit c
          \<or> List.member ''._@:-'' c) s"

definition ACCESS_PAYMENT_HEADERS :: "string list" where
  "ACCESS_PAYMENT_HEADERS = [''payment-signature'', ''x-payment'']"

primrec first_header :: "(string \<Rightarrow> string option) \<Rightarrow> string list \<Rightarrow> string option" where
  "first_header header [] = None"
| "first_header header (name # names) =
     (case header name of
        None \<Rightarrow> first_header header names
      | Some value \<Rightarrow> if js_trim value \<noteq> [] then Some (js_trim value) else first_header header names)"

definition readAccessPaymentHeader :: "(string \<Rightarrow> string option) \<Rightarrow> string option" where
  "readAccessPaymentHeader header = first_header header ACCESS_PAYMENT_HEADERS"

record AccessActionBinding =
  ab_actionType :: string
  ab_tenderId :: string
  ab_tenderVersion :: int
  ab_bidId :: "string option"
  ab_resource :: string
  ab_description :: string

record PaymentRequirements =
  rq_scheme :: string
  rq_network :: string
  rq_asset :: string
  rq_amount :: string
  rq_payTo :: string
  rq_maxTimeoutSeconds :: int

record VerifiedAccessPayment =
  vp_payload :: json
  vp_requirements :: PaymentRequirements
  vp_payerAccount :: string
  vp_paymentPayloadHash :: string
  vp_binding :: AccessActionBinding

text \<open>Answers of the facilitator; an absent property is \<open>JUndefined\<close>.\<close>

record verify_response =
  vr_isValid :: bool
  vr_payer :: json

record settle_response =
  sr_success :: bool
  sr_transaction :: json
  sr_network :: json
  sr_payer :: json
  sr_consensusTimestamp :: json

record x402_answers =
  xa_buildPaymentRequirements :: "PaymentRequirements \<Rightarrow> PaymentRequirements list option"
  xa_createPaymentRequiredResponse :: "PaymentRequirements list \<Rightarrow> string \<Rightarrow> string \<Rightarrow> string \<Rightarrow> (string \<times> json) list"
  xa_findMatchingRequirements :: "PaymentRequirements list \<Rightarrow> json \<Rightarrow> PaymentRequirements option"
  xa_verifyPayment :: "verify_response option"
  xa_settlePayment :: "settle_response option"

definition access_requirements :: "V2AccessConfig \<Rightarrow> PaymentRequirements" where
  "access_requirements config = \<lparr> rq_scheme = cf_scheme config, rq_network = cf_network config, rq_asset = cf_asset config,
     rq_amount = cf_amountAtomic config, rq_payTo = cf_accessTreasuryAccountId config,
     rq_maxTimeoutSeconds = cf_maxTimeoutSeconds config \<rparr>"

definition requirementsFor :: "V2AccessConfig \<Rightarrow> x402_answers \<Rightarrow> access_error + PaymentRequirements list" where
  "requirementsFor config x402 =
     of_option OtherException (xa_buildPaymentRequirements x402 (access_requirements config))"

definition paymentRequired ::
  "V2AccessConfig \<Rightarrow> x402_answers \<Rightarrow> AccessActionBinding \<Rightarrow> string \<Rightarrow> access_error + (string \<times> json) list" where
  "paymentRequired config x402 binding error =
     bind_res (requirementsFor config x402) (\<lambda>requirements.
       Inr (xa_createPaymentRequiredResponse x402 requirements (ab_resource binding) (ab_description binding) error))"

definition is_object :: "json option \<Rightarrow> bool" where
  "is_object v = (case v of Some (JObj _) \<Rightarrow> True | Some (JArr _) \<Rightarrow> True | _ \<Rightarrow> False)"

definition decodePayment :: "(string \<Rightarrow> json option) \<Rightarrow> string \<Rightarrow> access_error + json" where
  "decodePayment decodePaymentSignatureHeader rawHeader =
     (case decodePaymentSignatureHeader rawHeader of
        None \<Rightarrow> Inl (AccessPaymentError ''PAYMENT_INVALID'')
      | Some payload \<Rightarrow>
          if \<not> is_object (Some payload) \<or> (case get_prop payload ''x402Version'' of
                Some (JNum _) \<Rightarrow> False | Some JNonFinite \<Rightarrow> False | _ \<Rightarrow> True)
             \<or> \<not> is_object (get_prop payload ''accepted'') \<or> \<not> is_object (get_prop payload ''payload'')
          then Inl (AccessPaymentError ''PAYMENT_INVALID'') else Inr payload)"

definition accepted_is :: "json \<Rightarrow> string \<Rightarrow> string \<Rightarrow> bool" where
  "accepted_is payload key value \<longleftrightarrow>
     (case get_prop payload ''accepted'' of None \<Rightarrow> False | Some accepted \<Rightarrow> get_prop accepted key = Some (JStr value))"

definition declared_resource :: "json \<Rightarrow> json option" where
  "declared_resource payload =
     (case get_prop payload ''resource'' of None \<Rightarrow> None | Some r \<Rightarrow> get_prop r ''url'')"

definition assertBinding :: "V2AccessConfig \<Rightarrow> json \<Rightarrow> AccessActionBinding \<Rightarrow> access_error + unit" where
  "assertBinding config payload binding =
     (if \<not> accepted_is payload ''scheme'' (cf_scheme config) then Inl (AccessPaymentError ''PAYMENT_SCHEME_MISMATCH'')
      else if \<not> accepted_is payload ''network'' (cf_network config)
      then Inl (AccessPaymentError ''PAYMENT_NETWORK_MISMATCH'')
      else if \<not> accepted_is payload ''asset'' (cf_asset config) then Inl (AccessPaymentError ''PAYMENT_ASSET_MISMATCH'')
      else if \<not> accepted_is payload ''amount'' (cf_amountAtomic config)
      then Inl (AccessPaymentError ''PAYMENT_AMOUNT_MISMATCH'')
      else if \<not> accepted_is payload ''payTo'' (cf_accessTreasuryAccountId config)
      then Inl (AccessPaymentError ''PAYMENT_RECIPIENT_MISMATCH'')
      else case declared_resource payload of
        Some (JStr url) \<Rightarrow>
          if url = [] \<or> url \<noteq> ab_resource binding then Inl (AccessPaymentError ''PAYMENT_RESOURCE_MISMATCH'') else Inr ()
      | _ \<Rightarrow> Inl (AccessPaymentError ''PAYMENT_RESOURCE_MISMATCH''))"

definition omitUndefinedObjectProperties :: "json \<Rightarrow> json" where
  "omitUndefinedObjectProperties v =
     (case v of JObj ps \<Rightarrow> JObj (filter (\<lambda>(k, x). x \<noteq> JUndefined) ps) | _ \<Rightarrow> v)"

text \<open>\<open>typeof v === "string"\<close>.\<close>

definition as_string :: "json \<Rightarrow> string option" where
  "as_string v = (case v of JStr s \<Rightarrow> Some s | _ \<Rightarrow> None)"

definition verify ::
  "hash_fn \<Rightarrow> V2AccessConfig \<Rightarrow> x402_answers \<Rightarrow> json \<Rightarrow> AccessActionBinding \<Rightarrow> access_error + VerifiedAccessPayment" where
  "verify sha256 config x402 payload binding =
     bind_res (assertBinding config payload binding) (\<lambda>_.
     bind_res (requirementsFor config x402) (\<lambda>requirements.
     bind_res (of_option (AccessPaymentError ''PAYMENT_INVALID'')
       (xa_findMatchingRequirements x402 requirements payload)) (\<lambda>matched.
     bind_res (of_option OtherException (xa_verifyPayment x402)) (\<lambda>verified.
     if \<not> vr_isValid verified then Inl (AccessPaymentError ''PAYMENT_INVALID'')
     else
       bind_res (of_option (AccessPaymentError ''PAYMENT_INVALID'') (as_string (vr_payer verified))) (\<lambda>payer.
       if \<not> isValidHederaAccountId payer \<or> payer = cf_accessTreasuryAccountId config
       then Inl (AccessPaymentError ''PAYMENT_INVALID'')
       else
         bind_res (map_err HashFailure (canonicalSha256 sha256 (omitUndefinedObjectProperties payload))) (\<lambda>hash.
         Inr \<lparr> vp_payload = payload, vp_requirements = matched, vp_payerAccount = payer,
               vp_paymentPayloadHash = hash, vp_binding = binding \<rparr>))))))"

definition settled_payer :: "settle_response \<Rightarrow> VerifiedAccessPayment \<Rightarrow> json" where
  "settled_payer answer v =
     (if sr_payer answer = JUndefined \<or> sr_payer answer = JNull then JStr (vp_payerAccount v) else sr_payer answer)"

definition settleVerified ::
  "V2AccessConfig \<Rightarrow> x402_answers \<Rightarrow> string \<Rightarrow> VerifiedAccessPayment \<Rightarrow> access_error + SettledAccessPayment" where
  "settleVerified config x402 now v =
     bind_res (of_option OtherException (xa_settlePayment x402)) (\<lambda>answer.
     if \<not> sr_success answer then Inl (AccessPaymentError ''PAYMENT_SETTLEMENT_FAILED'')
     else
       bind_res (of_option (AccessPaymentError ''PAYMENT_INVALID'') (as_string (sr_transaction answer))) (\<lambda>transactionId.
       if \<not> TRANSACTION_REF_RE transactionId then Inl (AccessPaymentError ''PAYMENT_INVALID'')
       else if sr_network answer \<noteq> JStr (cf_network config) then Inl (AccessPaymentError ''PAYMENT_NETWORK_MISMATCH'')
       else
         bind_res (of_option (AccessPaymentError ''PAYMENT_INVALID'') (as_string (settled_payer answer v))) (\<lambda>payerAccount.
         if \<not> isValidHederaAccountId payerAccount then Inl (AccessPaymentError ''PAYMENT_INVALID'')
         else if payerAccount = cf_accessTreasuryAccountId config
         then Inl (AccessPaymentError ''PAYMENT_RECIPIENT_MISMATCH'')
         else Inr \<lparr> sp_transactionId = transactionId, sp_payerAccount = payerAccount,
           sp_payTo = rq_payTo (vp_requirements v), sp_asset = rq_asset (vp_requirements v),
           sp_amountAtomic = rq_amount (vp_requirements v), sp_resource = ab_resource (vp_binding v),
           sp_paymentPayloadHash = vp_paymentPayloadHash v,
           sp_consensusTimestamp = (case as_string (sr_consensusTimestamp answer) of
              Some t \<Rightarrow> if isUtcIsoTimestamp t then t else now | None \<Rightarrow> now),
           sp_settledAt = now \<rparr>)))"

definition verifyAndSettle ::
  "hash_fn \<Rightarrow> V2AccessConfig \<Rightarrow> x402_answers \<Rightarrow> string \<Rightarrow> json \<Rightarrow> AccessActionBinding
     \<Rightarrow> access_error + SettledAccessPayment" where
  "verifyAndSettle sha256 config x402 now payload binding =
     bind_res (verify sha256 config x402 payload binding) (settleVerified config x402 now)"

subsection \<open>What the gate lets through\<close>

definition declares_terms :: "V2AccessConfig \<Rightarrow> AccessActionBinding \<Rightarrow> json \<Rightarrow> bool" where
  "declares_terms config binding payload \<longleftrightarrow>
     accepted_is payload ''scheme'' (cf_scheme config) \<and> accepted_is payload ''network'' (cf_network config)
     \<and> accepted_is payload ''asset'' (cf_asset config) \<and> accepted_is payload ''amount'' (cf_amountAtomic config)
     \<and> accepted_is payload ''payTo'' (cf_accessTreasuryAccountId config)
     \<and> ab_resource binding \<noteq> [] \<and> declared_resource payload = Some (JStr (ab_resource binding))"

lemma assertBinding_ok: "assertBinding config payload binding = Inr () \<longleftrightarrow> declares_terms config binding payload"
  by (auto simp: assertBinding_def declares_terms_def split: option.splits json.splits if_splits)

lemma verify_ok:
  assumes "verify h config x402 payload binding = Inr v"
  shows "declares_terms config binding payload" "vp_payload v = payload" "vp_binding v = binding"
    "isValidHederaAccountId (vp_payerAccount v)" "vp_payerAccount v \<noteq> cf_accessTreasuryAccountId config"
    "canonicalSha256 h (omitUndefinedObjectProperties payload) = Inr (vp_paymentPayloadHash v)"
  using assms by (auto simp: verify_def res_simps assertBinding_ok split: if_splits)

lemma settleVerified_ok:
  assumes "settleVerified config x402 now v = Inr s"
  shows "sp_payTo s = rq_payTo (vp_requirements v)" "sp_paymentPayloadHash s = vp_paymentPayloadHash v"
    "sp_payerAccount s \<noteq> cf_accessTreasuryAccountId config" "TRANSACTION_REF_RE (sp_transactionId s)"
    "isUtcIsoTimestamp now \<Longrightarrow> isUtcIsoTimestamp (sp_consensusTimestamp s)"
  using assms by (auto simp: settleVerified_def res_simps split: if_splits option.split)

lemma resolved_config_usable:
  assumes "resolveV2AccessConfig env = Inr config" "cf_enabled config"
  shows "assertUsableV2AccessConfig config = Inr ()"
  using assms
  by (auto simp: resolveV2AccessConfig_def assertUsableV2AccessConfig_def Let_def res_simps split: if_splits)

end
