(* ===== verification/Access_Claims.thy ===== *)
theory Access_Claims
  imports Lifecycle_Service Access_Gate Access_Bids
begin

text \<open>
  Paying for one protected action, \<open>executePaymentClaim\<close> and its helpers in
  \<^verbatim>\<open>src/v2/http/routes.ts\<close>.

  The handler is a state machine: between two phases it awaits one call, on the
  journal of claims, on the x402 packages, on the reconciler or on the tender store.  A
  phase is the place where the handler waits together with its local variables, and
  \<open>exec_step\<close> runs it from one await to the next.  What the outside world does
  during a step is an argument (\<open>step_answers\<close>); other requests may run in between
  (\<open>access_run\<close>), and a request that never moves again has crashed.  The fault
  injector of the crash tests is not set in production and left out.
\<close>

subsection \<open>The request\<close>

datatype commit_action = CommitActivation | CommitBid string StoredBidBody

record ExecuteClaimInput =
  xi_actionId :: string
  xi_binding :: AccessActionBinding
  xi_requestHash :: string
  xi_rawPayment :: "string option"
  xi_commit :: commit_action
  xi_resultRef :: PaymentClaimResultRef

record access_deps =
  ad_sha256 :: hash_fn
  ad_ecdsa :: ecdsa_fn
  ad_carriers :: "carrier_registry option"
  ad_decode :: "string \<Rightarrow> json option"
  ad_config :: V2AccessConfig

datatype PaymentReconciliationResult =
  RECONCILE_CONFIRMED SettledAccessPayment | RECONCILE_FAILED string | RECONCILE_UNKNOWN

text \<open>The answers one step may need: the clock, the file systems, x402, the reconciler (\<open>None\<close>: it throws).\<close>

record step_answers =
  sa_now :: string
  sa_claim_io :: claim_io
  sa_store_io :: file_io
  sa_x402 :: x402_answers
  sa_reconcile :: "PaymentClaim \<Rightarrow> PaymentReconciliationResult option"

text \<open>The durable state, and the log of the settlements asked of the facilitator (by action id).\<close>

record access_world =
  aw_journal :: claim_file
  aw_tenders :: lifecycle_files
  aw_settles :: "string list"

definition fullClaimBinding :: "V2AccessConfig \<Rightarrow> ExecuteClaimInput \<Rightarrow> VerifiedAccessPayment \<Rightarrow> PaymentClaimBinding" where
  "fullClaimBinding config x v = \<lparr> pb_actionType = ab_actionType (xi_binding x), pb_actionId = xi_actionId x,
     pb_tenderId = ab_tenderId (xi_binding x), pb_tenderVersion = ab_tenderVersion (xi_binding x),
     pb_bidId = ab_bidId (xi_binding x), pb_payerAccount = vp_payerAccount v,
     pb_payTo = cf_accessTreasuryAccountId config, pb_asset = cf_asset config, pb_amountAtomic = cf_amountAtomic config,
     pb_resource = ab_resource (xi_binding x), pb_paymentPayloadHash = vp_paymentPayloadHash v,
     pb_requestHash = xi_requestHash x \<rparr>"

definition claim_matches :: "string \<Rightarrow> AccessActionBinding \<Rightarrow> string \<Rightarrow> PaymentClaim \<Rightarrow> bool" where
  "claim_matches actionId binding requestHash claim \<longleftrightarrow>
     (let b = pc_binding claim in
      pb_actionType b = ab_actionType binding \<and> pb_actionId b = actionId \<and> pb_tenderId b = ab_tenderId binding
      \<and> pb_tenderVersion b = ab_tenderVersion binding \<and> pb_bidId b = ab_bidId binding
      \<and> pb_resource b = ab_resource binding \<and> pb_requestHash b = requestHash)"

definition assertClaimMatches :: "string \<Rightarrow> AccessActionBinding \<Rightarrow> string \<Rightarrow> PaymentClaim \<Rightarrow> access_error + unit" where
  "assertClaimMatches actionId binding requestHash claim =
     (if \<not> claim_matches actionId binding requestHash claim then Inl (V2AccessError ''ACTION_ID_CONFLICT'') else Inr ())"

definition settlement_matches :: "PaymentClaimBinding \<Rightarrow> SettledAccessPayment \<Rightarrow> bool" where
  "settlement_matches b s \<longleftrightarrow> sp_payerAccount s = pb_payerAccount b \<and> sp_payTo s = pb_payTo b \<and> sp_asset s = pb_asset b
     \<and> sp_amountAtomic s = pb_amountAtomic b \<and> sp_resource s = pb_resource b
     \<and> sp_paymentPayloadHash s = pb_paymentPayloadHash b"

definition assertSettlementMatchesClaim :: "PaymentClaim \<Rightarrow> SettledAccessPayment \<Rightarrow> access_error + unit" where
  "assertSettlementMatchesClaim claim s =
     (if \<not> settlement_matches (pc_binding claim) s then Inl (V2AccessError ''PAYMENT_RECOVERY_FAILED'') else Inr ())"

definition commitActivation :: "string \<Rightarrow> SettledAccessPayment \<Rightarrow> LifecycleEvent" where
  "commitActivation actionId payment = \<lparr> ev_actionId = actionId, ev_eventTime = sp_settledAt payment,
     ev_body = TENDER_ACTIVATION_PAID \<lparr> ta_accessActionType = ''TENDER_ACTIVATE'', ta_asset = sp_asset payment,
       ta_amountAtomic = sp_amountAtomic payment, ta_resource = sp_resource payment,
       ta_paymentTransactionId = sp_transactionId payment, ta_paymentPayloadHash = sp_paymentPayloadHash payment,
       ta_payerAccount = sp_payerAccount payment, ta_payTo = sp_payTo payment \<rparr> \<rparr>"

definition commitBid ::
  "hash_fn \<Rightarrow> string \<Rightarrow> string \<Rightarrow> StoredBidBody \<Rightarrow> SettledAccessPayment \<Rightarrow> canonical_error + LifecycleEvent" where
  "commitBid sha256 actionId signedAt stored payment =
     (let bid = sb_bid stored in
      bind_res (bidCommitmentPayloadHash sha256 (vb_bidId bid) (vb_carrierId bid) (sb_bidHash stored)
        (sp_transactionId payment)) (\<lambda>commitment.
      Inr \<lparr> ev_actionId = actionId, ev_eventTime = sp_settledAt payment,
        ev_body = BID_SUBMISSION_PAID \<lparr> bs_accessActionType = ''BID_SUBMIT'', bs_bidId = vb_bidId bid,
          bs_carrierId = vb_carrierId bid, bs_carrierAccountId = vb_carrierAccountId bid, bs_bidHash = sb_bidHash stored,
          bs_signedBidEnvelopeHash = sb_signedBidEnvelopeHash stored, bs_commitmentPayloadHash = commitment,
          bs_carrierSignature = sb_signature stored, bs_signedAt = signedAt, bs_asset = sp_asset payment,
          bs_amountAtomic = sp_amountAtomic payment, bs_resource = sp_resource payment,
          bs_paymentTransactionId = sp_transactionId payment, bs_paymentPayloadHash = sp_paymentPayloadHash payment,
          bs_payerAccount = sp_payerAccount payment, bs_payTo = sp_payTo payment \<rparr> \<rparr>))"

definition commit_event :: "hash_fn \<Rightarrow> ExecuteClaimInput \<Rightarrow> SettledAccessPayment \<Rightarrow> canonical_error + LifecycleEvent" where
  "commit_event sha256 x payment =
     (case xi_commit x of
        CommitActivation \<Rightarrow> Inr (commitActivation (xi_actionId x) payment)
      | CommitBid signedAt stored \<Rightarrow> commitBid sha256 (xi_actionId x) signedAt stored payment)"

subsection \<open>The phases\<close>

datatype exec_phase =
    XRead
  | XVerify string
  | XAcquire VerifiedAccessPayment
  | XCommitted PaymentClaim
  | XReconcile PaymentClaim
  | XReverify PaymentClaim string
  | XBegin VerifiedAccessPayment
  | XSettle PaymentClaim VerifiedAccessPayment
  | XRecordFailure string access_error
  | XRecordSettlement SettledAccessPayment
  | XPlan SettledAccessPayment
  | XCas SettledAccessPayment LifecycleRecord LifecycleRecord
  | XFinish SettledAccessPayment LifecycleRecord
  | XDone "access_error + LifecycleRecord"

abbreviation failed_with :: "string \<Rightarrow> exec_phase" where
  "failed_with code \<equiv> XDone (Inl (V2AccessError code))"

text \<open>After the claim is ready to be committed.\<close>

definition ready_to_commit :: "PaymentClaim \<Rightarrow> exec_phase" where
  "ready_to_commit claim =
     (case pc_settlement claim of
        Some s \<Rightarrow> if pc_state claim \<noteq> SETTLED_PENDING_COMMIT then failed_with ''PAYMENT_RECOVERY_FAILED'' else XPlan s
      | None \<Rightarrow> failed_with ''PAYMENT_RECOVERY_FAILED'')"

text \<open>The branches on the state of the claim, \<open>verified\<close> being set only when this request acquired it.\<close>

definition with_claim :: "ExecuteClaimInput \<Rightarrow> VerifiedAccessPayment option \<Rightarrow> PaymentClaim \<Rightarrow> exec_phase" where
  "with_claim x verified claim =
     (case assertClaimMatches (xi_actionId x) (xi_binding x) (xi_requestHash x) claim of
        Inl e \<Rightarrow> XDone (Inl e)
      | Inr _ \<Rightarrow>
         (case pc_state claim of
            COMMITTED \<Rightarrow> XCommitted claim
          | FAILED \<Rightarrow>
              failed_with (if pc_retryable claim = Some True then ''PAYMENT_RECOVERY_FAILED'' else ''PAYMENT_SETTLEMENT_FAILED'')
          | SETTLING \<Rightarrow> XReconcile claim
          | CLAIMED \<Rightarrow>
              (case verified of
                 Some v \<Rightarrow> XBegin v
               | None \<Rightarrow> if absent (xi_rawPayment x) then failed_with ''PAYMENT_RECOVERY_FAILED''
                         else XReverify claim (the (xi_rawPayment x)))
          | SETTLED_PENDING_COMMIT \<Rightarrow> ready_to_commit claim))"

definition transition_to :: "ExecuteClaimInput \<Rightarrow> step_answers \<Rightarrow> PaymentClaimState \<Rightarrow> PaymentClaimState \<Rightarrow> claim_transition" where
  "transition_to x a from to = \<lparr> ct_actionId = xi_actionId x, ct_from = [from], ct_to = to, ct_now = sa_now a,
     ct_settlement = None, ct_resultRef = None, ct_failureCode = None, ct_retryable = None \<rparr>"

definition verify_raw ::
  "access_deps \<Rightarrow> ExecuteClaimInput \<Rightarrow> step_answers \<Rightarrow> string \<Rightarrow> access_error + VerifiedAccessPayment" where
  "verify_raw d x a raw =
     bind_res (decodePayment (ad_decode d) raw) (\<lambda>payload.
       verify (ad_sha256 d) (ad_config d) (sa_x402 a) payload (xi_binding x))"

text \<open>A call of the journal: its error ends the request, its result continues it.\<close>

definition on_journal ::
  "(claim_file \<Rightarrow> (claim_error + 'r) \<times> claim_file) \<Rightarrow> ('r \<Rightarrow> exec_phase) \<Rightarrow> access_world
     \<Rightarrow> exec_phase \<times> access_world" where
  "on_journal call cont w =
     (case call (aw_journal w) of
        (Inl e, f) \<Rightarrow> (XDone (Inl (ClaimStoreFailure e)), w \<lparr> aw_journal := f \<rparr>)
      | (Inr r, f) \<Rightarrow> (cont r, w \<lparr> aw_journal := f \<rparr>))"

definition step_read :: "ExecuteClaimInput \<Rightarrow> step_answers \<Rightarrow> access_world \<Rightarrow> exec_phase" where
  "step_read x a w =
     (case file_getByActionId (sa_claim_io a) (xi_actionId x) (aw_journal w) of
        Inl e \<Rightarrow> XDone (Inl (ClaimStoreFailure e))
      | Inr (Some claim) \<Rightarrow> with_claim x None claim
      | Inr None \<Rightarrow> if absent (xi_rawPayment x) then failed_with ''PAYMENT_REQUIRED'' else XVerify (the (xi_rawPayment x)))"

definition step_committed :: "access_deps \<Rightarrow> PaymentClaim \<Rightarrow> access_world \<Rightarrow> exec_phase" where
  "step_committed d claim w =
     (case readRecord (ad_sha256 d) (pb_tenderId (pc_binding claim)) (aw_tenders w) of
        Inl e \<Rightarrow> XDone (Inl (TenderStoreFailure e))
      | Inr None \<Rightarrow> failed_with ''PAYMENT_RECOVERY_FAILED''
      | Inr (Some record) \<Rightarrow>
          if prior_action record (action_of claim) = None then failed_with ''PAYMENT_RECOVERY_FAILED''
          else XDone (Inr record))"

definition step_reconcile :: "step_answers \<Rightarrow> PaymentClaim \<Rightarrow> exec_phase" where
  "step_reconcile a claim =
     (case sa_reconcile a claim of
        None \<Rightarrow> XDone (Inl OtherException)
      | Some RECONCILE_UNKNOWN \<Rightarrow> failed_with ''PAYMENT_SETTLEMENT_UNKNOWN''
      | Some (RECONCILE_FAILED code) \<Rightarrow> XRecordFailure code (V2AccessError ''PAYMENT_SETTLEMENT_FAILED'')
      | Some (RECONCILE_CONFIRMED s) \<Rightarrow>
          (case assertSettlementMatchesClaim claim s of Inl e \<Rightarrow> XDone (Inl e) | Inr _ \<Rightarrow> XRecordSettlement s))"

definition step_reverify ::
  "access_deps \<Rightarrow> ExecuteClaimInput \<Rightarrow> step_answers \<Rightarrow> PaymentClaim \<Rightarrow> string \<Rightarrow> exec_phase" where
  "step_reverify d x a claim raw =
     (case bind_res (verify_raw d x a raw) (\<lambda>v.
        bind_res (map_err HashFailure (canonicalSha256 (ad_sha256 d) (binding_json (fullClaimBinding (ad_config d) x v)))) (\<lambda>m.
        bind_res (map_err HashFailure (canonicalSha256 (ad_sha256 d) (binding_json (pc_binding claim)))) (\<lambda>n.
        if m \<noteq> n then Inl (V2AccessError ''PAYMENT_CLAIM_CONFLICT'') else Inr v))) of
        Inl e \<Rightarrow> XDone (Inl e)
      | Inr v \<Rightarrow> XBegin v)"

definition step_settle :: "access_deps \<Rightarrow> step_answers \<Rightarrow> PaymentClaim \<Rightarrow> VerifiedAccessPayment \<Rightarrow> exec_phase" where
  "step_settle d a claim v =
     (case settleVerified (ad_config d) (sa_x402 a) (sa_now a) v of
        Inl (AccessPaymentError code) \<Rightarrow> XRecordFailure code (AccessPaymentError code)
      | Inl _ \<Rightarrow> failed_with ''PAYMENT_SETTLEMENT_UNKNOWN''
      | Inr s \<Rightarrow>
          (case assertSettlementMatchesClaim claim s of Inl e \<Rightarrow> XDone (Inl e) | Inr _ \<Rightarrow> XRecordSettlement s))"

definition step_plan :: "access_deps \<Rightarrow> ExecuteClaimInput \<Rightarrow> SettledAccessPayment \<Rightarrow> access_world \<Rightarrow> exec_phase" where
  "step_plan d x s w =
     (case commit_event (ad_sha256 d) x s of
        Inl _ \<Rightarrow> failed_with ''RESOURCE_COMMIT_FAILED''
      | Inr event \<Rightarrow>
          (case readRecord (ad_sha256 d) (ab_tenderId (xi_binding x)) (aw_tenders w) of
             Inr (Some current) \<Rightarrow>
               (case plan_event (ad_sha256 d) (ad_ecdsa d) (ad_carriers d) current event of
                  Inl _ \<Rightarrow> failed_with ''RESOURCE_COMMIT_FAILED''
                | Inr Replay \<Rightarrow> XFinish s current
                | Inr (Commit nxt) \<Rightarrow> XCas s current nxt)
           | _ \<Rightarrow> failed_with ''RESOURCE_COMMIT_FAILED''))"

definition step_cas ::
  "access_deps \<Rightarrow> ExecuteClaimInput \<Rightarrow> step_answers \<Rightarrow> SettledAccessPayment \<Rightarrow> LifecycleRecord \<Rightarrow> LifecycleRecord
     \<Rightarrow> access_world \<Rightarrow> exec_phase \<times> access_world" where
  "step_cas d x a s current nxt w =
     (case file_compareAndSet (ad_sha256 d) (sa_store_io a) (ab_tenderId (xi_binding x)) (lr_recordVersion current) nxt
         (aw_tenders w) of
        (Inl _, ts) \<Rightarrow> (failed_with ''RESOURCE_COMMIT_FAILED'', w \<lparr> aw_tenders := ts \<rparr>)
      | (Inr record, ts) \<Rightarrow> (XFinish s record, w \<lparr> aw_tenders := ts \<rparr>))"

primrec exec_step ::
  "access_deps \<Rightarrow> ExecuteClaimInput \<Rightarrow> step_answers \<Rightarrow> exec_phase \<Rightarrow> access_world \<Rightarrow> exec_phase \<times> access_world" where
  "exec_step d x a XRead w = (step_read x a w, w)"
| "exec_step d x a (XVerify raw) w =
     (case verify_raw d x a raw of Inl e \<Rightarrow> (XDone (Inl e), w) | Inr v \<Rightarrow> (XAcquire v, w))"
| "exec_step d x a (XAcquire v) w =
     on_journal (file_acquire (ad_sha256 d) (sa_claim_io a) (fullClaimBinding (ad_config d) x v) (sa_now a))
       (\<lambda>(claim, outcome). with_claim x (Some v) claim) w"
| "exec_step d x a (XCommitted claim) w = (step_committed d claim w, w)"
| "exec_step d x a (XReconcile claim) w = (step_reconcile a claim, w)"
| "exec_step d x a (XReverify claim raw) w = (step_reverify d x a claim raw, w)"
| "exec_step d x a (XBegin v) w =
     on_journal (file_transition (sa_claim_io a) (transition_to x a CLAIMED SETTLING)) (\<lambda>claim. XSettle claim v) w"
| "exec_step d x a (XSettle claim v) w = (step_settle d a claim v, w \<lparr> aw_settles := aw_settles w @ [xi_actionId x] \<rparr>)"
| "exec_step d x a (XRecordFailure code e) w =
     on_journal (file_transition (sa_claim_io a) ((transition_to x a SETTLING FAILED)
       \<lparr> ct_failureCode := Some code, ct_retryable := Some False \<rparr>)) (\<lambda>_. XDone (Inl e)) w"
| "exec_step d x a (XRecordSettlement s) w =
     on_journal (file_transition (sa_claim_io a) ((transition_to x a SETTLING SETTLED_PENDING_COMMIT)
       \<lparr> ct_settlement := Some s \<rparr>)) ready_to_commit w"
| "exec_step d x a (XPlan s) w = (step_plan d x s w, w)"
| "exec_step d x a (XCas s current nxt) w = step_cas d x a s current nxt w"
| "exec_step d x a (XFinish s record) w =
     on_journal (file_transition (sa_claim_io a) ((transition_to x a SETTLED_PENDING_COMMIT COMMITTED)
       \<lparr> ct_resultRef := Some (xi_resultRef x) \<rparr>)) (\<lambda>_. XDone (Inr record)) w"
| "exec_step d x a (XDone r) w = (XDone r, w)"

text \<open>One request alone: one answer for each step; a list that ends early is a crash.\<close>

primrec exec_run ::
  "access_deps \<Rightarrow> ExecuteClaimInput \<Rightarrow> step_answers list \<Rightarrow> exec_phase \<times> access_world \<Rightarrow> exec_phase \<times> access_world" where
  "exec_run d x [] c = c"
| "exec_run d x (a # as) c = exec_run d x as (exec_step d x a (fst c) (snd c))"

definition executePaymentClaim ::
  "access_deps \<Rightarrow> ExecuteClaimInput \<Rightarrow> step_answers list \<Rightarrow> access_world \<Rightarrow> exec_phase \<times> access_world" where
  "executePaymentClaim d x as w = exec_run d x as (XRead, w)"

text \<open>Any number of requests, in any order of steps, beside any other change of the tenders.\<close>

inductive access_run :: "access_deps \<Rightarrow> access_world \<Rightarrow> (ExecuteClaimInput \<times> exec_phase) list \<Rightarrow> bool" for d where
  start: "access_run d \<lparr> aw_journal = None, aw_tenders = ts, aw_settles = [] \<rparr> []"
| arrive: "access_run d w rs \<Longrightarrow> access_run d w (rs @ [(x, XRead)])"
| elsewhere: "access_run d w rs \<Longrightarrow> access_run d (w \<lparr> aw_tenders := ts \<rparr>) rs"
| step: "access_run d w rs \<Longrightarrow> i < length rs \<Longrightarrow> rs ! i = (x, p) \<Longrightarrow> exec_step d x a p w = (p', w')
    \<Longrightarrow> access_run d w' (rs[i := (x, p')])"

end
