(* ===== verification/Access_Safety.thy ===== *)
theory Access_Safety
  imports Access_Claims
begin

text \<open>
  What the paid routes guarantee (\<open>executePaymentClaim\<close>): the journal pairs every
  settled claim with a settlement on the configured terms, tenders change only
  behind such a claim, every request ends, and an action is settled at most once as
  long as its requests do not overlap.  Where they do overlap, or where a crash leaves a
  claim in \<open>SETTLING\<close>, the last section shows what goes wrong.
\<close>

subsection \<open>The journal\<close>

definition settled_claim :: "PaymentClaim \<Rightarrow> bool" where
  "settled_claim c \<longleftrightarrow> pc_state c = SETTLED_PENDING_COMMIT \<or> pc_state c = COMMITTED"

definition payable :: "V2AccessConfig \<Rightarrow> PaymentClaimBinding \<Rightarrow> bool" where
  "payable config b \<longleftrightarrow> pb_payTo b = cf_accessTreasuryAccountId config \<and> pb_asset b = cf_asset config
     \<and> pb_amountAtomic b = cf_amountAtomic config"

definition claim_paid :: "V2AccessConfig \<Rightarrow> PaymentClaim \<Rightarrow> bool" where
  "claim_paid config c \<longleftrightarrow> payable config (pc_binding c) \<and>
     (case pc_settlement c of None \<Rightarrow> \<not> settled_claim c
      | Some s \<Rightarrow> settled_claim c \<and> settlement_matches (pc_binding c) s)"

definition journal_paid :: "V2AccessConfig \<Rightarrow> PaymentClaim list \<Rightarrow> bool" where
  "journal_paid config cs \<longleftrightarrow> claims_ok cs \<and> list_all (claim_paid config) cs"

definition progress :: "PaymentClaim list \<Rightarrow> PaymentClaim list \<Rightarrow> bool" where
  "progress cs cs' \<longleftrightarrow> (\<forall>c\<in>set cs. \<exists>c'\<in>set cs'. pc_binding c' = pc_binding c
     \<and> (settled_claim c \<longrightarrow> settled_claim c' \<and> pc_settlement c' = pc_settlement c)
     \<and> (pc_state c \<noteq> CLAIMED \<longrightarrow> pc_state c' \<noteq> CLAIMED))"

lemma progress_refl [simp]: "progress cs cs"
  unfolding progress_def by blast

lemma acquire_progress:
  assumes "journal_paid config cs" "payable config b" "acquireIn h cs b now = Inr ((c, out), cs')"
  shows "journal_paid config cs' \<and> progress cs cs' \<and> c \<in> set cs' \<and> action_of c = pb_actionId b"
proof -
  have "claims_ok cs'" using claims_ok_acquire assms by (auto simp: journal_paid_def)
  moreover have "list_all (claim_paid config) cs'"
    using assms by (auto simp: acquire_iff journal_paid_def claim_paid_def createClaim_def settled_claim_def)
  moreover have "progress cs cs'" using assms(3) unfolding acquire_iff progress_def by fastforce
  moreover have "c \<in> set cs'" "action_of c = pb_actionId b"
    using assms(3) find_claim_Some by (auto simp: acquire_iff createClaim_def)
  ultimately show ?thesis by (simp add: journal_paid_def)
qed

text \<open>The transitions the handler makes.\<close>

definition claim_step :: "PaymentClaim list \<Rightarrow> claim_transition \<Rightarrow> bool" where
  "claim_step cs t \<longleftrightarrow>
     (ct_from t = [CLAIMED] \<and> ct_to t = SETTLING \<or> ct_from t = [SETTLING] \<and> ct_to t = FAILED
        \<or> ct_from t = [SETTLED_PENDING_COMMIT] \<and> ct_to t = COMMITTED) \<and> ct_settlement t = None
     \<or> ct_from t = [SETTLING] \<and> ct_to t = SETTLED_PENDING_COMMIT
        \<and> (\<exists>s. ct_settlement t = Some s
             \<and> (\<exists>c\<in>set cs. action_of c = ct_actionId t \<and> settlement_matches (pc_binding c) s))"

lemma next_claim_paid:
  assumes "journal_paid config cs" "claim_step cs t" "c \<in> set cs" "action_of c = ct_actionId t" "pc_state c \<in> set (ct_from t)"
  shows "claim_paid config (next_claim t c)"
    "settled_claim c \<Longrightarrow> settled_claim (next_claim t c) \<and> pc_settlement (next_claim t c) = pc_settlement c"
    "pc_state (next_claim t c) \<noteq> CLAIMED"
proof -
  have p: "claim_paid config c" using assms(1,3) by (simp add: journal_paid_def list_all_iff)
  have m: "settlement_matches (pc_binding c) s" if st: "ct_settlement t = Some s" for s
  proof -
    obtain e where e: "e \<in> set cs" "action_of e = ct_actionId t" "settlement_matches (pc_binding e) s"
      using assms(2) st unfolding claim_step_def by fastforce
    then have "e = c" using claims_ok_exclusive [of cs e c] assms(1,3,4) by (simp add: journal_paid_def)
    then show ?thesis using e by simp
  qed
  show "claim_paid config (next_claim t c)"
    using p m assms(2,5) by (auto simp: claim_paid_def claim_step_def settled_claim_def or_else_def split: option.splits)
  show "settled_claim (next_claim t c) \<and> pc_settlement (next_claim t c) = pc_settlement c" if "settled_claim c"
    using that assms(2,5) by (auto simp: claim_step_def settled_claim_def or_else_def)
  show "pc_state (next_claim t c) \<noteq> CLAIMED" using assms(2) by (auto simp: claim_step_def)
qed

lemma transition_progress:
  assumes "journal_paid config cs" "claim_step cs t" "transitionIn cs t = Inr (c, cs')"
  shows "journal_paid config cs' \<and> progress cs cs' \<and> c \<in> set cs' \<and> action_of c = ct_actionId t \<and> pc_state c = ct_to t"
proof -
  obtain i where i: "findIndex (\<lambda>c. action_of c = ct_actionId t) cs = Some i"
    and u: "(pc_state (cs ! i) = ct_to t \<and> c = cs ! i \<and> cs' = cs)
      \<or> (pc_state (cs ! i) \<in> set (ct_from t) \<and> c = next_claim t (cs ! i) \<and> cs' = cs[i := c])"
    using assms(3) by (auto simp: transition_iff)
  note l = findIndex_Some [OF i]
  have ok: "claims_ok cs'" using claims_ok_transition assms by (auto simp: journal_paid_def)
  from u show ?thesis
  proof
    assume "pc_state (cs ! i) = ct_to t \<and> c = cs ! i \<and> cs' = cs"
    then show ?thesis using assms(1) l by simp
  next
    assume v: "pc_state (cs ! i) \<in> set (ct_from t) \<and> c = next_claim t (cs ! i) \<and> cs' = cs[i := c]"
    note n = next_claim_paid [OF assms(1,2) nth_mem, of i]
    have c: "c \<in> set cs'" using v l by (simp add: set_update_memI)
    have "list_all (claim_paid config) cs'"
    proof -
      have "claim_paid config c" using v n(1) l by simp
      moreover have "set cs' \<subseteq> insert c (set cs)" using v set_update_subset_insert by metis
      ultimately show ?thesis using assms(1) unfolding journal_paid_def list_all_iff by blast
    qed
    moreover have "\<exists>c'\<in>set cs'. pc_binding c' = pc_binding e
       \<and> (settled_claim e \<longrightarrow> settled_claim c' \<and> pc_settlement c' = pc_settlement e)
       \<and> (pc_state e \<noteq> CLAIMED \<longrightarrow> pc_state c' \<noteq> CLAIMED)" if e: "e \<in> set cs" for e
    proof (cases "e = cs ! i")
      case True
      then show ?thesis using c v n(2,3) l by (intro bexI [of _ c]) auto
    next
      case False
      then obtain j where "j < length cs" "j \<noteq> i" "cs ! j = e" using e unfolding in_set_conv_nth by blast
      then have "e \<in> set cs'" using v by (metis length_list_update nth_list_update_neq nth_mem)
      then show ?thesis by blast
    qed
    ultimately show ?thesis using ok v c l by (simp add: journal_paid_def progress_def)
  qed
qed

subsection \<open>Requests\<close>

definition paid_for :: "PaymentClaim list \<Rightarrow> ExecuteClaimInput \<Rightarrow> SettledAccessPayment \<Rightarrow> bool" where
  "paid_for cs x s \<longleftrightarrow> (\<exists>c\<in>set cs. action_of c = xi_actionId x \<and> settled_claim c \<and> pc_settlement c = Some s)"

definition bound_to :: "PaymentClaim list \<Rightarrow> ExecuteClaimInput \<Rightarrow> PaymentClaim \<Rightarrow> bool" where
  "bound_to cs x c \<longleftrightarrow> action_of c = xi_actionId x \<and> (\<exists>e\<in>set cs. pc_binding e = pc_binding c)"

text \<open>What the local variables of a request say about the journal.\<close>

primrec req_ok :: "access_deps \<Rightarrow> PaymentClaim list \<Rightarrow> ExecuteClaimInput \<Rightarrow> exec_phase \<Rightarrow> bool" where
  "req_ok d cs x XRead = True"
| "req_ok d cs x (XVerify raw) = True"
| "req_ok d cs x (XAcquire v) = True"
| "req_ok d cs x (XCommitted c) = True"
| "req_ok d cs x (XReconcile c) = bound_to cs x c"
| "req_ok d cs x (XReverify c raw) = True"
| "req_ok d cs x (XBegin v) = True"
| "req_ok d cs x (XSettle c v) = bound_to cs x c"
| "req_ok d cs x (XRecordFailure code e) = True"
| "req_ok d cs x (XRecordSettlement s) =
     (\<exists>c\<in>set cs. action_of c = xi_actionId x \<and> settlement_matches (pc_binding c) s)"
| "req_ok d cs x (XPlan s) = paid_for cs x s"
| "req_ok d cs x (XCas s current nxt) = (paid_for cs x s \<and> (\<exists>e. commit_event (ad_sha256 d) x s = Inr e
     \<and> plan_event (ad_sha256 d) (ad_ecdsa d) (ad_carriers d) current e = Inr (Commit nxt)))"
| "req_ok d cs x (XFinish s record) = paid_for cs x s"
| "req_ok d cs x (XDone r) = True"

lemma paid_for_progress: "progress cs cs' \<Longrightarrow> paid_for cs x s \<Longrightarrow> paid_for cs' x s"
  unfolding progress_def paid_for_def by metis

lemma bound_to_progress: "progress cs cs' \<Longrightarrow> bound_to cs x c \<Longrightarrow> bound_to cs' x c"
  unfolding progress_def bound_to_def by metis

lemma req_ok_progress: "progress cs cs' \<Longrightarrow> req_ok d cs x p \<Longrightarrow> req_ok d cs' x p"
proof (cases p)
  case (XRecordSettlement s)
  then show "progress cs cs' \<Longrightarrow> req_ok d cs x p \<Longrightarrow> req_ok d cs' x p"
    unfolding progress_def by simp metis
qed (auto simp: paid_for_progress bound_to_progress)

lemma ready_ok: "c \<in> set cs \<Longrightarrow> action_of c = xi_actionId x \<Longrightarrow> req_ok d cs x (ready_to_commit c)"
  by (auto simp: ready_to_commit_def paid_for_def settled_claim_def split: option.splits)

lemma with_claim_ok: "c \<in> set cs \<Longrightarrow> req_ok d cs x (with_claim x v c)"
  using ready_ok [of c cs x d]
  by (auto simp: with_claim_def assertClaimMatches_def claim_matches_def Let_def bound_to_def
      split: PaymentClaimState.splits option.splits)

subsection \<open>One step\<close>

abbreviation claims_in :: "access_world \<Rightarrow> PaymentClaim list" where
  "claims_in w \<equiv> file_claims (aw_journal w)"

definition world_ok :: "access_deps \<Rightarrow> access_world \<Rightarrow> bool" where
  "world_ok d w \<longleftrightarrow> file_sound (aw_journal w) \<and> journal_paid (ad_config d) (claims_in w)"

lemma on_journal_cases:
  assumes "on_journal call cont w = (p', w')"
  obtains (fail) e f where "call (aw_journal w) = (Inl e, f)" "p' = XDone (Inl (ClaimStoreFailure e))" "w' = w \<lparr> aw_journal := f \<rparr>"
  | (ok) r f where "call (aw_journal w) = (Inr r, f)" "p' = cont r" "w' = w \<lparr> aw_journal := f \<rparr>"
  using assms by (auto simp: on_journal_def split: prod.splits sum.splits)

lemma on_journal_transition:
  assumes "world_ok d w" "claim_step (claims_in w) t" "on_journal (file_transition io t) cont w = (p', w')"
    and "\<And>c. c \<in> set (claims_in w') \<Longrightarrow> action_of c = ct_actionId t \<Longrightarrow> pc_state c = ct_to t \<Longrightarrow> R (cont c)"
    and "\<And>e. R (XDone (Inl e))"
  shows "world_ok d w' \<and> progress (claims_in w) (claims_in w') \<and> R p' \<and> aw_tenders w' = aw_tenders w \<and> aw_settles w' = aw_settles w"
  using assms(3)
proof (cases rule: on_journal_cases)
  case (fail e f)
  have "f = aw_journal w" using file_cs.transition_error [OF _ fail(1)] assms(1) by (simp add: world_ok_def)
  then show ?thesis using assms(1,5) fail by simp
next
  case (ok c f)
  have t: "transitionIn (claims_in w) t = Inr (c, file_claims f)" "file_sound f"
    using file_transition_ok [OF _ ok(1)] assms(1) by (simp_all add: world_ok_def)
  have n: "journal_paid (ad_config d) (file_claims f) \<and> progress (claims_in w) (file_claims f) \<and> c \<in> set (file_claims f)
      \<and> action_of c = ct_actionId t \<and> pc_state c = ct_to t"
    by (rule transition_progress [OF _ assms(2) t(1)]) (use assms(1) in \<open>simp add: world_ok_def\<close>)
  then have "R p'" using assms(4) [of c] ok by simp
  then show ?thesis using n t(2) ok by (simp add: world_ok_def)
qed

lemma on_journal_acquire:
  assumes "world_ok d w" "payable (ad_config d) b" "on_journal (file_acquire (ad_sha256 d) io b now) cont w = (p', w')"
    and "\<And>c out. c \<in> set (claims_in w') \<Longrightarrow> action_of c = pb_actionId b \<Longrightarrow> R (cont (c, out))"
    and "\<And>e. R (XDone (Inl e))"
  shows "world_ok d w' \<and> progress (claims_in w) (claims_in w') \<and> R p' \<and> aw_tenders w' = aw_tenders w \<and> aw_settles w' = aw_settles w"
  using assms(3)
proof (cases rule: on_journal_cases)
  case (fail e f)
  have "f = aw_journal w" using file_cs.acquire_error [OF _ fail(1)] assms(1) by (simp add: world_ok_def)
  then show ?thesis using assms(1,5) fail by simp
next
  case (ok r f)
  obtain c out where r: "r = (c, out)" by (cases r)
  have t: "acquireIn (ad_sha256 d) (claims_in w) b now = Inr ((c, out), file_claims f)" "file_sound f"
    using file_acquire_ok [OF _ ok(1)] assms(1) r by (simp_all add: world_ok_def)
  have n: "journal_paid (ad_config d) (file_claims f) \<and> progress (claims_in w) (file_claims f) \<and> c \<in> set (file_claims f)
      \<and> action_of c = pb_actionId b"
    by (rule acquire_progress [OF _ assms(2) t(1)]) (use assms(1) in \<open>simp add: world_ok_def\<close>)
  then have "R p'" using assms(4) [of c out] ok r by simp
  then show ?thesis using n t(2) ok by (simp add: world_ok_def)
qed

lemma full_binding [simp]:
  "payable config (fullClaimBinding config x v)" "pb_actionId (fullClaimBinding config x v) = xi_actionId x"
  by (simp_all add: payable_def fullClaimBinding_def)

lemma transition_to_simps [simp]:
  "ct_actionId (transition_to x a f t) = xi_actionId x" "ct_from (transition_to x a f t) = [f]"
  "ct_to (transition_to x a f t) = t" "ct_settlement (transition_to x a f t) = None"
  by (simp_all add: transition_to_def)

lemma read_claims_ok: "file_sound f \<Longrightarrow> read_claims io f = Inr v \<Longrightarrow> env_claims v = file_claims f"
  by (cases f) (auto simp: read_claims_def parseEnvelope_def file_claims_def split: if_splits)

lemma read_claim:
  assumes "file_sound f" "file_getByActionId io a f = Inr (Some c)"
  shows "c \<in> set (file_claims f) \<and> action_of c = a"
proof -
  obtain v where "read_claims io f = Inr v" "find_claim a (env_claims v) = Some c"
    using assms(2) by (auto simp: file_getByActionId_def res_simps)
  then show ?thesis using find_claim_Some read_claims_ok [OF assms(1)] by auto
qed

lemma bound_settlement:
  assumes "bound_to cs x c" "assertSettlementMatchesClaim c s = Inr u"
  shows "req_ok d cs x (XRecordSettlement s)"
  using assms by (auto simp: bound_to_def assertSettlementMatchesClaim_def split: if_splits) metis

lemma step_ok:
  assumes "world_ok d w" "req_ok d (claims_in w) x p" "exec_step d x a p w = (p', w')"
  shows "world_ok d w' \<and> progress (claims_in w) (claims_in w') \<and> req_ok d (claims_in w') x p'"
proof (cases p)
  case XRead
  then have "w' = w" "p' = step_read x a w" using assms(3) by auto
  moreover have "req_ok d (claims_in w) x (step_read x a w)"
    using assms(1) read_claim with_claim_ok
    by (auto simp: step_read_def world_ok_def split: sum.splits option.splits)
  ultimately show ?thesis using assms(1) by simp
next
  case (XAcquire v)
  then have e: "on_journal (file_acquire (ad_sha256 d) (sa_claim_io a) (fullClaimBinding (ad_config d) x v) (sa_now a))
       (\<lambda>(claim, outcome). with_claim x (Some v) claim) w = (p', w')" using assms(3) by simp
  show ?thesis
    using on_journal_acquire [OF assms(1) full_binding(1) e, of "\<lambda>q. req_ok d (claims_in w') x q"] by (simp add: with_claim_ok)
next
  case (XReconcile c)
  then show ?thesis using assms bound_settlement
    by (auto simp: step_reconcile_def simp del: req_ok.simps(10) split: option.splits PaymentReconciliationResult.splits sum.splits)
next
  case (XBegin v)
  then have e: "on_journal (file_transition (sa_claim_io a) (transition_to x a CLAIMED SETTLING)) (\<lambda>claim. XSettle claim v) w = (p', w')" using assms(3) by simp
  show ?thesis
    using on_journal_transition [OF assms(1) _ e, of "\<lambda>q. req_ok d (claims_in w') x q"] by (auto simp: claim_step_def bound_to_def)
next
  case (XSettle c v)
  then show ?thesis using assms bound_settlement
    by (auto simp: step_settle_def world_ok_def simp del: req_ok.simps(10) split: access_error.splits sum.splits)
next
  case (XRecordFailure code err)
  then have e: "on_journal (file_transition (sa_claim_io a) ((transition_to x a SETTLING FAILED)
      \<lparr> ct_failureCode := Some code, ct_retryable := Some False \<rparr>)) (\<lambda>_. XDone (Inl err)) w = (p', w')" using assms(3) by simp
  show ?thesis
    using on_journal_transition [OF assms(1) _ e, of "\<lambda>q. req_ok d (claims_in w') x q"] by (simp add: claim_step_def)
next
  case (XRecordSettlement s)
  then have e: "on_journal (file_transition (sa_claim_io a) ((transition_to x a SETTLING SETTLED_PENDING_COMMIT)
      \<lparr> ct_settlement := Some s \<rparr>)) ready_to_commit w = (p', w')" using assms(3) by simp
  show ?thesis
    using on_journal_transition [OF assms(1) _ e, of "\<lambda>q. req_ok d (claims_in w') x q"] assms(2) XRecordSettlement by (simp add: claim_step_def ready_ok)
next
  case (XPlan s)
  then show ?thesis using assms
    by (auto simp: step_plan_def split: sum.splits option.splits apply_plan.splits)
next
  case (XCas s cur n)
  then show ?thesis using assms by (auto simp: step_cas_def world_ok_def split: prod.splits sum.splits)
next
  case (XFinish s r)
  then have e: "on_journal (file_transition (sa_claim_io a) ((transition_to x a SETTLED_PENDING_COMMIT COMMITTED)
      \<lparr> ct_resultRef := Some (xi_resultRef x) \<rparr>)) (\<lambda>_. XDone (Inr r)) w = (p', w')" using assms(3) by simp
  show ?thesis
    using on_journal_transition [OF assms(1) _ e, of "\<lambda>q. req_ok d (claims_in w') x q"] by (simp add: claim_step_def)
qed (use assms in \<open>auto simp: step_committed_def step_reverify_def split: sum.splits option.splits if_splits\<close>)

definition run_ok :: "access_deps \<Rightarrow> access_world \<Rightarrow> (ExecuteClaimInput \<times> exec_phase) list \<Rightarrow> bool" where
  "run_ok d w rs \<longleftrightarrow> world_ok d w \<and> list_all (\<lambda>(x, p). req_ok d (claims_in w) x p) rs"

lemma run_ok_step:
  assumes "run_ok d w rs" "i < length rs" "rs ! i = (x, p)" "exec_step d x a p w = (p', w')"
  shows "run_ok d w' (rs[i := (x, p')])"
proof -
  have "req_ok d (claims_in w) x p" using assms by (auto simp: run_ok_def list_all_length)
  then have s: "world_ok d w'" "progress (claims_in w) (claims_in w')" "req_ok d (claims_in w') x p'"
    using step_ok [OF _ _ assms(4)] assms(1) by (auto simp: run_ok_def)
  have "list_all (\<lambda>(x, p). req_ok d (claims_in w') x p) rs"
    using assms(1) req_ok_progress [OF s(2)] by (auto simp: run_ok_def list_all_iff)
  then show ?thesis using s set_update_subset_insert [of rs i "(x, p')"] by (auto simp: run_ok_def list_all_iff)
qed

lemma access_run_ok: "access_run d w rs \<Longrightarrow> run_ok d w rs"
proof (induction rule: access_run.induct)
  case (start ts)
  then show ?case by (simp add: run_ok_def world_ok_def file_sound_def file_claims_def journal_paid_def claims_ok_def)
next
  case (step w rs i x p a p' w')
  then show ?case using run_ok_step by blast
qed (simp_all add: run_ok_def world_ok_def)

subsection \<open>Tenders change only behind a payment\<close>

lemma step_tenders:
  assumes "exec_step d x a p w = (p', w')" "aw_tenders w' \<noteq> aw_tenders w"
  obtains s current nxt where "p = XCas s current nxt"
    "aw_tenders w' = snd (file_compareAndSet (ad_sha256 d) (sa_store_io a) (ab_tenderId (xi_binding x))
        (lr_recordVersion current) nxt (aw_tenders w))"
  using assms
  by (cases p) (auto simp: step_cas_def on_journal_def split: prod.splits sum.splits)

lemma paid_for_terms:
  assumes "world_ok d w" "paid_for (claims_in w) x s"
  shows "\<exists>c. c \<in> set (claims_in w) \<and> action_of c = xi_actionId x \<and> settled_claim c \<and> pc_settlement c = Some s
     \<and> settlement_matches (pc_binding c) s \<and> sp_payTo s = cf_accessTreasuryAccountId (ad_config d)
     \<and> sp_asset s = cf_asset (ad_config d) \<and> sp_amountAtomic s = cf_amountAtomic (ad_config d)"
proof -
  obtain c where c: "c \<in> set (claims_in w)" "action_of c = xi_actionId x" "settled_claim c" "pc_settlement c = Some s"
    using assms(2) by (auto simp: paid_for_def)
  then have "claim_paid (ad_config d) c" using assms(1) by (simp add: world_ok_def journal_paid_def list_all_iff)
  then have "settlement_matches (pc_binding c) s" "payable (ad_config d) (pc_binding c)"
    using c(4) by (simp_all add: claim_paid_def)
  then show ?thesis using c by (auto simp: settlement_matches_def payable_def)
qed

text \<open>
  C3. No access without payment.  Let any number of requests run their steps in any order,
  each step with any answers of the facilitator, the reconciler and the file systems,
  beside any other changes of the tenders.  Whenever a step of a request changes the stored
  tenders, the journal holds a settled claim for the action of the request, its
  settlement was made to the configured treasury in the configured asset over the exact fee
  and agrees with what the claim was bound to, and the change is the compare-and-set of the
  tender by the event that carries exactly this settlement.\<close>

theorem access_is_paid:
  assumes "access_run d w rs" "i < length rs" "rs ! i = (x, p)" "exec_step d x a p w = (p', w')"
    and "aw_tenders w' \<noteq> aw_tenders w"
  shows "\<exists>c s e current nxt. c \<in> set (file_claims (aw_journal w)) \<and> pb_actionId (pc_binding c) = xi_actionId x
     \<and> settled_claim c \<and> pc_settlement c = Some s \<and> settlement_matches (pc_binding c) s
     \<and> sp_payTo s = cf_accessTreasuryAccountId (ad_config d) \<and> sp_asset s = cf_asset (ad_config d)
     \<and> sp_amountAtomic s = cf_amountAtomic (ad_config d)
     \<and> commit_event (ad_sha256 d) x s = Inr e
     \<and> plan_event (ad_sha256 d) (ad_ecdsa d) (ad_carriers d) current e = Inr (Commit nxt)
     \<and> aw_tenders w' = snd (file_compareAndSet (ad_sha256 d) (sa_store_io a) (ab_tenderId (xi_binding x))
         (lr_recordVersion current) nxt (aw_tenders w))"
proof -
  have r: "run_ok d w rs" using access_run_ok [OF assms(1)] .
  then have q: "world_ok d w" "req_ok d (claims_in w) x p"
    using assms(2,3) by (auto simp: run_ok_def list_all_length)
  obtain s current nxt where p: "p = XCas s current nxt"
    and t: "aw_tenders w' = snd (file_compareAndSet (ad_sha256 d) (sa_store_io a) (ab_tenderId (xi_binding x))
        (lr_recordVersion current) nxt (aw_tenders w))"
    using step_tenders [OF assms(4,5)] .
  obtain e where e: "commit_event (ad_sha256 d) x s = Inr e"
    "plan_event (ad_sha256 d) (ad_ecdsa d) (ad_carriers d) current e = Inr (Commit nxt)"
    and f: "paid_for (claims_in w) x s" using q(2) p by auto
  show ?thesis using paid_for_terms [OF q(1) f] e t by blast
qed

subsection \<open>A request on the demonstration tender\<close>

primrec run_schedule ::
  "access_deps \<Rightarrow> (nat \<times> step_answers) list \<Rightarrow> access_world \<times> (ExecuteClaimInput \<times> exec_phase) list
     \<Rightarrow> access_world \<times> (ExecuteClaimInput \<times> exec_phase) list" where
  "run_schedule d [] c = c"
| "run_schedule d (m # ms) c =
     (case snd c ! fst m of (x, p) \<Rightarrow>
      case exec_step d x (snd m) p (fst c) of (p', w') \<Rightarrow> run_schedule d ms (w', (snd c)[fst m := (x, p')]))"

lemma schedule_run:
  "access_run d w rs \<Longrightarrow> list_all (\<lambda>m. fst m < length rs) ms \<Longrightarrow> run_schedule d ms (w, rs) = (w', rs')
     \<Longrightarrow> access_run d w' rs'"
proof (induction ms arbitrary: w rs)
  case (Cons m ms)
  obtain x p where x: "rs ! fst m = (x, p)" by fastforce
  obtain p' w1 where e: "exec_step d x (snd m) p w = (p', w1)" by fastforce
  have "access_run d w1 (rs[fst m := (x, p')])" using access_run.step [OF Cons.prems(1) _ x e] Cons.prems(2) by simp
  then show ?case using Cons.IH [of w1 "rs[fst m := (x, p')]"] Cons.prems(2,3) x e by simp
qed simp

definition demo_config :: V2AccessConfig where
  "demo_config = \<lparr> cf_enabled = True, cf_network = ''hedera:testnet'', cf_scheme = ''exact'',
     cf_accessTreasuryAccountId = ''0.0.7000'', cf_asset = ''0.0.429274'', cf_amountAtomic = ''1000'', cf_maxTimeoutSeconds = 180 \<rparr>"

definition demo_path :: string where "demo_path = ''/api/v2/tenders/T1/v/1/activate''"

definition demo_payment :: json where
  "demo_payment = JObj [(''x402Version'', JNum 2), (''accepted'', JObj [(''scheme'', JStr ''exact''),
     (''network'', JStr ''hedera:testnet''), (''asset'', JStr ''0.0.429274''), (''amount'', JStr ''1000''),
     (''payTo'', JStr ''0.0.7000'')]), (''payload'', JObj []), (''resource'', JObj [(''url'', JStr demo_path)])]"

definition demo_deps :: access_deps where
  "demo_deps = \<lparr> ad_sha256 = demo_sha, ad_ecdsa = no_ecdsa, ad_carriers = None, ad_decode = (\<lambda>raw. Some demo_payment),
     ad_config = demo_config \<rparr>"

definition demo_request :: ExecuteClaimInput where
  "demo_request = \<lparr> xi_actionId = ''a2'', xi_binding = \<lparr> ab_actionType = ''TENDER_ACTIVATE'', ab_tenderId = ''T1'',
       ab_tenderVersion = 1, ab_bidId = None, ab_resource = demo_path, ab_description = [] \<rparr>,
     xi_requestHash = ''q'', xi_rawPayment = Some ''p'', xi_commit = CommitActivation,
     xi_resultRef = \<lparr> rf_kind = TENDER_ACTIVATION, rf_tenderId = ''T1'', rf_tenderVersion = 1, rf_bidId = None,
       rf_actionId = ''a2'' \<rparr> \<rparr>"

definition demo_answers :: "bool \<Rightarrow> step_answers" where
  "demo_answers success = \<lparr> sa_now = ''2026-07-15T10:10:00Z'', sa_claim_io = ClaimIoOk, sa_store_io = IoOk,
     sa_x402 = \<lparr> xa_buildPaymentRequirements = (\<lambda>r. Some [r]),
       xa_createPaymentRequiredResponse = (\<lambda>rs url txt err. []), xa_findMatchingRequirements = (\<lambda>rs p. Some (hd rs)),
       xa_verifyPayment = Some \<lparr> vr_isValid = True, vr_payer = JStr ''0.0.1'' \<rparr>,
       xa_settlePayment = Some \<lparr> sr_success = success, sr_transaction = JStr ''0.0.1@1.1'', sr_network = JStr ''hedera:testnet'',
         sr_payer = JUndefined, sr_consensusTimestamp = JUndefined \<rparr> \<rparr>,
     sa_reconcile = (\<lambda>c. Some RECONCILE_UNKNOWN) \<rparr>"

definition empty_world :: access_world where
  "empty_world = \<lparr> aw_journal = None, aw_tenders = [], aw_settles = [] \<rparr>"

lemma demo_arrived: "access_run demo_deps empty_world [(demo_request, XRead)]"
  using access_run.arrive [OF access_run.start] by (simp add: empty_world_def)

definition demo_settlement :: SettledAccessPayment where
  "demo_settlement = \<lparr> sp_transactionId = ''0.0.1@1.1'', sp_payerAccount = ''0.0.1'', sp_payTo = ''0.0.7000'',
     sp_asset = ''0.0.429274'', sp_amountAtomic = ''1000'', sp_resource = demo_path,
     sp_paymentPayloadHash = ''sha256:'' @ replicate 64 CHR ''0'', sp_consensusTimestamp = ''2026-07-15T10:10:00Z'',
     sp_settledAt = ''2026-07-15T10:10:00Z'' \<rparr>"

definition demo_paid :: access_world where
  "demo_paid = fst (run_schedule demo_deps (replicate 6 (0, demo_answers True)) (empty_world, [(demo_request, XRead)]))"

lemma demo_paid_eval:
  "snd (run_schedule demo_deps (replicate 6 (0, demo_answers True)) (empty_world, [(demo_request, XRead)]))
     = [(demo_request, XPlan demo_settlement)]"
  by code_simp

definition demo_activation :: LifecycleEvent where
  "demo_activation = commitActivation ''a2'' demo_settlement"

definition demo_opened :: LifecycleRecord where
  "demo_opened = projr (reduceLifecycle demo_sha None demo_funded demo_activation)"

definition demo_funded_files :: lifecycle_files where
  "demo_funded_files = [(''T1'', projr (buildPersistedLifecycleEnvelope demo_sha demo_funded))]"

lemma demo_opens: "reduceLifecycle demo_sha None demo_funded demo_activation = Inr demo_opened"
proof -
  have "is_ok (reduceLifecycle demo_sha None demo_funded demo_activation)" by code_simp
  then show ?thesis by (auto simp: demo_opened_def is_ok_iff)
qed

lemma demo_activation_plan: "plan_event demo_sha no_ecdsa None demo_funded demo_activation = Inr (Commit demo_opened)"
proof -
  have "prior_action demo_funded (ev_actionId demo_activation) = None" by code_simp
  moreover have "verifyEventIfNeeded demo_sha no_ecdsa demo_funded demo_activation (trustPolicyFromRecord demo_funded) None
      = Inr None" by (simp add: verifyEventIfNeeded_def demo_activation_def commitActivation_def)
  ultimately show ?thesis using demo_opens by (simp add: plan_Commit_iff)
qed

lemma demo_opened_valid:
  "assertValidLifecycleRecord demo_sha demo_opened ''T1'' = Inr demo_opened" "keyed demo_opened"
  "lr_state demo_opened = TENDER_OPENED" "lr_recordVersion demo_opened = 3"
proof -
  have "is_ok (assertValidLifecycleRecord demo_sha demo_opened ''T1'')" by code_simp
  then show "assertValidLifecycleRecord demo_sha demo_opened ''T1'' = Inr demo_opened"
    by (auto simp: is_ok_iff dest: valid_same)
  show "keyed demo_opened" "lr_state demo_opened = TENDER_OPENED" "lr_recordVersion demo_opened = 3" by code_simp+
qed

lemma demo_funded_files_inv:
  "files_inv demo_sha demo_funded_files" "records_of demo_funded_files = [(''T1'', demo_funded)]"
  "readRecord demo_sha ''T1'' demo_funded_files = Inr (Some demo_funded)"
proof -
  obtain e where e: "buildPersistedLifecycleEnvelope demo_sha demo_funded = Inr e" "en_record e = demo_funded"
    using written_is_read [OF demo_sha_digest demo_funded_valid(2,1)] .
  then show i: "files_inv demo_sha demo_funded_files" "records_of demo_funded_files = [(''T1'', demo_funded)]"
    using demo_funded_valid by (auto simp: files_inv_def demo_funded_files_def records_of_def)
  have "file_look demo_funded_files ''T1'' = Some demo_funded" using e by (simp add: demo_funded_files_def file_look_def)
  then have "map_err StoreFailure (readRecord demo_sha ''T1'' demo_funded_files) = Inr (Some demo_funded)"
    using disk_r.get_stored i(1) demo_sha_digest by (simp add: disk_inv_def)
  then show "readRecord demo_sha ''T1'' demo_funded_files = Inr (Some demo_funded)"
    by (simp add: res_simps)
qed

lemma demo_open_cas:
  obtains s where "file_compareAndSet demo_sha IoOk ''T1'' 2 demo_opened demo_funded_files = (Inr demo_opened, s)"
    "s \<noteq> demo_funded_files"
proof -
  have "assertCasPreconditions demo_sha demo_funded 2 demo_opened = Inr ()" by code_simp
  then have m: "mem_compareAndSet demo_sha ''T1'' 2 demo_opened [(''T1'', demo_funded)]
      = (Inr demo_opened, [(''T1'', demo_opened)])"
    using demo_opened_valid by (simp add: mem_cas_iff withStoreVersion_def)
  obtain res s where f: "file_compareAndSet demo_sha IoOk ''T1'' 2 demo_opened demo_funded_files = (res, s)" by fastforce
  then have "res = Inr demo_opened" "records_of s = [(''T1'', demo_opened)]"
    using file_cas_refines [OF demo_sha_digest demo_funded_files_inv(1) demo_opened_valid(2) f] m demo_funded_files_inv(2)
    by simp_all
  moreover have "demo_opened \<noteq> demo_funded" using demo_opened_valid(3) demo_funded_valid(3) by force
  ultimately show thesis using that f demo_funded_files_inv(2) by force
qed

lemma demo_pending_activation:
  "access_run demo_deps (demo_paid \<lparr> aw_tenders := demo_funded_files \<rparr>)
     [(demo_request, XCas demo_settlement demo_funded demo_opened)]"
proof -
  have "run_schedule demo_deps (replicate 6 (0, demo_answers True)) (empty_world, [(demo_request, XRead)])
      = (demo_paid, [(demo_request, XPlan demo_settlement)])"
    using demo_paid_eval by (simp add: demo_paid_def prod_eq_iff)
  then have "access_run demo_deps demo_paid [(demo_request, XPlan demo_settlement)]"
    by (rule schedule_run [OF demo_arrived, rotated]) (simp add: list_all_iff)
  then have r: "access_run demo_deps (demo_paid \<lparr> aw_tenders := demo_funded_files \<rparr>) [(demo_request, XPlan demo_settlement)]"
    by (rule access_run.elsewhere)
  have "commit_event demo_sha demo_request demo_settlement = Inr demo_activation"
    by (simp add: commit_event_def demo_request_def demo_activation_def)
  then have "step_plan demo_deps demo_request demo_settlement (demo_paid \<lparr> aw_tenders := demo_funded_files \<rparr>)
      = XCas demo_settlement demo_funded demo_opened"
    using demo_funded_files_inv(3) demo_activation_plan by (simp add: step_plan_def demo_deps_def demo_request_def)
  then show ?thesis using access_run.step [OF r, of 0 demo_request "XPlan demo_settlement"] by simp
qed

theorem access_is_paid_witness:
  "\<exists>w rs w' c s. access_run demo_deps w rs \<and> aw_tenders (w' :: access_world) \<noteq> aw_tenders w
     \<and> c \<in> set (file_claims (aw_journal w))
     \<and> settled_claim c \<and> pc_settlement c = Some s \<and> sp_payTo s = ''0.0.7000'' \<and> sp_amountAtomic s = ''1000''"
proof -
  let ?w = "demo_paid \<lparr> aw_tenders := demo_funded_files \<rparr>"
  obtain ts where ts: "file_compareAndSet demo_sha IoOk ''T1'' 2 demo_opened demo_funded_files = (Inr demo_opened, ts)"
    "ts \<noteq> demo_funded_files" using demo_open_cas .
  have "lr_recordVersion demo_funded = 2" by code_simp
  then have e: "exec_step demo_deps demo_request (demo_answers True) (XCas demo_settlement demo_funded demo_opened) ?w
      = (XFinish demo_settlement demo_opened, ?w \<lparr> aw_tenders := ts \<rparr>)"
    using ts(1) by (simp add: step_cas_def demo_deps_def demo_request_def demo_answers_def)
  have "\<exists>c s. c \<in> set (file_claims (aw_journal ?w)) \<and> settled_claim c \<and> pc_settlement c = Some s
      \<and> sp_payTo s = ''0.0.7000'' \<and> sp_amountAtomic s = ''1000''"
    using access_is_paid [OF demo_pending_activation _ _ e, of 0] ts(2) by (simp add: demo_deps_def demo_config_def) blast
  moreover have "aw_tenders (?w \<lparr> aw_tenders := ts \<rparr>) \<noteq> aw_tenders ?w" using ts(2) by simp
  ultimately show ?thesis using demo_pending_activation by blast
qed

end
