(* ===== verification/Access_Mirror.thy ===== *)
theory Access_Mirror
  imports Access_Claims
begin

text \<open>
  Looking up a settlement on the Mirror Node: \<^verbatim>\<open>src/v2/access/mirror-reconcile.ts\<close> and the
  timestamp conversion of \<^verbatim>\<open>src/hcs/mirror-node-client.ts\<close>.

  The answer of the Mirror Node to one request is a parameter.  Token amounts in its JSON
  are integers; \<open>Number\<close> of the expected amount is exact (amounts within the safe
  integers).  Waiting between two polls has no effect on the state and is left out.
\<close>

subsection \<open>Identifiers and timestamps\<close>

text \<open>The expression \<open>^(\d+\.\d+\.\d+)@(\d+)\.(\d+)$\<close>: the three groups.\<close>

definition is_number :: "string \<Rightarrow> bool" where
  "is_number s \<longleftrightarrow> s \<noteq> [] \<and> all_digits s"

definition sdk_id_parts :: "string \<Rightarrow> (string \<times> string \<times> string) option" where
  "sdk_id_parts s =
     (case split_on CHR ''@'' s of
        [payer_id, valid_start] \<Rightarrow>
          (case (split_on CHR ''.'' payer_id, split_on CHR ''.'' valid_start) of
             ([a, b, c], [secs, nanos]) \<Rightarrow>
               if is_number a \<and> is_number b \<and> is_number c \<and> is_number secs \<and> is_number nanos
               then Some (payer_id, secs, nanos) else None
           | _ \<Rightarrow> None)
      | _ \<Rightarrow> None)"

definition toMirrorTransactionId :: "string \<Rightarrow> string" where
  "toMirrorTransactionId sdkId =
     (if List.member sdkId CHR ''-'' \<and> \<not> List.member sdkId CHR ''@'' then sdkId
      else case sdk_id_parts (js_trim sdkId) of
        None \<Rightarrow> sdkId
      | Some (payer_id, secs, nanos) \<Rightarrow> payer_id @ ''-'' @ secs @ ''-'' @ nanos)"

datatype mirror_error = InvalidMirrorTimestamp | MirrorHttpError | MirrorFetchFailed | MirrorAmountSyntax

definition mirrorTimestampToUtcIso :: "string \<Rightarrow> mirror_error + string" where
  "mirrorTimestampToUtcIso mirrorTs =
     (case split_on CHR ''.'' (js_trim mirrorTs) of
        [secs, frac] \<Rightarrow>
          if is_number secs \<and> is_number frac \<and> length frac \<le> 9 then
            (let seconds = int (digits_val secs); ms = seconds * 1000;
                 nanos = strip_trailing_zeros (padEnd 9 CHR ''0'' frac)
             in if seconds > max_safe_integer \<or> ms > max_time_value then Inl InvalidMirrorTimestamp
                else case utc_date ms of (y, mo, d) \<Rightarrow>
                  let iso = padStart 4 CHR ''0'' (int_str y) @ ''-'' @ two mo @ ''-'' @ two d @ ''T''
                    @ two (utc_hours ms) @ '':'' @ two (utc_minutes ms) @ '':'' @ two (utc_seconds ms)
                  in Inr (if nanos = [] then iso @ ''Z'' else iso @ ''.'' @ nanos @ ''Z''))
          else if isUtcIsoTimestamp mirrorTs then Inr mirrorTs else Inl InvalidMirrorTimestamp
      | _ \<Rightarrow> if isUtcIsoTimestamp mirrorTs then Inr mirrorTs else Inl InvalidMirrorTimestamp)"

subsection \<open>One look at a transaction\<close>

record MirrorTransfer =
  tr_token_id :: "string option"
  tr_account :: "string option"
  tr_amount :: "int option"

record MirrorTx =
  mt_result :: "string option"
  mt_consensus_timestamp :: "string option"
  mt_token_transfers :: "MirrorTransfer list"

text \<open>What the fetch gives: it throws, status 404, another error status, or the transactions of the body.\<close>

datatype mirror_answer = MirrorThrows | MirrorNotFound | MirrorBadStatus | MirrorTransactions "MirrorTx list"

datatype mirror_status = MIRROR_SUCCESS | MIRROR_FAILED | MIRROR_NOT_FOUND | MIRROR_PENDING

record MirrorUsdcVerification =
  mv_status :: mirror_status
  mv_mirrorTransactionId :: string
  mv_consensusTimestamp :: "string option"
  mv_payerTransfer :: "int option"
  mv_treasuryTransfer :: "int option"
  mv_amountAtomicMatch :: bool
  mv_payerMatch :: bool
  mv_treasuryMatch :: bool

definition not_found :: "string \<Rightarrow> MirrorUsdcVerification" where
  "not_found mirrorId = \<lparr> mv_status = MIRROR_NOT_FOUND, mv_mirrorTransactionId = mirrorId, mv_consensusTimestamp = None,
     mv_payerTransfer = None, mv_treasuryTransfer = None, mv_amountAtomicMatch = False, mv_payerMatch = False,
     mv_treasuryMatch = False \<rparr>"

definition leg_of :: "string \<Rightarrow> string \<Rightarrow> MirrorTransfer list \<Rightarrow> int option" where
  "leg_of asset acct transfers =
     (case filter (\<lambda>t. tr_token_id t = Some asset \<and> tr_account t = Some acct) transfers of
        [t] \<Rightarrow> tr_amount t | _ \<Rightarrow> None)"

definition verifyUsdcAccessPaymentOnMirror ::
  "string \<Rightarrow> string \<Rightarrow> string \<Rightarrow> string \<Rightarrow> string \<Rightarrow> mirror_answer \<Rightarrow> mirror_error + MirrorUsdcVerification" where
  "verifyUsdcAccessPaymentOnMirror transactionId payerAccount treasuryAccount asset amountAtomic answer =
     (let mirrorId = toMirrorTransactionId transactionId in
      case answer of
        MirrorThrows \<Rightarrow> Inl MirrorFetchFailed
      | MirrorNotFound \<Rightarrow> Inr (not_found mirrorId)
      | MirrorBadStatus \<Rightarrow> Inl MirrorHttpError
      | MirrorTransactions [] \<Rightarrow> Inr (not_found mirrorId)
      | MirrorTransactions (tx # _) \<Rightarrow>
          bind_res (of_option MirrorAmountSyntax (js_bigint amountAtomic)) (\<lambda>expected.
          let payerTransfer = leg_of asset payerAccount (mt_token_transfers tx);
              treasuryTransfer = leg_of asset treasuryAccount (mt_token_transfers tx) in
          bind_res (if absent (mt_consensus_timestamp tx) then Inr None
                    else bind_res (mirrorTimestampToUtcIso (the (mt_consensus_timestamp tx))) (\<lambda>t. Inr (Some t))) (\<lambda>consensus.
          Inr \<lparr> mv_status = (if mt_result tx = Some ''SUCCESS'' then MIRROR_SUCCESS
                  else if absent (mt_result tx) then MIRROR_PENDING else MIRROR_FAILED),
                mv_mirrorTransactionId = mirrorId, mv_consensusTimestamp = consensus,
                mv_payerTransfer = payerTransfer, mv_treasuryTransfer = treasuryTransfer,
                mv_amountAtomicMatch = (payerTransfer = Some (- expected) \<and> treasuryTransfer = Some expected),
                mv_payerMatch = (isValidHederaAccountId payerAccount \<and> (\<exists>n\<in>set_option payerTransfer. n < 0)),
                mv_treasuryMatch = (isValidHederaAccountId treasuryAccount \<and> (\<exists>n\<in>set_option treasuryTransfer. n > 0)) \<rparr>)))"

subsection \<open>The reconciler\<close>

definition verify_settlement :: "SettledAccessPayment \<Rightarrow> mirror_answer \<Rightarrow> mirror_error + MirrorUsdcVerification" where
  "verify_settlement s = verifyUsdcAccessPaymentOnMirror (sp_transactionId s) (sp_payerAccount s) (sp_payTo s)
     (sp_asset s) (sp_amountAtomic s)"

primrec mirror_polls :: "SettledAccessPayment \<Rightarrow> mirror_answer list \<Rightarrow> PaymentReconciliationResult option" where
  "mirror_polls s [] = Some RECONCILE_UNKNOWN"
| "mirror_polls s (answer # answers) =
     (case verify_settlement s answer of
        Inl _ \<Rightarrow> None
      | Inr v \<Rightarrow>
          if mv_status v = MIRROR_SUCCESS \<and> mv_amountAtomicMatch v \<and> mv_payerMatch v \<and> mv_treasuryMatch v
          then Some (RECONCILE_CONFIRMED (s \<lparr> sp_consensusTimestamp :=
            (case mv_consensusTimestamp v of None \<Rightarrow> sp_consensusTimestamp s | Some t \<Rightarrow> t) \<rparr>))
          else if mv_status v = MIRROR_FAILED then Some (RECONCILE_FAILED ''MIRROR_FAILED'')
          else mirror_polls s answers)"

definition MIRROR_MAX_POLLS :: nat where "MIRROR_MAX_POLLS = 20"

text \<open>\<open>answers i\<close> is what the i-th poll gets.\<close>

definition mirror_reconcile :: "nat \<Rightarrow> (nat \<Rightarrow> mirror_answer) \<Rightarrow> PaymentClaim \<Rightarrow> PaymentReconciliationResult option" where
  "mirror_reconcile maxPolls answers claim =
     (case pc_settlement claim of
        None \<Rightarrow> Some RECONCILE_UNKNOWN
      | Some s \<Rightarrow> mirror_polls s (map answers [0..<maxPolls]))"

definition unknown_reconcile :: "PaymentClaim \<Rightarrow> PaymentReconciliationResult option" where
  "unknown_reconcile claim = Some RECONCILE_UNKNOWN"

subsection \<open>What a confirmation shows\<close>

definition moved_exactly :: "SettledAccessPayment \<Rightarrow> mirror_answer \<Rightarrow> bool" where
  "moved_exactly s answer \<longleftrightarrow> (\<exists>tx txs n. answer = MirrorTransactions (tx # txs) \<and> mt_result tx = Some ''SUCCESS''
     \<and> js_bigint (sp_amountAtomic s) = Some n \<and> 0 < n
     \<and> leg_of (sp_asset s) (sp_payerAccount s) (mt_token_transfers tx) = Some (- n)
     \<and> leg_of (sp_asset s) (sp_payTo s) (mt_token_transfers tx) = Some n)"

lemma verify_settlement_ok:
  assumes "verify_settlement s answer = Inr v" "mv_status v = MIRROR_SUCCESS" "mv_amountAtomicMatch v" "mv_treasuryMatch v"
  shows "moved_exactly s answer"
  using assms
  by (auto simp: verify_settlement_def verifyUsdcAccessPaymentOnMirror_def moved_exactly_def not_found_def Let_def res_simps
      split: mirror_answer.splits list.splits if_splits)

lemma mirror_polls_confirmed:
  "mirror_polls s as = Some (RECONCILE_CONFIRMED s') \<Longrightarrow>
     (\<exists>a\<in>set as. moved_exactly s a) \<and> (\<exists>t. s' = s \<lparr> sp_consensusTimestamp := t \<rparr>)"
  by (induction as) (auto split: sum.splits if_splits dest: verify_settlement_ok)

lemma mirror_confirms:
  assumes "mirror_reconcile maxPolls answers c = Some (RECONCILE_CONFIRMED s')"
  shows "\<exists>s i t. pc_settlement c = Some s \<and> i < maxPolls \<and> moved_exactly s (answers i)
    \<and> s' = s \<lparr> sp_consensusTimestamp := t \<rparr>"
  using assms mirror_polls_confirmed
  by (fastforce simp: mirror_reconcile_def split: option.splits)

end
