(* ===== verification/Access_Overlap.thy ===== *)
theory Access_Overlap
  imports Access_Safety Access_Mirror
begin

text \<open>
  Requests that end, overlap or crash (\<open>executePaymentClaim\<close>): every request ends after
  at most nine awaited calls; an action is settled at most once while its requests do not
  overlap; two overlapping requests can settle twice and lose the payment; a claim left in
  \<open>SETTLING\<close> is out of reach of both reconcilers of the repository.
\<close>

subsection \<open>Every request ends\<close>

primrec rank :: "exec_phase \<Rightarrow> nat" where
  "rank XRead = 9"
| "rank (XVerify raw) = 8"
| "rank (XAcquire v) = 7"
| "rank (XCommitted c) = 1"
| "rank (XReconcile c) = 5"
| "rank (XReverify c raw) = 7"
| "rank (XBegin v) = 6"
| "rank (XSettle c v) = 5"
| "rank (XRecordFailure code e) = 1"
| "rank (XRecordSettlement s) = 4"
| "rank (XPlan s) = 3"
| "rank (XCas s current nxt) = 2"
| "rank (XFinish s r) = 1"
| "rank (XDone r) = 0"

lemma rank_ready: "rank (ready_to_commit c) \<le> 3"
  by (simp add: ready_to_commit_def split: option.splits)

lemma rank_with_claim: "rank (with_claim x v c) \<le> (if v = None then 7 else 6)"
  using rank_ready [of c]
  by (auto simp: with_claim_def split: sum.splits PaymentClaimState.splits option.splits)

lemma rank_on_journal: "(\<And>r. rank (cont r) < n) \<Longrightarrow> 0 < n \<Longrightarrow> rank (fst (on_journal call cont w)) < n"
  by (auto simp: on_journal_def split: prod.splits sum.splits)

lemma rank_decreases: "rank (fst (exec_step d x a p w)) < rank p \<or> (\<exists>r. p = XDone r)"
proof (cases p)
  case XRead
  have "rank (with_claim x None c) < 9" for c using rank_with_claim [of x None c] by simp
  then show ?thesis using XRead by (simp add: step_read_def split: sum.splits option.splits)
next
  case (XAcquire v)
  have "rank (with_claim x (Some v) c) < 7" for c using rank_with_claim [of x "Some v" c] by simp
  then show ?thesis using XAcquire by (auto intro!: rank_on_journal)
next
  case (XRecordSettlement s)
  have "rank (ready_to_commit c) < 4" for c using rank_ready [of c] by simp
  then show ?thesis using XRecordSettlement by (auto intro!: rank_on_journal)
next
  case (XSettle c v)
  then show ?thesis by (simp add: step_settle_def split: sum.splits access_error.splits)
next
  case (XCas s current nxt)
  then show ?thesis by (simp add: step_cas_def split: prod.splits sum.splits)
qed (auto simp: step_committed_def step_reconcile_def step_reverify_def step_plan_def on_journal_def
    split: sum.splits option.splits PaymentReconciliationResult.splits apply_plan.splits prod.splits)

lemma phases_end:
  "rank p \<le> length aws \<Longrightarrow> \<exists>r. foldl (\<lambda>p (a, w). fst (exec_step d x a p w)) p aws = XDone r"
proof (induction aws arbitrary: p)
  case Nil
  then show ?case by (cases p) simp_all
next
  case (Cons aw aws)
  obtain a w where aw: "aw = (a, w)" by (cases aw)
  have "rank (fst (exec_step d x a p w)) \<le> length aws"
    using rank_decreases [of d x a p w] Cons.prems by auto
  then show ?case using Cons.IH [of "fst (exec_step d x a p w)"] aw by simp
qed



subsection \<open>At most one settlement\<close>

text \<open>
  Requests of one action never overlap: a request arrives only when no other for its
  action is pending, and a pending one may crash or be answered (\<open>leave\<close>) at any phase.
\<close>

abbreviation actions :: "(ExecuteClaimInput \<times> exec_phase) list \<Rightarrow> string list" where
  "actions rs \<equiv> map (\<lambda>r. xi_actionId (fst r)) rs"

inductive serial_run :: "access_deps \<Rightarrow> access_world \<Rightarrow> (ExecuteClaimInput \<times> exec_phase) list \<Rightarrow> bool" for d where
  start: "serial_run d \<lparr> aw_journal = None, aw_tenders = ts, aw_settles = [] \<rparr> []"
| arrive: "serial_run d w rs \<Longrightarrow> xi_actionId x \<notin> set (actions rs) \<Longrightarrow> serial_run d w (rs @ [(x, XRead)])"
| leave: "serial_run d w (rs @ r # rs') \<Longrightarrow> serial_run d w (rs @ rs')"
| elsewhere: "serial_run d w rs \<Longrightarrow> serial_run d (w \<lparr> aw_tenders := ts \<rparr>) rs"
| step: "serial_run d w rs \<Longrightarrow> i < length rs \<Longrightarrow> rs ! i = (x, p) \<Longrightarrow> exec_step d x a p w = (p', w')
    \<Longrightarrow> serial_run d w' (rs[i := (x, p')])"

definition past_claimed :: "PaymentClaim list \<Rightarrow> string \<Rightarrow> bool" where
  "past_claimed cs act \<longleftrightarrow> (\<exists>c\<in>set cs. action_of c = act \<and> pc_state c \<noteq> CLAIMED)"

definition settled_once :: "access_world \<Rightarrow> bool" where
  "settled_once w \<longleftrightarrow> distinct (aw_settles w) \<and> list_all (past_claimed (claims_in w)) (aw_settles w)"

primrec fresh :: "string list \<Rightarrow> PaymentClaim list \<Rightarrow> ExecuteClaimInput \<Rightarrow> exec_phase \<Rightarrow> bool" where
  "fresh sts cs x XRead = True"
| "fresh sts cs x (XVerify raw) = True"
| "fresh sts cs x (XAcquire v) = True"
| "fresh sts cs x (XCommitted c) = True"
| "fresh sts cs x (XReconcile c) = True"
| "fresh sts cs x (XReverify c raw) = (xi_actionId x \<notin> set sts)"
| "fresh sts cs x (XBegin v) = (xi_actionId x \<notin> set sts)"
| "fresh sts cs x (XSettle c v) = (xi_actionId x \<notin> set sts \<and> past_claimed cs (xi_actionId x))"
| "fresh sts cs x (XRecordFailure code e) = True"
| "fresh sts cs x (XRecordSettlement s) = True"
| "fresh sts cs x (XPlan s) = True"
| "fresh sts cs x (XCas s current nxt) = True"
| "fresh sts cs x (XFinish s r) = True"
| "fresh sts cs x (XDone r) = True"

lemma past_claimed_progress: "progress cs cs' \<Longrightarrow> past_claimed cs act \<Longrightarrow> past_claimed cs' act"
  unfolding progress_def past_claimed_def by metis

lemma fresh_progress:
  "progress cs cs' \<Longrightarrow> fresh sts cs x p \<Longrightarrow> set sts' \<subseteq> insert act (set sts) \<Longrightarrow> act \<noteq> xi_actionId x
     \<Longrightarrow> fresh sts' cs' x p"
  by (cases p) (auto simp: past_claimed_progress)

lemma fresh_ready: "fresh sts cs x (ready_to_commit c)"
  by (simp add: ready_to_commit_def split: option.splits)

lemma fresh_with_claim:
  assumes "journal_paid config cs" "list_all (past_claimed cs) sts" "c \<in> set cs"
  shows "fresh sts cs x (with_claim x v c)"
proof -
  have "xi_actionId x \<notin> set sts" if c: "pc_state c = CLAIMED" "action_of c = xi_actionId x"
  proof
    assume "xi_actionId x \<in> set sts"
    then obtain e where "e \<in> set cs" "action_of e = xi_actionId x" "pc_state e \<noteq> CLAIMED"
      using assms(2) by (auto simp: list_all_iff past_claimed_def)
    then show False
      using claims_ok_exclusive [of cs e c] assms(1,3) c by (auto simp: journal_paid_def)
  qed
  then show ?thesis
    using fresh_ready
    by (auto simp: with_claim_def assertClaimMatches_def claim_matches_def Let_def
        split: PaymentClaimState.splits option.splits)
qed

lemma fresh_step:
  assumes "world_ok d w" "req_ok d (claims_in w) x p" "settled_once w" "fresh (aw_settles w) (claims_in w) x p"
    and "exec_step d x a p w = (p', w')"
  shows "settled_once w' \<and> fresh (aw_settles w') (claims_in w') x p'
    \<and> set (aw_settles w') \<subseteq> insert (xi_actionId x) (set (aw_settles w))"
proof -
  note ok = step_ok [OF assms(1,2,5)]
  have past: "list_all (past_claimed (claims_in w')) (aw_settles w)"
    using assms(3) past_claimed_progress ok by (auto simp: settled_once_def list_all_iff)
  have quiet: ?thesis if "aw_settles w' = aw_settles w" "fresh (aw_settles w) (claims_in w') x p'"
    using that assms(3) past by (auto simp: settled_once_def)
  have paid: "journal_paid (ad_config d) (claims_in w')" using ok by (simp add: world_ok_def)
  show ?thesis
  proof (cases p)
    case XRead
    then have "w' = w" "p' = step_read x a w" using assms(5) by auto
    moreover have "fresh (aw_settles w) (claims_in w) x (step_read x a w)"
      using assms(1) read_claim fresh_with_claim past paid \<open>w' = w\<close>
      by (auto simp: step_read_def world_ok_def split: sum.splits option.splits)
    ultimately show ?thesis using quiet by simp
  next
    case (XAcquire v)
    then have e: "on_journal (file_acquire (ad_sha256 d) (sa_claim_io a) (fullClaimBinding (ad_config d) x v) (sa_now a))
       (\<lambda>(claim, outcome). with_claim x (Some v) claim) w = (p', w')" using assms(5) by simp
    show ?thesis
      using on_journal_acquire [OF assms(1) full_binding(1) e, of "fresh (aw_settles w) (claims_in w') x"]
        fresh_with_claim [OF paid past] quiet by simp
  next
    case (XBegin v)
    then have e: "on_journal (file_transition (sa_claim_io a) (transition_to x a CLAIMED SETTLING))
       (\<lambda>claim. XSettle claim v) w = (p', w')" using assms(5) by simp
    have st: "claim_step (claims_in w) (transition_to x a CLAIMED SETTLING)" by (simp add: claim_step_def)
    have "fresh (aw_settles w) (claims_in w') x (XSettle c v)"
      if "c \<in> set (claims_in w')" "action_of c = xi_actionId x" "pc_state c = SETTLING" for c
      using that assms(4) XBegin by (auto simp: past_claimed_def)
    then show ?thesis
      using on_journal_transition [OF assms(1) st e, of "fresh (aw_settles w) (claims_in w') x"] quiet by simp
  next
    case (XSettle c v)
    then have w': "w' = w \<lparr> aw_settles := aw_settles w @ [xi_actionId x] \<rparr>" "p' = step_settle d a c v" using assms(5) by auto
    moreover have "fresh sts cs x (step_settle d a c v)" for sts cs
      by (simp add: step_settle_def split: sum.splits access_error.splits)
    ultimately show ?thesis using assms(3,4) XSettle by (simp add: settled_once_def)
  next
    case (XRecordSettlement s)
    then have e: "on_journal (file_transition (sa_claim_io a) ((transition_to x a SETTLING SETTLED_PENDING_COMMIT)
       \<lparr> ct_settlement := Some s \<rparr>)) ready_to_commit w = (p', w')" using assms(5) by simp
    show ?thesis
      using on_journal_transition [OF assms(1) _ e, of "fresh (aw_settles w) (claims_in w') x"] assms(2) XRecordSettlement
        quiet fresh_ready by (simp add: claim_step_def)
  qed (use assms(4,5) quiet in \<open>auto simp: step_committed_def step_reconcile_def step_reverify_def step_plan_def step_cas_def
      on_journal_def split: sum.splits option.splits PaymentReconciliationResult.splits apply_plan.splits prod.splits if_splits\<close>)
qed

definition serial_ok :: "access_deps \<Rightarrow> access_world \<Rightarrow> (ExecuteClaimInput \<times> exec_phase) list \<Rightarrow> bool" where
  "serial_ok d w rs \<longleftrightarrow> run_ok d w rs \<and> distinct (actions rs) \<and> settled_once w
     \<and> (\<forall>j<length rs. fresh (aw_settles w) (claims_in w) (fst (rs ! j)) (snd (rs ! j)))"

lemma serial_ok_step:
  assumes "serial_ok d w rs" "i < length rs" "rs ! i = (x, p)" "exec_step d x a p w = (p', w')"
  shows "serial_ok d w' (rs[i := (x, p')])"
proof -
  have ok: "world_ok d w" "req_ok d (claims_in w) x p" "settled_once w" "fresh (aw_settles w) (claims_in w) x p"
    using assms by (auto simp: serial_ok_def run_ok_def list_all_length)
  note s = step_ok [OF ok(1,2) assms(4)] and f = fresh_step [OF ok assms(4)]
  have "run_ok d w' (rs[i := (x, p')])"
    using run_ok_step assms by (auto simp: serial_ok_def)
  moreover have "actions (rs[i := (x, p')]) = actions rs"
    using assms(2,3) by (simp add: map_update list_update_same_conv)
  moreover have "fresh (aw_settles w') (claims_in w') (fst (rs[i := (x, p')] ! j)) (snd (rs[i := (x, p')] ! j))"
    if j: "j < length rs" for j
  proof (cases "j = i")
    case True
    then show ?thesis using j f by simp
  next
    case False
    then have "xi_actionId x \<noteq> xi_actionId (fst (rs ! j))"
      using assms(1-3) j nth_eq_iff_index_eq [of "actions rs" i j] by (auto simp: serial_ok_def)
    moreover have "fresh (aw_settles w) (claims_in w) (fst (rs ! j)) (snd (rs ! j))" using assms(1) j by (simp add: serial_ok_def)
    ultimately show ?thesis using fresh_progress [OF conjunct1 [OF conjunct2 [OF s]]] f False by auto
  qed
  ultimately show ?thesis using assms(1) f by (simp add: serial_ok_def)
qed

lemma serial_run_ok: "serial_run d w rs \<Longrightarrow> serial_ok d w rs"
proof (induction rule: serial_run.induct)
  case (start ts)
  then show ?case
    using access_run_ok [OF access_run.start] by (simp add: serial_ok_def settled_once_def)
next
  case (arrive w rs x)
  then show ?case by (auto simp: serial_ok_def run_ok_def nth_append)
next
  case (leave w rs r rs')
  have "\<forall>q\<in>set (rs @ r # rs'). fresh (aw_settles w) (claims_in w) (fst q) (snd q)"
    using leave.IH unfolding serial_ok_def by (metis in_set_conv_nth)
  then have "\<forall>j<length (rs @ rs'). fresh (aw_settles w) (claims_in w) (fst ((rs @ rs') ! j)) (snd ((rs @ rs') ! j))"
    using nth_mem [of _ "rs @ rs'"] by auto
  then show ?case using leave.IH unfolding serial_ok_def run_ok_def by simp
next
  case (elsewhere w rs ts)
  then show ?case by (simp add: serial_ok_def run_ok_def world_ok_def settled_once_def)
next
  case (step w rs i x p a p' w')
  then show ?case using serial_ok_step by blast
qed

text \<open>
  C12. At most one settlement.  As long as the requests for one action do not overlap (others may, and
  each request may crash at any await and be sent again), the facilitator is asked to
  settle an action at most once, whatever it and the file systems answer.\<close>

theorem settled_at_most_once:
  assumes "serial_run d w rs"
  shows "distinct (aw_settles w)"
  using serial_run_ok [OF assms] by (simp add: serial_ok_def settled_once_def)

lemma schedule_serial:
  "serial_run d w rs \<Longrightarrow> list_all (\<lambda>m. fst m < length rs) ms \<Longrightarrow> run_schedule d ms (w, rs) = (w', rs')
     \<Longrightarrow> serial_run d w' rs'"
proof (induction ms arbitrary: w rs)
  case (Cons m ms)
  obtain x p where x: "rs ! fst m = (x, p)" by fastforce
  obtain p' w1 where e: "exec_step d x (snd m) p w = (p', w1)" by fastforce
  have "serial_run d w1 (rs[fst m := (x, p')])" using serial_run.step [OF Cons.prems(1) _ x e] Cons.prems(2) by simp
  then show ?case using Cons.IH [of w1 "rs[fst m := (x, p')]"] Cons.prems(2,3) x e by simp
qed simp

theorem settled_at_most_once_witness:
  "\<exists>w rs. serial_run demo_deps w rs \<and> aw_settles w = [''a2''] \<and> distinct (aw_settles w)"
proof -
  have "serial_run demo_deps empty_world [(demo_request, XRead)]"
    using serial_run.arrive [OF serial_run.start] by (simp add: empty_world_def)
  moreover have "run_schedule demo_deps (replicate 6 (0, demo_answers True)) (empty_world, [(demo_request, XRead)])
      = (demo_paid, [(demo_request, XPlan demo_settlement)])"
    using demo_paid_eval by (simp add: demo_paid_def prod_eq_iff)
  ultimately have r: "serial_run demo_deps demo_paid [(demo_request, XPlan demo_settlement)]"
    using schedule_serial [of demo_deps empty_world "[(demo_request, XRead)]" "replicate 6 (0, demo_answers True)"]
    by (simp add: list_all_iff)
  have "aw_settles demo_paid = [''a2'']" by code_simp
  then show ?thesis using r settled_at_most_once [OF r] by blast
qed

subsection \<open>Overlapping requests\<close>

text \<open>The steps of two requests for one action: the first wins the claim, both reach \<open>SETTLING\<close>.\<close>

definition overlap_schedule :: "(nat \<times> step_answers) list" where
  "overlap_schedule = map (\<lambda>i. (i, demo_answers True)) [0, 0, 0, 1, 1, 0, 1, 0] @ [(1, demo_answers False)]
     @ map (\<lambda>i. (i, demo_answers True)) [1, 0]"

lemma overlap_eval:
  "(case run_schedule demo_deps overlap_schedule (empty_world, [(demo_request, XRead), (demo_request, XRead)]) of
      (w, rs) \<Rightarrow> aw_settles w = [''a2'', ''a2''] \<and> map pc_state (claims_in w) = [FAILED]
        \<and> map pc_retryable (claims_in w) = [Some False]
        \<and> map snd rs = [XDone (Inl (ClaimStoreFailure PAYMENT_RECOVERY_FAILED)),
            XDone (Inl (AccessPaymentError ''PAYMENT_SETTLEMENT_FAILED''))])"
  by code_simp


subsection \<open>A claim left behind in \<open>SETTLING\<close>\<close>

lemma settling_has_no_settlement:
  "world_ok d w \<Longrightarrow> c \<in> set (claims_in w) \<Longrightarrow> pc_state c = SETTLING \<Longrightarrow> pc_settlement c = None"
  by (auto simp: world_ok_def journal_paid_def list_all_iff claim_paid_def settled_claim_def split: option.splits)

text \<open>
  C36. A claim left in \<open>SETTLING\<close> is not recovered.  After a crash between the call of the facilitator and the
  entry of its result, the claim stays in \<open>SETTLING\<close>, and no claim in \<open>SETTLING\<close> carries a
  settlement.  Every later request for the action, with the Mirror Node reconciler and whatever
  the Mirror Node answers, or with the default reconciler, ends with
  \<open>PAYMENT_SETTLEMENT_UNKNOWN\<close> and changes nothing.\<close>

theorem settling_is_not_recovered:
  assumes "access_run d w rs" "c \<in> set (file_claims (aw_journal w))" "pc_state c = SETTLING"
    and "claim_matches (xi_actionId x) (xi_binding x) (xi_requestHash x) c"
    and "sa_claim_io a1 = ClaimIoOk" "sa_reconcile a2 = mirror_reconcile maxPolls answers \<or> sa_reconcile a2 = unknown_reconcile"
  shows "executePaymentClaim d x [a1, a2] w = (XDone (Inl (V2AccessError ''PAYMENT_SETTLEMENT_UNKNOWN'')), w)"
proof -
  have w: "world_ok d w" using access_run_ok [OF assms(1)] by (simp add: run_ok_def)
  then have n: "pc_settlement c = None" using settling_has_no_settlement assms(2,3) by blast
  have act: "action_of c = xi_actionId x" using assms(4) by (simp add: claim_matches_def Let_def)
  have "xi_actionId x \<in> set (map action_of (claims_in w))" using assms(2) act by (metis image_eqI set_map)
  then obtain e where e: "find_claim (xi_actionId x) (claims_in w) = Some e"
    using find_claim_None by (metis not_None_eq)
  then have "e = c"
    using find_claim_Some [OF e] claims_ok_exclusive [of "claims_in w" e c] assms(2) act w
    by (simp add: world_ok_def journal_paid_def)
  moreover have "file_getByActionId ClaimIoOk (xi_actionId x) (aw_journal w) = Inr (find_claim (xi_actionId x) (claims_in w))"
    using w by (cases "aw_journal w")
      (auto simp: file_getByActionId_def read_claims_def parseEnvelope_def file_claims_def world_ok_def file_sound_def
        list_all_iff list_ex_iff)
  ultimately have "step_read x a1 w = XReconcile c"
    using e assms(3-5) by (simp add: step_read_def with_claim_def assertClaimMatches_def)
  moreover have "sa_reconcile a2 c = Some RECONCILE_UNKNOWN"
    using assms(6) n by (auto simp: mirror_reconcile_def unknown_reconcile_def)
  ultimately show ?thesis by (simp add: executePaymentClaim_def step_reconcile_def)
qed

lemma demo_crash_eval:
  "(case run_schedule demo_deps (replicate 4 (0, demo_answers True)) (empty_world, [(demo_request, XRead)]) of
      (w, rs) \<Rightarrow> (case claims_in w of [c] \<Rightarrow> pc_state c = SETTLING
         \<and> claim_matches (xi_actionId demo_request) (xi_binding demo_request) (xi_requestHash demo_request) c | _ \<Rightarrow> False))"
  by code_simp

theorem settling_is_not_recovered_witness:
  "\<exists>w rs c. access_run demo_deps w rs \<and> c \<in> set (file_claims (aw_journal w)) \<and> pc_state c = SETTLING
     \<and> executePaymentClaim demo_deps demo_request
         [demo_answers True, (demo_answers True) \<lparr> sa_reconcile := mirror_reconcile MIRROR_MAX_POLLS (\<lambda>i. MirrorNotFound) \<rparr>] w
       = (XDone (Inl (V2AccessError ''PAYMENT_SETTLEMENT_UNKNOWN'')), w)"
proof -
  obtain w rs where s: "run_schedule demo_deps (replicate 4 (0, demo_answers True)) (empty_world, [(demo_request, XRead)]) = (w, rs)"
    by fastforce
  then have r: "access_run demo_deps w rs" by (rule schedule_run [OF demo_arrived, rotated]) (simp add: list_all_iff)
  obtain c where c: "c \<in> set (claims_in w)" "pc_state c = SETTLING"
    "claim_matches (xi_actionId demo_request) (xi_binding demo_request) (xi_requestHash demo_request) c"
    using demo_crash_eval s by (auto split: list.splits)
  show ?thesis
    using settling_is_not_recovered [OF r c, of "demo_answers True"
        "(demo_answers True) \<lparr> sa_reconcile := mirror_reconcile MIRROR_MAX_POLLS (\<lambda>i. MirrorNotFound) \<rparr>" MIRROR_MAX_POLLS "\<lambda>i. MirrorNotFound"] r c
    by (auto simp: demo_answers_def)
qed

end
