(* ===== verification/Access_Routes.thy ===== *)
theory Access_Routes
  imports Access_Safety
begin

text \<open>
  The two paid routes, \<open>handleActivate\<close> and \<open>handleBid\<close> of \<^verbatim>\<open>src/v2/http/routes.ts\<close>.

  A handler is again a state machine with one awaited call for each step; its last part is
  \<open>executePaymentClaim\<close>.  The HTTP request is its path parameters, its body (\<open>None\<close> when
  it is not JSON) and its headers; a response is a status and a JSON body, without
  the free-text messages.  The catalogue of tenders is an injected dependency, its answer a
  parameter.
\<close>

subsection \<open>Requests, responses and errors\<close>

record http_request =
  hr_tenderId :: string
  hr_tenderVersion :: string
  hr_bidId :: string
  hr_body :: "json option"
  hr_header :: "string \<Rightarrow> string option"

datatype http_response = Response nat json

record PickupWindow =
  pw_earliest :: string
  pw_latest :: string

text \<open>The terms of a tender the routes read.\<close>

record V2FreightTender =
  ft_requiredEquipment :: string
  ft_pickupWindow :: PickupWindow
  ft_deliveryDeadline :: string

record route_deps =
  rd_access :: access_deps
  rd_carriers :: carrier_registry

record route_answers =
  ra_step :: step_answers
  ra_tender :: "V2FreightTender option option"
  ra_body_io :: body_io

definition is_persistence_error :: "store_error \<Rightarrow> bool" where
  "is_persistence_error e = (case e of CorruptLifecycleRecord \<Rightarrow> True | UnsupportedStorageVersion \<Rightarrow> True
     | ImmutableField _ \<Rightarrow> True | _ \<Rightarrow> False)"

definition guard_code :: "string \<Rightarrow> string" where
  "guard_code code =
     (if code = ''ACCESS_PAYMENT_REPLAY'' then ''PAYMENT_REPLAY''
      else if code = ''AUCTION_CLOSED'' then ''AUCTION_CLOSED''
      else if code = ''BID_ALREADY_ACCEPTED'' then ''PERSISTENCE_CONFLICT''
      else ''INVALID_LIFECYCLE_STATE'')"

definition error_code :: "access_error \<Rightarrow> string" where
  "error_code e =
     (case e of
        V2AccessError code \<Rightarrow> code
      | AccessPaymentError code \<Rightarrow> code
      | ClaimStoreFailure PAYMENT_ALREADY_USED \<Rightarrow> ''PAYMENT_REPLAY''
      | ClaimStoreFailure PAYMENT_CLAIM_CONFLICT \<Rightarrow> ''PAYMENT_CLAIM_CONFLICT''
      | ClaimStoreFailure PAYMENT_RECOVERY_FAILED \<Rightarrow> ''PAYMENT_RECOVERY_FAILED''
      | ClaimStoreFailure ClaimLockUnavailable \<Rightarrow> ''PERSISTENCE_CONFLICT''
      | ZodError \<Rightarrow> ''BID_INVALID''
      | TenderStoreFailure (ActionConflict _) \<Rightarrow> ''ACTION_ID_CONFLICT''
      | TenderStoreFailure (VersionConflict _ _) \<Rightarrow> ''PERSISTENCE_CONFLICT''
      | TenderStoreFailure (ReducerError (LifecycleGuard code)) \<Rightarrow> guard_code code
      | TenderStoreFailure f \<Rightarrow> if is_persistence_error f then ''PERSISTENCE_CONFLICT'' else ''INTERNAL_ERROR''
      | BodyFailure (BidBodyConflict _) \<Rightarrow> ''PERSISTENCE_CONFLICT''
      | _ \<Rightarrow> ''INTERNAL_ERROR'')"

definition handleError :: "access_error \<Rightarrow> http_response" where
  "handleError e = Response (v2AccessErrorStatus (error_code e)) (JObj [(''error'', JStr (error_code e))])"

subsection \<open>Helpers\<close>

definition parseTenderVersion :: "string \<Rightarrow> access_error + int" where
  "parseTenderVersion raw =
     (if raw = [] \<or> \<not> all_digits raw \<or> length raw > 9 \<or> digits_val raw < 1
      then Inl (V2AccessError ''TENDER_VERSION_MISMATCH'') else Inr (int (digits_val raw)))"

definition parseJsonBody :: "http_request \<Rightarrow> access_error + json" where
  "parseJsonBody req = of_option (V2AccessError ''BID_INVALID'') (hr_body req)"

definition bounded_str :: "nat \<Rightarrow> json \<Rightarrow> string \<Rightarrow> access_error + string" where
  "bounded_str mx v key =
     (case get_prop v key of Some (JStr s) \<Rightarrow> if len_between 1 mx s then Inr s else Inl ZodError | _ \<Rightarrow> Inl ZodError)"

definition ActivateBodySchema :: "json \<Rightarrow> access_error + string" where
  "ActivateBodySchema v =
     (if \<not> strict_keys [''actionId''] v then Inl ZodError else bounded_str 128 v ''actionId'')"

record BidBody =
  bb_actionId :: string
  bb_signedAt :: string
  bb_signature :: string
  bb_bid :: json

definition BidBodySchema :: "json \<Rightarrow> access_error + BidBody" where
  "BidBodySchema v =
     (if \<not> strict_keys [''actionId'', ''signedAt'', ''signature'', ''bid''] v then Inl ZodError
      else bind_res (bounded_str 128 v ''actionId'') (\<lambda>actionId.
        bind_res (bounded_str 64 v ''signedAt'') (\<lambda>signedAt.
        bind_res (bounded_str 256 v ''signature'') (\<lambda>signature.
        Inr \<lparr> bb_actionId = actionId, bb_signedAt = signedAt, bb_signature = signature,
              bb_bid = (case get_prop v ''bid'' of None \<Rightarrow> JUndefined | Some b \<Rightarrow> b) \<rparr>))))"

definition loadRecord :: "hash_fn \<Rightarrow> string \<Rightarrow> int \<Rightarrow> lifecycle_files \<Rightarrow> access_error + LifecycleRecord" where
  "loadRecord sha256 tenderId tenderVersion files =
     (case readRecord sha256 tenderId files of
        Inl e \<Rightarrow> if is_persistence_error e then Inl (TenderStoreFailure e) else Inl (V2AccessError ''TENDER_NOT_FOUND'')
      | Inr None \<Rightarrow> Inl (V2AccessError ''TENDER_NOT_FOUND'')
      | Inr (Some record) \<Rightarrow>
          if lr_tenderVersion record \<noteq> tenderVersion then Inl (V2AccessError ''TENDER_VERSION_MISMATCH'') else Inr record)"

definition assertTreasuryConsistent :: "LifecycleRecord \<Rightarrow> V2AccessConfig \<Rightarrow> access_error + unit" where
  "assertTreasuryConsistent record config =
     (if ts_accessTreasuryAccountId (lr_trust record) \<noteq> cf_accessTreasuryAccountId config
      then Inl (V2AccessError ''ACCESS_NOT_CONFIGURED'') else Inr ())"

abbreviation ineligible :: "access_error + 'a" where
  "ineligible \<equiv> Inl (V2AccessError ''BID_INELIGIBLE'')"

definition not_later :: "string \<Rightarrow> string \<Rightarrow> access_error + bool" where
  "not_later a b = map_err TimeFailure (isBeforeOrEqualUtc a b)"

definition assertBidEligible ::
  "V2CarrierBid \<Rightarrow> V2FreightTender \<Rightarrow> LifecycleRecord \<Rightarrow> carrier_registry \<Rightarrow> string \<Rightarrow> access_error + unit" where
  "assertBidEligible bid tender record carriers now =
     (case getById carriers (vb_carrierId bid) of
        None \<Rightarrow> ineligible
      | Some carrier \<Rightarrow>
          if \<not> cr_active carrier then ineligible
          else if cr_carrierAccountId carrier \<noteq> vb_carrierAccountId bid then ineligible
          else if \<not> List.member (cr_allowedEquipment carrier) (vb_equipment bid) then ineligible
          else if vb_equipment bid \<noteq> ft_requiredEquipment tender then ineligible
          else if \<not> vb_capacityConfirmed bid then ineligible
          else
            bind_res (not_later now (vb_bidValidUntil bid)) (\<lambda>valid. if \<not> valid then ineligible else
            bind_res (not_later (pw_earliest (ft_pickupWindow tender)) (vb_proposedPickupAt bid)) (\<lambda>after.
              if \<not> after then ineligible else
            bind_res (not_later (vb_proposedPickupAt bid) (pw_latest (ft_pickupWindow tender))) (\<lambda>before.
              if \<not> before then ineligible else
            bind_res (not_later (vb_estimatedDelivery bid) (ft_deliveryDeadline tender)) (\<lambda>timely.
              if \<not> timely then ineligible else
            bind_res (of_option OtherException (js_bigint (vb_freightAmountAtomic bid))) (\<lambda>price.
            bind_res (of_option OtherException (js_bigint (lr_maximumFreightBudgetAtomic record))) (\<lambda>budget.
              if price > budget then ineligible else Inr ())))))))"

text \<open>\<open>record.processedActions[actionId]\<close>: an own entry with its event type, or an inherited member.\<close>

definition prior_event :: "LifecycleRecord \<Rightarrow> string \<Rightarrow> string option option" where
  "prior_event r k =
     (case map_of (lr_processedActions r) k of
        Some a \<Rightarrow> Some (Some (pa2_eventType a))
      | None \<Rightarrow> if List.member OBJECT_PROTOTYPE_KEYS k then Some None else None)"

subsection \<open>Views\<close>

definition opt_json :: "json option \<Rightarrow> json" where
  "opt_json v = (case v of None \<Rightarrow> JNull | Some j \<Rightarrow> j)"

definition activationView :: "LifecycleRecord \<Rightarrow> string \<Rightarrow> json" where
  "activationView r how = JObj
     [(''outcome'', JStr how),
      (''tender'', JObj [(''tenderId'', JStr (lr_tenderId r)), (''tenderVersion'', JNum (lr_tenderVersion r)),
         (''state'', JStr (state_str (lr_state r))), (''recordVersion'', JNum (lr_recordVersion r)),
         (''auctionEndsAt'', JStr (lr_auctionEndsAt r)),
         (''maximumFreightBudgetAtomic'', JStr (lr_maximumFreightBudgetAtomic r))]),
      (''accessPayment'', opt_json (map_option (\<lambda>p. JObj
         [(''actionType'', JStr ''TENDER_ACTIVATE''), (''asset'', JStr (ar_asset p)),
          (''amountAtomic'', JStr (ar_amountAtomic p)), (''payTo'', JStr (ar_payTo p)),
          (''payerAccount'', JStr (ar_payerAccount p)), (''resource'', JStr (ar_resource p)),
          (''transactionId'', JStr (ar_paymentTransactionId p)), (''settledAt'', JStr (ar_paidAt p)),
          (''status'', JStr ''PAID'')]) (lr_accessReceipt r)))]"

definition receiptView :: "LifecycleRecord \<Rightarrow> string option \<Rightarrow> json" where
  "receiptView r actionId = opt_json (map_option (\<lambda>p. JObj
     [(''actionType'', JStr (ap_accessActionType p)), (''asset'', JStr (ap_asset p)),
      (''amountAtomic'', JStr (ap_amountAtomic p)), (''payTo'', JStr (ap_payTo p)),
      (''payerAccount'', JStr (ap_payerAccount p)), (''resource'', JStr (ap_resource p)),
      (''transactionId'', JStr (ap_paymentTransactionId p)), (''settledAt'', JStr (ap_settledAt p)),
      (''status'', JStr ''PAID'')])
     (if absent actionId
      then (if lr_accessPayments r = [] then None else Some (last (lr_accessPayments r)))
      else List.find (\<lambda>p. Some (ap_actionId p) = actionId) (lr_accessPayments r)))"

definition bidView :: "LifecycleRecord \<Rightarrow> string \<Rightarrow> string \<Rightarrow> json" where
  "bidView r bidId how =
     (let entry = List.find (\<lambda>b. be_bidId b = bidId) (lr_bidRegistry r) in JObj
      [(''outcome'', JStr how), (''accepted'', JBool (entry \<noteq> None)), (''bidId'', JStr bidId),
       (''tender'', JObj [(''tenderId'', JStr (lr_tenderId r)), (''tenderVersion'', JNum (lr_tenderVersion r)),
          (''state'', JStr (state_str (lr_state r))), (''recordVersion'', JNum (lr_recordVersion r))]),
       (''commitment'', opt_json (map_option (\<lambda>e. JObj [(''bidHash'', JStr (be_bidHash e)),
          (''commitmentPayloadHash'', JStr (be_commitmentPayloadHash e)), (''carrierId'', JStr (be_carrierId e)),
          (''acceptedAt'', JStr (be_acceptedAt e))]) entry)),
       (''accessPayment'', opt_json (map_option (\<lambda>e. receiptView r (Some (be_actionId e))) entry))])"

definition purpose_of :: "AccessActionBinding \<Rightarrow> string" where
  "purpose_of binding = (if ab_actionType binding = ''TENDER_ACTIVATE'' then ''TENDER_ACTIVATION_ACCESS''
     else ''BID_SUBMISSION_ACCESS'')"

definition paymentRequiredResponse :: "V2AccessConfig \<Rightarrow> x402_answers \<Rightarrow> AccessActionBinding \<Rightarrow> http_response" where
  "paymentRequiredResponse config x402 binding =
     (case paymentRequired config x402 binding ''PAYMENT_REQUIRED'' of
        Inl e \<Rightarrow> handleError e
      | Inr props \<Rightarrow> Response 402 (JObj (fold (\<lambda>(k, v). AList.update k v) props
          [(''error'', JStr ''PAYMENT_REQUIRED''), (''accessFee'', JObj [(''purpose'', JStr (purpose_of binding))])])))"

subsection \<open>The handlers\<close>

datatype handler_phase =
    HLoad
  | HExisting LifecycleRecord
  | HTender LifecycleRecord "PaymentClaim option" V2CarrierBid string
  | HChallenge AccessActionBinding
  | HStore LifecycleRecord bool V2CarrierBid string AccessActionBinding string
  | HPay bool ExecuteClaimInput exec_phase
  | HRespond http_response

abbreviation refuse :: "access_error \<Rightarrow> handler_phase" where
  "refuse e \<equiv> HRespond (handleError e)"

definition or_refuse :: "access_error + handler_phase \<Rightarrow> handler_phase" where
  "or_refuse r = (case r of Inl e \<Rightarrow> refuse e | Inr p \<Rightarrow> p)"

definition open_tender :: "access_deps \<Rightarrow> http_request \<Rightarrow> int \<Rightarrow> access_world \<Rightarrow> access_error + LifecycleRecord" where
  "open_tender d req version w =
     bind_res (loadRecord (ad_sha256 d) (hr_tenderId req) version (aw_tenders w)) (\<lambda>record.
     bind_res (assertTreasuryConsistent record (ad_config d)) (\<lambda>_. Inr record))"

text \<open>Activation.\<close>

definition activate_body :: "http_request \<Rightarrow> access_error + string" where
  "activate_body req = bind_res (parseJsonBody req) ActivateBodySchema"

definition activation_binding :: "LifecycleRecord \<Rightarrow> access_error + AccessActionBinding" where
  "activation_binding r =
     bind_res (map_err ResourceFailure (tenderActivateResource (lr_tenderId r) (lr_tenderVersion r))) (\<lambda>resource.
       Inr \<lparr> ab_actionType = ''TENDER_ACTIVATE'', ab_tenderId = lr_tenderId r, ab_tenderVersion = lr_tenderVersion r,
             ab_bidId = None, ab_resource = resource, ab_description = ''RouteGuard v2 tender activation access fee'' \<rparr>)"

definition activation_hash :: "hash_fn \<Rightarrow> LifecycleRecord \<Rightarrow> string \<Rightarrow> access_error + string" where
  "activation_hash sha256 r actionId = map_err HashFailure (canonicalSha256 sha256
     (JObj [(''actionType'', JStr ''TENDER_ACTIVATE''), (''actionId'', JStr actionId), (''tenderId'', JStr (lr_tenderId r)),
        (''tenderVersion'', JNum (lr_tenderVersion r))]))"

definition activationResultRef :: "LifecycleRecord \<Rightarrow> string \<Rightarrow> PaymentClaimResultRef" where
  "activationResultRef r actionId = \<lparr> rf_kind = TENDER_ACTIVATION, rf_tenderId = lr_tenderId r,
     rf_tenderVersion = lr_tenderVersion r, rf_bidId = None, rf_actionId = actionId \<rparr>"

definition activation_input ::
  "http_request \<Rightarrow> LifecycleRecord \<Rightarrow> string \<Rightarrow> AccessActionBinding \<Rightarrow> string \<Rightarrow> ExecuteClaimInput" where
  "activation_input req r actionId binding hash = \<lparr> xi_actionId = actionId, xi_binding = binding, xi_requestHash = hash,
     xi_rawPayment = readAccessPaymentHeader (hr_header req), xi_commit = CommitActivation,
     xi_resultRef = activationResultRef r actionId \<rparr>"

definition decide_activation :: "LifecycleRecord \<Rightarrow> ExecuteClaimInput \<Rightarrow> PaymentClaim option \<Rightarrow> access_error + handler_phase" where
  "decide_activation r x existing =
     (case prior_event r (xi_actionId x) of
        Some eventType \<Rightarrow>
          if eventType \<noteq> Some ''TENDER_ACTIVATION_PAID'' then Inl (V2AccessError ''ACTION_ID_CONFLICT'')
          else if existing \<noteq> None then Inr (HPay True x XRead)
          else Inr (HRespond (Response 200 (activationView r ''REPLAYED'')))
      | None \<Rightarrow>
          if lr_state r \<noteq> ESCROW_FUNDED
          then Inl (V2AccessError (if lr_state r = DRAFT then ''ESCROW_NOT_CONFIRMED'' else ''INVALID_LIFECYCLE_STATE''))
          else if xi_rawPayment x = None \<and> existing = None then Inr (HChallenge (xi_binding x))
          else Inr (HPay (existing \<noteq> None) x XRead))"

definition pay_step ::
  "access_deps \<Rightarrow> step_answers \<Rightarrow> (LifecycleRecord \<Rightarrow> json) \<Rightarrow> bool \<Rightarrow> ExecuteClaimInput \<Rightarrow> exec_phase \<Rightarrow> access_world
     \<Rightarrow> handler_phase \<times> access_world" where
  "pay_step d a view replayed x p w =
     (case exec_step d x a p w of
        (XDone (Inl e), w') \<Rightarrow> (refuse e, w')
      | (XDone (Inr r), w') \<Rightarrow> (HRespond (Response 200 (view r)), w')
      | (p', w') \<Rightarrow> (HPay replayed x p', w'))"

definition existing_claim :: "route_answers \<Rightarrow> string \<Rightarrow> access_world \<Rightarrow> access_error + PaymentClaim option" where
  "existing_claim a actionId w =
     map_err ClaimStoreFailure (file_getByActionId (sa_claim_io (ra_step a)) actionId (aw_journal w))"

fun handleActivate ::
  "route_deps \<Rightarrow> http_request \<Rightarrow> route_answers \<Rightarrow> handler_phase \<Rightarrow> access_world \<Rightarrow> handler_phase \<times> access_world" where
  "handleActivate rd req a HLoad w =
     (or_refuse (bind_res (parseTenderVersion (hr_tenderVersion req)) (\<lambda>version.
        bind_res (activate_body req) (\<lambda>_.
        bind_res (open_tender (rd_access rd) req version w) (\<lambda>record. Inr (HExisting record))))), w)"
| "handleActivate rd req a (HExisting record) w =
     (or_refuse (bind_res (activate_body req) (\<lambda>actionId.
        bind_res (activation_binding record) (\<lambda>binding.
        bind_res (activation_hash (ad_sha256 (rd_access rd)) record actionId) (\<lambda>hash.
        bind_res (existing_claim a actionId w) (decide_activation record (activation_input req record actionId binding hash)))))), w)"
| "handleActivate rd req a (HChallenge binding) w =
     (HRespond (paymentRequiredResponse (ad_config (rd_access rd)) (sa_x402 (ra_step a)) binding), w)"
| "handleActivate rd req a (HPay replayed x p) w =
     pay_step (rd_access rd) (ra_step a)
       (\<lambda>r. activationView r (if replayed then ''REPLAYED'' else ''PAID'')) replayed x p w"
| "handleActivate rd req a p w = (p, w)"

text \<open>Bids.\<close>

definition bid_body_of :: "http_request \<Rightarrow> access_error + BidBody" where
  "bid_body_of req = bind_res (parseJsonBody req) BidBodySchema"

text \<open>A repeated action whose journal entry is gone.\<close>

definition replay_bid :: "http_request \<Rightarrow> LifecycleRecord \<Rightarrow> string \<Rightarrow> string option \<Rightarrow> access_error + handler_phase" where
  "replay_bid req r actionId eventType =
     (if eventType \<noteq> Some ''BID_SUBMISSION_PAID'' then Inl (V2AccessError ''ACTION_ID_CONFLICT'')
      else case List.find (\<lambda>b. be_actionId b = actionId) (lr_bidRegistry r) of
        None \<Rightarrow> Inl (V2AccessError ''ACTION_ID_CONFLICT'')
      | Some entry \<Rightarrow>
          if be_bidId entry \<noteq> hr_bidId req then Inl (V2AccessError ''ACTION_ID_CONFLICT'')
          else Inr (HRespond (Response 200 (bidView r (be_bidId entry) ''REPLAYED''))))"

definition check_bid ::
  "http_request \<Rightarrow> LifecycleRecord \<Rightarrow> BidBody \<Rightarrow> PaymentClaim option \<Rightarrow> string \<Rightarrow> access_error + V2CarrierBid" where
  "check_bid req r body existing now =
     (if lr_state r \<noteq> TENDER_OPENED \<and> lr_state r \<noteq> BIDDING
      then Inl (V2AccessError (if lr_state r = DRAFT \<or> lr_state r = ESCROW_FUNDED then ''INVALID_LIFECYCLE_STATE''
        else ''AUCTION_CLOSED''))
      else if \<not> isUtcIsoTimestamp (bb_signedAt body) then Inl (V2AccessError ''BID_INVALID'')
      else case parseV2CarrierBid (bb_bid body) of
        Inl _ \<Rightarrow> Inl (V2AccessError ''BID_INVALID'')
      | Inr bid \<Rightarrow>
          if vb_bidId bid \<noteq> hr_bidId req \<or> vb_tenderId bid \<noteq> lr_tenderId r \<or> vb_tenderVersion bid \<noteq> lr_tenderVersion r
          then Inl (V2AccessError ''BID_INVALID'')
          else bind_res (not_later now (lr_auctionEndsAt r)) (\<lambda>on_time.
            if \<not> on_time then Inl (V2AccessError ''AUCTION_CLOSED'')
            else if list_ex (\<lambda>b. be_bidId b = vb_bidId bid) (lr_bidRegistry r) \<and> existing = None
            then Inl (V2AccessError ''PERSISTENCE_CONFLICT'') else Inr bid))"

definition decide_bid ::
  "http_request \<Rightarrow> LifecycleRecord \<Rightarrow> BidBody \<Rightarrow> PaymentClaim option \<Rightarrow> string \<Rightarrow> access_error + handler_phase" where
  "decide_bid req r body existing now =
     (if prior_event r (bb_actionId body) \<noteq> None \<and> existing = None
      then replay_bid req r (bb_actionId body) (the (prior_event r (bb_actionId body)))
      else bind_res (check_bid req r body existing now) (\<lambda>bid. Inr (HTender r existing bid now)))"

definition bid_sign_payload :: "LifecycleRecord \<Rightarrow> BidBody \<Rightarrow> V2CarrierBid \<Rightarrow> string \<Rightarrow> CarrierBidSignPayload" where
  "bid_sign_payload r body bid hash = \<lparr> cp_tenderId = lr_tenderId r, cp_tenderVersion = lr_tenderVersion r,
     cp_bidId = vb_bidId bid, cp_carrierId = vb_carrierId bid, cp_carrierAccountId = vb_carrierAccountId bid,
     cp_bidHash = hash, cp_signedAt = bb_signedAt body, cp_actionId = bb_actionId body \<rparr>"

definition check_signature ::
  "access_deps \<Rightarrow> carrier_registry \<Rightarrow> LifecycleRecord \<Rightarrow> BidBody \<Rightarrow> V2CarrierBid \<Rightarrow> string \<Rightarrow> access_error + unit" where
  "check_signature d carriers r body bid hash =
     (case getById carriers (vb_carrierId bid) of
        None \<Rightarrow> Inl OtherException
      | Some carrier \<Rightarrow>
          (case verifyCarrierBid (ad_sha256 d) (ad_ecdsa d) (cr_signingPublicKey carrier) (bid_sign_payload r body bid hash)
              (bb_signature body) of
             Inl (AuthorizationError _) \<Rightarrow> Inl (V2AccessError ''BID_INVALID'')
           | Inl e \<Rightarrow> Inl (AuthFailure e)
           | Inr _ \<Rightarrow> Inr ()))"

definition bid_binding :: "LifecycleRecord \<Rightarrow> V2CarrierBid \<Rightarrow> access_error + AccessActionBinding" where
  "bid_binding r bid =
     bind_res (map_err ResourceFailure (bidSubmitResource (lr_tenderId r) (lr_tenderVersion r) (vb_bidId bid))) (\<lambda>resource.
       Inr \<lparr> ab_actionType = ''BID_SUBMIT'', ab_tenderId = lr_tenderId r, ab_tenderVersion = lr_tenderVersion r,
             ab_bidId = Some (vb_bidId bid), ab_resource = resource,
             ab_description = ''RouteGuard v2 durable bid submission access fee'' \<rparr>)"

definition bid_request_hash ::
  "hash_fn \<Rightarrow> LifecycleRecord \<Rightarrow> BidBody \<Rightarrow> V2CarrierBid \<Rightarrow> string \<Rightarrow> access_error + string" where
  "bid_request_hash sha256 r body bid hash =
     bind_res (map_err DocumentFailure (signedV2BidEnvelopeHash sha256 bid (bb_signature body))) (\<lambda>envelope.
       map_err HashFailure (canonicalSha256 sha256 (JObj
         [(''actionType'', JStr ''BID_SUBMIT''), (''actionId'', JStr (bb_actionId body)), (''tenderId'', JStr (lr_tenderId r)),
          (''tenderVersion'', JNum (lr_tenderVersion r)), (''bidId'', JStr (vb_bidId bid)), (''bidHash'', JStr hash),
          (''signedBidEnvelopeHash'', JStr envelope), (''signedAt'', JStr (bb_signedAt body))])))"

definition judge_bid_request ::
  "route_deps \<Rightarrow> http_request \<Rightarrow> LifecycleRecord \<Rightarrow> BidBody \<Rightarrow> PaymentClaim option \<Rightarrow> V2CarrierBid \<Rightarrow> string
     \<Rightarrow> V2FreightTender \<Rightarrow> access_error + handler_phase" where
  "judge_bid_request rd req r body existing bid now tender =
     bind_res (assertBidEligible bid tender r (rd_carriers rd) now) (\<lambda>_.
     bind_res (map_err DocumentFailure (v2BidHash (ad_sha256 (rd_access rd)) bid)) (\<lambda>hash.
     bind_res (check_signature (rd_access rd) (rd_carriers rd) r body bid hash) (\<lambda>_.
     bind_res (bid_binding r bid) (\<lambda>binding.
     bind_res (bid_request_hash (ad_sha256 (rd_access rd)) r body bid hash) (\<lambda>requestHash.
     bind_res (case existing of None \<Rightarrow> Inr ()
               | Some claim \<Rightarrow> assertClaimMatches (bb_actionId body) binding requestHash claim) (\<lambda>_.
     if readAccessPaymentHeader (hr_header req) = None \<and> existing = None then Inr (HChallenge binding)
     else Inr (HStore r (existing \<noteq> None) bid now binding requestHash)))))))"

definition bid_input ::
  "http_request \<Rightarrow> LifecycleRecord \<Rightarrow> BidBody \<Rightarrow> AccessActionBinding \<Rightarrow> string \<Rightarrow> StoredBidBody \<Rightarrow> V2CarrierBid \<Rightarrow> ExecuteClaimInput" where
  "bid_input req r body binding requestHash stored bid = \<lparr> xi_actionId = bb_actionId body, xi_binding = binding,
     xi_requestHash = requestHash, xi_rawPayment = readAccessPaymentHeader (hr_header req),
     xi_commit = CommitBid (bb_signedAt body) stored,
     xi_resultRef = \<lparr> rf_kind = CARRIER_BID, rf_tenderId = lr_tenderId r, rf_tenderVersion = lr_tenderVersion r,
       rf_bidId = Some (vb_bidId bid), rf_actionId = bb_actionId body \<rparr> \<rparr>"

definition store_body ::
  "route_deps \<Rightarrow> http_request \<Rightarrow> route_answers \<Rightarrow> LifecycleRecord \<Rightarrow> bool \<Rightarrow> V2CarrierBid \<Rightarrow> string
     \<Rightarrow> AccessActionBinding \<Rightarrow> string \<Rightarrow> BidBody \<Rightarrow> body_files \<Rightarrow> handler_phase \<times> body_files" where
  "store_body rd req a r replayed bid now binding requestHash body bodies =
     (case file_put (ad_sha256 (rd_access rd)) (ra_body_io a) (lr_tenderId r) (lr_tenderVersion r) bid (bb_signature body)
         now bodies of
        (Inl e, bodies') \<Rightarrow> (refuse (BodyFailure e), bodies')
      | (Inr stored, bodies') \<Rightarrow> (HPay replayed (bid_input req r body binding requestHash stored bid) XRead, bodies'))"

fun handleBid ::
  "route_deps \<Rightarrow> http_request \<Rightarrow> route_answers \<Rightarrow> handler_phase \<Rightarrow> access_world \<times> body_files
     \<Rightarrow> handler_phase \<times> access_world \<times> body_files" where
  "handleBid rd req a HLoad (w, bodies) =
     (or_refuse (bind_res (parseTenderVersion (hr_tenderVersion req)) (\<lambda>version.
        bind_res (bid_body_of req) (\<lambda>_.
        bind_res (open_tender (rd_access rd) req version w) (\<lambda>record. Inr (HExisting record))))), w, bodies)"
| "handleBid rd req a (HExisting record) (w, bodies) =
     (or_refuse (bind_res (bid_body_of req) (\<lambda>body.
        bind_res (existing_claim a (bb_actionId body) w) (\<lambda>existing.
          decide_bid req record body existing (sa_now (ra_step a))))), w, bodies)"
| "handleBid rd req a (HTender record existing bid now) (w, bodies) =
     (or_refuse (bind_res (bid_body_of req) (\<lambda>body.
        bind_res (of_option OtherException (ra_tender a)) (\<lambda>found.
        bind_res (of_option (V2AccessError ''TENDER_NOT_FOUND'') found)
          (judge_bid_request rd req record body existing bid now)))), w, bodies)"
| "handleBid rd req a (HChallenge binding) (w, bodies) =
     (HRespond (paymentRequiredResponse (ad_config (rd_access rd)) (sa_x402 (ra_step a)) binding), w, bodies)"
| "handleBid rd req a (HStore record replayed bid now binding requestHash) (w, bodies) =
     (case bid_body_of req of
        Inl e \<Rightarrow> (refuse e, w, bodies)
      | Inr body \<Rightarrow>
          (case store_body rd req a record replayed bid now binding requestHash body bodies of
             (p, bodies') \<Rightarrow> (p, w, bodies')))"
| "handleBid rd req a (HPay replayed x p) (w, bodies) =
     (case pay_step (rd_access rd) (ra_step a) (\<lambda>r. bidView r (hr_bidId req) (if replayed then ''REPLAYED'' else ''ACCEPTED''))
         replayed x p w of
        (p', w') \<Rightarrow> (p', w', bodies))"
| "handleBid rd req a p (w, bodies) = (p, w, bodies)"

subsection \<open>Nobody is asked to pay for an unusable bid\<close>

inductive bid_reaches :: "route_deps \<Rightarrow> http_request \<Rightarrow> handler_phase \<Rightarrow> bool" for rd req where
  start: "bid_reaches rd req HLoad"
| step: "bid_reaches rd req p \<Longrightarrow> handleBid rd req a p s = (p', s') \<Longrightarrow> bid_reaches rd req p'"

definition usable_bid ::
  "route_deps \<Rightarrow> http_request \<Rightarrow> LifecycleRecord \<Rightarrow> V2CarrierBid \<Rightarrow> AccessActionBinding \<Rightarrow> bool" where
  "usable_bid rd req r bid binding \<longleftrightarrow>
     ts_accessTreasuryAccountId (lr_trust r) = cf_accessTreasuryAccountId (ad_config (rd_access rd))
     \<and> bid_binding r bid = Inr binding
     \<and> (\<exists>body existing now tender hash. bid_body_of req = Inr body \<and> check_bid req r body existing now = Inr bid
         \<and> assertBidEligible bid tender r (rd_carriers rd) now = Inr ()
         \<and> v2BidHash (ad_sha256 (rd_access rd)) bid = Inr hash
         \<and> check_signature (rd_access rd) (rd_carriers rd) r body bid hash = Inr ())"

definition may_charge :: "route_deps \<Rightarrow> http_request \<Rightarrow> AccessActionBinding \<Rightarrow> bool" where
  "may_charge rd req binding \<longleftrightarrow> (\<exists>r bid. usable_bid rd req r bid binding)"

lemma may_chargeI: "usable_bid rd req r bid binding \<Longrightarrow> may_charge rd req binding"
  unfolding may_charge_def by blast

primrec bid_phase_ok :: "route_deps \<Rightarrow> http_request \<Rightarrow> handler_phase \<Rightarrow> bool" where
  "bid_phase_ok rd req HLoad = True"
| "bid_phase_ok rd req (HExisting r) =
     (ts_accessTreasuryAccountId (lr_trust r) = cf_accessTreasuryAccountId (ad_config (rd_access rd)))"
| "bid_phase_ok rd req (HTender r existing bid now) =
     (ts_accessTreasuryAccountId (lr_trust r) = cf_accessTreasuryAccountId (ad_config (rd_access rd))
      \<and> (\<exists>body. bid_body_of req = Inr body \<and> check_bid req r body existing now = Inr bid))"
| "bid_phase_ok rd req (HChallenge binding) = may_charge rd req binding"
| "bid_phase_ok rd req (HStore r replayed bid now binding requestHash) = usable_bid rd req r bid binding"
| "bid_phase_ok rd req (HPay replayed x p) = may_charge rd req (xi_binding x)"
| "bid_phase_ok rd req (HRespond response) = True"

lemma or_refuse_ok: "(\<And>q. r = Inr q \<Longrightarrow> bid_phase_ok rd req q) \<Longrightarrow> bid_phase_ok rd req (or_refuse r)"
  by (cases r) (simp_all add: or_refuse_def)

lemma judge_ok:
  assumes "bid_phase_ok rd req (HTender r existing bid now)" "bid_body_of req = Inr body"
    and "judge_bid_request rd req r body existing bid now tender = Inr p"
  shows "bid_phase_ok rd req p"
proof -
  have c: "check_bid req r body existing now = Inr bid" using assms(1,2) by simp
  obtain hash binding requestHash where j: "assertBidEligible bid tender r (rd_carriers rd) now = Inr ()"
    "v2BidHash (ad_sha256 (rd_access rd)) bid = Inr hash"
    "check_signature (rd_access rd) (rd_carriers rd) r body bid hash = Inr ()" "bid_binding r bid = Inr binding"
    and p: "p = HChallenge binding \<or> p = HStore r (existing \<noteq> None) bid now binding requestHash"
    using assms(3) by (auto simp: judge_bid_request_def res_simps split: if_splits)
  then have "usable_bid rd req r bid binding" using assms(1,2) c unfolding usable_bid_def by auto
  then show ?thesis using p may_chargeI by auto
qed

lemma bid_step_ok:
  assumes "bid_phase_ok rd req p" "handleBid rd req a p (w, bodies) = (p', s')"
  shows "bid_phase_ok rd req p'"
proof (cases p)
  case HLoad
  then have "p' = or_refuse (bind_res (parseTenderVersion (hr_tenderVersion req)) (\<lambda>version.
        bind_res (bid_body_of req) (\<lambda>_.
        bind_res (open_tender (rd_access rd) req version w) (\<lambda>record. Inr (HExisting record)))))"
    using assms(2) by simp
  then show ?thesis
    by (auto simp: res_simps open_tender_def assertTreasuryConsistent_def split: if_splits intro!: or_refuse_ok)
next
  case (HExisting r)
  then show ?thesis using assms
    by (auto simp: res_simps decide_bid_def replay_bid_def split: option.splits if_splits intro!: or_refuse_ok)
next
  case (HTender r existing bid now)
  then show ?thesis using assms judge_ok by (auto simp: res_simps simp del: bid_phase_ok.simps intro!: or_refuse_ok)
next
  case (HStore r replayed bid now binding requestHash)
  then show ?thesis using assms
    by (auto simp: store_body_def bid_input_def may_chargeI split: sum.splits prod.splits)
next
  case (HPay replayed x q)
  then show ?thesis using assms
    by (auto simp: pay_step_def split: prod.splits exec_phase.splits sum.splits)
qed (use assms in auto)

lemma bid_reaches_ok: "bid_reaches rd req p \<Longrightarrow> bid_phase_ok rd req p"
proof (induction rule: bid_reaches.induct)
  case (step p a s p' s')
  then show ?case using bid_step_ok by (cases s) blast
qed simp

lemma eligible_iff:
  "assertBidEligible bid tender r carriers now = Inr () \<longleftrightarrow>
     (\<exists>carrier price budget. getById carriers (vb_carrierId bid) = Some carrier \<and> cr_active carrier
        \<and> cr_carrierAccountId carrier = vb_carrierAccountId bid \<and> vb_equipment bid \<in> set (cr_allowedEquipment carrier)
        \<and> vb_equipment bid = ft_requiredEquipment tender \<and> vb_capacityConfirmed bid
        \<and> isBeforeOrEqualUtc now (vb_bidValidUntil bid) = Inr True
        \<and> isBeforeOrEqualUtc (pw_earliest (ft_pickupWindow tender)) (vb_proposedPickupAt bid) = Inr True
        \<and> isBeforeOrEqualUtc (vb_proposedPickupAt bid) (pw_latest (ft_pickupWindow tender)) = Inr True
        \<and> isBeforeOrEqualUtc (vb_estimatedDelivery bid) (ft_deliveryDeadline tender) = Inr True
        \<and> js_bigint (vb_freightAmountAtomic bid) = Some price
        \<and> js_bigint (lr_maximumFreightBudgetAtomic r) = Some budget \<and> price \<le> budget)"
  by (auto simp: assertBidEligible_def not_later_def res_simps split: option.splits if_splits)

lemma check_bid_ok:
  assumes "check_bid req r body existing now = Inr bid"
  shows "lr_state r = TENDER_OPENED \<or> lr_state r = BIDDING" "V2CarrierBidSchema bid" "vb_bidId bid = hr_bidId req"
    "vb_tenderId bid = lr_tenderId r" "vb_tenderVersion bid = lr_tenderVersion r"
    "isBeforeOrEqualUtc now (lr_auctionEndsAt r) = Inr True"
  using assms parseV2_sound by (auto simp: check_bid_def not_later_def res_simps split: if_splits sum.splits)

lemma check_signature_ok:
  assumes "check_signature d carriers r body bid hash = Inr ()" "getById carriers (vb_carrierId bid) = Some carrier"
  shows "verifyCanonicalPayload (ad_ecdsa d) (carrier_bid_payload_json (bid_sign_payload r body bid hash))
    (bb_signature body) (cr_signingPublicKey carrier)"
  using assms verifyBid_Inr by (auto simp: check_signature_def split: sum.splits auth_error.splits)

text \<open>A bid whose payment is claimed cannot be completed, nor its acceptance repeated, once the auction is closed.\<close>

lemma claimed_bid_after_close:
  assumes "existing \<noteq> None" "lr_state r \<notin> {DRAFT, ESCROW_FUNDED, TENDER_OPENED, BIDDING}"
  shows "decide_bid req r body existing now = Inl (V2AccessError ''AUCTION_CLOSED'')"
  using assms by (auto simp: decide_bid_def check_bid_def)


subsection \<open>A bid on the demonstration tender\<close>

definition demo_route_bid :: V2CarrierBid where
  "demo_route_bid = \<lparr> vb_bidId = ''b1'', vb_tenderId = ''T1'', vb_tenderVersion = 1, vb_carrierId = ''c1'',
     vb_carrierAccountId = ''0.0.500'', vb_freightAmountAtomic = ''4000000'', vb_equipment = ''REEFER'',
     vb_proposedPickupAt = ''2026-07-16T08:00:00Z'', vb_estimatedDelivery = ''2026-07-17T08:00:00Z'',
     vb_capacityConfirmed = True, vb_bidValidUntil = ''2026-07-16T00:00:00Z'', vb_commitmentSalt = replicate 64 CHR ''a'',
     vb_nonce = ''n'', vb_version = 1 \<rparr>"

definition demo_tender_terms :: V2FreightTender where
  "demo_tender_terms = \<lparr> ft_requiredEquipment = ''REEFER'',
     ft_pickupWindow = \<lparr> pw_earliest = ''2026-07-16T00:00:00Z'', pw_latest = ''2026-07-16T20:00:00Z'' \<rparr>,
     ft_deliveryDeadline = ''2026-07-18T00:00:00Z'' \<rparr>"

definition demo_routes :: route_deps where
  "demo_routes = \<lparr> rd_access = demo_deps \<lparr> ad_ecdsa := yes_ecdsa \<rparr>,
     rd_carriers = [(''c1'', \<lparr> cr_carrierId = ''c1'', cr_carrierAccountId = ''0.0.500'',
       cr_signingPublicKey = ''02'' @ replicate 64 CHR ''1'', cr_active = True, cr_allowedEquipment = [''REEFER''],
       cr_registryVersion = 1 \<rparr>)] \<rparr>"

definition demo_bid_request :: http_request where
  "demo_bid_request = \<lparr> hr_tenderId = ''T1'', hr_tenderVersion = ''1'', hr_bidId = ''b1'',
     hr_body = Some (JObj [(''actionId'', JStr ''a3''), (''signedAt'', JStr ''2026-07-15T10:30:00Z''),
       (''signature'', JStr (replicate 128 CHR ''a'')), (''bid'', v2_bid_json demo_route_bid)]),
     hr_header = (\<lambda>name. None) \<rparr>"

definition demo_route_answers :: route_answers where
  "demo_route_answers = \<lparr> ra_step = (demo_answers True) \<lparr> sa_now := ''2026-07-15T10:30:00Z'' \<rparr>,
     ra_tender = Some (Some demo_tender_terms), ra_body_io = BodyIoOk \<rparr>"

definition demo_opened_files :: lifecycle_files where
  "demo_opened_files = [(''T1'', projr (buildPersistedLifecycleEnvelope demo_sha demo_opened))]"

lemma demo_opened_read: "readRecord demo_sha ''T1'' demo_opened_files = Inr (Some demo_opened)"
proof -
  obtain e where e: "buildPersistedLifecycleEnvelope demo_sha demo_opened = Inr e" "en_record e = demo_opened"
    using written_is_read [OF demo_sha_digest demo_opened_valid(2,1)] .
  have "files_inv demo_sha demo_opened_files" "file_look demo_opened_files ''T1'' = Some demo_opened"
    using e demo_opened_valid by (auto simp: files_inv_def demo_opened_files_def file_look_def)
  then have "map_err StoreFailure (readRecord demo_sha ''T1'' demo_opened_files) = Inr (Some demo_opened)"
    using disk_r.get_stored demo_sha_digest by (simp add: disk_inv_def)
  then show ?thesis by (simp add: res_simps)
qed

lemma demo_bid_loads:
  "fst (handleBid demo_routes demo_bid_request demo_route_answers HLoad
     (empty_world \<lparr> aw_tenders := demo_opened_files \<rparr>, [])) = HExisting demo_opened"
proof -
  have "parseTenderVersion (hr_tenderVersion demo_bid_request) = Inr 1" "is_ok (bid_body_of demo_bid_request)"
    "lr_tenderVersion demo_opened = 1" "assertTreasuryConsistent demo_opened demo_config = Inr ()" by code_simp+
  then show ?thesis
    using demo_opened_read
    by (auto simp: open_tender_def loadRecord_def demo_routes_def demo_deps_def demo_bid_request_def or_refuse_def
        is_ok_iff res_simps)
qed

definition demo_bid_binding :: AccessActionBinding where
  "demo_bid_binding = projr (bid_binding demo_opened demo_route_bid)"

lemma demo_bid_checked:
  "fst (handleBid demo_routes demo_bid_request demo_route_answers (HExisting demo_opened) (empty_world, []))
     = HTender demo_opened None demo_route_bid ''2026-07-15T10:30:00Z''"
  by code_simp

lemma demo_bid_challenged:
  "fst (handleBid demo_routes demo_bid_request demo_route_answers
     (HTender demo_opened None demo_route_bid ''2026-07-15T10:30:00Z'') (empty_world, [])) = HChallenge demo_bid_binding"
  by code_simp


end
