(* ===== verification/Public_Evidence.thy ===== *)
theory Public_Evidence
  imports Auction_Eligibility Access_Resource Record_Validator
begin

text \<open>
  Public evidence of the second version, \<^verbatim>\<open>src/hcs/v2\<close>: the message types and their payload
  fields (\<^verbatim>\<open>types.ts\<close>), the field names that must not be published (\<^verbatim>\<open>privacy.ts\<close>), building
  and reading an envelope (\<^verbatim>\<open>envelope.ts\<close>).

  A message type is its text and a payload a \<open>json\<close> value, since both come from outside when an
  envelope is read.  Characters are code points below 256, so that one takes one or two bytes in
  UTF-8.  \<open>Number(text)\<close> is the parameter \<open>number\<close>; only the tender version of an envelope that
  is read depends on it, and only when the version is not a number.
\<close>

datatype hcs_error =
    EnvelopeError string | PrivacyViolation | EnvelopeNotCanonical canonical_error | EnvelopeTooLarge
  | EnvelopeNotAnObject | EnvelopeTypeError

definition HCS_V2_SCHEMA_VERSION :: string where "HCS_V2_SCHEMA_VERSION = ''routeguard-hcs-2.0''"
definition HCS_V2_MAX_MESSAGE_BYTES :: nat where "HCS_V2_MAX_MESSAGE_BYTES = 1024"
definition HCS_V2_MAX_ID_CHARS :: nat where "HCS_V2_MAX_ID_CHARS = 64"

definition HCS_V2_DISPUTE_REASON_CODES :: "string list" where
  "HCS_V2_DISPUTE_REASON_CODES =
     [''DAMAGED'', ''MISSING_DOCUMENT'', ''SEAL_MISMATCH'', ''DELIVERY_EXCEPTION'', ''OTHER_STRUCTURED'']"

definition HCS_V2_MESSAGE_TYPES :: "string list" where
  "HCS_V2_MESSAGE_TYPES =
     [''TENDER_OPENED'', ''BID_COMMITMENT'', ''AUCTION_CLOSE_BARRIER'', ''WINNER_SELECTED'', ''WINNER_ALLOCATED'',
      ''ROUTE_RESERVED'', ''POD_SUBMITTED'', ''POD_ADVISORY_ANCHORED'', ''POD_REVIEW_ACTION'', ''POD_DEEMED_ACCEPTED'',
      ''DISPUTE_OPENED'', ''REFEREE_RESOLUTION'', ''ESCROW_RELEASED'', ''ESCROW_PARTIAL'', ''ESCROW_REFUNDED'',
      ''TENDER_COMPLETED'']"

record HcsV2Envelope =
  he_schemaVersion :: string
  he_messageType :: string
  he_tenderId :: string
  he_tenderVersion :: int
  he_tenderHash :: string
  he_createdAt :: string
  he_payloadHash :: string
  he_payload :: json

record BuildHcsV2EnvelopeInput =
  hi_messageType :: string
  hi_tenderId :: string
  hi_tenderVersion :: int
  hi_tenderHash :: string
  hi_createdAt :: string
  hi_payload :: json

subsection \<open>Prohibited fields\<close>

definition HCS_V2_PROHIBITED_FIELD_NAMES :: "string list" where
  "HCS_V2_PROHIBITED_FIELD_NAMES =
     [''name'', ''names'', ''fullName'', ''postalAddress'', ''address'', ''phone'', ''phoneNumber'', ''email'',
      ''emailAddress'', ''signatureImage'', ''podImage'', ''podImages'', ''plateNumber'', ''licensePlate'',
      ''privateKey'', ''paymentPayload'', ''signedPaymentPayload'', ''disputeNarrative'', ''unrestrictedNarrative'',
      ''plaintext'', ''podPlaintext'', ''documentBytes'', ''ciphertext'', ''encryptedDocument'']"

definition prohibited_field :: "string \<Rightarrow> bool" where
  "prohibited_field key \<longleftrightarrow>
     list_ex (\<lambda>banned. key = banned \<or> toLowerCase key = toLowerCase banned) HCS_V2_PROHIBITED_FIELD_NAMES"

text \<open>Dates, maps, sets and instances have no fields here; canonicalisation refuses them later.\<close>

primrec assertHcsV2PublicSafe :: "json \<Rightarrow> bool" where
  "assertHcsV2PublicSafe JNull = True"
| "assertHcsV2PublicSafe (JBool b) = True"
| "assertHcsV2PublicSafe (JNum n) = True"
| "assertHcsV2PublicSafe JNonFinite = True"
| "assertHcsV2PublicSafe (JStr s) = True"
| "assertHcsV2PublicSafe JUndefined = True"
| "assertHcsV2PublicSafe JFunction = True"
| "assertHcsV2PublicSafe (JBigint n) = True"
| "assertHcsV2PublicSafe JSymbol = True"
| "assertHcsV2PublicSafe (JArr items) =
     list_all (\<lambda>r. case r of None \<Rightarrow> True | Some ok \<Rightarrow> ok) (map (map_option assertHcsV2PublicSafe) items)"
| "assertHcsV2PublicSafe (JObj props) =
     list_all (\<lambda>p. \<not> prohibited_field (fst p) \<and> snd p) (map (map_prod id assertHcsV2PublicSafe) props)"
| "assertHcsV2PublicSafe JDate = True"
| "assertHcsV2PublicSafe JMap = True"
| "assertHcsV2PublicSafe JSet = True"
| "assertHcsV2PublicSafe JInstance = True"

subsection \<open>Payloads\<close>

definition id_char :: "char \<Rightarrow> bool" where
  "id_char c \<longleftrightarrow> is_alnum c \<or> List.member ''._:@/-'' c"

definition assertHcsId :: "string \<Rightarrow> bool" where
  "assertHcsId value \<longleftrightarrow> \<not> (value = [] \<or> length value > HCS_V2_MAX_ID_CHARS \<or> \<not> list_all id_char value)"

definition PAYLOAD_KEYS :: "(string \<times> string list) list" where
  "PAYLOAD_KEYS =
     [(''TENDER_OPENED'', [''accessPaymentTxId'', ''maxBudgetAtomic'', ''auctionEndsAt'', ''selectionPolicy'']),
      (''BID_COMMITMENT'', [''bidId'', ''carrierId'', ''bidHash'', ''accessPaymentTxId'']),
      (''AUCTION_CLOSE_BARRIER'', [''barrierId'', ''auctionEndsAt'', ''expectedCommitmentCount'', ''bidSetHash'']),
      (''WINNER_SELECTED'', [''winningBidId'', ''carrierId'', ''winningAmountAtomic'', ''decisionManifestHash'']),
      (''WINNER_ALLOCATED'', [''winningBidId'', ''winnerAccount'', ''winningAmountAtomic'', ''excessRefundAtomic'',
         ''allocateTxId'', ''refundTxId'', ''decisionManifestHash'']),
      (''ROUTE_RESERVED'', [''reservationId'', ''winningBidId'', ''carrierAccount'', ''lockedAmountAtomic'',
         ''allocateTxId'', ''reservationRecordHash'']),
      (''POD_SUBMITTED'', [''podId'', ''podVersion'', ''contentHash'', ''ciphertextHash'', ''sizeBytes'']),
      (''POD_ADVISORY_ANCHORED'', [''podId'', ''reportHash'', ''binding'']),
      (''POD_REVIEW_ACTION'', [''podId'', ''action'', ''reviewDeadlineAt'']),
      (''POD_DEEMED_ACCEPTED'', [''podId'', ''reviewDeadlineAt'', ''tickActionId'']),
      (''DISPUTE_OPENED'', [''disputeId'', ''podId'', ''reasonCode'']),
      (''REFEREE_RESOLUTION'', [''disputeId'', ''podId'', ''resolution'', ''releaseAmountAtomic'', ''refundAmountAtomic'',
         ''resolutionHash'']),
      (''ESCROW_RELEASED'', [''releaseTxId'', ''amountAtomic'', ''winnerAccount'']),
      (''ESCROW_PARTIAL'', [''releaseTxId'', ''refundTxId'', ''releaseAmountAtomic'', ''refundAmountAtomic'']),
      (''ESCROW_REFUNDED'', [''refundTxId'', ''amountAtomic'', ''shipperAccount'']),
      (''TENDER_COMPLETED'', [''finalState'', ''completionRef''])]"

definition payload_keys :: "string \<Rightarrow> string list" where
  "payload_keys t = (case map_of PAYLOAD_KEYS t of None \<Rightarrow> [] | Some ks \<Rightarrow> ks)"

definition assertExactPayloadKeys :: "string \<Rightarrow> (string \<times> json) list \<Rightarrow> bool" where
  "assertExactPayloadKeys t p \<longleftrightarrow> sort (map fst p) = sort (payload_keys t)"

text \<open>
  A check of one field.  \<open>Text\<close> checks \<open>String(p.field)\<close>, the others the value itself; a
  missing field is \<open>undefined\<close>.
\<close>

datatype field_check = FieldId | FieldHash | FieldTime | FieldPositive | FieldNonNegative | FieldAccount
  | FieldCount | FieldOneOf "string list"

primrec check_field :: "field_check \<Rightarrow> json \<Rightarrow> bool" where
  "check_field FieldId v = (case js_string v of None \<Rightarrow> False | Some s \<Rightarrow> assertHcsId s)"
| "check_field FieldHash v = (case js_string v of None \<Rightarrow> False | Some s \<Rightarrow> is_sha256_hash s)"
| "check_field FieldTime v = (case js_string v of None \<Rightarrow> False | Some s \<Rightarrow> isUtcIsoTimestamp s)"
| "check_field FieldPositive v = (case js_string v of None \<Rightarrow> False | Some s \<Rightarrow> isPositiveAtomicString s)"
| "check_field FieldNonNegative v = (case js_string v of None \<Rightarrow> False | Some s \<Rightarrow> isNonNegativeAtomicString s)"
| "check_field FieldAccount v = (case js_string v of None \<Rightarrow> False | Some s \<Rightarrow> isValidHederaAccountId s)"
| "check_field FieldCount v = (case v of JNum n \<Rightarrow> isSafePositiveInteger n | _ \<Rightarrow> False)"
| "check_field (FieldOneOf ss) v = (case v of JStr s \<Rightarrow> List.member ss s | _ \<Rightarrow> False)"

text \<open>The cases of the switch, each the checks of its branch in their order.\<close>

definition PAYLOAD_CHECKS :: "(string \<times> (string \<times> field_check) list) list" where
  "PAYLOAD_CHECKS =
     [(''TENDER_OPENED'', [(''accessPaymentTxId'', FieldId), (''maxBudgetAtomic'', FieldPositive),
         (''auctionEndsAt'', FieldTime), (''selectionPolicy'', FieldOneOf [''LOWEST_QUALIFIED_PRICE_V1''])]),
      (''BID_COMMITMENT'', [(''bidId'', FieldId), (''carrierId'', FieldId), (''bidHash'', FieldHash),
         (''accessPaymentTxId'', FieldId)]),
      (''AUCTION_CLOSE_BARRIER'', [(''barrierId'', FieldId), (''auctionEndsAt'', FieldTime),
         (''expectedCommitmentCount'', FieldCount), (''bidSetHash'', FieldHash)]),
      (''WINNER_SELECTED'', [(''winningBidId'', FieldId), (''carrierId'', FieldId), (''winningAmountAtomic'', FieldPositive),
         (''decisionManifestHash'', FieldHash)]),
      (''WINNER_ALLOCATED'', [(''winningBidId'', FieldId), (''winnerAccount'', FieldAccount),
         (''winningAmountAtomic'', FieldPositive), (''excessRefundAtomic'', FieldNonNegative), (''allocateTxId'', FieldId),
         (''decisionManifestHash'', FieldHash)]),
      (''ROUTE_RESERVED'', [(''reservationId'', FieldId), (''winningBidId'', FieldId), (''carrierAccount'', FieldAccount),
         (''lockedAmountAtomic'', FieldPositive), (''allocateTxId'', FieldId), (''reservationRecordHash'', FieldHash)]),
      (''POD_SUBMITTED'', [(''podId'', FieldId), (''podVersion'', FieldCount), (''contentHash'', FieldHash),
         (''ciphertextHash'', FieldHash), (''sizeBytes'', FieldCount)]),
      (''POD_ADVISORY_ANCHORED'', [(''podId'', FieldId), (''reportHash'', FieldHash),
         (''binding'', FieldOneOf [''NON_BINDING_ADVISORY''])]),
      (''POD_REVIEW_ACTION'', [(''podId'', FieldId),
         (''action'', FieldOneOf [''ACCEPT'', ''REQUEST_CORRECTION'', ''REJECT_DISPUTE'']), (''reviewDeadlineAt'', FieldTime)]),
      (''POD_DEEMED_ACCEPTED'', [(''podId'', FieldId), (''reviewDeadlineAt'', FieldTime), (''tickActionId'', FieldId)]),
      (''DISPUTE_OPENED'', [(''disputeId'', FieldId), (''podId'', FieldId),
         (''reasonCode'', FieldOneOf HCS_V2_DISPUTE_REASON_CODES)]),
      (''REFEREE_RESOLUTION'', [(''disputeId'', FieldId), (''podId'', FieldId),
         (''resolution'', FieldOneOf [''RELEASE_FULL'', ''REFUND_FULL'', ''PARTIAL'']),
         (''releaseAmountAtomic'', FieldNonNegative), (''refundAmountAtomic'', FieldNonNegative),
         (''resolutionHash'', FieldHash)]),
      (''ESCROW_RELEASED'', [(''releaseTxId'', FieldId), (''amountAtomic'', FieldPositive), (''winnerAccount'', FieldAccount)]),
      (''ESCROW_PARTIAL'', [(''releaseTxId'', FieldId), (''refundTxId'', FieldId), (''releaseAmountAtomic'', FieldNonNegative),
         (''refundAmountAtomic'', FieldNonNegative)]),
      (''ESCROW_REFUNDED'', [(''refundTxId'', FieldId), (''amountAtomic'', FieldPositive), (''shipperAccount'', FieldAccount)]),
      (''TENDER_COMPLETED'', [(''completionRef'', FieldId)])]"

definition payload_checks :: "string \<Rightarrow> (string \<times> field_check) list" where
  "payload_checks t = (case map_of PAYLOAD_CHECKS t of None \<Rightarrow> [] | Some cs \<Rightarrow> cs)"

definition field_of :: "(string \<times> json) list \<Rightarrow> string \<Rightarrow> json" where
  "field_of p k = (case map_of p k of None \<Rightarrow> JUndefined | Some v \<Rightarrow> v)"

primrec run_checks :: "(string \<times> json) list \<Rightarrow> (string \<times> field_check) list \<Rightarrow> hcs_error + unit" where
  "run_checks p [] = Inr ()"
| "run_checks p (c # cs) =
     (if \<not> check_field (snd c) (field_of p (fst c)) then Inl (EnvelopeError (fst c)) else run_checks p cs)"

definition validatePayload :: "string \<Rightarrow> json \<Rightarrow> hcs_error + unit" where
  "validatePayload t payload =
     (case payload of
        JObj p \<Rightarrow>
          if \<not> assertExactPayloadKeys t p then Inl (EnvelopeError ''payload'') else run_checks p (payload_checks t)
      | _ \<Rightarrow> Inl (EnvelopeError ''payload''))"

subsection \<open>Envelopes\<close>

definition utf8ByteLength :: "string \<Rightarrow> nat" where
  "utf8ByteLength s = sum_list (map (\<lambda>c. if (of_char c :: nat) < 128 then 1 else 2) s)"

definition envelope_json :: "HcsV2Envelope \<Rightarrow> json" where
  "envelope_json e = JObj
     [(''schemaVersion'', JStr (he_schemaVersion e)), (''messageType'', JStr (he_messageType e)),
      (''tenderId'', JStr (he_tenderId e)), (''tenderVersion'', JNum (he_tenderVersion e)),
      (''tenderHash'', JStr (he_tenderHash e)), (''createdAt'', JStr (he_createdAt e)),
      (''payloadHash'', JStr (he_payloadHash e)), (''payload'', he_payload e)]"

definition serializeHcsV2Envelope :: "HcsV2Envelope \<Rightarrow> canonical_error + string" where
  "serializeHcsV2Envelope e = canonicalize (envelope_json e)"

definition assertHcsV2EnvelopeWithinLimit :: "HcsV2Envelope \<Rightarrow> hcs_error + unit" where
  "assertHcsV2EnvelopeWithinLimit e =
     bind_res (map_err EnvelopeNotCanonical (serializeHcsV2Envelope e)) (\<lambda>text.
       if utf8ByteLength text \<ge> HCS_V2_MAX_MESSAGE_BYTES then Inl EnvelopeTooLarge else Inr ())"

definition sealed_envelope :: "BuildHcsV2EnvelopeInput \<Rightarrow> string \<Rightarrow> HcsV2Envelope" where
  "sealed_envelope i payloadHash =
     \<lparr> he_schemaVersion = HCS_V2_SCHEMA_VERSION, he_messageType = hi_messageType i, he_tenderId = hi_tenderId i,
       he_tenderVersion = hi_tenderVersion i, he_tenderHash = hi_tenderHash i, he_createdAt = hi_createdAt i,
       he_payloadHash = payloadHash, he_payload = hi_payload i \<rparr>"

definition buildHcsV2Envelope :: "hash_fn \<Rightarrow> BuildHcsV2EnvelopeInput \<Rightarrow> hcs_error + HcsV2Envelope" where
  "buildHcsV2Envelope sha256 i =
     bind_res (guard_res (List.member HCS_V2_MESSAGE_TYPES (hi_messageType i)) (EnvelopeError ''messageType'')) (\<lambda>_.
     bind_res (guard_res (assertHcsId (hi_tenderId i)) (EnvelopeError ''tenderId'')) (\<lambda>_.
     bind_res (guard_res (isSafePositiveInteger (hi_tenderVersion i)) (EnvelopeError ''tenderVersion'')) (\<lambda>_.
     bind_res (guard_res (is_sha256_hash (hi_tenderHash i)) (EnvelopeError ''tenderHash'')) (\<lambda>_.
     bind_res (guard_res (isUtcIsoTimestamp (hi_createdAt i)) (EnvelopeError ''createdAt'')) (\<lambda>_.
     bind_res (guard_res (assertHcsV2PublicSafe (hi_payload i)) PrivacyViolation) (\<lambda>_.
     bind_res (validatePayload (hi_messageType i) (hi_payload i)) (\<lambda>_.
     bind_res (map_err EnvelopeNotCanonical (canonicalSha256 sha256 (hi_payload i))) (\<lambda>payloadHash.
     let envelope = sealed_envelope i payloadHash in
     bind_res (guard_res (assertHcsV2PublicSafe (envelope_json envelope)) PrivacyViolation) (\<lambda>_.
     bind_res (assertHcsV2EnvelopeWithinLimit envelope) (\<lambda>_. Inr envelope))))))))))"

text \<open>\<open>Number(v)\<close>, \<open>None\<close> for what is not an integer; an object or array is first turned into its text.\<close>

definition js_number :: "(string \<Rightarrow> int option) \<Rightarrow> json \<Rightarrow> int option" where
  "js_number number v =
     (case v of JNum n \<Rightarrow> Some n | JBigint n \<Rightarrow> Some n | JNull \<Rightarrow> Some 0 | JBool b \<Rightarrow> Some (if b then 1 else 0)
      | JUndefined \<Rightarrow> None | JNonFinite \<Rightarrow> None
      | _ \<Rightarrow> (case js_string v of None \<Rightarrow> None | Some s \<Rightarrow> number s))"

definition parseHcsV2Envelope ::
  "(string \<Rightarrow> int option) \<Rightarrow> hash_fn \<Rightarrow> json \<Rightarrow> hcs_error + HcsV2Envelope" where
  "parseHcsV2Envelope number sha256 input =
     (case input of
        JObj obj \<Rightarrow>
          bind_res (guard_res (assertHcsV2PublicSafe input) PrivacyViolation) (\<lambda>_.
          bind_res (guard_res (field_of obj ''schemaVersion'' = JStr HCS_V2_SCHEMA_VERSION) (EnvelopeError ''schemaVersion'')) (\<lambda>_.
          bind_res (case field_of obj ''messageType'' of
              JStr t \<Rightarrow> (if List.member HCS_V2_MESSAGE_TYPES t then Inr t else Inl (EnvelopeError ''messageType''))
            | _ \<Rightarrow> Inl (EnvelopeError ''messageType'')) (\<lambda>t.
          bind_res (of_option EnvelopeTypeError (js_string (field_of obj ''tenderId''))) (\<lambda>tenderId.
          bind_res (of_option (EnvelopeError ''tenderVersion'') (js_number number (field_of obj ''tenderVersion''))) (\<lambda>version.
          bind_res (of_option EnvelopeTypeError (js_string (field_of obj ''tenderHash''))) (\<lambda>tenderHash.
          bind_res (of_option EnvelopeTypeError (js_string (field_of obj ''createdAt''))) (\<lambda>createdAt.
          bind_res (buildHcsV2Envelope sha256 \<lparr> hi_messageType = t, hi_tenderId = tenderId, hi_tenderVersion = version,
              hi_tenderHash = tenderHash, hi_createdAt = createdAt, hi_payload = field_of obj ''payload'' \<rparr>) (\<lambda>rebuilt.
          if (case field_of obj ''payloadHash'' of JStr d \<Rightarrow> d \<noteq> he_payloadHash rebuilt | _ \<Rightarrow> False)
          then Inl (EnvelopeError ''payloadHash'') else Inr rebuilt))))))))
      | _ \<Rightarrow> Inl EnvelopeNotAnObject)"

subsection \<open>What is published\<close>

text \<open>All field names of a value, at any depth.\<close>

primrec field_names :: "json \<Rightarrow> string list" where
  "field_names JNull = []"
| "field_names (JBool b) = []"
| "field_names (JNum n) = []"
| "field_names JNonFinite = []"
| "field_names (JStr s) = []"
| "field_names JUndefined = []"
| "field_names JFunction = []"
| "field_names (JBigint n) = []"
| "field_names JSymbol = []"
| "field_names (JArr items) =
     concat (map (\<lambda>r. case r of None \<Rightarrow> [] | Some ns \<Rightarrow> ns) (map (map_option field_names) items))"
| "field_names (JObj props) = concat (map (\<lambda>p. fst p # snd p) (map (map_prod id field_names) props))"
| "field_names JDate = []"
| "field_names JMap = []"
| "field_names JSet = []"
| "field_names JInstance = []"

lemma prohibited_iff:
  "prohibited_field k \<longleftrightarrow> toLowerCase k \<in> toLowerCase ` set HCS_V2_PROHIBITED_FIELD_NAMES"
  by (auto simp: prohibited_field_def list_ex_iff)

lemma public_safe_iff: "assertHcsV2PublicSafe v \<longleftrightarrow> list_all (\<lambda>n. \<not> prohibited_field n) (field_names v)"
proof (induction v)
  case (JArr items)
  then show ?case by (force simp: list_all_iff split: option.splits)
next
  case (JObj props)
  then show ?case by (fastforce simp: list_all_iff)
qed simp_all

lemma build_Inr_iff:
  "buildHcsV2Envelope h i = Inr e \<longleftrightarrow>
     List.member HCS_V2_MESSAGE_TYPES (hi_messageType i) \<and> assertHcsId (hi_tenderId i)
     \<and> isSafePositiveInteger (hi_tenderVersion i) \<and> is_sha256_hash (hi_tenderHash i) \<and> isUtcIsoTimestamp (hi_createdAt i)
     \<and> assertHcsV2PublicSafe (hi_payload i) \<and> validatePayload (hi_messageType i) (hi_payload i) = Inr ()
     \<and> (\<exists>d. canonicalSha256 h (hi_payload i) = Inr d \<and> e = sealed_envelope i d)
     \<and> assertHcsV2PublicSafe (envelope_json e) \<and> assertHcsV2EnvelopeWithinLimit e = Inr ()"
  by (auto simp: buildHcsV2Envelope_def res_simps Let_def)

lemma limit_Inr_iff:
  "assertHcsV2EnvelopeWithinLimit e = Inr () \<longleftrightarrow>
     (\<exists>text. serializeHcsV2Envelope e = Inr text \<and> utf8ByteLength text < 1024)"
  by (auto simp: assertHcsV2EnvelopeWithinLimit_def res_simps HCS_V2_MAX_MESSAGE_BYTES_def split: if_splits)

text \<open>Reading rebuilds: an envelope is accepted only as something that could have been built.\<close>

lemma parse_is_build:
  assumes "parseHcsV2Envelope number h v = Inr e"
  shows "\<exists>i. buildHcsV2Envelope h i = Inr e"
proof -
  obtain obj where "v = JObj obj" using assms by (cases v) (simp_all add: parseHcsV2Envelope_def)
  then show ?thesis
    using assms by (auto simp: parseHcsV2Envelope_def res_simps split: if_splits)
qed

lemma parse_of_build:
  assumes "buildHcsV2Envelope h i = Inr e"
  shows "parseHcsV2Envelope number h (envelope_json e) = Inr e"
proof -
  obtain d where d: "e = sealed_envelope i d" using assms by (auto simp: build_Inr_iff)
  have b: "List.member HCS_V2_MESSAGE_TYPES (hi_messageType i)" "assertHcsV2PublicSafe (envelope_json e)"
    using assms by (auto simp: build_Inr_iff)
  obtain ps where ps: "envelope_json e = JObj ps" "field_of ps ''schemaVersion'' = JStr HCS_V2_SCHEMA_VERSION"
    "field_of ps ''messageType'' = JStr (hi_messageType i)" "field_of ps ''tenderId'' = JStr (hi_tenderId i)"
    "field_of ps ''tenderVersion'' = JNum (hi_tenderVersion i)" "field_of ps ''tenderHash'' = JStr (hi_tenderHash i)"
    "field_of ps ''createdAt'' = JStr (hi_createdAt i)" "field_of ps ''payloadHash'' = JStr d"
    "field_of ps ''payload'' = hi_payload i"
    by (simp add: d sealed_envelope_def envelope_json_def field_of_def)
  have "buildHcsV2Envelope h \<lparr> hi_messageType = hi_messageType i, hi_tenderId = hi_tenderId i,
    hi_tenderVersion = hi_tenderVersion i, hi_tenderHash = hi_tenderHash i, hi_createdAt = hi_createdAt i,
    hi_payload = hi_payload i \<rparr> = Inr e" using assms by (cases i) simp
  moreover have "he_payloadHash e = d" by (simp add: d sealed_envelope_def)
  ultimately show ?thesis
    using b ps by (simp add: parseHcsV2Envelope_def js_number_def)
qed

subsection \<open>Size\<close>

text \<open>Characters that are printed as they are and take one byte.\<close>

definition plain_char :: "char \<Rightarrow> bool" where
  "plain_char c \<longleftrightarrow> 32 \<le> (of_char c :: nat) \<and> (of_char c :: nat) < 127 \<and> c \<noteq> CHR 0x22 \<and> c \<noteq> CHR 0x5C"

lemma plain_escape: "plain_char c \<Longrightarrow> json_escape c = [c]"
  by (auto simp: plain_char_def json_escape_def)

lemma plain_quote: "list_all plain_char s \<Longrightarrow> json_quote s = CHR 0x22 # s @ [CHR 0x22]"
  by (induction s) (simp_all add: json_quote_def plain_escape)

lemma bytes_append [simp]: "utf8ByteLength (s @ t) = utf8ByteLength s + utf8ByteLength t"
  "utf8ByteLength (c # s) = (if (of_char c :: nat) < 128 then 1 else 2) + utf8ByteLength s" "utf8ByteLength [] = 0"
  by (simp_all add: utf8ByteLength_def)

lemma plain_bytes: "list_all plain_char s \<Longrightarrow> utf8ByteLength s = length s"
  by (induction s) (simp_all add: plain_char_def)

lemma quoted_bytes: "list_all plain_char s \<Longrightarrow> utf8ByteLength (json_quote s) = length s + 2"
  by (simp add: plain_quote plain_bytes)

lemma digit_plain: "all_digits s \<Longrightarrow> list_all plain_char s"
  by (auto simp: all_digits_def is_digit_def plain_char_def list_all_iff)

lemma hcs_id_plain: "assertHcsId s \<Longrightarrow> list_all plain_char s \<and> length s \<le> 64"
  by (auto simp: assertHcsId_def HCS_V2_MAX_ID_CHARS_def list_all_iff id_char_def is_alnum_def in_range_def is_digit_def
      plain_char_def)

lemma sha_prefix: "list_all plain_char ''sha256:''" "length ''sha256:'' + 64 = 71"
  by (simp_all add: plain_char_def)

lemma hash_plain: "is_sha256_hash s \<Longrightarrow> list_all plain_char s \<and> length s = 71"
proof -
  assume a: "is_sha256_hash s"
  have "s = ''sha256:'' @ drop 7 s" using a append_take_drop_id [of 7 s] by (simp add: is_sha256_hash_def)
  moreover have "list_all plain_char (drop 7 s)" "length (drop 7 s) = 64"
    using a by (auto simp: is_sha256_hash_def is_hex64_def list_all_iff is_lower_hex_def is_digit_def in_range_def plain_char_def
        simp del: length_drop dest!: bspec)
  ultimately show ?thesis by (metis (no_types, lifting) list_all_append length_append sha_prefix)
qed

lemma time_plain: "isUtcIsoTimestamp s \<Longrightarrow> list_all plain_char s \<and> length s \<le> 30"
  unfolding isUtcIsoTimestamp_iff
  by (auto simp: iso_string_def digits_of_width_def digit_plain plain_char_def)

lemma version_bytes: "isSafePositiveInteger n \<Longrightarrow> utf8ByteLength (int_str n) \<le> 16"
proof -
  assume n: "isSafePositiveInteger n"
  then have "nat n < 10 ^ 16" unfolding isSafePositiveInteger_def max_safe_integer_def by simp linarith
  then have "length (decimal (nat n)) \<le> 16" by (simp add: length_decimal_le_iff)
  then show ?thesis using n
    by (simp add: isSafePositiveInteger_def int_str_nonneg plain_bytes [OF digit_plain [OF all_digits_decimal]])
qed

lemma message_type_plain:
  "List.member HCS_V2_MESSAGE_TYPES t \<Longrightarrow> list_all plain_char t \<and> length t \<le> 21"
  by (auto simp: HCS_V2_MESSAGE_TYPES_def plain_char_def)

lemma envelope_text:
  assumes "canonicalize (he_payload e) = Inr p"
  shows "serializeHcsV2Envelope e = Inr (''{'' @ join '',''
    [json_quote ''createdAt'' @ '':'' @ json_quote (he_createdAt e), json_quote ''messageType'' @ '':'' @ json_quote (he_messageType e),
     json_quote ''payload'' @ '':'' @ p, json_quote ''payloadHash'' @ '':'' @ json_quote (he_payloadHash e),
     json_quote ''schemaVersion'' @ '':'' @ json_quote (he_schemaVersion e),
     json_quote ''tenderHash'' @ '':'' @ json_quote (he_tenderHash e), json_quote ''tenderId'' @ '':'' @ json_quote (he_tenderId e),
     json_quote ''tenderVersion'' @ '':'' @ int_str (he_tenderVersion e)] @ ''}'')"
  using assms by (simp add: serializeHcsV2Envelope_def canonicalize_def envelope_json_def)

lemma envelope_fits:
  assumes "canonicalize (hi_payload i) = Inr p" "utf8ByteLength p \<le> 500" "is_sha256_hash d"
    and "List.member HCS_V2_MESSAGE_TYPES (hi_messageType i)" "assertHcsId (hi_tenderId i)"
    and "isSafePositiveInteger (hi_tenderVersion i)" "is_sha256_hash (hi_tenderHash i)" "isUtcIsoTimestamp (hi_createdAt i)"
  shows "assertHcsV2EnvelopeWithinLimit (sealed_envelope i d) = Inr ()"
proof -
  have l: "utf8ByteLength (json_quote ''createdAt'') = 11" "utf8ByteLength (json_quote ''messageType'') = 13"
    "utf8ByteLength (json_quote ''payload'') = 9" "utf8ByteLength (json_quote ''payloadHash'') = 13"
    "utf8ByteLength (json_quote ''schemaVersion'') = 15" "utf8ByteLength (json_quote ''tenderHash'') = 12"
    "utf8ByteLength (json_quote ''tenderId'') = 10" "utf8ByteLength (json_quote ''tenderVersion'') = 15"
    "utf8ByteLength (json_quote HCS_V2_SCHEMA_VERSION) = 20"
    by (simp_all add: json_quote_def json_escape_def HCS_V2_SCHEMA_VERSION_def)
  note p = hcs_id_plain [OF assms(5)] hash_plain [OF assms(7)] hash_plain [OF assms(3)] time_plain [OF assms(8)]
    message_type_plain [OF assms(4)]
  define e where "e = sealed_envelope i d"
  have e: "he_payload e = hi_payload i" "he_createdAt e = hi_createdAt i" "he_messageType e = hi_messageType i"
    "he_payloadHash e = d" "he_schemaVersion e = HCS_V2_SCHEMA_VERSION" "he_tenderHash e = hi_tenderHash i"
    "he_tenderId e = hi_tenderId i" "he_tenderVersion e = hi_tenderVersion i" by (simp_all add: e_def sealed_envelope_def)
  show ?thesis
    using assms(2) p version_bytes [OF assms(6)]
    by (simp add: limit_Inr_iff e_def [symmetric] envelope_text [of e, unfolded e, OF assms(1)] quoted_bytes l)
qed

lemma header_names: "assertHcsV2PublicSafe (envelope_json e) \<longleftrightarrow> assertHcsV2PublicSafe (he_payload e)"
proof -
  have "\<not> prohibited_field n" if "n \<in> {''schemaVersion'', ''messageType'', ''tenderId'', ''tenderVersion'', ''tenderHash'',
      ''createdAt'', ''payloadHash'', ''payload''}" for n
    using that by (elim insertE emptyE) (simp_all, code_simp+)
  then show ?thesis by (simp add: envelope_json_def)
qed

lemma build_succeeds:
  assumes "hex_digest h" "canonicalize (hi_payload i) = Inr p" "utf8ByteLength p \<le> 500"
    and "List.member HCS_V2_MESSAGE_TYPES (hi_messageType i)" "assertHcsId (hi_tenderId i)"
    and "isSafePositiveInteger (hi_tenderVersion i)" "is_sha256_hash (hi_tenderHash i)" "isUtcIsoTimestamp (hi_createdAt i)"
    and "assertHcsV2PublicSafe (hi_payload i)" "validatePayload (hi_messageType i) (hi_payload i) = Inr ()"
  shows "buildHcsV2Envelope h i = Inr (sealed_envelope i (''sha256:'' @ h p))"
proof -
  have d: "canonicalSha256 h (hi_payload i) = Inr (''sha256:'' @ h p)"
    using assms(1,2) by (simp add: canonicalSha256_def hex_digest_def)
  have "assertHcsV2PublicSafe (envelope_json (sealed_envelope i (''sha256:'' @ h p)))"
    using assms(9) by (simp add: header_names sealed_envelope_def)
  then show ?thesis
    using envelope_fits [OF assms(2,3) canonicalSha256_format [OF d] assms(4-8)] assms(4-10) d by (simp add: build_Inr_iff)
qed

text \<open>
  C16. Public evidence stays public.  Whatever envelope the code builds or accepts: none of its
  field names, at any depth and in any spelling of upper and lower case, is on the list of
  prohibited names; its canonical text has fewer than 1024 bytes; and reading the envelope gives
  it back unchanged.\<close>

theorem evidence_stays_public:
  assumes "buildHcsV2Envelope h i = Inr e \<or> parseHcsV2Envelope number h v = Inr e"
  shows "(\<forall>n\<in>set (field_names (envelope_json e)). toLowerCase n \<notin> toLowerCase ` set HCS_V2_PROHIBITED_FIELD_NAMES)
    \<and> (\<exists>text. serializeHcsV2Envelope e = Inr text \<and> utf8ByteLength text < 1024)
    \<and> parseHcsV2Envelope number h (envelope_json e) = Inr e"
proof -
  obtain j where b: "buildHcsV2Envelope h j = Inr e" using assms parse_is_build by blast
  then have "assertHcsV2PublicSafe (envelope_json e)" "assertHcsV2EnvelopeWithinLimit e = Inr ()"
    by (simp_all add: build_Inr_iff)
  then show ?thesis using parse_of_build [OF b]
    by (simp add: public_safe_iff limit_Inr_iff list_all_iff prohibited_iff)
qed

text \<open>
  Two fields have a key but no check.  Any value, so any text, passes as the refund transaction of
  an allocation.
\<close>

lemma free_text_is_accepted:
  "validatePayload ''WINNER_ALLOCATED'' (JObj [(''winningBidId'', JStr ''b1''), (''winnerAccount'', JStr ''0.0.500''),
     (''winningAmountAtomic'', JStr ''4000000''), (''excessRefundAtomic'', JStr ''1000000''), (''allocateTxId'', JStr ''0.0.1@1.3''),
     (''refundTxId'', v), (''decisionManifestHash'', JStr (''sha256:'' @ replicate 64 (CHR ''0'')))]) = Inr ()"
  by code_simp

subsection \<open>A concrete envelope\<close>

definition demo_evidence :: BuildHcsV2EnvelopeInput where
  "demo_evidence = \<lparr> hi_messageType = ''POD_REVIEW_ACTION'', hi_tenderId = ''T1'', hi_tenderVersion = 1,
     hi_tenderHash = ''sha256:'' @ replicate 64 (CHR ''1''), hi_createdAt = ''2026-07-16T14:00:00Z'',
     hi_payload = JObj [(''podId'', JStr ''pod1''), (''action'', JStr ''ACCEPT''),
       (''reviewDeadlineAt'', JStr ''2026-07-18T09:00:00.000Z'')] \<rparr>"

lemma demo_evidence_built: "is_ok (buildHcsV2Envelope (\<lambda>_. replicate 64 (CHR ''0'')) demo_evidence)"
  by code_simp

theorem evidence_stays_public_witness:
  "\<exists>e. buildHcsV2Envelope (\<lambda>_. replicate 64 (CHR ''0'')) demo_evidence = Inr e
     \<and> parseHcsV2Envelope (\<lambda>_. None) (\<lambda>_. replicate 64 (CHR ''0'')) (envelope_json e) = Inr e"
  using demo_evidence_built evidence_stays_public [of "\<lambda>_. replicate 64 (CHR ''0'')" demo_evidence _ "\<lambda>_. None" JNull]
  unfolding is_ok_iff by blast

end
