(* ===== verification/Escrow_Plans.thy ===== *)
theory Escrow_Plans
  imports Lifecycle_Funds
begin

text \<open>
  Calls of the freight escrow contract, \<^verbatim>\<open>src/v2/escrow\<close>: the contract states
  (\<^verbatim>\<open>states.ts\<close>), tender keys and addresses (\<^verbatim>\<open>tender-key.ts\<close>), transaction plans
  (\<^verbatim>\<open>requests.ts\<close>), which lifecycle state drives which call (\<^verbatim>\<open>lifecycle-map.ts\<close>) and the
  events read back (\<^verbatim>\<open>events.ts\<close>).

  Of the library \<^verbatim>\<open>ethers\<close> the code uses the Keccak digest of a text, the digest of an
  ABI-encoded triple, and the log and error parsers; these are the parameters \<open>keccak\<close>,
  \<open>keccak_abi\<close>, \<open>parse_log\<close> and \<open>parse_error\<close>.  The lemmas show which plans are built, that
  the amounts in them fit the transfer type and add up, and that the plan for an allocation
  is the one the lifecycle will accept a confirmation for.
\<close>

datatype escrow_error =
    EscrowIdentityError string
  | EscrowAmountError amount_error
  | UnknownEscrowState
  | UnknownResolution
  | EscrowEventParseError
  | StateSyntax

subsection \<open>Contract states\<close>

datatype EscrowState =
    UNREGISTERED | REGISTERED | FUNDED | ALLOCATED | DISPUTED | RELEASED | REFUNDED_ESCROW | PARTIALLY_RELEASED

definition ESCROW_STATES :: "EscrowState list" where
  "ESCROW_STATES = [UNREGISTERED, REGISTERED, FUNDED, ALLOCATED, DISPUTED, RELEASED, REFUNDED_ESCROW,
     PARTIALLY_RELEASED]"

definition ESCROW_TERMINAL_STATES :: "EscrowState list" where
  "ESCROW_TERMINAL_STATES = [RELEASED, REFUNDED_ESCROW, PARTIALLY_RELEASED]"

definition ESCROW_HOLDING_STATES :: "EscrowState list" where
  "ESCROW_HOLDING_STATES = [FUNDED, ALLOCATED, DISPUTED]"

definition escrowStateFromOrdinal :: "int \<Rightarrow> escrow_error + EscrowState" where
  "escrowStateFromOrdinal index =
     (if index < 0 \<or> index \<ge> int (length ESCROW_STATES) then Inl UnknownEscrowState
      else Inr (ESCROW_STATES ! nat index))"

text \<open>\<open>ESCROW_STATES.indexOf(state)\<close>.\<close>

primrec index_of :: "'a \<Rightarrow> 'a list \<Rightarrow> int" where
  "index_of x [] = - 1"
| "index_of x (y # ys) = (if x = y then 0 else let i = index_of x ys in if i < 0 then - 1 else i + 1)"

definition escrowStateOrdinal :: "EscrowState \<Rightarrow> escrow_error + int" where
  "escrowStateOrdinal state =
     (let index = index_of state ESCROW_STATES in if index < 0 then Inl UnknownEscrowState else Inr index)"

definition isEscrowTerminalState :: "EscrowState \<Rightarrow> bool" where
  "isEscrowTerminalState state = List.member ESCROW_TERMINAL_STATES state"

definition escrowStateHoldsFunds :: "EscrowState \<Rightarrow> bool" where
  "escrowStateHoldsFunds state = List.member ESCROW_HOLDING_STATES state"

subsection \<open>Keys, hashes and addresses\<close>

type_synonym keccak_fn = "string \<Rightarrow> string"
type_synonym keccak_abi_fn = "string \<Rightarrow> string \<Rightarrow> int \<Rightarrow> string"

definition ESCROW_TENDER_KEY_DOMAIN_STRING :: string where
  "ESCROW_TENDER_KEY_DOMAIN_STRING = ''ROUTEGUARD_V2_FREIGHT_ESCROW_TENDER_KEY_V1''"

definition ESCROW_TENDER_KEY_DOMAIN :: "keccak_fn \<Rightarrow> string" where
  "ESCROW_TENDER_KEY_DOMAIN keccak = keccak ESCROW_TENDER_KEY_DOMAIN_STRING"

definition BYTES32_RE :: "string \<Rightarrow> bool" where
  "BYTES32_RE v \<longleftrightarrow> take 2 v = ''0x'' \<and> is_hex64 (drop 2 v)"

definition EVM_ADDRESS_RE :: "string \<Rightarrow> bool" where
  "EVM_ADDRESS_RE v \<longleftrightarrow> take 2 v = ''0x'' \<and> length v = 42 \<and> list_all (\<lambda>c. hex_val c \<noteq> None) (drop 2 v)"

definition HEDERA_ACCOUNT_RE :: "string \<Rightarrow> bool" where
  "HEDERA_ACCOUNT_RE v \<longleftrightarrow>
     (let parts = split_on (CHR ''.'') v in length parts = 3 \<and> list_all canonical_nat parts)"

definition zeros :: "nat \<Rightarrow> string" where
  "zeros n = ''0x'' @ replicate n (CHR ''0'')"

definition tenderIdHash :: "keccak_fn \<Rightarrow> string \<Rightarrow> escrow_error + string" where
  "tenderIdHash keccak tenderId =
     (if length tenderId = 0 \<or> length tenderId > 128 then Inl (EscrowIdentityError ''INVALID_TENDER_ID'')
      else Inr (keccak tenderId))"

definition assertTenderVersion :: "int \<Rightarrow> escrow_error + int" where
  "assertTenderVersion tenderVersion =
     (if tenderVersion < 1 \<or> tenderVersion > 4294967295 then Inl (EscrowIdentityError ''INVALID_TENDER_VERSION'')
      else Inr tenderVersion)"

definition assertBytes32 :: "string \<Rightarrow> escrow_error + string" where
  "assertBytes32 v = (if \<not> BYTES32_RE v then Inl (EscrowIdentityError ''INVALID_HASH'') else Inr v)"

definition escrowTenderKeyFromHash ::
  "keccak_fn \<Rightarrow> keccak_abi_fn \<Rightarrow> string \<Rightarrow> int \<Rightarrow> escrow_error + string" where
  "escrowTenderKeyFromHash keccak keccak_abi identityHash tenderVersion =
     bind_res (assertBytes32 identityHash) (\<lambda>_.
     bind_res (assertTenderVersion tenderVersion) (\<lambda>version.
     Inr (keccak_abi (ESCROW_TENDER_KEY_DOMAIN keccak) identityHash version)))"

definition escrowTenderKey :: "keccak_fn \<Rightarrow> keccak_abi_fn \<Rightarrow> string \<Rightarrow> int \<Rightarrow> escrow_error + string" where
  "escrowTenderKey keccak keccak_abi tenderId tenderVersion =
     bind_res (tenderIdHash keccak tenderId) (\<lambda>identity.
     escrowTenderKeyFromHash keccak keccak_abi identity tenderVersion)"

definition assertAuthorizationHash :: "string \<Rightarrow> escrow_error + string" where
  "assertAuthorizationHash v =
     bind_res (assertBytes32 v) (\<lambda>hash.
       if hash = zeros 64 then Inl (EscrowIdentityError ''INVALID_HASH'') else Inr hash)"

definition assertEvmAddress :: "string \<Rightarrow> escrow_error + string" where
  "assertEvmAddress v =
     (if \<not> EVM_ADDRESS_RE v then Inl (EscrowIdentityError ''INVALID_ADDRESS'')
      else if toLowerCase v = zeros 40 then Inl (EscrowIdentityError ''INVALID_ADDRESS'')
      else Inr (toLowerCase v))"

text \<open>\<open>num.toString(16)\<close>.\<close>

fun hex_text :: "nat \<Rightarrow> string" where
  "hex_text n = (if n < 16 then [hex_digit n] else hex_text (n div 16) @ [hex_digit (n mod 16)])"

declare hex_text.simps [simp del]

definition hederaAccountToEvmAddress :: "string \<Rightarrow> escrow_error + string" where
  "hederaAccountToEvmAddress accountId =
     (if \<not> HEDERA_ACCOUNT_RE accountId then Inl (EscrowIdentityError ''INVALID_ACCOUNT_ID'')
      else let num = digits_val (split_on (CHR ''.'') accountId ! 2) in
      if num = 0 then Inl (EscrowIdentityError ''INVALID_ACCOUNT_ID'')
      else if num > 18446744073709551615 then Inl (EscrowIdentityError ''INVALID_ACCOUNT_ID'')
      else Inr (''0x'' @ padStart 40 (CHR ''0'') (hex_text num)))"

definition sha256HashToBytes32 :: "string \<Rightarrow> escrow_error + string" where
  "sha256HashToBytes32 v =
     (if \<not> is_sha256_hash v then Inl (EscrowIdentityError ''INVALID_HASH'') else Inr (''0x'' @ drop 7 v))"

subsection \<open>Transaction plans\<close>

datatype EscrowOperation =
    REGISTER_TENDER | FUND_TENDER | ALLOCATE_WINNER | REFUND_NO_QUALIFIED_BID | RELEASE_FULL_OP | OPEN_DISPUTE
  | RESOLVE_DISPUTE_RELEASE | REFUND_FULL_OP | PARTIAL_RELEASE_OP

datatype EscrowSignerRole = OPERATOR | SHIPPER

datatype EscrowArgument = Bytes32 string | Address string | Uint32 int | Uint256 string

record EscrowTransactionPlan =
  et_operation :: EscrowOperation
  et_contractFunction :: string
  et_functionSignature :: string
  et_args :: "EscrowArgument list"
  et_tenderKey :: string
  et_signerRole :: EscrowSignerRole
  et_gasLimit :: int
  et_networkWrite :: bool

primrec GAS :: "EscrowOperation \<Rightarrow> int" where
  "GAS REGISTER_TENDER = 400000"
| "GAS FUND_TENDER = 900000"
| "GAS ALLOCATE_WINNER = 1200000"
| "GAS REFUND_NO_QUALIFIED_BID = 900000"
| "GAS RELEASE_FULL_OP = 900000"
| "GAS OPEN_DISPUTE = 300000"
| "GAS RESOLVE_DISPUTE_RELEASE = 900000"
| "GAS REFUND_FULL_OP = 900000"
| "GAS PARTIAL_RELEASE_OP = 1400000"

definition plan ::
  "EscrowOperation \<Rightarrow> string \<Rightarrow> string \<Rightarrow> EscrowArgument list \<Rightarrow> string \<Rightarrow> EscrowSignerRole \<Rightarrow> EscrowTransactionPlan" where
  "plan operation contractFunction functionSignature args tenderKey signerRole =
     \<lparr> et_operation = operation, et_contractFunction = contractFunction,
       et_functionSignature = functionSignature, et_args = args, et_tenderKey = tenderKey,
       et_signerRole = signerRole, et_gasLimit = GAS operation, et_networkWrite = True \<rparr>"

definition escrow_amount :: "amount_error + 'a \<Rightarrow> escrow_error + 'a" where
  "escrow_amount m = map_err EscrowAmountError m"

record RegisterTenderInput =
  rt_tenderId :: string
  rt_tenderVersion :: int
  rt_shipperAddress :: string
  rt_maximumFreightBudgetAtomic :: string
  rt_escrowTokenAddress :: string
  rt_creationAuthorizationHash :: string
  rt_manifestHash :: "string option"

definition buildRegisterTenderPlan ::
  "keccak_fn \<Rightarrow> keccak_abi_fn \<Rightarrow> RegisterTenderInput \<Rightarrow> escrow_error + EscrowTransactionPlan" where
  "buildRegisterTenderPlan keccak keccak_abi input =
     bind_res (assertTenderVersion (rt_tenderVersion input)) (\<lambda>version.
     bind_res (tenderIdHash keccak (rt_tenderId input)) (\<lambda>identityHash.
     bind_res (escrowTenderKey keccak keccak_abi (rt_tenderId input) version) (\<lambda>tenderKey.
     bind_res (escrow_amount (assertPositiveEscrowAmount (rt_maximumFreightBudgetAtomic input))) (\<lambda>budget.
     bind_res (case rt_manifestHash input of None \<Rightarrow> Inr (zeros 64) | Some m \<Rightarrow> assertBytes32 m) (\<lambda>manifest.
     bind_res (assertEvmAddress (rt_shipperAddress input)) (\<lambda>shipper.
     bind_res (assertEvmAddress (rt_escrowTokenAddress input)) (\<lambda>token.
     bind_res (assertAuthorizationHash (rt_creationAuthorizationHash input)) (\<lambda>auth.
     Inr (plan REGISTER_TENDER ''registerTender''
       ''registerTender(bytes32,bytes32,uint32,address,uint256,address,bytes32,bytes32)''
       [Bytes32 tenderKey, Bytes32 identityHash, Uint32 version, Address shipper, Uint256 (int_str budget),
        Address token, Bytes32 auth, Bytes32 manifest] tenderKey OPERATOR)))))))))"

definition buildFundTenderPlan ::
  "keccak_fn \<Rightarrow> keccak_abi_fn \<Rightarrow> string \<Rightarrow> int \<Rightarrow> string \<Rightarrow> escrow_error + EscrowTransactionPlan" where
  "buildFundTenderPlan keccak keccak_abi tenderId tenderVersion maximumFreightBudgetAtomic =
     bind_res (assertTenderVersion tenderVersion) (\<lambda>version.
     bind_res (escrowTenderKey keccak keccak_abi tenderId version) (\<lambda>tenderKey.
     bind_res (escrow_amount (assertPositiveEscrowAmount maximumFreightBudgetAtomic)) (\<lambda>budget.
     Inr (plan FUND_TENDER ''fundTender'' ''fundTender(bytes32,uint256)''
       [Bytes32 tenderKey, Uint256 (int_str budget)] tenderKey SHIPPER))))"

record AllocateWinnerInput =
  aw_tenderId :: string
  aw_tenderVersion :: int
  aw_winnerAddress :: string
  aw_fundedAmountAtomic :: string
  aw_winningAmountAtomic :: string
  aw_decisionManifestHash :: string
  aw_allocationAuthorizationHash :: string

record AllocationPlan =
  ap_plan :: EscrowTransactionPlan
  ap_excessRefundAtomic :: string

definition buildAllocateWinnerPlan ::
  "keccak_fn \<Rightarrow> keccak_abi_fn \<Rightarrow> AllocateWinnerInput \<Rightarrow> escrow_error + AllocationPlan" where
  "buildAllocateWinnerPlan keccak keccak_abi input =
     bind_res (assertTenderVersion (aw_tenderVersion input)) (\<lambda>version.
     bind_res (escrowTenderKey keccak keccak_abi (aw_tenderId input) version) (\<lambda>tenderKey.
     bind_res (escrow_amount (assertPositiveEscrowAmount (aw_winningAmountAtomic input))) (\<lambda>winning.
     bind_res (escrow_amount (deriveExcessRefundAtomic (aw_fundedAmountAtomic input) (aw_winningAmountAtomic input)))
       (\<lambda>excess.
     bind_res (escrow_amount (assertNonNegativeEscrowAmount excess)) (\<lambda>_.
     bind_res (assertEvmAddress (aw_winnerAddress input)) (\<lambda>winner.
     bind_res (assertAuthorizationHash (aw_decisionManifestHash input)) (\<lambda>manifest.
     bind_res (assertAuthorizationHash (aw_allocationAuthorizationHash input)) (\<lambda>auth.
     Inr \<lparr> ap_plan = plan ALLOCATE_WINNER ''allocateWinner'' ''allocateWinner(bytes32,address,uint256,bytes32,bytes32)''
             [Bytes32 tenderKey, Address winner, Uint256 (int_str winning), Bytes32 manifest, Bytes32 auth]
             tenderKey OPERATOR,
           ap_excessRefundAtomic = excess \<rparr>))))))))"

definition simpleAuthorizedPlan ::
  "keccak_fn \<Rightarrow> keccak_abi_fn \<Rightarrow> EscrowOperation \<Rightarrow> string \<Rightarrow> string \<Rightarrow> string \<Rightarrow> int \<Rightarrow> string
     \<Rightarrow> escrow_error + EscrowTransactionPlan" where
  "simpleAuthorizedPlan keccak keccak_abi operation contractFunction functionSignature tenderId tenderVersion
       authorizationHash =
     bind_res (assertTenderVersion tenderVersion) (\<lambda>version.
     bind_res (escrowTenderKey keccak keccak_abi tenderId version) (\<lambda>tenderKey.
     bind_res (assertAuthorizationHash authorizationHash) (\<lambda>auth.
     Inr (plan operation contractFunction functionSignature [Bytes32 tenderKey, Bytes32 auth] tenderKey OPERATOR))))"

definition buildNoQualifiedBidRefundPlan ::
  "keccak_fn \<Rightarrow> keccak_abi_fn \<Rightarrow> string \<Rightarrow> int \<Rightarrow> string \<Rightarrow> escrow_error + EscrowTransactionPlan" where
  "buildNoQualifiedBidRefundPlan keccak keccak_abi tenderId tenderVersion authorizationHash =
     simpleAuthorizedPlan keccak keccak_abi REFUND_NO_QUALIFIED_BID ''refundNoQualifiedBid''
       ''refundNoQualifiedBid(bytes32,bytes32)'' tenderId tenderVersion authorizationHash"

definition buildReleaseFullPlan ::
  "keccak_fn \<Rightarrow> keccak_abi_fn \<Rightarrow> string \<Rightarrow> int \<Rightarrow> string \<Rightarrow> escrow_error + EscrowTransactionPlan" where
  "buildReleaseFullPlan keccak keccak_abi tenderId tenderVersion authorizationHash =
     simpleAuthorizedPlan keccak keccak_abi RELEASE_FULL_OP ''releaseFull''
       ''releaseFull(bytes32,bytes32)'' tenderId tenderVersion authorizationHash"

definition buildOpenDisputePlan ::
  "keccak_fn \<Rightarrow> keccak_abi_fn \<Rightarrow> string \<Rightarrow> int \<Rightarrow> string \<Rightarrow> escrow_error + EscrowTransactionPlan" where
  "buildOpenDisputePlan keccak keccak_abi tenderId tenderVersion authorizationHash =
     simpleAuthorizedPlan keccak keccak_abi OPEN_DISPUTE ''openDispute''
       ''openDispute(bytes32,bytes32)'' tenderId tenderVersion authorizationHash"

definition buildResolveDisputeReleasePlan ::
  "keccak_fn \<Rightarrow> keccak_abi_fn \<Rightarrow> string \<Rightarrow> int \<Rightarrow> string \<Rightarrow> escrow_error + EscrowTransactionPlan" where
  "buildResolveDisputeReleasePlan keccak keccak_abi tenderId tenderVersion authorizationHash =
     simpleAuthorizedPlan keccak keccak_abi RESOLVE_DISPUTE_RELEASE ''resolveDisputeRelease''
       ''resolveDisputeRelease(bytes32,bytes32)'' tenderId tenderVersion authorizationHash"

definition buildRefundFullPlan ::
  "keccak_fn \<Rightarrow> keccak_abi_fn \<Rightarrow> string \<Rightarrow> int \<Rightarrow> string \<Rightarrow> escrow_error + EscrowTransactionPlan" where
  "buildRefundFullPlan keccak keccak_abi tenderId tenderVersion authorizationHash =
     simpleAuthorizedPlan keccak keccak_abi REFUND_FULL_OP ''refundFull''
       ''refundFull(bytes32,bytes32)'' tenderId tenderVersion authorizationHash"

definition buildPartialReleasePlan ::
  "keccak_fn \<Rightarrow> keccak_abi_fn \<Rightarrow> string \<Rightarrow> int \<Rightarrow> string \<Rightarrow> string \<Rightarrow> string \<Rightarrow> string
     \<Rightarrow> escrow_error + EscrowTransactionPlan" where
  "buildPartialReleasePlan keccak keccak_abi tenderId tenderVersion lockedAmountAtomic winnerAmountAtomic
       shipperAmountAtomic refereeAuthorizationHash =
     bind_res (assertTenderVersion tenderVersion) (\<lambda>version.
     bind_res (escrowTenderKey keccak keccak_abi tenderId version) (\<lambda>tenderKey.
     bind_res (escrow_amount (assertPartialConservation lockedAmountAtomic winnerAmountAtomic shipperAmountAtomic)) (\<lambda>_.
     bind_res (escrow_amount (of_option NotABigInt (js_bigint winnerAmountAtomic))) (\<lambda>toWinner.
     bind_res (escrow_amount (of_option NotABigInt (js_bigint shipperAmountAtomic))) (\<lambda>toShipper.
     bind_res (assertAuthorizationHash refereeAuthorizationHash) (\<lambda>auth.
     Inr (plan PARTIAL_RELEASE_OP ''partialRelease'' ''partialRelease(bytes32,uint256,uint256,bytes32)''
       [Bytes32 tenderKey, Uint256 (int_str toWinner), Uint256 (int_str toShipper), Bytes32 auth] tenderKey OPERATOR)))))))"

subsection \<open>Lifecycle and escrow\<close>

definition ESCROW_TRIGGERS :: "(V2LifecycleState \<times> EscrowOperation \<times> EscrowState) list" where
  "ESCROW_TRIGGERS =
     [(DRAFT, REGISTER_TENDER, REGISTERED), (WINNER_SELECTED, ALLOCATE_WINNER, ALLOCATED),
      (NO_QUALIFIED_BID, REFUND_NO_QUALIFIED_BID, REFUNDED_ESCROW), (POD_ACCEPTED, RELEASE_FULL_OP, RELEASED),
      (POD_DEEMED_ACCEPTED, RELEASE_FULL_OP, RELEASED), (POD_DISPUTED, OPEN_DISPUTE, DISPUTED)]"

definition ESCROW_CONFIRMATION_REQUIREMENTS :: "(V2LifecycleState \<times> EscrowState) list" where
  "ESCROW_CONFIRMATION_REQUIREMENTS =
     [(ESCROW_FUNDED, FUNDED), (WINNING_AMOUNT_LOCKED, ALLOCATED), (ROUTE_RESERVED, ALLOCATED)]"

primrec REFEREE_RESOLUTION_OPERATIONS :: "Resolution \<Rightarrow> EscrowOperation" where
  "REFEREE_RESOLUTION_OPERATIONS RELEASE_FULL = RESOLVE_DISPUTE_RELEASE"
| "REFEREE_RESOLUTION_OPERATIONS REFUND_FULL = REFUND_FULL_OP"
| "REFEREE_RESOLUTION_OPERATIONS PARTIAL = PARTIAL_RELEASE_OP"

definition escrowOperationForLifecycleState :: "V2LifecycleState \<Rightarrow> EscrowOperation option" where
  "escrowOperationForLifecycleState state =
     map_option (\<lambda>t. fst (snd t)) (find (\<lambda>t. fst t = state) ESCROW_TRIGGERS)"

definition escrowOperationForRefereeResolution :: "Resolution \<Rightarrow> escrow_error + EscrowOperation" where
  "escrowOperationForRefereeResolution resolution = Inr (REFEREE_RESOLUTION_OPERATIONS resolution)"

definition requiredEscrowStateFor :: "V2LifecycleState \<Rightarrow> EscrowState option" where
  "requiredEscrowStateFor state =
     map_option snd (find (\<lambda>r. fst r = state) ESCROW_CONFIRMATION_REQUIREMENTS)"

subsection \<open>Contract events\<close>

datatype EscrowEventName =
    TenderEscrowRegistered | TenderEscrowFunded | WinnerAllocated | ExcessRefunded | NoWinnerRefunded | DisputeOpened
  | FreightReleased | FreightRefunded | FreightPartiallyReleased

primrec PUBLIC_EVENT_FIELDS :: "EscrowEventName \<Rightarrow> string list" where
  "PUBLIC_EVENT_FIELDS TenderEscrowRegistered = [''tenderKey'', ''tenderIdHash'', ''tenderVersion'', ''shipper'',
     ''maxBudget'', ''token'', ''creationAuthHash'', ''manifestHash'']"
| "PUBLIC_EVENT_FIELDS TenderEscrowFunded = [''tenderKey'', ''shipper'', ''fundedAmount'']"
| "PUBLIC_EVENT_FIELDS WinnerAllocated = [''tenderKey'', ''winner'', ''winningAmount'', ''excessAmount'',
     ''decisionManifestHash'', ''allocationAuthHash'']"
| "PUBLIC_EVENT_FIELDS ExcessRefunded = [''tenderKey'', ''shipper'', ''excessAmount'']"
| "PUBLIC_EVENT_FIELDS NoWinnerRefunded = [''tenderKey'', ''shipper'', ''amount'', ''authorizationHash'']"
| "PUBLIC_EVENT_FIELDS DisputeOpened = [''tenderKey'', ''disputeAuthHash'']"
| "PUBLIC_EVENT_FIELDS FreightReleased = [''tenderKey'', ''winner'', ''amount'', ''authorizationHash'', ''fromDispute'']"
| "PUBLIC_EVENT_FIELDS FreightRefunded = [''tenderKey'', ''shipper'', ''amount'', ''authorizationHash'', ''fromDispute'']"
| "PUBLIC_EVENT_FIELDS FreightPartiallyReleased = [''tenderKey'', ''winner'', ''shipper'', ''winnerAmount'',
     ''shipperAmount'', ''authorizationHash'']"

text \<open>
  A decoded log: the event and its inputs, each with its name, ABI type and value.  The log
  parser returns \<open>None\<close> when it throws or knows no such event, and \<open>Some None\<close> for the name of
  an event that is not one of the nine.
\<close>

datatype abi_value = AbiBool bool | AbiUint nat int | AbiInt nat int | AbiAddress string | AbiBytes string

datatype field_value = FieldStr string | FieldNum int | FieldBool bool

type_synonym escrow_log = "string list \<times> string"
type_synonym parse_log_fn = "escrow_log \<Rightarrow> (EscrowEventName option \<times> (string \<times> abi_value) list) option"

record ParsedEscrowEvent =
  ee_name :: EscrowEventName
  ee_fields :: "(string \<times> field_value) list"

primrec normalizeEventValue :: "abi_value \<Rightarrow> field_value" where
  "normalizeEventValue (AbiBool b) = FieldBool b"
| "normalizeEventValue (AbiUint w n) = (if w = 32 then FieldNum n else FieldStr (int_str n))"
| "normalizeEventValue (AbiInt w n) = FieldStr (int_str n)"
| "normalizeEventValue (AbiAddress a) = FieldStr (toLowerCase a)"
| "normalizeEventValue (AbiBytes b) = FieldStr b"

definition parseEscrowEvent :: "parse_log_fn \<Rightarrow> escrow_log \<Rightarrow> ParsedEscrowEvent option" where
  "parseEscrowEvent parse_log log =
     (case parse_log log of
        Some (Some name, inputs) \<Rightarrow>
          Some \<lparr> ee_name = name, ee_fields = map (\<lambda>(n, v). (n, normalizeEventValue v))
            (filter (\<lambda>(n, v). List.member (PUBLIC_EVENT_FIELDS name) n) inputs) \<rparr>
      | _ \<Rightarrow> None)"

definition parseEscrowEvents :: "parse_log_fn \<Rightarrow> escrow_log list \<Rightarrow> ParsedEscrowEvent list" where
  "parseEscrowEvents parse_log logs = List.map_filter (parseEscrowEvent parse_log) logs"

record EscrowExecutionInput =
  xr_status :: "string option"
  xr_transactionId :: "string option"
  xr_contractId :: "string option"
  xr_errorMessage :: "string option"
  xr_logs :: "escrow_log list option"

record EscrowExecutionOutcome =
  xo_success :: bool
  xo_transactionId :: "string option"
  xo_contractId :: "string option"
  xo_errorName :: "string option"
  xo_events :: "ParsedEscrowEvent list"

text \<open>\<open>toUpperCase\<close> as far as the comparison with \<open>"SUCCESS"\<close> can see it; the sharp s becomes two letters.\<close>

definition upper_text :: "string \<Rightarrow> string" where
  "upper_text s = concat (map (\<lambda>c. if c = CHR 0xDF then ''SS''
     else if in_range (CHR ''a'') (CHR ''z'') c then [char_of (of_char c - 32 :: nat)] else [c]) s)"

definition decodeErrorName :: "(string \<Rightarrow> string option) \<Rightarrow> string option \<Rightarrow> string option" where
  "decodeErrorName parse_error errorMessage =
     (case errorMessage of
        None \<Rightarrow> None
      | Some m \<Rightarrow>
          if m = [] then None
          else if take 2 m = ''0x'' \<and> length m \<ge> 10 \<and> list_all (\<lambda>c. hex_val c \<noteq> None) (drop 2 m)
          then (case parse_error m of Some name \<Rightarrow> Some name | None \<Rightarrow> Some (take 64 m))
          else Some (take 64 m))"

definition parseEscrowExecutionResult ::
  "parse_log_fn \<Rightarrow> (string \<Rightarrow> string option) \<Rightarrow> EscrowExecutionInput \<Rightarrow> EscrowExecutionOutcome" where
  "parseEscrowExecutionResult parse_log parse_error input =
     (let success = (case xr_status input of None \<Rightarrow> False | Some s \<Rightarrow> upper_text s = ''SUCCESS'') in
      \<lparr> xo_success = success, xo_transactionId = xr_transactionId input, xo_contractId = xr_contractId input,
        xo_errorName = (if success then None else decodeErrorName parse_error (xr_errorMessage input)),
        xo_events = (if success then parseEscrowEvents parse_log (case xr_logs input of None \<Rightarrow> [] | Some l \<Rightarrow> l)
                     else []) \<rparr>)"

text \<open>The result of \<open>getState\<close>; \<open>BigInt\<close> of a text that is not a number throws.\<close>

datatype state_result = ResultInteger int | ResultFraction | ResultText string | ResultOther

definition hex_like :: "string \<Rightarrow> bool" where
  "hex_like s \<longleftrightarrow> (let d = (if take 2 s = ''0x'' then drop 2 s else s) in d \<noteq> [] \<and> list_all (\<lambda>c. hex_val c \<noteq> None) d)"

definition parseEscrowStateResult :: "state_result \<Rightarrow> escrow_error + EscrowState" where
  "parseEscrowStateResult v =
     (case v of
        ResultInteger n \<Rightarrow> escrowStateFromOrdinal n
      | ResultFraction \<Rightarrow> Inl UnknownEscrowState
      | ResultText s \<Rightarrow>
          if hex_like s
          then (case js_bigint s of None \<Rightarrow> Inl StateSyntax | Some n \<Rightarrow> escrowStateFromOrdinal n)
          else Inl EscrowEventParseError
      | ResultOther \<Rightarrow> Inl EscrowEventParseError)"

subsection \<open>States and keys\<close>

lemma escrowState_ordinal_round_trip:
  "bind_res (escrowStateOrdinal s) escrowStateFromOrdinal = Inr s"
  by (cases s) (simp_all add: escrowStateOrdinal_def escrowStateFromOrdinal_def ESCROW_STATES_def Let_def)

lemma assertTenderVersion_Inr_iff [res_simps]:
  "assertTenderVersion v = Inr x \<longleftrightarrow> 1 \<le> v \<and> v \<le> 4294967295 \<and> x = v"
  by (auto simp: assertTenderVersion_def)

lemma assertBytes32_Inr_iff [res_simps]: "assertBytes32 v = Inr x \<longleftrightarrow> BYTES32_RE v \<and> x = v"
  by (auto simp: assertBytes32_def)

lemma assertAuthorizationHash_Inr_iff [res_simps]:
  "assertAuthorizationHash v = Inr x \<longleftrightarrow> BYTES32_RE v \<and> v \<noteq> zeros 64 \<and> x = v"
  by (auto simp: assertAuthorizationHash_def res_simps)

lemma assertEvmAddress_Inr_iff [res_simps]:
  "assertEvmAddress v = Inr x \<longleftrightarrow> EVM_ADDRESS_RE v \<and> toLowerCase v \<noteq> zeros 40 \<and> x = toLowerCase v"
  by (auto simp: assertEvmAddress_def)

lemma escrow_amount_Inr_iff [res_simps]: "escrow_amount m = Inr x \<longleftrightarrow> m = Inr x"
  by (simp add: escrow_amount_def res_simps)

lemma tenderIdHash_Inr_iff [res_simps]:
  "tenderIdHash k t = Inr x \<longleftrightarrow> t \<noteq> [] \<and> length t \<le> 128 \<and> x = k t"
  by (auto simp: tenderIdHash_def)

lemma escrowTenderKey_Inr_iff [res_simps]:
  "escrowTenderKey k ka t v = Inr x \<longleftrightarrow> t \<noteq> [] \<and> length t \<le> 128 \<and> BYTES32_RE (k t) \<and> 1 \<le> v \<and> v \<le> 4294967295
     \<and> x = ka (ESCROW_TENDER_KEY_DOMAIN k) (k t) v"
  by (auto simp: escrowTenderKey_def escrowTenderKeyFromHash_def res_simps)

text \<open>Two tenders with one key are the same tender, or the digest has a collision.\<close>

lemma tender_key_collision:
  assumes "escrowTenderKey k ka t v = Inr x" "escrowTenderKey k ka t' v' = Inr x" "(t, v) \<noteq> (t', v')"
  shows "(t \<noteq> t' \<and> k t = k t')
    \<or> ((k t, v) \<noteq> (k t', v')
        \<and> ka (ESCROW_TENDER_KEY_DOMAIN k) (k t) v = ka (ESCROW_TENDER_KEY_DOMAIN k) (k t') v')"
  using assms by (auto simp: res_simps)

subsection \<open>Long-zero addresses\<close>

lemma hex_digit_cases: "d < 16 \<Longrightarrow> d \<in> {0, 1, 2, 3, 4, 5, 6, 7, 8, 9, 10, 11, 12, 13, 14, 15 :: nat}"
  by (auto simp: less_Suc_eq numeral_eq_Suc)

lemma hex_val_hex_digit: "d < 16 \<Longrightarrow> hex_val (hex_digit d) = Some d"
  by (drule hex_digit_cases) (auto simp: hex_digit_def hex_val_def is_digit_def in_range_def)

lemma radix_acc_append: "radix_acc b a (s @ t) = (case radix_acc b a s of None \<Rightarrow> None | Some x \<Rightarrow> radix_acc b x t)"
  by (induction s arbitrary: a) (auto split: option.splits)

lemma radix_acc_hex_text: "radix_acc 16 0 (hex_text n) = Some n"
proof (induction n rule: hex_text.induct)
  case (1 n)
  show ?case
  proof (cases "n < 16")
    case True
    then show ?thesis by (simp add: hex_text.simps [of n] hex_val_hex_digit)
  next
    case False
    then show ?thesis
      using 1 by (subst hex_text.simps) (simp add: radix_acc_append hex_val_hex_digit)
  qed
qed

lemma hex_text_chars: "list_all (\<lambda>c. hex_val c \<noteq> None) (hex_text n)"
proof (induction n rule: hex_text.induct)
  case (1 n)
  then show ?case by (subst hex_text.simps) (auto simp: hex_val_hex_digit)
qed

lemma hex_text_length: "n < 16 ^ Suc k \<Longrightarrow> length (hex_text n) \<le> Suc k"
proof (induction k arbitrary: n)
  case 0
  then show ?case by (simp add: hex_text.simps)
next
  case (Suc k)
  have "length (hex_text (n div 16)) \<le> Suc k"
    using Suc.IH [of "n div 16"] Suc.prems by (simp add: less_mult_imp_div_less)
  then show ?case by (subst hex_text.simps) simp
qed

lemma radix_acc_zeros: "radix_acc 16 0 (replicate k CHR ''0'' @ s) = radix_acc 16 0 s"
  by (induction k) (auto simp: hex_val_def is_digit_def)

text \<open>The address of an account is well formed and gives the account number back.\<close>

lemma long_zero_address:
  assumes "hederaAccountToEvmAddress a = Inr x"
  shows "EVM_ADDRESS_RE x" "radix_val 16 (drop 2 x) = Some (digits_val (split_on CHR ''.'' a ! 2))"
proof -
  define n where "n = digits_val (split_on CHR ''.'' a ! 2)"
  have n: "0 < n" "n < 16 ^ Suc 15" and x: "x = ''0x'' @ padStart 40 CHR ''0'' (hex_text n)"
    using assms by (auto simp: hederaAccountToEvmAddress_def Let_def n_def split: if_splits)
  have l: "length (hex_text n) \<le> 16" using hex_text_length [OF n(2)] by simp
  have z: "hex_val CHR ''0'' \<noteq> None" by (simp add: hex_val_def is_digit_def)
  show "EVM_ADDRESS_RE x"
    using l z hex_text_chars [of n] by (auto simp: EVM_ADDRESS_RE_def x padStart_def list_all_iff)
  show "radix_val 16 (drop 2 x) = Some (digits_val (split_on CHR ''.'' a ! 2))"
    using l by (auto simp: radix_val_def x padStart_def radix_acc_zeros radix_acc_hex_text n_def [symmetric]
      intro: ccontr)
qed

subsection \<open>Amounts in plans\<close>

lemma allocation_plan_amounts:
  assumes "buildAllocateWinnerPlan k ka i = Inr a"
  shows "et_args (ap_plan a) = [Bytes32 (et_tenderKey (ap_plan a)), Address (toLowerCase (aw_winnerAddress i)),
      Uint256 (aw_winningAmountAtomic i), Bytes32 (aw_decisionManifestHash i), Bytes32 (aw_allocationAuthorizationHash i)]"
    "isPositiveAtomicString (aw_winningAmountAtomic i)" "isNonNegativeAtomicString (ap_excessRefundAtomic a)"
    "amount (aw_winningAmountAtomic i) + amount (ap_excessRefundAtomic a) = amount (aw_fundedAmountAtomic i)"
    "isPositiveAtomicString (aw_fundedAmountAtomic i)" "amount (aw_fundedAmountAtomic i) \<le> MAX_HTS_ATOMIC_AMOUNT"
    "escrowTenderKey k ka (aw_tenderId i) (aw_tenderVersion i) = Inr (et_tenderKey (ap_plan a))"
    "et_contractFunction (ap_plan a) = ''allocateWinner''" "et_signerRole (ap_plan a) = OPERATOR"
    "aw_allocationAuthorizationHash i \<noteq> zeros 64" "aw_decisionManifestHash i \<noteq> zeros 64"
    "toLowerCase (aw_winnerAddress i) \<noteq> zeros 40"
  using assms
  by (auto simp: buildAllocateWinnerPlan_def deriveExcessRefundAtomic_def res_simps plan_def int_str_amount
      positive_is_nonNegative)

lemma partial_plan_amounts:
  assumes "buildPartialReleasePlan k ka t v l x y auth = Inr p"
  shows "et_args p = [Bytes32 (et_tenderKey p), Uint256 x, Uint256 y, Bytes32 auth]"
    "isNonNegativeAtomicString x" "isNonNegativeAtomicString y" "amount x + amount y = amount l"
    "amount l \<le> MAX_HTS_ATOMIC_AMOUNT"
  using assms
  by (auto simp: buildPartialReleasePlan_def res_simps plan_def assertPartialConservation_def bigint_atomic int_str_amount
      positive_is_nonNegative)

text \<open>
  If the plan for the winner of a tender is built from the amounts on the record, then every
  confirmation of the allocation that the lifecycle accepts afterwards carries exactly the
  amounts of the plan.
\<close>

lemma allocation_plan_confirmed:
  assumes "reachable h r" "lr_state r = WINNER_SELECTED" "lr_winningAmountAtomic r = Some win"
    and "lr_fundedAmountAtomic r = Some funded"
    and "buildAllocateWinnerPlan k ka i = Inr a" "aw_fundedAmountAtomic i = funded" "aw_winningAmountAtomic i = win"
    and "ev_body e = WINNING_AMOUNT_ALLOCATION_CONFIRMED p" "reduceLifecycle h ctx r e = Inr r'"
  shows "Uint256 (wa_winningAmountAtomic p) \<in> set (et_args (ap_plan a))"
    and "wa_excessRefundAtomic p = ap_excessRefundAtomic a"
    and "ledger_of r' = \<lparr> held = amount win, returned = amount (ap_excessRefundAtomic a), paid = 0 \<rparr>"
proof -
  note pl = allocation_plan_amounts [OF assms(5), unfolded assms(6,7)]
  have b: "reduce_body h ctx r e = Inr r'" using assms(9) by (simp add: reduceLifecycle_Inr_iff)
  have f: "funded = lr_maximumFreightBudgetAtomic r"
    using reachable_funds [OF assms(1)] assms(2,4) by (simp add: funds_inv_def)
  have "win \<noteq> []" using pl(2) by (auto simp: isPositiveAtomicString_def)
  then have w: "wa_winningAmountAtomic p = win" and x: "isNonNegativeAtomicString (wa_excessRefundAtomic p)"
    and c: "amount win + amount (wa_excessRefundAtomic p) = amount funded"
    and r': "lr_state r' = WINNING_AMOUNT_LOCKED" "lr_lockedAmountAtomic r' = Some win"
      "lr_excessRefundAtomic r' = Some (wa_excessRefundAtomic p)"
    using b assms(3,8) f
    by (auto simp: reduce_body_def on_winning_amount_allocation_confirmed_def res_simps truthy_def bigint_atomic
        positive_is_nonNegative stamp_def)
  show "Uint256 (wa_winningAmountAtomic p) \<in> set (et_args (ap_plan a))" using pl(1) w by simp
  show e: "wa_excessRefundAtomic p = ap_excessRefundAtomic a"
    using amount_eq_iff [OF x pl(3)] c pl(4) by simp
  show "ledger_of r' = \<lparr> held = amount win, returned = amount (ap_excessRefundAtomic a), paid = 0 \<rparr>"
    using r' e by (simp add: ledger_of_def state_group_defs)
qed

text \<open>The same for a partial settlement: the confirmation carries the amounts of the plan.\<close>

lemma partial_plan_confirmed:
  assumes "buildPartialReleasePlan k ka t v l x y auth = Inr p"
    and "lr_releaseAmountAtomic r = Some x" "lr_refundAmountAtomic r = Some y"
    and "ev_body e = ESCROW_PARTIAL_RELEASE_CONFIRMED c" "reduceLifecycle h ctx r e = Inr r'"
  shows "et_args p = [Bytes32 (et_tenderKey p), Uint256 (ep_releaseAmountAtomic c), Uint256 (ep_refundAmountAtomic c), Bytes32 auth]"
  using assms(2-5) partial_plan_amounts(1) [OF assms(1)]
  by (auto simp: reduceLifecycle_Inr_iff reduce_body_def on_escrow_partial_release_confirmed_def res_simps)

text \<open>
  The lifecycle map is consistent with the transition graph: what a triggered call leaves the
  contract in is what the next lifecycle states require.  Only the tender in \<open>DRAFT\<close> needs a
  second call, the funding, which the map does not list.
\<close>

lemma triggers_meet_requirements:
  assumes "(s, op, after) \<in> set ESCROW_TRIGGERS" "s \<noteq> DRAFT" "t \<in> set (LEGAL s)" "requiredEscrowStateFor t = Some q"
  shows "q = after"
  using assms by (auto simp: ESCROW_TRIGGERS_def requiredEscrowStateFor_def ESCROW_CONFIRMATION_REQUIREMENTS_def
      split: if_splits)

end
