(* ===== verification/Pod_Package.thy ===== *)
theory Pod_Package
  imports Public_Evidence Escrow_Plans Lifecycle_Service
begin

text \<open>
  Packages of a proof of delivery, \<^verbatim>\<open>src/v2/pod\<close>: error codes (\<^verbatim>\<open>errors.ts\<close>), the data
  (\<^verbatim>\<open>types.ts\<close>), the file policy (\<^verbatim>\<open>policy.ts\<close>), manifest and content hash
  (\<^verbatim>\<open>manifest.ts\<close>), and the rules of the advisory report (\<^verbatim>\<open>adviser.ts\<close>).

  File contents are lists of byte values; their SHA-256 is the parameter \<open>digest\<close>, as the hash of
  texts is \<open>sha256\<close>.  The content scanner is an interface of the code and a parameter here: it says
  whether a file passes.
\<close>

type_synonym byte_hash = "nat list \<Rightarrow> string"

text \<open>
  What the service throws: its own error with a code, an error of the lifecycle store \<open>'e\<close>, or an
  error of a part it calls.
\<close>

datatype 'e pod_error =
    PodError string | PodLifecycle 'e | PodTime time_error | PodCanonical canonical_error | PodEscrow escrow_error
  | PodPublic hcs_error | PodIdentityMissing | PodTypeError

definition POD_HTTP_STATUS :: "(string \<times> int) list" where
  "POD_HTTP_STATUS =
     [(''POD_INVALID'', 400), (''POD_TOO_LARGE'', 413), (''POD_FILE_TYPE_REJECTED'', 415), (''POD_SIGNATURE_INVALID'', 401),
      (''POD_ALREADY_EXISTS'', 409), (''POD_VERSION_CONFLICT'', 409), (''POD_STORAGE_CORRUPT'', 500),
      (''POD_ENCRYPTION_FAILED'', 500), (''POD_DECRYPTION_FAILED'', 500), (''POD_REVIEW_NOT_ALLOWED'', 403),
      (''POD_REVIEW_DEADLINE_EXPIRED'', 409), (''POD_CORRECTION_DEADLINE_EXPIRED'', 409),
      (''SHIPPER_AUTHORIZATION_INVALID'', 401), (''ESCROW_PLAN_BINDING_FAILED'', 422), (''ACTION_ID_CONFLICT'', 409),
      (''PERSISTENCE_CONFLICT'', 409), (''POD_NOT_FOUND'', 404), (''POD_STATE_INVALID'', 409), (''CARRIER_NOT_WINNER'', 403),
      (''POD_MANIFEST_MISMATCH'', 400), (''POD_HASH_MISMATCH'', 400), (''POD_KEY_CONFIG'', 503), (''POD_SCAN_REJECTED'', 422)]"

subsection \<open>Data\<close>

definition POD_DOCUMENT_TYPES :: "string list" where
  "POD_DOCUMENT_TYPES =
     [''ELECTRONIC_DELIVERY_RECEIPT'', ''ECMR_EPOD'', ''RECIPIENT_CONFIRMATION'', ''DELIVERY_IMAGE'',
      ''CARGO_CONDITION_EVIDENCE'', ''EXCEPTION_DOCUMENT'', ''STRUCTURED_DELIVERY_METADATA'']"

definition POD_CARGO_CONDITION_CODES :: "string list" where
  "POD_CARGO_CONDITION_CODES = [''GOOD'', ''DAMAGED'', ''PARTIAL'', ''SEAL_BROKEN'', ''OTHER'']"

definition POD_EXCEPTION_CODES :: "string list" where
  "POD_EXCEPTION_CODES = [''NONE'', ''DAMAGED'', ''SHORTAGE'', ''LATE'', ''SEAL_MISMATCH'', ''OTHER_STRUCTURED'']"

record PodFileInput =
  pf_fileId :: string
  pf_documentType :: string
  pf_filename :: string
  pf_mimeType :: string
  pf_bytes :: "nat list"

record PodManifestEntry =
  pm_fileId :: string
  pm_documentType :: string
  pm_storageName :: string
  pm_mimeType :: string
  pm_byteLength :: nat
  pm_plaintextSha256 :: string

record PodCanonicalManifest =
  cm_entries :: "PodManifestEntry list"
  cm_documentCount :: nat
  cm_totalBytes :: nat

record PodPackageFields =
  pd_podId :: string
  pd_podVersion :: int
  pd_tenderId :: string
  pd_tenderVersion :: int
  pd_winningBidId :: string
  pd_escrowTenderKey :: string
  pd_carrierId :: string
  pd_carrierAccountId :: string
  pd_deliveryTimestamp :: string
  pd_recipientConfirmationPresent :: bool
  pd_cargoConditionCode :: string
  pd_exceptionCodes :: "string list"
  pd_submittedAt :: string
  pd_actionId :: string

subsection \<open>File policy\<close>

record PodFilePolicy =
  fp_maxFiles :: nat
  fp_maxFileBytes :: nat
  fp_maxPackageBytes :: nat
  fp_allowedMimeTypes :: "string list"

definition DEFAULT_POD_FILE_POLICY :: PodFilePolicy where
  "DEFAULT_POD_FILE_POLICY = \<lparr> fp_maxFiles = 10, fp_maxFileBytes = 10485760, fp_maxPackageBytes = 26214400,
     fp_allowedMimeTypes = [''application/pdf'', ''image/jpeg'', ''image/png'', ''application/json''] \<rparr>"

definition filename_char :: "char \<Rightarrow> bool" where
  "filename_char c \<longleftrightarrow> is_alnum c \<or> List.member ''._@+-'' c"

definition assertSafeFilename :: "string \<Rightarrow> 'e pod_error + string" where
  "assertSafeFilename name =
     (if name = [] \<or> length name > 128 then Inl (PodError ''POD_INVALID'')
      else if List.member name (CHR 0x00) then Inl (PodError ''POD_INVALID'')
      else if contains_dotdot name \<or> List.member name (CHR ''/'') \<or> List.member name (CHR 0x5C)
      then Inl (PodError ''POD_INVALID'')
      else if \<not> list_all filename_char name then Inl (PodError ''POD_INVALID'')
      else Inr name)"

definition assertMimeAllowed :: "string \<Rightarrow> PodFilePolicy \<Rightarrow> 'e pod_error + unit" where
  "assertMimeAllowed mimeType policy =
     guard_res (List.member (fp_allowedMimeTypes policy) mimeType) (PodError ''POD_FILE_TYPE_REJECTED'')"

subsection \<open>Manifest\<close>

definition sha256Digest :: "byte_hash \<Rightarrow> nat list \<Rightarrow> string" where
  "sha256Digest digest bytes = ''sha256:'' @ digest bytes"

definition storageNameFor :: "PodFileInput \<Rightarrow> 'e pod_error + string" where
  "storageNameFor file = bind_res (assertSafeFilename (pf_filename file)) (\<lambda>safe. Inr (pf_fileId file @ ''__'' @ safe))"

text \<open>\<open>/^[A-Za-z0-9._-]{1,64}$/\<close>.\<close>

definition FILE_ID_RE :: "string \<Rightarrow> bool" where
  "FILE_ID_RE s \<longleftrightarrow> 1 \<le> length s \<and> length s \<le> 64 \<and> list_all (\<lambda>c. is_alnum c \<or> List.member ''._-'' c) s"

text \<open>One pass of the loop: the ids seen, the bytes so far and the entries built.\<close>

primrec manifest_loop ::
  "byte_hash \<Rightarrow> PodFilePolicy \<Rightarrow> (PodFileInput \<Rightarrow> bool) option \<Rightarrow> PodFileInput list \<Rightarrow> string list \<Rightarrow> nat
     \<Rightarrow> PodManifestEntry list \<Rightarrow> 'e pod_error + PodManifestEntry list \<times> nat" where
  "manifest_loop digest policy scanner [] seenIds totalBytes built = Inr (built, totalBytes)"
| "manifest_loop digest policy scanner (file # files) seenIds totalBytes built =
     bind_res (guard_res (FILE_ID_RE (pf_fileId file)) (PodError ''POD_INVALID'')) (\<lambda>_.
     bind_res (guard_res (\<not> List.member seenIds (pf_fileId file)) (PodError ''POD_INVALID'')) (\<lambda>_.
     bind_res (guard_res (List.member POD_DOCUMENT_TYPES (pf_documentType file)) (PodError ''POD_INVALID'')) (\<lambda>_.
     bind_res (assertMimeAllowed (pf_mimeType file) policy) (\<lambda>_.
     bind_res (assertSafeFilename (pf_filename file)) (\<lambda>_.
     bind_res (guard_res (pf_bytes file \<noteq> []) (PodError ''POD_INVALID'')) (\<lambda>_.
     bind_res (guard_res (length (pf_bytes file) \<le> fp_maxFileBytes policy) (PodError ''POD_TOO_LARGE'')) (\<lambda>_.
     let total = totalBytes + length (pf_bytes file) in
     bind_res (guard_res (total \<le> fp_maxPackageBytes policy) (PodError ''POD_TOO_LARGE'')) (\<lambda>_.
     bind_res (guard_res (case scanner of None \<Rightarrow> True | Some scan \<Rightarrow> scan file) (PodError ''POD_SCAN_REJECTED'')) (\<lambda>_.
     bind_res (storageNameFor file) (\<lambda>name.
     manifest_loop digest policy scanner files (pf_fileId file # seenIds) total
       (built @ [\<lparr> pm_fileId = pf_fileId file, pm_documentType = pf_documentType file, pm_storageName = name,
          pm_mimeType = pf_mimeType file, pm_byteLength = length (pf_bytes file),
          pm_plaintextSha256 = sha256Digest digest (pf_bytes file) \<rparr>])))))))))))"

definition buildCanonicalManifest ::
  "byte_hash \<Rightarrow> PodFilePolicy \<Rightarrow> (PodFileInput \<Rightarrow> bool) option \<Rightarrow> PodFileInput list \<Rightarrow> 'e pod_error + PodCanonicalManifest" where
  "buildCanonicalManifest digest policy scanner files =
     bind_res (guard_res (files \<noteq> []) (PodError ''POD_INVALID'')) (\<lambda>_.
     bind_res (guard_res (length files \<le> fp_maxFiles policy) (PodError ''POD_TOO_LARGE'')) (\<lambda>_.
     bind_res (manifest_loop digest policy scanner files [] 0 []) (\<lambda>(built, totalBytes).
     Inr \<lparr> cm_entries = sort_key pm_fileId built, cm_documentCount = length built, cm_totalBytes = totalBytes \<rparr>)))"

definition entry_record :: "PodManifestEntry \<Rightarrow> json" where
  "entry_record e = JObj
     [(''fileId'', JStr (pm_fileId e)), (''documentType'', JStr (pm_documentType e)), (''storageName'', JStr (pm_storageName e)),
      (''mimeType'', JStr (pm_mimeType e)), (''byteLength'', JNum (int (pm_byteLength e))),
      (''plaintextSha256'', JStr (pm_plaintextSha256 e))]"

definition manifestHash :: "hash_fn \<Rightarrow> PodCanonicalManifest \<Rightarrow> canonical_error + string" where
  "manifestHash sha256 m = canonicalSha256 sha256 (JObj
     [(''documentCount'', JNum (int (cm_documentCount m))), (''totalBytes'', JNum (int (cm_totalBytes m))),
      (''entries'', JArr (map (Some \<circ> entry_record) (cm_entries m)))])"

definition packageContentHash ::
  "hash_fn \<Rightarrow> PodPackageFields \<Rightarrow> PodCanonicalManifest \<Rightarrow> canonical_error + string" where
  "packageContentHash sha256 f m =
     bind_res (manifestHash sha256 m) (\<lambda>mh. canonicalSha256 sha256 (JObj
       [(''podId'', JStr (pd_podId f)), (''podVersion'', JNum (pd_podVersion f)), (''tenderId'', JStr (pd_tenderId f)),
        (''tenderVersion'', JNum (pd_tenderVersion f)), (''winningBidId'', JStr (pd_winningBidId f)),
        (''escrowTenderKey'', JStr (pd_escrowTenderKey f)), (''carrierId'', JStr (pd_carrierId f)),
        (''carrierAccountId'', JStr (pd_carrierAccountId f)), (''deliveryTimestamp'', JStr (pd_deliveryTimestamp f)),
        (''recipientConfirmationPresent'', JBool (pd_recipientConfirmationPresent f)),
        (''cargoConditionCode'', JStr (pd_cargoConditionCode f)),
        (''exceptionCodes'', JArr (map (Some \<circ> JStr) (sort (pd_exceptionCodes f)))),
        (''submittedAt'', JStr (pd_submittedAt f)), (''actionId'', JStr (pd_actionId f)), (''manifestHash'', JStr mh),
        (''files'', JArr (map (\<lambda>e. Some (JObj [(''fileId'', JStr (pm_fileId e)),
           (''plaintextSha256'', JStr (pm_plaintextSha256 e)), (''byteLength'', JNum (int (pm_byteLength e)))])) (cm_entries m)))]))"

text \<open>\<open>/^[A-Za-z0-9][A-Za-z0-9._@:-]{0,127}$/\<close>.\<close>

definition POD_ID_RE :: "string \<Rightarrow> bool" where
  "POD_ID_RE s \<longleftrightarrow> (case s of [] \<Rightarrow> False | c # cs \<Rightarrow> is_alnum c \<and> length cs \<le> 127
     \<and> list_all (\<lambda>c. is_alnum c \<or> List.member ''._@:-'' c) cs)"

definition assertPackageFields :: "PodPackageFields \<Rightarrow> 'e pod_error + unit" where
  "assertPackageFields f =
     bind_res (guard_res (list_all POD_ID_RE [pd_podId f, pd_tenderId f, pd_winningBidId f, pd_carrierId f,
       pd_carrierAccountId f, pd_actionId f]) (PodError ''POD_INVALID'')) (\<lambda>_.
     bind_res (guard_res (\<not> (pd_podVersion f < 1 \<or> pd_podVersion f > 65535)) (PodError ''POD_INVALID'')) (\<lambda>_.
     bind_res (guard_res (\<not> pd_tenderVersion f < 1) (PodError ''POD_INVALID'')) (\<lambda>_.
     bind_res (guard_res (BYTES32_RE (pd_escrowTenderKey f)) (PodError ''POD_INVALID'')) (\<lambda>_.
     bind_res (guard_res (List.member POD_CARGO_CONDITION_CODES (pd_cargoConditionCode f)) (PodError ''POD_INVALID'')) (\<lambda>_.
     guard_res (list_all (List.member POD_EXCEPTION_CODES) (pd_exceptionCodes f)) (PodError ''POD_INVALID''))))))"

subsection \<open>The adviser\<close>

record PodAdvisoryFinding =
  af_code :: string
  af_severity :: string
  af_message :: string
  af_evidenceRef :: "string option"

record PodAdvisoryReport =
  ar_reportId :: string
  ar_podId :: string
  ar_podVersion :: int
  ar_tenderId :: string
  ar_engine :: string
  ar_binding :: string
  ar_recommendation :: string
  ar_findings :: "PodAdvisoryFinding list"
  ar_reportHash :: string
  ar_createdAt :: string

record PodAssuranceAdviserInput =
  ai_fields :: PodPackageFields
  ai_manifest :: PodCanonicalManifest
  ai_requiredDocumentTypes :: "string list option"
  ai_expectedTenderId :: string
  ai_expectedTenderVersion :: int
  ai_expectedWinningBidId :: string
  ai_expectedEscrowTenderKey :: string
  ai_deliveryDeadlineAt :: "string option"
  ai_createdAt :: string
  ai_reportId :: string

definition ADVISER_ENGINE_ID :: string where
  "ADVISER_ENGINE_ID = ''routeguard-deterministic-pod-assurance-v1''"

definition finding_if :: "bool \<Rightarrow> string \<Rightarrow> string \<Rightarrow> string \<Rightarrow> string \<Rightarrow> PodAdvisoryFinding list" where
  "finding_if b code severity message ref =
     (if b then [\<lparr> af_code = code, af_severity = severity, af_message = message, af_evidenceRef = Some ref \<rparr>] else [])"

definition required_types :: "PodAssuranceAdviserInput \<Rightarrow> string list" where
  "required_types i = (case ai_requiredDocumentTypes i of
     None \<Rightarrow> [''ELECTRONIC_DELIVERY_RECEIPT'', ''RECIPIENT_CONFIRMATION''] | Some ts \<Rightarrow> ts)"

definition type_findings :: "PodAssuranceAdviserInput \<Rightarrow> PodAdvisoryFinding list" where
  "type_findings i = concat (map (\<lambda>req.
     finding_if (\<not> List.member (map pm_documentType (cm_entries (ai_manifest i))) req)
       ''INCOMPLETE'' ''FAIL'' (''required document type missing: '' @ req) (''doc:'' @ req)) (required_types i))"

text \<open>The map of hash counts lists its keys in the order of their first occurrence.\<close>

definition first_occurrences :: "string list \<Rightarrow> string list" where
  "first_occurrences hs = rev (remdups (rev hs))"

definition duplicate_findings :: "PodAssuranceAdviserInput \<Rightarrow> PodAdvisoryFinding list" where
  "duplicate_findings i = (let hs = map pm_plaintextSha256 (cm_entries (ai_manifest i)) in
     concat (map (\<lambda>h. finding_if (count_list hs h > 1) ''DUPLICATE'' ''WARN''
       ''duplicate file content hash within package'' h) (first_occurrences hs)))"

definition raw_findings :: "PodAssuranceAdviserInput \<Rightarrow> PodAdvisoryFinding list" where
  "raw_findings i =
     type_findings i
     @ finding_if (pd_tenderId (ai_fields i) \<noteq> ai_expectedTenderId i) ''INCONSISTENT_IDENTIFIER'' ''FAIL''
         ''tenderId does not match expected tender'' ''field:tenderId''
     @ finding_if (pd_tenderVersion (ai_fields i) \<noteq> ai_expectedTenderVersion i) ''INCONSISTENT_IDENTIFIER'' ''FAIL''
         ''tenderVersion does not match expected tender'' ''field:tenderVersion''
     @ finding_if (pd_winningBidId (ai_fields i) \<noteq> ai_expectedWinningBidId i) ''INCONSISTENT_IDENTIFIER'' ''FAIL''
         ''winningBidId does not match bound winner'' ''field:winningBidId''
     @ finding_if (pd_escrowTenderKey (ai_fields i) \<noteq> ai_expectedEscrowTenderKey i) ''INCONSISTENT_IDENTIFIER'' ''FAIL''
         ''escrowTenderKey does not match expected key'' ''field:escrowTenderKey''
     @ finding_if (\<not> pd_recipientConfirmationPresent (ai_fields i)) ''MISSING_RECIPIENT_CONFIRMATION'' ''WARN''
         ''recipient confirmation flag is false'' ''field:recipientConfirmationPresent''
     @ finding_if (truthy (ai_deliveryDeadlineAt i) \<and> pd_deliveryTimestamp (ai_fields i) > the (ai_deliveryDeadlineAt i))
         ''INCONSISTENT_DATES'' ''WARN'' ''delivery timestamp is after delivery deadline'' ''field:deliveryTimestamp''
     @ duplicate_findings i
     @ finding_if (list_ex (\<lambda>c. c \<noteq> ''NONE'') (pd_exceptionCodes (ai_fields i))
           \<or> pd_cargoConditionCode (ai_fields i) = ''DAMAGED'')
         ''ANOMALY'' ''WARN'' ''cargo exception or damage declared'' ''field:exceptionCodes''"

definition finding_key :: "PodAdvisoryFinding \<Rightarrow> string" where
  "finding_key f = af_code f @ ''|'' @ af_severity f @ ''|'' @ af_message f @ ''|''
     @ (case af_evidenceRef f of None \<Rightarrow> [] | Some r \<Rightarrow> r)"

definition all_findings :: "PodAssuranceAdviserInput \<Rightarrow> PodAdvisoryFinding list" where
  "all_findings i = sort_key finding_key (if raw_findings i = []
     then [\<lparr> af_code = ''COMPLETE'', af_severity = ''INFO'', af_message = ''no structured anomalies detected'',
       af_evidenceRef = None \<rparr>]
     else raw_findings i)"

definition recommendation_of :: "PodAdvisoryFinding list \<Rightarrow> string" where
  "recommendation_of fs =
     (if list_ex (\<lambda>f. af_severity f = ''FAIL'') fs then ''REQUEST_CORRECTION''
      else if list_ex (\<lambda>f. af_severity f = ''WARN'') fs then ''MANUAL_REVIEW'' else ''ACCEPT'')"

definition finding_json :: "PodAdvisoryFinding \<Rightarrow> json" where
  "finding_json f = JObj ([(''code'', JStr (af_code f)), (''severity'', JStr (af_severity f)), (''message'', JStr (af_message f))]
     @ (case af_evidenceRef f of None \<Rightarrow> [] | Some r \<Rightarrow> [(''evidenceRef'', JStr r)]))"

definition advise :: "hash_fn \<Rightarrow> PodAssuranceAdviserInput \<Rightarrow> canonical_error + PodAdvisoryReport" where
  "advise sha256 i =
     (let findings = all_findings i; recommendation = recommendation_of findings; f = ai_fields i in
      bind_res (canonicalSha256 sha256 (JObj
        [(''reportId'', JStr (ai_reportId i)), (''podId'', JStr (pd_podId f)), (''podVersion'', JNum (pd_podVersion f)),
         (''tenderId'', JStr (pd_tenderId f)), (''engine'', JStr ADVISER_ENGINE_ID),
         (''binding'', JStr ''NON_BINDING_ADVISORY''), (''recommendation'', JStr recommendation),
         (''findings'', JArr (map (Some \<circ> finding_json) findings)), (''createdAt'', JStr (ai_createdAt i))])) (\<lambda>reportHash.
      Inr \<lparr> ar_reportId = ai_reportId i, ar_podId = pd_podId f, ar_podVersion = pd_podVersion f, ar_tenderId = pd_tenderId f,
        ar_engine = ADVISER_ENGINE_ID, ar_binding = ''NON_BINDING_ADVISORY'', ar_recommendation = recommendation,
        ar_findings = findings, ar_reportHash = reportHash, ar_createdAt = ai_createdAt i \<rparr>))"

definition deterministicReportId :: "hash_fn \<Rightarrow> string \<Rightarrow> string" where
  "deterministicReportId sha256 seed = ''adv-'' @ take 16 (sha256 seed)"

subsection \<open>A manifest does not depend on the upload order\<close>

definition safe_filename :: "string \<Rightarrow> bool" where
  "safe_filename n \<longleftrightarrow> n \<noteq> [] \<and> length n \<le> 128 \<and> \<not> contains_dotdot n \<and> list_all filename_char n"

lemma safe_filename_Inr [res_simps]: "assertSafeFilename n = Inr x \<longleftrightarrow> safe_filename n \<and> x = n"
proof -
  have "\<not> filename_char (CHR 0x00)" "\<not> filename_char (CHR ''/'')" "\<not> filename_char (CHR 0x5C)"
    by (simp_all add: filename_char_def is_alnum_def in_range_def is_digit_def)
  then show ?thesis by (auto simp: assertSafeFilename_def safe_filename_def list_all_iff)
qed

definition file_ok :: "PodFilePolicy \<Rightarrow> (PodFileInput \<Rightarrow> bool) option \<Rightarrow> PodFileInput \<Rightarrow> bool" where
  "file_ok policy scanner f \<longleftrightarrow> FILE_ID_RE (pf_fileId f) \<and> List.member POD_DOCUMENT_TYPES (pf_documentType f)
     \<and> List.member (fp_allowedMimeTypes policy) (pf_mimeType f)
     \<and> safe_filename (pf_filename f)
     \<and> pf_bytes f \<noteq> [] \<and> length (pf_bytes f) \<le> fp_maxFileBytes policy
     \<and> (case scanner of None \<Rightarrow> True | Some scan \<Rightarrow> scan f)"

definition manifest_entry :: "byte_hash \<Rightarrow> PodFileInput \<Rightarrow> PodManifestEntry" where
  "manifest_entry digest f = \<lparr> pm_fileId = pf_fileId f, pm_documentType = pf_documentType f,
     pm_storageName = pf_fileId f @ ''__'' @ pf_filename f, pm_mimeType = pf_mimeType f,
     pm_byteLength = length (pf_bytes f), pm_plaintextSha256 = sha256Digest digest (pf_bytes f) \<rparr>"

definition bytes_of :: "PodFileInput list \<Rightarrow> nat" where
  "bytes_of files = sum_list (map (\<lambda>f. length (pf_bytes f)) files)"

lemma manifest_loop_Inr:
  "manifest_loop digest policy scanner files seen tot built = Inr (b, t) \<longleftrightarrow>
     list_all (file_ok policy scanner) files \<and> distinct (map pf_fileId files) \<and> set (map pf_fileId files) \<inter> set seen = {}
     \<and> (files = [] \<or> tot + bytes_of files \<le> fp_maxPackageBytes policy)
     \<and> b = built @ map (manifest_entry digest) files \<and> t = tot + bytes_of files"
proof (induction files arbitrary: seen tot built)
  case Nil
  then show ?case by (auto simp: bytes_of_def)
next
  case (Cons f files)
  show ?case
    by (auto simp: Cons.IH res_simps Let_def assertMimeAllowed_def storageNameFor_def file_ok_def manifest_entry_def bytes_of_def)
qed

lemma manifest_Inr_iff:
  "buildCanonicalManifest digest policy scanner files = Inr m \<longleftrightarrow>
     files \<noteq> [] \<and> length files \<le> fp_maxFiles policy \<and> list_all (file_ok policy scanner) files
     \<and> distinct (map pf_fileId files) \<and> bytes_of files \<le> fp_maxPackageBytes policy
     \<and> m = \<lparr> cm_entries = sort_key pm_fileId (map (manifest_entry digest) files), cm_documentCount = length files,
         cm_totalBytes = bytes_of files \<rparr>"
  by (auto simp: buildCanonicalManifest_def res_simps manifest_loop_Inr)

lemma sorted_entries_perm:
  assumes "mset files = mset files'" "distinct (map pf_fileId files)"
  shows "sort_key pm_fileId (map (manifest_entry digest) files) = sort_key pm_fileId (map (manifest_entry digest) files')"
proof (rule sort_key_inj_key_eq)
  show "mset (map (manifest_entry digest) files) = mset (sort_key pm_fileId (map (manifest_entry digest) files'))"
    using assms(1) by simp
  show "inj_on pm_fileId (set (map (manifest_entry digest) files))"
    using assms(2) by (auto simp: inj_on_def manifest_entry_def distinct_map)
qed simp

text \<open>
  C38. The manifest does not depend on the order of upload.  If one order of the files is accepted,
  every order is, with the same manifest and so the same manifest and content hash.  An accepted
  manifest lists each file once, sorted by its id, within the limits of the policy.\<close>

theorem manifest_ignores_order:
  assumes "mset files = mset files'" "buildCanonicalManifest digest policy scanner files = Inr m"
  shows "buildCanonicalManifest digest policy scanner files' = Inr m
    \<and> sorted (map pm_fileId (cm_entries m)) \<and> distinct (map pm_fileId (cm_entries m))
    \<and> length (cm_entries m) \<le> fp_maxFiles policy \<and> cm_totalBytes m \<le> fp_maxPackageBytes policy
    \<and> cm_totalBytes m = sum_list (map pm_byteLength (cm_entries m))"
proof -
  note m = assms(2) [unfolded manifest_Inr_iff]
  have perm: "length files' = length files" "set files' = set files" "bytes_of files' = bytes_of files"
    "mset (map pf_fileId files') = mset (map pf_fileId files)"
    using mset_eq_length [OF assms(1)] mset_eq_setD [OF assms(1)] assms(1)
    by (simp_all add: bytes_of_def flip: sum_mset_sum_list)
  have "files' \<noteq> []" using m perm(1) by auto
  moreover have "distinct (map pf_fileId files')" using m perm(4) mset_eq_imp_distinct_iff by blast
  ultimately have "buildCanonicalManifest digest policy scanner files' = Inr m"
    using m perm(1-3) sorted_entries_perm [OF assms(1), of digest] by (simp add: manifest_Inr_iff list_all_iff)
  moreover have "mset (map pm_fileId (cm_entries m)) = mset (map pf_fileId files)"
    using m by (simp add: image_mset.compositionality comp_def manifest_entry_def)
  then have "distinct (map pm_fileId (cm_entries m))" using m mset_eq_imp_distinct_iff by blast
  moreover have "mset (map pm_byteLength (cm_entries m)) = mset (map (\<lambda>f. length (pf_bytes f)) files)"
    using m by (simp add: image_mset.compositionality comp_def manifest_entry_def)
  then have "sum_list (map pm_byteLength (cm_entries m)) = bytes_of files"
    unfolding bytes_of_def by (metis sum_mset_sum_list)
  ultimately show ?thesis using m by auto
qed

subsection \<open>Advice\<close>

lemma finding_if_severity [simp]:
  "list_ex P (finding_if b c s m r) \<longleftrightarrow> b \<and> P \<lparr> af_code = c, af_severity = s, af_message = m, af_evidenceRef = Some r \<rparr>"
  "finding_if b c s m r = [] \<longleftrightarrow> \<not> b"
  by (auto simp: finding_if_def)

lemma count_one_distinct: "(\<forall>h\<in>set hs. \<not> 1 < count_list hs h) \<longleftrightarrow> distinct hs"
  by (induction hs) (auto simp: count_list_0_iff split: if_splits)

lemma raw_severity: "list_all (\<lambda>f. af_severity f = ''FAIL'' \<or> af_severity f = ''WARN'') (raw_findings i)"
  by (auto simp: raw_findings_def type_findings_def duplicate_findings_def Let_def finding_if_def list_all_iff split: if_splits)

lemma accept_iff_no_finding: "recommendation_of (all_findings i) = ''ACCEPT'' \<longleftrightarrow> raw_findings i = []"
  using raw_severity [of i]
  by (cases "raw_findings i") (auto simp: recommendation_of_def all_findings_def list_ex_iff list_all_iff set_insort_key)

lemma no_duplicates_iff: "duplicate_findings i = [] \<longleftrightarrow> distinct (map pm_plaintextSha256 (cm_entries (ai_manifest i)))"
  unfolding count_one_distinct [symmetric]
  by (auto simp: duplicate_findings_def first_occurrences_def Let_def)

text \<open>
  When the adviser recommends acceptance.  It does so exactly when every required document type
  is present, the package names the tender, version, winning bid and escrow key of the record,
  the recipient confirmed, the delivery was in time, no two files have the same content, and no
  exception or damage is declared.\<close>

theorem advice_accepts_iff:
  "recommendation_of (all_findings i) = ''ACCEPT'' \<longleftrightarrow>
     set (required_types i) \<subseteq> set (map pm_documentType (cm_entries (ai_manifest i)))
     \<and> pd_tenderId (ai_fields i) = ai_expectedTenderId i \<and> pd_tenderVersion (ai_fields i) = ai_expectedTenderVersion i
     \<and> pd_winningBidId (ai_fields i) = ai_expectedWinningBidId i
     \<and> pd_escrowTenderKey (ai_fields i) = ai_expectedEscrowTenderKey i
     \<and> pd_recipientConfirmationPresent (ai_fields i)
     \<and> \<not> (truthy (ai_deliveryDeadlineAt i) \<and> pd_deliveryTimestamp (ai_fields i) > the (ai_deliveryDeadlineAt i))
     \<and> distinct (map pm_plaintextSha256 (cm_entries (ai_manifest i)))
     \<and> set (pd_exceptionCodes (ai_fields i)) \<subseteq> {''NONE''} \<and> pd_cargoConditionCode (ai_fields i) \<noteq> ''DAMAGED''"
  unfolding accept_iff_no_finding
  by (auto simp: raw_findings_def type_findings_def no_duplicates_iff list_ex_iff)

subsection \<open>A concrete package\<close>

definition demo_files_sent :: "PodFileInput list" where
  "demo_files_sent =
     [\<lparr> pf_fileId = ''f2'', pf_documentType = ''RECIPIENT_CONFIRMATION'', pf_filename = ''signed.pdf'',
        pf_mimeType = ''application/pdf'', pf_bytes = [37, 80] \<rparr>,
      \<lparr> pf_fileId = ''f1'', pf_documentType = ''ELECTRONIC_DELIVERY_RECEIPT'', pf_filename = ''receipt.json'',
        pf_mimeType = ''application/json'', pf_bytes = [123, 125] \<rparr>]"

lemma demo_manifest_ok:
  "is_ok (buildCanonicalManifest (\<lambda>_. replicate 64 (CHR ''0'')) DEFAULT_POD_FILE_POLICY None demo_files_sent :: unit pod_error + _)"
  by code_simp

theorem manifest_ignores_order_witness:
  "\<exists>m. (buildCanonicalManifest (\<lambda>_. replicate 64 (CHR ''0'')) DEFAULT_POD_FILE_POLICY None demo_files_sent :: unit pod_error + _) = Inr m
     \<and> (buildCanonicalManifest (\<lambda>_. replicate 64 (CHR ''0'')) DEFAULT_POD_FILE_POLICY None (rev demo_files_sent)
          :: unit pod_error + _) = Inr m"
  using demo_manifest_ok manifest_ignores_order [of demo_files_sent "rev demo_files_sent"] unfolding is_ok_iff mset_rev by blast

end
