(* ===== verification/Escrow_Contract.thy ===== *)
theory Escrow_Contract
  imports Escrow_Plans "HOL-Library.Word"
begin

text \<open>
  The freight escrow contract itself, \<^verbatim>\<open>contracts/RouteGuardFreightEscrowBase.sol\<close> with the token
  boundary of \<^verbatim>\<open>RouteGuardFreightEscrow.sol\<close>, and the executor that turns a plan into a call
  (\<^verbatim>\<open>src/v2/live/contract-executor.ts\<close>).

  Amounts are words of the width the contract declares; \<open>uint64(x)\<close> is \<open>ucast\<close> and the checked
  arithmetic of the compiler is written out.  Identifiers (\<open>bytes32\<close>, \<open>address\<close>) are their
  lowercase hexadecimal texts.  A call is a transaction: it either returns a new world or
  reverts, and then nothing has changed.  The token service is a parameter that answers with a
  response code and the new token balances; \<open>moves_tokens\<close> states what the contract relies on.
  The guard against reentrancy has nothing to do here, since the token service calls nobody back.
\<close>

subsection \<open>State\<close>

record TenderEscrow =
  tx_state :: EscrowState
  tx_tenderVersion :: "32 word"
  tx_shipper :: string
  tx_winner :: string
  tx_maxBudget :: "64 word"
  tx_fundedAmount :: "64 word"
  tx_lockedAmount :: "64 word"
  tx_excessRefunded :: "64 word"
  tx_tenderIdHash :: string
  tx_manifestHash :: string
  tx_creationAuthHash :: string
  tx_decisionManifestHash :: string
  tx_disputeAuthHash :: string
  tx_settlementAuthHash :: string

definition empty_tender :: TenderEscrow where
  "empty_tender = \<lparr> tx_state = UNREGISTERED, tx_tenderVersion = 0, tx_shipper = zeros 40, tx_winner = zeros 40,
     tx_maxBudget = 0, tx_fundedAmount = 0, tx_lockedAmount = 0, tx_excessRefunded = 0, tx_tenderIdHash = zeros 64,
     tx_manifestHash = zeros 64, tx_creationAuthHash = zeros 64, tx_decisionManifestHash = zeros 64,
     tx_disputeAuthHash = zeros 64, tx_settlementAuthHash = zeros 64 \<rparr>"

datatype escrow_event =
    EvRegistered string string "32 word" string "64 word" string string string
  | EvFunded string string "64 word"
  | EvAllocated string string "64 word" "64 word" string string
  | EvExcessRefunded string string "64 word"
  | EvNoWinnerRefunded string string "64 word" string
  | EvDisputeOpened string string
  | EvReleased string string "64 word" string bool
  | EvRefunded string string "64 word" string bool
  | EvPartiallyReleased string string string "64 word" "64 word" string

type_synonym token_balances = "string \<Rightarrow> int"

record escrow_world =
  ew_owner :: string
  ew_escrowToken :: string
  ew_self :: string
  ew_tenders :: "string \<Rightarrow> TenderEscrow"
  ew_authorizationHashUsed :: "string \<Rightarrow> bool"
  ew_totalEscrowedAmount :: "256 word"
  ew_balances :: token_balances
  ew_events :: "escrow_event list"

datatype contract_error =
    InvalidState EscrowState EscrowState | TenderAlreadyRegistered | TenderNotRegistered | ZeroAddressNotAllowed
  | ZeroAmountNotAllowed | ZeroHashNotAllowed | AmountExceedsHtsRange | UnsupportedToken | NotAuthorizedShipper
  | FundingAmountMismatch | WinningAmountExceedsBudget | AuthorizationHashAlreadyUsed
  | PartialAmountsDoNotConserve | TokenTransferFailed int | OwnableUnauthorizedAccount | ArithmeticPanic

text \<open>The token service: token, sender, receiver, amount and balances to response code and balances.\<close>

type_synonym hts_fn = "string \<Rightarrow> string \<Rightarrow> string \<Rightarrow> int \<Rightarrow> token_balances \<Rightarrow> int \<times> token_balances"

definition HTS_SUCCESS_RESPONSE_CODE :: int where "HTS_SUCCESS_RESPONSE_CODE = 22"

definition moved :: "string \<Rightarrow> string \<Rightarrow> int \<Rightarrow> token_balances \<Rightarrow> token_balances" where
  "moved src dst n b = (let b' = b(src := b src - n) in b'(dst := b' dst + n))"

definition moves_tokens :: "hts_fn \<Rightarrow> bool" where
  "moves_tokens hts \<longleftrightarrow> (\<forall>tok src dst n b c b'. hts tok src dst n b = (c, b') \<longrightarrow> c = HTS_SUCCESS_RESPONSE_CODE
     \<longrightarrow> 0 \<le> n \<and> n \<le> b src \<and> b' = moved src dst n b)"

subsection \<open>Internals\<close>

definition MAX_HTS_AMOUNT :: "256 word" where
  "MAX_HTS_AMOUNT = 9223372036854775807"

definition checked_add :: "256 word \<Rightarrow> 256 word \<Rightarrow> contract_error + 256 word" where
  "checked_add a b = (if uint a + uint b < 2 ^ 256 then Inr (a + b) else Inl ArithmeticPanic)"

definition checked_sub :: "'a::len word \<Rightarrow> 'a word \<Rightarrow> contract_error + 'a word" where
  "checked_sub a b = (if b \<le> a then Inr (a - b) else Inl ArithmeticPanic)"

definition onlyOwner :: "string \<Rightarrow> escrow_world \<Rightarrow> contract_error + unit" where
  "onlyOwner sender w = guard_res (sender = ew_owner w) OwnableUnauthorizedAccount"

definition requireState :: "TenderEscrow \<Rightarrow> EscrowState \<Rightarrow> contract_error + unit" where
  "requireState t expected = guard_res (tx_state t = expected) (InvalidState expected (tx_state t))"

definition consumeAuthorizationHash :: "string \<Rightarrow> escrow_world \<Rightarrow> contract_error + escrow_world" where
  "consumeAuthorizationHash hash w =
     (if ew_authorizationHashUsed w hash then Inl AuthorizationHashAlreadyUsed
      else Inr (w\<lparr> ew_authorizationHashUsed := (ew_authorizationHashUsed w)(hash := True) \<rparr>))"

definition put_tender :: "string \<Rightarrow> TenderEscrow \<Rightarrow> escrow_world \<Rightarrow> escrow_world" where
  "put_tender key t w = w\<lparr> ew_tenders := (ew_tenders w)(key := t) \<rparr>"

definition emit :: "escrow_event \<Rightarrow> escrow_world \<Rightarrow> escrow_world" where
  "emit e w = w\<lparr> ew_events := ew_events w @ [e] \<rparr>"

definition htsTransfer :: "hts_fn \<Rightarrow> string \<Rightarrow> string \<Rightarrow> 64 word \<Rightarrow> escrow_world \<Rightarrow> contract_error + escrow_world" where
  "htsTransfer hts src dst n w =
     (let (responseCode, b) = hts (ew_escrowToken w) src dst (sint n) (ew_balances w) in
      if responseCode \<noteq> HTS_SUCCESS_RESPONSE_CODE then Inl (TokenTransferFailed responseCode)
      else Inr (w\<lparr> ew_balances := b \<rparr>))"

definition transferIn :: "hts_fn \<Rightarrow> string \<Rightarrow> 64 word \<Rightarrow> escrow_world \<Rightarrow> contract_error + escrow_world" where
  "transferIn hts src n w = htsTransfer hts src (ew_self w) n w"

definition transferOut :: "hts_fn \<Rightarrow> string \<Rightarrow> 64 word \<Rightarrow> escrow_world \<Rightarrow> contract_error + escrow_world" where
  "transferOut hts dst n w = htsTransfer hts (ew_self w) dst n w"

definition less_total :: "64 word \<Rightarrow> escrow_world \<Rightarrow> contract_error + escrow_world" where
  "less_total n w = bind_res (checked_sub (ew_totalEscrowedAmount w) (ucast n)) (\<lambda>v.
     Inr (w\<lparr> ew_totalEscrowedAmount := v \<rparr>))"

definition tenderBalance :: "escrow_world \<Rightarrow> string \<Rightarrow> 64 word" where
  "tenderBalance w key =
     (let t = ew_tenders w key in
      if tx_state t = FUNDED then tx_fundedAmount t
      else if tx_state t = ALLOCATED \<or> tx_state t = DISPUTED then tx_lockedAmount t
      else 0)"

definition computeTenderKey :: "keccak_fn \<Rightarrow> keccak_abi_fn \<Rightarrow> string \<Rightarrow> 32 word \<Rightarrow> string" where
  "computeTenderKey keccak keccak_abi idHash version = keccak_abi (ESCROW_TENDER_KEY_DOMAIN keccak) idHash (uint version)"

subsection \<open>Calls\<close>

definition registerTender ::
  "keccak_fn \<Rightarrow> keccak_abi_fn \<Rightarrow> string \<Rightarrow> string \<Rightarrow> string \<Rightarrow> 32 word \<Rightarrow> string \<Rightarrow> 256 word \<Rightarrow> string \<Rightarrow> string \<Rightarrow> string
     \<Rightarrow> escrow_world \<Rightarrow> contract_error + escrow_world" where
  "registerTender keccak keccak_abi sender key idHash version shipper maxBudget token auth manifest w =
     bind_res (onlyOwner sender w) (\<lambda>_.
     bind_res (guard_res (tx_state (ew_tenders w key) = UNREGISTERED) TenderAlreadyRegistered) (\<lambda>_.
     bind_res (guard_res (shipper \<noteq> zeros 40) ZeroAddressNotAllowed) (\<lambda>_.
     bind_res (guard_res (token = ew_escrowToken w) UnsupportedToken) (\<lambda>_.
     bind_res (guard_res (\<not> (idHash = zeros 64 \<or> auth = zeros 64)) ZeroHashNotAllowed) (\<lambda>_.
     bind_res (guard_res (version \<noteq> 0) ZeroAmountNotAllowed) (\<lambda>_.
     bind_res (guard_res (maxBudget \<noteq> 0) ZeroAmountNotAllowed) (\<lambda>_.
     bind_res (guard_res (maxBudget \<le> MAX_HTS_AMOUNT) AmountExceedsHtsRange) (\<lambda>_.
     bind_res (guard_res (key = computeTenderKey keccak keccak_abi idHash version) TenderNotRegistered) (\<lambda>_.
     bind_res (consumeAuthorizationHash auth w) (\<lambda>w.
     Inr (emit (EvRegistered key idHash version shipper (ucast maxBudget) token auth manifest)
       (put_tender key ((ew_tenders w key)\<lparr> tx_state := REGISTERED, tx_tenderVersion := version, tx_shipper := shipper,
          tx_maxBudget := ucast maxBudget, tx_tenderIdHash := idHash, tx_manifestHash := manifest,
          tx_creationAuthHash := auth \<rparr>) w))))))))))))"

definition fundTender :: "hts_fn \<Rightarrow> string \<Rightarrow> string \<Rightarrow> 256 word \<Rightarrow> escrow_world \<Rightarrow> contract_error + escrow_world" where
  "fundTender hts sender key n w =
     (let t = ew_tenders w key; funded = ucast n in
      bind_res (requireState t REGISTERED) (\<lambda>_.
      bind_res (guard_res (sender = tx_shipper t) NotAuthorizedShipper) (\<lambda>_.
      bind_res (guard_res (n = ucast (tx_maxBudget t)) FundingAmountMismatch) (\<lambda>_.
      bind_res (checked_add (ew_totalEscrowedAmount w) (ucast funded)) (\<lambda>total.
      bind_res (transferIn hts sender funded
        (put_tender key (t\<lparr> tx_state := FUNDED, tx_fundedAmount := funded \<rparr>) (w\<lparr> ew_totalEscrowedAmount := total \<rparr>)))
        (\<lambda>w. Inr (emit (EvFunded key sender funded) w)))))))"

definition allocateWinner ::
  "hts_fn \<Rightarrow> string \<Rightarrow> string \<Rightarrow> string \<Rightarrow> 256 word \<Rightarrow> string \<Rightarrow> string \<Rightarrow> escrow_world \<Rightarrow> contract_error + escrow_world" where
  "allocateWinner hts sender key winner winningAmount decisionManifestHash auth w =
     (let t = ew_tenders w key in
      bind_res (onlyOwner sender w) (\<lambda>_.
      bind_res (requireState t FUNDED) (\<lambda>_.
      bind_res (guard_res (winner \<noteq> zeros 40) ZeroAddressNotAllowed) (\<lambda>_.
      bind_res (guard_res (winningAmount \<noteq> 0) ZeroAmountNotAllowed) (\<lambda>_.
      bind_res (guard_res (winningAmount \<le> MAX_HTS_AMOUNT) AmountExceedsHtsRange) (\<lambda>_.
      bind_res (guard_res (winningAmount \<le> ucast (tx_fundedAmount t)) WinningAmountExceedsBudget) (\<lambda>_.
      bind_res (guard_res (\<not> (decisionManifestHash = zeros 64 \<or> auth = zeros 64)) ZeroHashNotAllowed) (\<lambda>_.
      bind_res (consumeAuthorizationHash auth w) (\<lambda>w.
      let locked = ucast winningAmount :: 64 word in
      bind_res (checked_sub (tx_fundedAmount t) locked) (\<lambda>excess.
      bind_res (less_total excess (put_tender key (t\<lparr> tx_state := ALLOCATED, tx_winner := winner,
        tx_lockedAmount := locked, tx_excessRefunded := excess, tx_decisionManifestHash := decisionManifestHash \<rparr>) w)) (\<lambda>w.
      let w = emit (EvAllocated key winner locked excess decisionManifestHash auth) w in
      if excess > 0
      then bind_res (transferOut hts (tx_shipper t) excess w) (\<lambda>w.
        Inr (emit (EvExcessRefunded key (tx_shipper t) excess) w))
      else Inr w)))))))))))"

text \<open>
  The five calls that settle or dispute in full share their shape: state, authorization, new
  state, total, event, transfer.
\<close>

definition refundNoQualifiedBid :: "hts_fn \<Rightarrow> string \<Rightarrow> string \<Rightarrow> string \<Rightarrow> escrow_world \<Rightarrow> contract_error + escrow_world" where
  "refundNoQualifiedBid hts sender key auth w =
     (let t = ew_tenders w key in
      bind_res (onlyOwner sender w) (\<lambda>_.
      bind_res (requireState t FUNDED) (\<lambda>_.
      bind_res (guard_res (auth \<noteq> zeros 64) ZeroHashNotAllowed) (\<lambda>_.
      bind_res (consumeAuthorizationHash auth w) (\<lambda>w.
      bind_res (less_total (tx_fundedAmount t)
        (put_tender key (t\<lparr> tx_state := REFUNDED_ESCROW, tx_settlementAuthHash := auth \<rparr>) w)) (\<lambda>w.
      transferOut hts (tx_shipper t) (tx_fundedAmount t)
        (emit (EvNoWinnerRefunded key (tx_shipper t) (tx_fundedAmount t) auth) w)))))))"

definition releaseFull :: "hts_fn \<Rightarrow> string \<Rightarrow> string \<Rightarrow> string \<Rightarrow> escrow_world \<Rightarrow> contract_error + escrow_world" where
  "releaseFull hts sender key auth w =
     (let t = ew_tenders w key in
      bind_res (onlyOwner sender w) (\<lambda>_.
      bind_res (requireState t ALLOCATED) (\<lambda>_.
      bind_res (guard_res (auth \<noteq> zeros 64) ZeroHashNotAllowed) (\<lambda>_.
      bind_res (consumeAuthorizationHash auth w) (\<lambda>w.
      bind_res (less_total (tx_lockedAmount t)
        (put_tender key (t\<lparr> tx_state := RELEASED, tx_settlementAuthHash := auth \<rparr>) w)) (\<lambda>w.
      transferOut hts (tx_winner t) (tx_lockedAmount t)
        (emit (EvReleased key (tx_winner t) (tx_lockedAmount t) auth False) w)))))))"

definition openDispute :: "string \<Rightarrow> string \<Rightarrow> string \<Rightarrow> escrow_world \<Rightarrow> contract_error + escrow_world" where
  "openDispute sender key auth w =
     (let t = ew_tenders w key in
      bind_res (onlyOwner sender w) (\<lambda>_.
      bind_res (requireState t ALLOCATED) (\<lambda>_.
      bind_res (guard_res (auth \<noteq> zeros 64) ZeroHashNotAllowed) (\<lambda>_.
      bind_res (consumeAuthorizationHash auth w) (\<lambda>w.
      Inr (emit (EvDisputeOpened key auth)
        (put_tender key (t\<lparr> tx_state := DISPUTED, tx_disputeAuthHash := auth \<rparr>) w)))))))"

definition resolveDisputeRelease :: "hts_fn \<Rightarrow> string \<Rightarrow> string \<Rightarrow> string \<Rightarrow> escrow_world \<Rightarrow> contract_error + escrow_world" where
  "resolveDisputeRelease hts sender key auth w =
     (let t = ew_tenders w key in
      bind_res (onlyOwner sender w) (\<lambda>_.
      bind_res (requireState t DISPUTED) (\<lambda>_.
      bind_res (guard_res (auth \<noteq> zeros 64) ZeroHashNotAllowed) (\<lambda>_.
      bind_res (consumeAuthorizationHash auth w) (\<lambda>w.
      bind_res (less_total (tx_lockedAmount t)
        (put_tender key (t\<lparr> tx_state := RELEASED, tx_settlementAuthHash := auth \<rparr>) w)) (\<lambda>w.
      transferOut hts (tx_winner t) (tx_lockedAmount t)
        (emit (EvReleased key (tx_winner t) (tx_lockedAmount t) auth True) w)))))))"

definition refundFull :: "hts_fn \<Rightarrow> string \<Rightarrow> string \<Rightarrow> string \<Rightarrow> escrow_world \<Rightarrow> contract_error + escrow_world" where
  "refundFull hts sender key auth w =
     (let t = ew_tenders w key in
      bind_res (onlyOwner sender w) (\<lambda>_.
      bind_res (requireState t DISPUTED) (\<lambda>_.
      bind_res (guard_res (auth \<noteq> zeros 64) ZeroHashNotAllowed) (\<lambda>_.
      bind_res (consumeAuthorizationHash auth w) (\<lambda>w.
      bind_res (less_total (tx_lockedAmount t)
        (put_tender key (t\<lparr> tx_state := REFUNDED_ESCROW, tx_settlementAuthHash := auth \<rparr>) w)) (\<lambda>w.
      transferOut hts (tx_shipper t) (tx_lockedAmount t)
        (emit (EvRefunded key (tx_shipper t) (tx_lockedAmount t) auth True) w)))))))"

definition partialRelease ::
  "hts_fn \<Rightarrow> string \<Rightarrow> string \<Rightarrow> 256 word \<Rightarrow> 256 word \<Rightarrow> string \<Rightarrow> escrow_world \<Rightarrow> contract_error + escrow_world" where
  "partialRelease hts sender key winnerAmount shipperAmount auth w =
     (let t = ew_tenders w key in
      bind_res (onlyOwner sender w) (\<lambda>_.
      bind_res (requireState t DISPUTED) (\<lambda>_.
      bind_res (guard_res (auth \<noteq> zeros 64) ZeroHashNotAllowed) (\<lambda>_.
      bind_res (guard_res (winnerAmount \<le> MAX_HTS_AMOUNT) AmountExceedsHtsRange) (\<lambda>_.
      bind_res (guard_res (shipperAmount \<le> MAX_HTS_AMOUNT) AmountExceedsHtsRange) (\<lambda>_.
      bind_res (guard_res (\<not> (winnerAmount = 0 \<and> shipperAmount = 0)) ZeroAmountNotAllowed) (\<lambda>_.
      bind_res (checked_add winnerAmount shipperAmount) (\<lambda>supplied.
      bind_res (guard_res (supplied = ucast (tx_lockedAmount t)) PartialAmountsDoNotConserve) (\<lambda>_.
      bind_res (consumeAuthorizationHash auth w) (\<lambda>w.
      let toWinner = ucast winnerAmount :: 64 word; toShipper = ucast shipperAmount :: 64 word in
      bind_res (less_total (tx_lockedAmount t)
        (put_tender key (t\<lparr> tx_state := PARTIALLY_RELEASED, tx_settlementAuthHash := auth \<rparr>) w)) (\<lambda>w.
      let w = emit (EvPartiallyReleased key (tx_winner t) (tx_shipper t) toWinner toShipper auth) w in
      bind_res (if toWinner > 0 then transferOut hts (tx_winner t) toWinner w else Inr w) (\<lambda>w.
      if toShipper > 0 then transferOut hts (tx_shipper t) toShipper w else Inr w))))))))))))"

subsection \<open>Executing a plan\<close>

datatype escrow_call =
    CallRegister string string "32 word" string "256 word" string string string
  | CallFund string "256 word"
  | CallAllocate string string "256 word" string string
  | CallRefundNoBid string string
  | CallRelease string string
  | CallOpenDispute string string
  | CallResolveRelease string string
  | CallRefundFull string string
  | CallPartial string "256 word" "256 word" string

primrec call_contract ::
  "keccak_fn \<Rightarrow> keccak_abi_fn \<Rightarrow> hts_fn \<Rightarrow> string \<Rightarrow> escrow_call \<Rightarrow> escrow_world \<Rightarrow> contract_error + escrow_world" where
  "call_contract k ka hts sender (CallRegister key idHash v shipper b token auth m) w =
     registerTender k ka sender key idHash v shipper b token auth m w"
| "call_contract k ka hts sender (CallFund key n) w = fundTender hts sender key n w"
| "call_contract k ka hts sender (CallAllocate key winner n m auth) w = allocateWinner hts sender key winner n m auth w"
| "call_contract k ka hts sender (CallRefundNoBid key auth) w = refundNoQualifiedBid hts sender key auth w"
| "call_contract k ka hts sender (CallRelease key auth) w = releaseFull hts sender key auth w"
| "call_contract k ka hts sender (CallOpenDispute key auth) w = openDispute sender key auth w"
| "call_contract k ka hts sender (CallResolveRelease key auth) w = resolveDisputeRelease hts sender key auth w"
| "call_contract k ka hts sender (CallRefundFull key auth) w = refundFull hts sender key auth w"
| "call_contract k ka hts sender (CallPartial key a b auth) w = partialRelease hts sender key a b auth w"

text \<open>
  \<open>addArgument\<close>: an amount goes through a JavaScript number, so that only safe integers pass.
  The texts considered are integers; a plan carries no others, since its builders check every
  amount to be one.
  The arguments of a plan then are those of the contract function it names.
\<close>

definition bytes32_arg :: "string \<Rightarrow> bool" where
  "bytes32_arg v \<longleftrightarrow> take 2 v = ''0x'' \<and> length v = 66 \<and> list_all (\<lambda>c. hex_val c \<noteq> None) (drop 2 v)"

primrec addArgument :: "EscrowArgument \<Rightarrow> bool" where
  "addArgument (Bytes32 v) = bytes32_arg v"
| "addArgument (Address v) = True"
| "addArgument (Uint32 n) = True"
| "addArgument (Uint256 v) = (case js_bigint v of None \<Rightarrow> False | Some n \<Rightarrow> 0 \<le> n \<and> n \<le> max_safe_integer)"

definition uint_arg :: "string \<Rightarrow> 256 word" where
  "uint_arg v = (case js_bigint v of None \<Rightarrow> 0 | Some n \<Rightarrow> word_of_int n)"

definition call_of_plan :: "EscrowTransactionPlan \<Rightarrow> escrow_call option" where
  "call_of_plan p =
     (if \<not> list_all addArgument (et_args p) then None
      else case et_args p of
        [Bytes32 key, Bytes32 idHash, Uint32 v, Address shipper, Uint256 b, Address token, Bytes32 auth, Bytes32 m] \<Rightarrow>
          if et_contractFunction p = ''registerTender''
          then Some (CallRegister key idHash (word_of_int v) shipper (uint_arg b) token auth m) else None
      | [Bytes32 key, Uint256 n] \<Rightarrow>
          if et_contractFunction p = ''fundTender'' then Some (CallFund key (uint_arg n)) else None
      | [Bytes32 key, Address winner, Uint256 n, Bytes32 m, Bytes32 auth] \<Rightarrow>
          if et_contractFunction p = ''allocateWinner'' then Some (CallAllocate key winner (uint_arg n) m auth) else None
      | [Bytes32 key, Uint256 a, Uint256 b, Bytes32 auth] \<Rightarrow>
          if et_contractFunction p = ''partialRelease''
          then Some (CallPartial key (uint_arg a) (uint_arg b) auth) else None
      | [Bytes32 key, Bytes32 auth] \<Rightarrow>
          if et_contractFunction p = ''refundNoQualifiedBid'' then Some (CallRefundNoBid key auth)
          else if et_contractFunction p = ''releaseFull'' then Some (CallRelease key auth)
          else if et_contractFunction p = ''openDispute'' then Some (CallOpenDispute key auth)
          else if et_contractFunction p = ''resolveDisputeRelease'' then Some (CallResolveRelease key auth)
          else if et_contractFunction p = ''refundFull'' then Some (CallRefundFull key auth)
          else None
      | _ \<Rightarrow> None)"

primrec call_key :: "escrow_call \<Rightarrow> string" where
  "call_key (CallRegister key idHash v shipper b token auth m) = key"
| "call_key (CallFund key n) = key"
| "call_key (CallAllocate key winner n m auth) = key"
| "call_key (CallRefundNoBid key auth) = key"
| "call_key (CallRelease key auth) = key"
| "call_key (CallOpenDispute key auth) = key"
| "call_key (CallResolveRelease key auth) = key"
| "call_key (CallRefundFull key auth) = key"
| "call_key (CallPartial key a b auth) = key"

primrec call_auth :: "escrow_call \<Rightarrow> string option" where
  "call_auth (CallRegister key idHash v shipper b token auth m) = Some auth"
| "call_auth (CallFund key n) = None"
| "call_auth (CallAllocate key winner n m auth) = Some auth"
| "call_auth (CallRefundNoBid key auth) = Some auth"
| "call_auth (CallRelease key auth) = Some auth"
| "call_auth (CallOpenDispute key auth) = Some auth"
| "call_auth (CallResolveRelease key auth) = Some auth"
| "call_auth (CallRefundFull key auth) = Some auth"
| "call_auth (CallPartial key a b auth) = Some auth"

subsection \<open>Words and transfers\<close>

lemma uint_ucast_64_256 [simp]: "uint (ucast (n :: 64 word) :: 256 word) = uint n"
  by (simp add: uint_up_ucast is_up)

lemma uint_ucast_down:
  assumes "x \<le> MAX_HTS_AMOUNT"
  shows "uint (ucast x :: 64 word) = uint x" "uint x \<le> 9223372036854775807"
proof -
  show b: "uint x \<le> 9223372036854775807" using assms by (simp add: MAX_HTS_AMOUNT_def word_le_def)
  then show "uint (ucast x :: 64 word) = uint x" by (simp add: unsigned_ucast_eq take_bit_int_eq_self)
qed

lemma sint_nonneg_uint: "0 \<le> sint (n :: 64 word) \<Longrightarrow> sint n = uint n"
proof -
  assume s: "0 \<le> sint n"
  have e: "sint n = (uint n + 2 ^ 63) mod 2 ^ 64 - 2 ^ 63" using int_word_sint [where 'a = 64, of "uint n"] by simp
  have "uint n < 2 ^ 63"
  proof (rule ccontr)
    assume n: "\<not> uint n < 2 ^ 63"
    have "uint n < 2 ^ 64" using uint_lt2p [of n] by simp
    then have "(uint n + 2 ^ 63) mod 2 ^ 64 < 2 ^ 63"
      using n mod_add_self2 [of "uint n - 2 ^ 63" "2 ^ 64 :: int"] by (simp add: add.commute)
    with e s show False by simp
  qed
  then show ?thesis using e by (simp add: mod_pos_pos_trivial)
qed

lemma checked_add_Inr [res_simps]: "checked_add a b = Inr c \<longleftrightarrow> uint a + uint b < 2 ^ 256 \<and> c = a + b"
  by (auto simp: checked_add_def)

lemma checked_sub_Inr [res_simps]: "checked_sub a b = Inr c \<longleftrightarrow> b \<le> a \<and> c = a - b"
  by (auto simp: checked_sub_def)

lemma less_total_Inr:
  "less_total n w = Inr w' \<longleftrightarrow> uint n \<le> uint (ew_totalEscrowedAmount w)
     \<and> w' = w\<lparr> ew_totalEscrowedAmount := ew_totalEscrowedAmount w - ucast n \<rparr>"
  by (auto simp: less_total_def res_simps word_le_def)

lemma uint_total_minus:
  "uint n \<le> uint t \<Longrightarrow> uint ((t :: 256 word) - ucast (n :: 64 word)) = uint t - uint n"
  by (simp add: uint_sub_if')

lemma uint_total_plus:
  "uint t + uint n < 2 ^ 256 \<Longrightarrow> uint ((t :: 256 word) + ucast (n :: 64 word)) = uint t + uint n"
  using uint_add_lem [of t "ucast n"] by simp

lemma htsTransfer_Inr:
  assumes "moves_tokens hts" "htsTransfer hts src dst n w = Inr w'"
  shows "w' = w\<lparr> ew_balances := moved src dst (uint n) (ew_balances w) \<rparr>" "uint n \<le> ew_balances w src"
proof -
  obtain b where h: "hts (ew_escrowToken w) src dst (sint n) (ew_balances w) = (HTS_SUCCESS_RESPONSE_CODE, b)"
    "w' = w\<lparr> ew_balances := b \<rparr>"
    using assms(2) by (auto simp: htsTransfer_def split: prod.splits if_splits)
  have "0 \<le> sint n" "sint n \<le> ew_balances w src" "b = moved src dst (sint n) (ew_balances w)"
    using assms(1) h(1) by (auto simp: moves_tokens_def)
  then show "w' = w\<lparr> ew_balances := moved src dst (uint n) (ew_balances w) \<rparr>" "uint n \<le> ew_balances w src"
    using h(2) by (simp_all add: sint_nonneg_uint)
qed

lemma moved_self: "moved self dst n b self = (if dst = self then b self else b self - n)"
  by (simp add: moved_def Let_def)

lemma consume_Inr [res_simps]:
  "consumeAuthorizationHash h w = Inr w' \<longleftrightarrow> \<not> ew_authorizationHashUsed w h
     \<and> w' = w\<lparr> ew_authorizationHashUsed := (ew_authorizationHashUsed w)(h := True) \<rparr>"
  by (auto simp: consumeAuthorizationHash_def)

lemmas contract_internals = onlyOwner_def requireState_def put_tender_def emit_def transferIn_def transferOut_def Let_def

end
