(* ===== verification/Escrow_Solvency.thy ===== *)
theory Escrow_Solvency
  imports Escrow_Contract
begin

text \<open>
  What the escrow contract guarantees, for any sequence of calls by anybody and any answers of
  the token service: it holds at least what it owes, every tender's money is where the events
  say, no authorization is used twice, and every call is a step of the same abstract ledger the
  lifecycle refines.
\<close>

subsection \<open>Runs\<close>

definition deployed :: "escrow_world \<Rightarrow> bool" where
  "deployed w \<longleftrightarrow> ew_tenders w = (\<lambda>_. empty_tender) \<and> ew_authorizationHashUsed w = (\<lambda>_. False)
     \<and> ew_totalEscrowedAmount w = 0 \<and> ew_events w = [] \<and> 0 \<le> ew_balances w (ew_self w)"

text \<open>
  Successful calls by anybody but the contract itself, token transfers elsewhere (which cannot
  take tokens from the contract), and changes of the owner.  A reverted call changes nothing.
\<close>

inductive escrow_run :: "keccak_fn \<Rightarrow> keccak_abi_fn \<Rightarrow> hts_fn \<Rightarrow> escrow_world \<Rightarrow> escrow_call list \<Rightarrow> bool" for k ka hts where
  deploy: "deployed w \<Longrightarrow> escrow_run k ka hts w []"
| call: "escrow_run k ka hts w cs \<Longrightarrow> sender \<noteq> ew_self w \<Longrightarrow> call_contract k ka hts sender c w = Inr w'
    \<Longrightarrow> escrow_run k ka hts w' (cs @ [c])"
| elsewhere: "escrow_run k ka hts w cs \<Longrightarrow> ew_balances w (ew_self w) \<le> b (ew_self w)
    \<Longrightarrow> escrow_run k ka hts (w\<lparr> ew_balances := b \<rparr>) cs"
| new_owner: "escrow_run k ka hts w cs \<Longrightarrow> escrow_run k ka hts (w\<lparr> ew_owner := o' \<rparr>) cs"

subsection \<open>What the events say\<close>

primrec event_key :: "escrow_event \<Rightarrow> string" where
  "event_key (EvRegistered key i v s b t a m) = key"
| "event_key (EvFunded key s n) = key"
| "event_key (EvAllocated key win n x m a) = key"
| "event_key (EvExcessRefunded key s n) = key"
| "event_key (EvNoWinnerRefunded key s n a) = key"
| "event_key (EvDisputeOpened key a) = key"
| "event_key (EvReleased key win n a d) = key"
| "event_key (EvRefunded key s n a d) = key"
| "event_key (EvPartiallyReleased key win s n m a) = key"

primrec event_returned :: "escrow_event \<Rightarrow> int" where
  "event_returned (EvRegistered key i v s b t a m) = 0"
| "event_returned (EvFunded key s n) = 0"
| "event_returned (EvAllocated key win n x m a) = 0"
| "event_returned (EvExcessRefunded key s n) = uint n"
| "event_returned (EvNoWinnerRefunded key s n a) = uint n"
| "event_returned (EvDisputeOpened key a) = 0"
| "event_returned (EvReleased key win n a d) = 0"
| "event_returned (EvRefunded key s n a d) = uint n"
| "event_returned (EvPartiallyReleased key win s n m a) = uint m"

primrec event_paid :: "escrow_event \<Rightarrow> int" where
  "event_paid (EvRegistered key i v s b t a m) = 0"
| "event_paid (EvFunded key s n) = 0"
| "event_paid (EvAllocated key win n x m a) = 0"
| "event_paid (EvExcessRefunded key s n) = 0"
| "event_paid (EvNoWinnerRefunded key s n a) = 0"
| "event_paid (EvDisputeOpened key a) = 0"
| "event_paid (EvReleased key win n a d) = uint n"
| "event_paid (EvRefunded key s n a d) = 0"
| "event_paid (EvPartiallyReleased key win s n m a) = uint n"

definition events_total :: "(escrow_event \<Rightarrow> int) \<Rightarrow> string \<Rightarrow> escrow_event list \<Rightarrow> int" where
  "events_total f key es = sum_list (map f (filter (\<lambda>e. event_key e = key) es))"

definition balance_of :: "TenderEscrow \<Rightarrow> 64 word" where
  "balance_of t = (if tx_state t = FUNDED then tx_fundedAmount t
      else if tx_state t = ALLOCATED \<or> tx_state t = DISPUTED then tx_lockedAmount t else 0)"

lemma tenderBalance_eq: "tenderBalance w key = balance_of (ew_tenders w key)"
  by (simp add: tenderBalance_def balance_of_def Let_def)

definition tender_ledger :: "escrow_world \<Rightarrow> string \<Rightarrow> ledger" where
  "tender_ledger w key = \<lparr> held = uint (tenderBalance w key),
     returned = events_total event_returned key (ew_events w), paid = events_total event_paid key (ew_events w) \<rparr>"

lemma events_total_append [simp]:
  "events_total f key (es @ fs) = events_total f key es + events_total f key fs"
  by (simp add: events_total_def)

lemma events_total_other: "list_all (\<lambda>e. event_key e = key) es \<Longrightarrow> key' \<noteq> key \<Longrightarrow> events_total f key' es = 0"
  by (induction es) (auto simp: events_total_def)

lemma events_total_simps [simp]:
  "events_total f key [] = 0"
  "events_total f key (e # es) = (if event_key e = key then f e else 0) + events_total f key es"
  by (simp_all add: events_total_def)

subsection \<open>The invariant\<close>

definition support :: "escrow_world \<Rightarrow> string set" where
  "support w = {key. tx_state (ew_tenders w key) \<noteq> UNREGISTERED}"

text \<open>The amounts of one tender, given its struct and what the events returned and paid.\<close>

definition tender_ok :: "TenderEscrow \<Rightarrow> int \<Rightarrow> int \<Rightarrow> bool" where
  "tender_ok t ret pay \<longleftrightarrow>
     (case tx_state t of
        UNREGISTERED \<Rightarrow> ret = 0 \<and> pay = 0
      | REGISTERED \<Rightarrow> ret = 0 \<and> pay = 0 \<and> 0 < uint (tx_maxBudget t)
      | FUNDED \<Rightarrow> ret = 0 \<and> pay = 0 \<and> 0 < uint (tx_maxBudget t) \<and> tx_fundedAmount t = tx_maxBudget t
      | ALLOCATED \<Rightarrow> ret = uint (tx_maxBudget t) - uint (tx_lockedAmount t) \<and> pay = 0 \<and> 0 < uint (tx_lockedAmount t)
      | DISPUTED \<Rightarrow> ret = uint (tx_maxBudget t) - uint (tx_lockedAmount t) \<and> pay = 0 \<and> 0 < uint (tx_lockedAmount t)
      | _ \<Rightarrow> ret + pay = uint (tx_maxBudget t))"

definition tenders_ok :: "escrow_world \<Rightarrow> bool" where
  "tenders_ok w \<longleftrightarrow> (\<forall>key. tender_ok (ew_tenders w key) (returned (tender_ledger w key)) (paid (tender_ledger w key)))"

definition escrow_inv :: "escrow_world \<Rightarrow> bool" where
  "escrow_inv w \<longleftrightarrow> finite (support w) \<and> tenders_ok w
     \<and> uint (ew_totalEscrowedAmount w) = (\<Sum>key\<in>support w. uint (tenderBalance w key))
     \<and> uint (ew_totalEscrowedAmount w) \<le> ew_balances w (ew_self w)"

subsection \<open>The effect of a call\<close>

text \<open>
  One tender gets a new struct, the total changes by the change of its balance, the events are
  about it, and the contract's tokens change by at least as much as the total.
\<close>

definition call_effect :: "string \<Rightarrow> escrow_world \<Rightarrow> TenderEscrow \<Rightarrow> escrow_event list \<Rightarrow> escrow_world \<Rightarrow> bool" where
  "call_effect key w t es w' \<longleftrightarrow>
     (let d = uint (balance_of t) - uint (balance_of (ew_tenders w key)) in
      ew_tenders w' = (ew_tenders w)(key := t) \<and> ew_self w' = ew_self w \<and> tx_state t \<noteq> UNREGISTERED
      \<and> uint (ew_totalEscrowedAmount w') = uint (ew_totalEscrowedAmount w) + d
      \<and> ew_events w' = ew_events w @ es \<and> list_all (\<lambda>e. event_key e = key) es
      \<and> ew_balances w (ew_self w) + d \<le> ew_balances w' (ew_self w))"

lemma ledger_after:
  assumes "call_effect key w t es w'"
  shows "tender_ledger w' key' = (if key' = key then
     \<lparr> held = uint (balance_of t), returned = returned (tender_ledger w key) + events_total event_returned key es,
       paid = paid (tender_ledger w key) + events_total event_paid key es \<rparr> else tender_ledger w key')"
  using assms events_total_other [of key es key']
  by (auto simp: call_effect_def tender_ledger_def tenderBalance_eq Let_def)

lemma effect_keeps_inv:
  assumes "call_effect key w t es w'" "escrow_inv w"
    and "tender_ok t (returned (tender_ledger w key) + events_total event_returned key es)
      (paid (tender_ledger w key) + events_total event_paid key es)"
  shows "escrow_inv w'"
proof -
  note e = assms(1) [unfolded call_effect_def Let_def]
  have s: "support w' = insert key (support w)" using e by (auto simp: support_def)
  have f: "finite (support w)" using assms(2) by (simp add: escrow_inv_def)
  have z: "uint (tenderBalance w key) = 0" if "key \<notin> support w"
    using that by (simp add: support_def tenderBalance_eq balance_of_def)
  have "(\<Sum>q\<in>support w'. uint (tenderBalance w' q))
      = uint (balance_of t) + (\<Sum>q\<in>support w - {key}. uint (tenderBalance w q))"
    using f e by (simp add: s sum.insert_remove tenderBalance_eq)
  also have "(\<Sum>q\<in>support w - {key}. uint (tenderBalance w q))
      = (\<Sum>q\<in>support w. uint (tenderBalance w q)) - uint (tenderBalance w key)"
    using f z by (cases "key \<in> support w") (simp_all add: sum_diff1)
  finally have "(\<Sum>q\<in>support w'. uint (tenderBalance w' q)) = uint (ew_totalEscrowedAmount w')"
    using e assms(2) by (simp add: escrow_inv_def tenderBalance_eq)
  moreover have "tenders_ok w'"
    using assms(2,3) e by (auto simp: tenders_ok_def escrow_inv_def ledger_after [OF assms(1)])
  ultimately show ?thesis using e assms(2) f by (simp add: escrow_inv_def s)
qed

lemma tenders_okD:
  "escrow_inv w \<Longrightarrow> tender_ok (ew_tenders w key) (returned (tender_ledger w key)) (paid (tender_ledger w key))"
  by (simp add: escrow_inv_def tenders_ok_def)

lemma held_eq: "held (tender_ledger w key) = uint (balance_of (ew_tenders w key))"
  by (simp add: tender_ledger_def tenderBalance_eq)

lemma transferOut_Inr:
  assumes "moves_tokens hts" "transferOut hts dst n w = Inr w'"
  shows "w' = w\<lparr> ew_balances := moved (ew_self w) dst (uint n) (ew_balances w) \<rparr>" "uint n \<le> ew_balances w (ew_self w)"
  using htsTransfer_Inr [OF assms(1)] assms(2) by (simp_all add: transferOut_def)

lemma balance_out: "b self - uint n \<le> moved self dst (uint n) b self"
  by (simp add: moved_self)

text \<open>A call that pays the whole balance out.\<close>

lemma settle_effect:
  assumes "moves_tokens hts" "less_total n (put_tender key t (w\<lparr> ew_authorizationHashUsed := u \<rparr>)) = Inr w2"
    and "transferOut hts dst n (emit evt w2) = Inr w'"
    and "n = balance_of (ew_tenders w key)" "balance_of t = 0" "tx_state t \<noteq> UNREGISTERED" "event_key evt = key"
  shows "call_effect key w t [evt] w'"
  using assms(2,4-7) transferOut_Inr(1) [OF assms(1,3)] balance_out [of "ew_balances w" "ew_self w" n dst]
  by (auto simp: call_effect_def less_total_Inr put_tender_def emit_def uint_total_minus Let_def)

definition good_step :: "string \<Rightarrow> escrow_world \<Rightarrow> escrow_world \<Rightarrow> bool" where
  "good_step key w w' \<longleftrightarrow> (\<exists>t es. call_effect key w t es w'
     \<and> tender_ok t (returned (tender_ledger w' key)) (paid (tender_ledger w' key))
     \<and> ledger_step (uint (tx_maxBudget t)) (tender_ledger w key) (tender_ledger w' key))"

lemma good_stepI:
  assumes "call_effect key w t es w'"
    and "tender_ok t (returned (tender_ledger w key) + events_total event_returned key es)
      (paid (tender_ledger w key) + events_total event_paid key es)"
    and "ledger_step (uint (tx_maxBudget t)) (tender_ledger w key)
      \<lparr> held = uint (balance_of t), returned = returned (tender_ledger w key) + events_total event_returned key es,
        paid = paid (tender_ledger w key) + events_total event_paid key es \<rparr>"
  shows "good_step key w w'"
  using assms(2,3) unfolding good_step_def
  by (intro exI [of _ t] exI [of _ es] conjI assms(1)) (simp_all add: ledger_after [OF assms(1)])

lemma ledger_settle_step:
  assumes "held l = a" "paid l = 0" "release + refund = a" "0 \<le> release" "0 \<le> refund" "0 < a"
    "h' = 0" "b' = returned l + refund" "p' = release"
  shows "ledger_step budget l \<lparr> held = h', returned = b', paid = p' \<rparr>"
  using ledger_step.settle [OF assms(3-6), of budget "returned l"] assms by (cases l) simp

text \<open>What the invariant says of a tender whose whole balance \<open>n\<close> is about to be paid out.\<close>

definition owes :: "TenderEscrow \<Rightarrow> 64 word \<Rightarrow> bool" where
  "owes t n \<longleftrightarrow> (tx_state t = FUNDED \<and> n = tx_fundedAmount t)
     \<or> ((tx_state t = ALLOCATED \<or> tx_state t = DISPUTED) \<and> n = tx_lockedAmount t)"

lemma owes_ledger:
  assumes "escrow_inv w" "owes (ew_tenders w key) n"
  shows "held (tender_ledger w key) = uint n" "paid (tender_ledger w key) = 0" "0 < uint n"
    "returned (tender_ledger w key) + uint n = uint (tx_maxBudget (ew_tenders w key))"
    "balance_of (ew_tenders w key) = n"
  using tenders_okD [OF assms(1), of key] assms(2) by (auto simp: owes_def tender_ok_def held_eq balance_of_def)

lemma paid_out_good:
  assumes "escrow_inv w" "owes (ew_tenders w key) n" "call_effect key w t [evt] w'" "event_key evt = key"
    and "isEscrowTerminalState (tx_state t)" "tx_maxBudget t = tx_maxBudget (ew_tenders w key)"
    and "event_paid evt + event_returned evt = uint n" "0 \<le> event_paid evt" "0 \<le> event_returned evt"
  shows "good_step key w w'"
proof (rule good_stepI [OF assms(3)])
  note o = owes_ledger [OF assms(1,2)]
  have z: "balance_of t = 0" "tx_state t \<in> {RELEASED, REFUNDED_ESCROW, PARTIALLY_RELEASED}"
    using assms(5) by (auto simp: isEscrowTerminalState_def ESCROW_TERMINAL_STATES_def balance_of_def)
  then show "tender_ok t (returned (tender_ledger w key) + events_total event_returned key [evt])
      (paid (tender_ledger w key) + events_total event_paid key [evt])"
    using assms(4,6,7) o by (auto simp: tender_ok_def)
  show "ledger_step (uint (tx_maxBudget t)) (tender_ledger w key)
     \<lparr> held = uint (balance_of t), returned = returned (tender_ledger w key) + events_total event_returned key [evt],
       paid = paid (tender_ledger w key) + events_total event_paid key [evt] \<rparr>"
    by (rule ledger_settle_step [OF o(1,2) assms(7-9) o(3)]) (use z assms(4) o in auto)
qed

lemma settle_good:
  assumes "moves_tokens hts" "escrow_inv w" "owes (ew_tenders w key) n"
    and "less_total n (put_tender key t (w\<lparr> ew_authorizationHashUsed := u \<rparr>)) = Inr w2"
    and "transferOut hts dst n (emit evt w2) = Inr w'" "event_key evt = key"
    and "isEscrowTerminalState (tx_state t)" "tx_maxBudget t = tx_maxBudget (ew_tenders w key)"
    and "event_paid evt + event_returned evt = uint n" "0 \<le> event_paid evt" "0 \<le> event_returned evt"
  shows "good_step key w w'"
  using paid_out_good [OF assms(2,3) settle_effect [OF assms(1,4,5)] assms(6-11)] owes_ledger(5) [OF assms(2,3)] assms(6,7)
  by (auto simp: isEscrowTerminalState_def ESCROW_TERMINAL_STATES_def balance_of_def)

lemmas terminal_defs = isEscrowTerminalState_def ESCROW_TERMINAL_STATES_def
lemmas call_defs = onlyOwner_def requireState_def res_simps Let_def

lemma refundNoQualifiedBid_good:
  assumes "moves_tokens hts" "escrow_inv w" "refundNoQualifiedBid hts sender key auth w = Inr w'"
  shows "good_step key w w'"
  using assms(3) by (auto simp: refundNoQualifiedBid_def call_defs owes_def terminal_defs elim!: settle_good [OF assms(1,2), rotated])

lemma releaseFull_good:
  assumes "moves_tokens hts" "escrow_inv w" "releaseFull hts sender key auth w = Inr w'"
  shows "good_step key w w'"
  using assms(3) by (auto simp: releaseFull_def call_defs owes_def terminal_defs elim!: settle_good [OF assms(1,2), rotated])

lemma resolveDisputeRelease_good:
  assumes "moves_tokens hts" "escrow_inv w" "resolveDisputeRelease hts sender key auth w = Inr w'"
  shows "good_step key w w'"
  using assms(3) by (auto simp: resolveDisputeRelease_def call_defs owes_def terminal_defs elim!: settle_good [OF assms(1,2), rotated])

lemma refundFull_good:
  assumes "moves_tokens hts" "escrow_inv w" "refundFull hts sender key auth w = Inr w'"
  shows "good_step key w w'"
  using assms(3) by (auto simp: refundFull_def call_defs owes_def terminal_defs elim!: settle_good [OF assms(1,2), rotated])

lemma ledger_same:
  "h' = held l \<Longrightarrow> b' = returned l \<Longrightarrow> p' = paid l \<Longrightarrow> ledger_step budget l \<lparr> held = h', returned = b', paid = p' \<rparr>"
  by (cases l) (simp add: ledger_step.idle)

lemma openDispute_good:
  assumes "escrow_inv w" "openDispute sender key auth w = Inr w'"
  shows "good_step key w w'"
proof -
  define t where "t = ew_tenders w key"
  have st: "tx_state t = ALLOCATED"
    and e: "call_effect key w (t\<lparr> tx_state := DISPUTED, tx_disputeAuthHash := auth \<rparr>) [EvDisputeOpened key auth] w'"
    using assms(2)
    by (auto simp: openDispute_def call_defs t_def call_effect_def put_tender_def emit_def balance_of_def)
  show ?thesis
    using tenders_okD [OF assms(1), of key] st held_eq [of w key]
    by (intro good_stepI [OF e]) (auto simp: tender_ok_def t_def balance_of_def intro!: ledger_same)
qed

lemma registerTender_good:
  assumes "escrow_inv w" "registerTender k ka sender key idHash v shipper b token auth m w = Inr w'"
  shows "good_step key w w'"
proof -
  define t where "t = ew_tenders w key"
  define t' where "t' = t\<lparr> tx_state := REGISTERED, tx_tenderVersion := v, tx_shipper := shipper, tx_maxBudget := ucast b,
    tx_tenderIdHash := idHash, tx_manifestHash := m, tx_creationAuthHash := auth \<rparr>"
  have st: "tx_state t = UNREGISTERED" and b: "b \<noteq> 0" "b \<le> MAX_HTS_AMOUNT"
    and e: "call_effect key w t' [EvRegistered key idHash v shipper (ucast b) token auth m] w'"
    using assms(2)
    by (auto simp: registerTender_def call_defs t_def t'_def call_effect_def put_tender_def emit_def balance_of_def)
  have "0 < uint (ucast b :: 64 word)"
    using b uint_ucast_down [OF b(2)] by (metis uint_0_iff uint_ge_0 le_less)
  then show ?thesis
    using tenders_okD [OF assms(1), of key] st held_eq [of w key]
    by (intro good_stepI [OF e]) (auto simp: tender_ok_def t_def t'_def balance_of_def intro!: ledger_same)
qed

lemma fundTender_good:
  assumes "moves_tokens hts" "escrow_inv w" "sender \<noteq> ew_self w" "fundTender hts sender key n w = Inr w'"
  shows "good_step key w w'"
proof -
  define t where "t = ew_tenders w key"
  define f :: "64 word" where "f = ucast n"
  obtain w2 where st: "tx_state t = REGISTERED" and n: "n = ucast (tx_maxBudget t)"
    and add: "uint (ew_totalEscrowedAmount w) + uint f < 2 ^ 256"
    and i: "transferIn hts sender f (put_tender key (t\<lparr> tx_state := FUNDED, tx_fundedAmount := f \<rparr>)
      (w\<lparr> ew_totalEscrowedAmount := ew_totalEscrowedAmount w + ucast f \<rparr>)) = Inr w2"
    and w': "w' = emit (EvFunded key sender f) w2"
    using assms(4) by (auto simp: fundTender_def call_defs t_def f_def)
  have f: "f = tx_maxBudget t" by (simp add: f_def n ucast_up_ucast_id is_up)
  have "w2 = (put_tender key (t\<lparr> tx_state := FUNDED, tx_fundedAmount := f \<rparr>)
      (w\<lparr> ew_totalEscrowedAmount := ew_totalEscrowedAmount w + ucast f \<rparr>))
      \<lparr> ew_balances := moved sender (ew_self w) (uint f) (ew_balances w) \<rparr>"
    using htsTransfer_Inr(1) [OF assms(1) i [unfolded transferIn_def]] by (simp add: put_tender_def)
  then have e: "call_effect key w (t\<lparr> tx_state := FUNDED, tx_fundedAmount := f \<rparr>) [EvFunded key sender f] w'"
    using st add assms(3)
    by (auto simp: w' call_effect_def put_tender_def emit_def balance_of_def t_def uint_total_plus moved_def Let_def)
  have ok: "returned (tender_ledger w key) = 0" "paid (tender_ledger w key) = 0" "0 < uint (tx_maxBudget t)"
    "held (tender_ledger w key) = 0"
    using tenders_okD [OF assms(2), of key] st by (auto simp: tender_ok_def held_eq t_def balance_of_def)
  then have l: "tender_ledger w key = \<lparr> held = 0, returned = 0, paid = 0 \<rparr>" by simp
  show ?thesis using ok ledger_step.fund
    by (intro good_stepI [OF e]) (auto simp: tender_ok_def balance_of_def f l)
qed

lemma allocateWinner_good:
  assumes "moves_tokens hts" "escrow_inv w" "allocateWinner hts sender key winner n m auth w = Inr w'"
  shows "good_step key w w'"
proof -
  define t where "t = ew_tenders w key"
  define locked :: "64 word" where "locked = ucast n"
  define x where "x = tx_fundedAmount t - locked"
  define t' where "t' = t\<lparr> tx_state := ALLOCATED, tx_winner := winner, tx_lockedAmount := locked,
    tx_excessRefunded := x, tx_decisionManifestHash := m \<rparr>"
  define u where "u = (ew_authorizationHashUsed w)(auth := True)"
  obtain w2 where st: "tx_state t = FUNDED" and n: "n \<noteq> 0" "n \<le> MAX_HTS_AMOUNT" "n \<le> ucast (tx_fundedAmount t)"
    and l: "less_total x (put_tender key t' (w\<lparr> ew_authorizationHashUsed := u \<rparr>)) = Inr w2"
    and pay: "(if x > 0 then bind_res (transferOut hts (tx_shipper t) x (emit (EvAllocated key winner locked x m auth) w2))
        (\<lambda>w. Inr (emit (EvExcessRefunded key (tx_shipper t) x) w))
      else Inr (emit (EvAllocated key winner locked x m auth) w2)) = Inr w'"
    using assms(3) unfolding t'_def x_def locked_def t_def u_def by (auto simp: allocateWinner_def call_defs)
  have ln: "uint locked = uint n" "uint locked \<le> uint (tx_fundedAmount t)"
    using uint_ucast_down(1) [OF n(2)] n(3) by (auto simp: locked_def word_le_def)
  then have x: "uint x = uint (tx_fundedAmount t) - uint locked" by (simp add: x_def uint_sub_lem [THEN iffD1])
  have pos: "0 < uint locked" using n(1) ln(1) by (metis uint_0_iff uint_ge_0 le_less)
  have e: "call_effect key w t' (EvAllocated key winner locked x m auth #
      (if x > 0 then [EvExcessRefunded key (tx_shipper t) x] else [])) w'"
  proof (cases "x > 0")
    case True
    then obtain w3 where tr: "transferOut hts (tx_shipper t) x (emit (EvAllocated key winner locked x m auth) w2) = Inr w3"
      and w': "w' = emit (EvExcessRefunded key (tx_shipper t) x) w3" using pay by (auto simp: res_simps)
    show ?thesis
      using l st x True transferOut_Inr(1) [OF assms(1) tr] balance_out [of "ew_balances w" "ew_self w" x "tx_shipper t"]
      by (auto simp: call_effect_def less_total_Inr put_tender_def emit_def uint_total_minus Let_def w' t'_def t_def
          balance_of_def)
  next
    case False
    then have "x = 0" "w' = emit (EvAllocated key winner locked x m auth) w2" using pay by (auto simp: word_gt_0)
    then show ?thesis
      using l st x by (auto simp: call_effect_def less_total_Inr put_tender_def emit_def t'_def t_def balance_of_def Let_def)
  qed
  have x0: "x > 0 \<longleftrightarrow> uint x \<noteq> 0" by (simp add: word_gt_0 uint_0_iff)
  have ok: "returned (tender_ledger w key) = 0" "paid (tender_ledger w key) = 0"
    "tx_fundedAmount t = tx_maxBudget t" "held (tender_ledger w key) = uint (tx_maxBudget t)"
    using tenders_okD [OF assms(2), of key] st by (auto simp: tender_ok_def held_eq t_def balance_of_def)
  then have lg: "tender_ledger w key = \<lparr> held = uint (tx_maxBudget t), returned = 0, paid = 0 \<rparr>" by simp
  have "ledger_step (uint (tx_maxBudget t)) (tender_ledger w key) \<lparr> held = uint locked, returned = uint x, paid = 0 \<rparr>"
    unfolding lg by (rule ledger_step.allocate) (use x pos ok ln in auto)
  then show ?thesis
    using ok x pos x0 by (intro good_stepI [OF e]) (auto simp: tender_ok_def balance_of_def t'_def)
qed

lemma maybe_out:
  assumes "moves_tokens hts" "(if n > 0 then transferOut hts dst n w else Inr w) = Inr w'"
  shows "\<exists>b. w' = w\<lparr> ew_balances := b \<rparr> \<and> ew_balances w (ew_self w) - uint n \<le> b (ew_self w)"
proof (cases "n > 0")
  case True
  then have "w' = w\<lparr> ew_balances := moved (ew_self w) dst (uint n) (ew_balances w) \<rparr>"
    using assms(2) transferOut_Inr(1) [OF assms(1)] by simp
  then show ?thesis using balance_out by blast
next
  case False
  then show ?thesis using assms(2) by (intro exI [of _ "ew_balances w"]) simp
qed

lemma partialRelease_good:
  assumes "moves_tokens hts" "escrow_inv w" "partialRelease hts sender key a b auth w = Inr w'"
  shows "good_step key w w'"
proof -
  define t where "t = ew_tenders w key"
  define u where "u = (ew_authorizationHashUsed w)(auth := True)"
  define p q :: "64 word" where "p = ucast a" and "q = ucast b"
  define t' where "t' = t\<lparr> tx_state := PARTIALLY_RELEASED, tx_settlementAuthHash := auth \<rparr>"
  define evt where "evt = EvPartiallyReleased key (tx_winner t) (tx_shipper t) p q auth"
  obtain w2 w3 where st: "tx_state t = DISPUTED" and ab: "a \<le> MAX_HTS_AMOUNT" "b \<le> MAX_HTS_AMOUNT"
    and sum: "uint a + uint b < 2 ^ 256" "a + b = ucast (tx_lockedAmount t)"
    and l: "less_total (tx_lockedAmount t) (put_tender key t' (w\<lparr> ew_authorizationHashUsed := u \<rparr>)) = Inr w2"
    and pw: "(if p > 0 then transferOut hts (tx_winner t) p (emit evt w2) else Inr (emit evt w2)) = Inr w3"
    and ps: "(if q > 0 then transferOut hts (tx_shipper t) q w3 else Inr w3) = Inr w'"
    using assms(3) unfolding evt_def t'_def p_def q_def t_def u_def by (auto simp: partialRelease_def call_defs)
  have pq: "uint p + uint q = uint (tx_lockedAmount t)"
    using uint_ucast_down(1) [OF ab(1)] uint_ucast_down(1) [OF ab(2)] uint_add_lem [of a b] sum
    by (simp add: p_def q_def)
  obtain b3 where w3: "w3 = (emit evt w2)\<lparr> ew_balances := b3 \<rparr>"
    "ew_balances (emit evt w2) (ew_self (emit evt w2)) - uint p \<le> b3 (ew_self (emit evt w2))"
    using maybe_out [OF assms(1) pw] by blast
  obtain b4 where w4: "w' = w3\<lparr> ew_balances := b4 \<rparr>" "ew_balances w3 (ew_self w3) - uint q \<le> b4 (ew_self w3)"
    using maybe_out [OF assms(1) ps] by blast
  have e: "call_effect key w t' [evt] w'"
    using l st pq w3(2) w4(2) unfolding w4(1) w3(1)
    by (auto simp: call_effect_def less_total_Inr put_tender_def emit_def uint_total_minus Let_def t'_def t_def
        balance_of_def evt_def)
  show ?thesis
    by (rule paid_out_good [OF assms(2) _ e, where n = "tx_lockedAmount t"])
      (use st pq in \<open>auto simp: owes_def t_def t'_def evt_def terminal_defs\<close>)
qed

lemma call_good:
  assumes "moves_tokens hts" "escrow_inv w" "sender \<noteq> ew_self w" "call_contract k ka hts sender c w = Inr w'"
  shows "good_step (call_key c) w w'"
  using assms(4) by (cases c)
    (auto intro: registerTender_good [OF assms(2)] fundTender_good [OF assms(1-3)] allocateWinner_good [OF assms(1,2)]
      refundNoQualifiedBid_good [OF assms(1,2)] releaseFull_good [OF assms(1,2)] openDispute_good [OF assms(2)]
      resolveDisputeRelease_good [OF assms(1,2)] refundFull_good [OF assms(1,2)] partialRelease_good [OF assms(1,2)])

lemma good_step_inv: "good_step key w w' \<Longrightarrow> escrow_inv w \<Longrightarrow> escrow_inv w'"
  unfolding good_step_def by (auto intro: effect_keeps_inv simp: ledger_after)

lemma deployed_inv: "deployed w \<Longrightarrow> escrow_inv w"
  by (simp add: deployed_def escrow_inv_def support_def empty_tender_def tenders_ok_def tender_ok_def tender_ledger_def)

lemma escrow_run_inv:
  assumes "moves_tokens hts" "escrow_run k ka hts w cs"
  shows "escrow_inv w"
  using assms(2)
proof (induction rule: escrow_run.induct)
  case (deploy w)
  then show ?case by (rule deployed_inv)
next
  case (call w cs sender c w')
  then show ?case using good_step_inv [OF call_good [OF assms(1)]] by blast
next
  case (elsewhere w cs b)
  then show ?case by (simp add: escrow_inv_def support_def tenders_ok_def tender_ledger_def tenderBalance_def)
next
  case (new_owner w cs o')
  then show ?case by (simp add: escrow_inv_def support_def tenders_ok_def tender_ledger_def tenderBalance_def)
qed

subsection \<open>Properties\<close>

text \<open>
  C2. Solvency.  Whoever calls the contract and however the token service answers, the contract
  always holds at least the sum of the balances of all its tenders, its running total is exactly
  that sum, and for every tender the amount held, the amount returned to the shipper and the
  amount paid to the carrier, as its events report them, add up to the funded budget, or to
  nothing before the funding.\<close>

theorem escrow_solvent:
  assumes "moves_tokens hts" "escrow_run k ka hts w cs"
  shows "(\<Sum>key\<in>support w. uint (tenderBalance w key)) = uint (ew_totalEscrowedAmount w)
    \<and> uint (ew_totalEscrowedAmount w) \<le> ew_balances w (ew_self w)
    \<and> held (tender_ledger w key) + returned (tender_ledger w key) + paid (tender_ledger w key)
      = (if tx_state (ew_tenders w key) = UNREGISTERED \<or> tx_state (ew_tenders w key) = REGISTERED then 0
         else uint (tx_maxBudget (ew_tenders w key)))"
proof (intro conjI)
  note i = escrow_run_inv [OF assms]
  show "(\<Sum>key\<in>support w. uint (tenderBalance w key)) = uint (ew_totalEscrowedAmount w)"
    "uint (ew_totalEscrowedAmount w) \<le> ew_balances w (ew_self w)" using i by (simp_all add: escrow_inv_def)
  show "held (tender_ledger w key) + returned (tender_ledger w key) + paid (tender_ledger w key)
      = (if tx_state (ew_tenders w key) = UNREGISTERED \<or> tx_state (ew_tenders w key) = REGISTERED then 0
         else uint (tx_maxBudget (ew_tenders w key)))"
    using tenders_okD [OF i, of key] by (auto simp: held_eq tender_ok_def balance_of_def split: EscrowState.splits)
qed

text \<open>
  C18. The contract refines the ledger of the lifecycle.  Every successful call moves the money of
  its own tender by one step of the abstract escrow ledger that the lifecycle refines as well, and
  leaves the money of every other tender alone.\<close>

theorem contract_refines_ledger:
  assumes "moves_tokens hts" "escrow_run k ka hts w cs" "sender \<noteq> ew_self w" "call_contract k ka hts sender c w = Inr w'"
  shows "ledger_step (uint (tx_maxBudget (ew_tenders w' (call_key c))))
      (tender_ledger w (call_key c)) (tender_ledger w' (call_key c))
    \<and> (key \<noteq> call_key c \<longrightarrow> tender_ledger w' key = tender_ledger w key \<and> ew_tenders w' key = ew_tenders w key)"
proof (intro conjI impI)
  obtain t es where g: "call_effect (call_key c) w t es w'"
    "ledger_step (uint (tx_maxBudget t)) (tender_ledger w (call_key c)) (tender_ledger w' (call_key c))"
    using call_good [OF assms(1) escrow_run_inv [OF assms(1,2)] assms(3,4)] by (auto simp: good_step_def)
  have t: "ew_tenders w' = (ew_tenders w)(call_key c := t)" using g(1) by (simp add: call_effect_def Let_def)
  then show "ledger_step (uint (tx_maxBudget (ew_tenders w' (call_key c))))
      (tender_ledger w (call_key c)) (tender_ledger w' (call_key c))" using g(2) by simp
  assume "key \<noteq> call_key c"
  then show "tender_ledger w' key = tender_ledger w key" "ew_tenders w' key = ew_tenders w key"
    using ledger_after [OF g(1)] t by simp_all
qed

subsection \<open>Authorizations\<close>

lemma transfer_keeps_used:
  "transferIn hts src n w = Inr w' \<Longrightarrow> ew_authorizationHashUsed w' = ew_authorizationHashUsed w"
  "transferOut hts dst n w = Inr w' \<Longrightarrow> ew_authorizationHashUsed w' = ew_authorizationHashUsed w"
  by (auto simp: transferIn_def transferOut_def htsTransfer_def split: prod.splits if_splits)

lemma call_uses:
  assumes "call_contract k ka hts sender c w = Inr w'"
  shows "case call_auth c of None \<Rightarrow> ew_authorizationHashUsed w' = ew_authorizationHashUsed w
    | Some a \<Rightarrow> \<not> ew_authorizationHashUsed w a \<and> ew_authorizationHashUsed w' = (ew_authorizationHashUsed w)(a := True)"
  using assms
  by (cases c)
    (auto simp: registerTender_def fundTender_def allocateWinner_def refundNoQualifiedBid_def releaseFull_def openDispute_def
      resolveDisputeRelease_def refundFull_def partialRelease_def call_defs put_tender_def emit_def less_total_Inr
      dest!: transfer_keeps_used split: if_splits)

text \<open>
  C19. An authorization is used once.  Over any run, no two successful calls carry the same
  authorization hash, across all tenders; only the funding by the shipper needs none.\<close>

theorem authorizations_used_once:
  assumes "escrow_run k ka hts w cs"
  shows "distinct (List.map_filter call_auth cs)
    \<and> set (List.map_filter call_auth cs) = {a. ew_authorizationHashUsed w a}"
  using assms
proof (induction rule: escrow_run.induct)
  case (call w cs sender c w')
  then show ?case using call_uses [OF call(3)] by (auto simp: List.map_filter_def split: option.splits)
qed (auto simp: deployed_def List.map_filter_def)

subsection \<open>Plans on the contract\<close>

lemma transfer_keeps_tenders:
  "transferIn hts src n w = Inr w' \<Longrightarrow> ew_tenders w' = ew_tenders w"
  "transferOut hts dst n w = Inr w' \<Longrightarrow> ew_tenders w' = ew_tenders w"
  by (auto simp: transferIn_def transferOut_def htsTransfer_def split: prod.splits if_splits)

lemma allocateWinner_tender:
  assumes "allocateWinner hts sender key winner n m auth w = Inr w'"
  shows "tx_state (ew_tenders w' key) = ALLOCATED" "tx_lockedAmount (ew_tenders w' key) = ucast n"
    "tx_maxBudget (ew_tenders w' key) = tx_maxBudget (ew_tenders w key)" "n \<le> MAX_HTS_AMOUNT"
  using assms
  by (auto simp: allocateWinner_def call_defs put_tender_def emit_def less_total_Inr dest!: transfer_keeps_tenders
      split: if_splits)

lemma uint_arg_amount:
  assumes "isNonNegativeAtomicString v" "amount v \<le> MAX_HTS_ATOMIC_AMOUNT"
  shows "uint (uint_arg v) = amount v"
proof -
  have "uint_arg v = word_of_int (amount v)" using assms(1) by (simp add: uint_arg_def bigint_atomic)
  moreover have "amount v < 2 ^ 256" using assms(2) by (simp add: MAX_HTS_ATOMIC_AMOUNT_def)
  ultimately show ?thesis by (simp add: uint_word_of_int)
qed

lemma allocation_call:
  assumes "buildAllocateWinnerPlan k ka i = Inr a" "call_of_plan (ap_plan a) = Some c"
  shows "c = CallAllocate (et_tenderKey (ap_plan a)) (toLowerCase (aw_winnerAddress i)) (uint_arg (aw_winningAmountAtomic i))
     (aw_decisionManifestHash i) (aw_allocationAuthorizationHash i)"
  using allocation_plan_amounts(1,8) [OF assms(1)] assms(2) by (simp add: call_of_plan_def split: if_splits)

text \<open>
  C4. Lifecycle and contract agree on an allocation.  Take a tender whose winner is selected and
  the plan built from the amounts on its record.  If the executor runs the plan on a contract
  that holds the same budget, and the lifecycle later accepts a confirmation of the allocation,
  then both books say the same: what is held for the carrier, what went back to the shipper and
  what is paid so far.\<close>

theorem allocation_books_agree:
  assumes "reachable h r" "lr_state r = WINNER_SELECTED" "lr_winningAmountAtomic r = Some win"
    and "lr_fundedAmountAtomic r = Some funded"
    and "buildAllocateWinnerPlan k ka i = Inr a" "aw_fundedAmountAtomic i = funded" "aw_winningAmountAtomic i = win"
    and "moves_tokens hts" "escrow_run k ka hts w cs" "sender \<noteq> ew_self w"
    and "uint (tx_maxBudget (ew_tenders w (et_tenderKey (ap_plan a)))) = amount funded"
    and "call_of_plan (ap_plan a) = Some c" "call_contract k ka hts sender c w = Inr w'"
    and "ev_body e = WINNING_AMOUNT_ALLOCATION_CONFIRMED p" "reduceLifecycle h ctx r e = Inr r'"
  shows "ledger_of r' = tender_ledger w' (et_tenderKey (ap_plan a))"
proof -
  define key where "key = et_tenderKey (ap_plan a)"
  note pl = allocation_plan_amounts [OF assms(5), unfolded assms(6,7)]
  have al: "allocateWinner hts sender key (toLowerCase (aw_winnerAddress i)) (uint_arg win) (aw_decisionManifestHash i)
      (aw_allocationAuthorizationHash i) w = Inr w'"
    using allocation_call [OF assms(5,12)] assms(7,13) by (simp add: key_def)
  note t = allocateWinner_tender [OF al]
  have "amount win \<le> MAX_HTS_ATOMIC_AMOUNT" using pl(4,6) amount_nonneg(1) [of "ap_excessRefundAtomic a"] by linarith
  then have lw: "uint (tx_lockedAmount (ew_tenders w' key)) = amount win"
    using uint_arg_amount [OF positive_is_nonNegative [OF pl(2)]] uint_ucast_down(1) [OF t(4)] t(2) by simp
  have "escrow_inv w'" using escrow_run_inv [OF assms(8) escrow_run.call [OF assms(9,10,13)]] .
  then have "tender_ledger w' key = \<lparr> held = amount win, returned = amount funded - amount win, paid = 0 \<rparr>"
    using tenders_okD [of w' key] t lw assms(11) held_eq [of w' key]
    by (intro ledger.equality) (auto simp: tender_ok_def balance_of_def key_def)
  then show ?thesis
    using allocation_plan_confirmed(3) [OF assms(1-7,14,15)] pl(4) by (simp add: key_def)
qed

text \<open>The token service moves tokens whenever the sender has them.\<close>

definition hts_available :: "hts_fn \<Rightarrow> bool" where
  "hts_available hts \<longleftrightarrow> (\<forall>tok src dst n b. 0 \<le> n \<longrightarrow> n \<le> b src \<longrightarrow> fst (hts tok src dst n b) = HTS_SUCCESS_RESPONSE_CODE)"

lemma transferOut_ok:
  assumes "hts_available hts" "uint n \<le> 9223372036854775807" "uint n \<le> ew_balances w (ew_self w)"
  shows "\<exists>b. transferOut hts dst n w = Inr (w\<lparr> ew_balances := b \<rparr>)"
proof -
  have "sint n = uint n"
    using int_word_sint [where 'a = 64, of "uint n"] assms(2) by (simp add: mod_pos_pos_trivial)
  moreover have "0 \<le> uint n" by simp
  ultimately have "fst (hts (ew_escrowToken w) (ew_self w) dst (sint n) (ew_balances w)) = HTS_SUCCESS_RESPONSE_CODE"
    using assms(1,3) unfolding hts_available_def by metis
  then show ?thesis by (auto simp: transferOut_def htsTransfer_def split: prod.splits)
qed

lemma BYTES32_arg: "BYTES32_RE v \<Longrightarrow> bytes32_arg v"
  by (auto simp: BYTES32_RE_def bytes32_arg_def is_hex64_def list_all_iff is_lower_hex_def hex_val_def)

lemma balance_le_total:
  assumes "escrow_inv w" "tx_state (ew_tenders w key) \<noteq> UNREGISTERED"
  shows "uint (balance_of (ew_tenders w key)) \<le> uint (ew_totalEscrowedAmount w)"
  using assms member_le_sum [of key "support w" "\<lambda>q. uint (tenderBalance w q)"]
  by (auto simp: escrow_inv_def support_def tenderBalance_eq)

lemma allocateWinner_succeeds:
  assumes "escrow_inv w" "hts_available hts" "tx_state (ew_tenders w key) = FUNDED" "winner \<noteq> zeros 40"
    and "n \<noteq> 0" "n \<le> ucast (tx_fundedAmount (ew_tenders w key))" "m \<noteq> zeros 64" "auth \<noteq> zeros 64"
    and "\<not> ew_authorizationHashUsed w auth" "uint (tx_fundedAmount (ew_tenders w key)) \<le> 9223372036854775807"
  shows "\<exists>w'. allocateWinner hts (ew_owner w) key winner n m auth w = Inr w'"
proof -
  define t where "t = ew_tenders w key"
  define x where "x = tx_fundedAmount t - ucast n"
  have n: "uint n \<le> uint (tx_fundedAmount t)" using assms(6) by (simp add: word_le_def t_def)
  then have mx: "n \<le> MAX_HTS_AMOUNT" using assms(10) by (simp add: word_le_def MAX_HTS_AMOUNT_def t_def)
  then have u: "uint (ucast n :: 64 word) = uint n" by (rule uint_ucast_down)
  then have le: "ucast n \<le> tx_fundedAmount t" using n by (simp add: word_le_def)
  then have x: "uint x = uint (tx_fundedAmount t) - uint n" using u n by (simp add: x_def uint_sub_lem [THEN iffD1])
  have "uint (tx_fundedAmount t) \<le> uint (ew_totalEscrowedAmount w)"
    using balance_le_total [OF assms(1), of key] assms(3) by (simp add: balance_of_def t_def)
  moreover have "uint (ew_totalEscrowedAmount w) \<le> ew_balances w (ew_self w)" using assms(1) by (simp add: escrow_inv_def)
  moreover have "0 \<le> uint n" by simp
  ultimately have xt: "uint x \<le> uint (ew_totalEscrowedAmount w)" "uint x \<le> ew_balances w (ew_self w)"
    "uint x \<le> 9223372036854775807" using x assms(10) unfolding t_def by linarith+
  define w2 where "w2 = emit (EvAllocated key winner (ucast n) x m auth)
    ((put_tender key (t\<lparr> tx_state := ALLOCATED, tx_winner := winner, tx_lockedAmount := ucast n, tx_excessRefunded := x,
      tx_decisionManifestHash := m \<rparr>) (w\<lparr> ew_authorizationHashUsed := (ew_authorizationHashUsed w)(auth := True) \<rparr>))
      \<lparr> ew_totalEscrowedAmount := ew_totalEscrowedAmount w - ucast x \<rparr>)"
  have "ew_balances w2 = ew_balances w" "ew_self w2 = ew_self w" by (simp_all add: w2_def emit_def put_tender_def)
  then obtain b where o: "transferOut hts (tx_shipper t) x w2 = Inr (w2\<lparr> ew_balances := b \<rparr>)"
    using transferOut_ok [OF assms(2) xt(3), of w2 "tx_shipper t"] xt(2) by auto
  have "allocateWinner hts (ew_owner w) key winner n m auth w =
      (if x > 0 then Inr (emit (EvExcessRefunded key (tx_shipper t) x) (w2\<lparr> ew_balances := b \<rparr>)) else Inr w2)"
    using assms(3-9) mx le xt(1) o
    by (simp add: allocateWinner_def onlyOwner_def requireState_def consumeAuthorizationHash_def checked_sub_def less_total_def
        Let_def t_def [symmetric] x_def [symmetric] word_le_def w2_def put_tender_def)
  then show ?thesis by auto
qed


subsection \<open>A run\<close>

text \<open>
  A tender of five units of the token is registered, funded and awarded for four.  The token
  service of the example answers with success exactly when the sender has the tokens.
\<close>

definition demo_hts :: hts_fn where
  "demo_hts tok src dst n b = (if 0 \<le> n \<and> n \<le> b src then (22, moved src dst n b) else (178, b))"

lemma demo_hts_laws: "moves_tokens demo_hts" "hts_available demo_hts"
  by (auto simp: moves_tokens_def hts_available_def demo_hts_def HTS_SUCCESS_RESPONSE_CODE_def split: if_splits)

definition hex32 :: "char \<Rightarrow> string" where "hex32 c = ''0x'' @ replicate 64 c"
definition addr20 :: "char \<Rightarrow> string" where "addr20 c = ''0x'' @ replicate 40 c"

definition demo_keccak :: keccak_fn where "demo_keccak t = hex32 CHR ''1''"
definition demo_keccak_abi :: keccak_abi_fn where "demo_keccak_abi d i v = hex32 CHR ''2''"

definition demo_chain :: escrow_world where
  "demo_chain = \<lparr> ew_owner = addr20 CHR ''a'', ew_escrowToken = addr20 CHR ''b'', ew_self = addr20 CHR ''c'',
     ew_tenders = (\<lambda>_. empty_tender), ew_authorizationHashUsed = (\<lambda>_. False), ew_totalEscrowedAmount = 0,
     ew_balances = (\<lambda>x. if x = addr20 CHR ''d'' then 9000000 else 0), ew_events = [] \<rparr>"

definition demo_calls :: "escrow_call list" where
  "demo_calls = [CallRegister (hex32 CHR ''2'') (hex32 CHR ''1'') 1 (addr20 CHR ''d'') 5000000 (addr20 CHR ''b'')
       (hex32 CHR ''3'') (zeros 64),
     CallFund (hex32 CHR ''2'') 5000000]"

abbreviation demo_call :: "string \<Rightarrow> escrow_call \<Rightarrow> escrow_world \<Rightarrow> contract_error + escrow_world" where
  "demo_call \<equiv> call_contract demo_keccak demo_keccak_abi demo_hts"

definition demo_tender :: TenderEscrow where
  "demo_tender = empty_tender\<lparr> tx_state := REGISTERED, tx_tenderVersion := 1, tx_shipper := addr20 CHR ''d'',
     tx_maxBudget := 5000000, tx_tenderIdHash := hex32 CHR ''1'', tx_manifestHash := zeros 64,
     tx_creationAuthHash := hex32 CHR ''3'' \<rparr>"

definition demo_registered :: escrow_world where
  "demo_registered = demo_chain\<lparr> ew_tenders := (\<lambda>_. empty_tender)(hex32 CHR ''2'' := demo_tender),
     ew_authorizationHashUsed := (\<lambda>_. False)(hex32 CHR ''3'' := True),
     ew_events := [EvRegistered (hex32 CHR ''2'') (hex32 CHR ''1'') 1 (addr20 CHR ''d'') 5000000 (addr20 CHR ''b'')
       (hex32 CHR ''3'') (zeros 64)] \<rparr>"

definition demo_funded_chain :: escrow_world where
  "demo_funded_chain = demo_registered\<lparr>
     ew_tenders := (\<lambda>_. empty_tender)(hex32 CHR ''2'' := demo_tender\<lparr> tx_state := FUNDED, tx_fundedAmount := 5000000 \<rparr>),
     ew_totalEscrowedAmount := 5000000,
     ew_balances := moved (addr20 CHR ''d'') (addr20 CHR ''c'') 5000000 (ew_balances demo_chain),
     ew_events := ew_events demo_registered @ [EvFunded (hex32 CHR ''2'') (addr20 CHR ''d'') 5000000] \<rparr>"

lemma demo_texts: "hex32 c \<noteq> zeros 64 \<longleftrightarrow> c \<noteq> CHR ''0''" "addr20 c \<noteq> zeros 40 \<longleftrightarrow> c \<noteq> CHR ''0''"
  "hex32 c = hex32 d \<longleftrightarrow> c = d" "addr20 c = addr20 d \<longleftrightarrow> c = d"
  by (auto simp: hex32_def addr20_def zeros_def)

lemmas demo_chain_defs = demo_chain_def demo_registered_def demo_funded_chain_def demo_tender_def empty_tender_def
  demo_calls_def demo_keccak_def demo_keccak_abi_def demo_texts

lemma demo_registers: "demo_call (addr20 CHR ''a'') (demo_calls ! 0) demo_chain = Inr demo_registered"
  by (simp add: registerTender_def onlyOwner_def consumeAuthorizationHash_def put_tender_def emit_def computeTenderKey_def
      MAX_HTS_AMOUNT_def demo_chain_defs)

lemma demo_funds: "demo_call (addr20 CHR ''d'') (demo_calls ! 1) demo_registered = Inr demo_funded_chain"
  by (simp add: fundTender_def requireState_def checked_add_def transferIn_def htsTransfer_def demo_hts_def
      HTS_SUCCESS_RESPONSE_CODE_def put_tender_def emit_def demo_chain_defs)

lemma demo_chain_run: "escrow_run demo_keccak demo_keccak_abi demo_hts demo_funded_chain demo_calls"
proof -
  have "deployed demo_chain" by (simp add: deployed_def demo_chain_def addr20_def)
  moreover have "addr20 CHR ''a'' \<noteq> ew_self demo_chain" "addr20 CHR ''d'' \<noteq> ew_self demo_registered"
    by (simp_all add: demo_chain_defs)
  ultimately have "escrow_run demo_keccak demo_keccak_abi demo_hts demo_funded_chain (([] @ [demo_calls ! 0]) @ [demo_calls ! 1])"
    using demo_registers demo_funds by (blast intro: escrow_run.intros)
  then show ?thesis by (simp add: demo_calls_def)
qed

definition demo_allocate :: AllocateWinnerInput where
  "demo_allocate = \<lparr> aw_tenderId = ''T1'', aw_tenderVersion = 1, aw_winnerAddress = addr20 CHR ''E'',
     aw_fundedAmountAtomic = ''5000000'', aw_winningAmountAtomic = ''4000000'',
     aw_decisionManifestHash = hex32 CHR ''4'', aw_allocationAuthorizationHash = hex32 CHR ''5'' \<rparr>"

definition demo_plan :: AllocationPlan where
  "demo_plan = projr (buildAllocateWinnerPlan demo_keccak demo_keccak_abi demo_allocate)"

lemma demo_planned: "buildAllocateWinnerPlan demo_keccak demo_keccak_abi demo_allocate = Inr demo_plan"
  "et_tenderKey (ap_plan demo_plan) = hex32 CHR ''2''" "ap_excessRefundAtomic demo_plan = ''1000000''"
proof -
  have "is_ok (buildAllocateWinnerPlan demo_keccak demo_keccak_abi demo_allocate)" by code_simp
  then show "buildAllocateWinnerPlan demo_keccak demo_keccak_abi demo_allocate = Inr demo_plan"
    by (auto simp: demo_plan_def is_ok_iff)
  show "et_tenderKey (ap_plan demo_plan) = hex32 CHR ''2''" by code_simp
  show "ap_excessRefundAtomic demo_plan = ''1000000''" by code_simp
qed

lemma demo_funded_tender:
  "tx_state (ew_tenders demo_funded_chain (hex32 CHR ''2'')) = FUNDED"
  "uint (tx_maxBudget (ew_tenders demo_funded_chain (hex32 CHR ''2''))) = 5000000"
  "ew_owner demo_funded_chain \<noteq> ew_self demo_funded_chain"
  "\<not> ew_authorizationHashUsed demo_funded_chain (hex32 CHR ''5'')"
  "ew_totalEscrowedAmount demo_funded_chain = 5000000"
  by (simp_all add: demo_chain_defs)

lemma demo_amounts: "amount ''5000000'' = 5000000" "amount ''4000000'' = 4000000" "amount ''1000000'' = 1000000"
  by code_simp+

theorem escrow_solvent_witness:
  "escrow_run demo_keccak demo_keccak_abi demo_hts demo_funded_chain demo_calls
   \<and> (\<Sum>key\<in>support demo_funded_chain. uint (tenderBalance demo_funded_chain key)) = 5000000
   \<and> 5000000 \<le> ew_balances demo_funded_chain (ew_self demo_funded_chain)"
  using demo_chain_run escrow_solvent [OF demo_hts_laws(1) demo_chain_run] demo_funded_tender(5) by simp

theorem authorizations_used_once_witness:
  "List.map_filter call_auth demo_calls = [hex32 CHR ''3''] \<and> {a. ew_authorizationHashUsed demo_funded_chain a} = {hex32 CHR ''3''}"
proof -
  have "List.map_filter call_auth demo_calls = [hex32 CHR ''3'']" by (simp add: demo_calls_def List.map_filter_def)
  then show ?thesis using authorizations_used_once [OF demo_chain_run] by simp
qed


theorem contract_refines_ledger_witness:
  "ledger_step 5000000 (tender_ledger demo_registered (hex32 CHR ''2'')) (tender_ledger demo_funded_chain (hex32 CHR ''2''))"
proof -
  have d: "deployed demo_chain" by (simp add: deployed_def demo_chain_def addr20_def)
  have s: "addr20 CHR ''a'' \<noteq> ew_self demo_chain" "addr20 CHR ''d'' \<noteq> ew_self demo_registered"
    "call_key (demo_calls ! 1) = hex32 CHR ''2''" by (simp_all add: demo_chain_defs)
  show ?thesis
    using contract_refines_ledger [OF demo_hts_laws(1) escrow_run.call [OF escrow_run.deploy [OF d] s(1) demo_registers]
        s(2) demo_funds] demo_funded_tender(2) s(3) by simp
qed

text \<open>The delivery scenario of the lifecycle passes through an award and its allocation.\<close>

lemma demo_award:
  "\<exists>r e p r'. reachable demo_sha r \<and> lr_state r = WINNER_SELECTED \<and> lr_winningAmountAtomic r = Some ''4000000''
     \<and> lr_fundedAmountAtomic r = Some ''5000000'' \<and> ev_body e = WINNING_AMOUNT_ALLOCATION_CONFIRMED p
     \<and> reduceLifecycle demo_sha None r e = Inr r'"
proof -
  define s where "s = demo_delivery ! 4"
  define e where "e = demo_delivery ! 5"
  define p where "p = \<lparr> wa_allocateTxId = ''0.0.1@1.3'', wa_refundExcessTxId = Some ''0.0.1@1.4'',
    wa_maxBudgetAtomic = ''5000000'', wa_winningAmountAtomic = ''4000000'',
    wa_excessRefundAtomic = ''1000000'', wa_decisionManifestHash = demo_hash (CHR ''c'') \<rparr>"
  have d: "demo_delivery = take 4 demo_delivery @ [s, e] @ drop 6 demo_delivery"
    "fst s = None" "fst e = None" "ev_body (snd e) = WINNING_AMOUNT_ALLOCATION_CONFIRMED p"
    "\<exists>q. ev_body (snd s) = WINNER_SELECTION_CONFIRMED q \<and> ws_winningAmountAtomic q = ''4000000''"
    by (simp_all add: s_def e_def p_def demo_delivery_def demo_auction_def ev_def)
  obtain r9 where "run_events demo_sha demo_created demo_delivery = Inr r9"
    using demo_delivery_eval by (auto simp: res_simps)
  then obtain r4 r5 r6 where r: "run_events demo_sha demo_created (take 4 demo_delivery) = Inr r4"
    "reduceLifecycle demo_sha None r4 (snd s) = Inr r5" "reduceLifecycle demo_sha None r5 (snd e) = Inr r6"
    by (subst (asm) d(1)) (auto simp: run_events_append res_simps d(2,3))
  have a: "reachable demo_sha r5"
    using reachable.reduced [OF run_reachable [OF created [OF demo_created] r(1)] r(2)] .
  have w: "lr_state r5 = WINNER_SELECTED" "lr_winningAmountAtomic r5 = Some ''4000000''"
    using r(2) d(5) by (auto simp: reduceLifecycle_Inr_iff reduce_body_def on_winner_selection_confirmed_def res_simps stamp_def)
  have "lr_maximumFreightBudgetAtomic r5 = ''5000000''"
    using r(3) d(4) by (auto simp: reduceLifecycle_Inr_iff reduce_body_def on_winning_amount_allocation_confirmed_def
        res_simps p_def)
  then have "lr_fundedAmountAtomic r5 = Some ''5000000''" using reachable_funds [OF a] w(1) by (simp add: funds_inv_def)
  then show ?thesis using a w d(4) r(3) by blast
qed

lemma demo_allocates:
  "\<exists>c w'. call_of_plan (ap_plan demo_plan) = Some c \<and> demo_call (addr20 CHR ''a'') c demo_funded_chain = Inr w'"
proof -
  have c: "call_of_plan (ap_plan demo_plan) = Some (CallAllocate (hex32 CHR ''2'') (addr20 CHR ''e'') (uint_arg ''4000000'')
    (hex32 CHR ''4'') (hex32 CHR ''5''))" by code_simp
  have n: "uint_arg ''4000000'' = 4000000" by code_simp
  have "\<exists>w'. allocateWinner demo_hts (ew_owner demo_funded_chain) (hex32 CHR ''2'') (addr20 CHR ''e'') 4000000
      (hex32 CHR ''4'') (hex32 CHR ''5'') demo_funded_chain = Inr w'"
    by (rule allocateWinner_succeeds [OF escrow_run_inv [OF demo_hts_laws(1) demo_chain_run] demo_hts_laws(2)])
      (simp_all add: demo_chain_defs)
  then show ?thesis using c n by (simp add: demo_chain_defs)
qed

theorem allocation_books_agree_witness:
  "\<exists>r e r' c w'. reachable demo_sha r \<and> lr_state r = WINNER_SELECTED \<and> reduceLifecycle demo_sha None r e = Inr r'
     \<and> call_of_plan (ap_plan demo_plan) = Some c \<and> demo_call (addr20 CHR ''a'') c demo_funded_chain = Inr w'
     \<and> ledger_of r' = tender_ledger w' (hex32 CHR ''2'')"
proof -
  obtain r e p r' where l: "reachable demo_sha r" "lr_state r = WINNER_SELECTED" "lr_winningAmountAtomic r = Some ''4000000''"
    "lr_fundedAmountAtomic r = Some ''5000000''" "ev_body e = WINNING_AMOUNT_ALLOCATION_CONFIRMED p"
    "reduceLifecycle demo_sha None r e = Inr r'" using demo_award by blast
  obtain c w' where c: "call_of_plan (ap_plan demo_plan) = Some c" "demo_call (addr20 CHR ''a'') c demo_funded_chain = Inr w'"
    using demo_allocates by blast
  have "addr20 CHR ''a'' \<noteq> ew_self demo_funded_chain" by (simp add: demo_chain_defs)
  then have "ledger_of r' = tender_ledger w' (et_tenderKey (ap_plan demo_plan))"
    using demo_funded_tender(2) demo_planned(2)
    by (intro allocation_books_agree [OF l(1-4) demo_planned(1) _ _ demo_hts_laws(1) demo_chain_run _ _ c l(5,6)])
      (simp_all add: demo_allocate_def demo_amounts)
  then show ?thesis using l(1,2,6) c demo_planned(2) by auto
qed

end
