(* ===== verification/Pod_Review.thy ===== *)
theory Pod_Review
  imports Pod_Package Escrow_Solvency
begin

text \<open>
  The review of a proof of delivery: bound escrow plans (\<^verbatim>\<open>src/v2/pod/escrow-plans.ts\<close>), public
  messages (\<^verbatim>\<open>outbox.ts\<close>) and the handler \<open>shipperReview\<close> of \<^verbatim>\<open>service.ts\<close>, on any lifecycle store.

  The service keeps the plans it made in two maps; they are the state \<open>pod_plans\<close>.  The handler
  reads the tender, applies an event through the lifecycle service and reads the tender again.
  When the lifecycle refuses, the handler looks at the text of the error; texts are the parameter
  \<open>message\<close>.
\<close>

subsection \<open>Bound plans\<close>

datatype plan_kind = RELEASE_FULL_PLAN | OPEN_DISPUTE_PLAN

record BoundEscrowPlan =
  bp_plan :: EscrowTransactionPlan
  bp_contractId :: string
  bp_contractEvmAddress :: string
  bp_tenderId :: string
  bp_tenderVersion :: int
  bp_tenderKey :: string
  bp_lockedAmountAtomic :: string
  bp_authorizationHash :: string
  bp_podId :: string
  bp_podVersion :: int
  bp_kind :: plan_kind
  bp_networkWrite :: bool

record bound_plan_input =
  bi_tenderId :: string
  bi_tenderVersion :: int
  bi_tenderKey :: string
  bi_podId :: string
  bi_podVersion :: int
  bi_lockedAmountAtomic :: string
  bi_authorizationHash :: string
  bi_contractId :: string
  bi_contractEvmAddress :: string
  bi_requirePhaseC2LiveBindings :: bool

definition PHASE_C2_ESCROW_CONTRACT_ID :: string where "PHASE_C2_ESCROW_CONTRACT_ID = ''0.0.9861047''"
definition PHASE_C2_ESCROW_CONTRACT_EVM :: string where
  "PHASE_C2_ESCROW_CONTRACT_EVM = ''0x00000000000000000000000000000000009677b7''"
definition PHASE_C2_LOCKED_AMOUNT_ATOMIC :: string where "PHASE_C2_LOCKED_AMOUNT_ATOMIC = ''750000''"

definition authHash :: "hash_fn \<Rightarrow> string \<Rightarrow> string" where
  "authHash sha256 label = ''0x'' @ sha256 label"

definition shipperAcceptanceAuthorizationHash ::
  "hash_fn \<Rightarrow> string \<Rightarrow> string \<Rightarrow> int \<Rightarrow> string \<Rightarrow> string \<Rightarrow> string" where
  "shipperAcceptanceAuthorizationHash sha256 runOrTenderId podId podVersion actionId contentHash =
     authHash sha256 (''routeguard-v2-pod-accept:'' @ runOrTenderId @ '':'' @ podId @ '':v'' @ int_str podVersion @ '':''
       @ actionId @ '':'' @ contentHash)"

definition disputeAuthorizationHash ::
  "hash_fn \<Rightarrow> string \<Rightarrow> string \<Rightarrow> int \<Rightarrow> string \<Rightarrow> string \<Rightarrow> string" where
  "disputeAuthorizationHash sha256 runOrTenderId podId podVersion actionId disputeId =
     authHash sha256 (''routeguard-v2-pod-dispute:'' @ runOrTenderId @ '':'' @ podId @ '':v'' @ int_str podVersion @ '':''
       @ disputeId @ '':'' @ actionId)"

definition binding_failed :: "'e pod_error" where
  "binding_failed = PodError ''ESCROW_PLAN_BINDING_FAILED''"

definition bound_plan :: "plan_kind \<Rightarrow> bound_plan_input \<Rightarrow> string \<Rightarrow> EscrowTransactionPlan \<Rightarrow> BoundEscrowPlan" where
  "bound_plan kind i authorizationHash tx =
     \<lparr> bp_plan = tx, bp_contractId = bi_contractId i, bp_contractEvmAddress = toLowerCase (bi_contractEvmAddress i),
       bp_tenderId = bi_tenderId i, bp_tenderVersion = bi_tenderVersion i, bp_tenderKey = bi_tenderKey i,
       bp_lockedAmountAtomic = bi_lockedAmountAtomic i, bp_authorizationHash = authorizationHash, bp_podId = bi_podId i,
       bp_podVersion = bi_podVersion i, bp_kind = kind, bp_networkWrite = False \<rparr>"

definition live_contract :: "bound_plan_input \<Rightarrow> bool" where
  "live_contract i \<longleftrightarrow> bi_contractId i = PHASE_C2_ESCROW_CONTRACT_ID
     \<and> toLowerCase (bi_contractEvmAddress i) = toLowerCase PHASE_C2_ESCROW_CONTRACT_EVM"

definition buildBoundReleaseFullPlan ::
  "keccak_fn \<Rightarrow> keccak_abi_fn \<Rightarrow> bound_plan_input \<Rightarrow> 'e pod_error + BoundEscrowPlan" where
  "buildBoundReleaseFullPlan keccak keccak_abi i =
     bind_res (guard_res (bi_requirePhaseC2LiveBindings i \<longrightarrow>
       live_contract i \<and> bi_lockedAmountAtomic i = PHASE_C2_LOCKED_AMOUNT_ATOMIC) binding_failed) (\<lambda>_.
     bind_res (map_err (\<lambda>_. binding_failed) (assertAuthorizationHash (bi_authorizationHash i))) (\<lambda>authorizationHash.
     bind_res (map_err PodEscrow (buildReleaseFullPlan keccak keccak_abi (bi_tenderId i) (bi_tenderVersion i) authorizationHash)) (\<lambda>tx.
     bind_res (guard_res (et_tenderKey tx = bi_tenderKey i) binding_failed) (\<lambda>_.
     bind_res (guard_res (et_networkWrite tx) binding_failed) (\<lambda>_.
     Inr (bound_plan RELEASE_FULL_PLAN i authorizationHash tx))))))"

definition buildBoundOpenDisputePlan ::
  "keccak_fn \<Rightarrow> keccak_abi_fn \<Rightarrow> bound_plan_input \<Rightarrow> 'e pod_error + BoundEscrowPlan" where
  "buildBoundOpenDisputePlan keccak keccak_abi i =
     bind_res (guard_res (bi_requirePhaseC2LiveBindings i \<longrightarrow> live_contract i) binding_failed) (\<lambda>_.
     bind_res (map_err (\<lambda>_. binding_failed) (assertAuthorizationHash (bi_authorizationHash i))) (\<lambda>authorizationHash.
     bind_res (map_err PodEscrow (buildOpenDisputePlan keccak keccak_abi (bi_tenderId i) (bi_tenderVersion i) authorizationHash)) (\<lambda>tx.
     bind_res (guard_res (et_tenderKey tx = bi_tenderKey i) binding_failed) (\<lambda>_.
     Inr (bound_plan OPEN_DISPUTE_PLAN i authorizationHash tx)))))"

subsection \<open>Public messages\<close>

definition pod_envelope :: "hash_fn \<Rightarrow> LifecycleRecord \<Rightarrow> string \<Rightarrow> (string \<times> json) list \<Rightarrow> 'e pod_error + HcsV2Envelope" where
  "pod_envelope sha256 r t payload = map_err PodPublic (buildHcsV2Envelope sha256
     \<lparr> hi_messageType = t, hi_tenderId = lr_tenderId r, hi_tenderVersion = lr_tenderVersion r,
       hi_tenderHash = lr_tenderHash r, hi_createdAt = lr_updatedAt r, hi_payload = JObj payload \<rparr>)"

definition buildPodSubmittedEnvelope :: "hash_fn \<Rightarrow> LifecycleRecord \<Rightarrow> int \<Rightarrow> 'e pod_error + HcsV2Envelope" where
  "buildPodSubmittedEnvelope sha256 r sizeBytes =
     bind_res (guard_res (truthy (lr_podId r) \<and> lr_podVersion r \<noteq> None) PodIdentityMissing) (\<lambda>_.
     bind_res (guard_res (truthy (lr_podContentHash r) \<and> truthy (lr_podCiphertextHash r)) PodIdentityMissing) (\<lambda>_.
     pod_envelope sha256 r ''POD_SUBMITTED''
       [(''podId'', JStr (the (lr_podId r))), (''podVersion'', JNum (the (lr_podVersion r))),
        (''contentHash'', JStr (the (lr_podContentHash r))), (''ciphertextHash'', JStr (the (lr_podCiphertextHash r))),
        (''sizeBytes'', JNum sizeBytes)]))"

definition buildPodAdvisoryAnchoredEnvelope :: "hash_fn \<Rightarrow> LifecycleRecord \<Rightarrow> string \<Rightarrow> 'e pod_error + HcsV2Envelope" where
  "buildPodAdvisoryAnchoredEnvelope sha256 r reportHash =
     bind_res (guard_res (truthy (lr_podId r)) PodIdentityMissing) (\<lambda>_.
     pod_envelope sha256 r ''POD_ADVISORY_ANCHORED''
       [(''podId'', JStr (the (lr_podId r))), (''reportHash'', JStr reportHash), (''binding'', JStr ''NON_BINDING_ADVISORY'')])"

definition buildPodReviewActionEnvelope ::
  "hash_fn \<Rightarrow> LifecycleRecord \<Rightarrow> ShipperReviewActionKind \<Rightarrow> string \<Rightarrow> 'e pod_error + HcsV2Envelope" where
  "buildPodReviewActionEnvelope sha256 r action reviewDeadlineAt =
     bind_res (guard_res (truthy (lr_podId r)) PodIdentityMissing) (\<lambda>_.
     pod_envelope sha256 r ''POD_REVIEW_ACTION''
       [(''podId'', JStr (the (lr_podId r))), (''action'', JStr (review_action_str action)),
        (''reviewDeadlineAt'', JStr reviewDeadlineAt)])"

definition buildDisputeOpenedEnvelope ::
  "hash_fn \<Rightarrow> LifecycleRecord \<Rightarrow> string \<Rightarrow> string \<Rightarrow> 'e pod_error + HcsV2Envelope" where
  "buildDisputeOpenedEnvelope sha256 r disputeId reasonCode =
     bind_res (guard_res (truthy (lr_podId r)) PodIdentityMissing) (\<lambda>_.
     pod_envelope sha256 r ''DISPUTE_OPENED''
       [(''disputeId'', JStr disputeId), (''podId'', JStr (the (lr_podId r))), (''reasonCode'', JStr reasonCode)])"

subsection \<open>The service\<close>

record pod_deps =
  pv_escrowContractId :: "string option"
  pv_escrowContractEvm :: "string option"
  pv_requirePhaseC2LiveBindings :: bool

record pod_plans =
  releasePlans :: "(string \<times> BoundEscrowPlan) list"
  disputePlans :: "(string \<times> BoundEscrowPlan) list"

record ShipperReviewInput =
  ri_tenderId :: string
  ri_tenderVersion :: int
  ri_podId :: string
  ri_action :: ShipperReviewActionKind
  ri_actionId :: string
  ri_signedAt :: string
  ri_reasons :: "reason list option"
  ri_signature :: string
  ri_disputeId :: "string option"

record ShipperReviewResult =
  sr_record :: LifecycleRecord
  sr_action :: ShipperReviewActionKind
  sr_escrowPlan :: "BoundEscrowPlan option"
  sr_outbox :: "(string \<times> HcsV2Envelope) list"
  sr_outcome :: apply_outcome

definition plan_key :: "string \<Rightarrow> string \<Rightarrow> string" where
  "plan_key tenderId actionId = tenderId @ ''|'' @ actionId"

definition or_default :: "'a \<Rightarrow> 'a option \<Rightarrow> 'a" where
  "or_default d x = (case x of None \<Rightarrow> d | Some v \<Rightarrow> v)"

definition requireRecord ::
  "(string \<Rightarrow> 's \<Rightarrow> 'e + LifecycleRecord option) \<Rightarrow> string \<Rightarrow> int \<Rightarrow> 's \<Rightarrow> 'e pod_error + LifecycleRecord" where
  "requireRecord get tenderId tenderVersion s =
     (case get tenderId s of
        Inl e \<Rightarrow> Inl (PodLifecycle e)
      | Inr None \<Rightarrow> Inl (PodError ''POD_NOT_FOUND'')
      | Inr (Some r) \<Rightarrow> if lr_tenderVersion r \<noteq> tenderVersion then Inl (PodError ''POD_INVALID'') else Inr r)"

text \<open>What both branches hand to the plan builders; only the branch of a new action asks for the live bindings.\<close>

definition plan_input ::
  "pod_deps \<Rightarrow> bool \<Rightarrow> LifecycleRecord \<Rightarrow> string \<Rightarrow> string \<Rightarrow> string \<Rightarrow> bound_plan_input" where
  "plan_input deps live r podId tenderKey authorizationHash =
     \<lparr> bi_tenderId = lr_tenderId r, bi_tenderVersion = lr_tenderVersion r, bi_tenderKey = tenderKey, bi_podId = podId,
       bi_podVersion = or_default 1 (lr_podVersion r), bi_lockedAmountAtomic = or_zero (lr_lockedAmountAtomic r),
       bi_authorizationHash = authorizationHash, bi_contractId = or_default ''0.0.0'' (pv_escrowContractId deps),
       bi_contractEvmAddress = or_default ''0x0000000000000000000000000000000000000001'' (pv_escrowContractEvm deps),
       bi_requirePhaseC2LiveBindings = live \<rparr>"

definition release_plan ::
  "hash_fn \<Rightarrow> keccak_fn \<Rightarrow> keccak_abi_fn \<Rightarrow> pod_deps \<Rightarrow> bool \<Rightarrow> LifecycleRecord \<Rightarrow> string \<Rightarrow> string \<Rightarrow> string
     \<Rightarrow> 'e pod_error + BoundEscrowPlan" where
  "release_plan sha256 keccak keccak_abi deps live r podId actionId tenderKey =
     buildBoundReleaseFullPlan keccak keccak_abi (plan_input deps live r podId tenderKey
       (shipperAcceptanceAuthorizationHash sha256 (lr_tenderId r) podId (or_default 1 (lr_podVersion r)) actionId
          (or_default [] (lr_podContentHash r))))"

definition review_replayed ::
  "hash_fn \<Rightarrow> keccak_fn \<Rightarrow> keccak_abi_fn \<Rightarrow> pod_deps \<Rightarrow> ShipperReviewInput \<Rightarrow> LifecycleRecord \<Rightarrow> pod_plans
     \<Rightarrow> ('e pod_error + ShipperReviewResult) \<times> pod_plans" where
  "review_replayed sha256 keccak keccak_abi deps i r ps =
     (let key = plan_key (ri_tenderId i) (ri_actionId i);
          cached = (case map_of (releasePlans ps) key of Some p \<Rightarrow> Some p | None \<Rightarrow> map_of (disputePlans ps) key) in
      case (if cached = None \<and> ri_action i = ACCEPT \<and> truthy (lr_podId r) \<and> truthy (lr_podContentHash r)
            then bind_res (map_err PodEscrow (escrowTenderKey keccak keccak_abi (lr_tenderId r) (lr_tenderVersion r))) (\<lambda>tenderKey.
              bind_res (release_plan sha256 keccak keccak_abi deps False r (the (lr_podId r)) (ri_actionId i) tenderKey) (\<lambda>p.
              Inr (Some p, ps\<lparr> releasePlans := AList.update key p (releasePlans ps) \<rparr>)))
            else Inr (cached, ps)) of
        Inl e \<Rightarrow> (Inl e, ps)
      | Inr (escrowPlan, ps') \<Rightarrow>
          (bind_res (if truthy (lr_podId r) \<and> truthy (lr_reviewDeadlineAt r)
             then bind_res (buildPodReviewActionEnvelope sha256 r (ri_action i) (the (lr_reviewDeadlineAt r)))
               (\<lambda>e. Inr [(''POD_REVIEW_ACTION'', e)])
             else Inr []) (\<lambda>outbox.
           Inr \<lparr> sr_record = r, sr_action = ri_action i, sr_escrowPlan = escrowPlan, sr_outbox = outbox,
             sr_outcome = REPLAYED \<rparr>), ps'))"

text \<open>The checks of a new action, and the event it becomes.\<close>

definition review_event :: "ShipperReviewInput \<Rightarrow> string \<Rightarrow> LifecycleEvent" where
  "review_event i reviewDeadlineAt =
     (let p = \<lparr> pr_reasons = or_default [] (ri_reasons i), pr_shipperSignature = ri_signature i, pr_signedAt = ri_signedAt i,
        pr_reviewDeadlineAt = reviewDeadlineAt \<rparr> in
      \<lparr> ev_actionId = ri_actionId i, ev_eventTime = ri_signedAt i, ev_body =
        (case ri_action i of
           ACCEPT \<Rightarrow> POD_ACCEPTED_BY_SHIPPER (ri_signature i) (ri_signedAt i) reviewDeadlineAt
         | REQUEST_CORRECTION \<Rightarrow> POD_CORRECTION_REQUESTED_EVENT p
         | REJECT_DISPUTE \<Rightarrow> POD_REJECTED_TO_DISPUTE p (or_default (''dispute-'' @ ri_actionId i) (ri_disputeId i))) \<rparr>)"

definition check_review ::
  "hash_fn \<Rightarrow> ecdsa_fn \<Rightarrow> ShipperReviewInput \<Rightarrow> LifecycleRecord \<Rightarrow> 'e pod_error + LifecycleEvent" where
  "check_review sha256 ecdsa i r =
     bind_res (guard_res (lr_state r = POD_UNDER_REVIEW) (PodError ''POD_REVIEW_NOT_ALLOWED'')) (\<lambda>_.
     bind_res (guard_res (truthy (lr_reviewDeadlineAt r) \<and> truthy (lr_podId r)) (PodError ''POD_REVIEW_NOT_ALLOWED'')) (\<lambda>_.
     bind_res (guard_res (lr_podId r = Some (ri_podId i)) (PodError ''POD_INVALID'')) (\<lambda>_.
     bind_res (map_err PodTime (isBeforeOrEqualUtc (ri_signedAt i) (the (lr_reviewDeadlineAt r)))) (\<lambda>in_time.
     bind_res (guard_res in_time (PodError ''POD_REVIEW_DEADLINE_EXPIRED'')) (\<lambda>_.
     bind_res (guard_res (\<not> (ri_action i \<noteq> ACCEPT \<and> or_default [] (ri_reasons i) = [])) (PodError ''POD_INVALID'')) (\<lambda>_.
     bind_res (map_err (\<lambda>_. PodError ''SHIPPER_AUTHORIZATION_INVALID'')
       (verifyShipperPodReview sha256 ecdsa (trustPolicyFromRecord r) (lr_tenderId r) (lr_tenderVersion r) (ri_podId i)
          (ri_action i) (map_option (map fst) (ri_reasons i)) (ri_signedAt i) (the (lr_reviewDeadlineAt r)) (ri_actionId i)
          (ri_signature i))) (\<lambda>_.
     Inr (review_event i (the (lr_reviewDeadlineAt r))))))))))"

fun contains_text :: "string \<Rightarrow> string \<Rightarrow> bool" where
  "contains_text p [] \<longleftrightarrow> p = []"
| "contains_text p (c # cs) \<longleftrightarrow> take (length p) (c # cs) = p \<or> contains_text p cs"

definition review_failed :: "('e \<Rightarrow> string) \<Rightarrow> 'e \<Rightarrow> 'e pod_error" where
  "review_failed message e =
     (if contains_text ''AFTER_REVIEW'' (message e) then PodError ''POD_REVIEW_DEADLINE_EXPIRED''
      else if contains_text ''conflict'' (toLowerCase (message e)) then PodError ''ACTION_ID_CONFLICT''
      else PodLifecycle e)"

definition public_reason_code :: "reason list option \<Rightarrow> string" where
  "public_reason_code reasons =
     (let raw = (case reasons of Some ((code, m) # rs) \<Rightarrow> code | _ \<Rightarrow> ''OTHER_STRUCTURED'') in
      if List.member [''DAMAGED'', ''MISSING_DOCUMENT'', ''SEAL_MISMATCH'', ''DELIVERY_EXCEPTION'', ''OTHER_STRUCTURED''] raw
      then raw else ''OTHER_STRUCTURED'')"

text \<open>
  After the event: the plan (kept if one was already made for the action), then the messages.  The
  plan is stored before the messages are built, so it stays when they fail.
\<close>

definition review_plan ::
  "hash_fn \<Rightarrow> keccak_fn \<Rightarrow> keccak_abi_fn \<Rightarrow> pod_deps \<Rightarrow> ShipperReviewInput \<Rightarrow> LifecycleRecord \<Rightarrow> string \<Rightarrow> string
     \<Rightarrow> pod_plans \<Rightarrow> 'e pod_error + BoundEscrowPlan option \<times> pod_plans" where
  "review_plan sha256 keccak keccak_abi deps i r disputeId tenderKey ps =
     (let key = plan_key (ri_tenderId i) (ri_actionId i) in
      case ri_action i of
        ACCEPT \<Rightarrow>
          (case map_of (releasePlans ps) key of
             Some p \<Rightarrow> Inr (Some p, ps)
           | None \<Rightarrow> bind_res (release_plan sha256 keccak keccak_abi deps (pv_requirePhaseC2LiveBindings deps) r (ri_podId i)
               (ri_actionId i) tenderKey) (\<lambda>p. Inr (Some p, ps\<lparr> releasePlans := AList.update key p (releasePlans ps) \<rparr>)))
      | REQUEST_CORRECTION \<Rightarrow> Inr (None, ps)
      | REJECT_DISPUTE \<Rightarrow>
          (case map_of (disputePlans ps) key of
             Some p \<Rightarrow> Inr (Some p, ps)
           | None \<Rightarrow> bind_res (buildBoundOpenDisputePlan keccak keccak_abi
               (plan_input deps (pv_requirePhaseC2LiveBindings deps) r (ri_podId i) tenderKey
                 (disputeAuthorizationHash sha256 (lr_tenderId r) (ri_podId i) (or_default 1 (lr_podVersion r)) (ri_actionId i)
                    disputeId)))
               (\<lambda>p. Inr (Some p, ps\<lparr> disputePlans := AList.update key p (disputePlans ps) \<rparr>))))"

definition review_outbox ::
  "hash_fn \<Rightarrow> ShipperReviewInput \<Rightarrow> LifecycleRecord \<Rightarrow> string \<Rightarrow> string \<Rightarrow> 'e pod_error + (string \<times> HcsV2Envelope) list" where
  "review_outbox sha256 i nxt disputeId reviewDeadlineAt =
     bind_res (if ri_action i = REJECT_DISPUTE
       then bind_res (buildDisputeOpenedEnvelope sha256 nxt disputeId (public_reason_code (ri_reasons i)))
         (\<lambda>e. Inr [(''DISPUTE_OPENED'', e)])
       else Inr []) (\<lambda>opened.
     bind_res (buildPodReviewActionEnvelope sha256 nxt (ri_action i) reviewDeadlineAt) (\<lambda>e.
     Inr (opened @ [(''POD_REVIEW_ACTION'', e)])))"

definition finish_review ::
  "hash_fn \<Rightarrow> keccak_fn \<Rightarrow> keccak_abi_fn \<Rightarrow> pod_deps \<Rightarrow> ShipperReviewInput \<Rightarrow> LifecycleRecord \<Rightarrow> LifecycleRecord
     \<Rightarrow> apply_outcome \<Rightarrow> pod_plans \<Rightarrow> ('e pod_error + ShipperReviewResult) \<times> pod_plans" where
  "finish_review sha256 keccak keccak_abi deps i r nxt oc ps =
     (let disputeId = or_default (or_default (''dispute-'' @ ri_actionId i) (ri_disputeId i)) (lr_disputeId nxt) in
      case bind_res (map_err PodEscrow (escrowTenderKey keccak keccak_abi (lr_tenderId r) (lr_tenderVersion r))) (\<lambda>tenderKey.
        review_plan sha256 keccak keccak_abi deps i r disputeId tenderKey ps) of
        Inl e \<Rightarrow> (Inl e, ps)
      | Inr (escrowPlan, ps') \<Rightarrow>
          (bind_res (review_outbox sha256 i nxt disputeId (the (lr_reviewDeadlineAt r))) (\<lambda>outbox.
             Inr \<lparr> sr_record = nxt, sr_action = ri_action i, sr_escrowPlan = escrowPlan, sr_outbox = outbox,
               sr_outcome = oc \<rparr>), ps'))"

text \<open>A tender the lifecycle has just written is found; the code relies on it (\<open>get(...)!\<close>).\<close>

definition shipperReview ::
  "hash_fn \<Rightarrow> ecdsa_fn \<Rightarrow> keccak_fn \<Rightarrow> keccak_abi_fn \<Rightarrow> carrier_registry option \<Rightarrow> ('e \<Rightarrow> string) \<Rightarrow> (store_error \<Rightarrow> 'e)
     \<Rightarrow> (string \<Rightarrow> 's \<Rightarrow> 'e + LifecycleRecord option)
     \<Rightarrow> (string \<Rightarrow> int \<Rightarrow> LifecycleRecord \<Rightarrow> 's \<Rightarrow> ('e + LifecycleRecord) \<times> 's)
     \<Rightarrow> pod_deps \<Rightarrow> ShipperReviewInput \<Rightarrow> pod_plans \<Rightarrow> 's \<Rightarrow> (('e pod_error + ShipperReviewResult) \<times> pod_plans) \<times> 's" where
  "shipperReview sha256 ecdsa keccak keccak_abi carriers message err get cas deps i ps s =
     (case requireRecord get (ri_tenderId i) (ri_tenderVersion i) s of
        Inl e \<Rightarrow> ((Inl e, ps), s)
      | Inr r \<Rightarrow>
          if prior_action r (ri_actionId i) \<noteq> None then (review_replayed sha256 keccak keccak_abi deps i r ps, s)
          else (case check_review sha256 ecdsa i r of
             Inl e \<Rightarrow> ((Inl e, ps), s)
           | Inr event \<Rightarrow>
               (case apply_event sha256 ecdsa carriers err get cas (ri_tenderId i) event s of
                  (Inl e, s') \<Rightarrow> ((Inl (review_failed message e), ps), s')
                | (Inr (p, oc), s') \<Rightarrow>
                    (case get (ri_tenderId i) s' of
                       Inl e \<Rightarrow> ((Inl (PodLifecycle e), ps), s')
                     | Inr None \<Rightarrow> ((Inl PodTypeError, ps), s')
                     | Inr (Some nxt) \<Rightarrow> (finish_review sha256 keccak keccak_abi deps i r nxt oc ps, s')))))"

abbreviation shipperReview_file ::
  "hash_fn \<Rightarrow> ecdsa_fn \<Rightarrow> keccak_fn \<Rightarrow> keccak_abi_fn \<Rightarrow> carrier_registry option \<Rightarrow> (file_error \<Rightarrow> string) \<Rightarrow> file_io
     \<Rightarrow> pod_deps \<Rightarrow> ShipperReviewInput \<Rightarrow> pod_plans \<Rightarrow> lifecycle_files
     \<Rightarrow> ((file_error pod_error + ShipperReviewResult) \<times> pod_plans) \<times> lifecycle_files" where
  "shipperReview_file h ecdsa k ka carriers message io \<equiv>
     shipperReview h ecdsa k ka carriers message StoreFailure (\<lambda>t s. map_err StoreFailure (readRecord h t s)) (file_compareAndSet h io)"

end
