(* ===== verification/Pod_Payment.thy ===== *)
theory Pod_Payment
  imports Pod_Review
begin

text \<open>
  From the review of a delivery to the payment.  An accepted delivery is signed, gets a release
  plan, and the plan pays the carrier on the contract; what a repeated request does; and when a
  decision is committed although the request fails.
\<close>

subsection \<open>A new decision\<close>

lemma release_plan_Inr:
  assumes "release_plan h k ka deps live r podId actionId key = Inr p"
  shows "bp_kind p = RELEASE_FULL_PLAN" "bp_lockedAmountAtomic p = or_zero (lr_lockedAmountAtomic r)"
    "et_contractFunction (bp_plan p) = ''releaseFull''" "et_args (bp_plan p) = [Bytes32 key, Bytes32 (bp_authorizationHash p)]"
    "et_tenderKey (bp_plan p) = key" "bp_tenderKey p = key" "BYTES32_RE (bp_authorizationHash p)"
    "bp_authorizationHash p \<noteq> zeros 64"
    "bp_authorizationHash p = shipperAcceptanceAuthorizationHash h (lr_tenderId r) podId (or_default 1 (lr_podVersion r)) actionId
       (or_default [] (lr_podContentHash r))"
  using assms
  by (auto simp: release_plan_def buildBoundReleaseFullPlan_def buildReleaseFullPlan_def simpleAuthorizedPlan_def res_simps
      plan_input_def bound_plan_def plan_def)

lemma replayed_outcome: "review_replayed h k ka deps i r ps = (Inr res, ps') \<Longrightarrow> sr_outcome res = REPLAYED \<and> sr_record res = r"
  by (auto simp: review_replayed_def Let_def res_simps split: sum.splits if_splits)

lemma finish_review_Inr:
  assumes "finish_review h k ka deps i r nxt oc ps = (Inr res :: 'e pod_error + _, ps')"
  shows "sr_record res = nxt" "sr_outcome res = oc"
    "\<exists>key d. escrowTenderKey k ka (lr_tenderId r) (lr_tenderVersion r) = Inr key
       \<and> review_plan h k ka deps i r d key ps = (Inr (sr_escrowPlan res, ps') :: 'e pod_error + _)"
proof -
  define d where "d = or_default (or_default (''dispute-'' @ ri_actionId i) (ri_disputeId i)) (lr_disputeId nxt)"
  note f = assms [unfolded finish_review_def Let_def, folded d_def]
  show "sr_record res = nxt" "sr_outcome res = oc" using f by (auto simp: bind_res_Inr_iff split: sum.splits)
  show "\<exists>key d. escrowTenderKey k ka (lr_tenderId r) (lr_tenderVersion r) = Inr key
       \<and> review_plan h k ka deps i r d key ps = (Inr (sr_escrowPlan res, ps') :: 'e pod_error + _)"
    using f by (cases "escrowTenderKey k ka (lr_tenderId r) (lr_tenderVersion r)")
      (auto simp: bind_res_Inr_iff intro!: exI [of _ d] split: sum.splits)
qed

lemma check_review_Inr:
  assumes "check_review h ecdsa i r = (Inr e :: 'e pod_error + _)"
  shows "e = review_event i (the (lr_reviewDeadlineAt r))" "lr_state r = POD_UNDER_REVIEW" "lr_podId r = Some (ri_podId i)"
    "truthy (lr_reviewDeadlineAt r)" "isBeforeOrEqualUtc (ri_signedAt i) (the (lr_reviewDeadlineAt r)) = Inr True"
    "verifyCanonicalPayload ecdsa (shipper_payload_json (buildShipperPodReviewSignPayload (lr_tenderId r) (lr_tenderVersion r)
       (ri_podId i) (ri_action i) (map_option (map fst) (ri_reasons i)) (ri_signedAt i) (the (lr_reviewDeadlineAt r))
       (ri_actionId i))) (ri_signature i) (ts_shipperPublicKey (lr_trust r))"
  using assms by (auto simp: check_review_def res_simps dest!: verifyShipper_Inr)

lemma review_applied:
  assumes "shipperReview h ecdsa k ka cs msg err get cas deps i ps s = ((Inr res :: 'e pod_error + _, ps'), s')"
    "sr_outcome res = APPLIED"
  obtains r p nxt where "get (ri_tenderId i) s = Inr (Some r)"
    "check_review h ecdsa i r = (Inr (review_event i (the (lr_reviewDeadlineAt r))) :: 'e pod_error + _)"
    "apply_event h ecdsa cs err get cas (ri_tenderId i) (review_event i (the (lr_reviewDeadlineAt r))) s = (Inr (p, APPLIED), s')"
    "get (ri_tenderId i) s' = Inr (Some nxt)" "finish_review h k ka deps i r nxt APPLIED ps = (Inr res :: 'e pod_error + _, ps')"
proof -
  obtain r where r: "get (ri_tenderId i) s = Inr (Some r)"
    and np: "prior_action r (ri_actionId i) = None"
    using assms by (auto simp: shipperReview_def requireRecord_def dest: replayed_outcome split: sum.splits option.splits if_splits)
  obtain e where e: "check_review h ecdsa i r = (Inr e :: 'e pod_error + _)"
    using assms(1) r np by (auto simp: shipperReview_def requireRecord_def split: sum.splits if_splits)
  obtain p oc where ap: "apply_event h ecdsa cs err get cas (ri_tenderId i) e s = (Inr (p, oc), s')"
    using assms(1) r np e
    by (auto simp: shipperReview_def requireRecord_def split: sum.splits if_splits prod.splits option.splits)
  obtain nxt where n: "get (ri_tenderId i) s' = Inr (Some nxt)"
    and f: "finish_review h k ka deps i r nxt oc ps = (Inr res :: 'e pod_error + _, ps')"
    using assms(1) r np e ap by (auto simp: shipperReview_def requireRecord_def split: sum.splits if_splits option.splits)
  have "oc = APPLIED" using finish_review_Inr(2) [OF f] assms(2) by simp
  then show ?thesis using that [OF r _ _ n] e f ap check_review_Inr(1) [OF e] by simp
qed

subsection \<open>Releasing on the contract\<close>

lemma call_keeps_budget:
  assumes "call_contract k ka hts sender c w = Inr w'"
  shows "tx_maxBudget (ew_tenders w' key) = tx_maxBudget (ew_tenders w key)
    \<or> uint (tx_maxBudget (ew_tenders w' key)) \<le> 9223372036854775807"
  using assms
  by (cases c)
    (auto simp: registerTender_def fundTender_def allocateWinner_def refundNoQualifiedBid_def releaseFull_def openDispute_def
      resolveDisputeRelease_def refundFull_def partialRelease_def call_defs put_tender_def emit_def less_total_Inr
      uint_ucast_down dest!: transfer_keeps_tenders split: if_splits)

lemma run_budget:
  assumes "escrow_run k ka hts w cs"
  shows "uint (tx_maxBudget (ew_tenders w key)) \<le> 9223372036854775807"
  using assms
proof (induction rule: escrow_run.induct)
  case (call w cs sender c w')
  then show ?case using call_keeps_budget [OF call(3), of key] by auto
qed (auto simp: deployed_def empty_tender_def)

lemma releaseFull_pays:
  assumes "moves_tokens hts" "hts_available hts" "escrow_inv w" "tx_state (ew_tenders w key) = ALLOCATED"
    and "auth \<noteq> zeros 64" "\<not> ew_authorizationHashUsed w auth"
    and "uint (tx_lockedAmount (ew_tenders w key)) \<le> 9223372036854775807"
  shows "\<exists>w'. releaseFull hts (ew_owner w) key auth w = Inr w'
    \<and> tender_ledger w' key = \<lparr> held = 0, returned = returned (tender_ledger w key), paid = held (tender_ledger w key) \<rparr>"
proof -
  define t where "t = ew_tenders w key"
  define n where "n = tx_lockedAmount t"
  define t' where "t' = t\<lparr> tx_state := RELEASED, tx_settlementAuthHash := auth \<rparr>"
  define u where "u = (ew_authorizationHashUsed w)(auth := True)"
  define evt where "evt = EvReleased key (tx_winner t) n auth False"
  have o: "owes (ew_tenders w key) n" using assms(4) by (simp add: owes_def n_def t_def)
  have "uint n \<le> uint (ew_totalEscrowedAmount w)"
    using balance_le_total [OF assms(3), of key] assms(4) by (simp add: balance_of_def n_def t_def)
  moreover define w2 where "w2 = (put_tender key t' (w\<lparr> ew_authorizationHashUsed := u \<rparr>))
    \<lparr> ew_totalEscrowedAmount := ew_totalEscrowedAmount w - ucast n \<rparr>"
  ultimately have l: "less_total n (put_tender key t' (w\<lparr> ew_authorizationHashUsed := u \<rparr>)) = Inr w2"
    by (simp add: less_total_Inr put_tender_def)
  have "uint n \<le> ew_balances w (ew_self w)"
    using \<open>uint n \<le> uint (ew_totalEscrowedAmount w)\<close> assms(3) by (simp add: escrow_inv_def)
  then obtain b where tr: "transferOut hts (tx_winner t) n (emit evt w2) = Inr ((emit evt w2)\<lparr> ew_balances := b \<rparr>)"
    using transferOut_ok [OF assms(2), of n "emit evt w2" "tx_winner t"] assms(7)
    by (auto simp: emit_def w2_def put_tender_def n_def t_def)
  have r: "releaseFull hts (ew_owner w) key auth w = Inr ((emit evt w2)\<lparr> ew_balances := b \<rparr>)"
    using assms(4-6) l tr
    by (simp add: releaseFull_def onlyOwner_def requireState_def consumeAuthorizationHash_def Let_def t_def [symmetric]
        n_def [symmetric] t'_def [symmetric] u_def [symmetric] evt_def [symmetric])
  have "call_effect key w t' [evt] ((emit evt w2)\<lparr> ew_balances := b \<rparr>)"
    using settle_effect [OF assms(1) l tr] assms(4) by (simp add: balance_of_def n_def t_def t'_def evt_def)
  then show ?thesis
    using r ledger_after [of key w t' "[evt]" _ key] owes_ledger(1,2) [OF assms(3) o]
    by (auto simp: balance_of_def t'_def evt_def)
qed

subsection \<open>The books of the lifecycle\<close>

lemma accepted_books:
  assumes "reduceLifecycle h ctx r e = Inr n" "ev_body e = POD_ACCEPTED_BY_SHIPPER sg t d"
  shows "lr_state r = POD_UNDER_REVIEW" "lr_state n = POD_ACCEPTED" "ledger_of n = ledger_of r"
    "lr_lockedAmountAtomic n = lr_lockedAmountAtomic r"
  using assms
  by (auto simp: reduceLifecycle_Inr_iff reduce_body_def on_pod_accepted_by_shipper_def res_simps stamp_def ledger_of_def
      state_group_defs)

lemma released_books:
  assumes "reduceLifecycle h ctx n e = Inr r" "ev_body e = ESCROW_RELEASE_CONFIRMED tx a" "lr_state n = POD_ACCEPTED"
    "lr_lockedAmountAtomic n = Some l"
  shows "ledger_of r = \<lparr> held = 0, returned = returned (ledger_of n), paid = held (ledger_of n) \<rparr>"
  using assms
  by (auto simp: reduceLifecycle_Inr_iff reduce_body_def on_escrow_release_confirmed_def res_simps stamp_def ledger_of_def
      state_group_defs locked_or_winning_def)

subsection \<open>Accepted deliveries\<close>

lemma accepted_plan:
  assumes "finish_review h k ka deps i r nxt APPLIED ps = (Inr res :: 'e pod_error + _, ps')" "ri_action i = ACCEPT"
    "map_of (releasePlans ps) (plan_key (ri_tenderId i) (ri_actionId i)) = None"
  obtains key p where "escrowTenderKey k ka (lr_tenderId r) (lr_tenderVersion r) = Inr key" "sr_escrowPlan res = Some p"
    "release_plan h k ka deps (pv_requirePhaseC2LiveBindings deps) r (ri_podId i) (ri_actionId i) key = (Inr p :: 'e pod_error + _)"
proof -
  obtain key d where key: "escrowTenderKey k ka (lr_tenderId r) (lr_tenderVersion r) = Inr key"
    "review_plan h k ka deps i r d key ps = (Inr (sr_escrowPlan res, ps') :: 'e pod_error + _)"
    using finish_review_Inr(3) [OF assms(1)] by blast
  obtain p where "release_plan h k ka deps (pv_requirePhaseC2LiveBindings deps) r (ri_podId i) (ri_actionId i) key
      = (Inr p :: 'e pod_error + _)" "sr_escrowPlan res = Some p"
    using key(2) assms(2,3) by (auto simp: review_plan_def bind_res_Inr_iff)
  then show ?thesis using that key(1) by blast
qed

lemma release_call:
  assumes "release_plan h k ka deps live r podId actionId key = Inr p" "BYTES32_RE key"
  shows "call_of_plan (bp_plan p) = Some (CallRelease key (bp_authorizationHash p))"
  using release_plan_Inr(3,4,7) [OF assms(1)] assms(2) by (simp add: call_of_plan_def BYTES32_arg)

text \<open>
  C15. An acceptance is signed and planned.  Suppose a shipper's acceptance is applied, on any store.
  Then the tender was under review and the committed record is accepted; the signature verifies
  under the shipper's key recorded with the tender, over a payload with tender, proof of delivery,
  deadline and action; the signing time is not after the deadline; and the answer carries the
  release plan for that tender, bound to this action and the delivered content, with the amount
  the record has locked.\<close>

theorem acceptance_is_signed:
  assumes "shipperReview h ecdsa k ka cs msg err get cas deps i ps s = ((Inr res :: 'e pod_error + _, ps'), s')"
    and "sr_outcome res = APPLIED" "ri_action i = ACCEPT"
    and "map_of (releasePlans ps) (plan_key (ri_tenderId i) (ri_actionId i)) = None"
  shows "\<exists>r n q key p. get (ri_tenderId i) s = Inr (Some r) \<and> lr_state r = POD_UNDER_REVIEW
    \<and> cas (ri_tenderId i) (lr_recordVersion r) n s = (Inr q, s') \<and> lr_state n = POD_ACCEPTED
    \<and> review_signed ecdsa r (review_event i (the (lr_reviewDeadlineAt r))) ACCEPT (map_option (map fst) (ri_reasons i))
        (ri_signedAt i) (the (lr_reviewDeadlineAt r)) (ri_signature i)
    \<and> instant (ri_signedAt i) \<le> instant (the (lr_reviewDeadlineAt r))
    \<and> escrowTenderKey k ka (lr_tenderId r) (lr_tenderVersion r) = Inr key \<and> sr_escrowPlan res = Some p
    \<and> et_contractFunction (bp_plan p) = ''releaseFull'' \<and> et_args (bp_plan p) = [Bytes32 key, Bytes32 (bp_authorizationHash p)]
    \<and> bp_authorizationHash p = shipperAcceptanceAuthorizationHash h (lr_tenderId r) (ri_podId i)
        (or_default 1 (lr_podVersion r)) (ri_actionId i) (or_default [] (lr_podContentHash r))
    \<and> bp_lockedAmountAtomic p = or_zero (lr_lockedAmountAtomic r)"
proof -
  obtain r q nxt where r: "get (ri_tenderId i) s = Inr (Some r)"
    "check_review h ecdsa i r = (Inr (review_event i (the (lr_reviewDeadlineAt r))) :: 'e pod_error + _)"
    and ap: "apply_event h ecdsa cs err get cas (ri_tenderId i) (review_event i (the (lr_reviewDeadlineAt r))) s
      = (Inr (q, APPLIED), s')"
    and f: "finish_review h k ka deps i r nxt APPLIED ps = (Inr res :: 'e pod_error + _, ps')"
    using review_applied [OF assms(1,2)] .
  obtain key p where p: "escrowTenderKey k ka (lr_tenderId r) (lr_tenderVersion r) = Inr key" "sr_escrowPlan res = Some p"
    "release_plan h k ka deps (pv_requirePhaseC2LiveBindings deps) r (ri_podId i) (ri_actionId i) key
       = (Inr p :: 'e pod_error + _)" using accepted_plan [OF f assms(3,4)] .
  obtain r' n where rn: "get (ri_tenderId i) s = Inr (Some r')"
    "plan_event h ecdsa cs r' (review_event i (the (lr_reviewDeadlineAt r))) = Inr (Commit n)"
    "cas (ri_tenderId i) (lr_recordVersion r') n s = (Inr q, s')" using apply_APPLIED [OF ap] .
  then obtain ctx where n: "cas (ri_tenderId i) (lr_recordVersion r) n s = (Inr q, s')"
    "reduceLifecycle h ctx r (review_event i (the (lr_reviewDeadlineAt r))) = Inr n"
    using r(1) by (auto simp: plan_Commit_iff)
  have "lr_state n = POD_ACCEPTED" by (rule accepted_books [OF n(2)]) (simp add: review_event_def assms(3))
  moreover note check_review_Inr [OF r(2)] release_plan_Inr [OF p(3)]
  ultimately show ?thesis
    using r(1) n(1) p(1,2) assms(3) by (auto simp: review_signed_def review_event_def isBeforeOrEqualUtc_Inr_iff)
qed


subsection \<open>The public message of a decision\<close>

lemma review_payload_text:
  "canonicalize (JObj [(''podId'', JStr podId), (''action'', JStr (review_action_str action)), (''reviewDeadlineAt'', JStr dl)])
   = Inr (''{'' @ join '','' [json_quote ''action'' @ '':'' @ json_quote (review_action_str action),
       json_quote ''podId'' @ '':'' @ json_quote podId, json_quote ''reviewDeadlineAt'' @ '':'' @ json_quote dl] @ ''}'')"
  by (simp add: canonicalize_def)

lemma review_payload_valid:
  "validatePayload ''POD_REVIEW_ACTION''
     (JObj [(''podId'', JStr podId), (''action'', JStr (review_action_str action)), (''reviewDeadlineAt'', JStr dl)]) = Inr ()
   \<longleftrightarrow> assertHcsId podId \<and> isUtcIsoTimestamp dl"
proof -
  have "List.member [''ACCEPT'', ''REQUEST_CORRECTION'', ''REJECT_DISPUTE''] (review_action_str action)"
    by (cases action) simp_all
  then show ?thesis
    by (simp add: validatePayload_def assertExactPayloadKeys_def payload_keys_def PAYLOAD_KEYS_def payload_checks_def
        PAYLOAD_CHECKS_def field_of_def)
qed

lemma review_payload_public:
  "assertHcsV2PublicSafe (JObj [(''podId'', JStr podId), (''action'', a), (''reviewDeadlineAt'', JStr dl)])
     \<longleftrightarrow> assertHcsV2PublicSafe a"
proof -
  have "\<not> prohibited_field ''podId''" "\<not> prohibited_field ''action''" "\<not> prohibited_field ''reviewDeadlineAt''"
    by code_simp+
  then show ?thesis by simp
qed

lemma action_bytes: "utf8ByteLength (json_quote (review_action_str action)) \<le> 20"
  by (cases action) (simp_all add: json_quote_def json_escape_def)

lemma review_payload_bytes:
  assumes "assertHcsId podId" "isUtcIsoTimestamp dl"
  shows "utf8ByteLength (''{'' @ join '','' [json_quote ''action'' @ '':'' @ json_quote (review_action_str action),
       json_quote ''podId'' @ '':'' @ json_quote podId, json_quote ''reviewDeadlineAt'' @ '':'' @ json_quote dl] @ ''}'') \<le> 500"
proof -
  have "utf8ByteLength (json_quote ''action'') = 8" "utf8ByteLength (json_quote ''podId'') = 7"
    "utf8ByteLength (json_quote ''reviewDeadlineAt'') = 18" by (simp_all add: json_quote_def json_escape_def)
  then show ?thesis
    using hcs_id_plain [OF assms(1)] time_plain [OF assms(2)] action_bytes [of action] by (simp add: quoted_bytes)
qed

text \<open>
  C39. When a decision can be published.  The public message of a review is built exactly when tender
  and proof of delivery have identifiers of at most 64 characters of the public alphabet, the
  version is a safe positive integer, the tender hash has its format, and both times are valid
  timestamps.  The limit of 1024 bytes never refuses one.\<close>

theorem review_message_iff:
  assumes "hex_digest h" "lr_podId r = Some podId"
  shows "is_ok (buildPodReviewActionEnvelope h r action dl :: 'e pod_error + _) \<longleftrightarrow>
    assertHcsId podId \<and> assertHcsId (lr_tenderId r) \<and> isSafePositiveInteger (lr_tenderVersion r)
    \<and> is_sha256_hash (lr_tenderHash r) \<and> isUtcIsoTimestamp (lr_updatedAt r) \<and> isUtcIsoTimestamp dl"
proof -
  define i where "i = \<lparr> hi_messageType = ''POD_REVIEW_ACTION'', hi_tenderId = lr_tenderId r, hi_tenderVersion = lr_tenderVersion r,
    hi_tenderHash = lr_tenderHash r, hi_createdAt = lr_updatedAt r, hi_payload = JObj [(''podId'', JStr podId),
      (''action'', JStr (review_action_str action)), (''reviewDeadlineAt'', JStr dl)] \<rparr>"
  have pub: "assertHcsV2PublicSafe (hi_payload i)" by (simp add: i_def review_payload_public del: assertHcsV2PublicSafe.simps(11))
  have val: "validatePayload (hi_messageType i) (hi_payload i) = Inr () \<longleftrightarrow> assertHcsId podId \<and> isUtcIsoTimestamp dl"
    by (simp add: i_def review_payload_valid)
  have mt: "List.member HCS_V2_MESSAGE_TYPES (hi_messageType i)" by (simp add: i_def HCS_V2_MESSAGE_TYPES_def)
  have "(\<exists>e. buildHcsV2Envelope h i = Inr e) \<longleftrightarrow>
    assertHcsId podId \<and> assertHcsId (lr_tenderId r) \<and> isSafePositiveInteger (lr_tenderVersion r)
    \<and> is_sha256_hash (lr_tenderHash r) \<and> isUtcIsoTimestamp (lr_updatedAt r) \<and> isUtcIsoTimestamp dl" (is "?b \<longleftrightarrow> ?c")
  proof
    show "?b \<Longrightarrow> ?c" using val by (auto simp: build_Inr_iff) (simp_all add: i_def)
    assume c: ?c
    then have v: "validatePayload (hi_messageType i) (hi_payload i) = Inr ()" using val by simp
    have t: "canonicalize (hi_payload i) = Inr (''{'' @ join '','' [json_quote ''action'' @ '':'' @
      json_quote (review_action_str action), json_quote ''podId'' @ '':'' @ json_quote podId,
      json_quote ''reviewDeadlineAt'' @ '':'' @ json_quote dl] @ ''}'')" unfolding review_payload_text [symmetric] by (simp add: i_def)
    have "assertHcsId (hi_tenderId i)" "isSafePositiveInteger (hi_tenderVersion i)" "is_sha256_hash (hi_tenderHash i)"
      "isUtcIsoTimestamp (hi_createdAt i)" using c by (simp_all add: i_def)
    then show ?b using build_succeeds [OF assms(1) t review_payload_bytes mt _ _ _ _ pub v] c by blast
  qed
  moreover have "is_ok (buildPodReviewActionEnvelope h r action dl :: 'e pod_error + _) \<longleftrightarrow>
      podId \<noteq> [] \<and> (\<exists>e. buildHcsV2Envelope h i = Inr e)"
    using assms(2) by (auto simp: buildPodReviewActionEnvelope_def pod_envelope_def is_ok_iff truthy_def i_def res_simps)
  moreover have "assertHcsId podId \<Longrightarrow> podId \<noteq> []" by (auto simp: assertHcsId_def)
  ultimately show ?thesis by blast
qed

subsection \<open>Repeated requests\<close>


subsection \<open>A decision that is committed although the request fails\<close>

lemma outbox_needs_id:
  assumes "review_outbox h i nxt d dl = (Inr out :: 'e pod_error + _)"
  shows "assertHcsId (lr_tenderId nxt)"
  using assms by (auto simp: review_outbox_def buildPodReviewActionEnvelope_def pod_envelope_def res_simps build_Inr_iff)

text \<open>
  C40. A long tender id fails after the commit.  The lifecycle accepts identifiers of up to 128
  characters, a public message only up to 64.  If a decision of the shipper passes the checks and
  is applied to a tender with a longer id, the tender has changed state and yet the request ends
  in an error.\<close>

theorem long_id_fails_after_commit:
  assumes "get (ri_tenderId i) s = Inr (Some r)" "lr_tenderVersion r = ri_tenderVersion i"
    and "prior_action r (ri_actionId i) = None" "check_review h ecdsa i r = (Inr e :: 'e pod_error + _)"
    and "apply_event h ecdsa cs err get cas (ri_tenderId i) e s = (Inr (q, oc), s')"
    and "get (ri_tenderId i) s' = Inr (Some nxt)" "64 < length (lr_tenderId nxt)"
  shows "\<exists>x ps'. shipperReview h ecdsa k ka cs msg err get cas deps i ps s = ((Inl x :: 'e pod_error + _, ps'), s')"
proof -
  have "\<not> assertHcsId (lr_tenderId nxt)" using assms(7) by (simp add: assertHcsId_def HCS_V2_MAX_ID_CHARS_def)
  then have "review_outbox h i nxt d dl \<noteq> (Inr out :: 'e pod_error + _)" for d dl out using outbox_needs_id by blast
  then have "\<exists>x. bind_res (review_outbox h i nxt d dl) f = (Inl x :: 'e pod_error + ShipperReviewResult)" for d dl f
    by (cases "review_outbox h i nxt d dl :: 'e pod_error + _") auto
  then have "\<exists>x ps'. finish_review h k ka deps i r nxt oc ps = (Inl x :: 'e pod_error + _, ps')"
    by (auto simp: finish_review_def Let_def split: sum.splits)
  then show ?thesis using assms(1-6) by (auto simp: shipperReview_def requireRecord_def)
qed

subsection \<open>Concrete reviews\<close>

definition demo_sha_f :: hash_fn where
  "demo_sha_f s = replicate 64 (CHR ''f'')"

definition demo_pod_deps :: pod_deps where
  "demo_pod_deps = \<lparr> pv_escrowContractId = None, pv_escrowContractEvm = None, pv_requirePhaseC2LiveBindings = False \<rparr>"

definition no_plans :: pod_plans where
  "no_plans = \<lparr> releasePlans = [], disputePlans = [] \<rparr>"

definition demo_review_input :: ShipperReviewInput where
  "demo_review_input = \<lparr> ri_tenderId = ''T1'', ri_tenderVersion = 1, ri_podId = ''pod1'', ri_action = ACCEPT,
     ri_actionId = ''a15'', ri_signedAt = ''2026-07-16T14:00:00Z'', ri_reasons = None,
     ri_signature = replicate 128 (CHR ''a''), ri_disputeId = None \<rparr>"

text \<open>The tender under review, with the carrier's submission in its index of actions.\<close>

definition demo_under_review :: LifecycleRecord where
  "demo_under_review = demo_reviewing\<lparr> lr_podContentHash := Some (''sha256:'' @ replicate 64 (CHR ''d'')),
     lr_processedActions := [(''a10'', \<lparr> pa2_actionId = ''a10'', pa2_eventType = ''POD_PACKAGE_SUBMITTED'',
       pa2_eventPayloadHash = ''sha256:'' @ replicate 64 (CHR ''f''), pa2_resultingState = POD_SUBMITTED,
       pa2_recordVersionAfter = 10, pa2_at = ''2026-07-16T08:30:00Z'' \<rparr>)] \<rparr>"

abbreviation demo_review ::
  "ecdsa_fn \<Rightarrow> ShipperReviewInput \<Rightarrow> LifecycleRecord
     \<Rightarrow> ((store_error pod_error + ShipperReviewResult) \<times> pod_plans) \<times> LifecycleRecord" where
  "demo_review ecdsa i r \<equiv> shipperReview demo_sha_f ecdsa demo_keccak demo_keccak_abi None (\<lambda>_. []) id one_get one_cas
     demo_pod_deps i no_plans r"

lemma demo_review_eval:
  "(case demo_review yes_ecdsa demo_review_input demo_under_review of
      ((Inr res, ps), s) \<Rightarrow> sr_outcome res = APPLIED \<and> lr_state (sr_record res) = POD_ACCEPTED | _ \<Rightarrow> False)"
  by code_simp

theorem acceptance_is_signed_witness:
  "\<exists>res ps s. demo_review yes_ecdsa demo_review_input demo_under_review = ((Inr res, ps), s)
     \<and> (\<exists>p. sr_escrowPlan res = Some p \<and> bp_lockedAmountAtomic p = ''4000000'')"
proof -
  obtain res ps s where d: "demo_review yes_ecdsa demo_review_input demo_under_review = ((Inr res, ps), s)" "sr_outcome res = APPLIED"
    using demo_review_eval by (auto split: prod.splits sum.splits)
  have "or_zero (lr_lockedAmountAtomic demo_under_review) = ''4000000''" by code_simp
  moreover have "ri_action demo_review_input = ACCEPT" "releasePlans no_plans = []"
    by (simp_all add: demo_review_input_def no_plans_def)
  ultimately show ?thesis using acceptance_is_signed [OF d] d(1) by (auto simp: one_get_def)
qed

lemma demo_release_planned:
  "\<exists>p. release_plan demo_sha_f demo_keccak demo_keccak_abi demo_pod_deps False demo_under_review ''pod1'' a (hex32 CHR ''2'')
     = (Inr p :: store_error pod_error + _) \<and> bp_authorizationHash p = hex32 CHR ''f''"
proof -
  have "is_ok (release_plan demo_sha_f demo_keccak demo_keccak_abi demo_pod_deps False demo_under_review ''pod1'' a (hex32 CHR ''2'')
    :: store_error pod_error + _)" by code_simp
  then show ?thesis
    using release_plan_Inr(9) [where 'a = store_error]
    by (fastforce simp: is_ok_iff shipperAcceptanceAuthorizationHash_def authHash_def demo_sha_f_def hex32_def)
qed


definition demo_release :: LifecycleEvent where
  "demo_release = ev ''a16'' ''2026-07-16T15:00:00Z'' (ESCROW_RELEASE_CONFIRMED ''0.0.1@1.9'' ''4000000'')"

lemma demo_accepted_released:
  "is_ok (bind_res (reduceLifecycle demo_sha_f (Some demo_accept_auth) demo_under_review demo_accept)
     (\<lambda>n. reduceLifecycle demo_sha_f None n demo_release))"
  by code_simp

lemma demo_allocated_chain:
  "\<exists>w cs. escrow_run demo_keccak demo_keccak_abi demo_hts w cs \<and> tx_state (ew_tenders w (hex32 CHR ''2'')) = ALLOCATED
     \<and> tender_ledger w (hex32 CHR ''2'') = \<lparr> held = 4000000, returned = 1000000, paid = 0 \<rparr>
     \<and> \<not> ew_authorizationHashUsed w (hex32 CHR ''f'')"
proof -
  let ?c = "CallAllocate (hex32 CHR ''2'') (addr20 CHR ''e'') 4000000 (hex32 CHR ''4'') (hex32 CHR ''5'')"
  obtain w where w: "allocateWinner demo_hts (ew_owner demo_funded_chain) (hex32 CHR ''2'') (addr20 CHR ''e'') 4000000
      (hex32 CHR ''4'') (hex32 CHR ''5'') demo_funded_chain = Inr w"
    using allocateWinner_succeeds [OF escrow_run_inv [OF demo_hts_laws(1) demo_chain_run] demo_hts_laws(2),
        of "hex32 CHR ''2''" "addr20 CHR ''e''" 4000000 "hex32 CHR ''4''" "hex32 CHR ''5''"]
    by (auto simp: demo_chain_defs)
  then have c: "demo_call (ew_owner demo_funded_chain) ?c demo_funded_chain = Inr w" by simp
  have run: "escrow_run demo_keccak demo_keccak_abi demo_hts w (demo_calls @ [?c])"
    using escrow_run.call [OF demo_chain_run demo_funded_tender(3) c] .
  note t = allocateWinner_tender [OF w]
  have "tx_maxBudget (ew_tenders w (hex32 CHR ''2'')) = 5000000" using t(3) by (simp add: demo_chain_defs)
  then have "tender_ledger w (hex32 CHR ''2'') = \<lparr> held = 4000000, returned = 1000000, paid = 0 \<rparr>"
    using tenders_okD [OF escrow_run_inv [OF demo_hts_laws(1) run], of "hex32 CHR ''2''"] t(1,2) held_eq [of w "hex32 CHR ''2''"]
    by (intro ledger.equality) (auto simp: tender_ok_def balance_of_def)
  moreover have "\<not> ew_authorizationHashUsed w (hex32 CHR ''f'')" using call_uses [OF c] by (simp add: demo_chain_defs)
  ultimately show ?thesis using run t(1) by blast
qed


theorem review_message_iff_witness:
  "hex_digest demo_sha_f \<and> is_ok (buildPodReviewActionEnvelope demo_sha_f demo_under_review REJECT_DISPUTE
     ''2026-07-18T09:00:00.000Z'' :: store_error pod_error + _)"
proof -
  have "hex_digest demo_sha_f" by (simp add: hex_digest_def demo_sha_f_def is_hex64_def list_all_iff is_lower_hex_def in_range_def)
  moreover have "lr_podId demo_under_review = Some ''pod1''" "assertHcsId ''pod1''" "assertHcsId (lr_tenderId demo_under_review)"
    "isSafePositiveInteger (lr_tenderVersion demo_under_review)" "is_sha256_hash (lr_tenderHash demo_under_review)"
    "isUtcIsoTimestamp (lr_updatedAt demo_under_review)" "isUtcIsoTimestamp ''2026-07-18T09:00:00.000Z''" by code_simp+
  ultimately show ?thesis using review_message_iff [of demo_sha_f demo_under_review "''pod1''" REJECT_DISPUTE
      "''2026-07-18T09:00:00.000Z''"] by simp
qed

text \<open>The same review on a tender whose id has 70 characters.\<close>

definition demo_long :: LifecycleRecord where
  "demo_long = demo_under_review\<lparr> lr_tenderId := replicate 70 (CHR ''T'') \<rparr>"

lemma demo_long_eval:
  "is_ok (check_review demo_sha_f yes_ecdsa demo_review_input demo_long :: store_error pod_error + _)"
  "prior_action demo_long ''a15'' = None"
  "(case apply_event demo_sha_f yes_ecdsa None id one_get one_cas ''T1''
      (review_event demo_review_input (the (lr_reviewDeadlineAt demo_long))) demo_long of
      (Inr (q, oc), s) \<Rightarrow> oc = APPLIED \<and> lr_state s = POD_ACCEPTED \<and> length (lr_tenderId s) = 70 | _ \<Rightarrow> False)"
  by code_simp+

theorem long_id_fails_after_commit_witness:
  "\<exists>x ps' s. demo_review yes_ecdsa demo_review_input demo_long = ((Inl x, ps'), s) \<and> lr_state s = POD_ACCEPTED"
proof -
  obtain e where c: "check_review demo_sha_f yes_ecdsa demo_review_input demo_long = (Inr e :: store_error pod_error + _)"
    using demo_long_eval(1) by (auto simp: is_ok_iff)
  obtain q s where a: "apply_event demo_sha_f yes_ecdsa None id one_get one_cas ''T1'' e demo_long = (Inr (q, APPLIED), s)"
    "lr_state s = POD_ACCEPTED" "length (lr_tenderId s) = 70"
    using demo_long_eval(3) check_review_Inr(1) [OF c] by (auto split: prod.splits sum.splits)
  have "lr_tenderVersion demo_long = 1" by code_simp
  then show ?thesis
    using long_id_fails_after_commit [of one_get demo_review_input demo_long demo_long demo_sha_f yes_ecdsa e None id one_cas q
        APPLIED s s demo_keccak demo_keccak_abi "\<lambda>_. []" demo_pod_deps no_plans] c a demo_long_eval(2)
    by (auto simp: one_get_def demo_review_input_def)
qed

end
